(* ===== verification/Prelude.thy ===== *)
theory Prelude
  imports Main "HOL-Library.State_Monad" "HOL-Library.AList"
begin

text \<open>
  What every other theory of the development shares:
  \<^item> Go values of type \<^verbatim>\<open>interface{}\<close> (\<open>gval\<close>), Go maps as association lists with
    distinct keys (\<open>gomap\<close>), and the map operations of \<^verbatim>\<open>src/pkg/utils\<close>;
  \<^item> a small program logic over \<^verbatim>\<open>HOL-Library.State_Monad\<close>: \<open>wp\<close> computes what has to hold
    before a computation for a postcondition to hold after it, and \<open>state_io_rel\<close> relates the
    state before and after; the rules of the two are in the collections \<open>wp\<close> and \<open>io_rel\<close>.
\<close>

named_theorems wp \<open>equations that push a postcondition through a computation\<close>
named_theorems io_rel \<open>introduction rules for relations between the state before and after\<close>
named_theorems go_map \<open>facts on Go maps\<close>

section \<open>Go values\<close>

text \<open>
  A value of type \<^verbatim>\<open>interface{}\<close> carries its dynamic type: a type assertion \<^verbatim>\<open>v.(T)\<close> succeeds
  only on the constructor of \<^verbatim>\<open>T\<close>. Times and durations are nanoseconds (times are counted from
  Go's zero time, the value of \<^verbatim>\<open>time.Time{}\<close>); a float is kept as its 64 bits, read as an integer.
\<close>

datatype gval =
    VNil
  | VBool bool
  | VInt int
  | VInt64 int
  | VUint nat
  | VUint64 nat
  | VFloat64 nat
  | VStr string
  | VTime int
  | VDuration int
  | VStrs "string list"
  | VList "gval list"
  | VMap "(string \<times> gval) list"
  | VStrMap "(string \<times> string) list"
  | VStrsMap "(string \<times> string list) list"

type_synonym fields = "(string \<times> gval) list"

section \<open>Go maps\<close>

text \<open>
  A Go map is an association list; a map value the program builds has distinct keys. Reading a
  missing key of a Go map gives the zero value together with \<^verbatim>\<open>false\<close>, here \<open>None\<close>.
\<close>

definition wf_map :: "('k \<times> 'v) list \<Rightarrow> bool" where
  "wf_map m \<longleftrightarrow> distinct (map fst m)"

definition map_get :: "('k \<times> 'v) list \<Rightarrow> 'k \<Rightarrow> 'v option" where
  "map_get m k = map_of m k"

definition map_set :: "('k \<times> 'v) list \<Rightarrow> 'k \<Rightarrow> 'v \<Rightarrow> ('k \<times> 'v) list" where
  "map_set m k v = AList.update k v m"

lemma map_get_empty [simp, go_map]: "map_get [] k = None"
  by (simp add: map_get_def)

lemma map_get_Cons [simp]: "map_get ((a, v) # m) k = (if k = a then Some v else map_get m k)"
  by (simp add: map_get_def)

lemma map_get_set [simp, go_map]:
  "map_get (map_set m k v) k' = (if k' = k then Some v else map_get m k')"
  by (simp add: map_get_def map_set_def update_conv)

lemma wf_map_set [intro, go_map]: "wf_map m \<Longrightarrow> wf_map (map_set m k v)"
  by (simp add: wf_map_def map_set_def distinct_update)

lemma wf_map_Nil [simp]: "wf_map []"
  by (simp add: wf_map_def)

lemma keys_map_set: "set (map fst (map_set m k v)) = insert k (set (map fst m))"
  by (simp add: map_set_def dom_update)

lemma map_get_eq_None: "map_get m k = None \<longleftrightarrow> k \<notin> set (map fst m)"
  by (simp add: map_get_def map_of_eq_None_iff)

section \<open>Weakest preconditions\<close>

type_synonym ('s, 'a) comp = "('s, 'a) state"

abbreviation ret :: "'a \<Rightarrow> ('s, 'a) comp" where
  "ret \<equiv> State_Monad.return"

definition gets :: "('s \<Rightarrow> 'a) \<Rightarrow> ('s, 'a) comp" where
  "gets f = State (\<lambda>s. (f s, s))"

definition modifys :: "('s \<Rightarrow> 's) \<Rightarrow> ('s, unit) comp" where
  "modifys f = State (\<lambda>s. ((), f s))"

definition wp :: "('s, 'a) comp \<Rightarrow> ('a \<Rightarrow> 's \<Rightarrow> bool) \<Rightarrow> 's \<Rightarrow> bool" where
  "wp m Q s \<longleftrightarrow> (case run_state m s of (r, s') \<Rightarrow> Q r s')"

lemma run_gets [simp]: "run_state (gets f) s = (f s, s)"
  by (simp add: gets_def)

lemma run_modifys [simp]: "run_state (modifys f) s = ((), f s)"
  by (simp add: modifys_def)

lemma wp_ret [wp]: "wp (ret x) Q = Q x"
  by (rule ext) (simp add: wp_def)

lemma wp_gets [wp]: "wp (gets f) Q s = Q (f s) s"
  by (simp add: wp_def)

lemma wp_modifys [wp]: "wp (modifys f) Q s = Q () (f s)"
  by (simp add: wp_def)

lemma wp_bind [wp]: "wp (State_Monad.bind m f) Q s = wp m (\<lambda>x. wp (f x) Q) s"
  by (simp add: wp_def split: prod.splits)

lemma wp_if [wp]: "wp (if b then m else n) Q s = (if b then wp m Q s else wp n Q s)"
  by simp

lemma wp_option [wp]:
  "wp (case x of None \<Rightarrow> m | Some y \<Rightarrow> n y) Q s
     = (case x of None \<Rightarrow> wp m Q s | Some y \<Rightarrow> wp (n y) Q s)"
  by (simp split: option.splits)

lemma wp_prod [wp]:
  "wp (case p of (a, b) \<Rightarrow> m a b) Q s = (case p of (a, b) \<Rightarrow> wp (m a b) Q s)"
  by (simp split: prod.splits)

lemma wp_prod_app [wp]:
  "wp ((case p of (a, b) \<Rightarrow> m a b) y) Q s = (case p of (a, b) \<Rightarrow> wp (m a b y) Q s)"
  by (simp split: prod.splits)

lemma wp_let [wp]: "wp (Let v m) Q s = wp (m v) Q s"
  by simp

lemma wp_fst: "wp m (\<lambda>r s'. P r) s = P (fst (run_state m s))"
  by (simp add: wp_def split: prod.splits)

lemma wp_mono:
  assumes "wp m P s" "\<And>r s'. P r s' \<Longrightarrow> Q r s'"
  shows "wp m Q s"
  using assms by (auto simp: wp_def)

lemma wp_conj: "wp m (\<lambda>r s'. P r s' \<and> Q r s') s \<longleftrightarrow> wp m P s \<and> wp m Q s"
  by (auto simp: wp_def split: prod.splits)

lemma wp_run: "run_state m s = (r, s') \<Longrightarrow> wp m Q s = Q r s'"
  by (simp add: wp_def)

section \<open>Relations between the state before and after\<close>

text \<open>
  \<open>state_io_rel R m\<close> of the library says that every run of \<open>m\<close> relates its initial and final
  state by \<open>R\<close>. For a preorder it goes through sequencing, branching and traversal.
\<close>

definition preorder :: "('s \<Rightarrow> 's \<Rightarrow> bool) \<Rightarrow> bool" where
  "preorder R \<longleftrightarrow> reflp R \<and> transp R"

lemma preorderI: "(\<And>s. R s s) \<Longrightarrow> (\<And>s t u. R s t \<Longrightarrow> R t u \<Longrightarrow> R s u) \<Longrightarrow> preorder R"
  unfolding preorder_def reflp_def transp_def by blast

lemma io_rel_ret [io_rel]: "preorder R \<Longrightarrow> state_io_rel R (ret x)"
  by (auto simp: state_io_rel_def preorder_def reflp_def)

lemma io_rel_gets [io_rel]: "preorder R \<Longrightarrow> state_io_rel R (gets f)"
  by (auto simp: state_io_rel_def preorder_def reflp_def)

lemma io_rel_modifys: "(\<And>s. R s (f s)) \<Longrightarrow> state_io_rel R (modifys f)"
  by (auto simp: state_io_rel_def)

lemma io_rel_bind [io_rel]:
  assumes "preorder R" "state_io_rel R m" "\<And>x. state_io_rel R (f x)"
  shows "state_io_rel R (State_Monad.bind m f)"
  using assms unfolding state_io_rel_def preorder_def transp_def
  by (auto split: prod.splits) (metis snd_conv)

lemma io_rel_if [io_rel]:
  "(b \<Longrightarrow> state_io_rel R m) \<Longrightarrow> (\<not> b \<Longrightarrow> state_io_rel R n) \<Longrightarrow> state_io_rel R (if b then m else n)"
  by simp

lemma io_rel_option [io_rel]:
  "state_io_rel R m \<Longrightarrow> (\<And>y. state_io_rel R (n y)) \<Longrightarrow>
   state_io_rel R (case x of None \<Rightarrow> m | Some y \<Rightarrow> n y)"
  by (cases x) auto

lemma io_rel_prod [io_rel]:
  "(\<And>a b. state_io_rel R (m a b)) \<Longrightarrow> state_io_rel R (case p of (a, b) \<Rightarrow> m a b)"
  by (cases p) auto

lemma io_rel_prod_app [io_rel]:
  "(\<And>a b. state_io_rel R (m a b y)) \<Longrightarrow> state_io_rel R ((case p of (a, b) \<Rightarrow> m a b) y)"
  by (cases p) auto

lemma io_rel_let [io_rel]: "(\<And>v. state_io_rel R (m v)) \<Longrightarrow> state_io_rel R (Let v m)"
  by simp

lemma io_rel_wp: "state_io_rel R m \<Longrightarrow> wp m (\<lambda>_ s'. R s s') s"
  by (auto simp: wp_def split: prod.splits)

lemma io_rel_run: "state_io_rel R m \<Longrightarrow> run_state m s = (r, s') \<Longrightarrow> R s s'"
  by (rule state_io_relD)

text \<open>The most common relation: a part of the state is what it was.\<close>

definition keeps :: "('s \<Rightarrow> 'v) \<Rightarrow> 's \<Rightarrow> 's \<Rightarrow> bool" where
  "keeps f s s' \<longleftrightarrow> f s' = f s"

lemma preorder_keeps [simp, io_rel]: "preorder (keeps f)"
  by (rule preorderI) (auto simp: keeps_def)

lemma keepsD: "state_io_rel (keeps f) m \<Longrightarrow> f (snd (run_state m s)) = f s"
  by (auto simp: state_io_rel_def keeps_def)

lemma keeps_run: "state_io_rel (keeps f) m \<Longrightarrow> run_state m s = (r, s') \<Longrightarrow> f s' = f s"
  by (metis keepsD snd_conv)

lemma wp_keeps: "state_io_rel (keeps f) m \<Longrightarrow> wp m (\<lambda>_ s'. f s' = f s) s"
  using keepsD [of f m s] by (simp add: wp_def case_prod_unfold)

text \<open>Going through a list, with the possibility of stopping early.\<close>

fun each :: "('a \<Rightarrow> ('s, unit) comp) \<Rightarrow> 'a list \<Rightarrow> ('s, unit) comp" where
  "each f [] = ret ()"
| "each f (x # xs) = do { f x; each f xs }"

lemma io_rel_each [io_rel]:
  assumes "preorder R" "\<And>x. x \<in> set xs \<Longrightarrow> state_io_rel R (f x)"
  shows "state_io_rel R (each f xs)"
  using assms by (induction xs) (auto intro!: io_rel)

section \<open>Optional arguments\<close>

text \<open>
  \<^verbatim>\<open>src/pkg/utils/optional_arg.go\<close>: the variadic tail of a Go function is a list, of which only
  the first element is read.
\<close>

definition OptionalArg :: "'a \<Rightarrow> 'a list \<Rightarrow> 'a" where
  "OptionalArg defaultArg optional =
     (let arg = defaultArg in if length optional > 0 then optional ! 0 else arg)"

definition OptionalString :: "string \<Rightarrow> string \<Rightarrow> string" where
  "OptionalString defaultVal optional = (if optional = [] then defaultVal else optional)"

lemma OptionalArg_simps [simp]:
  "OptionalArg d [] = d" "OptionalArg d (x # xs) = x"
  by (simp_all add: OptionalArg_def)

end
