(* ===== verification/Map_Utils.thy ===== *)
theory Map_Utils
  imports Prelude
begin

text \<open>
  The map helpers of \<^verbatim>\<open>src/pkg/utils/map_utils.go\<close> and the string helpers of
  \<^verbatim>\<open>src/pkg/utils/concatenate.go\<close>. A \<^verbatim>\<open>for k, v := range m\<close> loop visits the entries in an order
  Go leaves open; the model goes through the association list, and the lemmas speak of what a
  later lookup returns, which does not depend on that order when the keys are distinct.
\<close>

section \<open>Copying and merging maps\<close>

fun CopyMap :: "(string \<times> gval) list \<Rightarrow> (string \<times> gval) list" and
    copy_entry :: "gval \<Rightarrow> gval" where
  "CopyMap [] = []"
| "CopyMap ((k, v) # m) = map_set (CopyMap m) k (copy_entry v)"
| "copy_entry (VMap vm) = VMap (CopyMap vm)"
| "copy_entry v = v"

definition CopyMapOneLevel :: "('k \<times> 'v) list \<Rightarrow> ('k \<times> 'v) list" where
  "CopyMapOneLevel m = foldl (\<lambda>cp (k, v). map_set cp k v) [] m"

definition AppendMap :: "('k \<times> 'v) list \<Rightarrow> ('k \<times> 'v) list \<Rightarrow> ('k \<times> 'v) list" where
  "AppendMap m1 m2 = foldl (\<lambda>m (k, v). map_set m k v) m1 m2"

definition AppendMapNew :: "fields \<Rightarrow> fields \<Rightarrow> fields" where
  "AppendMapNew m1 m2 = foldl (\<lambda>m (k, v). map_set m k v) (CopyMap m1) m2"

definition AllMapKeys :: "('k \<times> 'v) list \<Rightarrow> 'k list" where
  "AllMapKeys m = foldl (\<lambda>keys (k, v). keys @ [k]) [] m"

definition AllMapValues :: "('k \<times> 'v) list \<Rightarrow> 'v list" where
  "AllMapValues m = foldl (\<lambda>vals (k, v). vals @ [v]) [] m"

text \<open>
  Writing through a nil map panics in Go, reading or ranging over it does not: appending to a nil
  map (\<open>None\<close>) succeeds only when there is nothing to write. The outer \<open>None\<close> is the panic.
\<close>

definition AppendMap_nil ::
    "('k \<times> 'v) list option \<Rightarrow> ('k \<times> 'v) list \<Rightarrow> ('k \<times> 'v) list option option" where
  "AppendMap_nil m1 m2 =
     (case m1 of
        Some m \<Rightarrow> Some (Some (AppendMap m m2))
      | None \<Rightarrow> if m2 = [] then Some None else None)"

section \<open>Joining strings\<close>

definition ConcatStrings :: "string list \<Rightarrow> string" where
  "ConcatStrings parts = foldl (\<lambda>sb part. sb @ part) [] parts"

definition ConcatSlices :: "'a list \<Rightarrow> 'a list list \<Rightarrow> 'a list" where
  "ConcatSlices start slices = foldl (\<lambda>r slice. r @ slice) start slices"

definition BuildString :: "string \<Rightarrow> string list \<Rightarrow> string" where
  "BuildString sb parts = foldl (\<lambda>b part. b @ part) sb parts"

text \<open>\<^verbatim>\<open>strings.Split\<close> with a separator of one character.\<close>

fun Split :: "char \<Rightarrow> string \<Rightarrow> string list" where
  "Split sep [] = [[]]"
| "Split sep (x # xs) = (if x = sep then [] # Split sep xs
     else case Split sep xs of [] \<Rightarrow> [[x]] | part # parts \<Rightarrow> (x # part) # parts)"

section \<open>Lemmas\<close>

lemma foldl_append_concat: "foldl (\<lambda>b part. b @ part) a ps = a @ concat ps"
  by (induction ps arbitrary: a) auto

lemma ConcatStrings_concat [simp]: "ConcatStrings parts = concat parts"
  by (simp add: ConcatStrings_def foldl_append_concat)

lemma ConcatSlices_concat [simp]: "ConcatSlices start slices = start @ concat slices"
  by (simp add: ConcatSlices_def foldl_append_concat)

lemma BuildString_concat [simp]: "BuildString sb parts = sb @ ConcatStrings parts"
  by (simp add: BuildString_def foldl_append_concat)

lemma map_get_foldl_set:
  "wf_map m2 \<Longrightarrow>
   map_get (foldl (\<lambda>m (k, v). map_set m k v) m1 m2) k
     = (case map_get m2 k of Some v \<Rightarrow> Some v | None \<Rightarrow> map_get m1 k)"
proof (induction m2 arbitrary: m1)
  case Nil
  then show ?case by simp
next
  case (Cons p m2)
  obtain a v where p: "p = (a, v)" by (cases p)
  from Cons.prems have w: "wf_map m2" and a: "a \<notin> set (map fst m2)"
    by (auto simp: wf_map_def p)
  from a have "map_get m2 a = None" by (simp add: map_get_eq_None)
  then show ?case by (simp add: p Cons.IH [OF w] split: option.splits)
qed

lemma map_get_AppendMap [simp, go_map]:
  "wf_map m2 \<Longrightarrow>
   map_get (AppendMap m1 m2) k = (case map_get m2 k of Some v \<Rightarrow> Some v | None \<Rightarrow> map_get m1 k)"
  by (simp add: AppendMap_def map_get_foldl_set)

lemma wf_foldl_set: "wf_map m1 \<Longrightarrow> wf_map (foldl (\<lambda>m (k, v). map_set m k v) m1 m2)"
  by (induction m2 arbitrary: m1) (auto intro: wf_map_set)

lemma wf_AppendMap [intro, go_map]: "wf_map m1 \<Longrightarrow> wf_map (AppendMap m1 m2)"
  by (simp add: AppendMap_def wf_foldl_set)

lemma map_get_CopyMapOneLevel [simp, go_map]:
  "wf_map m \<Longrightarrow> map_get (CopyMapOneLevel m) k = map_get m k"
  by (simp add: CopyMapOneLevel_def map_get_foldl_set split: option.splits)

lemma wf_CopyMapOneLevel [intro, simp]: "wf_map (CopyMapOneLevel m)"
  by (simp add: CopyMapOneLevel_def wf_foldl_set)

text \<open>A deep copy has the entries of the original, with every nested map copied in turn.\<close>

lemma map_get_CopyMap [go_map]: "map_get (CopyMap m) k = map_option copy_entry (map_get m k)"
  by (induction m) auto

lemma wf_CopyMap [intro, simp]: "wf_map (CopyMap m)"
  by (induction m) (auto intro: wf_map_set)

lemma AllMapKeys_conv: "AllMapKeys m = map fst m"
proof -
  have "foldl (\<lambda>keys (k, v). keys @ [k]) a m = a @ map fst m" for a
    by (induction m arbitrary: a) auto
  then show ?thesis by (simp add: AllMapKeys_def)
qed

lemma AllMapValues_conv: "AllMapValues m = map snd m"
proof -
  have "foldl (\<lambda>vals (k, v). vals @ [v]) a m = a @ map snd m" for a
    by (induction m arbitrary: a) auto
  then show ?thesis by (simp add: AllMapValues_def)
qed

lemma set_AllMapKeys: "k \<in> set (AllMapKeys m) \<longleftrightarrow> map_get m k \<noteq> None"
  by (simp add: AllMapKeys_conv map_get_eq_None)

end
