(* ===== verification/Generic_Error.thy ===== *)
theory Generic_Error
  imports Map_Utils
begin

text \<open>
  \<^verbatim>\<open>src/pkg/generic_error\<close>: the error values that travel from where a failure arises to the
  response, the manager that turns an error code into a description and a protocol (HTTP) code,
  and the extenders that add further codes to it.

  A Go \<^verbatim>\<open>error\<close> is either a plain one (\<^verbatim>\<open>errors.New\<close>) or one that implements the interface
  \<^verbatim>\<open>generic_error.Error\<close>, whose only implementation is \<^verbatim>\<open>ErrorBase\<close>; nil is \<open>None\<close>.
\<close>

section \<open>Errors\<close>

datatype goerror =
    NativeError string
  | ErrorBase (err_code: string) (err_message: string) (err_details: string)
      (err_original: "goerror option")

type_synonym err = "goerror option"

abbreviation errors_New :: "string \<Rightarrow> err" where
  "errors_New s \<equiv> Some (NativeError s)"

definition ErrorCodeUnknown :: string where "ErrorCodeUnknown = ''unknown_error''"
definition ErrorCodeInternalServerError :: string where
  "ErrorCodeInternalServerError = ''internal_server_error''"
definition ErrorCodeFormat :: string where "ErrorCodeFormat = ''invalid_format''"
definition ErrorCodeFieldValue :: string where "ErrorCodeFieldValue = ''invalid_field_value''"
definition ErrorCodeValidation :: string where "ErrorCodeValidation = ''validation_failed''"
definition ErrorCodeForbidden :: string where "ErrorCodeForbidden = ''forbidden''"
definition ErrorCodeNotFound :: string where "ErrorCodeNotFound = ''resource_not_found''"
definition ErrorCodeExternalServiceUnavailable :: string where
  "ErrorCodeExternalServiceUnavailable = ''external_service_unavailable''"
definition ErrorCodeExternalServiceError :: string where
  "ErrorCodeExternalServiceError = ''external_service_error''"
definition ErrorCodeUnsupported :: string where "ErrorCodeUnsupported = ''operation_unsupported''"

lemmas common_codes = ErrorCodeUnknown_def ErrorCodeInternalServerError_def ErrorCodeFormat_def
  ErrorCodeFieldValue_def ErrorCodeValidation_def ErrorCodeForbidden_def ErrorCodeNotFound_def
  ErrorCodeExternalServiceUnavailable_def ErrorCodeExternalServiceError_def
  ErrorCodeUnsupported_def

definition New :: "string \<Rightarrow> string list \<Rightarrow> goerror" where
  "New code message =
     (let e = ErrorBase code [] [] None in
      if length message > 0 then ErrorBase code (message ! 0) [] None else e)"

text \<open>The text of an error: \<^verbatim>\<open>Error()\<close> puts the text of the original error behind the message.\<close>

fun error_text :: "goerror \<Rightarrow> string" where
  "error_text (NativeError s) = s"
| "error_text (ErrorBase c m d (Some orig)) = m @ '': '' @ error_text orig"
| "error_text (ErrorBase c m d None) = m"

definition NewFromErr :: "goerror \<Rightarrow> string list \<Rightarrow> goerror" where
  "NewFromErr e code = New (OptionalArg ErrorCodeUnknown code) [error_text e]"

definition NewFromOriginal :: "string \<Rightarrow> string \<Rightarrow> err \<Rightarrow> goerror" where
  "NewFromOriginal code message original = ErrorBase code message [] original"

definition NewFromMessage :: "string \<Rightarrow> goerror" where
  "NewFromMessage message = ErrorBase ErrorCodeUnknown message [] None"

fun SetMessage_err :: "goerror \<Rightarrow> string \<Rightarrow> goerror" where
  "SetMessage_err (ErrorBase c m d orig) message = ErrorBase c message d orig"
| "SetMessage_err e message = e"

fun SetDetails_err :: "goerror \<Rightarrow> string \<Rightarrow> goerror" where
  "SetDetails_err (ErrorBase c m d orig) details = ErrorBase c m details orig"
| "SetDetails_err e details = e"

fun SetOriginal_err :: "goerror \<Rightarrow> err \<Rightarrow> goerror" where
  "SetOriginal_err (ErrorBase c m d orig) original = ErrorBase c m d original"
| "SetOriginal_err e original = e"

text \<open>The package functions that look into any error, nil included.\<close>

fun Code :: "err \<Rightarrow> string" where
  "Code None = []"
| "Code (Some (NativeError s)) = ErrorCodeUnknown"
| "Code (Some (ErrorBase c m d orig)) = c"

fun Message_of :: "err \<Rightarrow> string" where
  "Message_of None = []"
| "Message_of (Some (NativeError s)) = s"
| "Message_of (Some (ErrorBase c m d orig)) = error_text (ErrorBase c m d orig)"

fun Details_of :: "err \<Rightarrow> string" where
  "Details_of None = []"
| "Details_of (Some (NativeError s)) = []"
| "Details_of (Some (ErrorBase c m d orig)) = d"

text \<open>
  In \<^verbatim>\<open>Original\<close> the failed type assertion leaves \<^verbatim>\<open>err\<close> nil, and it is \<^verbatim>\<open>err\<close>, not the argument,
  that the branch returns.
\<close>

fun Original_of :: "err \<Rightarrow> err" where
  "Original_of None = None"
| "Original_of (Some (NativeError s)) = None"
| "Original_of (Some (ErrorBase c m d orig)) = orig"

section \<open>The error manager\<close>

definition CommonErrorDescriptions :: "(string \<times> string) list" where
  "CommonErrorDescriptions =
    [(ErrorCodeUnknown, ''Unknown error.''),
     (ErrorCodeInternalServerError, ''Internal server error.''),
     (ErrorCodeFormat, ''Invalid format of request.''),
     (ErrorCodeFieldValue, ''Invalid value of request field.''),
     (ErrorCodeValidation, ''Validation failed.''),
     (ErrorCodeForbidden, ''Access denied.''),
     (ErrorCodeNotFound, ''Resource not found.''),
     (ErrorCodeExternalServiceUnavailable, ''External service is temporarily unavailable.''),
     (ErrorCodeExternalServiceError, ''External service reported error.''),
     (ErrorCodeUnsupported, ''Operation unsupported.'')]"

definition StatusOK :: int where "StatusOK = 200"
definition StatusBadRequest :: int where "StatusBadRequest = 400"
definition StatusUnauthorized :: int where "StatusUnauthorized = 401"
definition StatusForbidden :: int where "StatusForbidden = 403"
definition StatusNotFound :: int where "StatusNotFound = 404"
definition StatusInternalServerError :: int where "StatusInternalServerError = 500"

lemmas http_status = StatusOK_def StatusBadRequest_def StatusUnauthorized_def StatusForbidden_def
  StatusNotFound_def StatusInternalServerError_def

definition CommonErrorHttpCodes :: "(string \<times> int) list" where
  "CommonErrorHttpCodes =
    [(ErrorCodeUnknown, StatusInternalServerError),
     (ErrorCodeInternalServerError, StatusInternalServerError),
     (ErrorCodeForbidden, StatusForbidden),
     (ErrorCodeNotFound, StatusNotFound),
     (ErrorCodeExternalServiceUnavailable, StatusInternalServerError),
     (ErrorCodeExternalServiceError, StatusInternalServerError)]"

record error_manager =
  descriptions :: "(string \<times> string) list"
  protocolCodes :: "(string \<times> int) list"
  defaultProtocolCode :: int

definition AddErrorDescriptions :: "(string \<times> string) list \<Rightarrow> error_manager \<Rightarrow> error_manager" where
  "AddErrorDescriptions m e = e\<lparr>descriptions := AppendMap (descriptions e) m\<rparr>"

definition AddErrorProtocolCodes :: "(string \<times> int) list \<Rightarrow> error_manager \<Rightarrow> error_manager" where
  "AddErrorProtocolCodes m e = e\<lparr>protocolCodes := AppendMap (protocolCodes e) m\<rparr>"

definition ErrorManagerBase_Init :: "int \<Rightarrow> error_manager" where
  "ErrorManagerBase_Init code =
     AddErrorDescriptions CommonErrorDescriptions
       \<lparr>descriptions = [], protocolCodes = [], defaultProtocolCode = code\<rparr>"

definition DefaultErrorProtocolCode :: "error_manager \<Rightarrow> int" where
  "DefaultErrorProtocolCode e = defaultProtocolCode e"

definition SetDefaultErrorProtocolCode :: "int \<Rightarrow> error_manager \<Rightarrow> error_manager" where
  "SetDefaultErrorProtocolCode code e = e\<lparr>defaultProtocolCode := code\<rparr>"

definition ErrorDescription :: "error_manager \<Rightarrow> string \<Rightarrow> (string \<Rightarrow> string) list \<Rightarrow> string" where
  "ErrorDescription e code tr =
     (let description = (case map_get (descriptions e) code of Some d \<Rightarrow> d | None \<Rightarrow> code) in
      if length tr > 0 then (tr ! 0) description else description)"

definition ErrorProtocolCode :: "error_manager \<Rightarrow> string \<Rightarrow> int" where
  "ErrorProtocolCode e code =
     (case map_get (protocolCodes e) code of
        None \<Rightarrow> defaultProtocolCode e
      | Some protocolCode \<Rightarrow> protocolCode)"

definition MakeGenericError_mgr :: "error_manager \<Rightarrow> string \<Rightarrow> (string \<Rightarrow> string) list \<Rightarrow> goerror" where
  "MakeGenericError_mgr e code tr = New code [ErrorDescription e code tr]"

definition ErrorManagerBaseHttp_Init :: error_manager where
  "ErrorManagerBaseHttp_Init =
     AddErrorProtocolCodes CommonErrorHttpCodes
       (AddErrorDescriptions CommonErrorDescriptions
         (ErrorManagerBase_Init StatusBadRequest))"

section \<open>Extenders\<close>

text \<open>The two maps of an extender are nil (\<open>None\<close>) until \<^verbatim>\<open>Init\<close> sets them.\<close>

record errors_extender =
  errorDescriptions :: "(string \<times> string) list option"
  errorProtocolCodes :: "(string \<times> int) list option"

definition Extender_Init ::
    "(string \<times> string) list \<Rightarrow> (string \<times> int) list list \<Rightarrow> errors_extender \<Rightarrow> errors_extender" where
  "Extender_Init ds codes e =
     (let e1 = e\<lparr>errorDescriptions := Some ds\<rparr> in
      if length codes > 0 then e1\<lparr>errorProtocolCodes := Some (codes ! 0)\<rparr> else e1)"

text \<open>\<open>None\<close> is the panic of writing to a nil map.\<close>

definition AddErrors ::
    "(string \<times> string) list \<Rightarrow> (string \<times> int) list list \<Rightarrow> errors_extender
      \<Rightarrow> errors_extender option" where
  "AddErrors ds codes e =
     (case errorDescriptions e of
        None \<Rightarrow> Some (Extender_Init ds codes e)
      | Some old \<Rightarrow>
          (let e1 = e\<lparr>errorDescriptions := Some (AppendMap old ds)\<rparr> in
           if length codes > 0 then
             (case AppendMap_nil (errorProtocolCodes e1) (codes ! 0) of
                None \<Rightarrow> None
              | Some cs \<Rightarrow> Some (e1\<lparr>errorProtocolCodes := cs\<rparr>))
           else Some e1))"

definition nil_map :: "('k \<times> 'v) list option \<Rightarrow> ('k \<times> 'v) list" where
  "nil_map m = (case m of None \<Rightarrow> [] | Some x \<Rightarrow> x)"

definition AttachToErrorManager :: "errors_extender \<Rightarrow> error_manager \<Rightarrow> error_manager" where
  "AttachToErrorManager e manager =
     AddErrorProtocolCodes (nil_map (errorProtocolCodes e))
       (AddErrorDescriptions (nil_map (errorDescriptions e)) manager)"

definition AppendErrorExtender :: "errors_extender \<Rightarrow> errors_extender \<Rightarrow> errors_extender option" where
  "AppendErrorExtender extender e =
     AddErrors (nil_map (errorDescriptions extender)) [nil_map (errorProtocolCodes extender)] e"

section \<open>Lemmas\<close>

lemma Code_MakeGenericError [simp]: "Code (Some (MakeGenericError_mgr e code tr)) = code"
  by (simp add: MakeGenericError_mgr_def New_def)

lemma ErrorBase_MakeGenericError: "\<exists>m. MakeGenericError_mgr e code tr = ErrorBase code m [] None"
  by (simp add: MakeGenericError_mgr_def New_def)

lemma wf_CommonErrorDescriptions [simp]: "wf_map CommonErrorDescriptions"
  by (simp add: wf_map_def CommonErrorDescriptions_def common_codes)

lemma wf_CommonErrorHttpCodes [simp]: "wf_map CommonErrorHttpCodes"
  by (simp add: wf_map_def CommonErrorHttpCodes_def common_codes)

lemma ErrorProtocolCode_AddErrorProtocolCodes:
  "wf_map m \<Longrightarrow>
   ErrorProtocolCode (AddErrorProtocolCodes m e) code
     = (case map_get m code of Some c \<Rightarrow> c | None \<Rightarrow> ErrorProtocolCode e code)"
  by (simp add: ErrorProtocolCode_def AddErrorProtocolCodes_def split: option.splits)

lemma ErrorProtocolCode_AddErrorDescriptions [simp]:
  "ErrorProtocolCode (AddErrorDescriptions m e) code = ErrorProtocolCode e code"
  by (simp add: ErrorProtocolCode_def AddErrorDescriptions_def split: option.splits)

lemma ErrorDescription_AddErrorDescriptions:
  "wf_map m \<Longrightarrow>
   ErrorDescription (AddErrorDescriptions m e) code []
     = (case map_get m code of Some d \<Rightarrow> d | None \<Rightarrow> ErrorDescription e code [])"
  by (simp add: ErrorDescription_def AddErrorDescriptions_def split: option.splits)

lemma ErrorDescription_AddErrorProtocolCodes [simp]:
  "ErrorDescription (AddErrorProtocolCodes m e) code tr = ErrorDescription e code tr"
  by (simp add: ErrorDescription_def AddErrorProtocolCodes_def)

lemma ErrorProtocolCode_Init:
  "ErrorProtocolCode (ErrorManagerBase_Init c) code = c"
  by (simp add: ErrorManagerBase_Init_def ErrorProtocolCode_def AddErrorDescriptions_def)

end
