(* ===== verification/Go_Format.thy ===== *)
theory Go_Format
  imports Generic_Error
begin

text \<open>
  Number formatting and parsing as the Go standard library does it (\<^verbatim>\<open>strconv.ParseUint\<close>,
  \<^verbatim>\<open>strconv.ParseInt\<close>, \<^verbatim>\<open>fmt.Sprintf\<close> with \<^verbatim>\<open>%d\<close>, \<^verbatim>\<open>%0nd\<close>, \<^verbatim>\<open>%0nx\<close>), and on top of it the conversions
  of \<^verbatim>\<open>src/pkg/utils/conversions.go\<close> and the masking functions of \<^verbatim>\<open>src/pkg/utils/phone.go\<close> and
  \<^verbatim>\<open>src/pkg/utils/card.go\<close>. The lemmas show that what is printed parses back, and that a result
  is within the width it was parsed for.
\<close>

section \<open>Digits\<close>

function digits :: "nat \<Rightarrow> nat \<Rightarrow> nat list" where
  "digits b n = (if b < 2 \<or> n < b then [n] else digits b (n div b) @ [n mod b])"
  by pat_completeness auto
termination
  by (relation "measure snd") (auto intro: div_less_dividend)

declare digits.simps [simp del]

definition undigits :: "nat \<Rightarrow> nat list \<Rightarrow> nat" where
  "undigits b ds = foldl (\<lambda>n d. n * b + d) 0 ds"

definition digit_char :: "nat \<Rightarrow> char" where
  "digit_char d = (if d < 10 then char_of (48 + d) else char_of (87 + d))"

definition char_digit :: "char \<Rightarrow> nat option" where
  "char_digit c =
     (let n = of_char c :: nat in
      if 48 \<le> n \<and> n \<le> 57 then Some (n - 48)
      else if 97 \<le> n \<and> n \<le> 122 then Some (n - 87)
      else if 65 \<le> n \<and> n \<le> 90 then Some (n - 55)
      else None)"

fun read_digits :: "nat \<Rightarrow> string \<Rightarrow> nat list option" where
  "read_digits b [] = Some []"
| "read_digits b (c # s) =
     (case char_digit c of
        None \<Rightarrow> None
      | Some d \<Rightarrow> if d < b then map_option (\<lambda>ds. d # ds) (read_digits b s) else None)"

section \<open>Printing\<close>

definition fmt_nat :: "nat \<Rightarrow> nat \<Rightarrow> string" where
  "fmt_nat b n = map digit_char (digits b n)"

definition pad_zero :: "nat \<Rightarrow> string \<Rightarrow> string" where
  "pad_zero w s = replicate (w - length s) CHR ''0'' @ s"

text \<open>With the flag \<^verbatim>\<open>0\<close> the sign comes first and counts for the width.\<close>

definition fmt_int :: "nat \<Rightarrow> nat \<Rightarrow> int \<Rightarrow> string" where
  "fmt_int b w i =
     (if i < 0 then CHR ''-'' # pad_zero (w - 1) (fmt_nat b (nat (- i)))
      else pad_zero w (fmt_nat b (nat i)))"

section \<open>Parsing\<close>

definition ErrSyntax :: goerror where "ErrSyntax = NativeError ''invalid syntax''"
definition ErrRange :: goerror where "ErrRange = NativeError ''value out of range''"

definition ParseUint :: "string \<Rightarrow> nat \<Rightarrow> nat \<Rightarrow> goerror + nat" where
  "ParseUint s base bits =
     (if s = [] then Inl ErrSyntax else
      case read_digits base s of
        None \<Rightarrow> Inl ErrSyntax
      | Some ds \<Rightarrow>
          (let n = undigits base ds in if n < 2 ^ bits then Inr n else Inl ErrRange))"

definition ParseInt :: "string \<Rightarrow> nat \<Rightarrow> nat \<Rightarrow> goerror + int" where
  "ParseInt s base bits =
     (if s = [] then Inl ErrSyntax else
      let neg = (hd s = CHR ''-'');
          body = (if hd s = CHR ''-'' \<or> hd s = CHR ''+'' then tl s else s)
      in case ParseUint body base 64 of
           Inl e \<Rightarrow> Inl e
         | Inr un \<Rightarrow>
             (if \<not> neg \<and> 2 ^ (bits - 1) \<le> un then Inl ErrRange
              else if neg \<and> 2 ^ (bits - 1) < un then Inl ErrRange
              else Inr (if neg then - int un else int un)))"

section \<open>The conversions of the utils package\<close>

definition StrToUint32 :: "string \<Rightarrow> goerror + nat" where
  "StrToUint32 s =
     (if s = [] then Inr 0 else
      case ParseUint s 10 32 of Inl e \<Rightarrow> Inl e | Inr val \<Rightarrow> Inr (val mod 2 ^ 32))"

definition StrToUint64 :: "string \<Rightarrow> goerror + nat" where
  "StrToUint64 s =
     (if s = [] then Inr 0 else
      case ParseUint s 10 64 of Inl e \<Rightarrow> Inl e | Inr val \<Rightarrow> Inr val)"

definition StrToInt :: "string \<Rightarrow> goerror + int" where
  "StrToInt s =
     (if s = [] then Inr 0 else
      case ParseInt s 10 32 of Inl e \<Rightarrow> Inl e | Inr val \<Rightarrow> Inr val)"

definition StrToInt32 :: "string \<Rightarrow> goerror + int" where
  "StrToInt32 s =
     (if s = [] then Inr 0 else
      case ParseInt s 10 32 of Inl e \<Rightarrow> Inl e | Inr val \<Rightarrow> Inr val)"

definition StrToInt64 :: "string \<Rightarrow> goerror + int" where
  "StrToInt64 s =
     (if s = [] then Inr 0 else
      case ParseInt s 10 64 of Inl e \<Rightarrow> Inl e | Inr val \<Rightarrow> Inr val)"

definition BoolToStr :: "bool \<Rightarrow> string" where
  "BoolToStr val = (if val then ''true'' else ''false'')"

definition to_lower :: "char \<Rightarrow> char" where
  "to_lower c =
     (let n = of_char c :: nat in if 65 \<le> n \<and> n \<le> 90 then char_of (n + 32) else c)"

text \<open>Both branches of the source return \<^verbatim>\<open>true\<close>.\<close>

definition StrToBool :: "string \<Rightarrow> goerror + bool" where
  "StrToBool s =
     (let str = map to_lower s in
      if str = ''true'' then Inr True
      else if str = ''false'' then Inr True
      else Inl (NativeError ''invalid format''))"

definition NumToStr :: "int \<Rightarrow> string" where
  "NumToStr val = fmt_int 10 0 val"

section \<open>Masking\<close>

definition MaskPhone :: "string \<Rightarrow> string" where
  "MaskPhone phone =
     (if length phone \<le> 4 then ''****''
      else replicate (length phone - 4) CHR ''*'' @ drop (length phone - 4) phone)"

text \<open>The comparison \<^verbatim>\<open>i > size-5\<close> is on signed integers: for a short string the right side is negative.\<close>

fun mask_from :: "int \<Rightarrow> int \<Rightarrow> string \<Rightarrow> string" where
  "mask_from sz i [] = []"
| "mask_from sz i (c # s) =
     (if i < 6 \<or> i > sz - 5 then c else CHR ''*'') # mask_from sz (i + 1) s"

definition MaskCard :: "string \<Rightarrow> string" where
  "MaskCard pan = mask_from (int (length pan)) 0 pan"

section \<open>Lemmas\<close>

lemma undigits_snoc: "undigits b (ds @ [d]) = undigits b ds * b + d"
  by (simp add: undigits_def)

lemma undigits_digits [simp]: "undigits b (digits b n) = n"
proof (induction b n rule: digits.induct)
  case (1 b n)
  show ?case
  proof (cases "b < 2 \<or> n < b")
    case True
    then show ?thesis by (simp add: digits.simps [of b n] undigits_def)
  next
    case False
    with "1" have "undigits b (digits b (n div b)) = n div b" by simp
    with False show ?thesis by (simp add: digits.simps [of b n] undigits_snoc)
  qed
qed

lemma digits_less: "2 \<le> b \<Longrightarrow> d \<in> set (digits b n) \<Longrightarrow> d < b"
proof (induction b n rule: digits.induct)
  case (1 b n)
  then show ?case by (auto simp: digits.simps [of b n] split: if_splits)
qed

lemma digits_not_Nil [simp]: "digits b n \<noteq> []"
  by (subst digits.simps) simp

lemma digits_length_le: "2 \<le> b \<Longrightarrow> n < b ^ k \<Longrightarrow> 0 < k \<Longrightarrow> length (digits b n) \<le> k"
proof (induction b n arbitrary: k rule: digits.induct)
  case (1 b n)
  show ?case
  proof (cases "n < b")
    case True
    with "1.prems" show ?thesis by (simp add: digits.simps [of b n])
  next
    case False
    with "1.prems" obtain j where j: "k = Suc j" "0 < j" by (cases k) (auto, force)
    have "n div b < b ^ j" using "1.prems" j by (simp add: div_less_iff_less_mult mult.commute)
    with "1.IH" False "1.prems" j have "length (digits b (n div b)) \<le> j" by auto
    with False "1.prems" j show ?thesis by (simp add: digits.simps [of b n])
  qed
qed

lemma digits_length_ge: "2 \<le> b \<Longrightarrow> b ^ k \<le> n \<Longrightarrow> k < length (digits b n)"
proof (induction b n arbitrary: k rule: digits.induct)
  case (1 b n)
  show ?case
  proof (cases k)
    case 0
    then show ?thesis by (simp add: Suc_le_eq)
  next
    case (Suc j)
    have "b * 1 \<le> b * b ^ j" using "1.prems" by (intro mult_le_mono2) simp
    with "1.prems" Suc have nb: "b \<le> n" by (simp only: power_Suc)
    have "b ^ j \<le> n div b"
      using "1.prems" Suc by (simp add: less_eq_div_iff_mult_less_eq mult.commute)
    with "1.IH" "1.prems" nb have "j < length (digits b (n div b))" by auto
    with nb "1.prems" Suc show ?thesis by (simp add: digits.simps [of b n])
  qed
qed

lemma char_digit_digit_char: "d < 16 \<Longrightarrow> char_digit (digit_char d) = Some d"
proof -
  assume "d < 16"
  then have "d = 0 \<or> d = 1 \<or> d = 2 \<or> d = 3 \<or> d = 4 \<or> d = 5 \<or> d = 6 \<or> d = 7 \<or> d = 8 \<or> d = 9
      \<or> d = 10 \<or> d = 11 \<or> d = 12 \<or> d = 13 \<or> d = 14 \<or> d = 15" by arith
  then show ?thesis by (elim disjE) (simp_all add: digit_char_def char_digit_def Let_def)
qed

lemma read_digits_map:
  "b \<le> 16 \<Longrightarrow> \<forall>d \<in> set ds. d < b \<Longrightarrow> read_digits b (map digit_char ds) = Some ds"
  by (induction ds) (auto simp: char_digit_digit_char)

lemma read_digits_zeros:
  "0 < b \<Longrightarrow> read_digits b (replicate k CHR ''0'' @ s)
     = map_option (\<lambda>ds. replicate k 0 @ ds) (read_digits b s)"
  by (cases "read_digits b s"; induction k) (simp_all add: char_digit_def)

lemma undigits_zeros: "undigits b (replicate k 0 @ ds) = undigits b ds"
  by (induction k) (auto simp: undigits_def)

text \<open>What \<^verbatim>\<open>%0wd\<close> or \<^verbatim>\<open>%0wx\<close> prints is read back by \<^verbatim>\<open>ParseUint\<close>.\<close>

lemma ParseUint_pad:
  assumes "2 \<le> b" "b \<le> 16" "n < 2 ^ bits"
  shows "ParseUint (pad_zero w (fmt_nat b n)) b bits = Inr n"
proof -
  have "read_digits b (fmt_nat b n) = Some (digits b n)"
    unfolding fmt_nat_def using assms digits_less [of b] by (intro read_digits_map) auto
  then have "read_digits b (pad_zero w (fmt_nat b n))
      = Some (replicate (w - length (fmt_nat b n)) 0 @ digits b n)"
    using assms by (simp add: pad_zero_def read_digits_zeros)
  moreover have "pad_zero w (fmt_nat b n) \<noteq> []" by (simp add: pad_zero_def fmt_nat_def)
  ultimately show ?thesis using assms by (simp add: ParseUint_def undigits_zeros Let_def)
qed

lemma length_pad_zero: "length (pad_zero w s) = max w (length s)"
  by (simp add: pad_zero_def)

lemma ParseUint_bound: "ParseUint s b bits = Inr n \<Longrightarrow> n < 2 ^ bits"
  by (auto simp: ParseUint_def Let_def split: if_splits option.splits)

lemma ParseInt_bound:
  assumes "ParseInt s b bits = Inr i"
  shows "- (2 ^ (bits - 1)) \<le> i \<and> i < 2 ^ (bits - 1)"
proof -
  have pow: "int n < 2 ^ k \<longleftrightarrow> n < 2 ^ k" "int n \<le> 2 ^ k \<longleftrightarrow> n \<le> 2 ^ k" for n k
    by (metis of_nat_less_iff of_nat_numeral of_nat_power)
       (metis of_nat_le_iff of_nat_numeral of_nat_power)
  have neg: "- (int n) < 2 ^ k" "- (2 ^ k) \<le> int n" for n k
    by (smt (verit) of_nat_0_le_iff zero_less_power)+
  show ?thesis using assms neg
    by (auto simp: ParseInt_def Let_def pow split: if_splits sum.splits)
qed

end
