(* ===== verification/World.thy ===== *)
theory World
  imports Go_Format "HOL-Library.Word"
begin

text \<open>
  The state that operations run in. Go's struct embedding is modelled by record extension:
  \<open>sys\<close> is what lies outside a request (the clock, the random source, the process-wide ID
  counter, the databases, the cache and the log), and the operation context and the request are
  extensions of it in \<^verbatim>\<open>Op_Context\<close> and \<^verbatim>\<open>Auth_Core\<close>.

  Readings of the clock and random draws are streams: each call takes the next element, so two
  calls of \<^verbatim>\<open>time.Now()\<close> may return different times and nothing is assumed about them.
  \<open>lastSmsCode\<close> is the global variable in which the SMS handler leaves its code in testing mode.

  Here are also the generation of IDs (\<^verbatim>\<open>src/pkg/utils/generate_rand.go\<close>) and the base objects of
  \<^verbatim>\<open>src/pkg/common/base_object.go\<close>.
\<close>

section \<open>The system state\<close>

datatype log_level = LogTrace | LogDebug | LogInfo | LogWarn | LogError

datatype log_entry = LogEntry log_level string err fields

type_synonym databases = "string \<Rightarrow> string \<Rightarrow> fields list"

text \<open>
  An item of a cache: the value and the time it expires at, if it does. The tenancies may have
  caches of their own, so there is one for each name.
\<close>

type_synonym cache_item = "string \<times> int option"

record sys =
  times :: "nat \<Rightarrow> int"
  rands :: "nat \<Rightarrow> nat"
  idCount :: "32 word"
  dbs :: databases
  cached :: "string \<Rightarrow> string \<Rightarrow> cache_item option"
  logs :: "log_entry list"
  panicked :: bool
  lastSmsCode :: string

section \<open>Time and randomness\<close>

definition Nanosecond :: int where "Nanosecond = 1"
definition Microsecond :: int where "Microsecond = 1000"
definition Second :: int where "Second = 1000000000"

definition Now :: "('z sys_scheme, int) comp" where
  "Now = do {
     t \<leftarrow> gets (\<lambda>s. times s 0);
     modifys (\<lambda>s. s\<lparr>times := (\<lambda>i. times s (Suc i))\<rparr>);
     ret t }"

definition draw :: "('z sys_scheme, nat) comp" where
  "draw = do {
     r \<leftarrow> gets (\<lambda>s. rands s 0);
     modifys (\<lambda>s. s\<lparr>rands := (\<lambda>i. rands s (Suc i))\<rparr>);
     ret r }"

text \<open>Seconds since 1970 of a time that is counted from the first of January of year 1.\<close>

definition Unix :: "int \<Rightarrow> int" where
  "Unix t = t div Second - 62135596800"

definition Truncate :: "int \<Rightarrow> int \<Rightarrow> int" where
  "Truncate t d = t - t mod d"

text \<open>
  A duration is an \<^verbatim>\<open>int64\<close> number of nanoseconds: a product wraps around at 64 bits.
\<close>

definition to_int64 :: "int \<Rightarrow> int" where
  "to_int64 i = (i + 2 ^ 63) mod 2 ^ 64 - 2 ^ 63"

definition seconds_duration :: "int \<Rightarrow> int" where
  "seconds_duration n = to_int64 (Second * n)"

section \<open>Panics\<close>

text \<open>
  A Go panic unwinds the goroutine. The model only records that it has happened and goes on with a
  value that stands for nothing: what a computation returns or does to the state says something
  about the program only when \<open>panicked\<close> is still false, and the theorems say so.
\<close>

definition go_panic :: "'a \<Rightarrow> ('z sys_scheme, 'a) comp" where
  "go_panic x = do { modifys (\<lambda>s. s\<lparr>panicked := True\<rparr>); ret x }"

section \<open>Identifiers\<close>

text \<open>
  \<^verbatim>\<open>idCount.Add(1)\<close> wraps at 32 bits. \<^verbatim>\<open>rand.Int31n(n)\<close> is below \<^verbatim>\<open>n\<close>, and \<^verbatim>\<open>%04x\<close> pads to at least
  four digits without limiting their number.
\<close>

definition format_id :: "int \<Rightarrow> nat \<Rightarrow> nat \<Rightarrow> string" where
  "format_id t count r1 = fmt_int 16 8 t @ fmt_int 16 4 (int count) @ fmt_int 16 4 (int r1)"

definition GenerateID :: "('z sys_scheme, string) comp" where
  "GenerateID = do {
     t \<leftarrow> Now;
     r \<leftarrow> draw;
     modifys (\<lambda>s. s\<lparr>idCount := idCount s + 1\<rparr>);
     count \<leftarrow> gets (\<lambda>s. unat (idCount s) mod 0x10000);
     ret (format_id (Unix t) count (r mod 0x7fffffff)) }"

definition GenerateRand64 :: "('z sys_scheme, string) comp" where
  "GenerateRand64 = do {
     r \<leftarrow> draw;
     ret (fmt_int 16 16 (int (r mod 2 ^ 63))) }"

section \<open>Base objects\<close>

record object_base =
  obj_id :: string
  created_at :: int
  updated_at :: int

definition new_object :: object_base where
  "new_object = \<lparr>obj_id = [], created_at = 0, updated_at = 0\<rparr>"

definition GetID :: "'o object_base_scheme \<Rightarrow> string" where
  "GetID ob = obj_id ob"

definition SetID :: "string \<Rightarrow> 'o object_base_scheme \<Rightarrow> 'o object_base_scheme" where
  "SetID i ob = ob\<lparr>obj_id := i\<rparr>"

definition InitCreatedAt :: "'o object_base_scheme \<Rightarrow> ('z sys_scheme, 'o object_base_scheme) comp" where
  "InitCreatedAt ob = do { t \<leftarrow> Now; ret (ob\<lparr>created_at := Truncate t Microsecond\<rparr>) }"

definition InitObject :: "'o object_base_scheme \<Rightarrow> ('z sys_scheme, 'o object_base_scheme) comp" where
  "InitObject ob = do {
     i \<leftarrow> GenerateID;
     let ob = SetID i ob;
     ob \<leftarrow> InitCreatedAt ob;
     ret (ob\<lparr>updated_at := created_at ob\<rparr>) }"

section \<open>Lemmas\<close>

lemma run_Now [simp]:
  "run_state Now s = (times s 0, s\<lparr>times := (\<lambda>i. times s (Suc i))\<rparr>)"
  by (simp add: Now_def)

lemma run_draw [simp]:
  "run_state draw s = (rands s 0, s\<lparr>rands := (\<lambda>i. rands s (Suc i))\<rparr>)"
  by (simp add: draw_def)

lemma wp_Now [wp]: "wp Now Q s = Q (times s 0) (s\<lparr>times := (\<lambda>i. times s (Suc i))\<rparr>)"
  by (simp add: wp_def)

lemma wp_draw [wp]: "wp draw Q s = Q (rands s 0) (s\<lparr>rands := (\<lambda>i. rands s (Suc i))\<rparr>)"
  by (simp add: wp_def)

lemma keeps_Now [io_rel]:
  "(\<And>s t. f (s\<lparr>times := t\<rparr>) = f s) \<Longrightarrow> state_io_rel (keeps f) Now"
  by (auto simp: state_io_rel_def keeps_def)

lemma keeps_draw [io_rel]:
  "(\<And>s t. f (s\<lparr>rands := t\<rparr>) = f s) \<Longrightarrow> state_io_rel (keeps f) draw"
  by (auto simp: state_io_rel_def keeps_def)

lemma wp_go_panic [wp]: "wp (go_panic x) Q s = Q x (s\<lparr>panicked := True\<rparr>)"
  by (simp add: go_panic_def wp)

lemma keeps_go_panic [io_rel]:
  "(\<And>s t. f (s\<lparr>panicked := t\<rparr>) = f s) \<Longrightarrow> state_io_rel (keeps f) (go_panic x)"
  unfolding go_panic_def by (intro io_rel io_rel_modifys) (simp add: keeps_def)

lemma to_int64_id: "- (2 ^ 63) \<le> i \<Longrightarrow> i < 2 ^ 63 \<Longrightarrow> to_int64 i = i"
  unfolding to_int64_def by (simp add: mod_pos_pos_trivial)

lemma seconds_duration_id: "0 \<le> n \<Longrightarrow> n \<le> 9223372036 \<Longrightarrow> seconds_duration n = Second * n"
  unfolding seconds_duration_def by (rule to_int64_id) (simp_all add: Second_def)

text \<open>Generating an identifier moves only the clock, the random source and the counter on.\<close>

lemma keeps_GenerateID [io_rel]:
  assumes "\<And>s t. f (s\<lparr>times := t\<rparr>) = f s" "\<And>s t. f (s\<lparr>rands := t\<rparr>) = f s"
    and "\<And>s t. f (s\<lparr>idCount := t\<rparr>) = f s"
  shows "state_io_rel (keeps f) GenerateID"
  unfolding GenerateID_def using assms by (intro io_rel io_rel_modifys) (auto simp: keeps_def)

lemma keeps_InitObject [io_rel]:
  assumes "\<And>s t. f (s\<lparr>times := t\<rparr>) = f s" "\<And>s t. f (s\<lparr>rands := t\<rparr>) = f s"
    and "\<And>s t. f (s\<lparr>idCount := t\<rparr>) = f s"
  shows "state_io_rel (keeps f) (InitObject ob)"
  unfolding InitObject_def InitCreatedAt_def using assms by (intro io_rel) (auto intro: io_rel)

lemma keeps_GenerateRand64 [io_rel]:
  "(\<And>s t. f (s\<lparr>rands := t\<rparr>) = f s) \<Longrightarrow> state_io_rel (keeps f) GenerateRand64"
  unfolding GenerateRand64_def by (intro io_rel)

end
