(* ===== verification/Db.thy ===== *)
theory Db
  imports World
begin

text \<open>
  The database interface of \<^verbatim>\<open>src/pkg/db/db.go\<close> and the filters of \<^verbatim>\<open>src/pkg/db/filter.go\<close>.

  \<^verbatim>\<open>DBHandlers\<close> is a Go interface; a value of it is a record of functions here. Each function takes
  the name of the database, the table of the object's type, its own arguments and the databases,
  and returns its results and, when it writes, the new databases. The implementation of the
  interface is a layer over the GORM library, whose code is not part of the repository, so the
  record is a parameter of every definition that reaches the database. What the program relies on
  is stated in the predicates below, one per operation, and each lemma names the ones it needs;
  \<open>Gorm\<close> models the layer and \<open>Gorm_Laws\<close> shows that it has them.
\<close>

section \<open>Filters\<close>

record interval =
  From :: gval
  To :: gval
  FromOpen :: bool
  ToOpen :: bool

record between_fields =
  FromField :: string
  ToField :: string
  BetweenValue :: gval
  BetweenFromOpen :: bool
  BetweenToOpen :: bool

record or_fields =
  OrValue :: gval
  OrNames :: "string list"

text \<open>The maps of a filter are nil (\<open>None\<close>) until something is added.\<close>

record db_filter =
  SortField :: string
  SortDirection :: string
  Offset :: int
  Limit :: int
  Count :: bool
  Fields :: "fields option"
  FieldsIn :: "(string \<times> gval list) list option"
  FieldsNotIn :: "(string \<times> gval list) list option"
  Intervals :: "(string \<times> interval) list option"
  BetweenFields :: "between_fields list"
  OrFields :: "or_fields list"
  PresetFields :: "fields list"

definition SORT_ASC :: string where "SORT_ASC = ''ASC''"

definition Interval_IsNull :: "interval \<Rightarrow> bool" where
  "Interval_IsNull i \<longleftrightarrow> From i = VNil \<and> To i = VNil"

definition NewFilter :: db_filter where
  "NewFilter = \<lparr>SortField = [], SortDirection = [], Offset = 0, Limit = 0, Count = False,
     Fields = None, FieldsIn = None, FieldsNotIn = None, Intervals = None,
     BetweenFields = [], OrFields = [], PresetFields = []\<rparr>"

definition PushPresetFields :: "fields \<Rightarrow> db_filter \<Rightarrow> db_filter" where
  "PushPresetFields fs f = f\<lparr>PresetFields := PresetFields f @ [fs]\<rparr>"

definition PopPresetFields :: "db_filter \<Rightarrow> db_filter" where
  "PopPresetFields f =
     (if length (PresetFields f) > 0
      then f\<lparr>PresetFields := take (length (PresetFields f) - 1) (PresetFields f)\<rparr> else f)"

definition SetSorting :: "string \<Rightarrow> string list \<Rightarrow> db_filter \<Rightarrow> db_filter" where
  "SetSorting field direction f =
     f\<lparr>SortField := field, SortDirection := OptionalArg SORT_ASC direction\<rparr>"

definition AddField :: "string \<Rightarrow> gval \<Rightarrow> db_filter \<Rightarrow> db_filter" where
  "AddField name val f =
     f\<lparr>Fields := Some (map_set (nil_map (Fields f)) name val)\<rparr>"

definition AddFields :: "fields \<Rightarrow> db_filter \<Rightarrow> db_filter" where
  "AddFields fs f = foldl (\<lambda>f (key, val). AddField key val f) f fs"

definition AddFieldIn :: "string \<Rightarrow> gval list \<Rightarrow> db_filter \<Rightarrow> db_filter" where
  "AddFieldIn name vals f =
     f\<lparr>FieldsIn := Some (map_set (nil_map (FieldsIn f)) name vals)\<rparr>"

definition AddFieldNotIn :: "string \<Rightarrow> gval list \<Rightarrow> db_filter \<Rightarrow> db_filter" where
  "AddFieldNotIn name vals f =
     f\<lparr>FieldsNotIn := Some (map_set (nil_map (FieldsNotIn f)) name vals)\<rparr>"

definition AddInterval :: "string \<Rightarrow> gval \<Rightarrow> gval \<Rightarrow> db_filter \<Rightarrow> db_filter" where
  "AddInterval name from to f =
     f\<lparr>Intervals := Some (map_set (nil_map (Intervals f)) name
        \<lparr>From = from, To = to, FromOpen = False, ToOpen = False\<rparr>)\<rparr>"

definition AddBetweenField :: "string \<Rightarrow> string \<Rightarrow> gval \<Rightarrow> db_filter \<Rightarrow> db_filter" where
  "AddBetweenField fromField toField val f =
     f\<lparr>BetweenFields := BetweenFields f @
        [\<lparr>FromField = fromField, ToField = toField, BetweenValue = val,
          BetweenFromOpen = False, BetweenToOpen = False\<rparr>]\<rparr>"

definition AddOrFields :: "gval \<Rightarrow> string list \<Rightarrow> db_filter \<Rightarrow> db_filter" where
  "AddOrFields val names f =
     f\<lparr>OrFields := OrFields f @ [\<lparr>OrValue = val, OrNames = names\<rparr>]\<rparr>"

section \<open>The database handlers\<close>

record dbhandlers =
  h_FindByField :: "string \<Rightarrow> string \<Rightarrow> string \<Rightarrow> gval \<Rightarrow> databases \<Rightarrow> fields option \<times> err"
  h_FindForUpdate :: "string \<Rightarrow> string \<Rightarrow> fields \<Rightarrow> databases \<Rightarrow> fields option \<times> err"
  h_FindForShare :: "string \<Rightarrow> string \<Rightarrow> fields \<Rightarrow> databases \<Rightarrow> fields option \<times> err"
  h_FindByFields :: "string \<Rightarrow> string \<Rightarrow> fields \<Rightarrow> databases \<Rightarrow> fields option \<times> err"
  h_FindWithFilter :: "string \<Rightarrow> string \<Rightarrow> db_filter option \<Rightarrow> databases \<Rightarrow> fields list \<times> int \<times> err"
  h_Exists :: "string \<Rightarrow> string \<Rightarrow> db_filter \<Rightarrow> databases \<Rightarrow> bool \<times> err"
  h_Create :: "string \<Rightarrow> string \<Rightarrow> fields \<Rightarrow> databases \<Rightarrow> err \<times> databases"
  h_CreateDup :: "string \<Rightarrow> string \<Rightarrow> fields \<Rightarrow> databases \<Rightarrow> (bool \<times> err) \<times> databases"
  h_Delete :: "string \<Rightarrow> string \<Rightarrow> string \<Rightarrow> databases \<Rightarrow> err \<times> databases"
  h_DeleteByFields :: "string \<Rightarrow> string \<Rightarrow> fields \<Rightarrow> databases \<Rightarrow> err \<times> databases"
  h_Update :: "string \<Rightarrow> string \<Rightarrow> fields \<Rightarrow> fields \<Rightarrow> databases \<Rightarrow> err \<times> databases"
  h_UpdateAll :: "string \<Rightarrow> string \<Rightarrow> fields \<Rightarrow> databases \<Rightarrow> err \<times> databases"
  h_UpdateWithFilter :: "string \<Rightarrow> string \<Rightarrow> db_filter \<Rightarrow> fields \<Rightarrow> databases \<Rightarrow> err \<times> databases"
  h_Join :: "string \<Rightarrow> string \<Rightarrow> db_filter \<Rightarrow> databases \<Rightarrow> fields list \<times> int \<times> err"

text \<open>
  A row matches a set of fields when it holds each of them; a list of values stands for any of them. The columns of a row are those of its
  struct, so a row of a table has every column that the program filters on.
\<close>

definition field_matches :: "fields \<Rightarrow> string \<Rightarrow> gval \<Rightarrow> bool" where
  "field_matches row k v \<longleftrightarrow> (case v of
     VStrs xs \<Rightarrow> list_ex (\<lambda>x. map_get row k = Some (VStr x)) xs
   | _ \<Rightarrow> map_get row k = Some v)"

definition row_matches :: "fields \<Rightarrow> fields \<Rightarrow> bool" where
  "row_matches fs row \<longleftrightarrow> list_all (\<lambda>(k, v). field_matches row k v) fs"

definition set_table :: "string \<Rightarrow> string \<Rightarrow> fields list \<Rightarrow> databases \<Rightarrow> databases" where
  "set_table d tbl rows D = D(d := (D d)(tbl := rows))"

text \<open>What the program relies on in the database, operation by operation.\<close>

definition find_returns_match :: "dbhandlers \<Rightarrow> bool" where
  "find_returns_match h \<longleftrightarrow>
     (\<forall>d tbl fs D row e. h_FindByFields h d tbl fs D = (Some row, e) \<longrightarrow>
        e = None \<and> row \<in> set (D d tbl) \<and> row_matches fs row)
   \<and> (\<forall>d tbl k v D row e. h_FindByField h d tbl k v D = (Some row, e) \<longrightarrow>
        e = None \<and> row \<in> set (D d tbl) \<and> map_get row k = Some v)"

definition find_misses_nothing :: "dbhandlers \<Rightarrow> bool" where
  "find_misses_nothing h \<longleftrightarrow>
     (\<forall>d tbl fs D. h_FindByFields h d tbl fs D = (None, None) \<longrightarrow>
        \<not> (\<exists>row \<in> set (D d tbl). row_matches fs row))
   \<and> (\<forall>d tbl k v D. h_FindByField h d tbl k v D = (None, None) \<longrightarrow>
        \<not> (\<exists>row \<in> set (D d tbl). map_get row k = Some v))"

definition update_writes_matches :: "dbhandlers \<Rightarrow> bool" where
  "update_writes_matches h \<longleftrightarrow>
     (\<forall>d tbl flt fs D D'. h_Update h d tbl flt fs D = (None, D') \<longrightarrow>
        D' = set_table d tbl
               (map (\<lambda>row. if row_matches flt row then AppendMap row fs else row) (D d tbl)) D)"

definition update_all_writes :: "dbhandlers \<Rightarrow> bool" where
  "update_all_writes h \<longleftrightarrow>
     (\<forall>d tbl fs D D'. h_UpdateAll h d tbl fs D = (None, D') \<longrightarrow>
        D' = set_table d tbl (map (\<lambda>row. AppendMap row fs) (D d tbl)) D)"

definition create_appends :: "dbhandlers \<Rightarrow> bool" where
  "create_appends h \<longleftrightarrow>
     (\<forall>d tbl row D D'. h_Create h d tbl row D = (None, D') \<longrightarrow>
        D' = set_table d tbl (D d tbl @ [row]) D)"

definition exists_checks :: "dbhandlers \<Rightarrow> bool" where
  "exists_checks h \<longleftrightarrow>
     (\<forall>d tbl fs D b.
        h_Exists h d tbl (NewFilter\<lparr>Fields := Some fs\<rparr>) D = (b, None) \<longrightarrow>
        b = list_ex (row_matches fs) (D d tbl))"

text \<open>A filter that only has fields and a limit; a limit that is not positive is none.\<close>

definition fields_filter :: "fields \<Rightarrow> int \<Rightarrow> db_filter" where
  "fields_filter fs limit = NewFilter\<lparr>Fields := Some fs, Limit := limit\<rparr>"

definition find_filters :: "dbhandlers \<Rightarrow> bool" where
  "find_filters h \<longleftrightarrow>
     (\<forall>d tbl fs limit D rows n.
        h_FindWithFilter h d tbl (Some (fields_filter fs limit)) D = (rows, n, None) \<longrightarrow>
        rows = (if limit > 0 then take (nat limit) else id) (filter (row_matches fs) (D d tbl)))"

definition delete_removes :: "dbhandlers \<Rightarrow> bool" where
  "delete_removes h \<longleftrightarrow>
     (\<forall>d tbl i D D'. h_Delete h d tbl i D = (None, D') \<longrightarrow>
        D' = set_table d tbl (filter (\<lambda>row. map_get row ''id'' \<noteq> Some (VStr i)) (D d tbl)) D)"

definition delete_by_fields_removes :: "dbhandlers \<Rightarrow> bool" where
  "delete_by_fields_removes h \<longleftrightarrow>
     (\<forall>d tbl fs D D'. h_DeleteByFields h d tbl fs D = (None, D') \<longrightarrow>
        D' = set_table d tbl (filter (\<lambda>row. \<not> row_matches fs row) (D d tbl)) D)"

text \<open>
  A database with these properties: tables of rows, every operation succeeding. The witnesses of
  theorems that name the predicates above run on it.
\<close>

definition filter_rows :: "db_filter option \<Rightarrow> fields list \<Rightarrow> fields list" where
  "filter_rows f rows = (case f of
     None \<Rightarrow> rows
   | Some flt \<Rightarrow> (if Limit flt > 0 then take (nat (Limit flt)) else id)
       (filter (row_matches (nil_map (Fields flt))) rows))"

definition table_db :: dbhandlers where
  "table_db = \<lparr>
     h_FindByField = (\<lambda>d tbl k v D. (find (\<lambda>row. map_get row k = Some v) (D d tbl), None)),
     h_FindForUpdate = (\<lambda>d tbl fs D. (find (row_matches fs) (D d tbl), None)),
     h_FindForShare = (\<lambda>d tbl fs D. (find (row_matches fs) (D d tbl), None)),
     h_FindByFields = (\<lambda>d tbl fs D. (find (row_matches fs) (D d tbl), None)),
     h_FindWithFilter = (\<lambda>d tbl f D. (filter_rows f (D d tbl), int (length (D d tbl)), None)),
     h_Exists = (\<lambda>d tbl f D. (list_ex (row_matches (nil_map (Fields f))) (D d tbl), None)),
     h_Create = (\<lambda>d tbl row D. (None, set_table d tbl (D d tbl @ [row]) D)),
     h_CreateDup = (\<lambda>d tbl row D. ((False, None), set_table d tbl (D d tbl @ [row]) D)),
     h_Delete = (\<lambda>d tbl i D. (None,
        set_table d tbl (filter (\<lambda>row. map_get row ''id'' \<noteq> Some (VStr i)) (D d tbl)) D)),
     h_DeleteByFields = (\<lambda>d tbl fs D. (None,
        set_table d tbl (filter (\<lambda>row. \<not> row_matches fs row) (D d tbl)) D)),
     h_Update = (\<lambda>d tbl flt fs D. (None, set_table d tbl
        (map (\<lambda>row. if row_matches flt row then AppendMap row fs else row) (D d tbl)) D)),
     h_UpdateAll = (\<lambda>d tbl fs D. (None,
        set_table d tbl (map (\<lambda>row. AppendMap row fs) (D d tbl)) D)),
     h_UpdateWithFilter = (\<lambda>d tbl f fs D. (None, set_table d tbl
        (map (\<lambda>row. if row_matches (nil_map (Fields f)) row then AppendMap row fs else row)
          (D d tbl)) D)),
     h_Join = (\<lambda>d tbl f D. (D d tbl, int (length (D d tbl)), None)) \<rparr>"

section \<open>Lemmas\<close>

lemma set_table_same [simp]: "set_table d tbl rows D d tbl = rows"
  by (simp add: set_table_def)

lemma set_table_other [simp]: "(d', tbl') \<noteq> (d, tbl) \<Longrightarrow> set_table d tbl rows D d' tbl' = D d' tbl'"
  by (auto simp: set_table_def)

lemma row_matches_Nil [simp]: "row_matches [] row"
  by (simp add: row_matches_def)

lemma row_matches_Cons [simp]:
  "row_matches ((k, v) # fs) row \<longleftrightarrow> field_matches row k v \<and> row_matches fs row"
  by (simp add: row_matches_def)

lemma field_matches_simps [simp]:
  "field_matches row k VNil \<longleftrightarrow> map_get row k = Some VNil"
  "field_matches row k (VStr s) \<longleftrightarrow> map_get row k = Some (VStr s)"
  "field_matches row k (VBool b) \<longleftrightarrow> map_get row k = Some (VBool b)"
  "field_matches row k (VInt i) \<longleftrightarrow> map_get row k = Some (VInt i)"
  "field_matches row k (VInt64 i) \<longleftrightarrow> map_get row k = Some (VInt64 i)"
  "field_matches row k (VTime t) \<longleftrightarrow> map_get row k = Some (VTime t)"
  by (simp_all add: field_matches_def)

lemma table_db_filters: "find_filters table_db"
  by (simp add: find_filters_def table_db_def filter_rows_def fields_filter_def NewFilter_def nil_map_def)

lemma table_db_find: "find_returns_match table_db" "find_misses_nothing table_db"
  by (auto simp: find_returns_match_def find_misses_nothing_def table_db_def
      find_Some_iff find_None_iff)

lemma table_db_writes:
  "update_writes_matches table_db" "update_all_writes table_db" "create_appends table_db"
  "exists_checks table_db" "delete_removes table_db" "delete_by_fields_removes table_db"
  by (simp_all add: update_writes_matches_def update_all_writes_def create_appends_def
      exists_checks_def delete_removes_def delete_by_fields_removes_def table_db_def nil_map_def)

lemmas db_laws = table_db_find table_db_writes table_db_filters

lemma PopPush_PresetFields [simp]: "PopPresetFields (PushPresetFields fs f) = f"
  by (simp add: PopPresetFields_def PushPresetFields_def)

lemma Fields_AddField: "Fields (AddField name val f) = Some (map_set (nil_map (Fields f)) name val)"
  by (simp add: AddField_def)

end
