(* ===== verification/Op_Context.thy ===== *)
theory Op_Context
  imports Db
begin

text \<open>
  The operation context of \<^verbatim>\<open>src/pkg/op_context\<close>: a stack of call contexts that every traced method
  pushes and pops, the copy of that stack kept at the first failure, the generic error that will be
  reported to the client, and the operation logs written when the context is closed.

  Call contexts are pointers in the source: the error stack shares them with the live stack, so an
  error or a message that an outer method sets after an inner one has failed is visible in the error
  stack. The model keeps the call contexts in an arena (\<open>calls\<close>) and the two stacks as lists of
  positions in it.
\<close>

section \<open>State\<close>

record call_ctx =
  cc_method :: string
  cc_error :: err
  cc_message :: string
  cc_fields :: fields

record origin =
  o_App :: string
  o_Name :: string
  o_Source :: string
  o_SessionClient :: string
  o_User :: string
  o_UserType :: string

record oplog = object_base +
  ol_table :: string
  ol_operation :: string
  ol_context :: string
  ol_context_name :: string
  ol_origin_app :: string
  ol_origin_name :: string
  ol_origin_source :: string
  ol_origin_client :: string
  ol_user :: string
  ol_user_type :: string
  ol_extra :: fields

record op_ctx = sys +
  calls :: "call_ctx list"
  stack :: "nat list"
  errorStack :: "nat list option"
  genericError :: err
  ctx_id :: string
  ctx_name :: string
  loggerFields :: fields
  errorAsWarn :: bool
  oplogs :: "oplog list"
  origin :: "origin option"
  writeCloseLog :: bool
  mainDb :: string
  curDb :: string
  curCache :: string
  dbTransaction :: "string option"
  errorManager :: error_manager

text \<open>
  \<open>mainDb\<close> is what \<^verbatim>\<open>ContextBase.Db()\<close> and \<^verbatim>\<open>MainDB()\<close> return, \<open>curDb\<close> what \<^verbatim>\<open>Db()\<close> of the context's
  dynamic type returns: a request with a tenancy overrides \<^verbatim>\<open>Db()\<close> by the tenancy's database. \<open>curCache\<close> is
  the cache that \<^verbatim>\<open>Cache()\<close> returns.
\<close>

section \<open>Logging\<close>

definition AppendFieldsNew :: "fields \<Rightarrow> fields list \<Rightarrow> fields" where
  "AppendFieldsNew f fs =
     (let newFields = CopyMap f in
      if length fs > 0 then AppendMap newFields (fs ! 0) else newFields)"

definition call_at :: "'z op_ctx_scheme \<Rightarrow> nat \<Rightarrow> call_ctx" where
  "call_at s c =
     (if c < length (calls s) then calls s ! c
      else \<lparr>cc_method = [], cc_error = None, cc_message = [], cc_fields = []\<rparr>)"

text \<open>
  \<^verbatim>\<open>Logger()\<close> is the proxy of the innermost call context, which passes the message with its static
  fields to the proxy of the context, which adds its own.
\<close>

definition log_fields :: "'z op_ctx_scheme \<Rightarrow> fields list \<Rightarrow> fields" where
  "log_fields s fs =
     (if stack s = [] then AppendFieldsNew (loggerFields s) fs
      else AppendFieldsNew (loggerFields s)
             [AppendFieldsNew (cc_fields (call_at s (last (stack s)))) fs])"

definition Log :: "log_level \<Rightarrow> string \<Rightarrow> err \<Rightarrow> fields list \<Rightarrow> ('z op_ctx_scheme, unit) comp" where
  "Log lv msg e fs = modifys (\<lambda>s. s\<lparr>logs := logs s @ [LogEntry lv msg e (log_fields s fs)]\<rparr>)"

definition SetLoggerField :: "string \<Rightarrow> gval \<Rightarrow> ('z op_ctx_scheme, unit) comp" where
  "SetLoggerField name val = modifys (\<lambda>s. s\<lparr>loggerFields := map_set (loggerFields s) name val\<rparr>)"

definition UnsetLoggerField :: "string \<Rightarrow> ('z op_ctx_scheme, unit) comp" where
  "UnsetLoggerField name = modifys (\<lambda>s. s\<lparr>loggerFields := AList.delete name (loggerFields s)\<rparr>)"

definition AddLoggerFields :: "fields \<Rightarrow> ('z op_ctx_scheme, unit) comp" where
  "AddLoggerFields fs = each (\<lambda>(key, val). SetLoggerField key val) fs"

section \<open>Call contexts\<close>

definition upd_call :: "nat \<Rightarrow> (call_ctx \<Rightarrow> call_ctx) \<Rightarrow> ('z op_ctx_scheme, unit) comp" where
  "upd_call c f = modifys (\<lambda>s. s\<lparr>calls := (calls s)[c := f (call_at s c)]\<rparr>)"

definition SetError :: "nat \<Rightarrow> err \<Rightarrow> ('z op_ctx_scheme, err) comp" where
  "SetError c e = do { upd_call c (\<lambda>x. x\<lparr>cc_error := e\<rparr>); ret e }"

definition SetErrorStr :: "nat \<Rightarrow> string \<Rightarrow> ('z op_ctx_scheme, err) comp" where
  "SetErrorStr c e = do { upd_call c (\<lambda>x. x\<lparr>cc_error := errors_New e\<rparr>); ret (errors_New e) }"

definition SetMessage :: "nat \<Rightarrow> string \<Rightarrow> ('z op_ctx_scheme, unit) comp" where
  "SetMessage c msg = upd_call c (\<lambda>x. x\<lparr>cc_message := msg\<rparr>)"

definition SetCallField :: "nat \<Rightarrow> string \<Rightarrow> gval \<Rightarrow> ('z op_ctx_scheme, unit) comp" where
  "SetCallField c name val = upd_call c (\<lambda>x. x\<lparr>cc_fields := map_set (cc_fields x) name val\<rparr>)"

section \<open>Tracing\<close>

fun stackPath_from :: "string \<Rightarrow> call_ctx list \<Rightarrow> string" where
  "stackPath_from path [] = path"
| "stackPath_from path (m # ms) =
     stackPath_from ((if path \<noteq> [] then path @ '':'' else path) @ cc_method m) ms"

definition stackPath :: "'z op_ctx_scheme \<Rightarrow> nat list \<Rightarrow> string" where
  "stackPath s st = stackPath_from [] (map (call_at s) st)"

definition TraceInMethod :: "string \<Rightarrow> fields list \<Rightarrow> ('z op_ctx_scheme, nat) comp" where
  "TraceInMethod methodName fs = do {
     c \<leftarrow> gets (\<lambda>s. length (calls s));
     modifys (\<lambda>s. s\<lparr>calls := calls s @
       [\<lparr>cc_method = methodName, cc_error = None, cc_message = [],
         cc_fields = OptionalArg [] fs\<rparr>]\<rparr>);
     modifys (\<lambda>s. s\<lparr>stack := stack s @ [c]\<rparr>);
     p \<leftarrow> gets (\<lambda>s. stackPath s (stack s));
     SetLoggerField ''stack'' (VStr p);
     Log LogTrace ''callin'' None [];
     ret c }"

definition TraceOutMethod :: "('z op_ctx_scheme, unit) comp" where
  "TraceOutMethod = do {
     Log LogTrace ''callout'' None [];
     st \<leftarrow> gets stack;
     if st = [] then ret ()
     else do {
       top \<leftarrow> gets (\<lambda>s. call_at s (last st));
       es \<leftarrow> gets errorStack;
       (if cc_error top \<noteq> None \<and> es = None
        then modifys (\<lambda>s. s\<lparr>errorStack := Some st\<rparr>)
        else ret ());
       modifys (\<lambda>s. s\<lparr>stack := butlast st\<rparr>);
       (if butlast st = [] then UnsetLoggerField ''stack''
        else do {
          p \<leftarrow> gets (\<lambda>s. stackPath s (stack s));
          SetLoggerField ''stack'' (VStr p) }) } }"

text \<open>
  The two shapes of a traced method. In \<open>traced\<close> the deferred function only pops the call context
  (\<^verbatim>\<open>defer ctx.TraceOutMethod()\<close>); in \<open>traced_err\<close> it first records the method's error, which the body
  hands over with its result (\<^verbatim>\<open>defer onExit()\<close>). Where an inner block of the source shadows \<^verbatim>\<open>err\<close>,
  the deferred function sees the outer variable, so the body hands over that one.
\<close>

definition traced :: "string \<Rightarrow> fields list \<Rightarrow> (nat \<Rightarrow> ('z op_ctx_scheme, 'a) comp)
    \<Rightarrow> ('z op_ctx_scheme, 'a) comp" where
  "traced name fs body = do {
     c \<leftarrow> TraceInMethod name fs;
     r \<leftarrow> body c;
     TraceOutMethod;
     ret r }"

definition traced_err :: "string \<Rightarrow> fields list \<Rightarrow> (nat \<Rightarrow> ('z op_ctx_scheme, 'a \<times> err) comp)
    \<Rightarrow> ('z op_ctx_scheme, 'a) comp" where
  "traced_err name fs body = do {
     c \<leftarrow> TraceInMethod name fs;
     (r, e) \<leftarrow> body c;
     (if e \<noteq> None then do { SetError c e; ret () } else ret ());
     TraceOutMethod;
     ret r }"

section \<open>Generic errors\<close>

definition SetGenericError :: "err \<Rightarrow> bool list \<Rightarrow> ('z op_ctx_scheme, unit) comp" where
  "SetGenericError e override =
     modifys (\<lambda>s. if genericError s = None \<or> e = None \<or> OptionalArg False override
                  then s\<lparr>genericError := e\<rparr> else s)"

definition MakeGenericError :: "string \<Rightarrow> ('z op_ctx_scheme, goerror) comp" where
  "MakeGenericError code = gets (\<lambda>s. MakeGenericError_mgr (errorManager s) code [\<lambda>phrase. phrase])"

definition SetGenericErrorCode :: "string \<Rightarrow> bool list \<Rightarrow> ('z op_ctx_scheme, unit) comp" where
  "SetGenericErrorCode code override = do {
     e \<leftarrow> MakeGenericError code;
     SetGenericError (Some e) override }"

definition ClearError :: "('z op_ctx_scheme, unit) comp" where
  "ClearError = modifys (\<lambda>s. s\<lparr>errorStack := None, genericError := None\<rparr>)"

definition Reset :: "('z op_ctx_scheme, unit) comp" where
  "Reset = modifys (\<lambda>s. s\<lparr>stack := [], errorStack := None, genericError := None, oplogs := []\<rparr>)"

definition SetErrorAsWarn :: "bool \<Rightarrow> ('z op_ctx_scheme, unit) comp" where
  "SetErrorAsWarn enable = modifys (\<lambda>s. s\<lparr>errorAsWarn := enable\<rparr>)"

definition SetName :: "string \<Rightarrow> ('z op_ctx_scheme, unit) comp" where
  "SetName name = do {
     modifys (\<lambda>s. s\<lparr>ctx_name := name\<rparr>);
     SetLoggerField ''op'' (VStr name);
     Log LogTrace ''name'' None [] }"

definition SetOrigin :: "origin \<Rightarrow> ('z op_ctx_scheme, unit) comp" where
  "SetOrigin ori = modifys (\<lambda>s. s\<lparr>origin := Some ori\<rparr>)"

definition NewOrigin :: "string \<Rightarrow> string \<Rightarrow> string \<Rightarrow> origin" where
  "NewOrigin application appInstance hostname =
     \<lparr>o_App = application, o_Name = appInstance, o_Source = hostname, o_SessionClient = [],
      o_User = [], o_UserType = []\<rparr>"

section \<open>Closing\<close>

text \<open>
  The message of the error log: \<^verbatim>\<open>method(message)\<close> of every call context of the error stack that has
  a message, joined by colons; the error is the one of the deepest call context that has one.
\<close>

fun collect_message :: "string \<Rightarrow> call_ctx list \<Rightarrow> string" where
  "collect_message msg [] = msg"
| "collect_message msg (it # its) =
     collect_message
       (if cc_message it \<noteq> []
        then ConcatStrings [if msg \<noteq> [] then ConcatStrings [msg, '':''] else msg,
               cc_method it, ''('', cc_message it, '')'']
        else msg) its"

fun deepest_error :: "err \<Rightarrow> call_ctx list \<Rightarrow> err" where
  "deepest_error e [] = e"
| "deepest_error e (it # its) = deepest_error (if cc_error it \<noteq> None then cc_error it else e) its"

definition err_val :: "err \<Rightarrow> gval" where
  "err_val e = (case e of None \<Rightarrow> VNil | Some x \<Rightarrow> VStr (error_text x))"

definition DumpLog :: "string list \<Rightarrow> ('z op_ctx_scheme, unit) comp" where
  "DumpLog successMessage = do {
     es \<leftarrow> gets errorStack;
     (case es of
        Some st \<Rightarrow> do {
          msg \<leftarrow> gets (\<lambda>s. collect_message [] (map (call_at s) st));
          e \<leftarrow> gets (\<lambda>s. deepest_error None (map (call_at s) st));
          modifys (\<lambda>s. s\<lparr>stack := st\<rparr>);
          p \<leftarrow> gets (\<lambda>s. stackPath s (stack s));
          SetLoggerField ''stack'' (VStr p);
          w \<leftarrow> gets errorAsWarn;
          (if \<not> w then Log LogError msg e []
           else Log LogWarn msg None [[(''error'', err_val e)]]);
          modifys (\<lambda>s. s\<lparr>stack := []\<rparr>);
          UnsetLoggerField ''stack'' }
      | None \<Rightarrow> do {
          w \<leftarrow> gets writeCloseLog;
          (if w then
             let msg = OptionalArg ''success'' successMessage in
             if msg \<noteq> [] then Log LogInfo msg None [] else ret ()
           else ret ()) });
     ClearError }"

definition Oplog :: "oplog \<Rightarrow> ('z op_ctx_scheme, unit) comp" where
  "Oplog ol = modifys (\<lambda>s. s\<lparr>oplogs := oplogs s @ [ol]\<rparr>)"

text \<open>The columns of an operation log, as GORM names them, and the columns its own type adds.\<close>

definition oplog_row :: "oplog \<Rightarrow> fields" where
  "oplog_row ol =
     [(''id'', VStr (obj_id ol)), (''created_at'', VTime (created_at ol)),
      (''updated_at'', VTime (updated_at ol)),
      (''operation'', VStr (ol_operation ol)), (''context'', VStr (ol_context ol)),
      (''context_name'', VStr (ol_context_name ol)), (''origin_app'', VStr (ol_origin_app ol)),
      (''origin_name'', VStr (ol_origin_name ol)), (''user'', VStr (ol_user ol)),
      (''origin_source'', VStr (ol_origin_source ol)),
      (''origin_client'', VStr (ol_origin_client ol)),
      (''user_type'', VStr (ol_user_type ol))] @ ol_extra ol"

definition Oplog_Write :: "dbhandlers \<Rightarrow> oplog \<Rightarrow> ('z op_ctx_scheme, err) comp" where
  "Oplog_Write h ol = do {
     d \<leftarrow> gets mainDb;
     D \<leftarrow> gets dbs;
     (let (e, D') = h_Create h d (ol_table ol) (oplog_row ol) D in do {
       modifys (\<lambda>s. s\<lparr>dbs := D'\<rparr>);
       (if e \<noteq> None
        then Log LogError ''failed to write oplog'' e [[(''oplog'', VStr (ol_table ol))]]
        else ret ());
       ret e }) }"

definition fill_oplog :: "'z op_ctx_scheme \<Rightarrow> oplog \<Rightarrow> oplog" where
  "fill_oplog s ol =
     (let ol = ol\<lparr>ol_context := ctx_id s, ol_context_name := ctx_name s\<rparr> in
      case origin s of
        None \<Rightarrow> ol
      | Some g \<Rightarrow> ol\<lparr>ol_origin_app := o_App g, ol_origin_name := o_Name g,
           ol_origin_source := o_Source g, ol_user := o_User g,
           ol_origin_client := o_SessionClient g, ol_user_type := o_UserType g\<rparr>)"

definition Close :: "dbhandlers \<Rightarrow> string list \<Rightarrow> ('z op_ctx_scheme, unit) comp" where
  "Close h successMessage = do {
     ols \<leftarrow> gets oplogs;
     each (\<lambda>ol. do {
       ol \<leftarrow> InitObject ol;
       ol \<leftarrow> gets (\<lambda>s. fill_oplog s ol);
       Oplog_Write h ol;
       ret () }) ols;
     DumpLog successMessage }"

section \<open>Which database\<close>

definition ctx_DB :: "bool list \<Rightarrow> ('z op_ctx_scheme, string) comp" where
  "ctx_DB forceMainDb = gets (\<lambda>s.
     case dbTransaction s of
       Some tx \<Rightarrow> tx
     | None \<Rightarrow> if OptionalArg False forceMainDb then mainDb s else curDb s)"

definition SetDbTransaction :: "string \<Rightarrow> ('z op_ctx_scheme, unit) comp" where
  "SetDbTransaction tx = modifys (\<lambda>s. s\<lparr>dbTransaction := Some tx\<rparr>)"

definition ClearDbTransaction :: "('z op_ctx_scheme, unit) comp" where
  "ClearDbTransaction = modifys (\<lambda>s. s\<lparr>dbTransaction := None\<rparr>)"

section \<open>What operations keep\<close>

text \<open>
  \<open>balanced\<close>: the stack is what it was and no call context has gone. \<open>frame\<close> adds that the error
  stack and the generic error, once set, stay as they are; every operation that does not clear
  errors or override the generic error satisfies it.
\<close>

definition balanced :: "'z op_ctx_scheme \<Rightarrow> 'z op_ctx_scheme \<Rightarrow> bool" where
  "balanced s s' \<longleftrightarrow> stack s' = stack s \<and> length (calls s) \<le> length (calls s')"

definition frame :: "'z op_ctx_scheme \<Rightarrow> 'z op_ctx_scheme \<Rightarrow> bool" where
  "frame s s' \<longleftrightarrow> balanced s s'
     \<and> (errorStack s \<noteq> None \<longrightarrow> errorStack s' = errorStack s)
     \<and> (genericError s \<noteq> None \<longrightarrow> genericError s' = genericError s)
     \<and> errorManager s' = errorManager s"

lemma preorder_balanced [simp, io_rel]: "preorder balanced"
  by (rule preorderI) (auto simp: balanced_def)

lemma preorder_frame [simp, io_rel]: "preorder frame"
  by (rule preorderI) (auto simp: frame_def balanced_def)

lemma frame_balanced: "state_io_rel frame m \<Longrightarrow> state_io_rel balanced m"
  by (auto simp: state_io_rel_def frame_def)

lemma frame_Log [io_rel]: "state_io_rel frame (Log lv msg e fs)"
  unfolding Log_def by (rule io_rel_modifys) (simp add: frame_def balanced_def)

lemma frame_SetLoggerField [io_rel]: "state_io_rel frame (SetLoggerField name val)"
  unfolding SetLoggerField_def by (rule io_rel_modifys) (simp add: frame_def balanced_def)

lemma frame_UnsetLoggerField [io_rel]: "state_io_rel frame (UnsetLoggerField name)"
  unfolding UnsetLoggerField_def by (rule io_rel_modifys) (simp add: frame_def balanced_def)

lemma frame_upd_call [io_rel]: "state_io_rel frame (upd_call c f)"
  unfolding upd_call_def by (rule io_rel_modifys) (simp add: frame_def balanced_def)

lemma frame_SetError [io_rel]: "state_io_rel frame (SetError c e)"
  unfolding SetError_def by (intro io_rel)

lemma frame_SetErrorStr [io_rel]: "state_io_rel frame (SetErrorStr c e)"
  unfolding SetErrorStr_def by (intro io_rel)

lemma frame_SetMessage [io_rel]: "state_io_rel frame (SetMessage c msg)"
  unfolding SetMessage_def by (intro io_rel)

lemma frame_SetCallField [io_rel]: "state_io_rel frame (SetCallField c name val)"
  unfolding SetCallField_def by (intro io_rel)

lemma frame_SetGenericErrorCode [io_rel]: "state_io_rel frame (SetGenericErrorCode code [])"
  by (auto simp: state_io_rel_def SetGenericErrorCode_def MakeGenericError_def
      SetGenericError_def frame_def balanced_def)

lemma frame_SetGenericError [io_rel]: "e \<noteq> None \<Longrightarrow> state_io_rel frame (SetGenericError e [])"
  by (auto simp: state_io_rel_def SetGenericError_def frame_def balanced_def)

lemma frame_MakeGenericError [io_rel]: "state_io_rel frame (MakeGenericError code)"
  unfolding MakeGenericError_def by (intro io_rel)

lemma frame_Now [io_rel]: "state_io_rel frame Now"
  by (auto simp: state_io_rel_def frame_def balanced_def)

lemma frame_draw [io_rel]: "state_io_rel frame draw"
  by (auto simp: state_io_rel_def frame_def balanced_def)

lemma frame_GenerateID [io_rel]: "state_io_rel frame GenerateID"
  unfolding GenerateID_def
  by (intro io_rel io_rel_modifys) (simp add: frame_def balanced_def)

lemma frame_GenerateRand64 [io_rel]: "state_io_rel frame GenerateRand64"
  unfolding GenerateRand64_def by (intro io_rel)

lemma frame_InitObject [io_rel]: "state_io_rel frame (InitObject ob)"
  unfolding InitObject_def InitCreatedAt_def by (intro io_rel)

lemma frame_go_panic [io_rel]: "state_io_rel frame (go_panic x)"
  unfolding go_panic_def by (intro io_rel io_rel_modifys) (simp add: frame_def balanced_def)

lemma frame_Oplog [io_rel]: "state_io_rel frame (Oplog ol)"
  unfolding Oplog_def by (rule io_rel_modifys) (simp add: frame_def balanced_def)

lemma frame_ctx_DB [io_rel]: "state_io_rel frame (ctx_DB b)"
  unfolding ctx_DB_def by (intro io_rel)

lemma frame_set_dbs [io_rel]: "state_io_rel frame (modifys (\<lambda>s. s\<lparr>dbs := f s\<rparr>))"
  by (rule io_rel_modifys) (simp add: frame_def balanced_def)

lemma frame_set_cached [io_rel]: "state_io_rel frame (modifys (\<lambda>s. s\<lparr>cached := f s\<rparr>))"
  by (rule io_rel_modifys) (simp add: frame_def balanced_def)

lemma balanced_ClearError [io_rel]: "state_io_rel balanced ClearError"
  unfolding ClearError_def by (rule io_rel_modifys) (simp add: balanced_def)

text \<open>Entering and leaving a method, as one step each.\<close>

lemma TraceIn_run:
  "\<exists>s'. run_state (TraceInMethod name fs) s = (length (calls s), s')
     \<and> stack s' = stack s @ [length (calls s)] \<and> length (calls s') = Suc (length (calls s))
     \<and> errorStack s' = errorStack s \<and> genericError s' = genericError s
     \<and> errorManager s' = errorManager s
     \<and> (\<forall>i < length (calls s). call_at s' i = call_at s i)
     \<and> cc_error (call_at s' (length (calls s))) = None"
  by (simp add: TraceInMethod_def SetLoggerField_def Log_def call_at_def nth_append)

lemma TraceOut_run:
  assumes "stack s = st @ [c]"
  shows "\<exists>s'. run_state TraceOutMethod s = ((), s')
     \<and> stack s' = st \<and> calls s' = calls s \<and> genericError s' = genericError s
     \<and> errorManager s' = errorManager s
     \<and> errorStack s' = (if cc_error (call_at s c) \<noteq> None \<and> errorStack s = None
                         then Some (st @ [c]) else errorStack s)"
  using assms
  by (auto simp: TraceOutMethod_def SetLoggerField_def UnsetLoggerField_def Log_def call_at_def)

lemma traced_run:
  assumes "run_state (traced name fs body) s = (a, s')"
  obtains s1 s2 where
    "stack s1 = stack s @ [length (calls s)]" "length (calls s1) = Suc (length (calls s))"
    "errorStack s1 = errorStack s" "genericError s1 = genericError s"
    "errorManager s1 = errorManager s"
    "run_state (body (length (calls s))) s1 = (a, s2)"
    "stack s2 = stack s1 \<Longrightarrow> stack s' = stack s \<and> calls s' = calls s2
       \<and> genericError s' = genericError s2 \<and> errorManager s' = errorManager s2
       \<and> errorStack s' = (if cc_error (call_at s2 (length (calls s))) \<noteq> None \<and> errorStack s2 = None
                           then Some (stack s2) else errorStack s2)"
proof -
  obtain s1 where s1: "run_state (TraceInMethod name fs) s = (length (calls s), s1)"
    and st1: "stack s1 = stack s @ [length (calls s)]" "length (calls s1) = Suc (length (calls s))"
      "errorStack s1 = errorStack s" "genericError s1 = genericError s"
      "errorManager s1 = errorManager s"
    using TraceIn_run [of name fs s] by auto
  obtain r s2 where s2: "run_state (body (length (calls s))) s1 = (r, s2)" by fastforce
  show thesis
  proof (rule that [OF st1])
    show "run_state (body (length (calls s))) s1 = (a, s2)"
      using assms s1 s2 by (auto simp: traced_def split: prod.splits)
    assume eq: "stack s2 = stack s1"
    with st1 have "stack s2 = stack s @ [length (calls s)]" by simp
    from TraceOut_run [OF this] obtain s3 where "run_state TraceOutMethod s2 = ((), s3)"
      "stack s3 = stack s \<and> calls s3 = calls s2 \<and> genericError s3 = genericError s2
       \<and> errorManager s3 = errorManager s2
       \<and> errorStack s3 = (if cc_error (call_at s2 (length (calls s))) \<noteq> None \<and> errorStack s2 = None
                           then Some (stack s @ [length (calls s)]) else errorStack s2)"
      by blast
    with assms s1 s2 eq st1 show "stack s' = stack s \<and> calls s' = calls s2
       \<and> genericError s' = genericError s2 \<and> errorManager s' = errorManager s2
       \<and> errorStack s' = (if cc_error (call_at s2 (length (calls s))) \<noteq> None \<and> errorStack s2 = None
                           then Some (stack s2) else errorStack s2)"
      by (simp add: traced_def)
  qed
qed

lemma balanced_traced [io_rel]:
  assumes "\<And>c. state_io_rel balanced (body c)"
  shows "state_io_rel balanced (traced name fs body)"
proof (rule state_io_relI)
  fix a s s' assume "run_state (traced name fs body) s = (a, s')"
  then obtain s1 s2 where 1: "length (calls s1) = Suc (length (calls s))"
    and run: "run_state (body (length (calls s))) s1 = (a, s2)"
    and out: "stack s2 = stack s1 \<Longrightarrow> stack s' = stack s \<and> calls s' = calls s2"
    by (rule traced_run) blast
  from run assms have "balanced s1 s2" by (blast intro: io_rel_run)
  with 1 out show "balanced s s'" by (simp add: balanced_def)
qed

lemma frame_traced [io_rel]:
  assumes "\<And>c. state_io_rel frame (body c)"
  shows "state_io_rel frame (traced name fs body)"
proof (rule state_io_relI)
  fix a s s' assume "run_state (traced name fs body) s = (a, s')"
  then obtain s1 s2 where 1: "length (calls s1) = Suc (length (calls s))"
      "errorStack s1 = errorStack s" "genericError s1 = genericError s"
      "errorManager s1 = errorManager s"
    and run: "run_state (body (length (calls s))) s1 = (a, s2)"
    and out: "stack s2 = stack s1 \<Longrightarrow> stack s' = stack s \<and> calls s' = calls s2
       \<and> genericError s' = genericError s2 \<and> errorManager s' = errorManager s2
       \<and> errorStack s' = (if cc_error (call_at s2 (length (calls s))) \<noteq> None \<and> errorStack s2 = None
                           then Some (stack s2) else errorStack s2)"
    by (rule traced_run) blast
  from run assms have "frame s1 s2" by (blast intro: io_rel_run)
  with 1 out show "frame s s'" by (simp add: frame_def balanced_def)
qed

lemma traced_err_traced:
  "traced_err name fs body = traced name fs (\<lambda>c. do {
     (r, e) \<leftarrow> body c;
     (if e \<noteq> None then do { SetError c e; ret () } else ret ());
     ret r })"
  by (rule state_ext)
     (simp add: traced_def traced_err_def State_Monad.bind_def State_Monad.return_def
        split: prod.splits)

lemma frame_traced_err [io_rel]:
  assumes "\<And>c. state_io_rel frame (body c)"
  shows "state_io_rel frame (traced_err name fs body)"
  unfolding traced_err_traced by (intro io_rel assms)

lemma balanced_traced_err [io_rel]:
  assumes "\<And>c. state_io_rel balanced (body c)"
  shows "state_io_rel balanced (traced_err name fs body)"
  unfolding traced_err_traced
  by (intro balanced_traced io_rel_bind io_rel_prod io_rel_if io_rel_ret preorder_balanced assms
      frame_SetError [THEN frame_balanced])

end
