(* ===== verification/Crud.thy ===== *)
theory Crud
  imports Op_Context
begin

text \<open>
  The create-read-update-delete layer of \<^verbatim>\<open>src/pkg/crud/crud.go\<close> with the update helpers of
  \<^verbatim>\<open>src/pkg/db/db.go\<close>. The interface \<^verbatim>\<open>CRUD\<close> is the record \<open>crud\<close>; its implementation \<^verbatim>\<open>DbCRUD\<close> is a
  value of it over the database handlers. An object of a type with its own table is passed as the
  table's name and the object's row; a read returns the row it has filled the object with.

  What a controller relies on in a CRUD is the locale \<open>crud_contract\<close>, interpreted at the end on
  \<open>DbCRUD\<close> for any handlers.
\<close>

section \<open>The interface\<close>

record 's crud =
  c_Create :: "string \<Rightarrow> fields \<Rightarrow> ('s, err) comp"
  c_CreateDup :: "string \<Rightarrow> fields \<Rightarrow> ('s, bool \<times> err) comp"
  c_Read :: "string \<Rightarrow> fields \<Rightarrow> ('s, fields option \<times> err) comp"
  c_ReadByField :: "string \<Rightarrow> string \<Rightarrow> gval \<Rightarrow> ('s, fields option \<times> err) comp"
  c_ReadForUpdate :: "string \<Rightarrow> fields \<Rightarrow> ('s, fields option \<times> err) comp"
  c_ReadForShare :: "string \<Rightarrow> fields \<Rightarrow> ('s, fields option \<times> err) comp"
  c_Update :: "string \<Rightarrow> string \<Rightarrow> fields \<Rightarrow> ('s, err) comp"
  c_UpdateMulti :: "string \<Rightarrow> fields option \<Rightarrow> fields \<Rightarrow> ('s, err) comp"
  c_UpdateWithFilter :: "string \<Rightarrow> db_filter \<Rightarrow> fields \<Rightarrow> ('s, err) comp"
  c_Delete :: "string \<Rightarrow> string \<Rightarrow> ('s, err) comp"
  c_DeleteByFields :: "string \<Rightarrow> fields \<Rightarrow> ('s, err) comp"
  c_List :: "string \<Rightarrow> db_filter option \<Rightarrow> ('s, (fields list \<times> int) \<times> err) comp"
  c_Exists :: "string \<Rightarrow> db_filter \<Rightarrow> ('s, bool \<times> err) comp"
  c_Join :: "string \<Rightarrow> db_filter \<Rightarrow> ('s, (fields list \<times> int) \<times> err) comp"

section \<open>Reaching the handlers\<close>

definition db_read :: "(databases \<Rightarrow> 'a) \<Rightarrow> ('z sys_scheme, 'a) comp" where
  "db_read f = gets (\<lambda>s. f (dbs s))"

definition db_write :: "(databases \<Rightarrow> 'a \<times> databases) \<Rightarrow> ('z sys_scheme, 'a) comp" where
  "db_write f = do {
     D \<leftarrow> gets dbs;
     modifys (\<lambda>s. s\<lparr>dbs := snd (f D)\<rparr>);
     ret (fst (f D)) }"

text \<open>\<^verbatim>\<open>if err != nil { return c.SetError(err) }; return nil\<close>\<close>

definition set_if_err :: "nat \<Rightarrow> err \<Rightarrow> ('z op_ctx_scheme, err) comp" where
  "set_if_err c e = (if e \<noteq> None then SetError c e else ret None)"

section \<open>The update helpers of the database package\<close>

definition with_updated_at :: "fields \<Rightarrow> ('z sys_scheme, fields) comp" where
  "with_updated_at fs = do {
     let f = CopyMap fs;
     t \<leftarrow> Now;
     ret (map_set f ''updated_at'' (VTime t)) }"

definition db_Update :: "dbhandlers \<Rightarrow> string \<Rightarrow> string \<Rightarrow> string \<Rightarrow> fields \<Rightarrow> ('z sys_scheme, err) comp" where
  "db_Update h d tbl i fs = do {
     f \<leftarrow> with_updated_at fs;
     db_write (h_Update h d tbl [(''id'', VStr i)] f) }"

definition db_UpdateMulti ::
    "dbhandlers \<Rightarrow> string \<Rightarrow> string \<Rightarrow> fields \<Rightarrow> fields \<Rightarrow> ('z sys_scheme, err) comp" where
  "db_UpdateMulti h d tbl flt fs = do {
     f \<leftarrow> with_updated_at fs;
     db_write (h_Update h d tbl flt f) }"

definition db_UpdateAll :: "dbhandlers \<Rightarrow> string \<Rightarrow> string \<Rightarrow> fields \<Rightarrow> ('z sys_scheme, err) comp" where
  "db_UpdateAll h d tbl fs = do {
     f \<leftarrow> with_updated_at fs;
     db_write (h_UpdateAll h d tbl f) }"

definition db_UpdateWithFilter ::
    "dbhandlers \<Rightarrow> string \<Rightarrow> string \<Rightarrow> db_filter \<Rightarrow> fields \<Rightarrow> ('z sys_scheme, err) comp" where
  "db_UpdateWithFilter h d tbl flt fs = do {
     f \<leftarrow> with_updated_at fs;
     db_write (h_UpdateWithFilter h d tbl flt f) }"

section \<open>The database CRUD\<close>

definition DbCRUD_Create ::
    "dbhandlers \<Rightarrow> bool \<Rightarrow> string \<Rightarrow> fields \<Rightarrow> ('z op_ctx_scheme, err) comp" where
  "DbCRUD_Create h main tbl row = traced ''CRUD.Create'' [] (\<lambda>c. do {
     d \<leftarrow> ctx_DB [main];
     e \<leftarrow> db_write (h_Create h d tbl row);
     set_if_err c e })"

definition DbCRUD_CreateDup ::
    "dbhandlers \<Rightarrow> bool \<Rightarrow> string \<Rightarrow> fields \<Rightarrow> ('z op_ctx_scheme, bool \<times> err) comp" where
  "DbCRUD_CreateDup h main tbl row = traced ''CRUD.Create'' [] (\<lambda>c. do {
     d \<leftarrow> ctx_DB [main];
     (duplicate, e) \<leftarrow> db_write (h_CreateDup h d tbl row);
     (if e \<noteq> None then do { e \<leftarrow> SetError c e; ret (duplicate, e) }
      else ret (False, None)) })"

definition DbCRUD_Read ::
    "dbhandlers \<Rightarrow> bool \<Rightarrow> string \<Rightarrow> fields \<Rightarrow> ('z op_ctx_scheme, fields option \<times> err) comp" where
  "DbCRUD_Read h main tbl fs = traced ''CRUD.Read'' [] (\<lambda>c. do {
     d \<leftarrow> ctx_DB [main];
     (found, e) \<leftarrow> db_read (h_FindByFields h d tbl fs);
     e \<leftarrow> set_if_err c e;
     ret (found, e) })"

definition DbCRUD_ReadForUpdate ::
    "dbhandlers \<Rightarrow> bool \<Rightarrow> string \<Rightarrow> fields \<Rightarrow> ('z op_ctx_scheme, fields option \<times> err) comp" where
  "DbCRUD_ReadForUpdate h main tbl fs = traced ''CRUD.ReadForUpdate'' [] (\<lambda>c. do {
     d \<leftarrow> ctx_DB [main];
     (found, e) \<leftarrow> db_read (h_FindForUpdate h d tbl fs);
     e \<leftarrow> set_if_err c e;
     ret (found, e) })"

definition DbCRUD_ReadForShare ::
    "dbhandlers \<Rightarrow> bool \<Rightarrow> string \<Rightarrow> fields \<Rightarrow> ('z op_ctx_scheme, fields option \<times> err) comp" where
  "DbCRUD_ReadForShare h main tbl fs = traced ''CRUD.ReadForShare'' [] (\<lambda>c. do {
     d \<leftarrow> ctx_DB [main];
     (found, e) \<leftarrow> db_read (h_FindForShare h d tbl fs);
     e \<leftarrow> set_if_err c e;
     ret (found, e) })"

definition DbCRUD_ReadByField ::
    "dbhandlers \<Rightarrow> bool \<Rightarrow> string \<Rightarrow> string \<Rightarrow> gval \<Rightarrow> ('z op_ctx_scheme, fields option \<times> err) comp" where
  "DbCRUD_ReadByField h main tbl fieldName fieldValue =
     traced ''CRUD.Read'' [[(fieldName, fieldValue)]] (\<lambda>c. do {
       d \<leftarrow> ctx_DB [main];
       (found, e) \<leftarrow> db_read (h_FindByField h d tbl fieldName fieldValue);
       e \<leftarrow> set_if_err c e;
       ret (found, e) })"

definition DbCRUD_Update ::
    "dbhandlers \<Rightarrow> bool \<Rightarrow> string \<Rightarrow> string \<Rightarrow> fields \<Rightarrow> ('z op_ctx_scheme, err) comp" where
  "DbCRUD_Update h main tbl i fs = traced ''CRUD.Update'' [] (\<lambda>c. do {
     d \<leftarrow> ctx_DB [main];
     e \<leftarrow> db_Update h d tbl i fs;
     set_if_err c e })"

text \<open>A nil filter updates every row.\<close>

definition DbCRUD_UpdateMulti ::
    "dbhandlers \<Rightarrow> bool \<Rightarrow> string \<Rightarrow> fields option \<Rightarrow> fields \<Rightarrow> ('z op_ctx_scheme, err) comp" where
  "DbCRUD_UpdateMulti h main tbl flt fs = traced ''CRUD.UpdateMulti'' [] (\<lambda>c. do {
     d \<leftarrow> ctx_DB [main];
     e \<leftarrow> (case flt of
             None \<Rightarrow> db_UpdateAll h d tbl fs
           | Some f \<Rightarrow> db_UpdateMulti h d tbl f fs);
     set_if_err c e })"

definition DbCRUD_UpdateWithFilter ::
    "dbhandlers \<Rightarrow> bool \<Rightarrow> string \<Rightarrow> db_filter \<Rightarrow> fields \<Rightarrow> ('z op_ctx_scheme, err) comp" where
  "DbCRUD_UpdateWithFilter h main tbl flt fs = traced ''CRUD.UpdateWithFilter'' [] (\<lambda>c. do {
     d \<leftarrow> ctx_DB [main];
     e \<leftarrow> db_UpdateWithFilter h d tbl flt fs;
     set_if_err c e })"

definition DbCRUD_Delete ::
    "dbhandlers \<Rightarrow> bool \<Rightarrow> string \<Rightarrow> string \<Rightarrow> ('z op_ctx_scheme, err) comp" where
  "DbCRUD_Delete h main tbl i = traced ''CRUD.Delete'' [] (\<lambda>c. do {
     d \<leftarrow> ctx_DB [main];
     e \<leftarrow> db_write (h_Delete h d tbl i);
     set_if_err c e })"

definition DbCRUD_DeleteByFields ::
    "dbhandlers \<Rightarrow> bool \<Rightarrow> string \<Rightarrow> fields \<Rightarrow> ('z op_ctx_scheme, err) comp" where
  "DbCRUD_DeleteByFields h main tbl fs = traced ''CRUD.DeleteByFields'' [] (\<lambda>c. do {
     d \<leftarrow> ctx_DB [main];
     e \<leftarrow> db_write (h_DeleteByFields h d tbl fs);
     set_if_err c e })"

definition DbCRUD_List :: "dbhandlers \<Rightarrow> bool \<Rightarrow> string \<Rightarrow> db_filter option
    \<Rightarrow> ('z op_ctx_scheme, (fields list \<times> int) \<times> err) comp" where
  "DbCRUD_List h main tbl flt = traced ''CRUD.List'' [] (\<lambda>c. do {
     d \<leftarrow> ctx_DB [main];
     (rows, count, e) \<leftarrow> db_read (h_FindWithFilter h d tbl flt);
     (if e \<noteq> None then do { e \<leftarrow> SetError c e; ret ((rows, 0), e) }
      else ret ((rows, count), None)) })"

definition DbCRUD_Exists ::
    "dbhandlers \<Rightarrow> bool \<Rightarrow> string \<Rightarrow> db_filter \<Rightarrow> ('z op_ctx_scheme, bool \<times> err) comp" where
  "DbCRUD_Exists h main tbl flt = traced ''CRUD.Exists'' [] (\<lambda>c. do {
     d \<leftarrow> ctx_DB [main];
     (exists, e) \<leftarrow> db_read (h_Exists h d tbl flt);
     (if e \<noteq> None then do { e \<leftarrow> SetError c e; ret (False, e) }
      else ret (exists, None)) })"

definition DbCRUD_Join :: "dbhandlers \<Rightarrow> bool \<Rightarrow> string \<Rightarrow> db_filter
    \<Rightarrow> ('z op_ctx_scheme, (fields list \<times> int) \<times> err) comp" where
  "DbCRUD_Join h main q flt = traced ''CRUD.Join'' [] (\<lambda>c. do {
     d \<leftarrow> ctx_DB [main];
     (rows, count, e) \<leftarrow> db_read (h_Join h d q flt);
     (if e \<noteq> None then do { e \<leftarrow> SetError c e; ret ((rows, 0), e) }
      else ret ((rows, count), None)) })"

definition DbCRUD :: "dbhandlers \<Rightarrow> bool \<Rightarrow> 'z op_ctx_scheme crud" where
  "DbCRUD h main = \<lparr>
     c_Create = DbCRUD_Create h main,
     c_CreateDup = DbCRUD_CreateDup h main,
     c_Read = DbCRUD_Read h main,
     c_ReadByField = DbCRUD_ReadByField h main,
     c_ReadForUpdate = DbCRUD_ReadForUpdate h main,
     c_ReadForShare = DbCRUD_ReadForShare h main,
     c_Update = DbCRUD_Update h main,
     c_UpdateMulti = DbCRUD_UpdateMulti h main,
     c_UpdateWithFilter = DbCRUD_UpdateWithFilter h main,
     c_Delete = DbCRUD_Delete h main,
     c_DeleteByFields = DbCRUD_DeleteByFields h main,
     c_List = DbCRUD_List h main,
     c_Exists = DbCRUD_Exists h main,
     c_Join = DbCRUD_Join h main \<rparr>"

section \<open>The generic helpers\<close>

definition crud_List :: "'z op_ctx_scheme crud \<Rightarrow> string \<Rightarrow> string \<Rightarrow> db_filter option
    \<Rightarrow> ('z op_ctx_scheme, (fields list \<times> int) \<times> err) comp" where
  "crud_List cr methodName tbl flt = traced methodName [] (\<lambda>c. do {
     ((rows, count), e) \<leftarrow> c_List cr tbl flt;
     (if e \<noteq> None then do { e \<leftarrow> SetError c e; ret ((rows, 0), e) }
      else ret ((rows, count), None)) })"

definition crud_Find :: "'z op_ctx_scheme crud \<Rightarrow> string \<Rightarrow> string \<Rightarrow> fields
    \<Rightarrow> ('z op_ctx_scheme, fields option \<times> err) comp" where
  "crud_Find cr methodName tbl fs = traced methodName [] (\<lambda>c. do {
     (found, e) \<leftarrow> c_Read cr tbl fs;
     (if e \<noteq> None then do { e \<leftarrow> SetError c e; ret (None, e) }
      else ret (found, None)) })"

definition crud_FindByField :: "'z op_ctx_scheme crud \<Rightarrow> string \<Rightarrow> string \<Rightarrow> string \<Rightarrow> gval
    \<Rightarrow> ('z op_ctx_scheme, fields option \<times> err) comp" where
  "crud_FindByField cr methodName tbl fieldName fieldValue = traced methodName [] (\<lambda>c. do {
     (found, e) \<leftarrow> c_ReadByField cr tbl fieldName fieldValue;
     (if e \<noteq> None then do { e \<leftarrow> SetError c e; ret (None, e) }
      else ret (found, None)) })"

definition crud_Create :: "'z op_ctx_scheme crud \<Rightarrow> string \<Rightarrow> string \<Rightarrow> fields \<Rightarrow> fields list
    \<Rightarrow> ('z op_ctx_scheme, err) comp" where
  "crud_Create cr methodName tbl row lfs = traced methodName lfs (\<lambda>c. do {
     e \<leftarrow> c_Create cr tbl row;
     set_if_err c e })"

definition crud_Update :: "'z op_ctx_scheme crud \<Rightarrow> string \<Rightarrow> string \<Rightarrow> string \<Rightarrow> fields \<Rightarrow> fields list
    \<Rightarrow> ('z op_ctx_scheme, err) comp" where
  "crud_Update cr methodName tbl i fs lfs = traced methodName lfs (\<lambda>c. do {
     e \<leftarrow> c_Update cr tbl i fs;
     set_if_err c e })"

definition row_str :: "fields \<Rightarrow> string \<Rightarrow> string" where
  "row_str row k = (case map_get row k of Some (VStr v) \<Rightarrow> v | _ \<Rightarrow> [])"

definition crud_FindUpdate :: "'z op_ctx_scheme crud \<Rightarrow> string \<Rightarrow> string \<Rightarrow> string \<Rightarrow> gval \<Rightarrow> fields
    \<Rightarrow> ('z op_ctx_scheme, fields option \<times> err) comp" where
  "crud_FindUpdate cr methodName tbl fieldName fieldValue fs = traced methodName [] (\<lambda>c. do {
     (found, e) \<leftarrow> crud_FindByField cr ''Find'' tbl fieldName fieldValue;
     (if e \<noteq> None then do { e \<leftarrow> SetError c e; ret (None, e) }
      else case found of
        None \<Rightarrow> ret (None, None)
      | Some row \<Rightarrow> do {
          e \<leftarrow> crud_Update cr ''Update'' tbl (row_str row ''id'') fs [];
          (if e \<noteq> None then do { e \<leftarrow> SetError c e; ret (None, e) }
           else ret (Some row, None)) }) })"

definition crud_Delete :: "'z op_ctx_scheme crud \<Rightarrow> string \<Rightarrow> string \<Rightarrow> string \<Rightarrow> gval
    \<Rightarrow> ('z op_ctx_scheme, err) comp" where
  "crud_Delete cr methodName tbl fieldName fieldValue = traced methodName [] (\<lambda>c. do {
     (found, e) \<leftarrow> crud_FindByField cr ''Find'' tbl fieldName fieldValue;
     (if e \<noteq> None then SetError c e
      else case found of
        None \<Rightarrow> ret None
      | Some row \<Rightarrow> do {
          e \<leftarrow> c_Delete cr tbl (row_str row ''id'');
          set_if_err c e }) })"

definition crud_DeleteByFields :: "'z op_ctx_scheme crud \<Rightarrow> string \<Rightarrow> string \<Rightarrow> fields
    \<Rightarrow> ('z op_ctx_scheme, err) comp" where
  "crud_DeleteByFields cr methodName tbl fs = traced methodName [] (\<lambda>c. do {
     e \<leftarrow> c_DeleteByFields cr tbl fs;
     set_if_err c e })"

definition crud_Exists :: "'z op_ctx_scheme crud \<Rightarrow> string \<Rightarrow> string \<Rightarrow> db_filter
    \<Rightarrow> ('z op_ctx_scheme, bool \<times> err) comp" where
  "crud_Exists cr methodName tbl flt = traced methodName [] (\<lambda>c. do {
     (exists, e) \<leftarrow> c_Exists cr tbl flt;
     (if e \<noteq> None then do { e \<leftarrow> SetError c e; ret (False, e) }
      else ret (exists, None)) })"

section \<open>What the handlers are reached by keeps\<close>

lemma frame_db_read [io_rel]: "state_io_rel frame (db_read f)"
  unfolding db_read_def by (intro io_rel)

lemma frame_db_write [io_rel]: "state_io_rel frame (db_write f)"
  unfolding db_write_def by (intro io_rel)

lemma frame_set_if_err [io_rel]: "state_io_rel frame (set_if_err c e)"
  unfolding set_if_err_def by (intro io_rel)

lemma frame_with_updated_at [io_rel]: "state_io_rel frame (with_updated_at fs)"
  unfolding with_updated_at_def by (intro io_rel)

lemma frame_db_Update [io_rel]:
  "state_io_rel frame (db_Update h d tbl i fs)"
  "state_io_rel frame (db_UpdateMulti h d tbl flt fs)"
  "state_io_rel frame (db_UpdateAll h d tbl fs)"
  "state_io_rel frame (db_UpdateWithFilter h d tbl filt fs)"
  unfolding db_Update_def db_UpdateMulti_def db_UpdateAll_def db_UpdateWithFilter_def
  by (intro io_rel)+

lemma keeps_dbs_db_read [io_rel]: "state_io_rel (keeps dbs) (db_read f)"
  unfolding db_read_def by (intro io_rel)

lemma keeps_dbs_SetError [io_rel]: "state_io_rel (keeps dbs) (SetError c e)"
  unfolding SetError_def upd_call_def by (intro io_rel io_rel_modifys) (simp add: keeps_def)

lemma keeps_dbs_set_if_err [io_rel]: "state_io_rel (keeps dbs) (set_if_err c e)"
  unfolding set_if_err_def by (intro io_rel)

lemma keeps_dbs_ctx_DB [io_rel]: "state_io_rel (keeps dbs) (ctx_DB b)"
  unfolding ctx_DB_def by (intro io_rel)

lemma keeps_dbs_TraceIn [io_rel]: "state_io_rel (keeps dbs) (TraceInMethod name fs)"
  unfolding TraceInMethod_def SetLoggerField_def Log_def
  by (intro io_rel io_rel_modifys) (auto simp: keeps_def)

lemma keeps_dbs_TraceOut [io_rel]: "state_io_rel (keeps dbs) TraceOutMethod"
  unfolding TraceOutMethod_def SetLoggerField_def UnsetLoggerField_def Log_def
  by (intro io_rel io_rel_modifys) (auto simp: keeps_def)

lemma keeps_dbs_traced [io_rel]:
  "(\<And>c. state_io_rel (keeps dbs) (body c)) \<Longrightarrow> state_io_rel (keeps dbs) (traced name fs body)"
  unfolding traced_def by (intro io_rel)

section \<open>The contract of the interface\<close>

text \<open>
  What the controllers rely on, whatever is behind the interface: every operation leaves the call
  stack balanced and keeps an error that was already reported, and the reading operations leave
  the databases as they are.
\<close>

locale crud_contract =
  fixes cr :: "'z op_ctx_scheme crud"
  assumes frame_Create [io_rel]: "state_io_rel frame (c_Create cr tbl row)"
    and frame_CreateDup [io_rel]: "state_io_rel frame (c_CreateDup cr tbl row)"
    and frame_Read [io_rel]: "state_io_rel frame (c_Read cr tbl fs)"
    and frame_ReadByField [io_rel]: "state_io_rel frame (c_ReadByField cr tbl k v)"
    and frame_ReadForUpdate [io_rel]: "state_io_rel frame (c_ReadForUpdate cr tbl fs)"
    and frame_ReadForShare [io_rel]: "state_io_rel frame (c_ReadForShare cr tbl fs)"
    and frame_Update [io_rel]: "state_io_rel frame (c_Update cr tbl i fs)"
    and frame_UpdateMulti [io_rel]: "state_io_rel frame (c_UpdateMulti cr tbl mf fs)"
    and frame_UpdateWithFilter [io_rel]: "state_io_rel frame (c_UpdateWithFilter cr tbl flt fs)"
    and frame_Delete [io_rel]: "state_io_rel frame (c_Delete cr tbl i)"
    and frame_DeleteByFields [io_rel]: "state_io_rel frame (c_DeleteByFields cr tbl fs)"
    and frame_List [io_rel]: "state_io_rel frame (c_List cr tbl oflt)"
    and frame_Exists [io_rel]: "state_io_rel frame (c_Exists cr tbl flt)"
    and frame_Join [io_rel]: "state_io_rel frame (c_Join cr tbl flt)"
    and keeps_Read [io_rel]: "state_io_rel (keeps dbs) (c_Read cr tbl fs)"
    and keeps_ReadByField [io_rel]: "state_io_rel (keeps dbs) (c_ReadByField cr tbl k v)"
    and keeps_ReadForUpdate [io_rel]: "state_io_rel (keeps dbs) (c_ReadForUpdate cr tbl fs)"
    and keeps_ReadForShare [io_rel]: "state_io_rel (keeps dbs) (c_ReadForShare cr tbl fs)"
    and keeps_List [io_rel]: "state_io_rel (keeps dbs) (c_List cr tbl oflt)"
    and keeps_Exists [io_rel]: "state_io_rel (keeps dbs) (c_Exists cr tbl flt)"
    and keeps_Join [io_rel]: "state_io_rel (keeps dbs) (c_Join cr tbl flt)"
begin

lemma frame_helpers [io_rel]:
  "state_io_rel frame (crud_List cr m tbl oflt)"
  "state_io_rel frame (crud_Find cr m tbl fs)"
  "state_io_rel frame (crud_FindByField cr m tbl k v)"
  "state_io_rel frame (crud_Create cr m tbl row lfs)"
  "state_io_rel frame (crud_Update cr m tbl i fs lfs)"
  "state_io_rel frame (crud_DeleteByFields cr m tbl fs)"
  "state_io_rel frame (crud_Exists cr m tbl flt)"
  unfolding crud_List_def crud_Find_def crud_FindByField_def crud_Create_def crud_Update_def
    crud_DeleteByFields_def crud_Exists_def
  by (intro io_rel)+

lemma frame_compound [io_rel]:
  "state_io_rel frame (crud_FindUpdate cr m tbl k v fs)"
  "state_io_rel frame (crud_Delete cr m tbl k v)"
  unfolding crud_FindUpdate_def crud_Delete_def by (intro io_rel)+

lemma keeps_helpers [io_rel]:
  "state_io_rel (keeps dbs) (crud_List cr m tbl oflt)"
  "state_io_rel (keeps dbs) (crud_Find cr m tbl fs)"
  "state_io_rel (keeps dbs) (crud_FindByField cr m tbl k v)"
  "state_io_rel (keeps dbs) (crud_Exists cr m tbl flt)"
  unfolding crud_List_def crud_Find_def crud_FindByField_def crud_Exists_def
  by (intro io_rel)+

end

lemmas DbCRUD_defs = DbCRUD_def DbCRUD_Create_def DbCRUD_CreateDup_def DbCRUD_Read_def
  DbCRUD_ReadByField_def DbCRUD_ReadForUpdate_def DbCRUD_ReadForShare_def DbCRUD_Update_def
  DbCRUD_UpdateMulti_def DbCRUD_UpdateWithFilter_def DbCRUD_Delete_def DbCRUD_DeleteByFields_def
  DbCRUD_List_def DbCRUD_Exists_def DbCRUD_Join_def

interpretation dbcrud: crud_contract "DbCRUD h main" for h main
  by unfold_locales (simp only: DbCRUD_defs crud.simps, intro io_rel)+

end
