(* ===== verification/Trace_Refine.thy ===== *)
theory Trace_Refine
  imports Crud
begin

text \<open>
  Tracing refinement. The methods of the program are interleaved with tracing: they push and pop
  call contexts, record errors and messages in them and write to the log. \<open>core\<close> forgets all of
  that, and \<open>refines m n\<close> says that \<open>m\<close> and \<open>n\<close> return the same and lead to states with the same
  core from states with the same core. The rules in the collection \<open>refines\<close> go through the
  program and drop the tracing, so that a method is shown to implement a specification without it.
  The specifications of the CRUD operations are given here.
\<close>

named_theorems refines \<open>rules that relate a traced computation to its specification\<close>
named_theorems wpc \<open>rules for postconditions up to tracing\<close>

section \<open>States up to tracing\<close>

definition core :: "'z op_ctx_scheme \<Rightarrow> 'z op_ctx_scheme" where
  "core s = s\<lparr>calls := [], stack := [], errorStack := None, logs := [], loggerFields := []\<rparr>"

definition refines :: "('z op_ctx_scheme, 'a) comp \<Rightarrow> ('z op_ctx_scheme, 'a) comp \<Rightarrow> bool" where
  "refines m n \<longleftrightarrow> (\<forall>s t. core s = core t \<longrightarrow>
     fst (run_state m s) = fst (run_state n t) \<and>
     core (snd (run_state m s)) = core (snd (run_state n t)))"

lemma core_simps [simp]:
  "core (s\<lparr>calls := c\<rparr>) = core s" "core (s\<lparr>stack := st\<rparr>) = core s"
  "core (s\<lparr>errorStack := es\<rparr>) = core s" "core (s\<lparr>logs := ls\<rparr>) = core s"
  "core (s\<lparr>loggerFields := lf\<rparr>) = core s"
  by (simp_all add: core_def)

lemma core_updates [simp]:
  "core (s\<lparr>times := a\<rparr>) = (core s)\<lparr>times := a\<rparr>"
  "core (s\<lparr>rands := b\<rparr>) = (core s)\<lparr>rands := b\<rparr>"
  "core (s\<lparr>idCount := i\<rparr>) = (core s)\<lparr>idCount := i\<rparr>"
  "core (s\<lparr>dbs := D\<rparr>) = (core s)\<lparr>dbs := D\<rparr>"
  "core (s\<lparr>cached := ch\<rparr>) = (core s)\<lparr>cached := ch\<rparr>"
  "core (s\<lparr>genericError := e\<rparr>) = (core s)\<lparr>genericError := e\<rparr>"
  "core (s\<lparr>oplogs := ol\<rparr>) = (core s)\<lparr>oplogs := ol\<rparr>"
  "core (s\<lparr>curDb := d\<rparr>) = (core s)\<lparr>curDb := d\<rparr>"
  "core (s\<lparr>panicked := p\<rparr>) = (core s)\<lparr>panicked := p\<rparr>"
  "core (s\<lparr>lastSmsCode := sc\<rparr>) = (core s)\<lparr>lastSmsCode := sc\<rparr>"
  "core (s\<lparr>curCache := cn\<rparr>) = (core s)\<lparr>curCache := cn\<rparr>"
  by (simp_all add: core_def)

lemma core_reads [simp]:
  "times (core s) = times s" "rands (core s) = rands s" "idCount (core s) = idCount s"
  "dbs (core s) = dbs s" "cached (core s) = cached s" "panicked (core s) = panicked s"
  "lastSmsCode (core s) = lastSmsCode s"
  "genericError (core s) = genericError s" "ctx_id (core s) = ctx_id s"
  "ctx_name (core s) = ctx_name s" "errorAsWarn (core s) = errorAsWarn s"
  "oplogs (core s) = oplogs s" "origin (core s) = origin s"
  "writeCloseLog (core s) = writeCloseLog s" "mainDb (core s) = mainDb s"
  "curDb (core s) = curDb s" "curCache (core s) = curCache s" "dbTransaction (core s) = dbTransaction s"
  "errorManager (core s) = errorManager s" "op_ctx.more (core s) = op_ctx.more s"
  by (simp_all add: core_def)

lemma core_core [simp]: "core (core s) = core s"
  by (simp add: core_def)

lemma core_eqD:
  assumes "core s = core t"
  shows "times s = times t" "rands s = rands t" "idCount s = idCount t" "dbs s = dbs t"
    "cached s = cached t" "genericError s = genericError t" "ctx_id s = ctx_id t"
    "ctx_name s = ctx_name t" "oplogs s = oplogs t" "origin s = origin t" "mainDb s = mainDb t"
    "curDb s = curDb t" "dbTransaction s = dbTransaction t" "errorManager s = errorManager t"
    "op_ctx.more s = op_ctx.more t"
  using assms by (metis core_reads)+

section \<open>Rules\<close>

lemma refinesI:
  assumes "\<And>s t. core s = core t \<Longrightarrow> fst (run_state m s) = fst (run_state n t)"
    and "\<And>s t. core s = core t \<Longrightarrow> core (snd (run_state m s)) = core (snd (run_state n t))"
  shows "refines m n"
  using assms by (simp add: refines_def)

lemma refines_fst: "refines m n \<Longrightarrow> fst (run_state m s) = fst (run_state n s)"
  by (simp add: refines_def)

lemma refines_core: "refines m n \<Longrightarrow> core (snd (run_state m s)) = core (snd (run_state n s))"
  by (simp add: refines_def)

lemma refines_sym: "refines m n \<Longrightarrow> refines n m"
  unfolding refines_def by metis

lemma refines_trans: "refines m n \<Longrightarrow> refines n k \<Longrightarrow> refines m k"
  unfolding refines_def by metis

text \<open>A postcondition that does not look at the tracing may be proved of the specification.\<close>

lemma wp_refines:
  assumes "refines m n" "wp n Q s" "\<And>r s t. core s = core t \<Longrightarrow> Q r s = Q r t"
  shows "wp m Q s"
  using assms(2) refines_fst [OF assms(1), of s] refines_core [OF assms(1), of s]
    assms(3) [of "snd (run_state m s)" "snd (run_state n s)"]
  by (simp add: wp_def case_prod_unfold)

lemma refines_ret [refines]: "refines (ret x) (ret x)"
  by (simp add: refines_def)

lemma refines_gets [refines]: "(\<And>s. f (core s) = f s) \<Longrightarrow> refines (gets f) (gets f)"
  by (simp add: refines_def) metis

lemma refines_modifys [refines]:
  "(\<And>s. core (f (core s)) = core (f s)) \<Longrightarrow> refines (modifys f) (modifys f)"
  by (simp add: refines_def) metis

lemma refines_bind [refines]:
  assumes "refines m m'" "\<And>x. refines (f x) (f' x)"
  shows "refines (State_Monad.bind m f) (State_Monad.bind m' f')"
  using assms unfolding refines_def by (simp add: case_prod_unfold)

lemma refines_if [refines]:
  "(b \<Longrightarrow> refines m m') \<Longrightarrow> (\<not> b \<Longrightarrow> refines n n') \<Longrightarrow>
   refines (if b then m else n) (if b then m' else n')"
  by simp

lemma refines_option [refines]:
  "refines m m' \<Longrightarrow> (\<And>y. refines (n y) (n' y)) \<Longrightarrow>
   refines (case x of None \<Rightarrow> m | Some y \<Rightarrow> n y) (case x of None \<Rightarrow> m' | Some y \<Rightarrow> n' y)"
  by (cases x) auto

lemma refines_prod [refines]:
  "(\<And>a b. refines (m a b) (m' a b)) \<Longrightarrow>
   refines (case p of (a, b) \<Rightarrow> m a b) (case p of (a, b) \<Rightarrow> m' a b)"
  by (cases p) auto

lemma refines_prod_app [refines]:
  "(\<And>a b. refines (m a b y) (m' a b y)) \<Longrightarrow>
   refines ((case p of (a, b) \<Rightarrow> m a b) y) ((case p of (a, b) \<Rightarrow> m' a b) y)"
  by (cases p) auto

text \<open>Steps that only trace are dropped.\<close>

lemma silent_Log [refines]: "refines (Log lv msg e fs) (ret ())"
  by (simp add: refines_def Log_def)

lemma silent_SetLoggerField [refines]: "refines (SetLoggerField name val) (ret ())"
  by (simp add: refines_def SetLoggerField_def)

lemma silent_upd_call [refines]: "refines (upd_call c f) (ret ())"
  by (simp add: refines_def upd_call_def)

lemma silent_SetMessage [refines]: "refines (SetMessage c msg) (ret ())"
  by (simp add: refines_def SetMessage_def upd_call_def)

lemma silent_SetCallField [refines]: "refines (SetCallField c n v) (ret ())"
  by (simp add: refines_def SetCallField_def upd_call_def)

lemma silent_SetError [refines]: "refines (SetError c e) (ret e)"
  by (simp add: refines_def SetError_def upd_call_def)

lemma silent_set_if_err [refines]: "refines (set_if_err c e) (ret e)"
  by (auto simp: refines_def set_if_err_def SetError_def upd_call_def)

lemma refines_skip:
  assumes "refines m (ret x)" "refines (f x) n"
  shows "refines (State_Monad.bind m f) n"
  using assms unfolding refines_def by (simp add: case_prod_unfold) 

lemma refines_let [refines]: "refines (f v) (g v) \<Longrightarrow> refines (Let v f) (Let v g)"
  by simp

lemma core_TraceIn: "core (snd (run_state (TraceInMethod name fs) s)) = core s"
  by (simp add: TraceInMethod_def SetLoggerField_def Log_def)

lemma core_TraceOut: "core (snd (run_state TraceOutMethod s)) = core s"
  by (simp add: TraceOutMethod_def SetLoggerField_def UnsetLoggerField_def Log_def)

text \<open>The body of a traced method runs from a state with the core of the caller's.\<close>

lemma refines_body:
  assumes "\<And>c. refines (body c) n" "core s = core t" "run_state (TraceInMethod name fs) s = (c, s1)"
    and "run_state (body c) s1 = (r, s2)"
  shows "r = fst (run_state n t)" "core s2 = core (snd (run_state n t))"
proof -
  from assms(2,3) have "core s1 = core t" using core_TraceIn [of name fs s] by simp
  with assms(1) have "fst (run_state (body c) s1) = fst (run_state n t)"
    "core (snd (run_state (body c) s1)) = core (snd (run_state n t))"
    unfolding refines_def by blast+
  with assms(4) show "r = fst (run_state n t)" "core s2 = core (snd (run_state n t))" by simp_all
qed

lemma run_TraceIn_obtain:
  obtains c s1 where "run_state (TraceInMethod name fs) s = (c, s1)"
  by fastforce

lemma refines_traced [refines]:
  fixes n :: "('z op_ctx_scheme, 'a) comp"
  assumes "\<And>c. refines (body c) n"
  shows "refines (traced name fs body) n"
proof (rule refinesI)
  fix s t :: "'z op_ctx_scheme" assume eq: "core s = core t"
  obtain c s1 where i: "run_state (TraceInMethod name fs) s = (c, s1)" by (rule run_TraceIn_obtain)
  obtain r s2 where b: "run_state (body c) s1 = (r, s2)" by fastforce
  note * = refines_body [where body = body and n = n, OF assms eq i b]
  have tr: "run_state (traced name fs body) s = (r, snd (run_state TraceOutMethod s2))"
    using i b by (simp add: traced_def case_prod_unfold)
  show "fst (run_state (traced name fs body) s) = fst (run_state n t)"
    using * by (simp add: tr)
  show "core (snd (run_state (traced name fs body) s)) = core (snd (run_state n t))"
    using * by (simp add: tr core_TraceOut)
qed

lemma refines_traced_err [refines]:
  assumes "\<And>c. refines (body c) n"
  shows "refines (traced_err name fs body) (do { (r, e) \<leftarrow> n; ret r })"
  unfolding traced_err_traced
proof (rule refines_traced)
  fix c
  have "refines (if e \<noteq> None then do { SetError c e; ret () } else ret ()) (ret ())" for e
    by (auto simp: refines_def SetError_def upd_call_def)
  from this show "refines (do { (r, e) \<leftarrow> body c;
       (if e \<noteq> None then do { SetError c e; ret () } else ret ()); ret r }) (do { (r, e) \<leftarrow> n; ret r })"
    by (intro refines_bind refines_prod assms) (rule refines_skip, assumption, rule refines_ret)
qed

section \<open>Postconditions up to tracing\<close>

text \<open>
  \<open>wpc m Q k\<close>: run from any state with the core of \<open>k\<close>, the computation ends with a result and a core
  that satisfy \<open>Q\<close>. The rules of \<open>wpc\<close> are applied backwards through the program; they skip the
  tracing and leave one condition for each path.
\<close>

definition wpc :: "('z op_ctx_scheme, 'a) comp \<Rightarrow> ('a \<Rightarrow> 'z op_ctx_scheme \<Rightarrow> bool)
    \<Rightarrow> 'z op_ctx_scheme \<Rightarrow> bool" where
  "wpc m Q k \<longleftrightarrow> (\<forall>s. core s = core k \<longrightarrow>
     Q (fst (run_state m s)) (core (snd (run_state m s))))"

lemma wpcD: "wpc m Q s \<Longrightarrow> Q (fst (run_state m s)) (core (snd (run_state m s)))"
  by (simp add: wpc_def)

lemma wpcE:
  assumes "wpc m Q s" "run_state m s = (r, s')"
  shows "Q r (core s')"
  using wpcD [OF assms(1)] assms(2) by simp

lemma wpc_core: "wpc m Q (core k) \<longleftrightarrow> wpc m Q k"
  by (simp add: wpc_def)

lemma wpc_ret [wpc]: "Q x (core k) \<Longrightarrow> wpc (ret x) Q k"
  by (simp add: wpc_def)

lemma wpc_bind [wpc]:
  assumes "wpc m (\<lambda>x k'. wpc (f x) Q k') k"
  shows "wpc (State_Monad.bind m f) Q k"
  unfolding wpc_def
proof (intro allI impI)
  fix s assume "core s = core k"
  with assms have "wpc (f (fst (run_state m s))) Q (core (snd (run_state m s)))"
    by (simp add: wpc_def)
  then have "wpc (f (fst (run_state m s))) Q (snd (run_state m s))" by (simp only: wpc_core)
  from wpcD [OF this] show "Q (fst (run_state (State_Monad.bind m f) s))
      (core (snd (run_state (State_Monad.bind m f) s)))"
    by (simp add: case_prod_unfold)
qed

lemma wpc_gets [wpc]:
  assumes "\<And>s. f (core s) = f s" "Q (f k) (core k)"
  shows "wpc (gets f) Q k"
  using assms unfolding wpc_def by (metis fst_conv run_gets snd_conv)

lemma wpc_modifys [wpc]:
  assumes "\<And>s. core (f (core s)) = core (f s)" "Q () (core (f k))"
  shows "wpc (modifys f) Q k"
  using assms unfolding wpc_def by (metis fst_conv run_modifys snd_conv)

lemma wpc_refines:
  assumes "refines m n" "wpc n Q k"
  shows "wpc m Q k"
  using assms unfolding wpc_def refines_def by metis

lemma wpc_silent:
  assumes "refines m (ret x)" "Q x (core k)"
  shows "wpc m Q k"
  by (rule wpc_refines [OF assms(1)], rule wpc_ret, rule assms(2))

lemmas wpc_tracing [wpc] = wpc_silent [OF silent_Log] wpc_silent [OF silent_SetLoggerField]
  wpc_silent [OF silent_upd_call] wpc_silent [OF silent_SetMessage]
  wpc_silent [OF silent_SetCallField] wpc_silent [OF silent_SetError]
  wpc_silent [OF silent_set_if_err]

lemma wpc_if [wpc]:
  "(b \<Longrightarrow> wpc m Q k) \<Longrightarrow> (\<not> b \<Longrightarrow> wpc n Q k) \<Longrightarrow> wpc (if b then m else n) Q k"
  by simp

lemma wpc_option [wpc]:
  "(x = None \<Longrightarrow> wpc m Q k) \<Longrightarrow> (\<And>y. x = Some y \<Longrightarrow> wpc (n y) Q k) \<Longrightarrow>
   wpc (case x of None \<Rightarrow> m | Some y \<Rightarrow> n y) Q k"
  by (cases x) auto

lemma wpc_prod [wpc]:
  "(\<And>a b. p = (a, b) \<Longrightarrow> wpc (m a b) Q k) \<Longrightarrow> wpc (case p of (a, b) \<Rightarrow> m a b) Q k"
  by (cases p) auto

lemma wpc_prod_app [wpc]:
  "(\<And>a b. p = (a, b) \<Longrightarrow> wpc (m a b y) Q k) \<Longrightarrow> wpc ((case p of (a, b) \<Rightarrow> m a b) y) Q k"
  by (cases p) auto

lemma wpc_let [wpc]: "(\<And>x. x = v \<Longrightarrow> wpc (m x) Q k) \<Longrightarrow> wpc (Let v m) Q k"
  by simp

lemma wpc_traced [wpc]:
  assumes "\<And>c. wpc (body c) Q k"
  shows "wpc (traced name fs body) Q k"
  unfolding wpc_def
proof (intro allI impI)
  fix s assume eq: "core s = core k"
  obtain c s1 where i: "run_state (TraceInMethod name fs) s = (c, s1)" by (rule run_TraceIn_obtain)
  then have "core s1 = core k" using eq core_TraceIn [of name fs s] by simp
  with assms have "Q (fst (run_state (body c) s1)) (core (snd (run_state (body c) s1)))"
    by (simp add: wpc_def)
  then show "Q (fst (run_state (traced name fs body) s)) (core (snd (run_state (traced name fs body) s)))"
    by (simp add: traced_def i case_prod_unfold core_TraceOut)
qed

lemma wpc_mono:
  assumes "wpc m P k" "\<And>r k'. core k' = k' \<Longrightarrow> P r k' \<Longrightarrow> Q r k'"
  shows "wpc m Q k"
  using assms by (simp add: wpc_def)

lemma wpc_conj: "wpc m P k \<Longrightarrow> wpc m Q k \<Longrightarrow> wpc m (\<lambda>r k'. P r k' \<and> Q r k') k"
  by (simp add: wpc_def)

lemma wpc_traced_err [wpc]:
  assumes "\<And>c. wpc (body c) (\<lambda>(r, e). Q r) k"
  shows "wpc (traced_err name fs body) Q k"
  unfolding traced_err_traced
  by (intro wpc_traced wpc_bind, rule wpc_mono [OF assms]) (auto intro!: wpc split: prod.splits)

lemma wpc_keeps:
  assumes "state_io_rel (keeps f) m" "\<And>s. f (core s) = f s"
    and "\<And>r k'. core k' = k' \<Longrightarrow> f k' = f k \<Longrightarrow> Q r k'"
  shows "wpc m Q k"
  unfolding wpc_def
proof (intro allI impI)
  fix s assume eq: "core s = core k"
  have "f (core (snd (run_state m s))) = f k"
    using keepsD [OF assms(1), of s] assms(2) eq by metis
  then show "Q (fst (run_state m s)) (core (snd (run_state m s)))" by (rule assms(3) [rotated]) simp
qed

lemma wpc_result:
  assumes "\<And>s. wp m (\<lambda>r _. P r) s" "\<And>r k'. core k' = k' \<Longrightarrow> P r \<Longrightarrow> Q r k'"
  shows "wpc m Q k"
  using assms by (auto simp: wpc_def wp_fst)

lemma wpc_Now [wpc]:
  "Q (times k 0) (core (k\<lparr>times := (\<lambda>i. times k (Suc i))\<rparr>)) \<Longrightarrow> wpc Now Q k"
  unfolding wpc_def by (metis core_eqD(1) core_updates(1) fst_conv run_Now snd_conv)

lemma wpc_draw [wpc]:
  "Q (rands k 0) (core (k\<lparr>rands := (\<lambda>i. rands k (Suc i))\<rparr>)) \<Longrightarrow> wpc draw Q k"
  unfolding wpc_def by (metis core_eqD(2) core_updates(2) fst_conv run_draw snd_conv)

text \<open>The generic error that a code sets: the first one stays.\<close>

definition with_code :: "string \<Rightarrow> 'z op_ctx_scheme \<Rightarrow> 'z op_ctx_scheme" where
  "with_code code k = (if genericError k = None
     then k\<lparr>genericError := Some (MakeGenericError_mgr (errorManager k) code [\<lambda>p. p])\<rparr> else k)"

lemma core_with_code [simp]: "core (with_code code k) = with_code code (core k)"
  by (simp add: with_code_def)

lemma genericError_with_code [simp]:
  "genericError (with_code code k) \<noteq> None" "\<exists>y. genericError (with_code code k) = Some y"
  by (simp_all add: with_code_def)

lemma wpc_SetGenericErrorCode [wpc]:
  "Q () (core (with_code code k)) \<Longrightarrow> wpc (SetGenericErrorCode code []) Q k"
  unfolding SetGenericErrorCode_def MakeGenericError_def SetGenericError_def
  by (intro wpc) (auto simp: with_code_def)

lemma wpc_go_panic [wpc]: "Q x (core (k\<lparr>panicked := True\<rparr>)) \<Longrightarrow> wpc (go_panic x) Q k"
  unfolding go_panic_def by (intro wpc) simp_all

text \<open>Tracing keeps whatever does not look at it.\<close>

lemma keeps_core_eq:
  "(\<And>s. f (core s) = f s) \<Longrightarrow> (\<And>s. core (snd (run_state m s)) = core s) \<Longrightarrow> state_io_rel (keeps f) m"
  unfolding state_io_rel_def keeps_def by (metis snd_conv)

lemma keeps_silent:
  assumes "refines m (ret x)" "\<And>s. f (core s) = f s"
  shows "state_io_rel (keeps f) m"
  using assms refines_core [OF assms(1)] by (intro keeps_core_eq) simp_all

lemmas keeps_tracing [io_rel] = keeps_silent [OF silent_Log] keeps_silent [OF silent_SetLoggerField]
  keeps_silent [OF silent_upd_call] keeps_silent [OF silent_SetMessage]
  keeps_silent [OF silent_SetCallField] keeps_silent [OF silent_SetError]
  keeps_silent [OF silent_set_if_err]

lemma keeps_traced [io_rel]:
  assumes "\<And>s. f (core s) = f s" "\<And>c. state_io_rel (keeps f) (body c)"
  shows "state_io_rel (keeps f) (traced name fs body)"
  unfolding traced_def
  by (intro io_rel_bind io_rel_ret preorder_keeps assms)
     (rule keeps_core_eq, rule assms, simp add: core_TraceIn core_TraceOut)+

lemma keeps_traced_err [io_rel]:
  assumes "\<And>s. f (core s) = f s" "\<And>c. state_io_rel (keeps f) (body c)"
  shows "state_io_rel (keeps f) (traced_err name fs body)"
  unfolding traced_err_traced by (intro io_rel assms)

lemma keeps_SetGenericErrorCode [io_rel]:
  "(\<And>s e. f (s\<lparr>genericError := e\<rparr>) = f s) \<Longrightarrow> state_io_rel (keeps f) (SetGenericErrorCode code b)"
  unfolding SetGenericErrorCode_def MakeGenericError_def SetGenericError_def
  by (intro io_rel io_rel_modifys) (simp_all add: keeps_def)

section \<open>Specification of the database CRUD\<close>

text \<open>Each operation reaches the handlers of the chosen database once and passes their answer on.\<close>

definition spec_read :: "bool \<Rightarrow> (string \<Rightarrow> databases \<Rightarrow> 'a) \<Rightarrow> ('z op_ctx_scheme, 'a) comp" where
  "spec_read main f = do { d \<leftarrow> ctx_DB [main]; db_read (f d) }"

definition spec_write ::
    "bool \<Rightarrow> (string \<Rightarrow> databases \<Rightarrow> 'a \<times> databases) \<Rightarrow> ('z op_ctx_scheme, 'a) comp" where
  "spec_write main f = do { d \<leftarrow> ctx_DB [main]; db_write (f d) }"

definition spec_update ::
    "bool \<Rightarrow> (string \<Rightarrow> fields \<Rightarrow> databases \<Rightarrow> 'a \<times> databases) \<Rightarrow> fields \<Rightarrow> ('z op_ctx_scheme, 'a) comp" where
  "spec_update main f fs = do {
     d \<leftarrow> ctx_DB [main];
     t \<leftarrow> Now;
     db_write (f d (map_set (CopyMap fs) ''updated_at'' (VTime t))) }"

lemma refines_ctx_DB [refines]: "refines (ctx_DB b) (ctx_DB b)"
  unfolding ctx_DB_def by (rule refines_gets) (simp split: option.splits)

lemma refines_db_read [refines]: "refines (db_read f) (db_read f)"
  unfolding db_read_def by (rule refines_gets) simp

lemma refines_set_dbs [refines]: "refines (modifys (\<lambda>s. s\<lparr>dbs := f (dbs s)\<rparr>)) (modifys (\<lambda>s. s\<lparr>dbs := f (dbs s)\<rparr>))"
  by (rule refines_modifys) simp

lemma refines_db_write [refines]: "refines (db_write f) (db_write f)"
  unfolding db_write_def by (rule refines_bind, rule refines_gets, simp)
    (rule refines_bind, rule refines_modifys, simp, rule refines_ret)

lemma refines_Now [refines]: "refines Now Now"
  unfolding Now_def by (rule refines_bind, rule refines_gets, simp)
    (rule refines_bind, rule refines_modifys, simp, rule refines_ret)

lemma refines_draw [refines]: "refines draw draw"
  unfolding draw_def by (rule refines_bind, rule refines_gets, simp)
    (rule refines_bind, rule refines_modifys, simp, rule refines_ret)

lemma bind_ret_right [simp]: "State_Monad.bind m ret = m"
  by (rule state_ext) (simp add: State_Monad.bind_def State_Monad.return_def)

lemma refines_set_err [refines]:
  assumes "refines m n"
  shows "refines (do { e \<leftarrow> m; set_if_err c e }) n"
proof -
  have "refines (do { e \<leftarrow> m; set_if_err c e }) (do { e \<leftarrow> n; ret e })"
    by (intro refines_bind assms silent_set_if_err)
  then show ?thesis by simp
qed

lemma refines_read_err:
  assumes "refines m n"
  shows "refines (do { (r, e) \<leftarrow> m; e \<leftarrow> set_if_err c e; ret (r, e) }) n"
proof -
  have "refines (do { (r, e) \<leftarrow> m; e \<leftarrow> set_if_err c e; ret (r, e) }) (do { (r, e) \<leftarrow> n; ret (r, e) })"
    by (intro refines_bind refines_prod assms, rule refines_skip, rule silent_set_if_err, rule refines_ret)
  then show ?thesis by simp
qed

lemma DbCRUD_Read_spec [refines]:
  "refines (c_Read (DbCRUD h main) tbl fs) (spec_read main (\<lambda>d. h_FindByFields h d tbl fs))"
  "refines (c_ReadForUpdate (DbCRUD h main) tbl fs) (spec_read main (\<lambda>d. h_FindForUpdate h d tbl fs))"
  "refines (c_ReadForShare (DbCRUD h main) tbl fs) (spec_read main (\<lambda>d. h_FindForShare h d tbl fs))"
  "refines (c_ReadByField (DbCRUD h main) tbl k v) (spec_read main (\<lambda>d. h_FindByField h d tbl k v))"
  unfolding DbCRUD_defs crud.simps spec_read_def
  by (intro refines_traced refines_bind refines_ctx_DB refines_read_err refines_db_read)+

lemma DbCRUD_write_spec [refines]:
  "refines (c_Create (DbCRUD h main) tbl row) (spec_write main (\<lambda>d. h_Create h d tbl row))"
  "refines (c_Delete (DbCRUD h main) tbl i) (spec_write main (\<lambda>d. h_Delete h d tbl i))"
  "refines (c_DeleteByFields (DbCRUD h main) tbl fs) (spec_write main (\<lambda>d. h_DeleteByFields h d tbl fs))"
  unfolding DbCRUD_defs crud.simps spec_write_def
  by (intro refines_traced refines_bind [OF refines_ctx_DB] refines_set_err refines_db_write)+

lemma refines_update:
  "refines (with_updated_at fs) (do { t \<leftarrow> Now; ret (map_set (CopyMap fs) ''updated_at'' (VTime t)) })"
  unfolding with_updated_at_def Let_def by (intro refines)

lemma DbCRUD_update_spec [refines]:
  "refines (c_Update (DbCRUD h main) tbl i fs)
     (spec_update main (\<lambda>d. h_Update h d tbl [(''id'', VStr i)]) fs)"
  "refines (c_UpdateMulti (DbCRUD h main) tbl (Some flt) fs)
     (spec_update main (\<lambda>d. h_Update h d tbl flt) fs)"
  "refines (c_UpdateMulti (DbCRUD h main) tbl None fs)
     (spec_update main (\<lambda>d. h_UpdateAll h d tbl) fs)"
  "refines (c_UpdateWithFilter (DbCRUD h main) tbl filt fs)
     (spec_update main (\<lambda>d. h_UpdateWithFilter h d tbl filt) fs)"
  unfolding DbCRUD_defs crud.simps spec_update_def db_Update_def db_UpdateMulti_def
    db_UpdateAll_def db_UpdateWithFilter_def with_updated_at_def Let_def option.case
  by (intro refines_traced refines_bind [OF refines_ctx_DB] refines_set_err, simp,
      intro refines_bind [OF refines_Now] refines_db_write)+

section \<open>Postconditions of the database CRUD\<close>

definition db_for :: "bool \<Rightarrow> 'z op_ctx_scheme \<Rightarrow> string" where
  "db_for main s = (case dbTransaction s of
     Some tx \<Rightarrow> tx | None \<Rightarrow> if main then mainDb s else curDb s)"

definition stamped :: "fields \<Rightarrow> int \<Rightarrow> fields" where
  "stamped fs t = map_set (CopyMap fs) ''updated_at'' (VTime t)"

lemma wf_stamped [simp]: "wf_map (stamped fs t)"
  by (simp add: stamped_def wf_map_set)

lemma map_get_stamped [simp]: "map_get (stamped fs t) k =
    (if k = ''updated_at'' then Some (VTime t) else map_option copy_entry (map_get fs k))"
  by (simp add: stamped_def map_get_CopyMap)

lemma db_for_core [simp]: "db_for main (core s) = db_for main s"
  by (simp add: db_for_def split: option.splits)

lemma db_for_updates [simp]:
  "db_for main (s\<lparr>times := a\<rparr>) = db_for main s" "db_for main (s\<lparr>rands := b\<rparr>) = db_for main s"
  "db_for main (s\<lparr>idCount := c\<rparr>) = db_for main s" "db_for main (s\<lparr>dbs := D\<rparr>) = db_for main s"
  "db_for main (s\<lparr>oplogs := ol\<rparr>) = db_for main s" "db_for main (s\<lparr>cached := ch\<rparr>) = db_for main s"
  "db_for main (s\<lparr>genericError := e\<rparr>) = db_for main s"
  by (simp_all add: db_for_def cong: option.case_cong)

lemma wpc_ctx_DB [wpc]: "Q (db_for main k) (core k) \<Longrightarrow> wpc (ctx_DB [main]) Q k"
  unfolding ctx_DB_def by (rule wpc_gets) (auto simp: db_for_def split: option.splits if_splits)

lemma wpc_db_read [wpc]: "Q (f (dbs k)) (core k) \<Longrightarrow> wpc (db_read f) Q k"
  unfolding db_read_def by (rule wpc_gets) simp_all

lemma wpc_db_write [wpc]:
  "Q (fst (f (dbs k))) (core (k\<lparr>dbs := snd (f (dbs k))\<rparr>)) \<Longrightarrow> wpc (db_write f) Q k"
  unfolding db_write_def by (intro wpc_bind wpc_gets wpc_modifys wpc_ret) simp_all

lemma wpc_spec_read:
  "Q (f (db_for main k) (dbs k)) (core k) \<Longrightarrow> wpc (spec_read main f) Q k"
  unfolding spec_read_def by (intro wpc_bind wpc_ctx_DB wpc_db_read) simp

lemma wpc_spec_write:
  "Q (fst (f (db_for main k) (dbs k))) (core (k\<lparr>dbs := snd (f (db_for main k) (dbs k))\<rparr>)) \<Longrightarrow>
   wpc (spec_write main f) Q k"
  unfolding spec_write_def by (intro wpc_bind wpc_ctx_DB wpc_db_write) simp

lemma wpc_spec_update:
  assumes "Q (fst (f (db_for main k) (stamped fs (times k 0)) (dbs k)))
     (core (k\<lparr>times := (\<lambda>i. times k (Suc i)),
            dbs := snd (f (db_for main k) (stamped fs (times k 0)) (dbs k))\<rparr>))"
  shows "wpc (spec_update main f fs) Q k"
  unfolding spec_update_def
  by (intro wpc_bind wpc_ctx_DB wpc_Now wpc_db_write) (use assms in \<open>simp add: stamped_def\<close>)

lemmas wpc_DbCRUD_reads [wpc] =
  wpc_refines [OF DbCRUD_Read_spec(1), OF wpc_spec_read]
  wpc_refines [OF DbCRUD_Read_spec(2), OF wpc_spec_read]
  wpc_refines [OF DbCRUD_Read_spec(3), OF wpc_spec_read]
  wpc_refines [OF DbCRUD_Read_spec(4), OF wpc_spec_read]

lemmas wpc_DbCRUD_writes [wpc] =
  wpc_refines [OF DbCRUD_write_spec(1), OF wpc_spec_write]
  wpc_refines [OF DbCRUD_write_spec(2), OF wpc_spec_write]
  wpc_refines [OF DbCRUD_write_spec(3), OF wpc_spec_write]
  wpc_refines [OF DbCRUD_update_spec(1), OF wpc_spec_update]
  wpc_refines [OF DbCRUD_update_spec(2), OF wpc_spec_update]
  wpc_refines [OF DbCRUD_update_spec(3), OF wpc_spec_update]
  wpc_refines [OF DbCRUD_update_spec(4), OF wpc_spec_update]

lemma wpc_DbCRUD_List [wpc]:
  assumes "\<And>rows n e. h_FindWithFilter h (db_for main k) tbl flt (dbs k) = (rows, n, e) \<Longrightarrow>
     Q ((rows, if e = None then n else 0), e) (core k)"
  shows "wpc (c_List (DbCRUD h main) tbl flt) Q k"
  unfolding DbCRUD_defs crud.simps by (intro wpc) (use assms in auto)

lemma wpc_DbCRUD_Exists [wpc]:
  assumes "\<And>b e. h_Exists h (db_for main k) tbl flt (dbs k) = (b, e) \<Longrightarrow>
     Q (if e = None then b else False, e) (core k)"
  shows "wpc (c_Exists (DbCRUD h main) tbl flt) Q k"
  unfolding DbCRUD_defs crud.simps by (intro wpc) (use assms in auto)

text \<open>Identifiers and new objects.\<close>

lemma wpc_GenerateID [wpc]:
  assumes "\<And>i tm rd ic. Q i (core (k\<lparr>times := tm, rands := rd, idCount := ic\<rparr>))"
  shows "wpc GenerateID Q k"
  unfolding GenerateID_def by (intro wpc) (use assms in simp_all)

lemma wpc_InitObject [wpc]:
  assumes "\<And>i t tm rd ic. Q (ob\<lparr>obj_id := i, created_at := t, updated_at := t\<rparr>)
     (core (k\<lparr>times := tm, rands := rd, idCount := ic\<rparr>))"
  shows "wpc (InitObject ob) Q k"
proof -
  have eq: "(core k)\<lparr>rands := rd, idCount := ic, times := tm\<rparr>
      = (core k)\<lparr>times := tm, rands := rd, idCount := ic\<rparr>" for tm rd ic by simp
  show ?thesis
    unfolding InitObject_def InitCreatedAt_def SetID_def Let_def
    by (intro wpc) (use assms in \<open>simp_all add: eq\<close>)
qed

lemma wpc_Oplog [wpc]: "Q () (core (k\<lparr>oplogs := oplogs k @ [ol]\<rparr>)) \<Longrightarrow> wpc (Oplog ol) Q k"
  unfolding Oplog_def by (rule wpc_modifys) simp_all

section \<open>What the database CRUD keeps\<close>

lemma keeps_ctx_DB [io_rel]: "state_io_rel (keeps f) (ctx_DB b)"
  unfolding ctx_DB_def by (intro io_rel)

lemma keeps_db_read [io_rel]: "state_io_rel (keeps f) (db_read g)"
  unfolding db_read_def by (intro io_rel)

lemma keeps_db_write [io_rel]:
  "(\<And>s D. f (s\<lparr>dbs := D\<rparr>) = f s) \<Longrightarrow> state_io_rel (keeps f) (db_write g)"
  unfolding db_write_def by (intro io_rel io_rel_modifys) (simp add: keeps_def)

lemma keeps_DbCRUD_reads [io_rel]:
  assumes "\<And>s. f (core s) = f s"
  shows "state_io_rel (keeps f) (c_Read (DbCRUD h main) tbl fs)"
    "state_io_rel (keeps f) (c_ReadByField (DbCRUD h main) tbl k v)"
    "state_io_rel (keeps f) (c_ReadForUpdate (DbCRUD h main) tbl fs)"
    "state_io_rel (keeps f) (c_ReadForShare (DbCRUD h main) tbl fs)"
    "state_io_rel (keeps f) (c_List (DbCRUD h main) tbl oflt)"
    "state_io_rel (keeps f) (c_Exists (DbCRUD h main) tbl flt)"
    "state_io_rel (keeps f) (c_Join (DbCRUD h main) tbl flt)"
  unfolding DbCRUD_defs crud.simps by (intro io_rel assms)+

lemma keeps_DbCRUD_writes [io_rel]:
  assumes "\<And>s. f (core s) = f s" "\<And>s D. f (s\<lparr>dbs := D\<rparr>) = f s" "\<And>s t. f (s\<lparr>times := t\<rparr>) = f s"
  shows "state_io_rel (keeps f) (c_Create (DbCRUD h main) tbl row)"
    "state_io_rel (keeps f) (c_CreateDup (DbCRUD h main) tbl row)"
    "state_io_rel (keeps f) (c_Update (DbCRUD h main) tbl i fs)"
    "state_io_rel (keeps f) (c_UpdateMulti (DbCRUD h main) tbl mf fs)"
    "state_io_rel (keeps f) (c_UpdateWithFilter (DbCRUD h main) tbl flt fs)"
    "state_io_rel (keeps f) (c_Delete (DbCRUD h main) tbl i)"
    "state_io_rel (keeps f) (c_DeleteByFields (DbCRUD h main) tbl fs)"
  unfolding DbCRUD_defs crud.simps db_Update_def db_UpdateMulti_def db_UpdateAll_def
    db_UpdateWithFilter_def with_updated_at_def Let_def
  by (intro io_rel assms)+

end
