(* ===== verification/Base64.thy ===== *)
theory Base64
  imports Generic_Error
begin

text \<open>
  The string coding of \<^verbatim>\<open>src/pkg/utils/base64.go\<close>: the standard alphabet with padding. Bytes are
  characters (\<open>char\<close> has exactly 256 values). The decoder is the one of Go's \<^verbatim>\<open>encoding/base64\<close>: line
  breaks are skipped anywhere, padding may only end the input, an incomplete group is an error,
  and the unused bits of the last character are not looked at.

  The locale \<open>string_coding\<close> is the interface \<^verbatim>\<open>StringCoding\<close> that the cache, the hashes and the
  encryption of parameters are written against.
\<close>

section \<open>The alphabet\<close>

definition b64_alphabet :: string where
  "b64_alphabet = ''ABCDEFGHIJKLMNOPQRSTUVWXYZabcdefghijklmnopqrstuvwxyz0123456789+/''"

definition b64_char :: "nat \<Rightarrow> char" where
  "b64_char n = b64_alphabet ! n"

definition b64_val :: "char \<Rightarrow> nat option" where
  "b64_val c = map_of (zip b64_alphabet [0..<64]) c"

definition byte :: "char \<Rightarrow> nat" where
  "byte c = of_char c"

definition unbyte :: "nat \<Rightarrow> char" where
  "unbyte n = char_of n"

section \<open>Encoding and decoding\<close>

fun Base64Encode :: "string \<Rightarrow> string" where
  "Base64Encode [] = []"
| "Base64Encode [a] =
     [b64_char (byte a div 4), b64_char (byte a mod 4 * 16), CHR ''='', CHR ''='']"
| "Base64Encode [a, b] =
     [b64_char (byte a div 4), b64_char (byte a mod 4 * 16 + byte b div 16),
      b64_char (byte b mod 16 * 4), CHR ''='']"
| "Base64Encode (a # b # c # rest) =
     b64_char (byte a div 4) # b64_char (byte a mod 4 * 16 + byte b div 16)
     # b64_char (byte b mod 16 * 4 + byte c div 64) # b64_char (byte c mod 64) # Base64Encode rest"

definition CorruptInputError :: goerror where
  "CorruptInputError = NativeError ''illegal base64 data''"

fun b64_quanta :: "string \<Rightarrow> string option" where
  "b64_quanta [] = Some []"
| "b64_quanta (a # b # c # d # rest) =
     (case (b64_val a, b64_val b) of
        (Some x, Some y) \<Rightarrow>
          if c = CHR ''='' then
            (if d = CHR ''='' \<and> rest = [] then Some [unbyte (x * 4 + y div 16)] else None)
          else (case b64_val c of
            None \<Rightarrow> None
          | Some z \<Rightarrow>
              if d = CHR ''='' then
                (if rest = []
                 then Some [unbyte (x * 4 + y div 16), unbyte (y mod 16 * 16 + z div 4)] else None)
              else (case (b64_val d, b64_quanta rest) of
                (Some w, Some out) \<Rightarrow> Some (unbyte (x * 4 + y div 16)
                   # unbyte (y mod 16 * 16 + z div 4) # unbyte (z mod 4 * 64 + w) # out)
              | _ \<Rightarrow> None))
      | _ \<Rightarrow> None)"
| "b64_quanta _ = None"

definition Base64Decode :: "string \<Rightarrow> goerror + string" where
  "Base64Decode input =
     (case b64_quanta (filter (\<lambda>c. c \<noteq> CHR 0x0A \<and> c \<noteq> CHR 0x0D) input) of
        None \<Rightarrow> Inl CorruptInputError
      | Some out \<Rightarrow> Inr out)"

section \<open>The interface\<close>

locale string_coding =
  fixes encode :: "string \<Rightarrow> string"
    and decode :: "string \<Rightarrow> goerror + string"
  assumes decode_encode: "decode (encode d) = Inr d"
    and encode_nonempty: "encode d = [] \<longleftrightarrow> d = []"
begin

lemma encode_inj: "encode a = encode b \<Longrightarrow> a = b"
  by (metis decode_encode sum.inject(2))

lemma encode_eq_iff [simp]: "encode a = encode b \<longleftrightarrow> a = b"
  using encode_inj by blast

text \<open>Comparing a decoded sum with a computed one is comparing the strings, for sums it has encoded.\<close>

lemma decode_eq_encoded: "decode s = Inr d \<Longrightarrow> s = encode x \<Longrightarrow> d = x"
  by (simp add: decode_encode)

end

section \<open>Lemmas\<close>

lemma byte_less: "byte c < 256"
  by (simp add: byte_def)

lemma unbyte_byte [simp]: "unbyte (byte c) = c"
  by (simp add: unbyte_def byte_def)

lemma b64_table: "list_all (\<lambda>n. b64_val (b64_char n) = Some n \<and> b64_char n \<noteq> CHR ''=''
    \<and> b64_char n \<noteq> CHR 0x0A \<and> b64_char n \<noteq> CHR 0x0D) [0..<64]"
  by code_simp

lemma b64_facts [simp]:
  assumes "n < 64"
  shows "b64_val (b64_char n) = Some n" "b64_char n \<noteq> CHR ''=''"
    "b64_char n \<noteq> CHR 0x0A" "b64_char n \<noteq> CHR 0x0D"
  using b64_table assms by (auto simp: list_all_iff)

lemma byte_parts [simp]:
  "byte a div 4 < 64" "byte a div 16 < 16" "byte a div 64 < 4"
  using byte_less [of a] by (simp_all add: div_less_iff_less_mult)

lemma b64_bounds [simp]:
  "byte a mod 4 * 16 < 64" "byte b mod 16 * 4 < 64" "byte c mod 64 < 64"
  "byte a mod 4 * 16 + byte b div 16 < 64" "byte b mod 16 * 4 + byte c div 64 < 64"
proof -
  have "byte a mod 4 < 4" "byte b div 16 < 16" "byte b mod 16 < 16" "byte c div 64 < 4" by simp_all
  then show "byte a mod 4 * 16 < 64" "byte b mod 16 * 4 < 64" "byte c mod 64 < 64"
    "byte a mod 4 * 16 + byte b div 16 < 64" "byte b mod 16 * 4 + byte c div 64 < 64"
    by linarith+
qed

lemma b64_quanta_encode: "b64_quanta (Base64Encode d) = Some d"
  by (induction d rule: Base64Encode.induct) simp_all

lemma Base64Encode_no_breaks:
  "filter (\<lambda>c. c \<noteq> CHR 0x0A \<and> c \<noteq> CHR 0x0D) (Base64Encode d) = Base64Encode d"
  by (induction d rule: Base64Encode.induct) simp_all

interpretation b64: string_coding Base64Encode Base64Decode
proof
  fix d
  show "Base64Decode (Base64Encode d) = Inr d"
    by (simp only: Base64Decode_def Base64Encode_no_breaks b64_quanta_encode option.case)
  show "Base64Encode d = [] \<longleftrightarrow> d = []"
    by (cases d rule: Base64Encode.cases) simp_all
qed

lemma length_Base64Encode: "length (Base64Encode d) = (length d + 2) div 3 * 4"
  by (induction d rule: Base64Encode.induct) (simp_all, presburger)

section \<open>Properties\<close>

text \<open>
  Decoding what was encoded gives the bytes back, also when line breaks have been put anywhere into
  the text, and the length of the text is four characters for every started group of three bytes.
\<close>

theorem Base64_roundtrip:
  assumes "filter (\<lambda>c. c \<noteq> CHR 0x0A \<and> c \<noteq> CHR 0x0D) text = Base64Encode d"
  shows "Base64Decode text = Inr d \<and> length (Base64Encode d) = (length d + 2) div 3 * 4"
  using assms by (simp add: Base64Decode_def b64_quanta_encode length_Base64Encode)

theorem Base64_roundtrip_witness:
  "Base64Decode (''aGVs'' @ [CHR 0x0D, CHR 0x0A] @ ''bG8='') = Inr ''hello''"
proof -
  have "filter (\<lambda>c. c \<noteq> CHR 0x0A \<and> c \<noteq> CHR 0x0D) (''aGVs'' @ [CHR 0x0D, CHR 0x0A] @ ''bG8='')
      = Base64Encode ''hello''" by code_simp
  then show ?thesis by (rule Base64_roundtrip [THEN conjunct1])
qed

end
