(* ===== verification/Crypt.thy ===== *)
theory Crypt
  imports Base64 World
begin

text \<open>
  The wrappers of \<^verbatim>\<open>src/pkg/crypt_utils\<close>: authenticated encryption, hashes, message authentication codes
  and random data. The primitives (\<^verbatim>\<open>golang.org/x/crypto\<close>, SHA-256, \<^verbatim>\<open>uniuri\<close>) are the record
  \<open>crypto\<close>; what is relied on is \<open>aead_laws\<close>, and \<open>plain_crypto\<close> shows that it can hold.
\<close>

section \<open>Primitives\<close>

record crypto =
  pbkdf2_Key :: "string \<Rightarrow> string \<Rightarrow> nat \<Rightarrow> nat \<Rightarrow> string"
  aead_New :: "string \<Rightarrow> err"
  aead_NonceSize :: nat
  aead_Seal :: "string \<Rightarrow> string \<Rightarrow> string \<Rightarrow> string \<Rightarrow> string"
  aead_Open :: "string \<Rightarrow> string \<Rightarrow> string \<Rightarrow> string \<Rightarrow> goerror + string"
  sha256 :: "string \<Rightarrow> string"
  hmac_sha256 :: "string \<Rightarrow> string \<Rightarrow> string"
  uniuri :: "nat \<Rightarrow> nat \<Rightarrow> string"

definition KeySize :: nat where "KeySize = 32"

text \<open>
  XChaCha20-Poly1305 accepts keys of 32 bytes, opens what it has sealed under the same key, nonce and
  additional data, and the derivation returns keys of the length asked for.
\<close>

definition aead_laws :: "crypto \<Rightarrow> bool" where
  "aead_laws cr \<longleftrightarrow>
     (\<forall>k. length k = KeySize \<longrightarrow> aead_New cr k = None)
   \<and> (\<forall>p s i n. length (pbkdf2_Key cr p s i n) = n)
   \<and> (\<forall>k nonce p ad. length nonce = aead_NonceSize cr \<longrightarrow>
        aead_Open cr k nonce (aead_Seal cr k nonce p ad) ad = Inr p)"

section \<open>Random data\<close>

text \<open>
  \<^verbatim>\<open>crypto/rand\<close> may fail: the next element of the random source decides, then each byte is one draw.
\<close>

definition rand_error :: goerror where
  "rand_error = NativeError ''failed to read random data''"

fun draw_bytes :: "nat \<Rightarrow> ('z sys_scheme, string) comp" where
  "draw_bytes 0 = ret []"
| "draw_bytes (Suc n) = do {
     r \<leftarrow> draw;
     rest \<leftarrow> draw_bytes n;
     ret (unbyte (r mod 256) # rest) }"

definition GenerateCryptoRand :: "nat \<Rightarrow> ('z sys_scheme, goerror + string) comp" where
  "GenerateCryptoRand sz = do {
     r \<leftarrow> draw;
     (if odd r then ret (Inl rand_error)
      else do { b \<leftarrow> draw_bytes sz; ret (Inr b) }) }"

definition GenerateString :: "crypto \<Rightarrow> nat list \<Rightarrow> ('z sys_scheme, string) comp" where
  "GenerateString cr len = do {
     r \<leftarrow> draw;
     ret (case len of [] \<Rightarrow> uniuri cr 16 r | n # _ \<Rightarrow> uniuri cr n r) }"

section \<open>Authenticated encryption\<close>

record AEADConfig =
  cfg_Iter :: nat
  cfg_KeySize :: nat

definition DefaultAEADConfig :: "nat \<Rightarrow> AEADConfig" where
  "DefaultAEADConfig iter = \<lparr>cfg_Iter = iter, cfg_KeySize = KeySize\<rparr>"

text \<open>The default of \<^verbatim>\<open>DefaultPbkdfConfig\<close> is 256 iterations. A cipher is its key.\<close>

definition NewAEAD :: "crypto \<Rightarrow> string \<Rightarrow> string \<Rightarrow> AEADConfig list \<Rightarrow> goerror + string" where
  "NewAEAD cr secret salt config =
     (let cfg = (if length config = 1 then config ! 0 else DefaultAEADConfig 256);
          key = pbkdf2_Key cr secret salt (cfg_Iter cfg) (cfg_KeySize cfg) in
      case aead_New cr key of Some e \<Rightarrow> Inl e | None \<Rightarrow> Inr key)"

definition Encrypt :: "crypto \<Rightarrow> string \<Rightarrow> string \<Rightarrow> string list
    \<Rightarrow> ('z sys_scheme, goerror + string) comp" where
  "Encrypt cr key plaintext additionalData = do {
     r \<leftarrow> GenerateCryptoRand (aead_NonceSize cr);
     ret (case r of
            Inl e \<Rightarrow> Inl e
          | Inr nonce \<Rightarrow> Inr (nonce @ aead_Seal cr key nonce plaintext (OptionalArg [] additionalData))) }"

definition Decrypt :: "crypto \<Rightarrow> string \<Rightarrow> string \<Rightarrow> string list \<Rightarrow> goerror + string" where
  "Decrypt cr key ciphertext additionalData =
     (if length ciphertext < aead_NonceSize cr then Inl (NativeError ''ciphertext too short'')
      else aead_Open cr key (take (aead_NonceSize cr) ciphertext)
             (drop (aead_NonceSize cr) ciphertext) (OptionalArg [] additionalData))"

definition Decrypt_secret :: "crypto \<Rightarrow> string \<Rightarrow> string \<Rightarrow> string \<Rightarrow> string list \<Rightarrow> goerror + string" where
  "Decrypt_secret cr secret salt ciphertext additionalData =
     (case NewAEAD cr secret salt [] of
        Inl e \<Rightarrow> Inl e
      | Inr key \<Rightarrow> Decrypt cr key ciphertext additionalData)"

fun decode_all :: "string list \<Rightarrow> goerror + string list" where
  "decode_all [] = Inr []"
| "decode_all (x # xs) =
     (case Base64Decode x of
        Inl e \<Rightarrow> Inl e
      | Inr d \<Rightarrow> (case decode_all xs of Inl e \<Rightarrow> Inl e | Inr ds \<Rightarrow> Inr (d # ds)))"

definition DecryptStrings ::
    "crypto \<Rightarrow> string \<Rightarrow> string \<Rightarrow> string \<Rightarrow> string list \<Rightarrow> goerror + string" where
  "DecryptStrings cr secret salt ciphertext additionalStrings =
     (case Base64Decode ciphertext of
        Inl e \<Rightarrow> Inl e
      | Inr cipherdata \<Rightarrow> (case decode_all additionalStrings of
          Inl e \<Rightarrow> Inl e
        | Inr additionalData \<Rightarrow> Decrypt_secret cr secret salt cipherdata additionalData))"

section \<open>Hashes and message authentication codes\<close>

text \<open>The state of a hash is what has been written to it; an HMAC has its key besides.\<close>

definition Hash_Add :: "string \<Rightarrow> string \<Rightarrow> string" where
  "Hash_Add data h = h @ data"

definition Hash_Calc :: "crypto \<Rightarrow> string list \<Rightarrow> string \<Rightarrow> string" where
  "Hash_Calc cr data h = sha256 cr (fold Hash_Add data h)"

definition Hash_CalcStr :: "crypto \<Rightarrow> string list \<Rightarrow> string \<Rightarrow> string" where
  "Hash_CalcStr cr data h = Base64Encode (Hash_Calc cr data h)"

definition Hash_CalcStrStr :: "crypto \<Rightarrow> string list \<Rightarrow> string \<Rightarrow> string" where
  "Hash_CalcStrStr cr data h = Hash_CalcStr cr [] (fold Hash_Add data h)"

definition Hash_CheckStr :: "crypto \<Rightarrow> string \<Rightarrow> string \<Rightarrow> err" where
  "Hash_CheckStr cr sm h =
     (case Base64Decode sm of
        Inl e \<Rightarrow> Some (NativeError (''failed to decode sum: '' @ error_text e))
      | Inr sumB \<Rightarrow> if sha256 cr h \<noteq> sumB then Some (NativeError ''hash sums mismatch'') else None)"

definition HashEqual :: "string \<Rightarrow> string \<Rightarrow> bool" where
  "HashEqual hash1 hash2 \<longleftrightarrow> hash1 = hash2"

definition H256 :: "crypto \<Rightarrow> string \<Rightarrow> string list \<Rightarrow> string" where
  "H256 cr data extras = sha256 cr (fold Hash_Add extras (Hash_Add data []))"

definition H256B64 :: "crypto \<Rightarrow> string \<Rightarrow> string list \<Rightarrow> string" where
  "H256B64 cr data extras = Base64Encode (H256 cr data extras)"

record Hmac =
  hm_secret :: string
  hm_data :: string

definition NewHmac :: "string \<Rightarrow> Hmac" where
  "NewHmac secret = \<lparr>hm_secret = secret, hm_data = []\<rparr>"

definition Hmac_Add :: "string list \<Rightarrow> Hmac \<Rightarrow> Hmac" where
  "Hmac_Add blocks h = h\<lparr>hm_data := hm_data h @ concat blocks\<rparr>"

definition Hmac_Sum :: "crypto \<Rightarrow> Hmac \<Rightarrow> string" where
  "Hmac_Sum cr h = hmac_sha256 cr (hm_secret h) (hm_data h)"

definition Hmac_SumStr :: "crypto \<Rightarrow> Hmac \<Rightarrow> string" where
  "Hmac_SumStr cr h = Base64Encode (Hmac_Sum cr h)"

definition Hmac_CheckStr :: "crypto \<Rightarrow> string \<Rightarrow> Hmac \<Rightarrow> err" where
  "Hmac_CheckStr cr sm h =
     (case Base64Decode sm of
        Inl e \<Rightarrow> Some (NativeError (''failed to decode sum: '' @ error_text e))
      | Inr sumB \<Rightarrow> if Hmac_Sum cr h \<noteq> sumB then Some (NativeError ''invalid HMAC'') else None)"

section \<open>An instance\<close>

text \<open>Primitives that satisfy the laws, without any secrecy: the nonce is empty and sealing keeps the text.\<close>

definition plain_crypto :: crypto where
  "plain_crypto = \<lparr>
     pbkdf2_Key = (\<lambda>p s i n. replicate n (CHR 0x00)),
     aead_New = (\<lambda>k. if length k = KeySize then None else Some (NativeError ''bad key length'')),
     aead_NonceSize = 0,
     aead_Seal = (\<lambda>k n p ad. p),
     aead_Open = (\<lambda>k n c ad. Inr c),
     sha256 = (\<lambda>d. d),
     hmac_sha256 = (\<lambda>k d. k @ d),
     uniuri = (\<lambda>n r. replicate n (CHR ''a'')) \<rparr>"

lemma plain_crypto_laws: "aead_laws plain_crypto"
  by (simp add: aead_laws_def plain_crypto_def)

section \<open>Lemmas\<close>

lemma fold_Hash_Add: "fold Hash_Add data h = h @ concat data"
  by (induction data arbitrary: h) (simp_all add: Hash_Add_def)

lemma Hash_CalcStrStr_concat: "Hash_CalcStrStr cr data [] = Base64Encode (sha256 cr (concat data))"
  by (simp add: Hash_CalcStrStr_def Hash_CalcStr_def Hash_Calc_def fold_Hash_Add)

lemma H256_concat: "H256 cr data extras = sha256 cr (data @ concat extras)"
  by (simp add: H256_def fold_Hash_Add Hash_Add_def)

lemma Hmac_CheckStr_own [simp]: "Hmac_CheckStr cr (Hmac_SumStr cr h) h = None"
  by (simp add: Hmac_CheckStr_def Hmac_SumStr_def b64.decode_encode)

lemma Hmac_CheckStr_accepts:
  "Hmac_CheckStr cr sm h = None \<longleftrightarrow> Base64Decode sm = Inr (Hmac_Sum cr h)"
  by (auto simp: Hmac_CheckStr_def split: sum.splits if_splits)

lemma NewAEAD_ok:
  assumes "aead_laws cr"
  shows "NewAEAD cr secret salt [DefaultAEADConfig iter] = Inr (pbkdf2_Key cr secret salt iter KeySize)"
  using assms by (simp add: NewAEAD_def DefaultAEADConfig_def aead_laws_def)

lemma Decrypt_sealed:
  assumes "aead_laws cr" "length nonce = aead_NonceSize cr"
  shows "Decrypt cr key (nonce @ aead_Seal cr key nonce p ad) [ad] = Inr p"
    and "ad = [] \<Longrightarrow> Decrypt cr key (nonce @ aead_Seal cr key nonce p ad) [] = Inr p"
  using assms by (simp_all add: Decrypt_def aead_laws_def)

lemma keeps_draw_bytes [io_rel]:
  "(\<And>s t. f (s\<lparr>rands := t\<rparr>) = f s) \<Longrightarrow> state_io_rel (keeps f) (draw_bytes n)"
  by (induction n) (auto intro!: io_rel)

lemma keeps_GenerateCryptoRand [io_rel]:
  "(\<And>s t. f (s\<lparr>rands := t\<rparr>) = f s) \<Longrightarrow> state_io_rel (keeps f) (GenerateCryptoRand n)"
  unfolding GenerateCryptoRand_def by (intro io_rel)

lemma keeps_GenerateString [io_rel]:
  "(\<And>s t. f (s\<lparr>rands := t\<rparr>) = f s) \<Longrightarrow> state_io_rel (keeps f) (GenerateString cr n)"
  unfolding GenerateString_def by (intro io_rel)

lemma io_rel_sum [io_rel]:
  "(\<And>e. state_io_rel R (m e)) \<Longrightarrow> (\<And>y. state_io_rel R (n y)) \<Longrightarrow>
   state_io_rel R (case x of Inl e \<Rightarrow> m e | Inr y \<Rightarrow> n y)"
  by (cases x) auto

lemma keeps_Encrypt [io_rel]:
  "(\<And>s t. f (s\<lparr>rands := t\<rparr>) = f s) \<Longrightarrow> state_io_rel (keeps f) (Encrypt cr k p ad)"
  unfolding Encrypt_def by (intro io_rel)

lemma draw_bytes_length: "wp (draw_bytes n) (\<lambda>b s'. length b = n) s"
proof (induction n arbitrary: s)
  case 0
  show ?case by (simp add: wp)
next
  case (Suc n)
  show ?case by (simp add: wp) (rule wp_mono [OF Suc], simp)
qed

lemma GenerateCryptoRand_length:
  "wp (GenerateCryptoRand n) (\<lambda>r s'. case r of Inl e \<Rightarrow> e = rand_error | Inr b \<Rightarrow> length b = n) s"
  unfolding GenerateCryptoRand_def by (simp add: wp draw_bytes_length)

section \<open>Properties\<close>

text \<open>
  What \<^verbatim>\<open>Encrypt\<close> has produced, \<^verbatim>\<open>Decrypt\<close> opens with the key derived from the same secret, salt and
  number of iterations, and gives the plaintext back, whatever the nonce was; the only failure of
  encryption is that of the random source.
\<close>

theorem AEAD_roundtrip:
  assumes "aead_laws cr" and "NewAEAD cr secret salt [DefaultAEADConfig iter] = Inr key"
  shows "wp (Encrypt cr key plaintext ad)
     (\<lambda>r s'. case r of Inl e \<Rightarrow> e = rand_error | Inr c \<Rightarrow> Decrypt cr key c ad = Inr plaintext) s"
proof -
  have *: "length nonce = aead_NonceSize cr \<Longrightarrow>
      Decrypt cr key (nonce @ aead_Seal cr key nonce plaintext (OptionalArg [] ad)) ad = Inr plaintext"
    for nonce using assms(1) by (cases ad) (simp_all add: Decrypt_def aead_laws_def)
  show ?thesis unfolding Encrypt_def wp_bind
    by (rule wp_mono [OF GenerateCryptoRand_length]) (auto simp: wp * split: sum.splits)
qed

definition demo_sys :: sys where
  "demo_sys = \<lparr>times = (\<lambda>i. int i), rands = (\<lambda>i. 2 * i), idCount = 0, dbs = (\<lambda>d t. []),
     cached = (\<lambda>c k. None), logs = [], panicked = False, lastSmsCode = []\<rparr>"

theorem AEAD_roundtrip_witness:
  "aead_laws plain_crypto \<and>
   (case fst (run_state (Encrypt plain_crypto (replicate 32 (CHR 0x00)) ''text'' []) demo_sys) of
      Inl e \<Rightarrow> e = rand_error
    | Inr c \<Rightarrow> Decrypt plain_crypto (replicate 32 (CHR 0x00)) c [] = Inr ''text'')"
proof -
  have k: "NewAEAD plain_crypto ''secret'' ''salt'' [DefaultAEADConfig 256] = Inr (replicate 32 (CHR 0x00))"
    by (simp add: NewAEAD_def DefaultAEADConfig_def plain_crypto_def KeySize_def)
  from AEAD_roundtrip [OF plain_crypto_laws k, of "''text''" "[]" demo_sys]
  show ?thesis by (simp add: wp_def plain_crypto_laws split: prod.splits)
qed

end
