(* ===== verification/Cache.thy ===== *)
theory Cache
  imports Trace_Refine Crypt
begin

text \<open>
  The caches: \<^verbatim>\<open>src/pkg/cache/cache.go\<close> stores any object as the base64 text of its serialised form in
  a cache of strings, \<^verbatim>\<open>src/pkg/cache/inmem_cache\<close> is such a cache over the library \<^verbatim>\<open>ttlcache\<close>. The
  library is the record \<open>ttlcache\<close> with the laws \<open>ttl_laws\<close>; a serialiser (the interface
  \<^verbatim>\<open>message.Serializer\<close>) is the record \<open>serializer\<close>, of which a round trip is asked for the value at
  hand (\<open>ser_roundtrip\<close>).
\<close>

section \<open>Serialisers\<close>

record serializer =
  SerializeMessage :: "gval \<Rightarrow> goerror + string"
  ParseMessage :: "string \<Rightarrow> goerror + gval"

definition ser_roundtrip :: "serializer \<Rightarrow> gval \<Rightarrow> bool" where
  "ser_roundtrip ser v \<longleftrightarrow> (\<exists>b. SerializeMessage ser v = Inr b \<and> ParseMessage ser b = Inr v)"

section \<open>The cache in memory\<close>

type_synonym cache_store = "string \<Rightarrow> cache_item option"

record ttlcache =
  tc_Set :: "string \<Rightarrow> string \<Rightarrow> int \<Rightarrow> int \<Rightarrow> cache_store \<Rightarrow> cache_store"
  tc_Get :: "string \<Rightarrow> int \<Rightarrow> cache_store \<Rightarrow> cache_item option"
  tc_IsExpired :: "cache_item \<Rightarrow> int \<Rightarrow> bool"
  tc_Delete :: "string \<Rightarrow> cache_store \<Rightarrow> cache_store"
  tc_DeleteAll :: "cache_store \<Rightarrow> cache_store"
  tc_Touch :: "string \<Rightarrow> int \<Rightarrow> cache_store \<Rightarrow> cache_store"
  tc_Keys :: "cache_store \<Rightarrow> string list"

text \<open>
  An item lives for its time to live, or for ever when that is not positive; setting and deleting
  concern the key they name only.
\<close>

definition ttl_laws :: "ttlcache \<Rightarrow> bool" where
  "ttl_laws tc \<longleftrightarrow>
     (\<forall>k v ttl t t1 t2 st. ttl \<le> 0 \<or> t1 \<le> t + ttl \<and> t2 \<le> t + ttl \<longrightarrow>
        (\<exists>it. tc_Get tc k t1 (tc_Set tc k v ttl t st) = Some it \<and> fst it = v \<and> \<not> tc_IsExpired tc it t2))
   \<and> (\<forall>k v ttl t t1 t2 st. 0 < ttl \<and> t + ttl < t1 \<and> t + ttl < t2 \<longrightarrow>
        (case tc_Get tc k t1 (tc_Set tc k v ttl t st) of None \<Rightarrow> True | Some it \<Rightarrow> tc_IsExpired tc it t2))
   \<and> (\<forall>k k' v ttl t t1 st. k' \<noteq> k \<longrightarrow> tc_Get tc k' t1 (tc_Set tc k v ttl t st) = tc_Get tc k' t1 st)
   \<and> (\<forall>k t st. tc_Get tc k t (tc_Delete tc k st) = None)
   \<and> (\<forall>k k' t st. k' \<noteq> k \<longrightarrow> tc_Get tc k' t (tc_Delete tc k st) = tc_Get tc k' t st)"

definition NoTTL :: int where "NoTTL = -1"

text \<open>The cache that the context points to, \<^verbatim>\<open>ctx.Cache()\<close>.\<close>

definition cache_store_of :: "'z op_ctx_scheme \<Rightarrow> cache_store" where
  "cache_store_of s = cached s (curCache s)"

definition set_cache_store :: "cache_store \<Rightarrow> 'z op_ctx_scheme \<Rightarrow> 'z op_ctx_scheme" where
  "set_cache_store st s = s\<lparr>cached := (cached s)(curCache s := st)\<rparr>"

definition Inmem_Set :: "ttlcache \<Rightarrow> string \<Rightarrow> string \<Rightarrow> int list \<Rightarrow> ('z op_ctx_scheme, err) comp" where
  "Inmem_Set tc key val ttlSeconds = do {
     let ttl = (if length ttlSeconds > 0 then seconds_duration (ttlSeconds ! 0) else NoTTL);
     t \<leftarrow> Now;
     modifys (\<lambda>s. set_cache_store (tc_Set tc key val ttl t (cache_store_of s)) s);
     ret None }"

definition Inmem_Get :: "ttlcache \<Rightarrow> string \<Rightarrow> ('z op_ctx_scheme, string option \<times> err) comp" where
  "Inmem_Get tc key = do {
     t \<leftarrow> Now;
     item \<leftarrow> gets (\<lambda>s. tc_Get tc key t (cache_store_of s));
     (case item of
        None \<Rightarrow> ret (None, None)
      | Some it \<Rightarrow> do {
          t2 \<leftarrow> Now;
          (if tc_IsExpired tc it t2 then ret (None, None) else ret (Some (fst it), None)) }) }"

definition Inmem_Unset :: "ttlcache \<Rightarrow> string \<Rightarrow> ('z op_ctx_scheme, err) comp" where
  "Inmem_Unset tc key = do {
     modifys (\<lambda>s. set_cache_store (tc_Delete tc key (cache_store_of s)) s);
     ret None }"

definition Inmem_Clear :: "ttlcache \<Rightarrow> ('z op_ctx_scheme, err) comp" where
  "Inmem_Clear tc = do {
     modifys (\<lambda>s. set_cache_store (tc_DeleteAll tc (cache_store_of s)) s);
     ret None }"

definition Inmem_Touch :: "ttlcache \<Rightarrow> string \<Rightarrow> ('z op_ctx_scheme, err) comp" where
  "Inmem_Touch tc key = do {
     t \<leftarrow> Now;
     modifys (\<lambda>s. set_cache_store (tc_Touch tc key t (cache_store_of s)) s);
     ret None }"

definition Inmem_Keys :: "ttlcache \<Rightarrow> ('z op_ctx_scheme, string list \<times> err) comp" where
  "Inmem_Keys tc = do { ks \<leftarrow> gets (\<lambda>s. tc_Keys tc (cache_store_of s)); ret (ks, None) }"

section \<open>The cache of objects\<close>

definition Cache_Set :: "ttlcache \<Rightarrow> serializer \<Rightarrow> string \<Rightarrow> gval \<Rightarrow> int list
    \<Rightarrow> ('z op_ctx_scheme, err) comp" where
  "Cache_Set tc ser key val ttlSeconds =
     (case SerializeMessage ser val of
        Inl e \<Rightarrow> ret (Some e)
      | Inr b \<Rightarrow> (let str = Base64Encode b in Inmem_Set tc key str ttlSeconds))"

text \<open>\<^verbatim>\<open>Get\<close> returns whether the key was found, the object, and an error.\<close>

definition Cache_Get :: "ttlcache \<Rightarrow> serializer \<Rightarrow> string
    \<Rightarrow> ('z op_ctx_scheme, bool \<times> gval \<times> err) comp" where
  "Cache_Get tc ser key = do {
     (found, e) \<leftarrow> Inmem_Get tc key;
     (case found of
        None \<Rightarrow> ret (False, VNil, e)
      | Some val \<Rightarrow>
          if e \<noteq> None then ret (False, VNil, e)
          else (case Base64Decode val of
            Inl e \<Rightarrow> ret (True, VNil, Some e)
          | Inr b \<Rightarrow> (case ParseMessage ser b of
              Inl e \<Rightarrow> ret (True, VNil, Some e)
            | Inr obj \<Rightarrow> ret (True, obj, None)))) }"

definition Cache_Unset :: "ttlcache \<Rightarrow> string \<Rightarrow> ('z op_ctx_scheme, err) comp" where
  "Cache_Unset tc key = Inmem_Unset tc key"

definition Cache_Clear :: "ttlcache \<Rightarrow> ('z op_ctx_scheme, err) comp" where
  "Cache_Clear tc = Inmem_Clear tc"

definition Cache_Touch :: "ttlcache \<Rightarrow> string \<Rightarrow> ('z op_ctx_scheme, err) comp" where
  "Cache_Touch tc key = Inmem_Touch tc key"

definition Cache_Keys :: "ttlcache \<Rightarrow> ('z op_ctx_scheme, string list \<times> err) comp" where
  "Cache_Keys tc = Inmem_Keys tc"

lemmas cache_defs = Cache_Set_def Cache_Get_def Cache_Unset_def Cache_Clear_def Cache_Touch_def
  Cache_Keys_def Inmem_Set_def Inmem_Get_def Inmem_Unset_def Inmem_Clear_def Inmem_Touch_def
  Inmem_Keys_def set_cache_store_def cache_store_of_def

section \<open>An instance of the library\<close>

definition ttl_table :: ttlcache where
  "ttl_table = \<lparr>
     tc_Set = (\<lambda>k v ttl t st. st(k \<mapsto> (v, if ttl \<le> 0 then None else Some (t + ttl)))),
     tc_Get = (\<lambda>k t st. case st k of
        None \<Rightarrow> None
      | Some (v, exp) \<Rightarrow> (case exp of
          None \<Rightarrow> Some (v, exp) | Some x \<Rightarrow> if x < t then None else Some (v, exp))),
     tc_IsExpired = (\<lambda>it t. case snd it of None \<Rightarrow> False | Some x \<Rightarrow> x < t),
     tc_Delete = (\<lambda>k st. st(k := None)),
     tc_DeleteAll = (\<lambda>st. (\<lambda>_. None)),
     tc_Touch = (\<lambda>k t st. st),
     tc_Keys = (\<lambda>st. []) \<rparr>"

lemma ttl_get_set:
  assumes "ttl_laws tc" "ttl \<le> 0 \<or> t1 \<le> t + ttl \<and> t2 \<le> t + ttl"
  obtains it where "tc_Get tc k t1 (tc_Set tc k v ttl t st) = Some it" "fst it = v"
    "\<not> tc_IsExpired tc it t2"
  using assms(1) [unfolded ttl_laws_def, THEN conjunct1, rule_format, OF assms(2)] by blast

lemma ttl_get_delete [simp]: "ttl_laws tc \<Longrightarrow> tc_Get tc k t (tc_Delete tc k st) = None"
  by (simp add: ttl_laws_def)

lemma ttl_get_other:
  assumes "ttl_laws tc" "k' \<noteq> k"
  shows "tc_Get tc k' t1 (tc_Set tc k v ttl t st) = tc_Get tc k' t1 st"
    "tc_Get tc k' t1 (tc_Delete tc k st) = tc_Get tc k' t1 st"
  using assms by (simp_all add: ttl_laws_def)

lemma ttl_table_laws: "ttl_laws ttl_table"
  by (auto simp: ttl_laws_def ttl_table_def)

section \<open>Lemmas\<close>

lemma frame_set_cache_store [io_rel]:
  "state_io_rel frame (modifys (\<lambda>s. set_cache_store (f s) s))"
  unfolding set_cache_store_def by (rule frame_set_cached)

lemma frame_cache [io_rel]:
  "state_io_rel frame (Cache_Set tc ser k v ttl)" "state_io_rel frame (Cache_Get tc ser k)"
  "state_io_rel frame (Cache_Unset tc k)" "state_io_rel frame (Cache_Clear tc)"
  "state_io_rel frame (Cache_Touch tc k)" "state_io_rel frame (Cache_Keys tc)"
  unfolding Cache_Set_def Cache_Get_def Cache_Unset_def Cache_Clear_def Cache_Touch_def
    Cache_Keys_def Inmem_Set_def Inmem_Get_def Inmem_Unset_def Inmem_Clear_def Inmem_Touch_def
    Inmem_Keys_def
  by (intro io_rel)+

lemma keeps_cache [io_rel]:
  assumes "\<And>s t. f (s\<lparr>times := t\<rparr>) = f s" "\<And>s t. f (s\<lparr>cached := t\<rparr>) = f s"
  shows "state_io_rel (keeps f) (Cache_Set tc ser k v ttl)"
    "state_io_rel (keeps f) (Cache_Get tc ser k)" "state_io_rel (keeps f) (Cache_Unset tc k)"
  unfolding cache_defs Let_def
  by (intro io_rel io_rel_modifys assms; simp add: keeps_def assms)+

section \<open>Properties\<close>

text \<open>
  An object that was stored under a key with a time to live is read back unchanged as long as the
  clock has not passed the end of that time, and once the key is removed it is not found any more.
\<close>

theorem Cache_roundtrip:
  assumes "ttl_laws tc" "ser_roundtrip ser v" "0 < ttl" "ttl \<le> 9223372036"
    and "times s 1 \<le> times s 0 + Second * ttl" "times s 2 \<le> times s 0 + Second * ttl"
  shows "fst (run_state (do { Cache_Set tc ser k v [ttl]; Cache_Get tc ser k }) s) = (True, v, None)
    \<and> fst (run_state (do { Cache_Set tc ser k v [ttl]; Cache_Unset tc k; Cache_Get tc ser k }) s)
        = (False, VNil, None)"
proof -
  obtain b where b: "SerializeMessage ser v = Inr b" "ParseMessage ser b = Inr v"
    using assms(2) by (auto simp: ser_roundtrip_def)
  let ?st = "tc_Set tc k (Base64Encode b) (Second * ttl) (times s 0) (cached s (curCache s))"
  have "Second * ttl \<le> 0 \<or> times s 1 \<le> times s 0 + Second * ttl \<and> times s 2 \<le> times s 0 + Second * ttl"
    using assms by simp
  then obtain it where it: "tc_Get tc k (times s 1) ?st = Some it" "fst it = Base64Encode b"
      "\<not> tc_IsExpired tc it (times s 2)"
    by (rule ttl_get_set [OF assms(1)])
  show ?thesis
    using b it assms(1,3,4)
    by (simp add: cache_defs seconds_duration_id b64.decode_encode numeral_2_eq_2)
qed

definition raw_ser :: serializer where
  "raw_ser = \<lparr>SerializeMessage = (\<lambda>v. case v of VStr b \<Rightarrow> Inr b | _ \<Rightarrow> Inl (NativeError ''unsupported'')),
     ParseMessage = (\<lambda>b. Inr (VStr b))\<rparr>"

definition demo_mgr :: error_manager where
  "demo_mgr = ErrorManagerBaseHttp_Init"

definition demo_ctx :: op_ctx where
  "demo_ctx = \<lparr>times = (\<lambda>i. int i), rands = (\<lambda>i. 2 * i), idCount = 0, dbs = (\<lambda>d t. []),
     cached = (\<lambda>c k. None), logs = [], panicked = False, lastSmsCode = [],
     calls = [], stack = [], errorStack = None, genericError = None, ctx_id = ''c'', ctx_name = ''n'',
     loggerFields = [], errorAsWarn = False, oplogs = [], origin = None, writeCloseLog = False,
     mainDb = ''main'', curDb = ''main'', curCache = ''main'', dbTransaction = None,
     errorManager = demo_mgr\<rparr>"

theorem Cache_roundtrip_witness:
  "fst (run_state (do { Cache_Set ttl_table raw_ser ''k'' (VStr ''v'') [30];
       Cache_Get ttl_table raw_ser ''k'' }) demo_ctx) = (True, VStr ''v'', None)
   \<and> fst (run_state (do { Cache_Set ttl_table raw_ser ''k'' (VStr ''v'') [30];
       Cache_Unset ttl_table ''k''; Cache_Get ttl_table raw_ser ''k'' }) demo_ctx) = (False, VNil, None)"
  by (rule Cache_roundtrip [OF ttl_table_laws])
     (simp_all add: ser_roundtrip_def raw_ser_def demo_ctx_def Second_def)

end
