(* ===== verification/Auth_Core.thy ===== *)
theory Auth_Core
  imports Cache
begin

text \<open>
  What authorisation handlers work on (\<^verbatim>\<open>src/pkg/auth\<close>): users, the request as they see it, tokens that
  expire, and the encryption of the parameters that are handed to the client. The request extends
  the operation context, as the struct does by embedding.
\<close>

section \<open>Users and tenancies\<close>

text \<open>
  A value of the interface \<^verbatim>\<open>auth.User\<close>. The last three fields are what a type assertion to
  \<^verbatim>\<open>UserWithPhone\<close>, to the \<^verbatim>\<open>User\<close> of \<^verbatim>\<open>auth_login_phash\<close> (hash and salt) and to \<^verbatim>\<open>UserWithHmacSecret\<close> gives;
  \<open>None\<close> when the user's type does not implement it.
\<close>

record auth_user =
  au_id :: string
  au_display :: string
  au_login :: string
  au_blocked :: bool
  au_phone :: "string option"
  au_phash :: "(string \<times> string) option"
  au_hmac_secret :: "string option"

record tenancy =
  t_id :: string
  t_display :: string
  t_active :: bool
  t_db :: string
  t_cache :: "string option"

section \<open>The request\<close>

text \<open>
  \<open>req_headers\<close> and \<open>resp_headers\<close> are keyed by the lower-case name of the header, as names of headers
  are compared without case. \<open>req_path\<close> is what \<^verbatim>\<open>GetRequestPath\<close> returns for the endpoint.
\<close>

record request = op_ctx +
  req_path :: string
  req_method :: string
  req_content :: string
  req_ip :: string
  req_agent :: string
  req_params :: "(string \<times> string) list"
  req_headers :: "(string \<times> string) list"
  resp_headers :: "(string \<times> string) list"
  authUser :: "auth_user option"
  sessionId :: string
  clientId :: string
  tenancy_of :: "tenancy option"

definition getHttpHeader :: "'z request_scheme \<Rightarrow> string \<Rightarrow> string" where
  "getHttpHeader s name = (case map_get (req_headers s) name of None \<Rightarrow> [] | Some v \<Rightarrow> v)"

text \<open>Setting a response header to the empty string removes it.\<close>

definition ginHeader :: "string \<Rightarrow> string \<Rightarrow> ('z request_scheme, unit) comp" where
  "ginHeader name val = modifys (\<lambda>s. s\<lparr>resp_headers :=
     (if val = [] then AList.delete name (resp_headers s) else map_set (resp_headers s) name val)\<rparr>)"

definition AuthKey :: "string \<Rightarrow> string" where
  "AuthKey key = ConcatStrings [''x-auth-'', key]"

definition csrfKey :: "string \<Rightarrow> string" where
  "csrfKey key = ConcatStrings [''x-'', key]"

definition AntiCsrfProtocol :: string where "AntiCsrfProtocol = ''csrf''"

text \<open>The server has a getter and a setter of its own for the protocol of the anti-CSRF token only.\<close>

definition auth_header :: "string \<Rightarrow> string \<Rightarrow> string" where
  "auth_header protocol key = (if protocol = AntiCsrfProtocol then csrfKey key else AuthKey key)"

definition Request_GetAuthParameter :: "string \<Rightarrow> string \<Rightarrow> ('z request_scheme, string) comp" where
  "Request_GetAuthParameter protocol key = gets (\<lambda>s. getHttpHeader s (auth_header protocol key))"

definition Request_SetAuthParameter :: "string \<Rightarrow> string \<Rightarrow> string \<Rightarrow> ('z request_scheme, unit) comp" where
  "Request_SetAuthParameter protocol key val = ginHeader (auth_header protocol key) val"

definition SetAuthUser :: "auth_user option \<Rightarrow> ('z request_scheme, unit) comp" where
  "SetAuthUser u = modifys (\<lambda>s. s\<lparr>authUser := u\<rparr>)"

definition SetSessionId :: "string \<Rightarrow> ('z request_scheme, unit) comp" where
  "SetSessionId i = modifys (\<lambda>s. s\<lparr>sessionId := i\<rparr>)"

definition SetClientId :: "string \<Rightarrow> ('z request_scheme, unit) comp" where
  "SetClientId i = modifys (\<lambda>s. s\<lparr>clientId := i\<rparr>)"

text \<open>
  A tenancy brings its database and, when it has one, its cache: \<^verbatim>\<open>RequestBase.Db\<close> and
  \<^verbatim>\<open>TenancyContextBase.SetTenancy\<close>.
\<close>

definition SetTenancy :: "tenancy \<Rightarrow> ('z request_scheme, unit) comp" where
  "SetTenancy t = do {
     modifys (\<lambda>s. s\<lparr>tenancy_of := Some t, curDb := t_db t\<rparr>);
     SetLoggerField ''tenancy'' (VStr (t_display t));
     (case t_cache t of
        None \<Rightarrow> ret ()
      | Some ch \<Rightarrow> modifys (\<lambda>s. s\<lparr>curCache := ch\<rparr>)) }"

definition ContextTenancy :: "'z request_scheme \<Rightarrow> string" where
  "ContextTenancy s = (case tenancy_of s of None \<Rightarrow> [] | Some t \<Rightarrow> t_id t)"

section \<open>Tokens that expire\<close>

definition SetTTL :: "int \<Rightarrow> ('z sys_scheme, int) comp" where
  "SetTTL seconds = do { t \<leftarrow> Now; ret (t + seconds_duration seconds) }"

definition Expired :: "int \<Rightarrow> ('z sys_scheme, bool) comp" where
  "Expired exp = do { t \<leftarrow> Now; ret (exp < t) }"

section \<open>Error codes\<close>

definition ErrorCodeUnauthorized :: string where "ErrorCodeUnauthorized = ''unauthorized''"
definition ErrorCodeInvalidAuthSchema :: string where "ErrorCodeInvalidAuthSchema = ''invalid_auth_schema''"
definition ErrorCodeUnsupportedAuthMethod :: string where
  "ErrorCodeUnsupportedAuthMethod = ''unknown_auth_method''"

definition auth_ErrorDescriptions :: "(string \<times> string) list" where
  "auth_ErrorDescriptions =
     [(ErrorCodeUnauthorized, ''Request is not authorized.''),
      (ErrorCodeInvalidAuthSchema, ''Invalid authorization schema.''),
      (ErrorCodeUnsupportedAuthMethod, ''Unsupported authorization method.'')]"

definition auth_ErrorHttpCodes :: "(string \<times> int) list" where
  "auth_ErrorHttpCodes =
     [(ErrorCodeUnauthorized, StatusUnauthorized),
      (ErrorCodeInvalidAuthSchema, StatusInternalServerError),
      (ErrorCodeUnsupportedAuthMethod, StatusUnauthorized)]"

section \<open>Encryption of parameters\<close>

record param_encryption =
  enc_SECRET :: string
  enc_PBKDF2_ITERATIONS :: nat
  enc_SALT_SIZE :: nat
  enc_Serializer :: serializer
  enc_crypto :: crypto

definition createCipher :: "param_encryption \<Rightarrow> string \<Rightarrow> goerror + string" where
  "createCipher a salt =
     NewAEAD (enc_crypto a) (enc_SECRET a) salt [DefaultAEADConfig (enc_PBKDF2_ITERATIONS a)]"

definition Enc_SetAuthParameter :: "param_encryption \<Rightarrow> string \<Rightarrow> string \<Rightarrow> gval
    \<Rightarrow> ('z request_scheme, err) comp" where
  "Enc_SetAuthParameter a protocol name obj =
     traced_err ''AuthParameterEncryptionBase.SetAuthParameter'' [[(''name'', VStr name)]] (\<lambda>c.
       case SerializeMessage (enc_Serializer a) obj of
         Inl e \<Rightarrow> do { SetMessage c ''failed to serialize object''; ret (Some e, Some e) }
       | Inr plaintext \<Rightarrow> do {
           salt \<leftarrow> GenerateCryptoRand (enc_SALT_SIZE a);
           (case salt of
              Inl e \<Rightarrow> do { SetMessage c ''failed to generate salt''; ret (Some e, Some e) }
            | Inr salt \<Rightarrow> (case createCipher a salt of
                Inl e \<Rightarrow> do { SetMessage c ''failed to create AEAD cipher''; ret (Some e, Some e) }
              | Inr cipher \<Rightarrow> do {
                  ciphertext \<leftarrow> Encrypt (enc_crypto a) cipher plaintext [];
                  (case ciphertext of
                     Inl e \<Rightarrow> do { SetMessage c ''failed to encrypt data''; ret (Some e, Some e) }
                   | Inr ciphertext \<Rightarrow> do {
                       let ciphertext = ciphertext @ salt;
                       let data = Base64Encode ciphertext;
                       Request_SetAuthParameter protocol name data;
                       ret (None, None) }) })) })"

text \<open>
  Returns whether the parameter is there, the object, and an error. The error of a ciphertext that
  is too short is declared in an inner scope, so the deferred function does not record it.
\<close>

definition Enc_GetAuthParameter :: "param_encryption \<Rightarrow> string \<Rightarrow> string
    \<Rightarrow> ('z request_scheme, bool \<times> gval \<times> err) comp" where
  "Enc_GetAuthParameter a protocol name =
     traced_err ''AuthParameterEncryptionBase.GetAuthParameter'' [[(''name'', VStr name)]] (\<lambda>c. do {
       data \<leftarrow> Request_GetAuthParameter protocol name;
       (if data = [] then ret ((False, VNil, None), None)
        else case Base64Decode data of
          Inl e \<Rightarrow> do { SetMessage c ''failed to decode data''; ret ((True, VNil, Some e), Some e) }
        | Inr ciphertext \<Rightarrow>
            if length ciphertext < enc_SALT_SIZE a then
              ret ((True, VNil, errors_New ''ciphertext too short for salt''), None)
            else
              (let salt = drop (length ciphertext - enc_SALT_SIZE a) ciphertext;
                   ciphertext = take (length ciphertext - length salt) ciphertext in
               case createCipher a salt of
                 Inl e \<Rightarrow> do { SetMessage c ''failed to create AEAD cipher'';
                   ret ((True, VNil, Some e), Some e) }
               | Inr cipher \<Rightarrow> (case Decrypt (enc_crypto a) cipher ciphertext [] of
                   Inl e \<Rightarrow> do { SetMessage c ''failed to decrypt ciphertext'';
                     ret ((True, VNil, Some e), Some e) }
                 | Inr plaintext \<Rightarrow> (case ParseMessage (enc_Serializer a) plaintext of
                     Inl e \<Rightarrow> do { SetMessage c ''failed to parse plaintext'';
                       ret ((True, VNil, Some e), Some e) }
                   | Inr obj \<Rightarrow> ret ((True, obj, None), None))))) })"

section \<open>Reading the fields of a message\<close>

text \<open>A field that the message does not have keeps its zero value.\<close>

definition msg_fields :: "gval \<Rightarrow> fields" where
  "msg_fields v = (case v of VMap m \<Rightarrow> m | _ \<Rightarrow> [])"

definition msg_str :: "gval \<Rightarrow> string \<Rightarrow> string" where
  "msg_str v k = (case map_get (msg_fields v) k of Some (VStr x) \<Rightarrow> x | _ \<Rightarrow> [])"

definition msg_int :: "gval \<Rightarrow> string \<Rightarrow> int" where
  "msg_int v k = (case map_get (msg_fields v) k of Some (VInt x) \<Rightarrow> x | _ \<Rightarrow> 0)"

definition msg_time :: "gval \<Rightarrow> string \<Rightarrow> int" where
  "msg_time v k = (case map_get (msg_fields v) k of Some (VTime x) \<Rightarrow> x | _ \<Rightarrow> 0)"

section \<open>Lemmas: states up to tracing\<close>

lemma core_request [simp]:
  "core (s\<lparr>resp_headers := rh\<rparr>) = (core s)\<lparr>resp_headers := rh\<rparr>"
  "core (s\<lparr>authUser := u\<rparr>) = (core s)\<lparr>authUser := u\<rparr>"
  "core (s\<lparr>sessionId := i\<rparr>) = (core s)\<lparr>sessionId := i\<rparr>"
  "core (s\<lparr>clientId := j\<rparr>) = (core s)\<lparr>clientId := j\<rparr>"
  "core (s\<lparr>tenancy_of := t\<rparr>) = (core s)\<lparr>tenancy_of := t\<rparr>"
  by (simp_all add: core_def)

lemma core_request_reads [simp]:
  "req_path (core s) = req_path s" "req_method (core s) = req_method s"
  "req_content (core s) = req_content s" "req_ip (core s) = req_ip s"
  "req_agent (core s) = req_agent s" "req_params (core s) = req_params s"
  "req_headers (core s) = req_headers s" "resp_headers (core s) = resp_headers s"
  "authUser (core s) = authUser s" "sessionId (core s) = sessionId s"
  "clientId (core s) = clientId s" "tenancy_of (core s) = tenancy_of s"
  by (simp_all add: core_def)

lemma getHttpHeader_core [simp]: "getHttpHeader (core s) k = getHttpHeader s k"
  by (simp add: getHttpHeader_def)

text \<open>What a request was sent with: no operation changes it.\<close>

definition request_of :: "'z request_scheme \<Rightarrow> _" where
  "request_of s = (req_path s, req_method s, req_content s, req_ip s, req_agent s, req_params s, req_headers s)"

lemma request_of_core [simp]: "request_of (core s) = request_of s"
  by (simp add: request_of_def)

section \<open>Lemmas: what operations keep\<close>

lemma frame_request_update [io_rel]:
  "state_io_rel frame (modifys (\<lambda>s. s\<lparr>resp_headers := fh s\<rparr>))"
  "state_io_rel frame (modifys (\<lambda>s. s\<lparr>authUser := fu s\<rparr>))"
  "state_io_rel frame (modifys (\<lambda>s. s\<lparr>sessionId := fi s\<rparr>))"
  "state_io_rel frame (modifys (\<lambda>s. s\<lparr>clientId := fi s\<rparr>))"
  by (rule io_rel_modifys, simp add: frame_def balanced_def)+

lemma frame_request [io_rel]:
  "state_io_rel frame (Request_GetAuthParameter p k)" "state_io_rel frame (Request_SetAuthParameter p k v)"
  "state_io_rel frame (SetAuthUser u)" "state_io_rel frame (SetSessionId i)"
  "state_io_rel frame (SetClientId i)"
  unfolding Request_GetAuthParameter_def Request_SetAuthParameter_def SetAuthUser_def
    SetSessionId_def SetClientId_def ginHeader_def
  by (intro io_rel)+

lemma frame_SetTenancy [io_rel]: "state_io_rel frame (SetTenancy t)"
  unfolding SetTenancy_def
  by (intro io_rel io_rel_modifys) (simp_all add: frame_def balanced_def)

lemma frame_draw_bytes [io_rel]: "state_io_rel frame (draw_bytes n)"
  by (induction n) (auto intro!: io_rel)

lemma frame_crypt [io_rel]:
  "state_io_rel frame (GenerateCryptoRand n)" "state_io_rel frame (GenerateString cr len)"
  "state_io_rel frame (Encrypt cr k p ad)" "state_io_rel frame (SetTTL secs)" "state_io_rel frame (Expired t)"
  unfolding GenerateCryptoRand_def GenerateString_def Encrypt_def SetTTL_def Expired_def
  by (intro io_rel)+

lemma frame_Enc [io_rel]:
  "state_io_rel frame (Enc_SetAuthParameter a p n obj)" "state_io_rel frame (Enc_GetAuthParameter a p n)"
  unfolding Enc_SetAuthParameter_def Enc_GetAuthParameter_def Let_def by (intro io_rel)+

section \<open>Specification of the encryption\<close>

text \<open>Reading a parameter is a function of the header's value; it changes nothing but the trace.\<close>

definition open_param :: "param_encryption \<Rightarrow> string \<Rightarrow> goerror + gval" where
  "open_param a data =
     (case Base64Decode data of
        Inl e \<Rightarrow> Inl e
      | Inr ct \<Rightarrow>
          if length ct < enc_SALT_SIZE a then Inl (NativeError ''ciphertext too short for salt'')
          else (let n = length ct - enc_SALT_SIZE a in
            case createCipher a (drop n ct) of
              Inl e \<Rightarrow> Inl e
            | Inr cipher \<Rightarrow> (case Decrypt (enc_crypto a) cipher (take n ct) [] of
                Inl e \<Rightarrow> Inl e
              | Inr plaintext \<Rightarrow> ParseMessage (enc_Serializer a) plaintext)))"

definition param_of :: "param_encryption \<Rightarrow> string \<Rightarrow> bool \<times> gval \<times> err" where
  "param_of a data = (if data = [] then (False, VNil, None)
     else case open_param a data of Inl e \<Rightarrow> (True, VNil, Some e) | Inr obj \<Rightarrow> (True, obj, None))"

lemma wpc_sum [wpc]:
  "(\<And>e. x = Inl e \<Longrightarrow> wpc (m e) Q k) \<Longrightarrow> (\<And>y. x = Inr y \<Longrightarrow> wpc (n y) Q k) \<Longrightarrow>
   wpc (case x of Inl e \<Rightarrow> m e | Inr y \<Rightarrow> n y) Q k"
  by (cases x) auto

lemma wpc_Request_Get [wpc]:
  "Q (getHttpHeader k (auth_header p n)) (core k) \<Longrightarrow> wpc (Request_GetAuthParameter p n) Q k"
  unfolding Request_GetAuthParameter_def by (intro wpc) simp_all

lemma wpc_Enc_GetAuthParameter [wpc]:
  assumes "Q (param_of a (getHttpHeader k (auth_header p n))) (core k)"
  shows "wpc (Enc_GetAuthParameter a p n) Q k"
  unfolding Enc_GetAuthParameter_def Let_def
  by (intro wpc) (use assms in \<open>simp_all add: param_of_def open_param_def\<close>)

text \<open>Writing a parameter uses random data and sets one response header.\<close>

lemma keeps_Enc_Set [io_rel]:
  assumes "\<And>s. f (core s) = f s" "\<And>s t. f (s\<lparr>rands := t\<rparr>) = f s" "\<And>s t. f (s\<lparr>resp_headers := t\<rparr>) = f s"
  shows "state_io_rel (keeps f) (Enc_SetAuthParameter a p n obj)"
  unfolding Enc_SetAuthParameter_def Request_SetAuthParameter_def ginHeader_def Let_def
  by (intro io_rel io_rel_modifys assms) (simp add: keeps_def assms)

section \<open>Properties\<close>

lemma Encrypt_result:
  assumes "aead_laws cr"
  shows "wp (Encrypt cr key plaintext [])
     (\<lambda>r _. case r of Inl e \<Rightarrow> e = rand_error | Inr c \<Rightarrow> Decrypt cr key c [] = Inr plaintext) s"
  unfolding Encrypt_def wp_bind
  by (rule wp_mono [OF GenerateCryptoRand_length])
     (auto simp: wp Decrypt_sealed(2) [OF assms] split: sum.splits)

lemma open_param_sealed:
  assumes "createCipher a salt = Inr key" "Decrypt (enc_crypto a) key ct [] = Inr plaintext"
    and "length salt = enc_SALT_SIZE a" "ParseMessage (enc_Serializer a) plaintext = Inr obj"
  shows "open_param a (Base64Encode (ct @ salt)) = Inr obj"
  using assms by (simp add: open_param_def b64.decode_encode)

lemma Enc_Set_spec:
  assumes "aead_laws (enc_crypto a)" "ser_roundtrip (enc_Serializer a) obj" "0 < enc_SALT_SIZE a"
  shows "wpc (Enc_SetAuthParameter a p n obj)
    (\<lambda>e k. case e of
       None \<Rightarrow> \<exists>data. map_get (resp_headers k) (auth_header p n) = Some data
                   \<and> param_of a data = (True, obj, None)
     | Some x \<Rightarrow> x = rand_error) s"
proof -
  obtain pt where pt: "SerializeMessage (enc_Serializer a) obj = Inr pt"
      "ParseMessage (enc_Serializer a) pt = Inr obj"
    using assms(2) by (auto simp: ser_roundtrip_def)
  have nonempty: "length salt = enc_SALT_SIZE a \<Longrightarrow> Base64Encode (ct @ salt) \<noteq> []" for ct salt
    using assms(3) by (auto simp: b64.encode_nonempty)
  have cipher: "createCipher a salt = Inr (pbkdf2_Key (enc_crypto a) (enc_SECRET a) salt
      (enc_PBKDF2_ITERATIONS a) KeySize)" for salt
    by (simp add: createCipher_def NewAEAD_ok [OF assms(1)])
  show ?thesis
    unfolding Enc_SetAuthParameter_def pt(1) sum.case cipher Request_SetAuthParameter_def ginHeader_def
    by (intro wpc_traced_err wpc_bind, rule wpc_result [OF GenerateCryptoRand_length])
       (auto intro!: wpc wpc_result [OF Encrypt_result [OF assms(1)]]
          simp: nonempty param_of_def open_param_sealed [OF cipher _ _ pt(2)] split: sum.splits)
qed

text \<open>
  C18: a parameter that is handed to the client comes back as it was: when setting it succeeds, the
  response carries a header whose value, sent with any later request, is read as the same object;
  the only way it can fail is the random source.
\<close>

theorem auth_parameter_roundtrip:
  assumes "aead_laws (enc_crypto a)" "ser_roundtrip (enc_Serializer a) obj" "0 < enc_SALT_SIZE a"
    and "run_state (Enc_SetAuthParameter a p n obj) s = (e, s')"
  shows "(case e of
      None \<Rightarrow> \<exists>data. map_get (resp_headers s') (auth_header p n) = Some data \<and>
         (\<forall>t. getHttpHeader t (auth_header p n) = data \<longrightarrow>
            fst (run_state (Enc_GetAuthParameter a p n) t) = (True, obj, None))
    | Some x \<Rightarrow> x = rand_error)"
proof -
  have read: "fst (run_state (Enc_GetAuthParameter a p n) t) = param_of a (getHttpHeader t (auth_header p n))"
    for t using wpcD [OF wpc_Enc_GetAuthParameter [where Q = "\<lambda>r k. r = param_of a (getHttpHeader t (auth_header p n))"]]
    by blast
  from wpcE [OF Enc_Set_spec [OF assms(1-3)] assms(4)] show ?thesis
    by (auto simp: read split: option.splits)
qed

text \<open>
  A token's time of expiry is its number of seconds after the reading of the clock, for every
  number that fits a duration, and the token is expired at exactly the later readings.
\<close>

theorem token_expiry:
  assumes "0 \<le> ttl" "ttl \<le> 9223372036"
  shows "fst (run_state (do { exp \<leftarrow> SetTTL ttl; Expired exp }) s) \<longleftrightarrow>
     times s 0 + Second * ttl < times s 1"
  using assms by (simp add: SetTTL_def Expired_def seconds_duration_id)

theorem token_expiry_witness:
  "fst (run_state (do { exp \<leftarrow> SetTTL 300; Expired exp }) demo_ctx) \<longleftrightarrow>
     times demo_ctx 0 + Second * 300 < times demo_ctx 1"
  by (rule token_expiry) simp_all

definition demo_enc :: param_encryption where
  "demo_enc = \<lparr>enc_SECRET = ''s'', enc_PBKDF2_ITERATIONS = 256, enc_SALT_SIZE = 8,
     enc_Serializer = raw_ser, enc_crypto = plain_crypto\<rparr>"

definition demo_request :: request where
  "demo_request = op_ctx.extend demo_ctx
     (request.fields ''/a'' ''GET'' [] ''127.0.0.1'' ''agent'' [] [] [] None [] [] None)"

theorem auth_parameter_roundtrip_witness:
  "case run_state (Enc_SetAuthParameter demo_enc ''token'' ''access-token'' (VStr ''t'')) demo_request of
     (e, s') \<Rightarrow> (case e of
       None \<Rightarrow> \<exists>data. map_get (resp_headers s') ''x-auth-access-token'' = Some data
     | Some x \<Rightarrow> x = rand_error)"
proof -
  obtain e s' where run:
    "run_state (Enc_SetAuthParameter demo_enc ''token'' ''access-token'' (VStr ''t'')) demo_request = (e, s')"
    by fastforce
  have key: "auth_header ''token'' ''access-token'' = ''x-auth-access-token''" by code_simp
  have "aead_laws (enc_crypto demo_enc)" "ser_roundtrip (enc_Serializer demo_enc) (VStr ''t'')"
    "0 < enc_SALT_SIZE demo_enc"
    by (simp_all add: demo_enc_def plain_crypto_laws ser_roundtrip_def raw_ser_def)
  from auth_parameter_roundtrip [OF this run] show ?thesis
    by (auto simp: run key split: option.splits)
qed

end
