(* ===== verification/Users.thy ===== *)
theory Users
  imports Auth_Core
begin

text \<open>
  Users (\<^verbatim>\<open>src/pkg/user\<close>): the stored user with its password, the controller that adds, finds and
  changes users, and the lookup that authorisation uses. An object is read from and written to its
  row by \<open>row_user\<close> and \<open>user_row\<close>; the columns are those GORM derives from the fields.
\<close>

section \<open>Passwords\<close>

definition Phash :: "crypto \<Rightarrow> string \<Rightarrow> string \<Rightarrow> string" where
  "Phash cr password salt = Hash_CalcStrStr cr [salt, password] []"

section \<open>The stored user\<close>

record user = object_base +
  u_LOGIN :: string
  u_PHONE :: string
  u_EMAIL :: string
  u_BLOCKED :: bool
  u_PASSWORD_HASH :: string
  u_PASSWORD_SALT :: string

definition MakeUser :: user where
  "MakeUser = \<lparr>obj_id = [], created_at = 0, updated_at = 0, u_LOGIN = [], u_PHONE = [], u_EMAIL = [],
     u_BLOCKED = False, u_PASSWORD_HASH = [], u_PASSWORD_SALT = []\<rparr>"

definition SetPassword_user :: "crypto \<Rightarrow> string \<Rightarrow> user \<Rightarrow> ('z sys_scheme, user) comp" where
  "SetPassword_user cr password u = do {
     salt \<leftarrow> GenerateString cr [];
     ret (u\<lparr>u_PASSWORD_SALT := salt, u_PASSWORD_HASH := Phash cr password salt\<rparr>) }"

definition CheckPasswordHash :: "string \<Rightarrow> string \<Rightarrow> bool" where
  "CheckPasswordHash stored phash = HashEqual stored phash"

definition user_row :: "user \<Rightarrow> fields" where
  "user_row u =
     [(''id'', VStr (obj_id u)), (''created_at'', VTime (created_at u)),
      (''updated_at'', VTime (updated_at u)), (''phone'', VStr (u_PHONE u)),
      (''email'', VStr (u_EMAIL u)), (''blocked'', VBool (u_BLOCKED u)), (''login'', VStr (u_LOGIN u)),
      (''password_hash'', VStr (u_PASSWORD_HASH u)), (''password_salt'', VStr (u_PASSWORD_SALT u))]"

definition row_bool :: "fields \<Rightarrow> string \<Rightarrow> bool" where
  "row_bool row k = (case map_get row k of Some (VBool b) \<Rightarrow> b | _ \<Rightarrow> False)"

definition row_time :: "fields \<Rightarrow> string \<Rightarrow> int" where
  "row_time row k = (case map_get row k of Some (VTime t) \<Rightarrow> t | _ \<Rightarrow> 0)"

definition row_user :: "fields \<Rightarrow> user" where
  "row_user row = \<lparr>obj_id = row_str row ''id'', created_at = row_time row ''created_at'',
     updated_at = row_time row ''updated_at'', u_LOGIN = row_str row ''login'',
     u_PHONE = row_str row ''phone'', u_EMAIL = row_str row ''email'',
     u_BLOCKED = row_bool row ''blocked'', u_PASSWORD_HASH = row_str row ''password_hash'',
     u_PASSWORD_SALT = row_str row ''password_salt''\<rparr>"

text \<open>The user as authorisation sees it: it has a phone and a password, and no HMAC secret.\<close>

definition to_auth_user :: "user \<Rightarrow> auth_user" where
  "to_auth_user u = \<lparr>au_id = obj_id u, au_display = u_LOGIN u, au_login = u_LOGIN u,
     au_blocked = u_BLOCKED u, au_phone = Some (u_PHONE u),
     au_phash = Some (u_PASSWORD_HASH u, u_PASSWORD_SALT u), au_hmac_secret = None\<rparr>"

section \<open>Validators\<close>

record user_validators =
  ValidateLogin :: "string \<Rightarrow> err"
  ValidatePassword :: "string \<Rightarrow> err"

definition validation_error :: "string \<Rightarrow> string \<Rightarrow> goerror" where
  "validation_error message field = NativeError
     (''validation failed on field '' @ [CHR 0x22] @ field @ [CHR 0x22] @ '': '' @ message)"

text \<open>The rules for logins are those of the validation library, a parameter.\<close>

definition UsersValidator :: "(string \<Rightarrow> string \<Rightarrow> err) \<Rightarrow> string list \<Rightarrow> user_validators" where
  "UsersValidator validateValue rules =
     (let loginRules = OptionalArg ''required,alphanum_|email,lowercase'' rules in
      \<lparr>ValidateLogin = (\<lambda>login. if validateValue login loginRules \<noteq> None
          then Some (validation_error ''Invalid format of login'' ''login'') else None),
       ValidatePassword = (\<lambda>password. if length password < 8
          then Some (validation_error ''Password must be at least 8 characters'' ''password'') else None)\<rparr>)"

section \<open>The controller\<close>

definition ErrorCodeDuplicateLogin :: string where "ErrorCodeDuplicateLogin = ''duplicate_login''"
definition ErrorCodeDuplicateEmail :: string where "ErrorCodeDuplicateEmail = ''duplicate_email''"
definition ErrorCodeDuplicatePhone :: string where "ErrorCodeDuplicatePhone = ''duplicate_phone''"

record 's user_controller =
  uc_crud :: "'s crud"
  uc_table :: string
  uc_oplog_table :: string
  uc_validators :: "user_validators option"
  uc_crypto :: crypto

record check_dup =
  cd_Name :: string
  cd_Value :: gval
  cd_ErrorCode :: string

text \<open>A setter of extra fields returns the changed user, the fields to check and an error.\<close>

type_synonym set_user_fields = "user \<Rightarrow> user \<times> check_dup list \<times> err"

definition Phone :: "string \<Rightarrow> set_user_fields" where
  "Phone phone u = (let u = u\<lparr>u_PHONE := phone\<rparr> in
     if phone \<noteq> [] then (u, [\<lparr>cd_Name = ''phone'', cd_Value = VStr phone,
       cd_ErrorCode = ErrorCodeDuplicatePhone\<rparr>], None) else (u, [], None))"

definition Email :: "string \<Rightarrow> set_user_fields" where
  "Email email u = (let u = u\<lparr>u_EMAIL := email\<rparr> in
     if email \<noteq> [] then (u, [\<lparr>cd_Name = ''email'', cd_Value = VStr email,
       cd_ErrorCode = ErrorCodeDuplicateEmail\<rparr>], None) else (u, [], None))"

definition SetUserFields :: "string \<Rightarrow> string \<Rightarrow> bool \<Rightarrow> set_user_fields" where
  "SetUserFields email phone blocked u =
     (let u = u\<lparr>u_EMAIL := email, u_PHONE := phone, u_BLOCKED := blocked\<rparr>;
          dups = (if email \<noteq> [] then [\<lparr>cd_Name = ''email'', cd_Value = VStr email,
                    cd_ErrorCode = ErrorCodeDuplicateEmail\<rparr>] else [])
               @ (if phone \<noteq> [] then [\<lparr>cd_Name = ''phone'', cd_Value = VStr phone,
                    cd_ErrorCode = ErrorCodeDuplicatePhone\<rparr>] else []) in
      (u, dups, None))"

definition FindUsers :: "'z op_ctx_scheme user_controller \<Rightarrow> db_filter
    \<Rightarrow> ('z op_ctx_scheme, (user list \<times> int) \<times> err) comp" where
  "FindUsers u flt = do {
     ((rows, count), e) \<leftarrow> c_List (uc_crud u) (uc_table u) (Some flt);
     ret ((map row_user rows, count), e) }"

definition OpLog :: "'z op_ctx_scheme user_controller \<Rightarrow> string \<Rightarrow> string \<Rightarrow> string
    \<Rightarrow> ('z op_ctx_scheme, unit) comp" where
  "OpLog u op userId login = Oplog
     \<lparr>obj_id = [], created_at = 0, updated_at = 0, ol_table = uc_oplog_table u, ol_operation = op,
      ol_context = [], ol_context_name = [], ol_origin_app = [], ol_origin_name = [],
      ol_origin_source = [], ol_origin_client = [], ol_user = [], ol_user_type = [],
      ol_extra = [(''login'', VStr login), (''user_id'', VStr userId)]\<rparr>"

definition unique_filter :: "string \<Rightarrow> gval \<Rightarrow> db_filter" where
  "unique_filter name val = (AddField name val NewFilter)\<lparr>Limit := 1\<rparr>"

text \<open>The inner loop of \<^verbatim>\<open>Add\<close>: each field that has to be unique. \<open>None\<close> means that none is taken.\<close>

fun check_dups :: "'z op_ctx_scheme user_controller \<Rightarrow> nat \<Rightarrow> check_dup list
    \<Rightarrow> ('z op_ctx_scheme, err) comp" where
  "check_dups u c [] = ret None"
| "check_dups u c (dup # dups) = do {
     ((users, _), e) \<leftarrow> FindUsers u (unique_filter (cd_Name dup) (cd_Value dup));
     (if e \<noteq> None then do {
        SetCallField c ''unique_field'' (VStr (cd_Name dup));
        SetMessage c ''failed to check unique field'';
        ret e }
      else if length users > 0 then do {
        SetCallField c ''unique_field'' (VStr (cd_Name dup));
        SetCallField c ''unique_value'' (cd_Value dup);
        SetGenericErrorCode (cd_ErrorCode dup) [];
        ret (errors_New (''duplicate '' @ cd_Name dup)) }
      else check_dups u c dups) }"

fun apply_setters :: "'z op_ctx_scheme user_controller \<Rightarrow> nat \<Rightarrow> user \<Rightarrow> set_user_fields list
    \<Rightarrow> ('z op_ctx_scheme, user \<times> err) comp" where
  "apply_setters u c usr [] = ret (usr, None)"
| "apply_setters u c usr (setter # setters) =
     (case setter usr of (usr', dups, e) \<Rightarrow>
        if e \<noteq> None then do {
          SetMessage c ''failed to set extra fields'';
          ret (usr', e) }
        else do {
          e \<leftarrow> check_dups u c dups;
          (if e \<noteq> None then ret (usr', e) else apply_setters u c usr' setters) })"

definition validate_new :: "'s user_controller \<Rightarrow> string \<Rightarrow> string \<Rightarrow> (string \<times> goerror) option" where
  "validate_new u login password = (case uc_validators u of
     None \<Rightarrow> None
   | Some vld \<Rightarrow> (case ValidateLogin vld login of
       Some e \<Rightarrow> Some (''failed to validate login'', e)
     | None \<Rightarrow> (case ValidatePassword vld password of
         Some e \<Rightarrow> Some (''failed to validate password'', e)
       | None \<Rightarrow> None)))"

definition Users_Add :: "'z op_ctx_scheme user_controller \<Rightarrow> string \<Rightarrow> string \<Rightarrow> set_user_fields list
    \<Rightarrow> ('z op_ctx_scheme, user option \<times> err) comp" where
  "Users_Add u login password setters = do {
     SetLoggerField ''login'' (VStr login);
     traced_err ''Users.Add'' [] (\<lambda>c.
       case validate_new u login password of
         Some (msg, e) \<Rightarrow> do { SetMessage c msg; ret ((None, Some e), Some e) }
       | None \<Rightarrow> do {
           ((users, _), e) \<leftarrow> FindUsers u (unique_filter ''login'' (VStr login));
           (if e \<noteq> None then do {
              SetMessage c ''failed to check login duplicates'';
              ret ((None, e), e) }
            else if length users > 0 then do {
              SetGenericErrorCode ErrorCodeDuplicateLogin [];
              ret ((None, errors_New ''duplicate login''), errors_New ''duplicate login'') }
            else do {
              usr \<leftarrow> InitObject MakeUser;
              usr \<leftarrow> SetPassword_user (uc_crypto u) password (usr\<lparr>u_LOGIN := login\<rparr>);
              (usr, e) \<leftarrow> apply_setters u c usr setters;
              (if e \<noteq> None then ret ((None, e), e)
               else do {
                 e \<leftarrow> c_Create (uc_crud u) (uc_table u) (user_row usr);
                 (if e \<noteq> None then do {
                    SetMessage c ''failed to create user'';
                    ret ((None, e), e) }
                  else do {
                    OpLog u ''add'' (obj_id usr) login;
                    ret ((Some usr, None), None) }) }) }) }) }"

definition find_user_by :: "'z op_ctx_scheme user_controller \<Rightarrow> string \<Rightarrow> string \<Rightarrow> string \<Rightarrow> string
    \<Rightarrow> ('z op_ctx_scheme, user option \<times> err) comp" where
  "find_user_by u methodName field val missing =
     traced_err methodName [[(field, VStr val)]] (\<lambda>c. do {
       (found, e) \<leftarrow> c_Read (uc_crud u) (uc_table u) [(field, VStr val)];
       (if e \<noteq> None then do {
          SetMessage c ''failed to find user in database'';
          ret ((None, e), e) }
        else case found of
          None \<Rightarrow> do {
            SetGenericErrorCode ErrorCodeNotFound [];
            ret ((None, errors_New missing), errors_New missing) }
        | Some row \<Rightarrow> ret ((Some (row_user row), None), None)) })"

definition Users_Find :: "'z op_ctx_scheme user_controller \<Rightarrow> string
    \<Rightarrow> ('z op_ctx_scheme, user option \<times> err) comp" where
  "Users_Find u i = find_user_by u ''Users.Find'' ''id'' i ''user with such ID does not exist''"

definition Users_FindByLogin :: "'z op_ctx_scheme user_controller \<Rightarrow> string
    \<Rightarrow> ('z op_ctx_scheme, user option \<times> err) comp" where
  "Users_FindByLogin u login =
     find_user_by u ''Users.FindByLogin'' ''login'' login ''user with such login does not exist''"

definition FindUser :: "'z op_ctx_scheme user_controller \<Rightarrow> string \<Rightarrow> bool list
    \<Rightarrow> ('z op_ctx_scheme, user option \<times> err) comp" where
  "FindUser u i idIsLogin = (let useLogin = OptionalArg False idIsLogin in
     if useLogin then do { SetLoggerField ''login'' (VStr i); Users_FindByLogin u i }
     else do { SetLoggerField ''id'' (VStr i); Users_Find u i })"

text \<open>
  The setters share their shape: find the user, update its columns, add an operation log.
  \<^verbatim>\<open>FindUser\<close> returns a user whenever it returns no error.
\<close>

definition update_user :: "'z op_ctx_scheme user_controller \<Rightarrow> string \<Rightarrow> string \<Rightarrow> bool list
    \<Rightarrow> (user \<Rightarrow> ('z op_ctx_scheme, fields) comp) \<Rightarrow> ('z op_ctx_scheme, err \<times> err) comp" where
  "update_user u op i idIsLogin columns = do {
     (usr, e) \<leftarrow> FindUser u i idIsLogin;
     (case usr of
        None \<Rightarrow> ret (e, e)
      | Some usr \<Rightarrow>
          if e \<noteq> None then ret (e, e)
          else do {
            fs \<leftarrow> columns usr;
            e \<leftarrow> c_Update (uc_crud u) (uc_table u) (obj_id usr) fs;
            (if e \<noteq> None then ret (e, e)
             else do { OpLog u op (obj_id usr) (u_LOGIN usr); ret (None, None) }) }) }"

definition Users_SetPassword :: "'z op_ctx_scheme user_controller \<Rightarrow> string \<Rightarrow> string \<Rightarrow> bool list
    \<Rightarrow> ('z op_ctx_scheme, err) comp" where
  "Users_SetPassword u i password idIsLogin = traced_err ''Users.SetPassword'' [] (\<lambda>c.
     case (case uc_validators u of None \<Rightarrow> None | Some vld \<Rightarrow> ValidatePassword vld password) of
       Some e \<Rightarrow> do { SetMessage c ''failed to validate password''; ret (Some e, Some e) }
     | None \<Rightarrow> update_user u ''set_password'' i idIsLogin (\<lambda>usr. do {
         usr \<leftarrow> SetPassword_user (uc_crypto u) password usr;
         ret [(''password_hash'', VStr (u_PASSWORD_HASH usr)),
              (''password_salt'', VStr (u_PASSWORD_SALT usr))] }))"

definition Users_SetPhone :: "'z op_ctx_scheme user_controller \<Rightarrow> string \<Rightarrow> string \<Rightarrow> bool list
    \<Rightarrow> ('z op_ctx_scheme, err) comp" where
  "Users_SetPhone u i phone idIsLogin = do {
     SetLoggerField ''phone'' (VStr phone);
     traced_err ''Users.SetPhone'' [] (\<lambda>c.
       update_user u ''set_phone'' i idIsLogin (\<lambda>usr. ret [(''phone'', VStr phone)])) }"

definition Users_SetEmail :: "'z op_ctx_scheme user_controller \<Rightarrow> string \<Rightarrow> string \<Rightarrow> bool list
    \<Rightarrow> ('z op_ctx_scheme, err) comp" where
  "Users_SetEmail u i email idIsLogin = do {
     SetLoggerField ''email'' (VStr email);
     traced_err ''Users.SetEmail'' [] (\<lambda>c.
       update_user u ''set_email'' i idIsLogin (\<lambda>usr. ret [(''email'', VStr email)])) }"

definition Users_SetBlocked :: "'z op_ctx_scheme user_controller \<Rightarrow> string \<Rightarrow> bool \<Rightarrow> bool list
    \<Rightarrow> ('z op_ctx_scheme, err) comp" where
  "Users_SetBlocked u i blocked idIsLogin = do {
     SetLoggerField ''blocked'' (VBool blocked);
     traced_err ''Users.SetBlocked'' [] (\<lambda>c.
       update_user u ''set_blocked'' i idIsLogin (\<lambda>usr. ret [(''blocked'', VBool blocked)])) }"

definition FindAuthUser :: "'z op_ctx_scheme user_controller \<Rightarrow> string
    \<Rightarrow> ('z op_ctx_scheme, auth_user option \<times> err) comp" where
  "FindAuthUser u login = do {
     (found, e) \<leftarrow> c_Read (uc_crud u) (uc_table u) [(''login'', VStr login)];
     (if e \<noteq> None then ret (None, e)
      else case found of
        None \<Rightarrow> ret (None, None)
      | Some row \<Rightarrow> ret (Some (to_auth_user (row_user row)), None)) }"

text \<open>The controller over the database, with the tables of the default types.\<close>

definition db_users :: "dbhandlers \<Rightarrow> crypto \<Rightarrow> user_validators \<Rightarrow> 'z op_ctx_scheme user_controller" where
  "db_users h cr vld = \<lparr>uc_crud = DbCRUD h False, uc_table = ''users'',
     uc_oplog_table = ''op_log_users'', uc_validators = Some vld, uc_crypto = cr\<rparr>"

section \<open>Lemmas\<close>

lemma db_users_simps [simp]:
  "uc_crud (db_users h cr vld) = DbCRUD h False" "uc_table (db_users h cr vld) = ''users''"
  "uc_validators (db_users h cr vld) = Some vld" "uc_crypto (db_users h cr vld) = cr"
  by (simp_all add: db_users_def)

lemma row_user_row [simp]: "row_user (user_row u) = u"
  by (cases u) (simp add: row_user_def user_row_def row_str_def row_time_def row_bool_def)

lemma frame_Users [io_rel]:
  "state_io_rel frame (FindUsers (db_users h cr vld) flt)" "state_io_rel frame (OpLog u op i l)"
  "state_io_rel frame (SetPassword_user cr' password usr)"
  unfolding FindUsers_def OpLog_def SetPassword_user_def db_users_def user_controller.simps
  by (intro io_rel dbcrud.frame_List)+

lemma frame_check_dups [io_rel]: "state_io_rel frame (check_dups (db_users h cr vld) c dups)"
  by (induction dups) (auto intro!: io_rel)

lemma frame_apply_setters [io_rel]: "state_io_rel frame (apply_setters (db_users h cr vld) c usr setters)"
  by (induction setters arbitrary: usr) (auto intro!: io_rel split: prod.splits)

lemma frame_Users_Add [io_rel]: "state_io_rel frame (Users_Add (db_users h cr vld) login password setters)"
  unfolding Users_Add_def Let_def
  by (intro io_rel) (simp_all add: db_users_def dbcrud.frame_Create)

lemma frame_FindUser [io_rel]: "state_io_rel frame (FindUser (db_users h cr vld) i b)"
  unfolding FindUser_def Users_Find_def Users_FindByLogin_def find_user_by_def Let_def
  by (intro io_rel) (simp_all add: db_users_def dbcrud.frame_Read)

lemma frame_update_user [io_rel]:
  "(\<And>usr. state_io_rel frame (columns usr)) \<Longrightarrow>
   state_io_rel frame (update_user (db_users h cr vld) op i b columns)"
  unfolding update_user_def by (intro io_rel) (simp_all add: db_users_def dbcrud.frame_Update)

lemma frame_Users_setters [io_rel]:
  "state_io_rel frame (Users_SetPassword (db_users h cr vld) i password b)"
  "state_io_rel frame (Users_SetPhone (db_users h cr vld) i phone b)"
  "state_io_rel frame (Users_SetEmail (db_users h cr vld) i email b)"
  "state_io_rel frame (Users_SetBlocked (db_users h cr vld) i blocked b)"
  unfolding Users_SetPassword_def Users_SetPhone_def Users_SetEmail_def Users_SetBlocked_def
  by (intro io_rel)+

section \<open>Adding a user\<close>

definition users_of :: "'z op_ctx_scheme \<Rightarrow> fields list" where
  "users_of s = dbs s (db_for False s) ''users''"

definition login_is :: "string \<Rightarrow> fields \<Rightarrow> bool" where
  "login_is login row \<longleftrightarrow> map_get row ''login'' = Some (VStr login)"

text \<open>The setters of the package keep the login and the password.\<close>

definition keeps_credentials :: "set_user_fields \<Rightarrow> bool" where
  "keeps_credentials f \<longleftrightarrow> (\<forall>u. u_LOGIN (fst (f u)) = u_LOGIN u
     \<and> u_PASSWORD_HASH (fst (f u)) = u_PASSWORD_HASH u \<and> u_PASSWORD_SALT (fst (f u)) = u_PASSWORD_SALT u)"

lemma package_setters_keep_credentials:
  "keeps_credentials (Phone p)" "keeps_credentials (Email e)" "keeps_credentials (SetUserFields e p b)"
  by (simp_all add: keeps_credentials_def Phone_def Email_def SetUserFields_def Let_def)

definition store :: "'z op_ctx_scheme \<Rightarrow> _" where
  "store s = (dbs s, (mainDb s, curDb s, dbTransaction s))"

lemma store_core [simp]: "store (core s) = store s"
  by (simp add: store_def)

lemma store_updates [simp]:
  "store (s\<lparr>times := a\<rparr>) = store s" "store (s\<lparr>rands := b\<rparr>) = store s"
  "store (s\<lparr>idCount := c\<rparr>) = store s" "store (s\<lparr>oplogs := ol\<rparr>) = store s"
  "store (with_code code s) = store s"
  by (simp_all add: store_def with_code_def)

lemma users_of_core [simp]: "users_of (core s) = users_of s"
  by (simp add: users_of_def)

lemma users_of_created:
  "users_of (s\<lparr>dbs := D, oplogs := ol\<rparr>) = D (db_for False s) ''users''"
  by (simp add: users_of_def db_for_def cong: option.case_cong)

lemma row_matches_login: "row_matches [(''login'', VStr l)] = login_is l"
  by (rule ext) (simp add: login_is_def)

lemma users_of_store: "store s = store t \<Longrightarrow> users_of s = users_of t"
  by (auto simp: store_def users_of_def db_for_def split: option.splits)

lemma store_check_dups [io_rel]: "state_io_rel (keeps store) (check_dups (db_users h cr vld) c dups)"
  by (induction dups)
     (auto intro!: io_rel simp: FindUsers_def db_users_def, auto simp: store_def)

lemma apply_setters_spec:
  assumes "list_all keeps_credentials setters"
  shows "wpc (apply_setters (db_users h cr vld) c usr setters) (\<lambda>(usr', e) k'. store k' = store k
     \<and> u_LOGIN usr' = u_LOGIN usr \<and> u_PASSWORD_HASH usr' = u_PASSWORD_HASH usr
     \<and> u_PASSWORD_SALT usr' = u_PASSWORD_SALT usr) k"
  using assms
proof (induction setters arbitrary: usr k)
  case Nil
  show ?case by (auto intro!: wpc)
next
  case (Cons f fs)
  obtain usr' dups e where f: "f usr = (usr', dups, e)" by (cases "f usr") auto
  from Cons.prems have kf: "keeps_credentials f" and fs: "list_all keeps_credentials fs" by simp_all
  have cr: "u_LOGIN usr' = u_LOGIN usr" "u_PASSWORD_HASH usr' = u_PASSWORD_HASH usr"
    "u_PASSWORD_SALT usr' = u_PASSWORD_SALT usr"
    using kf [unfolded keeps_credentials_def, rule_format, of usr] f by simp_all
  show ?case
    unfolding apply_setters.simps f prod.case
    by (intro wpc wpc_keeps [OF store_check_dups] wpc_mono [OF Cons.IH [OF fs]])
       (auto simp: cr)
qed

lemma unique_filter_fields: "unique_filter name val = fields_filter [(name, val)] 1"
  by (simp add: unique_filter_def fields_filter_def AddField_def NewFilter_def nil_map_def map_set_def)

lemma FindUsers_unique:
  assumes "find_filters h"
    and "\<And>users n e. (e = None \<Longrightarrow> (users = []) = (\<not> list_ex (row_matches [(name, val)]) (users_of k))) \<Longrightarrow>
       Q ((users, n), e) (core k)"
  shows "wpc (FindUsers (db_users h cr vld) (unique_filter name val)) Q k"
  unfolding FindUsers_def db_users_def user_controller.simps unique_filter_fields
proof -
  have *: "(rows = []) = (\<not> list_ex (row_matches [(name, val)]) (users_of k))"
    if "h_FindWithFilter h (db_for False k) ''users'' (Some (fields_filter [(name, val)] 1)) (dbs k)
        = (rows, n, None)" for rows n
  proof -
    from assms(1) [unfolded find_filters_def, rule_format, OF that]
    have "rows = take 1 (filter (row_matches [(name, val)]) (users_of k))"
      by (simp add: users_of_def)
    then show ?thesis by (auto simp: list_ex_iff filter_empty_conv)
  qed
  show "wpc (do { ((rows, count), e) \<leftarrow> c_List (DbCRUD h False) ''users''
        (Some (fields_filter [(name, val)] 1)); ret ((map row_user rows, count), e) }) Q k"
    by (intro wpc) (use assms(2) * in auto)
qed

lemma wpc_SetPassword_user [wpc]:
  assumes "\<And>salt rd. Q (u\<lparr>u_PASSWORD_SALT := salt, u_PASSWORD_HASH := Phash cr password salt\<rparr>)
     (core (k\<lparr>rands := rd\<rparr>))"
  shows "wpc (SetPassword_user cr password u) Q k"
  unfolding SetPassword_user_def GenerateString_def by (intro wpc) (use assms in simp_all)

lemma create_appends_table:
  assumes "create_appends h" "fst (h_Create h d tbl row D) = None"
  shows "snd (h_Create h d tbl row D) d tbl = D d tbl @ [row]"
proof -
  have "h_Create h d tbl row D = (None, snd (h_Create h d tbl row D))"
    using assms(2) by (simp add: prod_eq_iff)
  from assms(1) [unfolded create_appends_def, rule_format, OF this] show ?thesis
    by (simp only: set_table_same)
qed

lemma Users_Add_spec:
  assumes "find_filters h" "create_appends h" "list_all keeps_credentials setters"
  shows "wpc (Users_Add (db_users h cr vld) login password setters) (\<lambda>(usr, e) k.
     case usr of
       Some u \<Rightarrow> e = None \<and> \<not> list_ex (login_is login) (users_of s)
         \<and> users_of k = users_of s @ [user_row u] \<and> u_LOGIN u = login
         \<and> CheckPasswordHash (u_PASSWORD_HASH u) (Phash cr password (u_PASSWORD_SALT u))
     | None \<Rightarrow> e \<noteq> None \<and> (list_ex (login_is login) (users_of s) \<longrightarrow> store k = store s)) s"
  unfolding Users_Add_def db_users_simps OpLog_def
  by (intro wpc FindUsers_unique [OF assms(1)] wpc_mono [OF apply_setters_spec [OF assms(3)]])
     (auto simp: row_matches_login CheckPasswordHash_def HashEqual_def users_of_created
        create_appends_table [OF assms(2)] users_of_def [symmetric] dest: users_of_store)

text \<open>Well-formed users: every row has an identifier, and no two rows have the same login.\<close>

definition users_wf :: "fields list \<Rightarrow> bool" where
  "users_wf rows \<longleftrightarrow> distinct (map (\<lambda>row. map_get row ''login'') rows)
     \<and> list_all (\<lambda>row. map_get row ''id'' = Some (VStr (row_str row ''id''))) rows"

lemma users_wf_same_login:
  "users_wf rows \<Longrightarrow> r1 \<in> set rows \<Longrightarrow> r2 \<in> set rows \<Longrightarrow> login_is l r1 \<Longrightarrow> login_is l r2 \<Longrightarrow> r1 = r2"
  by (auto simp: users_wf_def login_is_def distinct_map dest: inj_onD [where x = r1 and y = r2])

lemma users_wf_append:
  "users_wf rows \<Longrightarrow> \<not> list_ex (login_is (u_LOGIN u)) rows \<Longrightarrow> users_wf (rows @ [user_row u])"
  by (auto simp: users_wf_def login_is_def user_row_def row_str_def list_ex_iff)

text \<open>Blocking: the row of the user with that login is updated.\<close>

definition blocked_rows :: "fields \<Rightarrow> int \<Rightarrow> fields list \<Rightarrow> fields list" where
  "blocked_rows row t rows = map (\<lambda>r. if row_matches [(''id'', VStr (row_str row ''id''))] r
     then AppendMap r (stamped [(''blocked'', VBool True)] t) else r) rows"

lemma row_user_fields [simp]:
  "obj_id (row_user row) = row_str row ''id''" "u_LOGIN (row_user row) = row_str row ''login''"
  "u_BLOCKED (row_user row) = row_bool row ''blocked''"
  by (simp_all add: row_user_def)

lemma wpc_OpLog [wpc]:
  "(\<And>ol. Q () (core (k\<lparr>oplogs := oplogs k @ [ol]\<rparr>))) \<Longrightarrow> wpc (OpLog u op i l) Q k"
  unfolding OpLog_def by (intro wpc) simp

lemma wpc_find_user_by:
  assumes "\<And>row. h_FindByFields h (db_for False k) ''users'' [(field, VStr val)] (dbs k) = (Some row, None)
       \<Longrightarrow> Q (Some (row_user row), None) (core k)"
    and "\<And>e k'. \<nexists>row. h_FindByFields h (db_for False k) ''users'' [(field, VStr val)] (dbs k) = (Some row, None)
       \<Longrightarrow> e \<noteq> None \<Longrightarrow> store k' = store k \<Longrightarrow> core k' = k' \<Longrightarrow> Q (None, e) k'"
  shows "wpc (find_user_by (db_users h cr vld) m field val missing) Q k"
  unfolding find_user_by_def db_users_simps
  by (intro wpc) (use assms in auto)

lemma wpc_FindUser:
  assumes "\<And>row. h_FindByFields h (db_for False k) ''users''
         [(if OptionalArg False b then ''login'' else ''id'', VStr i)] (dbs k) = (Some row, None)
       \<Longrightarrow> Q (Some (row_user row), None) (core k)"
    and "\<And>e k'. \<nexists>row. h_FindByFields h (db_for False k) ''users''
         [(if OptionalArg False b then ''login'' else ''id'', VStr i)] (dbs k) = (Some row, None)
       \<Longrightarrow> e \<noteq> None \<Longrightarrow> store k' = store k \<Longrightarrow> core k' = k' \<Longrightarrow> Q (None, e) k'"
  shows "wpc (FindUser (db_users h cr vld) i b) Q k"
  unfolding FindUser_def Users_FindByLogin_def Users_Find_def Let_def
  by (intro wpc wpc_find_user_by) (use assms in auto)

lemma wpc_update_user:
  assumes "\<And>row fs. h_FindByFields h (db_for False k) ''users''
         [(if OptionalArg False b then ''login'' else ''id'', VStr i)] (dbs k) = (Some row, None) \<Longrightarrow>
       wpc (columns (row_user row)) (\<lambda>fs k'. wpc (do {
         e \<leftarrow> c_Update (DbCRUD h False) ''users'' (obj_id (row_user row)) fs;
         (if e \<noteq> None then ret (e, e)
          else do { OpLog (db_users h cr vld) op (obj_id (row_user row)) (u_LOGIN (row_user row));
            ret (None, None) }) })
         Q k') (core k)"
    and "\<And>e k'. \<nexists>row. h_FindByFields h (db_for False k) ''users''
         [(if OptionalArg False b then ''login'' else ''id'', VStr i)] (dbs k) = (Some row, None)
       \<Longrightarrow> e \<noteq> None \<Longrightarrow> store k' = store k \<Longrightarrow> core k' = k' \<Longrightarrow> Q (e, e) k'"
  shows "wpc (update_user (db_users h cr vld) op i b columns) Q k"
  unfolding update_user_def db_users_simps
  by (intro wpc_bind wpc_FindUser) (use assms in \<open>auto intro!: wpc_bind wpc_ret wpc_if\<close>)

lemma SetBlocked_spec:
  assumes "update_writes_matches h" "find_returns_match h"
  shows "wpc (Users_SetBlocked (db_users h cr vld) login True [True]) (\<lambda>e k. e = None \<longrightarrow>
     (\<exists>row t. row \<in> set (users_of s) \<and> login_is login row
        \<and> users_of k = blocked_rows row t (users_of s))) s"
proof -
  have upd: "snd (h_Update h d tbl flt fs D) d tbl
     = map (\<lambda>row. if row_matches flt row then AppendMap row fs else row) (D d tbl)"
    if "fst (h_Update h d tbl flt fs D) = None" for d tbl flt fs D
  proof -
    have "h_Update h d tbl flt fs D = (None, snd (h_Update h d tbl flt fs D))"
      using that by (simp add: prod_eq_iff)
    from assms(1) [unfolded update_writes_matches_def, rule_format, OF this] show ?thesis
      by (simp only: set_table_same)
  qed
  have fnd: "row \<in> set (users_of s) \<and> login_is login row"
    if "h_FindByFields h (db_for False s) ''users'' [(''login'', VStr login)] (dbs s) = (Some row, e)" for row e
    using assms(2) [unfolded find_returns_match_def, THEN conjunct1, rule_format, OF that]
    by (simp add: users_of_def login_is_def)
  show ?thesis
    unfolding Users_SetBlocked_def
    by (intro wpc wpc_update_user) (auto simp: upd blocked_rows_def users_of_created
        users_of_def [symmetric] dest!: fnd)
qed

section \<open>Properties\<close>

text \<open>
  C8: adding a user either fails, or adds exactly one row with the login asked for, which no user had
  before, and whose stored hash accepts the password; the users stay well-formed.
\<close>

theorem Users_Add_unique:
  assumes "find_filters h" "create_appends h" "list_all keeps_credentials setters"
    and "run_state (Users_Add (db_users h cr vld) login password setters) s = ((usr, e), s')"
  shows "case usr of
      Some u \<Rightarrow> e = None \<and> \<not> list_ex (login_is login) (users_of s)
        \<and> users_of s' = users_of s @ [user_row u] \<and> u_LOGIN u = login
        \<and> CheckPasswordHash (u_PASSWORD_HASH u) (Phash cr password (u_PASSWORD_SALT u))
        \<and> (users_wf (users_of s) \<longrightarrow> users_wf (users_of s'))
    | None \<Rightarrow> e \<noteq> None \<and> (list_ex (login_is login) (users_of s) \<longrightarrow> dbs s' = dbs s)"
  using wpcE [OF Users_Add_spec [OF assms(1-3)] assms(4)]
  by (auto simp: store_def intro: users_wf_append split: option.splits)

definition demo_vld :: user_validators where
  "demo_vld = UsersValidator (\<lambda>v r. None) []"

theorem Users_Add_unique_witness:
  "\<exists>usr e s'. run_state (Users_Add (db_users table_db plain_crypto demo_vld) ''joe'' ''password'' [Phone ''+100''])
       demo_ctx = ((usr, e), s')
     \<and> (case usr of Some u \<Rightarrow> e = None \<and> users_of s' = users_of demo_ctx @ [user_row u] \<and> u_LOGIN u = ''joe''
        | None \<Rightarrow> e \<noteq> None)"
proof -
  obtain usr e s' where run: "run_state (Users_Add (db_users table_db plain_crypto demo_vld) ''joe'' ''password''
      [Phone ''+100'']) demo_ctx = ((usr, e), s')" by (metis prod.collapse)
  have "list_all keeps_credentials [Phone ''+100'']" by (simp add: package_setters_keep_credentials)
  from Users_Add_unique [OF table_db_filters table_db_writes(3) this run] run show ?thesis
    by (intro exI [of _ usr] exI [of _ e] exI [of _ s']) (auto split: option.splits)
qed

end
