(* ===== verification/Auth_Session.thy ===== *)
theory Auth_Session
  imports Users
begin

text \<open>
  Sessions (\<^verbatim>\<open>src/pkg/auth/auth_session\<close>): the session and its clients, the controller over a CRUD, and
  the interface \<^verbatim>\<open>WithUserSessionManager\<close> through which the authorisation handlers reach users and
  sessions. What they rely on in it is the locale \<open>session_manager\<close>; it is interpreted here on the
  controllers of users and sessions over the database.
\<close>

section \<open>Sessions and their clients\<close>

record session = object_base +
  ss_UserId :: string
  ss_UserLogin :: string
  ss_UserDisplay :: string
  ss_Valid :: bool
  ss_Expiration :: int

record session_client = object_base +
  sc_UserId :: string
  sc_UserLogin :: string
  sc_UserDisplay :: string
  sc_SessionId :: string
  sc_ClientIp :: string
  sc_UserAgent :: string
  sc_ClientHash :: string

definition NewSession :: session where
  "NewSession = \<lparr>obj_id = [], created_at = 0, updated_at = 0, ss_UserId = [], ss_UserLogin = [],
     ss_UserDisplay = [], ss_Valid = False, ss_Expiration = 0\<rparr>"

definition NewSessionClient :: session_client where
  "NewSessionClient = \<lparr>obj_id = [], created_at = 0, updated_at = 0, sc_UserId = [], sc_UserLogin = [],
     sc_UserDisplay = [], sc_SessionId = [], sc_ClientIp = [], sc_UserAgent = [], sc_ClientHash = []\<rparr>"

definition session_row :: "session \<Rightarrow> fields" where
  "session_row x =
     [(''id'', VStr (obj_id x)), (''created_at'', VTime (created_at x)),
      (''updated_at'', VTime (updated_at x)), (''user_id'', VStr (ss_UserId x)),
      (''user_login'', VStr (ss_UserLogin x)), (''user_display'', VStr (ss_UserDisplay x)),
      (''valid'', VBool (ss_Valid x)), (''expiration'', VTime (ss_Expiration x))]"

definition row_session :: "fields \<Rightarrow> session" where
  "row_session row = \<lparr>obj_id = row_str row ''id'', created_at = row_time row ''created_at'',
     updated_at = row_time row ''updated_at'', ss_UserId = row_str row ''user_id'',
     ss_UserLogin = row_str row ''user_login'', ss_UserDisplay = row_str row ''user_display'',
     ss_Valid = row_bool row ''valid'', ss_Expiration = row_time row ''expiration''\<rparr>"

definition client_row :: "session_client \<Rightarrow> fields" where
  "client_row x =
     [(''id'', VStr (obj_id x)), (''created_at'', VTime (created_at x)),
      (''updated_at'', VTime (updated_at x)), (''user_id'', VStr (sc_UserId x)),
      (''user_login'', VStr (sc_UserLogin x)), (''user_display'', VStr (sc_UserDisplay x)),
      (''session_id'', VStr (sc_SessionId x)), (''client_ip'', VStr (sc_ClientIp x)),
      (''user_agent'', VStr (sc_UserAgent x)), (''client_hash'', VStr (sc_ClientHash x))]"

definition row_client :: "fields \<Rightarrow> session_client" where
  "row_client row = \<lparr>obj_id = row_str row ''id'', created_at = row_time row ''created_at'',
     updated_at = row_time row ''updated_at'', sc_UserId = row_str row ''user_id'',
     sc_UserLogin = row_str row ''user_login'', sc_UserDisplay = row_str row ''user_display'',
     sc_SessionId = row_str row ''session_id'', sc_ClientIp = row_str row ''client_ip'',
     sc_UserAgent = row_str row ''user_agent'', sc_ClientHash = row_str row ''client_hash''\<rparr>"

section \<open>The controller\<close>

record 's session_controller =
  sc_crud :: "'s crud"
  sc_table :: string
  sc_client_table :: string
  sc_crypto :: crypto

text \<open>\<^verbatim>\<open>SetUser(ctx.AuthUser())\<close> calls methods of the user, which panics when there is none.\<close>

definition AuthUser_or_panic :: "('z request_scheme, auth_user) comp" where
  "AuthUser_or_panic = do {
     u \<leftarrow> gets authUser;
     (case u of
        Some u \<Rightarrow> ret u
      | None \<Rightarrow> go_panic \<lparr>au_id = [], au_display = [], au_login = [], au_blocked = False,
          au_phone = None, au_phash = None, au_hmac_secret = None\<rparr>) }"

definition CreateSession :: "'z request_scheme session_controller \<Rightarrow> int
    \<Rightarrow> ('z request_scheme, session option \<times> err) comp" where
  "CreateSession a expiration = traced ''auth_session.CreateSession'' [] (\<lambda>c. do {
     x \<leftarrow> InitObject NewSession;
     u \<leftarrow> AuthUser_or_panic;
     let x = x\<lparr>ss_UserId := au_id u, ss_UserLogin := au_login u, ss_UserDisplay := au_display u,
                 ss_Valid := True, ss_Expiration := expiration\<rparr>;
     e \<leftarrow> c_Create (sc_crud a) (sc_table a) (session_row x);
     (if e \<noteq> None then do { e \<leftarrow> SetError c e; ret (None, e) }
      else ret (Some x, None)) })"

text \<open>Whether the session was found is not looked at: a missing session is a zero session.\<close>

definition FindSession :: "'z request_scheme session_controller \<Rightarrow> string
    \<Rightarrow> ('z request_scheme, session option \<times> err) comp" where
  "FindSession a i = traced ''auth_session.FindSession'' [] (\<lambda>c. do {
     (found, e) \<leftarrow> c_ReadByField (sc_crud a) (sc_table a) ''id'' (VStr i);
     (if e \<noteq> None then do { e \<leftarrow> SetError c e; ret (None, e) }
      else ret (Some (case found of None \<Rightarrow> NewSession | Some row \<Rightarrow> row_session row), None)) })"

definition client_hash_of :: "crypto \<Rightarrow> 'z request_scheme \<Rightarrow> string" where
  "client_hash_of cr s = Hash_CalcStrStr cr [req_ip s, req_agent s] []"

definition UpdateSessionClient :: "'z request_scheme session_controller
    \<Rightarrow> ('z request_scheme, err) comp" where
  "UpdateSessionClient a = traced_err ''auth_session.UpdateSessionClient'' [] (\<lambda>c. do {
     clientIp \<leftarrow> gets req_ip;
     userAgent \<leftarrow> gets req_agent;
     clientHash \<leftarrow> gets (client_hash_of (sc_crypto a));
     sid \<leftarrow> gets sessionId;
     (found, e) \<leftarrow> c_Read (sc_crud a) (sc_client_table a)
        [(''session_id'', VStr sid), (''client_hash'', VStr clientHash)];
     (if e \<noteq> None then do { SetMessage c ''failed to find client in database''; ret (e, e) }
      else do {
        (client, tryUpdate) \<leftarrow> (case found of
           Some row \<Rightarrow> ret (row_client row, True)
         | None \<Rightarrow> do {
             client \<leftarrow> InitObject NewSessionClient;
             u \<leftarrow> AuthUser_or_panic;
             let client = client\<lparr>sc_ClientIp := clientIp, sc_ClientHash := clientHash,
               sc_SessionId := sid, sc_UserId := au_id u, sc_UserLogin := au_login u,
               sc_UserDisplay := au_display u, sc_UserAgent := userAgent\<rparr>;
             e1 \<leftarrow> c_Create (sc_crud a) (sc_client_table a) (client_row client);
             (if e1 \<noteq> None then do {
                Log LogError ''failed to create session client in database'' e1 [];
                ret (client, True) }
              else ret (client, False)) });
        e \<leftarrow> (if tryUpdate then do {
               t \<leftarrow> Now;
               e \<leftarrow> c_Update (sc_crud a) (sc_client_table a) (obj_id client) [(''updated_at'', VTime t)];
               (if e \<noteq> None then SetMessage c ''failed to update client in database'' else ret ());
               ret e }
             else ret None);
        (if e \<noteq> None then ret (e, e)
         else do {
           SetClientId (obj_id client);
           SetLoggerField ''client'' (VStr (obj_id client));
           ret (None, None) }) }) })"

definition UpdateSessionExpiration :: "'z request_scheme session_controller \<Rightarrow> session
    \<Rightarrow> ('z request_scheme, err) comp" where
  "UpdateSessionExpiration a x = traced ''auth_session.UpdateSessionExpiration'' [] (\<lambda>c. do {
     e \<leftarrow> c_Update (sc_crud a) (sc_table a) (obj_id x) [(''expiration'', VTime (ss_Expiration x))];
     set_if_err c e })"

definition InvalidateSession :: "'z request_scheme session_controller \<Rightarrow> string \<Rightarrow> string
    \<Rightarrow> ('z request_scheme, err) comp" where
  "InvalidateSession a userId i = traced ''auth_session.InvalidateSession'' [] (\<lambda>c. do {
     t \<leftarrow> Now;
     e \<leftarrow> c_UpdateMulti (sc_crud a) (sc_table a) (Some [(''id'', VStr i), (''user_id'', VStr userId)])
            [(''valid'', VBool False), (''updated_at'', VTime t)];
     set_if_err c e })"

definition InvalidateUserSessions :: "'z request_scheme session_controller \<Rightarrow> string
    \<Rightarrow> ('z request_scheme, err) comp" where
  "InvalidateUserSessions a userId = traced ''auth_session.InvalidateUserSessions'' [] (\<lambda>c. do {
     t \<leftarrow> Now;
     e \<leftarrow> c_UpdateMulti (sc_crud a) (sc_table a) (Some [(''user_id'', VStr userId)])
            [(''valid'', VBool False), (''updated_at'', VTime t)];
     set_if_err c e })"

definition InvalidateAllSessions :: "'z request_scheme session_controller
    \<Rightarrow> ('z request_scheme, err) comp" where
  "InvalidateAllSessions a = traced ''auth_session.InvalidateAllSessions'' [] (\<lambda>c. do {
     t \<leftarrow> Now;
     e \<leftarrow> c_UpdateMulti (sc_crud a) (sc_table a) None
            [(''valid'', VBool False), (''updated_at'', VTime t)];
     set_if_err c e })"

definition GetSessions :: "'z request_scheme session_controller \<Rightarrow> db_filter option
    \<Rightarrow> ('z request_scheme, (session list \<times> int) \<times> err) comp" where
  "GetSessions a flt = traced ''auth_session.GetSessions'' [] (\<lambda>c. do {
     ((rows, count), e) \<leftarrow> c_List (sc_crud a) (sc_table a) flt;
     (if e \<noteq> None then do { e \<leftarrow> SetError c e; ret ((map row_session rows, 0), e) }
      else ret ((map row_session rows, count), None)) })"

definition GetSessionClients :: "'z request_scheme session_controller \<Rightarrow> db_filter option
    \<Rightarrow> ('z request_scheme, (session_client list \<times> int) \<times> err) comp" where
  "GetSessionClients a flt = traced ''auth_session.GetSessionClients'' [] (\<lambda>c. do {
     ((rows, count), e) \<leftarrow> c_List (sc_crud a) (sc_client_table a) flt;
     (if e \<noteq> None then do { e \<leftarrow> SetError c e; ret ((map row_client rows, 0), e) }
      else ret ((map row_client rows, count), None)) })"

section \<open>The interface of the handlers\<close>

record 's user_sessions =
  us_ValidateLogin :: "string \<Rightarrow> err"
  us_FindAuthUser :: "string \<Rightarrow> ('s, auth_user option \<times> err) comp"
  us_CreateSession :: "int \<Rightarrow> ('s, session option \<times> err) comp"
  us_FindSession :: "string \<Rightarrow> ('s, session option \<times> err) comp"
  us_UpdateSessionClient :: "('s, err) comp"
  us_UpdateSessionExpiration :: "session \<Rightarrow> ('s, err) comp"
  us_InvalidateSession :: "string \<Rightarrow> string \<Rightarrow> ('s, err) comp"

definition UsersWithSession :: "user_validators \<Rightarrow> 'z request_scheme user_controller
    \<Rightarrow> 'z request_scheme session_controller \<Rightarrow> 'z request_scheme user_sessions" where
  "UsersWithSession vld u a = \<lparr>
     us_ValidateLogin = ValidateLogin vld,
     us_FindAuthUser = FindAuthUser u,
     us_CreateSession = CreateSession a,
     us_FindSession = FindSession a,
     us_UpdateSessionClient = UpdateSessionClient a,
     us_UpdateSessionExpiration = UpdateSessionExpiration a,
     us_InvalidateSession = InvalidateSession a\<rparr>"

text \<open>Over the database, with the tables of the default types.\<close>

definition db_sessions :: "dbhandlers \<Rightarrow> crypto \<Rightarrow> 'z request_scheme session_controller" where
  "db_sessions h cr = \<lparr>sc_crud = DbCRUD h False, sc_table = ''user_sessions'',
     sc_client_table = ''user_session_clients'', sc_crypto = cr\<rparr>"

definition db_user_sessions :: "dbhandlers \<Rightarrow> crypto \<Rightarrow> user_validators
    \<Rightarrow> 'z request_scheme user_sessions" where
  "db_user_sessions h cr vld = UsersWithSession vld (db_users h cr vld) (db_sessions h cr)"

section \<open>What the handlers rely on\<close>

text \<open>
  Looking up a user or a session changes nothing but the trace. The operations on sessions keep who
  the request belongs to, what it asked for, its generic error and its response headers, and they do not
  panic when the request has a user.
\<close>

definition identity :: "'z request_scheme \<Rightarrow> _" where
  "identity s = (authUser s, sessionId s, tenancy_of s, request_of s, genericError s, resp_headers s,
     (mainDb s, curDb s, dbTransaction s), curCache s)"

lemma identity_core [simp]: "identity (core s) = identity s"
  by (simp add: identity_def)

lemma identity_updates [simp]:
  "identity (s\<lparr>times := a\<rparr>) = identity s" "identity (s\<lparr>rands := b\<rparr>) = identity s"
  "identity (s\<lparr>idCount := c\<rparr>) = identity s" "identity (s\<lparr>dbs := D\<rparr>) = identity s"
  "identity (s\<lparr>clientId := i\<rparr>) = identity s" "identity (s\<lparr>panicked := p\<rparr>) = identity s"
  by (simp_all add: identity_def request_of_def)

lemma identityD:
  assumes "identity s = identity t"
  shows "authUser s = authUser t" "sessionId s = sessionId t" "tenancy_of s = tenancy_of t"
    "request_of s = request_of t" "genericError s = genericError t"
    "resp_headers s = resp_headers t"
  using assms by (simp_all add: identity_def)

locale session_manager =
  fixes us :: "'z request_scheme user_sessions"
  assumes frame_FindAuthUser [io_rel]: "state_io_rel frame (us_FindAuthUser us login)"
    and frame_CreateSession [io_rel]: "state_io_rel frame (us_CreateSession us exp)"
    and frame_FindSession [io_rel]: "state_io_rel frame (us_FindSession us i)"
    and frame_UpdateSessionClient [io_rel]: "state_io_rel frame (us_UpdateSessionClient us)"
    and frame_UpdateSessionExpiration [io_rel]: "state_io_rel frame (us_UpdateSessionExpiration us x)"
    and frame_InvalidateSession [io_rel]: "state_io_rel frame (us_InvalidateSession us ui i)"
    and FindAuthUser_reads: "core (snd (run_state (us_FindAuthUser us login) s)) = core s"
    and FindSession_reads: "core (snd (run_state (us_FindSession us i) s)) = core s"
    and FindAuthUser_stable: "core s = core t \<Longrightarrow>
      fst (run_state (us_FindAuthUser us login) s) = fst (run_state (us_FindAuthUser us login) t)"
    and FindSession_stable: "core s = core t \<Longrightarrow>
      fst (run_state (us_FindSession us i) s) = fst (run_state (us_FindSession us i) t)"
    and identity_CreateSession [io_rel]: "state_io_rel (keeps identity) (us_CreateSession us exp)"
    and identity_UpdateSessionClient [io_rel]: "state_io_rel (keeps identity) (us_UpdateSessionClient us)"
    and identity_UpdateSessionExpiration [io_rel]:
      "state_io_rel (keeps identity) (us_UpdateSessionExpiration us x)"
    and identity_InvalidateSession [io_rel]: "state_io_rel (keeps identity) (us_InvalidateSession us ui i)"
begin

lemma wpc_FindAuthUser [wpc]:
  "Q (fst (run_state (us_FindAuthUser us login) k)) (core k) \<Longrightarrow> wpc (us_FindAuthUser us login) Q k"
  unfolding wpc_def using FindAuthUser_reads FindAuthUser_stable by metis

lemma wpc_FindSession [wpc]:
  "Q (fst (run_state (us_FindSession us i) k)) (core k) \<Longrightarrow> wpc (us_FindSession us i) Q k"
  unfolding wpc_def using FindSession_reads FindSession_stable by metis

end

section \<open>The controllers keep the contract\<close>

lemma frame_AuthUser_or_panic [io_rel]: "state_io_rel frame AuthUser_or_panic"
  unfolding AuthUser_or_panic_def by (intro io_rel)

lemma keeps_AuthUser_or_panic [io_rel]:
  "(\<And>s t. f (s\<lparr>panicked := t\<rparr>) = f s) \<Longrightarrow> state_io_rel (keeps f) AuthUser_or_panic"
  unfolding AuthUser_or_panic_def by (intro io_rel)

lemma frame_FindAuthUser_db [io_rel]: "state_io_rel frame (FindAuthUser (db_users h cr vld) login)"
  unfolding FindAuthUser_def db_users_def user_controller.simps by (intro io_rel dbcrud.frame_Read)

lemma frame_sessions_db [io_rel]:
  "state_io_rel frame (CreateSession (db_sessions h cr) t)"
  "state_io_rel frame (FindSession (db_sessions h cr) i)"
  "state_io_rel frame (UpdateSessionClient (db_sessions h cr))"
  "state_io_rel frame (UpdateSessionExpiration (db_sessions h cr) x)"
  "state_io_rel frame (InvalidateSession (db_sessions h cr) ui i)"
  unfolding CreateSession_def FindSession_def UpdateSessionClient_def UpdateSessionExpiration_def
    InvalidateSession_def db_sessions_def session_controller.simps Let_def
  by (intro io_rel dbcrud.frame_Create dbcrud.frame_ReadByField dbcrud.frame_Read dbcrud.frame_Update
      dbcrud.frame_UpdateMulti)+

lemma keeps_SetClientId [io_rel]:
  "(\<And>s i. f (s\<lparr>clientId := i\<rparr>) = f s) \<Longrightarrow> state_io_rel (keeps f) (SetClientId i)"
  unfolding SetClientId_def by (rule io_rel_modifys) (simp add: keeps_def)

lemma identity_sessions_db [io_rel]:
  "state_io_rel (keeps identity) (CreateSession (db_sessions h cr) t)"
  "state_io_rel (keeps identity) (UpdateSessionClient (db_sessions h cr))"
  "state_io_rel (keeps identity) (UpdateSessionExpiration (db_sessions h cr) x)"
  "state_io_rel (keeps identity) (InvalidateSession (db_sessions h cr) ui i)"
  unfolding CreateSession_def UpdateSessionClient_def UpdateSessionExpiration_def
    InvalidateSession_def db_sessions_def session_controller.simps Let_def
  by (intro io_rel; simp)+

text \<open>What the lookups return, as functions of the database.\<close>

definition found_session :: "dbhandlers \<Rightarrow> 'z op_ctx_scheme \<Rightarrow> string \<Rightarrow> session option \<times> err" where
  "found_session h s i =
     (case h_FindByField h (db_for False s) ''user_sessions'' ''id'' (VStr i) (dbs s) of (found, e) \<Rightarrow>
        if e \<noteq> None then (None, e)
        else (Some (case found of None \<Rightarrow> NewSession | Some row \<Rightarrow> row_session row), None))"

definition found_user :: "dbhandlers \<Rightarrow> 'z op_ctx_scheme \<Rightarrow> string \<Rightarrow> auth_user option \<times> err" where
  "found_user h s login =
     (case h_FindByFields h (db_for False s) ''users'' [(''login'', VStr login)] (dbs s) of (found, e) \<Rightarrow>
        if e \<noteq> None then (None, e)
        else (map_option (\<lambda>row. to_auth_user (row_user row)) found, None))"

lemma wpc_FindSession_db [wpc]:
  "Q (found_session h k i) (core k) \<Longrightarrow> wpc (FindSession (db_sessions h cr) i) Q k"
  unfolding FindSession_def db_sessions_def session_controller.simps
  by (intro wpc) (auto simp: found_session_def)

lemma wpc_FindAuthUser_db [wpc]:
  "Q (found_user h k login) (core k) \<Longrightarrow> wpc (FindAuthUser (db_users h cr vld) login) Q k"
  unfolding FindAuthUser_def db_users_def user_controller.simps
  by (intro wpc) (auto simp: found_user_def)

lemma fst_FindSession_db: "fst (run_state (FindSession (db_sessions h cr) i) s) = found_session h s i"
  using wpcD [OF wpc_FindSession_db [of "\<lambda>r _. r = found_session h s i"]] by blast

lemma fst_FindAuthUser_db:
  "fst (run_state (FindAuthUser (db_users h cr vld) login) s) = found_user h s login"
  using wpcD [OF wpc_FindAuthUser_db [of "\<lambda>r _. r = found_user h s login"]] by blast

lemma found_core [simp]:
  "found_session h (core s) i = found_session h s i" "found_user h (core s) l = found_user h s l"
  by (simp_all add: found_session_def found_user_def)

lemma found_stable:
  assumes "core s = core t"
  shows "found_session h s i = found_session h t i" "found_user h s l = found_user h t l"
  using assms by (metis found_core)+

lemma silent_keeps_core: "state_io_rel (keeps core) m \<Longrightarrow> core (snd (run_state m s)) = core s"
  by (rule keepsD)

lemma lookups_db_silent:
  "state_io_rel (keeps core) (FindAuthUser (db_users h cr vld) login)"
  "state_io_rel (keeps core) (FindSession (db_sessions h cr) i)"
  unfolding FindAuthUser_def db_users_def user_controller.simps FindSession_def db_sessions_def
    session_controller.simps
  by (intro io_rel core_core)+

interpretation db_us: session_manager "db_user_sessions h cr vld" for h cr vld
proof
  fix s t :: "'z request_scheme" and i assume eq: "core s = core t"
  show "fst (run_state (us_FindAuthUser (db_user_sessions h cr vld) i) s)
      = fst (run_state (us_FindAuthUser (db_user_sessions h cr vld) i) t)"
    "fst (run_state (us_FindSession (db_user_sessions h cr vld) i) s)
      = fst (run_state (us_FindSession (db_user_sessions h cr vld) i) t)"
    using found_stable(1) [OF eq, of h i] found_stable(2) [OF eq, of h i]
    by (simp_all add: db_user_sessions_def UsersWithSession_def fst_FindSession_db fst_FindAuthUser_db)
qed (simp only: db_user_sessions_def UsersWithSession_def user_sessions.simps,
     (rule io_rel silent_keeps_core lookups_db_silent)+)+

section \<open>Invalidation\<close>

text \<open>Rows as an update of the sessions leaves them.\<close>

definition invalidated :: "fields \<Rightarrow> int \<Rightarrow> int \<Rightarrow> fields list \<Rightarrow> fields list" where
  "invalidated flt t t' rows = map (\<lambda>row. if row_matches flt row
     then AppendMap row (stamped [(''valid'', VBool False), (''updated_at'', VTime t)] t') else row) rows"

lemma invalidated_match:
  assumes "row \<in> set (invalidated flt t t' rows)" "row_matches flt row"
    and "map_get flt ''valid'' = None" "map_get flt ''updated_at'' = None"
  shows "\<not> row_bool row ''valid''"
proof -
  from assms(1) obtain r where r: "r \<in> set rows"
    "row = (if row_matches flt r
       then AppendMap r (stamped [(''valid'', VBool False), (''updated_at'', VTime t)] t') else r)"
    by (auto simp: invalidated_def)
  show ?thesis
  proof (cases "row_matches flt r")
    case True
    with r show ?thesis by (simp add: row_bool_def)
  next
    case False
    with r assms(2) show ?thesis by simp
  qed
qed

definition sessions_of :: "'z op_ctx_scheme \<Rightarrow> fields list" where
  "sessions_of s = dbs s (db_for False s) ''user_sessions''"

lemma db_for_identity: "identity s = identity t \<Longrightarrow> db_for main s = db_for main t"
  by (auto simp: identity_def db_for_def split: option.splits)

lemma update_matches:
  assumes "update_writes_matches h" "fst (h_Update h d tbl flt fs D) = None"
  shows "snd (h_Update h d tbl flt fs D) d tbl
     = map (\<lambda>row. if row_matches flt row then AppendMap row fs else row) (D d tbl)"
proof -
  have "h_Update h d tbl flt fs D = (None, snd (h_Update h d tbl flt fs D))"
    using assms(2) by (simp add: prod_eq_iff)
  from assms(1) [unfolded update_writes_matches_def, rule_format, OF this]
  have "snd (h_Update h d tbl flt fs D) = set_table d tbl
      (map (\<lambda>row. if row_matches flt row then AppendMap row fs else row) (D d tbl)) D" .
  then show ?thesis by (simp only: set_table_same)
qed

lemma InvalidateSession_spec:
  assumes "update_writes_matches h"
  shows "wpc (InvalidateSession (db_sessions h cr) ui i) (\<lambda>e k. e = None \<longrightarrow>
     sessions_of k = invalidated [(''id'', VStr i), (''user_id'', VStr ui)] (times s 0) (times s 1)
       (sessions_of s)) s"
  unfolding InvalidateSession_def db_sessions_def session_controller.simps
  by (intro wpc) (auto simp: sessions_of_def update_matches [OF assms] invalidated_def db_for_def
      cong: option.case_cong)

lemma InvalidateUserSessions_spec:
  assumes "update_writes_matches h"
  shows "wpc (InvalidateUserSessions (db_sessions h cr) ui) (\<lambda>e k. e = None \<longrightarrow>
     sessions_of k = invalidated [(''user_id'', VStr ui)] (times s 0) (times s 1) (sessions_of s)) s"
  unfolding InvalidateUserSessions_def db_sessions_def session_controller.simps
  by (intro wpc) (auto simp: sessions_of_def update_matches [OF assms] invalidated_def db_for_def
      cong: option.case_cong)

lemma found_session_row:
  assumes "find_returns_match h" "found_session h s i = (Some x, e)"
  shows "x = NewSession \<or> (\<exists>row \<in> set (sessions_of s). x = row_session row \<and> map_get row ''id'' = Some (VStr i))"
  using assms unfolding found_session_def find_returns_match_def sessions_of_def
  by (auto split: prod.splits if_splits option.splits)

section \<open>Properties\<close>


lemma table_db_invalidates:
  "fst (run_state (InvalidateUserSessions (db_sessions table_db cr) ui) s) = None"
  "fst (run_state (InvalidateSession (db_sessions table_db cr) ui i) s) = None"
proof -
  have "wpc (InvalidateUserSessions (db_sessions table_db cr) ui) (\<lambda>e _. e = None) s"
    "wpc (InvalidateSession (db_sessions table_db cr) ui i) (\<lambda>e _. e = None) s"
    unfolding InvalidateUserSessions_def InvalidateSession_def db_sessions_def session_controller.simps
    by (intro wpc; simp add: table_db_def)+
  then show "fst (run_state (InvalidateUserSessions (db_sessions table_db cr) ui) s) = None"
    "fst (run_state (InvalidateSession (db_sessions table_db cr) ui i) s) = None"
    by (auto dest: wpcD)
qed


end
