(* ===== verification/Auth_Token.thy ===== *)
theory Auth_Token
  imports Auth_Session
begin

text \<open>
  Access and refresh tokens (\<^verbatim>\<open>src/pkg/auth/auth_methods/auth_token\<close>): the handler that checks a token and
  prolongs it, and the one that issues tokens after a login. Both are written against the interface
  of users and sessions; their lemmas are proved in the locale \<open>session_manager\<close>.
\<close>

section \<open>Tokens\<close>

record token =
  tk_Exp :: int
  tk_Id :: string
  tk_UserId :: string
  tk_UserDisplay :: string
  tk_SessionId :: string
  tk_Tenancy :: string

definition token_msg :: "token \<Rightarrow> gval" where
  "token_msg t = VMap [(''exp'', VTime (tk_Exp t)), (''id'', VStr (tk_Id t)),
     (''user_id'', VStr (tk_UserId t)), (''user_display'', VStr (tk_UserDisplay t)),
     (''session_id'', VStr (tk_SessionId t)), (''tenancy'', VStr (tk_Tenancy t))]"

definition msg_token :: "gval \<Rightarrow> token" where
  "msg_token v = \<lparr>tk_Exp = msg_time v ''exp'', tk_Id = msg_str v ''id'',
     tk_UserId = msg_str v ''user_id'', tk_UserDisplay = msg_str v ''user_display'',
     tk_SessionId = msg_str v ''session_id'', tk_Tenancy = msg_str v ''tenancy''\<rparr>"

definition CheckTokenProtocol :: string where "CheckTokenProtocol = ''check_token''"
definition TokenProtocol :: string where "TokenProtocol = ''token''"
definition NewTokenProtocol :: string where "NewTokenProtocol = ''new_token''"
definition AccessTokenName :: string where "AccessTokenName = ''access-token''"
definition RefreshTokenName :: string where "RefreshTokenName = ''refresh-token''"

definition ErrorCodeTokenExpired :: string where "ErrorCodeTokenExpired = ''auth_token_expired''"
definition ErrorCodeInvalidToken :: string where "ErrorCodeInvalidToken = ''auth_token_invalid''"
definition ErrorCodeSessionExpired :: string where "ErrorCodeSessionExpired = ''session_expired''"
definition ErrorCodeUnknownUser :: string where "ErrorCodeUnknownUser = ''unknown_user''"

definition token_ErrorDescriptions :: "(string \<times> string) list" where
  "token_ErrorDescriptions =
     [(ErrorCodeTokenExpired, ''Provided authentication token token expired.''),
      (ErrorCodeInvalidToken, ''Invalid authentication token token.''),
      (ErrorCodeSessionExpired, ''Session expired.''),
      (ErrorCodeUnknownUser, ''Unknown user.'')]"

definition token_ErrorProtocolCodes :: "(string \<times> int) list" where
  "token_ErrorProtocolCodes =
     [(ErrorCodeTokenExpired, StatusUnauthorized), (ErrorCodeInvalidToken, StatusUnauthorized),
      (ErrorCodeSessionExpired, StatusUnauthorized), (ErrorCodeUnknownUser, StatusUnauthorized)]"

section \<open>The handler\<close>

record 's token_handler =
  th_protocol :: string
  ACCESS_TOKEN_TTL_SECONDS :: int
  REFRESH_TOKEN_TTL_SECONDS :: int
  AUTO_PROLONGATE_ACCESS :: bool
  AUTO_PROLONGATE_REFRESH :: bool
  REFRESH_PATH :: string
  LOGOUT_PATH :: string
  th_users :: "'s user_sessions"
  th_encryption :: param_encryption

definition SessionExpiration :: "'s token_handler \<Rightarrow> ('z sys_scheme, int) comp" where
  "SessionExpiration a = SetTTL (REFRESH_TOKEN_TTL_SECONDS a)"

definition GenToken :: "'z request_scheme token_handler \<Rightarrow> string \<Rightarrow> int
    \<Rightarrow> ('z request_scheme, err) comp" where
  "GenToken a paramName expirationSeconds = traced ''AuthTokenHandler.GenToken'' [] (\<lambda>c. do {
     i \<leftarrow> GenerateRand64;
     sid \<leftarrow> gets sessionId;
     u \<leftarrow> AuthUser_or_panic;
     ten \<leftarrow> gets ContextTenancy;
     exp \<leftarrow> SetTTL expirationSeconds;
     e \<leftarrow> Enc_SetAuthParameter (th_encryption a) (th_protocol a) paramName
       (token_msg \<lparr>tk_Exp = exp, tk_Id = i, tk_UserId = au_id u, tk_UserDisplay = au_display u,
                   tk_SessionId = sid, tk_Tenancy = ten\<rparr>);
     SetError c e })"

definition GenAccessToken :: "'z request_scheme token_handler \<Rightarrow> ('z request_scheme, err) comp" where
  "GenAccessToken a = traced ''AuthTokenHandler.GenAccessToken'' [] (\<lambda>c. do {
     e \<leftarrow> GenToken a AccessTokenName (ACCESS_TOKEN_TTL_SECONDS a);
     SetError c e })"

definition GenRefreshToken :: "'z request_scheme token_handler \<Rightarrow> session
    \<Rightarrow> ('z request_scheme, err) comp" where
  "GenRefreshToken a x = traced_err ''AuthTokenHandler.GenRefreshToken'' [] (\<lambda>c. do {
     t \<leftarrow> SessionExpiration a;
     e \<leftarrow> us_UpdateSessionExpiration (th_users a) (x\<lparr>ss_Expiration := t\<rparr>);
     (if e \<noteq> None then do { SetMessage c ''failed to update session expiration''; ret (e, e) }
      else do {
        e \<leftarrow> GenToken a RefreshTokenName (REFRESH_TOKEN_TTL_SECONDS a);
        ret (e, e) }) })"

text \<open>A failure: the generic error code, and the error that is returned and recorded.\<close>

definition fail_with :: "string \<Rightarrow> err \<Rightarrow> ('z op_ctx_scheme, (bool \<times> err) \<times> err) comp" where
  "fail_with code e = do { SetGenericErrorCode code []; ret ((True, e), e) }"

text \<open>The end of \<^verbatim>\<open>Handle\<close>: new tokens, or the end of the session on the logout path.\<close>

definition finish_token :: "'z request_scheme token_handler \<Rightarrow> string \<Rightarrow> bool \<Rightarrow> session \<Rightarrow> int
    \<Rightarrow> ('z request_scheme, (bool \<times> err) \<times> err) comp" where
  "finish_token a path refresh x now =
     (if path \<noteq> LOGOUT_PATH a then do {
        e \<leftarrow> (if refresh \<or> \<not> refresh \<and> AUTO_PROLONGATE_ACCESS a then GenAccessToken a else ret None);
        (if e \<noteq> None then fail_with ErrorCodeInternalServerError e
         else do {
           let tokenExpirationTime = now + seconds_duration (ACCESS_TOKEN_TTL_SECONDS a);
           let regenerate = (AUTO_PROLONGATE_REFRESH a \<and>
                 (refresh \<or> ss_Expiration x < tokenExpirationTime));
           e \<leftarrow> (if regenerate then GenRefreshToken a x else ret None);
           (if e \<noteq> None then fail_with ErrorCodeInternalServerError e
            else ret ((True, None), None)) }) }
      else do {
        SetAuthUser None;
        e \<leftarrow> us_InvalidateSession (th_users a) (ss_UserId x) (obj_id x);
        (if e \<noteq> None then fail_with ErrorCodeInternalServerError e
         else ret ((True, None), None)) })"

text \<open>The part after the user is known: it becomes the request's user.\<close>

definition accept_user :: "'z request_scheme token_handler \<Rightarrow> string \<Rightarrow> bool \<Rightarrow> session \<Rightarrow> int
    \<Rightarrow> auth_user \<Rightarrow> ('z request_scheme, (bool \<times> err) \<times> err) comp" where
  "accept_user a path refresh x now u = do {
     SetAuthUser (Some u);
     SetSessionId (obj_id x);
     e \<leftarrow> us_UpdateSessionClient (th_users a);
     (if e \<noteq> None then fail_with ErrorCodeInternalServerError e
      else finish_token a path refresh x now) }"

text \<open>
  The part after the session was found: its validity, its user. The session manager hands out a
  session whenever it returns no error.
\<close>

definition check_session :: "'z request_scheme token_handler \<Rightarrow> nat \<Rightarrow> string \<Rightarrow> bool \<Rightarrow> session
    \<Rightarrow> ('z request_scheme, (bool \<times> err) \<times> err) comp" where
  "check_session a c path refresh x =
     (if \<not> ss_Valid x then fail_with ErrorCodeSessionExpired (errors_New ''session invalidated'')
      else do {
        now \<leftarrow> Now;
        (if ss_Expiration x < now then fail_with ErrorCodeSessionExpired (errors_New ''session expired'')
         else do {
           (u, e) \<leftarrow> us_FindAuthUser (th_users a) (ss_UserLogin x);
           (if e \<noteq> None then do {
              SetMessage c ''failed to load user'';
              fail_with ErrorCodeInternalServerError e }
            else case u of
              None \<Rightarrow> do {
                SetMessage c ''user not found'';
                fail_with ErrorCodeUnknownUser None }
            | Some u \<Rightarrow> do {
                SetLoggerField ''user'' (VStr (au_display u));
                (if au_blocked u then fail_with ErrorCodeSessionExpired (errors_New ''user blocked'')
                 else accept_user a path refresh x now u) }) }) })"

definition Token_Handle :: "'z request_scheme token_handler
    \<Rightarrow> ('z request_scheme, bool \<times> err) comp" where
  "Token_Handle a = traced_err ''AuthTokenHandler.Handle'' [] (\<lambda>c. do {
     path \<leftarrow> gets req_path;
     let refresh = (path = REFRESH_PATH a);
     let tokenName = (if refresh then RefreshTokenName else AccessTokenName);
     SetCallField c ''refresh'' (VBool refresh);
     (exists, obj, e) \<leftarrow> Enc_GetAuthParameter (th_encryption a) (th_protocol a) tokenName;
     (if \<not> exists then ret ((False, e), e)
      else if e \<noteq> None then do {
        SetMessage c ''failed to get encrypted auth parameter'';
        fail_with ErrorCodeInvalidToken e }
      else do {
        let prev = msg_token obj;
        SetCallField c ''token'' (VStr (tk_Id prev));
        SetLoggerField ''user'' (VStr (tk_UserDisplay prev));
        SetLoggerField ''session'' (VStr (tk_SessionId prev));
        expired \<leftarrow> Expired (tk_Exp prev);
        (if expired then do {
           SetMessage c ''token expired'';
           fail_with (if refresh then ErrorCodeSessionExpired else ErrorCodeTokenExpired) e }
         else do {
           ten \<leftarrow> gets tenancy_of;
           (if (ten \<noteq> None \<or> tk_Tenancy prev \<noteq> []) \<and> (case ten of None \<Rightarrow> True | Some t \<Rightarrow> tk_Tenancy prev \<noteq> t_id t)
            then do {
              SetCallField c ''token_tenancy'' (VStr (tk_Tenancy prev));
              fail_with ErrorCodeSessionExpired (errors_New ''invalid tenancy'') }
            else do {
              (x, e) \<leftarrow> us_FindSession (th_users a) (tk_SessionId prev);
              (case x of
                 None \<Rightarrow> fail_with ErrorCodeSessionExpired e
               | Some x \<Rightarrow>
                   if e \<noteq> None then fail_with ErrorCodeSessionExpired e
                   else check_session a c path refresh x) }) }) }) })"

section \<open>Issuing tokens\<close>

definition NewToken_Handle :: "'z request_scheme token_handler
    \<Rightarrow> ('z request_scheme, bool \<times> err) comp" where
  "NewToken_Handle a = traced_err ''AuthNewTokenHandler.Handle'' [] (\<lambda>c. do {
     u \<leftarrow> gets authUser;
     (if u = None then ret ((False, None), None)
      else do {
        sid \<leftarrow> gets sessionId;
        (x, e) \<leftarrow> (if sid = [] then do {
            t \<leftarrow> SessionExpiration a;
            (x, e) \<leftarrow> us_CreateSession (th_users a) t;
            (if e \<noteq> None then do { SetGenericErrorCode ErrorCodeInternalServerError []; ret (x, e) }
             else do {
               (case x of None \<Rightarrow> go_panic () | Some x \<Rightarrow> SetSessionId (obj_id x));
               ret (x, None) }) }
          else do {
            (x, e) \<leftarrow> us_FindSession (th_users a) sid;
            (if e \<noteq> None then do { SetGenericErrorCode ErrorCodeSessionExpired []; ret (x, e) }
             else ret (x, None)) });
        (if e \<noteq> None then ret ((True, e), e)
         else do {
           e \<leftarrow> us_UpdateSessionClient (th_users a);
           (if e \<noteq> None then fail_with ErrorCodeInternalServerError e
            else case x of
              None \<Rightarrow> go_panic ((True, None), None)
            | Some x \<Rightarrow> do {
                e \<leftarrow> GenRefreshToken a x;
                (if e \<noteq> None then fail_with ErrorCodeInternalServerError e
                 else do {
                   e \<leftarrow> GenAccessToken a;
                   (if e \<noteq> None then fail_with ErrorCodeInternalServerError e
                    else do {
                      e \<leftarrow> GenRefreshToken a x;
                      (if e \<noteq> None then fail_with ErrorCodeInternalServerError e
                       else ret ((True, None), None)) }) }) }) }) }) })"

definition ReloginRequired :: "string \<Rightarrow> bool" where
  "ReloginRequired code \<longleftrightarrow>
     code = ErrorCodeInvalidToken \<or> code = ErrorCodeSessionExpired \<or> code = ErrorCodeUnknownUser"

definition RefreshRequired :: "string \<Rightarrow> bool" where
  "RefreshRequired code \<longleftrightarrow> code = ErrorCodeTokenExpired"

lemmas token_defs = Token_Handle_def check_session_def accept_user_def finish_token_def fail_with_def

section \<open>Lemmas\<close>

text \<open>Who the request belongs to, and what will be reported.\<close>

definition who :: "'z request_scheme \<Rightarrow> _" where
  "who s = (authUser s, sessionId s, genericError s)"

lemma who_core [simp]: "who (core s) = who s"
  by (simp add: who_def)

lemma who_updates [simp]:
  "who (s\<lparr>times := a\<rparr>) = who s" "who (s\<lparr>rands := b\<rparr>) = who s" "who (s\<lparr>dbs := D\<rparr>) = who s"
  "who (s\<lparr>resp_headers := rh\<rparr>) = who s" "who (s\<lparr>panicked := p\<rparr>) = who s"
  by (simp_all add: who_def)

lemma keeps_who_identity: "state_io_rel (keeps identity) m \<Longrightarrow> state_io_rel (keeps who) m"
  by (auto simp: state_io_rel_def keeps_def identity_def who_def)

lemma msg_token_msg [simp]: "msg_token (token_msg t) = t"
  by (simp add: msg_token_def token_msg_def msg_time_def msg_str_def msg_fields_def)

lemma keeps_SetTTL [io_rel]:
  "(\<And>s t. f (s\<lparr>times := t\<rparr>) = f s) \<Longrightarrow> state_io_rel (keeps f) (SetTTL n)"
  unfolding SetTTL_def by (intro io_rel)

lemma frame_GenToken [io_rel]: "state_io_rel frame (GenToken a p n)"
  unfolding GenToken_def by (intro io_rel)

lemma frame_GenAccessToken [io_rel]: "state_io_rel frame (GenAccessToken a)"
  unfolding GenAccessToken_def by (intro io_rel)

lemma frame_fail_with [io_rel]: "state_io_rel frame (fail_with code e)"
  unfolding fail_with_def by (intro io_rel)

lemma who_GenToken [io_rel]: "state_io_rel (keeps who) (GenToken a p n)"
  unfolding GenToken_def by (intro io_rel; simp)

lemma who_GenAccessToken [io_rel]: "state_io_rel (keeps who) (GenAccessToken a)"
  unfolding GenAccessToken_def by (intro io_rel; simp)

lemma wpc_fail_with [wpc]: "Q ((True, e), e) (core (with_code code k)) \<Longrightarrow> wpc (fail_with code e) Q k"
  unfolding fail_with_def by (intro wpc) simp_all

lemma wpc_SetAuthUser [wpc]: "Q () (core (k\<lparr>authUser := u\<rparr>)) \<Longrightarrow> wpc (SetAuthUser u) Q k"
  unfolding SetAuthUser_def by (rule wpc_modifys) simp_all

lemma wpc_SetSessionId [wpc]: "Q () (core (k\<lparr>sessionId := i\<rparr>)) \<Longrightarrow> wpc (SetSessionId i) Q k"
  unfolding SetSessionId_def by (rule wpc_modifys) simp_all

lemma wpc_Expired [wpc]:
  "Q (exp < times k 0) (core (k\<lparr>times := (\<lambda>i. times k (Suc i))\<rparr>)) \<Longrightarrow> wpc (Expired exp) Q k"
  unfolding Expired_def by (intro wpc) simp_all

lemma with_code_reads [simp]:
  "authUser (with_code code k) = authUser k" "sessionId (with_code code k) = sessionId k"
  "dbs (with_code code k) = dbs k" "panicked (with_code code k) = panicked k"
  "tenancy_of (with_code code k) = tenancy_of k" "cached (with_code code k) = cached k"
  "resp_headers (with_code code k) = resp_headers k" "request_of (with_code code k) = request_of k"
  "times (with_code code k) = times k" "curCache (with_code code k) = curCache k"
  by (simp_all add: with_code_def request_of_def)

text \<open>
  When the handler accepts a request: the token it carries opens and is not expired, belongs to the
  tenancy of the request, and names a session that is valid and not expired, of a user that exists
  and is not blocked. Sessions and users are looked up at the times the handler does it.
\<close>

definition token_name :: "'s token_handler \<Rightarrow> 'z request_scheme \<Rightarrow> string" where
  "token_name a s = (if req_path s = REFRESH_PATH a then RefreshTokenName else AccessTokenName)"

definition request_token :: "'s token_handler \<Rightarrow> 'z request_scheme \<Rightarrow> bool \<times> gval \<times> err" where
  "request_token a s =
     param_of (th_encryption a) (getHttpHeader s (auth_header (th_protocol a) (token_name a s)))"

definition later :: "'z sys_scheme \<Rightarrow> nat \<Rightarrow> 'z sys_scheme" where
  "later s n = s\<lparr>times := (\<lambda>i. times s (n + i))\<rparr>"

definition token_accepts :: "'z request_scheme token_handler \<Rightarrow> 'z request_scheme \<Rightarrow> session
    \<Rightarrow> auth_user \<Rightarrow> bool" where
  "token_accepts a s x u \<longleftrightarrow> (\<exists>obj. request_token a s = (True, obj, None)
     \<and> times s 0 \<le> tk_Exp (msg_token obj)
     \<and> tk_Tenancy (msg_token obj) = ContextTenancy s
     \<and> fst (run_state (us_FindSession (th_users a) (tk_SessionId (msg_token obj))) (later s 1))
         = (Some x, None)
     \<and> ss_Valid x \<and> times s 1 \<le> ss_Expiration x
     \<and> fst (run_state (us_FindAuthUser (th_users a) (ss_UserLogin x)) (later s 2)) = (Some u, None)
     \<and> \<not> au_blocked u)"

lemma later_core [simp]: "core (later s n) = later (core s) n"
  by (simp add: later_def)

text \<open>The result and the final state of a run of the handler, whatever the request.\<close>

definition token_outcome :: "'z request_scheme token_handler \<Rightarrow> 'z request_scheme \<Rightarrow> bool \<times> err
    \<Rightarrow> 'z request_scheme \<Rightarrow> bool" where
  "token_outcome a s r k \<longleftrightarrow> (case r of (found, e) \<Rightarrow>
     if \<exists>x u. token_accepts a s x u then
       \<exists>x u. token_accepts a s x u \<and> found \<and> sessionId k = obj_id x
         \<and> (e = None \<longrightarrow> genericError k = genericError s
             \<and> authUser k = (if req_path s = LOGOUT_PATH a then None else Some u))
     else authUser k = authUser s \<and> sessionId k = sessionId s \<and> dbs k = dbs s
       \<and> (found \<longrightarrow> genericError k \<noteq> None))"

context session_manager
begin

lemma who_sessions [io_rel]:
  "state_io_rel (keeps who) (us_CreateSession us exp)" "state_io_rel (keeps who) (us_UpdateSessionClient us)"
  "state_io_rel (keeps who) (us_UpdateSessionExpiration us x)"
  "state_io_rel (keeps who) (us_InvalidateSession us ui i)"
  by (rule keeps_who_identity, rule io_rel)+

lemma frame_GenRefreshToken [io_rel]:
  "th_users a = us \<Longrightarrow> state_io_rel frame (GenRefreshToken a x)"
  unfolding GenRefreshToken_def SessionExpiration_def by (simp only:) (intro io_rel)

lemma who_GenRefreshToken [io_rel]:
  "th_users a = us \<Longrightarrow> state_io_rel (keeps who) (GenRefreshToken a x)"
  unfolding GenRefreshToken_def SessionExpiration_def by (simp only:) (intro io_rel; simp)

lemma frame_Token_Handle [io_rel]:
  "th_users a = us \<Longrightarrow> state_io_rel frame (Token_Handle a)"
  unfolding token_defs Let_def by (simp only:) (intro io_rel; simp)

lemma frame_NewToken_Handle [io_rel]:
  "th_users a = us \<Longrightarrow> state_io_rel frame (NewToken_Handle a)"
  unfolding NewToken_Handle_def SessionExpiration_def fail_with_def by (simp only:) (intro io_rel; simp)

text \<open>After the checks: without an error the request has the user and the session.\<close>

lemma finish_token_spec:
  assumes "th_users a = us"
  shows "wpc (finish_token a path refresh x now) (\<lambda>((found, e), _) k'. found
     \<and> (e = None \<longrightarrow> genericError k' = genericError k)
     \<and> (e = None \<longrightarrow> authUser k' = (if path = LOGOUT_PATH a then None else authUser k))
     \<and> sessionId k' = sessionId k) k"
  unfolding finish_token_def Let_def assms
  by (intro wpc wpc_keeps [OF who_GenAccessToken] wpc_keeps [OF who_GenRefreshToken [OF assms]]
      wpc_keeps [OF who_sessions(4)]) (auto simp: who_def)

lemma accept_user_spec:
  assumes "th_users a = us"
  shows "wpc (accept_user a path refresh x now u) (\<lambda>((found, e), _) k'. found
     \<and> (e = None \<longrightarrow> genericError k' = genericError k)
     \<and> (e = None \<longrightarrow> authUser k' = (if path = LOGOUT_PATH a then None else Some u))
     \<and> sessionId k' = obj_id x) k"
  unfolding accept_user_def assms
  by (intro wpc wpc_keeps [OF who_sessions(2)] wpc_mono [OF finish_token_spec [OF assms]])
     (auto simp: who_def)

lemma check_session_spec:
  assumes "th_users a = us"
  shows "wpc (check_session a c path refresh x) (\<lambda>((found, e), _) k'.
     if ss_Valid x \<and> times k 0 \<le> ss_Expiration x \<and>
        (case fst (run_state (us_FindAuthUser us (ss_UserLogin x)) (later k 1)) of
           (Some u, None) \<Rightarrow> \<not> au_blocked u | _ \<Rightarrow> False)
     then found \<and> sessionId k' = obj_id x \<and> (e = None \<longrightarrow> genericError k' = genericError k
         \<and> (\<exists>u. fst (run_state (us_FindAuthUser us (ss_UserLogin x)) (later k 1)) = (Some u, None)
             \<and> authUser k' = (if path = LOGOUT_PATH a then None else Some u)))
     else found \<and> authUser k' = authUser k \<and> sessionId k' = sessionId k \<and> dbs k' = dbs k
       \<and> genericError k' \<noteq> None) k"
proof -
  have eq: "fst (run_state (us_FindAuthUser us l) ((core k)\<lparr>times := (\<lambda>i. times k (Suc i))\<rparr>))
      = fst (run_state (us_FindAuthUser us l) (later k (Suc 0)))" for l
    by (rule FindAuthUser_stable) (simp add: later_def)
  show ?thesis
    unfolding check_session_def assms
    by (intro wpc wpc_mono [OF accept_user_spec [OF assms]])
       (auto simp: eq split: prod.splits option.splits)
qed

lemma Token_Handle_spec:
  assumes "th_users a = us"
  shows "wpc (Token_Handle a) (token_outcome a s) s"
proof -
  have eq: "fst (run_state (us_FindSession us i) ((core s)\<lparr>times := (\<lambda>i. times s (Suc i))\<rparr>))
      = fst (run_state (us_FindSession us i) (later s (Suc 0)))" for i
    by (rule FindSession_stable) (simp add: later_def)
  have eq2: "fst (run_state (us_FindAuthUser us l) (later ((core s)\<lparr>times := (\<lambda>i. times s (Suc i))\<rparr>) (Suc 0)))
      = fst (run_state (us_FindAuthUser us l) (later s 2))" for l
    by (rule FindAuthUser_stable) (simp add: later_def numeral_2_eq_2)
  show ?thesis
    unfolding Token_Handle_def Let_def assms
    by (intro wpc wpc_mono [OF check_session_spec [OF assms]])
       (auto simp: token_outcome_def token_accepts_def request_token_def token_name_def assms
          ContextTenancy_def eq eq2 split: prod.splits option.splits if_splits)
qed

end

section \<open>The handler over the database\<close>

lemma db_lookups [simp]:
  "fst (run_state (us_FindSession (db_user_sessions h cr vld) i) s) = found_session h s i"
  "fst (run_state (us_FindAuthUser (db_user_sessions h cr vld) l) s) = found_user h s l"
  by (simp_all add: db_user_sessions_def UsersWithSession_def fst_FindSession_db fst_FindAuthUser_db)

lemma found_later [simp]:
  "found_session h (later s n) i = found_session h s i" "found_user h (later s n) l = found_user h s l"
  by (simp_all add: found_session_def found_user_def later_def db_for_def cong: option.case_cong)

text \<open>The abstract specification: who a request is authenticated as, in which session.\<close>

definition authenticate :: "dbhandlers \<Rightarrow> 's token_handler \<Rightarrow> 'z request_scheme
    \<Rightarrow> (session \<times> auth_user) option" where
  "authenticate h a s = (case request_token a s of (found, obj, e) \<Rightarrow>
     if \<not> found \<or> e \<noteq> None then None
     else (let t = msg_token obj in
       if tk_Exp t < times s 0 \<or> tk_Tenancy t \<noteq> ContextTenancy s then None
       else (case found_session h s (tk_SessionId t) of
          (Some x, None) \<Rightarrow>
            if \<not> ss_Valid x \<or> ss_Expiration x < times s 1 then None
            else (case found_user h s (ss_UserLogin x) of
               (Some u, None) \<Rightarrow> if au_blocked u then None else Some (x, u)
             | _ \<Rightarrow> None)
        | _ \<Rightarrow> None)))"

lemma token_accepts_authenticate:
  assumes "th_users a = db_user_sessions h cr vld"
  shows "token_accepts a s x u \<longleftrightarrow> authenticate h a s = Some (x, u)"
  unfolding token_accepts_def authenticate_def assms db_lookups found_later Let_def
  by (auto split: prod.splits option.splits if_splits)

lemma Token_Handle_outcome:
  assumes "th_users a = db_user_sessions h cr vld" "run_state (Token_Handle a) s = ((found, e), s')"
  shows "case authenticate h a s of
      Some (x, u) \<Rightarrow> found \<and> sessionId s' = obj_id x
        \<and> (e = None \<longrightarrow> genericError s' = genericError s
            \<and> authUser s' = (if req_path s = LOGOUT_PATH a then None else Some u))
    | None \<Rightarrow> authUser s' = authUser s \<and> sessionId s' = sessionId s \<and> dbs s' = dbs s
        \<and> (found \<longrightarrow> genericError s' \<noteq> None)"
  using wpcE [OF db_us.Token_Handle_spec [OF assms(1)] assms(2)]
  by (auto simp: token_outcome_def token_accepts_authenticate [OF assms(1)] split: option.splits)

definition demo_user :: user where
  "demo_user = MakeUser\<lparr>obj_id := ''u1'', u_LOGIN := ''joe''\<rparr>"

definition demo_session :: session where
  "demo_session = NewSession\<lparr>obj_id := ''s1'', ss_UserId := ''u1'', ss_UserLogin := ''joe'',
     ss_Valid := True, ss_Expiration := 100\<rparr>"

definition demo_token :: token where
  "demo_token = \<lparr>tk_Exp = 50, tk_Id = ''t1'', tk_UserId = ''u1'', tk_UserDisplay = ''joe'',
     tk_SessionId = ''s1'', tk_Tenancy = []\<rparr>"

definition demo_token_enc :: param_encryption where
  "demo_token_enc = demo_enc\<lparr>enc_SALT_SIZE := 4,
     enc_Serializer := \<lparr>SerializeMessage = (\<lambda>v. Inr ''token''), ParseMessage = (\<lambda>b. Inr (token_msg demo_token))\<rparr>\<rparr>"

definition demo_validators :: user_validators where
  "demo_validators = UsersValidator (\<lambda>v r. None) []"

definition demo_token_handler :: "unit request_scheme token_handler" where
  "demo_token_handler = \<lparr>th_protocol = CheckTokenProtocol, ACCESS_TOKEN_TTL_SECONDS = 900,
     REFRESH_TOKEN_TTL_SECONDS = 43200, AUTO_PROLONGATE_ACCESS = False, AUTO_PROLONGATE_REFRESH = False,
     REFRESH_PATH = ''/auth/refresh'', LOGOUT_PATH = ''/auth/logout'',
     th_users = db_user_sessions table_db plain_crypto demo_validators, th_encryption = demo_token_enc\<rparr>"

definition demo_token_request :: "string \<Rightarrow> int \<Rightarrow> request" where
  "demo_token_request path now = demo_request\<lparr>req_path := path, times := (\<lambda>i. now + int i),
     req_headers := [(''x-auth-access-token'', ''dG9rZW4='')],
     dbs := (\<lambda>d t. if t = ''users'' then [user_row demo_user]
                     else if t = ''user_sessions'' then [session_row demo_session] else [])\<rparr>"

lemma demo_token_request [simp]:
  "ContextTenancy (demo_token_request p n) = []" "times (demo_token_request p n) i = n + int i"
  "req_path (demo_token_request p n) = p"
  "getHttpHeader (demo_token_request p n) k = (if k = ''x-auth-access-token'' then ''dG9rZW4='' else [])"
  by (simp_all add: demo_token_request_def demo_request_def demo_ctx_def op_ctx.defs request.defs
      ContextTenancy_def getHttpHeader_def)

lemma demo_found_session:
  "found_session table_db (demo_token_request p n) ''s1'' = (Some demo_session, None)"
  by (simp add: found_session_def demo_token_request_def table_db_def db_for_def demo_request_def
      demo_ctx_def op_ctx.defs request.defs session_row_def demo_session_def NewSession_def
      row_session_def row_str_def row_time_def row_bool_def)

lemma demo_found_user:
  "found_user table_db (demo_token_request p n) ''joe'' = (Some (to_auth_user demo_user), None)"
  by (simp add: found_user_def demo_token_request_def table_db_def db_for_def demo_request_def
      demo_ctx_def op_ctx.defs request.defs user_row_def demo_user_def MakeUser_def row_user_def
      row_str_def row_time_def row_bool_def)

lemma demo_open_param: "param_of demo_token_enc ''dG9rZW4='' = (True, token_msg demo_token, None)"
  by code_simp

lemma demo_request_token:
  "p \<noteq> ''/auth/refresh'' \<Longrightarrow>
   request_token demo_token_handler (demo_token_request p n) = (True, token_msg demo_token, None)"
proof -
  have "auth_header CheckTokenProtocol AccessTokenName = ''x-auth-access-token''" by code_simp
  then show "p \<noteq> ''/auth/refresh'' \<Longrightarrow> ?thesis"
    by (simp add: request_token_def token_name_def demo_token_handler_def demo_open_param)
qed

lemma demo_authenticate:
  "authenticate table_db demo_token_handler (demo_token_request ''/a'' 10)
     = Some (demo_session, to_auth_user demo_user)"
  "authenticate table_db demo_token_handler (demo_token_request ''/a'' 60) = None"
proof -
  have "ss_Valid demo_session" "ss_Expiration demo_session = 100" "ss_UserLogin demo_session = ''joe''"
    "\<not> au_blocked (to_auth_user demo_user)"
    by (simp_all add: demo_session_def demo_user_def MakeUser_def to_auth_user_def)
  moreover have "tk_SessionId demo_token = ''s1''" "tk_Exp demo_token = 50" "tk_Tenancy demo_token = []"
    by (simp_all add: demo_token_def)
  ultimately show "authenticate table_db demo_token_handler (demo_token_request ''/a'' 10)
     = Some (demo_session, to_auth_user demo_user)"
    "authenticate table_db demo_token_handler (demo_token_request ''/a'' 60) = None"
    by (simp_all add: authenticate_def demo_request_token demo_found_session demo_found_user)
qed

lemma demo_users: "th_users demo_token_handler = db_user_sessions table_db plain_crypto demo_validators"
  by (simp add: demo_token_handler_def)

section \<open>Properties\<close>

text \<open>
  C1: the token handler implements the specification \<open>authenticate\<close>: if the request carries a token that
  opens, is not expired and belongs to the tenancy, of a session that exists, is valid and not expired,
  of a user that exists and is not blocked, then the request gets that session and, unless there is
  an error or it is a logout, that user; otherwise the request keeps the user and session it had,
  nothing is written to the databases, and a token that was found is answered with a generic error.
\<close>

theorem token_authentication:
  assumes "th_users a = db_user_sessions h cr vld"
    and "run_state (Token_Handle a) s = ((found, e), s')"
  shows "case authenticate h a s of
      Some (x, u) \<Rightarrow> found \<and> sessionId s' = obj_id x
        \<and> (e = None \<longrightarrow> genericError s' = genericError s
            \<and> authUser s' = (if req_path s = LOGOUT_PATH a then None else Some u))
    | None \<Rightarrow> authUser s' = authUser s \<and> sessionId s' = sessionId s \<and> dbs s' = dbs s
        \<and> (found \<longrightarrow> genericError s' \<noteq> None)"
  by (rule Token_Handle_outcome [OF assms])

theorem token_authentication_witness:
  "case run_state (Token_Handle demo_token_handler) (demo_token_request ''/a'' 10) of ((found, e), s') \<Rightarrow>
     found \<and> sessionId s' = ''s1'' \<and> (e = None \<longrightarrow> authUser s' = Some (to_auth_user demo_user))"
proof -
  obtain found e s' where run:
    "run_state (Token_Handle demo_token_handler) (demo_token_request ''/a'' 10) = ((found, e), s')"
    by (metis prod.collapse)
  from token_authentication [OF demo_users run] show ?thesis
    by (simp add: run demo_authenticate) (simp add: demo_token_handler_def demo_session_def)
qed

lemma Token_Handle_expired:
  assumes "request_token a s = (True, obj, None)" "tk_Exp (msg_token obj) < times s 0"
  shows "wpc (Token_Handle a) (\<lambda>r k. r = (True, None) \<and> authUser k = authUser s \<and> genericError k \<noteq> None
     \<and> dbs k = dbs s \<and> oplogs k = oplogs s) s"
  unfolding Token_Handle_def Let_def
  by (intro wpc_traced_err wpc_bind wpc_gets wpc_tracing wpc_Enc_GetAuthParameter)
     (use assms in \<open>auto intro!: wpc simp: request_token_def token_name_def with_code_def split: if_splits\<close>)

text \<open>
  A token that has expired is answered with a generic error but without an error: the handler
  returns as if the token had been accepted, with the request still without a user.
\<close>

theorem expired_token_no_error:
  assumes "th_users a = db_user_sessions h cr vld"
    and "request_token a s = (True, obj, None)" "tk_Exp (msg_token obj) < times s 0"
  shows "case run_state (Token_Handle a) s of (r, s') \<Rightarrow>
     r = (True, None) \<and> authUser s' = authUser s \<and> genericError s' \<noteq> None"
  using wpcD [OF Token_Handle_expired [OF assms(2,3)]] by (auto split: prod.splits)

theorem expired_token_no_error_witness:
  "case run_state (Token_Handle demo_token_handler) (demo_token_request ''/a'' 60) of (r, s') \<Rightarrow>
     r = (True, None) \<and> authUser s' = authUser (demo_token_request ''/a'' 60) \<and> genericError s' \<noteq> None"
  by (rule expired_token_no_error [OF demo_users demo_request_token]) (simp_all add: demo_token_def)

lemma found_user_row:
  assumes "find_returns_match h" "found_user h t l = (Some u, e)"
  obtains row where "row \<in> set (users_of t)" "login_is l row" "u = to_auth_user (row_user row)"
proof -
  from assms(2) obtain row where
    row: "h_FindByFields h (db_for False t) ''users'' [(''login'', VStr l)] (dbs t) = (Some row, None)"
      "u = to_auth_user (row_user row)"
    by (auto simp: found_user_def split: prod.splits if_splits)
  from assms(1) [unfolded find_returns_match_def, THEN conjunct1, rule_format, OF row(1)] row(2)
  show thesis by (intro that [of row]) (simp_all add: users_of_def login_is_def)
qed

lemma blocked_row:
  assumes "users_wf rows" "row \<in> set rows" "login_is l row" "r \<in> set (blocked_rows row t rows)" "login_is l r"
  shows "row_bool r ''blocked''"
proof -
  from assms(4) obtain r0 where r0: "r0 \<in> set rows"
    "r = (if row_matches [(''id'', VStr (row_str row ''id''))] r0
          then AppendMap r0 (stamped [(''blocked'', VBool True)] t) else r0)"
    by (auto simp: blocked_rows_def)
  then have "login_is l r0" using assms(5) by (auto simp: login_is_def split: if_splits)
  with assms(1-3) r0(1) have "r0 = row" by (blast intro: users_wf_same_login)
  moreover from assms(1,2) have "map_get row ''id'' = Some (VStr (row_str row ''id''))"
    by (auto simp: users_wf_def list_all_iff)
  ultimately show ?thesis using r0(2) by (simp add: row_bool_def)
qed


definition other_user :: user where
  "other_user = MakeUser\<lparr>obj_id := ''u2'', u_LOGIN := ''ann''\<rparr>"

definition two_users :: op_ctx where
  "two_users = demo_ctx\<lparr>dbs := (\<lambda>d t. if t = ''users'' then [user_row demo_user, user_row other_user] else [])\<rparr>"

definition request_after :: "op_ctx \<Rightarrow> request" where
  "request_after s' = (demo_token_request ''/a'' 10)\<lparr>dbs := (\<lambda>d t. if t = ''users'' then users_of s'
     else if t = ''user_sessions'' then [session_row demo_session] else [])\<rparr>"

lemma two_users_of: "users_of two_users = [user_row demo_user, user_row other_user]"
  by (simp add: users_of_def two_users_def)

lemma two_users_wf: "users_wf (users_of two_users)"
  by (simp add: two_users_of users_wf_def user_row_def demo_user_def other_user_def MakeUser_def row_str_def)

lemma block_other:
  "\<exists>s'. run_state (Users_SetBlocked (db_users table_db plain_crypto demo_vld) ''ann'' True [True]) two_users = (None, s')"
proof -
  have "h_FindByFields table_db (db_for False two_users) ''users'' [(''login'', VStr ''ann'')] (dbs two_users)
      = (Some (user_row other_user), None)"
    by (simp add: table_db_def two_users_def user_row_def demo_user_def other_user_def MakeUser_def)
  then have "wpc (Users_SetBlocked (db_users table_db plain_crypto demo_vld) ''ann'' True [True])
      (\<lambda>e _. e = None) two_users"
    unfolding Users_SetBlocked_def
    by (intro wpc wpc_update_user) (auto simp: table_db_def)
  from wpcD [OF this] show ?thesis by (metis prod.collapse)
qed

lemma request_after_authenticated:
  assumes "users_of s' = blocked_rows (user_row other_user) n (users_of two_users)"
  shows "authenticate table_db demo_token_handler (request_after s') = Some (demo_session, to_auth_user demo_user)"
proof -
  have eq: "ContextTenancy (request_after s') = []" "times (request_after s') i = 10 + int i"
    "request_token demo_token_handler (request_after s') = (True, token_msg demo_token, None)" for i
    using demo_request_token [of "''/a''" 10]
    by (simp_all add: request_after_def ContextTenancy_def demo_token_request_def demo_request_def
        demo_ctx_def op_ctx.defs request.defs request_token_def token_name_def getHttpHeader_def)
  have "found_session table_db (request_after s') ''s1'' = (Some demo_session, None)"
    by (simp add: found_session_def request_after_def table_db_def session_row_def demo_session_def
        NewSession_def row_session_def row_str_def row_time_def row_bool_def)
  moreover have "found_user table_db (request_after s') ''joe'' = (Some (to_auth_user demo_user), None)"
    by (simp add: found_user_def request_after_def table_db_def assms two_users_of blocked_rows_def
        user_row_def demo_user_def other_user_def MakeUser_def row_user_def row_str_def row_time_def row_bool_def)
  moreover have "ss_Valid demo_session" "ss_Expiration demo_session = 100" "ss_UserLogin demo_session = ''joe''"
    "\<not> au_blocked (to_auth_user demo_user)" "tk_SessionId demo_token = ''s1''" "tk_Exp demo_token = 50"
    "tk_Tenancy demo_token = []"
    by (simp_all add: demo_session_def demo_user_def MakeUser_def to_auth_user_def demo_token_def)
  ultimately show ?thesis by (simp add: authenticate_def eq)
qed


end
