(* ===== verification/Auth_Methods.thy ===== *)
theory Auth_Methods
  imports Auth_Token
begin

text \<open>
  The smaller authorisation methods: no authorisation at all (\<^verbatim>\<open>src/pkg/auth/noauth.go\<close>), the anti-CSRF
  token (\<^verbatim>\<open>auth_csrf\<close>), the HMAC of a request (\<^verbatim>\<open>auth_hmac\<close>), the signature of a request
  (\<^verbatim>\<open>auth_signature\<close>) and the login with a password hash (\<^verbatim>\<open>auth_login_phash\<close>).

  Each handler returns whether it found its section in the request, and an error. A traced body also
  hands over the error that the deferred function sees: where the source declares \<^verbatim>\<open>err\<close> anew in an
  inner block, that is the outer, unset variable.
\<close>

section \<open>No authorisation\<close>

definition NoAuthProtocol :: string where "NoAuthProtocol = ''noauth''"

definition noauth_user :: auth_user where
  "noauth_user = \<lparr>au_id = ''0'', au_display = ''_none_'', au_login = ''_noauth_'', au_blocked = False,
     au_phone = None, au_phash = None, au_hmac_secret = None\<rparr>"

definition NoAuth_Handle :: "('z request_scheme, bool \<times> err) comp" where
  "NoAuth_Handle = traced ''NoAuth.Handle'' [] (\<lambda>c. do {
     SetAuthUser (Some noauth_user);
     ret (True, None) })"

definition NoAuth_HandleRequest :: "('z request_scheme, err) comp" where
  "NoAuth_HandleRequest = do { NoAuth_Handle; ret None }"

section \<open>The anti-CSRF token\<close>

definition AntiCsrfTokenName :: string where "AntiCsrfTokenName = ''csrf''"
definition ErrorCodeAntiCsrfRequired :: string where "ErrorCodeAntiCsrfRequired = ''anti_csrf_token_required''"
definition csrf_ErrorCodeTokenExpired :: string where "csrf_ErrorCodeTokenExpired = ''anti_csrf_token_expired''"
definition csrf_ErrorCodeInvalidToken :: string where "csrf_ErrorCodeInvalidToken = ''anti_csrf_token_invalid''"

definition csrf_ErrorDescriptions :: "(string \<times> string) list" where
  "csrf_ErrorDescriptions =
     [(ErrorCodeAntiCsrfRequired, ''Request must be protected with anti-CSRF token.''),
      (csrf_ErrorCodeTokenExpired, ''Anti-CSRF token expired.''),
      (csrf_ErrorCodeInvalidToken, ''Invalid anti-CSRF token.'')]"

definition csrf_ErrorProtocolCodes :: "(string \<times> int) list" where
  "csrf_ErrorProtocolCodes =
     [(ErrorCodeAntiCsrfRequired, StatusForbidden), (csrf_ErrorCodeTokenExpired, StatusForbidden),
      (csrf_ErrorCodeInvalidToken, StatusForbidden)]"

record csrf_handler =
  csrf_TTL_SECONDS :: int
  csrf_skipPaths :: "string list"
  csrf_encryption :: param_encryption

text \<open>The last part of \<^verbatim>\<open>Init\<close>: without configured paths the status service is skipped.\<close>

definition csrf_skip :: "string list \<Rightarrow> string list" where
  "csrf_skip ignorePaths = (if length ignorePaths = 0 then [''/status/check''] else ignorePaths)"

definition expire_msg :: "int \<Rightarrow> gval" where
  "expire_msg exp = VMap [(''exp'', VTime exp)]"

definition csrf_renew :: "csrf_handler \<Rightarrow> nat \<Rightarrow> ('z request_scheme, (bool \<times> err) \<times> err) comp" where
  "csrf_renew a c = do {
     exp \<leftarrow> SetTTL (csrf_TTL_SECONDS a);
     e \<leftarrow> Enc_SetAuthParameter (csrf_encryption a) AntiCsrfProtocol AntiCsrfTokenName (expire_msg exp);
     (if e \<noteq> None then do {
        SetMessage c ''failed to set encrypted auth parameter'';
        SetGenericErrorCode ErrorCodeInternalServerError [];
        ret ((True, e), e) }
      else ret ((True, None), None)) }"

definition Csrf_Handle :: "csrf_handler \<Rightarrow> ('z request_scheme, bool \<times> err) comp" where
  "Csrf_Handle a = do {
     path \<leftarrow> gets req_path;
     traced_err ''AuthCsrf.Handle'' [[(''path'', VStr path)]] (\<lambda>c.
       if path \<in> set (csrf_skipPaths a) then csrf_renew a c
       else do {
         (exists, prev, e) \<leftarrow> Enc_GetAuthParameter (csrf_encryption a) AntiCsrfProtocol AntiCsrfTokenName;
         (if \<not> exists then do {
            Log LogDebug ''CSRF token not found'' None [];
            SetGenericErrorCode ErrorCodeAntiCsrfRequired [];
            ret ((False, errors_New ''CSRF token not found''), None) }
          else if e \<noteq> None then do {
            SetMessage c ''failed to get encrypted auth parameter'';
            SetGenericErrorCode csrf_ErrorCodeInvalidToken [];
            ret ((True, e), None) }
          else do {
            expired \<leftarrow> Expired (msg_time prev ''exp'');
            (if expired then do {
               SetMessage c ''token expired'';
               SetGenericErrorCode csrf_ErrorCodeTokenExpired [];
               ret ((True, e), None) }
             else csrf_renew a c) }) }) }"

definition IsCsrfError :: "string \<Rightarrow> bool" where
  "IsCsrfError code \<longleftrightarrow> code = ErrorCodeAntiCsrfRequired \<or> code = csrf_ErrorCodeInvalidToken
     \<or> code = csrf_ErrorCodeTokenExpired"

section \<open>The HMAC of a request\<close>

definition HmacProtocol :: string where "HmacProtocol = ''hmac''"
definition HmacParameter :: string where "HmacParameter = ''hmac''"
definition ErrorCodeInvalidHmac :: string where "ErrorCodeInvalidHmac = ''hmac_invalid''"

definition request_hmac :: "string \<Rightarrow> 'z request_scheme \<Rightarrow> Hmac" where
  "request_hmac secret s = Hmac_Add [req_method s, req_path s, req_content s] (NewHmac secret)"

definition Hmac_Handle :: "crypto \<Rightarrow> ('z request_scheme, bool \<times> err) comp" where
  "Hmac_Handle cr = traced_err ''AuthHmac.Handle'' [] (\<lambda>c. do {
     requestHmac \<leftarrow> Request_GetAuthParameter HmacProtocol HmacParameter;
     (if requestHmac = [] then ret ((False, None), None)
      else do {
        u \<leftarrow> gets authUser;
        (case u of
           None \<Rightarrow> do {
             SetGenericErrorCode ErrorCodeUnauthorized [];
             ret ((True, errors_New ''unknown user''), None) }
         | Some u \<Rightarrow> (case au_hmac_secret u of
             None \<Rightarrow> do {
               SetMessage c ''user must be of UserWithHmacSecret interface'';
               SetGenericErrorCode ErrorCodeInternalServerError [];
               ret ((True, None), None) }
           | Some secret \<Rightarrow>
               if secret = [] then do {
                 SetGenericErrorCode ErrorCodeUnauthorized [];
                 ret ((True, errors_New ''hmac secret is not set for user''), None) }
               else do {
                 h \<leftarrow> gets (request_hmac secret);
                 (let e = Hmac_CheckStr cr requestHmac h in
                  if e \<noteq> None then do {
                    SetGenericErrorCode ErrorCodeInvalidHmac [];
                    ret ((True, e), e) }
                  else ret ((True, None), None)) })) }) })"

section \<open>The signature of a request\<close>

definition ErrorCodeInvalidKey :: string where "ErrorCodeInvalidKey = ''invalid_key''"
definition ErrorCodeInvalidSignature :: string where "ErrorCodeInvalidSignature = ''invalid_signature''"
definition SignatureProtocol :: string where "SignatureProtocol = ''signature''"
definition SignatureParameter :: string where "SignatureParameter = ''signature''"

text \<open>The signature manager is an interface, here its operation \<^verbatim>\<open>Verify\<close>.\<close>

definition Signature_Handle ::
    "(string \<Rightarrow> string \<Rightarrow> string \<Rightarrow> string \<Rightarrow> ('z request_scheme, err) comp)
     \<Rightarrow> ('z request_scheme, bool \<times> err) comp" where
  "Signature_Handle verify = traced_err ''AuthSignature.Handle'' [] (\<lambda>c. do {
     requestSignature \<leftarrow> Request_GetAuthParameter SignatureProtocol SignatureParameter;
     (if requestSignature = [] then ret ((False, None), None)
      else do {
        content \<leftarrow> gets req_content;
        meth \<leftarrow> gets req_method;
        path \<leftarrow> gets req_path;
        e \<leftarrow> verify requestSignature content meth path;
        (if e \<noteq> None then ret ((True, e), e) else ret ((True, None), None)) }) })"

section \<open>Login with a password hash\<close>

definition LoginProtocol :: string where "LoginProtocol = ''login_phash''"
definition LoginName :: string where "LoginName = ''login''"
definition SaltName :: string where "SaltName = ''login-salt''"
definition PasswordHashName :: string where "PasswordHashName = ''login-phash''"
definition ErrorCodeLoginFailed :: string where "ErrorCodeLoginFailed = ''login_failed''"
definition ErrorCodeCredentialsRequired :: string where
  "ErrorCodeCredentialsRequired = ''login_credentials_required''"

definition login_ErrorDescriptions :: "(string \<times> string) list" where
  "login_ErrorDescriptions =
     [(ErrorCodeLoginFailed, ''Invalid login or password.''),
      (ErrorCodeCredentialsRequired, ''Credentials hash must be provided in request.'')]"

definition login_ErrorProtocolCodes :: "(string \<times> int) list" where
  "login_ErrorProtocolCodes =
     [(ErrorCodeLoginFailed, StatusUnauthorized), (ErrorCodeCredentialsRequired, StatusUnauthorized)]"

record 's login_handler =
  lh_users :: "'s user_sessions"
  lh_crypto :: crypto

text \<open>A login that is not known is answered like one that is: in the first step with a made-up salt.\<close>

definition refuse_login :: "crypto \<Rightarrow> string \<Rightarrow> ('z request_scheme, unit) comp" where
  "refuse_login cr phash =
     (if phash = [] then do {
        salt \<leftarrow> GenerateString cr [];
        Request_SetAuthParameter LoginProtocol SaltName salt;
        SetGenericErrorCode ErrorCodeCredentialsRequired [] }
      else SetGenericErrorCode ErrorCodeLoginFailed [])"

definition Login_Handle :: "'z request_scheme login_handler \<Rightarrow> ('z request_scheme, bool \<times> err) comp" where
  "Login_Handle l = traced_err ''LoginHandler.Handle'' [] (\<lambda>c. do {
     phash \<leftarrow> Request_GetAuthParameter LoginProtocol PasswordHashName;
     login \<leftarrow> Request_GetAuthParameter LoginProtocol LoginName;
     (if login = [] then ret ((False, None), None)
      else do {
        SetLoggerField ''login'' (VStr login);
        (if us_ValidateLogin (lh_users l) login \<noteq> None then do {
           refuse_login (lh_crypto l) phash;
           ret ((True, errors_New ''invalid login format''), errors_New ''invalid login format'') }
         else do {
           (dbUser, e) \<leftarrow> us_FindAuthUser (lh_users l) login;
           (if e \<noteq> None then do {
              SetMessage c ''failed to load user'';
              fail_with ErrorCodeInternalServerError e }
            else case dbUser of
              None \<Rightarrow> do {
                SetMessage c ''user not found'';
                refuse_login (lh_crypto l) phash;
                ret ((True, None), None) }
            | Some u \<Rightarrow> do {
                SetLoggerField ''user'' (VStr (au_display u));
                (if au_blocked u then fail_with ErrorCodeLoginFailed (errors_New ''user blocked'')
                 else case au_phash u of
                   None \<Rightarrow> do {
                     SetMessage c ''user must be of UserWithPasswordHash interface'';
                     fail_with ErrorCodeInternalServerError None }
                 | Some (stored, salt) \<Rightarrow>
                     if phash \<noteq> [] then
                       (if \<not> CheckPasswordHash stored phash
                        then fail_with ErrorCodeLoginFailed (errors_New ''invalid password hash'')
                        else do {
                          SetAuthUser (Some u);
                          ret ((True, None), None) })
                     else do {
                       Request_SetAuthParameter LoginProtocol SaltName salt;
                       SetGenericErrorCode ErrorCodeCredentialsRequired [];
                       ret ((True, errors_New ''credentials not provided''), None) }) }) }) }) })"

section \<open>Lemmas\<close>

lemma frame_NoAuth [io_rel]: "state_io_rel frame NoAuth_Handle" "state_io_rel frame NoAuth_HandleRequest"
  unfolding NoAuth_HandleRequest_def NoAuth_Handle_def by (intro io_rel)+

lemma frame_Csrf_Handle [io_rel]: "state_io_rel frame (Csrf_Handle a)"
  unfolding Csrf_Handle_def csrf_renew_def by (intro io_rel)

lemma frame_Hmac_Handle [io_rel]: "state_io_rel frame (Hmac_Handle cr)"
  unfolding Hmac_Handle_def Let_def by (intro io_rel)

lemma frame_Signature_Handle:
  "(\<And>sig c m p. state_io_rel frame (verify sig c m p)) \<Longrightarrow> state_io_rel frame (Signature_Handle verify)"
  unfolding Signature_Handle_def by (intro io_rel)

lemma frame_refuse_login [io_rel]: "state_io_rel frame (refuse_login cr phash)"
  unfolding refuse_login_def by (intro io_rel)

context session_manager
begin

lemma frame_Login_Handle [io_rel]: "lh_users l = us \<Longrightarrow> state_io_rel frame (Login_Handle l)"
  unfolding Login_Handle_def by (simp only:) (intro io_rel)

end

definition header_of :: "'z request_scheme \<Rightarrow> string \<Rightarrow> string \<Rightarrow> string" where
  "header_of s protocol key = getHttpHeader s (auth_header protocol key)"

text \<open>The specification of the login: the user whose stored hash the request repeats.\<close>

definition login_as :: "dbhandlers \<Rightarrow> user_validators \<Rightarrow> 'z request_scheme \<Rightarrow> auth_user option" where
  "login_as h vld s =
     (let login = header_of s LoginProtocol LoginName; phash = header_of s LoginProtocol PasswordHashName in
      if login = [] \<or> ValidateLogin vld login \<noteq> None \<or> phash = [] then None
      else case found_user h s login of
        (Some u, None) \<Rightarrow>
          (case au_phash u of
             Some (stored, _) \<Rightarrow> if \<not> au_blocked u \<and> stored = phash then Some u else None
           | None \<Rightarrow> None)
      | _ \<Rightarrow> None)"

lemma wpc_Request_Set [wpc]:
  "(\<And>rh. Q () (core (k\<lparr>resp_headers := rh\<rparr>))) \<Longrightarrow> wpc (Request_SetAuthParameter p n v) Q k"
  unfolding Request_SetAuthParameter_def ginHeader_def by (rule wpc_modifys) simp_all

lemma wpc_refuse_login [wpc]:
  assumes "\<And>rd rh. Q () (core (with_code ErrorCodeCredentialsRequired (k\<lparr>rands := rd, resp_headers := rh\<rparr>)))"
    and "Q () (core (with_code ErrorCodeLoginFailed k))"
  shows "wpc (refuse_login cr phash) Q k"
  unfolding refuse_login_def GenerateString_def
  by (intro wpc) (use assms in simp_all)

lemma Login_Handle_spec:
  assumes "lh_users l = db_user_sessions h cr vld"
  shows "wpc (Login_Handle l) (\<lambda>(found, e) k. case login_as h vld s of
      Some u \<Rightarrow> found \<and> e = None \<and> authUser k = Some u \<and> genericError k = genericError s
    | None \<Rightarrow> authUser k = authUser s \<and> dbs k = dbs s \<and> (found \<longrightarrow> genericError k \<noteq> None)) s"
proof -
  have vl: "us_ValidateLogin (db_user_sessions h cr vld) = ValidateLogin vld"
    by (simp add: db_user_sessions_def UsersWithSession_def)
  show ?thesis
    unfolding Login_Handle_def assms vl
    by (intro wpc db_us.wpc_FindAuthUser)
       (auto simp: login_as_def Let_def header_of_def CheckPasswordHash_def HashEqual_def
          split: prod.splits option.splits if_splits)
qed

text \<open>When the anti-CSRF handler lets a request pass.\<close>

definition csrf_valid :: "csrf_handler \<Rightarrow> 'z request_scheme \<Rightarrow> bool" where
  "csrf_valid a s \<longleftrightarrow> req_path s \<in> set (csrf_skipPaths a) \<or>
     (case param_of (csrf_encryption a) (header_of s AntiCsrfProtocol AntiCsrfTokenName) of
        (found, prev, e) \<Rightarrow> found \<and> e = None \<and> times s 0 \<le> msg_time prev ''exp'')"

lemma csrf_renew_spec:
  "wpc (csrf_renew a c) (\<lambda>((found, e), _) k'. found \<and> authUser k' = authUser k
     \<and> (e = None \<longrightarrow> genericError k' = genericError k)) k"
  unfolding csrf_renew_def SetTTL_def
  by (intro wpc wpc_keeps [OF keeps_Enc_Set [where f = who]]) (auto simp: who_def)

lemma Csrf_Handle_spec:
  "wpc (Csrf_Handle a) (\<lambda>(found, e) k. authUser k = authUser s \<and>
     (if csrf_valid a s then found \<and> (e = None \<longrightarrow> genericError k = genericError s)
      else genericError k \<noteq> None \<and> resp_headers k = resp_headers s)) s"
  unfolding Csrf_Handle_def
  by (intro wpc wpc_mono [OF csrf_renew_spec])
     (auto simp: csrf_valid_def header_of_def split: prod.splits)

lemma Hmac_Handle_spec:
  "wpc (Hmac_Handle cr) (\<lambda>(found, e) k. authUser k = authUser s
     \<and> (found \<and> e = None \<longleftrightarrow> header_of s HmacProtocol HmacParameter \<noteq> [] \<and>
         (case authUser s of
            None \<Rightarrow> False
          | Some u \<Rightarrow> (case au_hmac_secret u of
              None \<Rightarrow> True
            | Some secret \<Rightarrow> secret \<noteq> [] \<and>
                Base64Decode (header_of s HmacProtocol HmacParameter) = Inr (Hmac_Sum cr (request_hmac secret s)))))) s"
proof -
  have rh: "request_hmac secret (core s) = request_hmac secret s" for secret and s :: "'z request_scheme"
    by (simp add: request_hmac_def)
  show ?thesis
    unfolding Hmac_Handle_def Let_def
    by (intro wpc) (auto simp: header_of_def rh Hmac_CheckStr_accepts not_None_eq [symmetric]
        simp del: not_None_eq)
qed

section \<open>Properties\<close>

text \<open>
  C3: the login handler makes a user the user of the request exactly when the request names a login of
  valid form and repeats the stored password hash of a user with that login who is not blocked; in
  every other case the request keeps the user it had and nothing is written to the databases, and a
  login that was named is answered with a generic error.
\<close>

theorem login_authentication:
  assumes "lh_users l = db_user_sessions h cr vld"
    and "run_state (Login_Handle l) s = ((found, e), s')"
  shows "case login_as h vld s of
      Some u \<Rightarrow> found \<and> e = None \<and> authUser s' = Some u \<and> genericError s' = genericError s
    | None \<Rightarrow> authUser s' = authUser s \<and> dbs s' = dbs s \<and> (found \<longrightarrow> genericError s' \<noteq> None)"
  using wpcE [OF Login_Handle_spec [OF assms(1)] assms(2)] by (auto split: option.splits)

definition demo_login_handler :: "unit request_scheme login_handler" where
  "demo_login_handler = \<lparr>lh_users = db_user_sessions table_db plain_crypto demo_validators,
     lh_crypto = plain_crypto\<rparr>"

definition login_user :: user where
  "login_user = demo_user\<lparr>u_PASSWORD_HASH := ''hash'', u_PASSWORD_SALT := ''salt''\<rparr>"

definition login_request :: request where
  "login_request = demo_request\<lparr>
     req_headers := [(''x-auth-login'', ''joe''), (''x-auth-login-phash'', ''hash'')],
     dbs := (\<lambda>d t. if t = ''users'' then [user_row login_user] else [])\<rparr>"

lemma login_request_as: "login_as table_db demo_validators login_request = Some (to_auth_user login_user)"
proof -
  have "auth_header LoginProtocol LoginName = ''x-auth-login''"
    "auth_header LoginProtocol PasswordHashName = ''x-auth-login-phash''" by code_simp+
  then have "header_of login_request LoginProtocol LoginName = ''joe''"
    "header_of login_request LoginProtocol PasswordHashName = ''hash''"
    by (simp_all add: header_of_def getHttpHeader_def login_request_def)
  moreover have "found_user table_db login_request ''joe'' = (Some (to_auth_user login_user), None)"
    by (simp add: found_user_def login_request_def table_db_def user_row_def login_user_def demo_user_def
        MakeUser_def row_user_def row_str_def row_time_def row_bool_def)
  moreover have "ValidateLogin demo_validators ''joe'' = None"
    by (simp add: demo_validators_def UsersValidator_def)
  ultimately show ?thesis
    by (simp add: login_as_def to_auth_user_def login_user_def demo_user_def MakeUser_def Let_def)
qed

theorem login_authentication_witness:
  "case run_state (Login_Handle demo_login_handler) login_request of ((found, e), s') \<Rightarrow>
     found \<and> e = None \<and> authUser s' = Some (to_auth_user login_user)"
proof -
  obtain found e s' where run: "run_state (Login_Handle demo_login_handler) login_request = ((found, e), s')"
    by (metis prod.collapse)
  have "lh_users demo_login_handler = db_user_sessions table_db plain_crypto demo_validators"
    by (simp add: demo_login_handler_def)
  from login_authentication [OF this run] show ?thesis by (simp add: run login_request_as)
qed

text \<open>
  C40: without a generic error the anti-CSRF handler has passed a request only when its path is exempt or
  it carries an anti-CSRF token that opens and is not expired; any other request is answered with a
  generic error and gets no new token.
\<close>

theorem csrf_protection:
  assumes "run_state (Csrf_Handle a) s = ((found, e), s')"
  shows "authUser s' = authUser s \<and>
     (if csrf_valid a s then found \<and> (e = None \<longrightarrow> genericError s' = genericError s)
      else genericError s' \<noteq> None \<and> resp_headers s' = resp_headers s)"
  using wpcE [OF Csrf_Handle_spec assms] by (auto split: if_splits)

theorem csrf_protection_witness:
  "case run_state (Csrf_Handle \<lparr>csrf_TTL_SECONDS = 300, csrf_skipPaths = csrf_skip [], csrf_encryption = demo_enc\<rparr>)
     demo_request of ((found, e), s') \<Rightarrow> genericError s' \<noteq> None \<and> resp_headers s' = []"
proof -
  let ?a = "\<lparr>csrf_TTL_SECONDS = 300, csrf_skipPaths = csrf_skip [], csrf_encryption = demo_enc\<rparr>"
  obtain found e s' where run: "run_state (Csrf_Handle ?a) demo_request = ((found, e), s')"
    by (metis prod.collapse)
  have r: "req_path demo_request = ''/a''" "req_headers demo_request = []" "resp_headers demo_request = []"
    by (simp_all add: demo_request_def op_ctx.defs request.defs)
  then have "\<not> csrf_valid ?a demo_request"
    by (simp add: csrf_valid_def csrf_skip_def header_of_def getHttpHeader_def param_of_def)
  with csrf_protection [OF run] r show ?thesis by (simp add: run)
qed

text \<open>
  The HMAC handler reports success exactly for a request with an HMAC whose user either has a secret
  under which the HMAC of method, path and content is the one sent, or has no HMAC secret in its type
  at all: for such a user the HMAC is not checked.
\<close>

theorem hmac_success:
  assumes "run_state (Hmac_Handle cr) s = ((found, e), s')"
  shows "found \<and> e = None \<longleftrightarrow> header_of s HmacProtocol HmacParameter \<noteq> [] \<and>
     (case authUser s of
        None \<Rightarrow> False
      | Some u \<Rightarrow> (case au_hmac_secret u of
          None \<Rightarrow> True
        | Some secret \<Rightarrow> secret \<noteq> [] \<and>
            Base64Decode (header_of s HmacProtocol HmacParameter) = Inr (Hmac_Sum cr (request_hmac secret s))))"
  using wpcE [OF Hmac_Handle_spec assms] by auto

theorem hmac_success_witness:
  "case run_state (Hmac_Handle plain_crypto)
       (login_request\<lparr>authUser := Some (to_auth_user demo_user), req_headers := [(''x-auth-hmac'', ''forged'')]\<rparr>) of
     ((found, e), s') \<Rightarrow> found \<and> e = None"
proof -
  let ?s = "login_request\<lparr>authUser := Some (to_auth_user demo_user), req_headers := [(''x-auth-hmac'', ''forged'')]\<rparr>"
  obtain found e s' where run: "run_state (Hmac_Handle plain_crypto) ?s = ((found, e), s')"
    by (metis prod.collapse)
  have "auth_header HmacProtocol HmacParameter = ''x-auth-hmac''" by code_simp
  then have "header_of ?s HmacProtocol HmacParameter = ''forged''"
    by (simp add: header_of_def getHttpHeader_def)
  moreover have "au_hmac_secret (to_auth_user demo_user) = None" by (simp add: to_auth_user_def)
  ultimately show ?thesis using hmac_success [OF run] by (simp add: run)
qed

end
