(* ===== verification/Auth_Sms.thy ===== *)
theory Auth_Sms
  imports Auth_Methods "HOL-Library.Sublist"
begin

text \<open>
  Confirmation of a request with a code that is sent by SMS: the manager that sends and stores
  messages (\<^verbatim>\<open>src/pkg/sms/sms_manager.go\<close>), and the authorisation handler
  (\<^verbatim>\<open>src/pkg/auth/auth_methods/auth_sms/auth_sms.go\<close>), which keeps the expected code in the cache under
  the ID of a token that is handed to the client.
\<close>

section \<open>The SMS manager\<close>

definition StatusSending :: string where "StatusSending = ''sending''"
definition StatusSuccess :: string where "StatusSuccess = ''success''"
definition StatusFail :: string where "StatusFail = ''fail''"

text \<open>
  A provider is an interface: its name, and sending a text to a recipient, which may answer with the
  raw response and the ID the provider gave the message.
\<close>

record 's sms_provider =
  pr_Name :: string
  pr_Send :: "string \<Rightarrow> string \<Rightarrow> ('s, (string \<times> string) option \<times> err) comp"

record 's sms_destination =
  de_PREFIX :: string
  de_provider :: "'s sms_provider"

record 's sms_manager =
  sm_ENCRYPT_MESSAGE_STORE :: bool
  sm_destinations :: "'s sms_destination list"
  sm_cipher :: string
  sm_defaultProvider :: "'s sms_provider"
  sm_crypto :: crypto
  sm_handlers :: dbhandlers

record sms_message = object_base +
  sms_UserId :: string
  sms_UserLogin :: string
  sms_UserDisplay :: string
  sms_ForeignId :: string
  sms_Phone :: string
  sms_Operation :: string
  sms_Provider :: string
  sms_Status :: string
  sms_Tenancy :: string
  sms_Message :: string
  sms_RawResponse :: string

definition sms_row :: "sms_message \<Rightarrow> fields" where
  "sms_row m =
     [(''id'', VStr (obj_id m)), (''created_at'', VTime (created_at m)), (''updated_at'', VTime (updated_at m)),
      (''user_id'', VStr (sms_UserId m)), (''user_login'', VStr (sms_UserLogin m)),
      (''user_display'', VStr (sms_UserDisplay m)), (''foreign_id'', VStr (sms_ForeignId m)),
      (''phone'', VStr (sms_Phone m)), (''operation'', VStr (sms_Operation m)),
      (''provider'', VStr (sms_Provider m)), (''status'', VStr (sms_Status m)),
      (''tenancy'', VStr (sms_Tenancy m)), (''message'', VStr (sms_Message m)),
      (''raw_response'', VStr (sms_RawResponse m))]"

definition sms_table :: string where "sms_table = ''sms_messages''"

text \<open>
  The end of \<^verbatim>\<open>Init\<close>: each configured destination gets its provider, an unknown one is an error; then
  the destinations are sorted by the length of their prefixes, the longest first, stably.
\<close>

fun set_destinations :: "(string \<times> 's sms_provider) list \<Rightarrow> (string \<times> string) list
    \<Rightarrow> goerror + 's sms_destination list" where
  "set_destinations providers [] = Inr []"
| "set_destinations providers ((pfx, prov) # ds) =
     (case map_get providers prov of
        None \<Rightarrow> Inl (NativeError ''unknown provider for destination'')
      | Some p \<Rightarrow> (case set_destinations providers ds of
          Inl e \<Rightarrow> Inl e
        | Inr rest \<Rightarrow> Inr (\<lparr>de_PREFIX = pfx, de_provider = p\<rparr> # rest)))"

definition init_destinations :: "(string \<times> 's sms_provider) list \<Rightarrow> (string \<times> string) list
    \<Rightarrow> goerror + 's sms_destination list" where
  "init_destinations providers ds =
     (case set_destinations providers ds of
        Inl e \<Rightarrow> Inl e
      | Inr dests \<Rightarrow> Inr (sort_key (\<lambda>d. - int (length (de_PREFIX d))) dests))"

text \<open>The first destination whose prefix fits, else the default provider.\<close>

fun find_provider :: "'s sms_provider \<Rightarrow> 's sms_destination list \<Rightarrow> string \<Rightarrow> 's sms_provider" where
  "find_provider provider [] recipient = provider"
| "find_provider provider (d # ds) recipient =
     (if prefix (de_PREFIX d) recipient then de_provider d else find_provider provider ds recipient)"

definition new_sms :: "auth_user \<Rightarrow> string \<Rightarrow> string \<Rightarrow> string \<Rightarrow> string \<Rightarrow> sms_message" where
  "new_sms u ten recipient operation prov =
     \<lparr>obj_id = [], created_at = 0, updated_at = 0, sms_UserId = au_id u, sms_UserLogin = au_login u,
      sms_UserDisplay = au_display u, sms_ForeignId = [], sms_Phone = recipient,
      sms_Operation = operation, sms_Provider = prov, sms_Status = StatusSending, sms_Tenancy = ten,
      sms_Message = [], sms_RawResponse = []\<rparr>"

text \<open>Storing the message, sending it, and storing the outcome.\<close>

definition send_stored :: "'z request_scheme sms_manager \<Rightarrow> nat \<Rightarrow> 'z request_scheme sms_provider
    \<Rightarrow> sms_message \<Rightarrow> string \<Rightarrow> string \<Rightarrow> ('z request_scheme, (string \<times> err) \<times> err) comp" where
  "send_stored sm c provider sms message recipient = do {
     d \<leftarrow> ctx_DB [];
     e \<leftarrow> db_write (h_Create (sm_handlers sm) d sms_table (sms_row sms));
     (if e \<noteq> None then do {
        SetMessage c ''failed to save SMS in database'';
        SetGenericErrorCode ErrorCodeInternalServerError [];
        ret (([], e), e) }
      else do {
        (resp, e) \<leftarrow> pr_Send provider message recipient;
        let (raw, foreign) = (case resp of None \<Rightarrow> ([], []) | Some r \<Rightarrow> r);
        status \<leftarrow> (if e \<noteq> None then do { SetMessage c ''failed to send SMS''; ret StatusFail }
                   else ret StatusSuccess);
        d \<leftarrow> ctx_DB [];
        e1 \<leftarrow> db_Update (sm_handlers sm) d sms_table (obj_id sms)
          [(''status'', VStr status), (''raw_response'', VStr raw), (''foreign_id'', VStr foreign)];
        (if e1 \<noteq> None then do {
           SetCallField c ''status'' (VStr status);
           SetCallField c ''raw_response'' (VStr raw);
           Log LogError ''failed to update SMS in database'' e1 [] }
         else ret ());
        ret ((obj_id sms, e), e) }) }"

text \<open>
  The deferred function logs a message as sent whenever it sees no error; the error of the
  encryption is declared in an inner block, so it does not see that one.
\<close>

definition SmsManager_Send :: "'z request_scheme sms_manager \<Rightarrow> string \<Rightarrow> string
    \<Rightarrow> ('z request_scheme, string \<times> err) comp" where
  "SmsManager_Send sm message recipient =
     traced ''SmsManagerBase.Send'' [[(''recipient'', VStr recipient)]] (\<lambda>c. do {
       let provider = find_provider (sm_defaultProvider sm) (sm_destinations sm) recipient;
       SetCallField c ''provider'' (VStr (pr_Name provider));
       u \<leftarrow> AuthUser_or_panic;
       SetCallField c ''user'' (VStr (au_display u));
       ten \<leftarrow> gets ContextTenancy;
       op \<leftarrow> gets ctx_name;
       sms \<leftarrow> InitObject (new_sms u ten recipient op (pr_Name provider));
       SetCallField c ''sms_id'' (VStr (obj_id sms));
       stored \<leftarrow> (if sm_ENCRYPT_MESSAGE_STORE sm then do {
           r \<leftarrow> Encrypt (sm_crypto sm) (sm_cipher sm) message [];
           ret (case r of Inl e \<Rightarrow> Inl e | Inr ciphertext \<Rightarrow> Inr (Base64Encode ciphertext)) }
         else ret (Inr message));
       (r, e) \<leftarrow> (case stored of
           Inl e \<Rightarrow> do {
             SetMessage c ''failed to encrypt message'';
             SetGenericErrorCode ErrorCodeInternalServerError [];
             ret (([], Some e), None) }
         | Inr text \<Rightarrow> send_stored sm c provider (sms\<lparr>sms_Message := text\<rparr>) message recipient);
       (if e \<noteq> None then do { SetError c e; ret () } else Log LogInfo ''sms sent'' None []);
       ret r })"

definition FindSms :: "dbhandlers \<Rightarrow> string \<Rightarrow> ('z op_ctx_scheme, fields option \<times> err) comp" where
  "FindSms h smsId = traced_err ''SmsManagerBase.FindSms'' [[(''sms_id'', VStr smsId)]] (\<lambda>c. do {
     d \<leftarrow> ctx_DB [];
     (found, e) \<leftarrow> db_read (h_FindByField h d sms_table ''id'' (VStr smsId));
     (if e \<noteq> None then do {
        SetMessage c ''failed to find SMS in database'';
        ret ((None, e), e) }
      else case found of
        None \<Rightarrow> ret ((None, errors_New ''SMS not found''), errors_New ''SMS not found'')
      | Some msg \<Rightarrow> ret ((Some msg, None), None)) })"

section \<open>The handler's data\<close>

definition SmsProtocol :: string where "SmsProtocol = ''sms''"
definition SmsTokenName :: string where "SmsTokenName = ''sms-token''"
definition PhoneName :: string where "PhoneName = ''sms-phone''"
definition DelayName :: string where "DelayName = ''sms-delay''"
definition CodeName :: string where "CodeName = ''sms-code''"
definition SmsDelayCacheKey :: string where "SmsDelayCacheKey = ''sms-delay''"
definition SmsTokenCacheKey :: string where "SmsTokenCacheKey = ''sms-token''"

definition ErrorCodeSmsConfirmationRequired :: string where
  "ErrorCodeSmsConfirmationRequired = ''sms_confirmation_required''"
definition ErrorCodeSmsTokenRequired :: string where "ErrorCodeSmsTokenRequired = ''sms_token_required''"
definition sms_ErrorCodeTokenExpired :: string where "sms_ErrorCodeTokenExpired = ''sms_token_expired''"
definition sms_ErrorCodeInvalidToken :: string where "sms_ErrorCodeInvalidToken = ''sms_token_invalid''"
definition ErrorCodeInvalidSmsCode :: string where "ErrorCodeInvalidSmsCode = ''sms_code_invalid''"
definition ErrorCodeWaitDelay :: string where "ErrorCodeWaitDelay = ''sms_wait_delay''"
definition ErrorCodeContentMismatch :: string where "ErrorCodeContentMismatch = ''sms_content_mismatch''"
definition ErrorCodeInvalidPhone :: string where "ErrorCodeInvalidPhone = ''sms_invalid_phone''"
definition ErrorCodeTooManyTries :: string where "ErrorCodeTooManyTries = ''sms_too_many_tries''"

definition sms_ErrorDescriptions :: "(string \<times> string) list" where
  "sms_ErrorDescriptions =
     [(ErrorCodeSmsConfirmationRequired, ''Request must be confirmed with SMS.''),
      (ErrorCodeSmsTokenRequired, ''SMS token must be present in request.''),
      (sms_ErrorCodeTokenExpired, ''SMS token expired.''),
      (sms_ErrorCodeInvalidToken, ''Invalid SMS token.''),
      (ErrorCodeInvalidSmsCode, ''Invalid SMS code.''),
      (ErrorCodeWaitDelay, ''Wait before requesting new SMS code.''),
      (ErrorCodeContentMismatch, ''Content of initial request and content of current request mismatch.''),
      (ErrorCodeInvalidPhone, ''failed to send SMS confirmation because of invalid phone number.''),
      (ErrorCodeTooManyTries, ''Too many code tries.'')]"

text \<open>The source gives no protocol code to an invalid phone.\<close>

definition sms_ErrorProtocolCodes :: "(string \<times> int) list" where
  "sms_ErrorProtocolCodes =
     [(ErrorCodeSmsConfirmationRequired, StatusUnauthorized),
      (ErrorCodeSmsTokenRequired, StatusUnauthorized),
      (sms_ErrorCodeTokenExpired, StatusUnauthorized),
      (sms_ErrorCodeInvalidToken, StatusUnauthorized),
      (ErrorCodeInvalidSmsCode, StatusUnauthorized),
      (ErrorCodeWaitDelay, StatusUnauthorized),
      (ErrorCodeTooManyTries, StatusUnauthorized),
      (ErrorCodeContentMismatch, StatusUnauthorized)]"

record sms_cache_token =
  ct_Try :: int
  ct_Code :: string
  ct_Checksum :: string
  ct_SmsId :: string

definition cache_token_msg :: "sms_cache_token \<Rightarrow> gval" where
  "cache_token_msg t = VMap [(''try'', VInt (ct_Try t)), (''code'', VStr (ct_Code t)),
     (''checksum'', VStr (ct_Checksum t)), (''sms_id'', VStr (ct_SmsId t))]"

definition msg_cache_token :: "gval \<Rightarrow> sms_cache_token" where
  "msg_cache_token v = \<lparr>ct_Try = msg_int v ''try'', ct_Code = msg_str v ''code'',
     ct_Checksum = msg_str v ''checksum'', ct_SmsId = msg_str v ''sms_id''\<rparr>"

definition sms_token_msg :: "int \<Rightarrow> string \<Rightarrow> gval" where
  "sms_token_msg exp i = VMap [(''exp'', VTime exp), (''id'', VStr i)]"

definition sms_delay_msg :: "int \<Rightarrow> gval" where
  "sms_delay_msg t = VMap [(''created_at'', VTime t)]"

text \<open>
  The handler: its configuration, the encryption of parameters, the cache of the context with its
  serialiser, the SMS manager's \<^verbatim>\<open>Send\<close> and the endpoint's \<^verbatim>\<open>PrecheckRequestBeforeAuth\<close>, which hands over
  the text of the message.
\<close>

record 's sms_handler =
  sms_TOKEN_TTL_SECONDS :: int
  SMS_DELAY_SECONDS :: int
  sms_SECRET :: string
  MAX_TRIES :: int
  CODE_LENGTH :: int
  TESTING :: bool
  sms_encryption :: param_encryption
  sms_cache :: ttlcache
  sms_serializer :: serializer
  sms_crypto :: crypto
  sms_Send :: "string \<Rightarrow> string \<Rightarrow> ('s, string \<times> err) comp"
  CheckRequestContent :: "('s, string \<times> err) comp"

definition hmacOfRequest :: "'s sms_handler \<Rightarrow> string \<Rightarrow> 'z request_scheme \<Rightarrow> Hmac" where
  "hmacOfRequest a userId s =
     Hmac_Add [userId, req_method s, req_path s, req_content s] (NewHmac (sms_SECRET a))"

definition smsDelayCacheKey :: "string \<Rightarrow> string" where
  "smsDelayCacheKey userId = SmsDelayCacheKey @ ''/'' @ userId"

definition smsTokenCacheKey :: "string \<Rightarrow> string" where
  "smsTokenCacheKey i = SmsTokenCacheKey @ ''/'' @ i"

text \<open>\<^verbatim>\<open>str[len(str)-CODE_LENGTH:]\<close> panics when the index is outside the string.\<close>

definition genCode :: "'s sms_handler \<Rightarrow> ('z sys_scheme, string) comp" where
  "genCode a = do {
     r \<leftarrow> draw;
     let str = fmt_int 10 8 (int (r mod 2 ^ 32));
     let i = int (length str) - CODE_LENGTH a;
     (if i < 0 \<or> int (length str) < i then go_panic [] else ret (drop (nat i) str)) }"

text \<open>
  \<^verbatim>\<open>fmt.Sprintf\<close> with one string argument: the first \<^verbatim>\<open>%s\<close> or \<^verbatim>\<open>%v\<close> takes it, \<^verbatim>\<open>%%\<close> is a percent sign, further
  verbs lack an argument, and an argument that no verb takes is appended. Flags and widths are not
  modelled.
\<close>

fun sprintf_verbs :: "bool \<Rightarrow> string \<Rightarrow> string \<Rightarrow> string \<times> bool" where
  "sprintf_verbs used arg [] = ([], used)"
| "sprintf_verbs used arg [ch] = (if ch = CHR ''%'' then ''%!(NOVERB)'' else [ch], used)"
| "sprintf_verbs used arg (ch # v # rest) =
     (if ch \<noteq> CHR ''%'' then (case sprintf_verbs used arg (v # rest) of (out, b) \<Rightarrow> (ch # out, b))
      else if v = CHR ''%'' then (case sprintf_verbs used arg rest of (out, b) \<Rightarrow> (v # out, b))
      else if used then (case sprintf_verbs used arg rest of (out, b) \<Rightarrow> (''%!'' @ [v] @ ''(MISSING)'' @ out, b))
      else if v = CHR ''s'' \<or> v = CHR ''v''
        then (case sprintf_verbs True arg rest of (out, b) \<Rightarrow> (arg @ out, b))
      else (case sprintf_verbs True arg rest of (out, b) \<Rightarrow> (''%!'' @ [v] @ ''(string='' @ arg @ '')'' @ out, b)))"

definition Sprintf1 :: "string \<Rightarrow> string \<Rightarrow> string" where
  "Sprintf1 format arg = (case sprintf_verbs False arg format of
     (out, used) \<Rightarrow> if used then out else out @ ''%!(EXTRA string='' @ arg @ '')'')"

section \<open>The handler's operations\<close>

definition setToken :: "'z request_scheme sms_handler \<Rightarrow> nat \<Rightarrow> sms_cache_token \<Rightarrow> string
    \<Rightarrow> ('z request_scheme, err) comp" where
  "setToken a c cacheToken i = do {
     let newCacheKey = smsTokenCacheKey i;
     e \<leftarrow> Cache_Set (sms_cache a) (sms_serializer a) newCacheKey (cache_token_msg cacheToken)
       [sms_TOKEN_TTL_SECONDS a];
     (if e \<noteq> None then do {
        SetMessage c ''failed to save token in cache'';
        SetGenericErrorCode ErrorCodeInternalServerError [];
        ret e }
      else do {
        exp \<leftarrow> SetTTL (sms_TOKEN_TTL_SECONDS a);
        e \<leftarrow> Enc_SetAuthParameter (sms_encryption a) SmsProtocol SmsTokenName (sms_token_msg exp i);
        (if e \<noteq> None then do {
           SetMessage c ''failed to put token to response'';
           SetGenericErrorCode ErrorCodeInternalServerError [];
           ret e }
         else ret None) }) }"

text \<open>
  A request with a code. \<^verbatim>\<open>err\<close> is declared anew in this block, so the deferred function does not see
  it: the second component is always nil.
\<close>

definition sms_check_code :: "'z request_scheme sms_handler \<Rightarrow> nat \<Rightarrow> string \<Rightarrow> string \<Rightarrow> string
    \<Rightarrow> sms_cache_token \<Rightarrow> ('z request_scheme, (bool \<times> err) \<times> err) comp" where
  "sms_check_code a c userId code oldCacheKey cacheToken =
     (if code \<noteq> ct_Code cacheToken then do {
        Cache_Unset (sms_cache a) oldCacheKey;
        i \<leftarrow> GenerateID;
        SetTTL (sms_TOKEN_TTL_SECONDS a);
        e \<leftarrow> setToken a c (cacheToken\<lparr>ct_Try := ct_Try cacheToken + 1\<rparr>) i;
        (if e \<noteq> None then ret ((True, e), None)
         else do {
           SetGenericErrorCode ErrorCodeInvalidSmsCode [];
           ret ((True, errors_New ''invalid SMS code''), None) }) }
      else do {
        Cache_Unset (sms_cache a) oldCacheKey;
        Cache_Unset (sms_cache a) (smsDelayCacheKey userId);
        ret ((True, None), None) })"

definition sms_confirm :: "'z request_scheme sms_handler \<Rightarrow> nat \<Rightarrow> string \<Rightarrow> string
    \<Rightarrow> ('z request_scheme, (bool \<times> err) \<times> err) comp" where
  "sms_confirm a c userId code = do {
     (exists, token, e) \<leftarrow> Enc_GetAuthParameter (sms_encryption a) SmsProtocol SmsTokenName;
     (if \<not> exists then do {
        SetMessage c ''SMS token not found'';
        SetGenericErrorCode ErrorCodeSmsTokenRequired [];
        ret ((False, e), None) }
      else if e \<noteq> None then do {
        SetMessage c ''failed to get encrypted SMS token'';
        SetGenericErrorCode sms_ErrorCodeInvalidToken [];
        ret ((True, e), None) }
      else do {
        expired \<leftarrow> Expired (msg_time token ''exp'');
        (if expired then do {
           SetMessage c ''token expired'';
           SetGenericErrorCode sms_ErrorCodeTokenExpired [];
           ret ((True, e), None) }
         else do {
           let oldCacheKey = smsTokenCacheKey (msg_str token ''id'');
           (found, obj, e) \<leftarrow> Cache_Get (sms_cache a) (sms_serializer a) oldCacheKey;
           (if e \<noteq> None then do {
              SetMessage c ''failed to get cache token'';
              SetGenericErrorCode ErrorCodeInternalServerError [];
              ret ((True, e), None) }
            else if \<not> found then do {
              SetMessage c ''cache token expired'';
              SetGenericErrorCode sms_ErrorCodeTokenExpired [];
              ret ((True, e), None) }
            else do {
              let cacheToken = msg_cache_token obj;
              (if ct_Try cacheToken \<ge> MAX_TRIES a then do {
                 Cache_Unset (sms_cache a) oldCacheKey;
                 SetGenericErrorCode ErrorCodeTooManyTries [];
                 ret ((True, errors_New ''too many tries''), None) }
               else do {
                 h \<leftarrow> gets (hmacOfRequest a userId);
                 (let e = Hmac_CheckStr (sms_crypto a) (ct_Checksum cacheToken) h in
                  if e \<noteq> None then do {
                    SetMessage c ''invalid request checksum'';
                    SetGenericErrorCode ErrorCodeContentMismatch [];
                    ret ((False, e), None) }
                  else sms_check_code a c userId code oldCacheKey cacheToken) }) }) }) }) }"

text \<open>
  \<^verbatim>\<open>int(diff.Seconds())\<close> rounds towards zero; the floating-point number of seconds is exact enough for
  that up to a difference of \<^verbatim>\<open>2^22\<close> seconds.
\<close>

definition whole_seconds :: "int \<Rightarrow> int" where
  "whole_seconds d = (if 0 \<le> d then d div Second else - ((- d) div Second))"

definition sms_wait :: "'z request_scheme sms_handler \<Rightarrow> gval
    \<Rightarrow> ('z request_scheme, (bool \<times> err) \<times> err) comp" where
  "sms_wait a delayItem = do {
     now \<leftarrow> Now;
     let delay = whole_seconds (now - msg_time delayItem ''created_at'');
     let delay = (if delay > SMS_DELAY_SECONDS a then 0 else SMS_DELAY_SECONDS a - delay);
     Request_SetAuthParameter SmsProtocol DelayName (NumToStr delay);
     SetGenericErrorCode ErrorCodeWaitDelay [];
     ret ((True, errors_New ''wait for delay''), errors_New ''wait for delay'') }"

text \<open>The part of \<^verbatim>\<open>Handle\<close> that makes a code and sends it to the phone.\<close>

definition sms_send_code :: "'z request_scheme sms_handler \<Rightarrow> nat \<Rightarrow> string \<Rightarrow> string \<Rightarrow> string
    \<Rightarrow> ('z request_scheme, (bool \<times> err) \<times> err) comp" where
  "sms_send_code a c userId phone message = do {
     Request_SetAuthParameter SmsProtocol PhoneName (MaskPhone phone);
     i \<leftarrow> GenerateID;
     code \<leftarrow> genCode a;
     h \<leftarrow> gets (hmacOfRequest a userId);
     (if TESTING a then modifys (\<lambda>s. s\<lparr>lastSmsCode := code\<rparr>) else ret ());
     let message = (if message = [] then ''code %s'' else message);
     (smsId, e) \<leftarrow> sms_Send a (Sprintf1 message code) phone;
     (if e \<noteq> None then do {
        SetMessage c ''failed to send SMS'';
        fail_with ErrorCodeInternalServerError e }
      else do {
        e \<leftarrow> setToken a c \<lparr>ct_Try = 1, ct_Code = code,
          ct_Checksum = Hmac_SumStr (sms_crypto a) h, ct_SmsId = smsId\<rparr> i;
        (if e \<noteq> None then ret ((True, e), e)
         else do {
           now \<leftarrow> Now;
           e1 \<leftarrow> Cache_Set (sms_cache a) (sms_serializer a) (smsDelayCacheKey userId)
             (sms_delay_msg (Truncate now Microsecond)) [SMS_DELAY_SECONDS a];
           (if e1 \<noteq> None then Log LogError ''failed to save SMS delay item in cache'' e1 [] else ret ());
           Request_SetAuthParameter SmsProtocol DelayName (NumToStr (SMS_DELAY_SECONDS a));
           SetGenericErrorCode ErrorCodeSmsConfirmationRequired [];
           ret ((True, errors_New ''sms code not found''), None) }) }) }"

definition sms_request :: "'z request_scheme sms_handler \<Rightarrow> nat \<Rightarrow> auth_user
    \<Rightarrow> ('z request_scheme, (bool \<times> err) \<times> err) comp" where
  "sms_request a c u = do {
     (found, delayItem, e) \<leftarrow> Cache_Get (sms_cache a) (sms_serializer a) (smsDelayCacheKey (au_id u));
     (if e \<noteq> None then do {
        SetMessage c ''failed to get delay item from cache'';
        fail_with ErrorCodeInternalServerError e }
      else if found then sms_wait a delayItem
      else do {
        (message, e) \<leftarrow> CheckRequestContent a;
        (if e \<noteq> None then do {
           SetMessage c ''failed to check request content'';
           fail_with ErrorCodeFormat e }
         else case au_phone u of
           None \<Rightarrow> do {
             SetMessage c ''user must be of UserWithPhone interface'';
             fail_with ErrorCodeInternalServerError None }
         | Some phone \<Rightarrow>
             if phone = [] then do {
               SetMessage c ''unknown phone number'';
               fail_with ErrorCodeInvalidPhone None }
             else sms_send_code a c (au_id u) phone message) }) }"

definition Sms_Handle :: "'z request_scheme sms_handler \<Rightarrow> ('z request_scheme, bool \<times> err) comp" where
  "Sms_Handle a = traced_err ''AuthSms.Handle'' [] (\<lambda>c. do {
     u \<leftarrow> gets authUser;
     (case u of
        None \<Rightarrow> do {
          SetMessage c ''unknown user'';
          SetGenericErrorCode ErrorCodeUnauthorized [];
          ret ((True, None), None) }
      | Some u \<Rightarrow> do {
          code \<leftarrow> Request_GetAuthParameter SmsProtocol CodeName;
          (if code \<noteq> [] then sms_confirm a c (au_id u) code else sms_request a c u) }) })"

section \<open>Lemmas: the SMS manager\<close>

lemma find_provider_cases:
  "find_provider p ds r = p \<and> (\<forall>d \<in> set ds. \<not> prefix (de_PREFIX d) r) \<or>
   (\<exists>as d bs. ds = as @ d # bs \<and> find_provider p ds r = de_provider d \<and> prefix (de_PREFIX d) r
      \<and> (\<forall>x \<in> set as. \<not> prefix (de_PREFIX x) r))"
proof (induction ds)
  case (Cons x ds)
  show ?case
  proof (cases "prefix (de_PREFIX x) r")
    case True
    then show ?thesis by (intro disjI2 exI [of _ "[]"] exI [of _ x] exI [of _ ds]) simp
  next
    case False
    with Cons.IH show ?thesis by simp (metis append_Cons set_ConsD)
  qed
qed simp

text \<open>The order of the destinations makes the first fitting prefix the longest one.\<close>

lemma find_provider_sorted:
  assumes "sorted (map (\<lambda>d. - int (length (de_PREFIX d))) ds)" "d \<in> set ds" "prefix (de_PREFIX d) r"
  shows "\<exists>x \<in> set ds. find_provider p ds r = de_provider x \<and> prefix (de_PREFIX x) r
     \<and> length (de_PREFIX d) \<le> length (de_PREFIX x)"
  using find_provider_cases [of p ds r]
proof (elim disjE exE conjE)
  fix as x bs
  assume *: "ds = as @ x # bs" "find_provider p ds r = de_provider x" "prefix (de_PREFIX x) r"
    "\<forall>x \<in> set as. \<not> prefix (de_PREFIX x) r"
  with assms(2,3) have "d = x \<or> d \<in> set bs" by auto
  with assms(1) * have "length (de_PREFIX d) \<le> length (de_PREFIX x)"
    by (auto simp: sorted_append)
  with * show ?thesis by auto
qed (use assms in auto)

lemma frame_SmsManager_Send:
  assumes "\<And>m r. state_io_rel frame (pr_Send (find_provider (sm_defaultProvider sm) (sm_destinations sm) recipient) m r)"
  shows "state_io_rel frame (SmsManager_Send sm message recipient)"
  unfolding SmsManager_Send_def send_stored_def Let_def db_Update_def db_write_def with_updated_at_def
  by (intro io_rel assms)

section \<open>Lemmas: the cache\<close>

text \<open>What a read of the cache returns: its two readings of the clock, and the items.\<close>

definition cache_lookup :: "ttlcache \<Rightarrow> serializer \<Rightarrow> string \<Rightarrow> int \<Rightarrow> int \<Rightarrow> cache_store
    \<Rightarrow> bool \<times> gval \<times> err" where
  "cache_lookup tc ser key t t2 st =
     (case tc_Get tc key t st of
        None \<Rightarrow> (False, VNil, None)
      | Some it \<Rightarrow>
          if tc_IsExpired tc it t2 then (False, VNil, None)
          else (case Base64Decode (fst it) of
            Inl e \<Rightarrow> (True, VNil, Some e)
          | Inr b \<Rightarrow> (case ParseMessage ser b of Inl e \<Rightarrow> (True, VNil, Some e) | Inr obj \<Rightarrow> (True, obj, None))))"

lemma cache_store_of_core [simp]: "cache_store_of (core s) = cache_store_of s"
  by (simp add: cache_store_of_def)

lemma cache_store_of_updates [simp]:
  "cache_store_of (s\<lparr>times := a\<rparr>) = cache_store_of s" "cache_store_of (s\<lparr>rands := b\<rparr>) = cache_store_of s"
  "cache_store_of (s\<lparr>idCount := c\<rparr>) = cache_store_of s" "cache_store_of (s\<lparr>genericError := e\<rparr>) = cache_store_of s"
  "cache_store_of (r\<lparr>resp_headers := rh\<rparr>) = cache_store_of r"
  by (simp_all add: cache_store_of_def)

lemma cache_store_of_with_code [simp]: "cache_store_of (with_code code s) = cache_store_of s"
  by (simp add: with_code_def)

lemma set_cache_store_simps [simp]:
  "cache_store_of (set_cache_store st s) = st" "genericError (set_cache_store st s) = genericError s"
  "authUser (set_cache_store st r) = authUser r" "times (set_cache_store st s) = times s"
  "core (set_cache_store st s) = set_cache_store st (core s)"
  by (simp_all add: set_cache_store_def cache_store_of_def)

lemma wpc_Cache_Get [wpc]:
  assumes "\<And>tm. Q (cache_lookup tc ser key (times k 0) (times k 1) (cache_store_of k)) (core (k\<lparr>times := tm\<rparr>))"
  shows "wpc (Cache_Get tc ser key) Q k"
  unfolding Cache_Get_def Inmem_Get_def
  by (intro wpc) (use assms in \<open>auto simp: cache_lookup_def\<close>)

lemma wpc_Cache_Unset [wpc]:
  "Q None (core (set_cache_store (tc_Delete tc key (cache_store_of k)) k)) \<Longrightarrow> wpc (Cache_Unset tc key) Q k"
  unfolding Cache_Unset_def Inmem_Unset_def by (intro wpc) simp_all

lemma wpc_Cache_Set [wpc]:
  assumes "\<And>e. SerializeMessage ser v = Inl e \<Longrightarrow> Q (Some e) (core k)"
    and "\<And>b ttl tm. SerializeMessage ser v = Inr b \<Longrightarrow>
      Q None (core (set_cache_store (tc_Set tc key (Base64Encode b) ttl (times k 0) (cache_store_of k)) (k\<lparr>times := tm\<rparr>)))"
  shows "wpc (Cache_Set tc ser key v secs) Q k"
  unfolding Cache_Set_def Inmem_Set_def
  by (intro wpc) (use assms in simp_all)

section \<open>Lemmas: the handler\<close>

lemma frame_setToken [io_rel]: "state_io_rel frame (setToken a c ct i)"
  unfolding setToken_def by (intro io_rel)

lemma frame_lastSmsCode [io_rel]: "state_io_rel frame (modifys (\<lambda>s. s\<lparr>lastSmsCode := f s\<rparr>))"
  by (rule io_rel_modifys) (simp add: frame_def balanced_def)

lemma frame_genCode [io_rel]: "state_io_rel frame (genCode a)"
  unfolding genCode_def Let_def by (intro io_rel)

lemma frame_Sms_Handle:
  assumes "\<And>m p. state_io_rel frame (sms_Send a m p)" "state_io_rel frame (CheckRequestContent a)"
  shows "state_io_rel frame (Sms_Handle a)"
  unfolding Sms_Handle_def sms_confirm_def sms_check_code_def sms_request_def sms_wait_def
    sms_send_code_def Let_def
  by (intro io_rel assms)

lemma hmacOfRequest_core [simp]: "hmacOfRequest a i (core s) = hmacOfRequest a i s"
  "hmacOfRequest a i (s\<lparr>times := tm\<rparr>) = hmacOfRequest a i s"
  by (simp_all add: hmacOfRequest_def)

text \<open>
  The specification: the pending confirmation that a request names by its token, and whether it may
  still be tried with this request.
\<close>

definition sms_pending :: "'s sms_handler \<Rightarrow> 'z request_scheme \<Rightarrow> (string \<times> sms_cache_token) option" where
  "sms_pending a s =
     (case param_of (sms_encryption a) (header_of s SmsProtocol SmsTokenName) of
        (exists, tok, e) \<Rightarrow>
          if exists \<and> e = None \<and> times s 0 \<le> msg_time tok ''exp'' then
            (case cache_lookup (sms_cache a) (sms_serializer a) (smsTokenCacheKey (msg_str tok ''id''))
                    (times s 1) (times s 2) (cache_store_of s) of
               (found, obj, e) \<Rightarrow>
                 if found \<and> e = None then Some (msg_str tok ''id'', msg_cache_token obj) else None)
          else None)"

definition sms_may_try :: "'s sms_handler \<Rightarrow> string \<Rightarrow> sms_cache_token \<Rightarrow> 'z request_scheme \<Rightarrow> bool" where
  "sms_may_try a userId ct s \<longleftrightarrow> ct_Try ct < MAX_TRIES a \<and>
     Base64Decode (ct_Checksum ct) = Inr (Hmac_Sum (sms_crypto a) (hmacOfRequest a userId s))"

text \<open>The items of the cache after a wrong code: the old token is gone, and the only new one counts the try.\<close>

definition counted :: "'s sms_handler \<Rightarrow> string \<Rightarrow> sms_cache_token \<Rightarrow> cache_store \<Rightarrow> cache_store \<Rightarrow> bool" where
  "counted a i ct st st' \<longleftrightarrow>
     (let gone = tc_Delete (sms_cache a) (smsTokenCacheKey i) st in
      st' = gone \<or>
      (\<exists>j b ttl t. SerializeMessage (sms_serializer a) (cache_token_msg (ct\<lparr>ct_Try := ct_Try ct + 1\<rparr>)) = Inr b
         \<and> st' = tc_Set (sms_cache a) (smsTokenCacheKey j) (Base64Encode b) ttl t gone))"

definition who_cache :: "'z request_scheme \<Rightarrow> _" where
  "who_cache s = (authUser s, cache_store_of s)"

lemma who_cache_core [simp]: "who_cache (core s) = who_cache s"
  by (simp add: who_cache_def)

lemma setToken_spec:
  "wpc (setToken a c ct i) (\<lambda>e k'. authUser k' = authUser k \<and> (e \<noteq> None \<longrightarrow> genericError k' \<noteq> None) \<and>
     (cache_store_of k' = cache_store_of k \<or>
      (\<exists>b ttl t. SerializeMessage (sms_serializer a) (cache_token_msg ct) = Inr b \<and>
         cache_store_of k' = tc_Set (sms_cache a) (smsTokenCacheKey i) (Base64Encode b) ttl t (cache_store_of k)))) k"
  unfolding setToken_def SetTTL_def
  by (intro wpc wpc_keeps [OF keeps_Enc_Set [where f = who_cache]])
     (auto simp: who_cache_def)

lemma sms_check_code_spec:
  "wpc (sms_check_code a c userId code (smsTokenCacheKey i) ct) (\<lambda>((found, e), _) k'.
     authUser k' = authUser k \<and>
     (if code = ct_Code ct then found \<and> e = None \<and> genericError k' = genericError k
        \<and> cache_store_of k' = tc_Delete (sms_cache a) (smsDelayCacheKey userId)
            (tc_Delete (sms_cache a) (smsTokenCacheKey i) (cache_store_of k))
      else genericError k' \<noteq> None \<and> counted a i ct (cache_store_of k) (cache_store_of k'))) k"
  unfolding sms_check_code_def SetTTL_def
  by (intro wpc wpc_mono [OF setToken_spec]) (auto simp: counted_def Let_def)

definition sms_outcome :: "'z request_scheme sms_handler \<Rightarrow> string \<Rightarrow> string \<Rightarrow> 'z request_scheme
    \<Rightarrow> bool \<times> err \<Rightarrow> 'z request_scheme \<Rightarrow> bool" where
  "sms_outcome a userId code s r k \<longleftrightarrow> authUser k = authUser s \<and>
     (case sms_pending a s of
        None \<Rightarrow> genericError k \<noteq> None \<and> cache_store_of k = cache_store_of s
      | Some (i, ct) \<Rightarrow>
          if \<not> sms_may_try a userId ct s then genericError k \<noteq> None
          else if code = ct_Code ct then r = (True, None) \<and> genericError k = genericError s
            \<and> cache_store_of k = tc_Delete (sms_cache a) (smsDelayCacheKey userId)
                (tc_Delete (sms_cache a) (smsTokenCacheKey i) (cache_store_of s))
          else genericError k \<noteq> None \<and> counted a i ct (cache_store_of s) (cache_store_of k))"

lemma sms_confirm_spec:
  "wpc (sms_confirm a c userId code) (\<lambda>(r, _) k. sms_outcome a userId code s r k) s"
  unfolding sms_confirm_def Expired_def Let_def
  by (intro wpc wpc_mono [OF sms_check_code_spec])
     (auto simp: sms_outcome_def sms_pending_def sms_may_try_def header_of_def Hmac_CheckStr_accepts
        numeral_2_eq_2 split: prod.splits if_splits)

lemma sms_send_code_spec:
  assumes "\<And>m p. state_io_rel (keeps authUser) (sms_Send a m p)"
  shows "wpc (sms_send_code a c userId phone message)
    (\<lambda>((found, e), _) k'. found \<and> authUser k' = authUser k \<and> genericError k' \<noteq> None) k"
  unfolding sms_send_code_def genCode_def fail_with_def
  by (intro wpc wpc_keeps [OF assms] wpc_mono [OF setToken_spec]) auto

lemma sms_request_spec:
  assumes "\<And>m p. state_io_rel (keeps authUser) (sms_Send a m p)"
    and "state_io_rel (keeps authUser) (CheckRequestContent a)"
  shows "wpc (sms_request a c u)
    (\<lambda>((found, e), _) k'. found \<and> authUser k' = authUser k \<and> genericError k' \<noteq> None) k"
  unfolding sms_request_def sms_wait_def fail_with_def
  by (intro wpc wpc_keeps [OF assms(2)] wpc_mono [OF sms_send_code_spec [OF assms(1)]]) auto

lemma Sms_Handle_confirm:
  assumes "authUser s = Some u" "header_of s SmsProtocol CodeName \<noteq> []"
  shows "wpc (Sms_Handle a) (sms_outcome a (au_id u) (header_of s SmsProtocol CodeName) s) s"
  unfolding Sms_Handle_def
  by (intro wpc)
     (use assms in \<open>auto simp: header_of_def wpc_core intro: wpc_mono [OF sms_confirm_spec] split: prod.splits\<close>)

lemma smsTokenCacheKey_neq_delay [simp]: "smsTokenCacheKey i \<noteq> smsDelayCacheKey j"
  by (simp add: smsTokenCacheKey_def smsDelayCacheKey_def SmsTokenCacheKey_def SmsDelayCacheKey_def)

section \<open>Properties\<close>

text \<open>
  C2: a request that carries an SMS code is confirmed, i.e. it stays without a generic error, exactly
  when its token opens, is not expired and names a token in the cache with tries left, this is the
  request the code was sent for, and the code is the expected one. The handler then returns no error
  and the code cannot be used again: the cache does not know the token any more.
\<close>

theorem sms_confirmation:
  assumes "ttl_laws (sms_cache a)" "genericError s = None" "authUser s = Some u"
    and "header_of s SmsProtocol CodeName \<noteq> []" "run_state (Sms_Handle a) s = (r, s')"
  shows "(genericError s' = None \<longleftrightarrow> (case sms_pending a s of
       None \<Rightarrow> False
     | Some (i, ct) \<Rightarrow> sms_may_try a (au_id u) ct s \<and> header_of s SmsProtocol CodeName = ct_Code ct))
    \<and> (genericError s' = None \<longrightarrow> r = (True, None) \<and> authUser s' = Some u \<and> (case sms_pending a s of
       None \<Rightarrow> True
     | Some (i, ct) \<Rightarrow> \<forall>t. tc_Get (sms_cache a) (smsTokenCacheKey i) t (cache_store_of s') = None))"
proof -
  have "sms_outcome a (au_id u) (header_of s SmsProtocol CodeName) s r (core s')"
    by (rule wpcE [OF Sms_Handle_confirm [OF assms(3,4)] assms(5)])
  with assms show ?thesis
    by (auto simp: sms_outcome_def ttl_get_other split: option.splits if_splits)
qed

text \<open>
  A wrong code is counted: the token it was tried with leaves the cache, and the only token that can
  be put in its place has one try more. So the confirmations of one message end after \<open>MAX_TRIES\<close>.
\<close>

theorem sms_wrong_code:
  assumes "authUser s = Some u" "sms_pending a s = Some (i, ct)" "sms_may_try a (au_id u) ct s"
    and "header_of s SmsProtocol CodeName \<noteq> []" "header_of s SmsProtocol CodeName \<noteq> ct_Code ct"
    and "run_state (Sms_Handle a) s = (r, s')"
  shows "counted a i ct (cache_store_of s) (cache_store_of s') \<and> genericError s' \<noteq> None"
proof -
  have "sms_outcome a (au_id u) (header_of s SmsProtocol CodeName) s r (core s')"
    by (rule wpcE [OF Sms_Handle_confirm [OF assms(1,4)] assms(6)])
  with assms show ?thesis by (simp add: sms_outcome_def)
qed

text \<open>
  Without a code no request is confirmed: whatever the manager and the endpoint do, as long as they
  do not change the user of the request, the request ends with a generic error and the same user.
\<close>

theorem sms_required:
  assumes "\<And>m p. state_io_rel (keeps authUser) (sms_Send a m p)"
    and "state_io_rel (keeps authUser) (CheckRequestContent a)"
    and "header_of s SmsProtocol CodeName = []" "run_state (Sms_Handle a) s = ((found, e), s')"
  shows "found \<and> authUser s' = authUser s \<and> genericError s' \<noteq> None"
proof -
  have "wpc (Sms_Handle a) (\<lambda>(found, e) k'. found \<and> authUser k' = authUser s \<and> genericError k' \<noteq> None) s"
    unfolding Sms_Handle_def
    by (intro wpc) (use assms(3) in \<open>auto simp: header_of_def wpc_core
        intro: wpc_mono [OF sms_request_spec [OF assms(1,2)]]\<close>)
  from wpcE [OF this assms(4)] show ?thesis by simp
qed

text \<open>
  A code has the configured length and making it does not panic, for every length up to eight; a
  length above ten panics on every draw, although the configuration only asks for four or more.
\<close>

theorem sms_code_length:
  "(0 \<le> CODE_LENGTH a \<and> CODE_LENGTH a \<le> 8 \<longrightarrow>
      (case run_state (genCode a) s of (code, s') \<Rightarrow>
         int (length code) = CODE_LENGTH a \<and> panicked s' = panicked s))
   \<and> (CODE_LENGTH a > 10 \<longrightarrow> panicked (snd (run_state (genCode a) s)))"
proof -
  let ?str = "fmt_int 10 8 (int (rands s 0 mod 2 ^ 32))"
  have "length ?str = max 8 (length (digits 10 (rands s 0 mod 2 ^ 32)))"
    by (simp add: fmt_int_def fmt_nat_def length_pad_zero)
  moreover have "length (digits 10 (rands s 0 mod 2 ^ 32)) \<le> 10"
    by (rule digits_length_le) (simp_all add: less_trans [OF mod_less_divisor])
  ultimately have "8 \<le> length ?str" "length ?str \<le> 10" by simp_all
  then show ?thesis by (auto simp: genCode_def go_panic_def Let_def)
qed

text \<open>
  A message goes out through the provider of the longest configured prefix of the recipient's number,
  whatever the order of the destinations in the configuration.
\<close>

theorem sms_longest_prefix:
  assumes "init_destinations providers cfg = Inr ds" "d \<in> set ds" "prefix (de_PREFIX d) recipient"
  shows "\<exists>x \<in> set ds. find_provider p ds recipient = de_provider x \<and> prefix (de_PREFIX x) recipient
     \<and> length (de_PREFIX d) \<le> length (de_PREFIX x)"
proof (rule find_provider_sorted [OF _ assms(2,3)])
  show "sorted (map (\<lambda>d. - int (length (de_PREFIX d))) ds)"
    using assms(1) by (auto simp: init_destinations_def split: sum.splits)
qed

section \<open>Instances\<close>

definition demo_phone_user :: auth_user where
  "demo_phone_user = to_auth_user (demo_user\<lparr>u_PHONE := ''1234567''\<rparr>)"

definition demo_cache_token :: "'s sms_handler \<Rightarrow> sms_cache_token" where
  "demo_cache_token a = \<lparr>ct_Try = 1, ct_Code = ''12345'',
     ct_Checksum = Hmac_SumStr plain_crypto (hmacOfRequest a ''u1'' demo_request), ct_SmsId = ''m1''\<rparr>"

definition bare_sms_handler :: "unit request_scheme sms_handler" where
  "bare_sms_handler = \<lparr>sms_TOKEN_TTL_SECONDS = 300, SMS_DELAY_SECONDS = 30, sms_SECRET = ''k'', MAX_TRIES = 3,
     CODE_LENGTH = 5, TESTING = False, sms_encryption = demo_token_enc, sms_cache = ttl_table,
     sms_serializer = raw_ser, sms_crypto = plain_crypto,
     sms_Send = (\<lambda>m p. ret (''m1'', None)), CheckRequestContent = ret ([], None)\<rparr>"

definition demo_sms_handler :: "unit request_scheme sms_handler" where
  "demo_sms_handler = bare_sms_handler\<lparr>sms_serializer := \<lparr>SerializeMessage = (\<lambda>v. Inr ''token''),
     ParseMessage = (\<lambda>b. Inr (cache_token_msg (demo_cache_token bare_sms_handler)))\<rparr>\<rparr>"

definition demo_sms_request :: "string \<Rightarrow> request" where
  "demo_sms_request code = demo_request\<lparr>authUser := Some demo_phone_user,
     req_headers := [(''x-auth-sms-code'', code), (''x-auth-sms-token'', ''dG9rZW4='')],
     cached := (\<lambda>c. [''sms-token/t1'' \<mapsto> (''dG9rZW4='', None)])\<rparr>"

lemma demo_sms_handler_simps [simp]:
  "sms_cache demo_sms_handler = ttl_table" "sms_encryption demo_sms_handler = demo_token_enc"
  "sms_crypto demo_sms_handler = plain_crypto" "MAX_TRIES demo_sms_handler = 3"
  "CODE_LENGTH demo_sms_handler = 5" "sms_SECRET demo_sms_handler = sms_SECRET bare_sms_handler"
  "sms_Send demo_sms_handler m p = ret (''m1'', None)" "CheckRequestContent demo_sms_handler = ret ([], None)"
  by (simp_all add: demo_sms_handler_def bare_sms_handler_def)

lemma demo_sms_request_simps [simp]:
  "authUser (demo_sms_request code) = Some demo_phone_user" "genericError (demo_sms_request code) = None"
  "times (demo_sms_request code) i = int i"
  by (simp_all add: demo_sms_request_def demo_request_def demo_ctx_def op_ctx.defs request.defs)

lemma demo_sms_headers:
  "header_of (demo_sms_request code) SmsProtocol CodeName = code"
  "header_of (demo_sms_request code) SmsProtocol SmsTokenName = ''dG9rZW4=''"
proof -
  have "auth_header SmsProtocol CodeName = ''x-auth-sms-code''"
    "auth_header SmsProtocol SmsTokenName = ''x-auth-sms-token''" by code_simp+
  then show "header_of (demo_sms_request code) SmsProtocol CodeName = code"
    "header_of (demo_sms_request code) SmsProtocol SmsTokenName = ''dG9rZW4=''"
    by (simp_all add: header_of_def getHttpHeader_def demo_sms_request_def)
qed

lemma demo_sms_pending:
  "sms_pending demo_sms_handler (demo_sms_request code) = Some (''t1'', demo_cache_token bare_sms_handler)"
proof -
  have "Base64Decode ''dG9rZW4='' = Inr ''token''" by code_simp
  moreover have "cache_store_of (demo_sms_request code) = [''sms-token/t1'' \<mapsto> (''dG9rZW4='', None)]"
    by (simp add: cache_store_of_def demo_sms_request_def)
  moreover have "msg_cache_token (cache_token_msg ct) = ct" for ct
    by (simp add: msg_cache_token_def cache_token_msg_def msg_int_def msg_str_def msg_fields_def)
  ultimately show ?thesis
    by (simp add: sms_pending_def demo_sms_headers demo_open_param token_msg_def demo_token_def msg_time_def
        msg_str_def msg_fields_def cache_lookup_def smsTokenCacheKey_def SmsTokenCacheKey_def
        ttl_table_def demo_sms_handler_def bare_sms_handler_def)
qed

lemma demo_cache_token_code: "ct_Code (demo_cache_token a) = ''12345''"
  by (simp add: demo_cache_token_def)

lemma demo_sms_may_try:
  "sms_may_try demo_sms_handler (au_id demo_phone_user) (demo_cache_token bare_sms_handler) (demo_sms_request code)"
proof -
  have "au_id demo_phone_user = ''u1''"
    by (simp add: demo_phone_user_def to_auth_user_def demo_user_def)
  then show ?thesis
    by (simp add: sms_may_try_def demo_cache_token_def Hmac_SumStr_def b64.decode_encode hmacOfRequest_def
        demo_sms_request_def)
qed

theorem sms_confirmation_witness:
  "case run_state (Sms_Handle demo_sms_handler) (demo_sms_request ''12345'') of
     (r, s') \<Rightarrow> r = (True, None) \<and> genericError s' = None"
proof -
  obtain r s' where run: "run_state (Sms_Handle demo_sms_handler) (demo_sms_request ''12345'') = (r, s')"
    by fastforce
  have "ttl_laws (sms_cache demo_sms_handler)" by (simp add: ttl_table_laws)
  from sms_confirmation [OF this _ _ _ run] show ?thesis
    by (simp add: run demo_sms_headers demo_sms_pending demo_sms_may_try demo_cache_token_code)
qed

theorem sms_wrong_code_witness:
  "case run_state (Sms_Handle demo_sms_handler) (demo_sms_request ''00000'') of
     (r, s') \<Rightarrow> genericError s' \<noteq> None"
proof -
  obtain r s' where run: "run_state (Sms_Handle demo_sms_handler) (demo_sms_request ''00000'') = (r, s')"
    by fastforce
  from sms_wrong_code [OF _ demo_sms_pending demo_sms_may_try _ _ run] show ?thesis
    by (simp add: run demo_sms_headers demo_cache_token_code)
qed

theorem sms_required_witness:
  "case run_state (Sms_Handle demo_sms_handler) (demo_sms_request []) of
     ((found, e), s') \<Rightarrow> found \<and> genericError s' \<noteq> None"
proof -
  obtain found e s' where run: "run_state (Sms_Handle demo_sms_handler) (demo_sms_request []) = ((found, e), s')"
    by (metis prod.collapse)
  have "state_io_rel (keeps authUser) (sms_Send demo_sms_handler m p)"
    "state_io_rel (keeps authUser) (CheckRequestContent demo_sms_handler)" for m p
    by (simp_all add: io_rel)
  from sms_required [OF this _ run] show ?thesis by (simp add: run demo_sms_headers)
qed

theorem sms_code_length_witness:
  "int (length (fst (run_state (genCode demo_sms_handler) demo_ctx))) = 5"
  using sms_code_length [of demo_sms_handler demo_ctx] by (auto split: prod.splits)

theorem sms_longest_prefix_witness:
  "let p = (\<lambda>n. \<lparr>pr_Name = n, pr_Send = (\<lambda>m r. ret (None, None))\<rparr> :: unit request_scheme sms_provider);
       ds = [\<lparr>de_PREFIX = ''44'', de_provider = p ''b''\<rparr>, \<lparr>de_PREFIX = ''4'', de_provider = p ''a''\<rparr>] in
   find_provider (p ''d'') ds ''447'' = p ''b''"
proof -
  let ?p = "\<lambda>n. \<lparr>pr_Name = n, pr_Send = (\<lambda>m r. ret (None, None))\<rparr> :: unit request_scheme sms_provider"
  let ?ds = "[\<lparr>de_PREFIX = ''44'', de_provider = ?p ''b''\<rparr>, \<lparr>de_PREFIX = ''4'', de_provider = ?p ''a''\<rparr>]"
  have "init_destinations [(''a'', ?p ''a''), (''b'', ?p ''b'')] [(''4'', ''a''), (''44'', ''b'')] = Inr ?ds"
    by (simp add: init_destinations_def sort_key_def)
  from sms_longest_prefix [OF this, of "\<lparr>de_PREFIX = ''44'', de_provider = ?p ''b''\<rparr>" "''447''" "?p ''d''"]
  show ?thesis by simp
qed

end
