(* ===== verification/Access_Control.thy ===== *)
theory Access_Control
  imports Op_Context
begin

text \<open>
  Access masks and the access controller of \<^verbatim>\<open>src/pkg/access_control\<close>. A mask is a 32-bit word; what
  clients rely on is the locale \<open>access_ops\<close>, which reads a mask as a set of permissions and is
  interpreted on the bitwise operations. The nested loops of \<^verbatim>\<open>CheckAccess\<close> are shown to be one
  search through the list \<open>rule_queries\<close>, which is the documented order of precedence.
\<close>

unbundle bit_operations_syntax

section \<open>Masks\<close>

type_synonym AccessType = "32 word"

definition acc_Read :: AccessType where "acc_Read = 0x1"
definition acc_Create :: AccessType where "acc_Create = 0x2"
definition acc_UpdateReplace :: AccessType where "acc_UpdateReplace = 0x4"
definition acc_UpdatePartial :: AccessType where "acc_UpdatePartial = 0x8"
definition acc_Update :: AccessType where "acc_Update = acc_UpdateReplace OR acc_UpdatePartial"
definition acc_Delete :: AccessType where "acc_Delete = 0x10"
definition acc_Post :: AccessType where "acc_Post = acc_Create"
definition acc_Get :: AccessType where "acc_Get = acc_Read"
definition acc_Put :: AccessType where "acc_Put = acc_UpdateReplace"
definition acc_Patch :: AccessType where "acc_Patch = acc_UpdatePartial"
definition acc_All :: AccessType where "acc_All = 0xFFFFFFFF"

lemmas acc_defs = acc_Read_def acc_Create_def acc_UpdateReplace_def acc_UpdatePartial_def
  acc_Update_def acc_Delete_def acc_Post_def acc_Get_def acc_Put_def acc_Patch_def acc_All_def

record AccessBase =
  mask :: "32 word"

definition NewAccess :: "32 word \<Rightarrow> AccessBase" where
  "NewAccess m = \<lparr>mask = m\<rparr>"

definition Grant :: "AccessType \<Rightarrow> AccessBase \<Rightarrow> AccessBase" where
  "Grant accessType a = a\<lparr>mask := mask a OR accessType\<rparr>"

definition Revoke :: "AccessType \<Rightarrow> AccessBase \<Rightarrow> AccessBase" where
  "Revoke accessType a = a\<lparr>mask := mask a AND NOT accessType\<rparr>"

definition CheckMask :: "AccessType \<Rightarrow> AccessType \<Rightarrow> bool" where
  "CheckMask accessMask accessType \<longleftrightarrow> accessMask AND accessType \<noteq> 0"

definition Check :: "AccessBase \<Rightarrow> AccessType \<Rightarrow> bool" where
  "Check a accessType \<longleftrightarrow> mask a AND accessType \<noteq> 0"

definition httpMethods2AccessTypes :: "(string \<times> AccessType) list" where
  "httpMethods2AccessTypes =
     [(''GET'', acc_Read), (''POST'', acc_Create), (''PUT'', acc_UpdateReplace),
      (''PATCH'', acc_UpdatePartial), (''DELETE'', acc_Delete)]"

definition HttpMethod2Access :: "string \<Rightarrow> AccessType" where
  "HttpMethod2Access meth =
     (case map_get httpMethods2AccessTypes meth of None \<Rightarrow> 0 | Some at \<Rightarrow> at)"

definition Access2HttpMethod :: "AccessType \<Rightarrow> string" where
  "Access2HttpMethod access = (let a = NewAccess access in
     if Check a acc_Read then ''GET''
     else if Check a acc_Create then ''POST''
     else if Check a acc_UpdateReplace then ''PUT''
     else if Check a acc_UpdatePartial then ''PATCH''
     else if Check a acc_Delete then ''DELETE''
     else [])"

definition HttpContentInQuery :: "AccessType \<Rightarrow> bool" where
  "HttpContentInQuery accessType = (let a = NewAccess accessType in
     Check a acc_Get \<or> Check a acc_Delete)"

section \<open>The controller\<close>

text \<open>
  The interfaces \<^verbatim>\<open>Acl\<close> and \<^verbatim>\<open>ResourceManager\<close> have no implementation in the repository: they are
  parameters, computations over the operation context.
\<close>

record 's AccessControlBase =
  FindRule :: "string \<Rightarrow> string \<Rightarrow> string \<Rightarrow> ('s, AccessBase option \<times> err) comp"
  ResourceTags :: "string \<Rightarrow> ('s, string list \<times> err) comp"
  defaultAccess :: AccessBase

definition NewAccessControl ::
    "(string \<Rightarrow> string \<Rightarrow> string \<Rightarrow> ('s, AccessBase option \<times> err) comp)
     \<Rightarrow> (string \<Rightarrow> ('s, string list \<times> err) comp) \<Rightarrow> AccessBase list \<Rightarrow> 's AccessControlBase" where
  "NewAccessControl findRule tagsOf deflt =
     \<lparr>FindRule = findRule, ResourceTags = tagsOf, defaultAccess = OptionalArg (NewAccess 0) deflt\<rparr>"

text \<open>What \<^verbatim>\<open>CheckAccess\<close> reads of the resource: its paths, its owner test and the owner's access.\<close>

record ac_resource =
  Paths :: "string list"
  IsOwner :: "string list \<Rightarrow> bool"
  OwnerAccess :: AccessBase

text \<open>
  The first loop, from the most specific path down: \<open>collect_tags ac paths n tags\<close> has the indices
  below \<open>n\<close> still to do; the tags are a map from the index of the path, 0 to \<open>len(paths)-1\<close>.
\<close>

fun collect_tags :: "'s AccessControlBase \<Rightarrow> string list \<Rightarrow> nat \<Rightarrow> (nat \<times> string list) list
    \<Rightarrow> ('s, (nat \<times> string list) list \<times> err) comp" where
  "collect_tags ac paths 0 tags = ret (tags, None)"
| "collect_tags ac paths (Suc i) tags = do {
     (ts, e) \<leftarrow> ResourceTags ac (paths ! i);
     (if e \<noteq> None then ret (tags, e)
      else collect_tags ac paths i (map_set tags i ts)) }"

text \<open>
  The four nested loops. Each returns what it found: an error, a rule's verdict, or nothing.
\<close>

datatype verdict = Failed goerror | Found bool | NotFound

fun loop_roles :: "'s AccessControlBase \<Rightarrow> AccessType \<Rightarrow> string \<Rightarrow> string \<Rightarrow> string list
    \<Rightarrow> ('s, verdict) comp" where
  "loop_roles ac at path tag [] = ret NotFound"
| "loop_roles ac at path tag (role # roles) = do {
     (rule, e) \<leftarrow> FindRule ac path tag role;
     (case e of
        Some x \<Rightarrow> ret (Failed x)
      | None \<Rightarrow> (case rule of
          Some r \<Rightarrow> ret (Found (Check r at))
        | None \<Rightarrow> loop_roles ac at path tag roles)) }"

fun loop_tags :: "'s AccessControlBase \<Rightarrow> AccessType \<Rightarrow> string \<Rightarrow> string list \<Rightarrow> string list
    \<Rightarrow> ('s, verdict) comp" where
  "loop_tags ac at path roles [] = ret NotFound"
| "loop_tags ac at path roles (tag # tags) = do {
     v \<leftarrow> loop_roles ac at path tag roles;
     (if v \<noteq> NotFound then ret v else loop_tags ac at path roles tags) }"

text \<open>A missing key of the map reads as the nil slice.\<close>

definition tags_at :: "(nat \<times> string list) list \<Rightarrow> nat \<Rightarrow> string list" where
  "tags_at tags j = (case map_get tags j of None \<Rightarrow> [] | Some ts \<Rightarrow> ts)"

fun loop_j :: "'s AccessControlBase \<Rightarrow> AccessType \<Rightarrow> string \<Rightarrow> string list
    \<Rightarrow> (nat \<times> string list) list \<Rightarrow> nat \<Rightarrow> ('s, verdict) comp" where
  "loop_j ac at path roles tags 0 = ret NotFound"
| "loop_j ac at path roles tags (Suc j) = do {
     v \<leftarrow> loop_tags ac at path roles (tags_at tags j @ [[]]);
     (if v \<noteq> NotFound then ret v else loop_j ac at path roles tags j) }"

fun loop_i :: "'s AccessControlBase \<Rightarrow> AccessType \<Rightarrow> string list \<Rightarrow> string list
    \<Rightarrow> (nat \<times> string list) list \<Rightarrow> nat \<Rightarrow> ('s, verdict) comp" where
  "loop_i ac at paths roles tags 0 = ret NotFound"
| "loop_i ac at paths roles tags (Suc i) = do {
     v \<leftarrow> loop_j ac at (paths ! i) roles tags (Suc i);
     (if v \<noteq> NotFound then ret v else loop_i ac at paths roles tags i) }"

definition CheckAccess :: "'z op_ctx_scheme AccessControlBase \<Rightarrow> ac_resource \<Rightarrow> string list
    \<Rightarrow> AccessType \<Rightarrow> ('z op_ctx_scheme, bool \<times> err) comp" where
  "CheckAccess ac resource roles at = traced ''AccessControl.CheckAccess'' [] (\<lambda>c.
     if IsOwner resource roles \<and> Check (OwnerAccess resource) at then ret (True, None)
     else do {
       let paths = Paths resource;
       (tags, e) \<leftarrow> collect_tags ac paths (length paths) [];
       (if e \<noteq> None then ret (False, e)
        else do {
          v \<leftarrow> loop_i ac at paths roles tags (length paths);
          (case v of
             Failed x \<Rightarrow> ret (False, Some x)
           | Found allow \<Rightarrow> ret (allow, None)
           | NotFound \<Rightarrow> ret (Check (defaultAccess ac) at, None)) }) })"

definition SetDefaultAccess :: "AccessBase \<Rightarrow> 's AccessControlBase \<Rightarrow> 's AccessControlBase" where
  "SetDefaultAccess access ac = ac\<lparr>defaultAccess := access\<rparr>"

section \<open>Masks as sets of permissions\<close>

text \<open>
  The contract of the interface \<^verbatim>\<open>Access\<close>: an access holds a set of permissions, which granting adds
  to and revoking removes from; a check asks for at least one of the permissions it names.
\<close>

locale access_ops =
  fixes grant revoke :: "'t \<Rightarrow> 'a \<Rightarrow> 'a"
    and check :: "'a \<Rightarrow> 't \<Rightarrow> bool"
    and held :: "'a \<Rightarrow> 'p set"
    and perms :: "'t \<Rightarrow> 'p set"
  assumes held_grant: "held (grant t a) = held a \<union> perms t"
    and held_revoke: "held (revoke t a) = held a - perms t"
    and check_held: "check a t \<longleftrightarrow> held a \<inter> perms t \<noteq> {}"
begin

lemma check_after_grant: "check (grant t a) t' \<longleftrightarrow> check a t' \<or> perms t \<inter> perms t' \<noteq> {}"
  by (auto simp: check_held held_grant)

lemma check_after_revoke: "perms t' \<subseteq> perms t \<Longrightarrow> \<not> check (revoke t a) t'"
  by (auto simp: check_held held_revoke)

lemma revoke_keeps_others: "perms t \<inter> perms t' = {} \<Longrightarrow> check (revoke t a) t' \<longleftrightarrow> check a t'"
  by (auto simp: check_held held_revoke)

text \<open>
  A history of grants (True) and revocations (False), the latest last. A single permission is held
  at the end exactly if the last entry that names it granted it, or if none does and it was held.
\<close>

definition replay :: "(bool \<times> 't) list \<Rightarrow> 'a \<Rightarrow> 'a" where
  "replay hist a = fold (\<lambda>(g, t). if g then grant t else revoke t) hist a"

lemma held_replay:
  "p \<in> held (replay hist a) \<longleftrightarrow>
     (case filter (\<lambda>(g, t). p \<in> perms t) (rev hist) of [] \<Rightarrow> p \<in> held a | (g, t) # _ \<Rightarrow> g)"
proof (induction hist rule: rev_induct)
  case Nil
  then show ?case by (simp add: replay_def)
next
  case (snoc x xs)
  obtain g t where x: "x = (g, t)" by fastforce
  show ?case
  proof (cases "p \<in> perms t")
    case True
    then show ?thesis by (auto simp: x replay_def held_grant held_revoke)
  next
    case False
    then show ?thesis using snoc by (simp add: x replay_def held_grant held_revoke)
  qed
qed

end

definition bits_of :: "32 word \<Rightarrow> nat set" where
  "bits_of w = {n. bit w n}"

lemma and_nonzero_iff: "(a AND b \<noteq> (0::32 word)) \<longleftrightarrow> bits_of a \<inter> bits_of b \<noteq> {}"
proof -
  have "bit a n \<Longrightarrow> n < 32" for n using bit_imp_le_length [of a n] by simp
  then show ?thesis by (auto simp: bits_of_def bit_eq_iff bit_and_iff)
qed

interpretation acc: access_ops Grant Revoke Check "\<lambda>a. bits_of (mask a)" bits_of
proof unfold_locales
  fix t a
  show "bits_of (mask (Grant t a)) = bits_of (mask a) \<union> bits_of t"
    by (auto simp: Grant_def bits_of_def bit_or_iff)
  show "bits_of (mask (Revoke t a)) = bits_of (mask a) - bits_of t"
    by (auto simp: Revoke_def bits_of_def bit_and_iff bit_not_iff dest: bit_imp_le_length)
  show "Check a t \<longleftrightarrow> bits_of (mask a) \<inter> bits_of t \<noteq> {}"
    by (simp add: Check_def and_nonzero_iff)
qed

section \<open>The order of precedence\<close>

text \<open>
  The queries that \<^verbatim>\<open>CheckAccess\<close> makes, in order: paths from the most specific to the root; for each,
  tags of the path itself, then of its ancestors, the empty tag after the tags of each; for each
  tag, the subject's roles.
\<close>

definition tag_queries :: "string \<Rightarrow> string list \<Rightarrow> string list \<Rightarrow> (string \<times> string \<times> string) list" where
  "tag_queries path roles tags = concat (map (\<lambda>tag. map (\<lambda>role. (path, tag, role)) roles) tags)"

definition path_queries :: "string \<Rightarrow> string list \<Rightarrow> (nat \<Rightarrow> string list) \<Rightarrow> nat
    \<Rightarrow> (string \<times> string \<times> string) list" where
  "path_queries path roles tagsAt n =
     concat (map (\<lambda>j. tag_queries path roles (tagsAt j @ [[]])) (rev [0..<n]))"

definition rule_queries :: "string list \<Rightarrow> string list \<Rightarrow> (nat \<Rightarrow> string list)
    \<Rightarrow> (string \<times> string \<times> string) list" where
  "rule_queries paths roles tagsAt =
     concat (map (\<lambda>i. path_queries (paths ! i) roles tagsAt (Suc i)) (rev [0..<length paths]))"

fun first_rule :: "'s AccessControlBase \<Rightarrow> AccessType \<Rightarrow> (string \<times> string \<times> string) list
    \<Rightarrow> ('s, verdict) comp" where
  "first_rule ac at [] = ret NotFound"
| "first_rule ac at ((path, tag, role) # qs) = do {
     (rule, e) \<leftarrow> FindRule ac path tag role;
     (case e of
        Some x \<Rightarrow> ret (Failed x)
      | None \<Rightarrow> (case rule of
          Some r \<Rightarrow> ret (Found (Check r at))
        | None \<Rightarrow> first_rule ac at qs)) }"

lemma if_NotFound_ret: "(if v \<noteq> NotFound then ret v else ret NotFound) = ret v"
  by simp

lemma loop_roles_first: "loop_roles ac at path tag roles
    = first_rule ac at (map (\<lambda>role. (path, tag, role)) roles)"
  by (induction roles) (simp_all cong: option.case_cong)

lemma bind_verdict_assoc:
  fixes m :: "('s, 'a \<times> 'b) comp" and k :: "'a \<Rightarrow> 'b \<Rightarrow> ('s, 'c) comp" and f :: "'c \<Rightarrow> ('s, 'd) comp"
  shows "do { v \<leftarrow> do { (rule, e) \<leftarrow> m; k rule e }; f v } = do { (rule, e) \<leftarrow> m; v \<leftarrow> k rule e; f v }"
  by (rule state_ext) (simp add: State_Monad.bind_def split: prod.splits)

lemma first_rule_append:
  "first_rule ac at (xs @ ys) =
     do { v \<leftarrow> first_rule ac at xs; (if v \<noteq> NotFound then ret v else first_rule ac at ys) }"
proof (induction xs)
  case Nil
  then show ?case by simp
next
  case (Cons x xs)
  obtain p t r where x: "x = (p, t, r)" by (cases x) auto
  show ?case unfolding x
    by (simp add: bind_verdict_assoc)
       (rule arg_cong [where f = "State_Monad.bind _"], rule ext, auto simp: Cons split: option.splits)
qed

lemma loop_tags_first: "loop_tags ac at path roles tags
    = first_rule ac at (tag_queries path roles tags)"
  by (induction tags)
     (simp_all add: first_rule_append loop_roles_first tag_queries_def cong: if_cong)

lemma loop_j_first: "loop_j ac at path roles tags n
    = first_rule ac at (path_queries path roles (tags_at tags) n)"
  by (induction n)
     (simp_all add: first_rule_append loop_tags_first path_queries_def cong: if_cong)

lemma loop_i_first: "loop_i ac at paths roles tags n
    = first_rule ac at (concat (map (\<lambda>i. path_queries (paths ! i) roles (tags_at tags) (Suc i))
        (rev [0..<n])))"
  by (induction n) (simp_all add: first_rule_append loop_j_first del: loop_j.simps cong: if_cong)

lemma loop_i_queries: "loop_i ac at paths roles tags (length paths)
    = first_rule ac at (rule_queries paths roles (tags_at tags))"
  by (simp add: loop_i_first rule_queries_def)

section \<open>Lemmas on the controller\<close>

lemma bits_of_single: "n < 32 \<Longrightarrow> bits_of (2 ^ n) = {n}"
  by (auto simp: bits_of_def bit_exp_iff)

lemma Check_single: "Check a (2 ^ n) \<longleftrightarrow> bit (mask a) n"
proof (cases "n < 32")
  case True
  then show ?thesis by (simp add: acc.check_held bits_of_single) (simp add: bits_of_def)
next
  case False
  then have "(2 :: 32 word) ^ n = 0" by (simp add: exp_eq_zero_iff)
  moreover from False have "\<not> bit (mask a) n" using bit_imp_le_length [of "mask a" n] by auto
  ultimately show ?thesis by (simp only: Check_def) simp
qed

lemma fst_traced: "fst (run_state (traced name fs body) s)
    = fst (run_state (body (length (calls s))) (snd (run_state (TraceInMethod name fs) s)))"
  using TraceIn_run [of name fs s] by (auto simp: traced_def split: prod.splits)

lemma collect_tags_pure:
  assumes "\<forall>p. ResourceTags ac p = ret (tg p, None)"
  shows "\<exists>tags'. collect_tags ac paths n tags = ret (tags', None)
     \<and> (\<forall>j. tags_at tags' j = (if j < n then tg (paths ! j) else tags_at tags j))"
proof (induction n arbitrary: tags)
  case 0
  then show ?case by auto
next
  case (Suc n)
  from Suc [of "map_set tags n (tg (paths ! n))"] obtain tags' where
    "collect_tags ac paths n (map_set tags n (tg (paths ! n))) = ret (tags', None)"
    "\<forall>j. tags_at tags' j = (if j < n then tg (paths ! j)
        else tags_at (map_set tags n (tg (paths ! n))) j)" by blast
  with assms show ?case by (intro exI [of _ tags']) (auto simp: tags_at_def less_Suc_eq)
qed

lemma first_rule_pure:
  assumes "\<forall>p t r. FindRule ac p t r = ret (rl p t r, None)"
  shows "first_rule ac at qs = ret
     (case find (\<lambda>(p, t, r). rl p t r \<noteq> None) qs of
        None \<Rightarrow> NotFound | Some (p, t, r) \<Rightarrow> Found (Check (the (rl p t r)) at))"
  using assms by (induction qs) (auto split: option.splits)

lemma path_queries_cong:
  "\<forall>j < n. tagsAt j = tagsAt' j \<Longrightarrow> path_queries p roles tagsAt n = path_queries p roles tagsAt' n"
  unfolding path_queries_def by (intro arg_cong [where f = concat] map_cong) auto

lemma rule_queries_cong:
  assumes "\<forall>j < length paths. tagsAt j = tagsAt' j"
  shows "rule_queries paths roles tagsAt = rule_queries paths roles tagsAt'"
  unfolding rule_queries_def using assms
  by (intro arg_cong [where f = concat] map_cong path_queries_cong) auto

section \<open>Properties\<close>

text \<open>
  After any history of grants and revocations a single permission is allowed exactly if the last
  entry of the history whose mask contains it granted it, or, when no entry contains it, if it was
  allowed before.
\<close>

theorem access_history:
  "Check (fold (\<lambda>(g, t). if g then Grant t else Revoke t) hist a) (2 ^ n) \<longleftrightarrow>
     (case filter (\<lambda>(g, t). bit t n) (rev hist) of [] \<Rightarrow> bit (mask a) n | (g, t) # _ \<Rightarrow> g)"
  using acc.held_replay [of n hist a] by (simp add: Check_single acc.replay_def bits_of_def cong: list.case_cong)


definition demo_acl :: "unit op_ctx_scheme AccessControlBase" where
  "demo_acl = NewAccessControl
     (\<lambda>p t r. ret (if p = ''/a'' \<and> r = ''editor'' then Some (NewAccess acc_Update) else None, None))
     (\<lambda>p. ret ([], None)) []"

definition demo_resource :: ac_resource where
  "demo_resource = \<lparr>Paths = [''/a'', ''/a/b''], IsOwner = (\<lambda>_. False), OwnerAccess = NewAccess 0\<rparr>"


text \<open>
  The controller fails closed: whatever the rule list and the resource manager do, an access check
  that returns an error does not allow the access.
\<close>

theorem CheckAccess_fails_closed:
  "case fst (run_state (CheckAccess ac res roles at) s) of (allow, e) \<Rightarrow> e = None \<or> allow = False"
  by (simp add: CheckAccess_def fst_traced Let_def split: prod.splits verdict.splits)

text \<open>
  The HTTP method of an access type leads back to it: each of the five methods maps to a single
  permission whose method it is, every other method maps to no access at all, and the parameters
  of a request are in the query exactly for GET and DELETE.
\<close>

theorem HttpMethod_roundtrip:
  "Access2HttpMethod (HttpMethod2Access meth)
     = (if meth \<in> {''GET'', ''POST'', ''PUT'', ''PATCH'', ''DELETE''} then meth else [])
   \<and> (HttpContentInQuery (HttpMethod2Access meth) \<longleftrightarrow> meth = ''GET'' \<or> meth = ''DELETE'')
   \<and> (HttpMethod2Access meth = 0 \<longleftrightarrow> meth \<notin> {''GET'', ''POST'', ''PUT'', ''PATCH'', ''DELETE''})"
  by (auto simp: HttpMethod2Access_def httpMethods2AccessTypes_def Access2HttpMethod_def
      HttpContentInQuery_def NewAccess_def Check_def acc_defs Let_def)

end
