(* ===== verification/Auth_Schema.thy ===== *)
theory Auth_Schema
  imports Auth_Sms Access_Control
begin

text \<open>
  The authorisation manager (\<^verbatim>\<open>src/pkg/auth/auth_manager.go\<close>, \<^verbatim>\<open>auth_schema.go\<close>, \<^verbatim>\<open>auth_handler.go\<close>,
  \<^verbatim>\<open>endpoint_config.go\<close>, \<^verbatim>\<open>auth.go\<close>) and the factory of its methods (\<^verbatim>\<open>auth_methods/auth_factory\<close>). A
  handler is a value of the interface \<^verbatim>\<open>AuthHandler\<close>; a schema is a handler that runs others and
  aggregates their results; the manager finds the schema of an endpoint and runs it.
\<close>

section \<open>Handlers\<close>

text \<open>
  A handler's name and protocol, whether it is real, what \<^verbatim>\<open>Handle\<close> does, its error codes, the handlers
  it consists of, and whether its \<^verbatim>\<open>SetAuthManager\<close> registers it as a schema.
\<close>

datatype 's auth_handler = AuthHandler
  (ah_name: string)
  (ah_protocol: string)
  (ah_IsReal: bool)
  (ah_Handle: "('s, bool \<times> err) comp")
  (ah_ErrorDescriptions: "(string \<times> string) list")
  (ah_ErrorProtocolCodes: "(string \<times> int) list")
  (ah_Handlers: "'s auth_handler list")
  (ah_registers: bool)

section \<open>Stores of handlers\<close>

type_synonym 's handler_store = "(string \<times> 's auth_handler) list"

definition NewHandlerStore :: "'s handler_store" where
  "NewHandlerStore = []"

definition store_Handler :: "'s handler_store \<Rightarrow> string \<Rightarrow> goerror + 's auth_handler" where
  "store_Handler h name =
     (case map_get h name of
        None \<Rightarrow> Inl (NativeError ''unknown authorization handler'')
      | Some handler \<Rightarrow> Inr handler)"

definition HandlerNames :: "'s handler_store \<Rightarrow> string list" where
  "HandlerNames h = AllMapKeys h"

definition AddHandler :: "'s auth_handler \<Rightarrow> 's handler_store \<Rightarrow> 's handler_store" where
  "AddHandler handler h =
     (if map_get h (ah_name handler) = None then map_set h (ah_name handler) handler else h)"

section \<open>Schemas\<close>

definition AggregationProtocol :: string where "AggregationProtocol = ''aggregation''"
definition agg_And :: string where "agg_And = ''and''"
definition agg_Or :: string where "agg_Or = ''or''"

record schema_config =
  sc_NAME :: string
  sc_AGGREGATION :: string

text \<open>The configuration is a pointer, nil until \<^verbatim>\<open>Construct\<close> sets it.\<close>

record 's auth_schema =
  sc_name :: string
  sc_config :: "schema_config option"
  sc_handlers :: "'s auth_handler list"

definition zero_schema :: "'s auth_schema" where
  "zero_schema = \<lparr>sc_name = [], sc_config = None, sc_handlers = []\<rparr>"

definition Construct :: "'s auth_schema \<Rightarrow> 's auth_schema" where
  "Construct a = a\<lparr>sc_config := Some \<lparr>sc_NAME = [], sc_AGGREGATION = []\<rparr>, sc_handlers := []\<rparr>"

definition NewAuthSchema :: "'s auth_schema" where
  "NewAuthSchema = Construct zero_schema"

definition SetAggregation :: "string \<Rightarrow> 't auth_schema \<Rightarrow> ('z sys_scheme, 't auth_schema) comp" where
  "SetAggregation agg a =
     (case sc_config a of
        None \<Rightarrow> go_panic a
      | Some cfg \<Rightarrow> ret (a\<lparr>sc_config := Some (cfg\<lparr>sc_AGGREGATION := agg\<rparr>)\<rparr>))"

definition AppendHandlers :: "'s auth_handler list \<Rightarrow> 's auth_schema \<Rightarrow> 's auth_schema" where
  "AppendHandlers hs a = a\<lparr>sc_handlers := sc_handlers a @ hs\<rparr>"

definition is_Or :: "'t auth_schema \<Rightarrow> ('z sys_scheme, bool) comp" where
  "is_Or a = (case sc_config a of None \<Rightarrow> go_panic False | Some cfg \<Rightarrow> ret (sc_AGGREGATION cfg = agg_Or))"

text \<open>The loop over the handlers and what follows it; \<open>found\<close> is \<^verbatim>\<open>authMethodFound\<close>.\<close>

fun schema_loop :: "'z request_scheme auth_schema \<Rightarrow> nat \<Rightarrow> bool \<Rightarrow> 'z request_scheme auth_handler list
    \<Rightarrow> ('z request_scheme, bool \<times> err) comp" where
  "schema_loop a c found [] =
     (if length (sc_handlers a) \<noteq> 0 \<and> \<not> found then do {
        SetGenericErrorCode ErrorCodeUnauthorized [];
        e \<leftarrow> SetError c (errors_New ''no auth section in request'');
        ret (found, e) }
      else ret (found, None))"
| "schema_loop a c found (h # hs) = do {
     (sectionFound, e) \<leftarrow> ah_Handle h;
     skip \<leftarrow> (if \<not> ah_IsReal h then ret True
              else if \<not> sectionFound then is_Or a else ret False);
     (if skip then schema_loop a c found hs
      else if e \<noteq> None then do {
        ge \<leftarrow> MakeGenericError ErrorCodeUnauthorized;
        SetGenericError (Some ge) [];
        e \<leftarrow> SetError c e;
        ret (sectionFound, e) }
      else do {
        isOr \<leftarrow> is_Or a;
        (if isOr then ret (sectionFound, None)
         else schema_loop a c (found \<or> sectionFound) hs) }) }"

definition Schema_Handle :: "'z request_scheme auth_schema \<Rightarrow> ('z request_scheme, bool \<times> err) comp" where
  "Schema_Handle a = do {
     path \<leftarrow> gets req_path;
     traced ''AuthSchema.Handle'' [[(''path'', VStr path)]] (\<lambda>c. schema_loop a c False (sc_handlers a)) }"

text \<open>A schema as a handler; \<^verbatim>\<open>registers\<close> as for handlers.\<close>

definition schema_handler :: "'z request_scheme auth_schema \<Rightarrow> bool \<Rightarrow> 'z request_scheme auth_handler" where
  "schema_handler a registers = AuthHandler (sc_name a) AggregationProtocol True (Schema_Handle a) [] []
     (sc_handlers a) registers"

text \<open>
  \<^verbatim>\<open>InitSchema\<close> after its configuration was read: the schema's name, aggregation (with the default of the
  configuration) and the names of its handlers, which must be in the store. Nested schemas, which the
  configuration may also hold, are not modelled.
\<close>

fun find_handlers :: "'s handler_store \<Rightarrow> string list \<Rightarrow> goerror + 's auth_handler list" where
  "find_handlers st [] = Inr []"
| "find_handlers st (name # names) =
     (case store_Handler st name of
        Inl e \<Rightarrow> Inl e
      | Inr h \<Rightarrow> (case find_handlers st names of Inl e \<Rightarrow> Inl e | Inr hs \<Rightarrow> Inr (h # hs)))"

record schema_section =
  sec_name :: string
  sec_aggregation :: string
  sec_handlers :: "string list"

definition InitSchema :: "'s handler_store \<Rightarrow> schema_section \<Rightarrow> 's auth_schema \<Rightarrow> goerror + 's auth_schema" where
  "InitSchema st sec a =
     (let agg = (if sec_aggregation sec = [] then agg_And else sec_aggregation sec) in
      if sec_name sec = [] then Inl (NativeError ''validation failed'')
      else if agg \<noteq> agg_And \<and> agg \<noteq> agg_Or then Inl (NativeError ''validation failed'')
      else case find_handlers st (sec_handlers sec) of
        Inl e \<Rightarrow> Inl e
      | Inr hs \<Rightarrow> Inr (AppendHandlers hs
          (a\<lparr>sc_config := Some \<lparr>sc_NAME = sec_name sec, sc_AGGREGATION = agg\<rparr>, sc_name := sec_name sec\<rparr>)))"

section \<open>The manager\<close>

record 's auth_manager =
  am_handlers :: "'s handler_store"
  am_schemas :: "'s handler_store"

definition add_method :: "'s auth_handler \<Rightarrow> 's auth_manager \<Rightarrow> 's auth_manager" where
  "add_method handler a =
     (let a = (if ah_registers handler then a\<lparr>am_schemas := AddHandler handler (am_schemas a)\<rparr> else a) in
      a\<lparr>am_handlers := fold AddHandler (ah_Handlers handler) (AddHandler handler (am_handlers a))\<rparr>)"

text \<open>The two loops of \<^verbatim>\<open>Init\<close>: \<open>create\<close> stands for the factory followed by the method's own \<^verbatim>\<open>Init\<close>.\<close>

fun init_methods :: "(string \<Rightarrow> ('s, goerror + 't auth_handler) comp) \<Rightarrow> string list \<Rightarrow> 't auth_manager
    \<Rightarrow> ('s, goerror + 't auth_manager) comp" where
  "init_methods create [] a = ret (Inr a)"
| "init_methods create (protocol # ps) a = do {
     h \<leftarrow> create protocol;
     (case h of
        Inl e \<Rightarrow> ret (Inl e)
      | Inr h \<Rightarrow> init_methods create ps (add_method h a)) }"

fun init_schemas :: "schema_section list \<Rightarrow> 'z request_scheme auth_manager
    \<Rightarrow> goerror + 'z request_scheme auth_manager" where
  "init_schemas [] a = Inr a"
| "init_schemas (sec # secs) a =
     (case InitSchema (am_handlers a) sec NewAuthSchema of
        Inl e \<Rightarrow> Inl e
      | Inr sch \<Rightarrow> (let h = schema_handler sch False in
          init_schemas secs (a\<lparr>am_handlers := AddHandler h (am_handlers a),
            am_schemas := AddHandler h (am_schemas a)\<rparr>)))"

definition AuthManager_Init :: "(string \<Rightarrow> ('s, goerror + 'z request_scheme auth_handler) comp)
    \<Rightarrow> string list \<Rightarrow> schema_section list \<Rightarrow> ('s, goerror + 'z request_scheme auth_manager) comp" where
  "AuthManager_Init create methods schemas = do {
     a \<leftarrow> init_methods create methods \<lparr>am_handlers = NewHandlerStore, am_schemas = NewHandlerStore\<rparr>;
     (case a of
        Inl e \<Rightarrow> ret (Inl e)
      | Inr a \<Rightarrow> ret (init_schemas schemas a)) }"

definition handler_or :: "('s auth_handler \<Rightarrow> ('k \<times> 'v) list) \<Rightarrow> 's handler_store \<Rightarrow> string \<Rightarrow> ('k \<times> 'v) list" where
  "handler_or f st name = (case store_Handler st name of Inl e \<Rightarrow> [] | Inr h \<Rightarrow> f h)"

definition AuthManager_ErrorDescriptions :: "'s auth_manager \<Rightarrow> (string \<times> string) list" where
  "AuthManager_ErrorDescriptions a =
     foldl (\<lambda>m name. AppendMap m (handler_or ah_ErrorDescriptions (am_handlers a) name))
       (CopyMapOneLevel auth_ErrorDescriptions) (HandlerNames (am_handlers a))"

definition AuthManager_ErrorProtocolCodes :: "'s auth_manager \<Rightarrow> (string \<times> int) list" where
  "AuthManager_ErrorProtocolCodes a =
     foldl (\<lambda>m name. AppendMap m (handler_or ah_ErrorProtocolCodes (am_handlers a) name))
       (CopyMapOneLevel auth_ErrorHttpCodes) (HandlerNames (am_handlers a))"

definition AuthManager_Handle :: "'z request_scheme auth_manager \<Rightarrow> string
    \<Rightarrow> ('z request_scheme, err) comp" where
  "AuthManager_Handle a schema =
     traced_err ''AuthManagerBase.Handle'' [[(''schema'', VStr schema)]] (\<lambda>c.
       case store_Handler (am_schemas a) schema of
         Inl e \<Rightarrow> do {
           SetGenericErrorCode ErrorCodeInvalidAuthSchema [];
           e \<leftarrow> SetError c (Some e);
           ret (e, e) }
       | Inr handler \<Rightarrow> do {
           (_, e) \<leftarrow> ah_Handle handler;
           ret (e, e) })"

section \<open>The schemas of endpoints\<close>

record endpoint_schema =
  es_ACCESS :: AccessType
  es_HTTP_METHOD :: string
  es_SCHEMA :: string

type_synonym endpoints_config = "(string \<times> endpoint_schema list) list"

fun first_schema :: "endpoint_schema list \<Rightarrow> AccessType \<Rightarrow> string option" where
  "first_schema [] access = None"
| "first_schema (ep # eps) access =
     (if CheckMask (es_ACCESS ep) access then Some (es_SCHEMA ep) else first_schema eps access)"

definition endpoint_Schema :: "endpoints_config \<Rightarrow> string \<Rightarrow> AccessType \<Rightarrow> string option" where
  "endpoint_Schema e path access =
     (case map_get e path of None \<Rightarrow> None | Some eps \<Rightarrow> first_schema eps access)"

text \<open>The loop of \<^verbatim>\<open>Init\<close>: a method of HTTP, when given, determines the access.\<close>

definition load_endpoint_schema :: "endpoint_schema \<Rightarrow> endpoint_schema" where
  "load_endpoint_schema ep =
     (if es_HTTP_METHOD ep \<noteq> [] then ep\<lparr>es_ACCESS := HttpMethod2Access (es_HTTP_METHOD ep)\<rparr> else ep)"

definition EndpointsAuthConfig_Init :: "(string \<times> endpoint_schema list) list \<Rightarrow> endpoints_config" where
  "EndpointsAuthConfig_Init sections =
     foldl (\<lambda>m (endpoint, schemas). map_set m endpoint (map load_endpoint_schema schemas)) [] sections"

record 's auth_base =
  DEFAULT_SCHEMA :: string
  ab_manager :: "'s auth_manager"
  ab_endpointsConfig :: endpoints_config

definition AuthBase_HandleRequest :: "'z request_scheme auth_base \<Rightarrow> string \<Rightarrow> AccessType
    \<Rightarrow> ('z request_scheme, err) comp" where
  "AuthBase_HandleRequest a path access =
     traced_err ''AuthBase.Handle'' [[(''path'', VStr path)]] (\<lambda>c. do {
       let schema = (case endpoint_Schema (ab_endpointsConfig a) path access of
                       None \<Rightarrow> DEFAULT_SCHEMA a | Some schema \<Rightarrow> schema);
       e \<leftarrow> AuthManager_Handle (ab_manager a) schema;
       e \<leftarrow> SetError c e;
       ret (e, e) })"

definition AuthBase_AttachToErrorManager :: "'s auth_base \<Rightarrow> error_manager \<Rightarrow> error_manager" where
  "AuthBase_AttachToErrorManager a errManager =
     AddErrorProtocolCodes (AuthManager_ErrorProtocolCodes (ab_manager a))
       (AddErrorDescriptions (AuthManager_ErrorDescriptions (ab_manager a)) errManager)"

section \<open>The factory\<close>

definition LoginphashTokenProtocol :: string where "LoginphashTokenProtocol = ''login_phash_token''"
definition LoginphashSmsTokenProtocol :: string where "LoginphashSmsTokenProtocol = ''login_phash_sms_token''"

text \<open>The methods with their configurations, as they are after the \<^verbatim>\<open>Init\<close> of each.\<close>

record 's auth_methods =
  me_token :: "'s token_handler"
  me_login :: "'s login_handler"
  me_sms :: "'s sms_handler"
  me_crypto :: crypto
  me_verify :: "string \<Rightarrow> string \<Rightarrow> string \<Rightarrow> string \<Rightarrow> ('s, err) comp"

definition token_as_handler :: "'z request_scheme token_handler \<Rightarrow> 'z request_scheme auth_handler" where
  "token_as_handler t = AuthHandler CheckTokenProtocol CheckTokenProtocol True
     (Token_Handle (t\<lparr>th_protocol := CheckTokenProtocol\<rparr>)) token_ErrorDescriptions token_ErrorProtocolCodes [] True"

definition new_token_as_handler :: "'z request_scheme token_handler \<Rightarrow> 'z request_scheme auth_handler" where
  "new_token_as_handler t = AuthHandler NewTokenProtocol NewTokenProtocol True
     (NewToken_Handle (t\<lparr>th_protocol := NewTokenProtocol\<rparr>)) token_ErrorDescriptions token_ErrorProtocolCodes [] True"

definition login_as_handler :: "'z request_scheme login_handler \<Rightarrow> 'z request_scheme auth_handler" where
  "login_as_handler l = AuthHandler LoginProtocol LoginProtocol True (Login_Handle l)
     login_ErrorDescriptions login_ErrorProtocolCodes [] False"

definition sms_as_handler :: "'z request_scheme sms_handler \<Rightarrow> 'z request_scheme auth_handler" where
  "sms_as_handler a = AuthHandler SmsProtocol SmsProtocol True (Sms_Handle a)
     sms_ErrorDescriptions sms_ErrorProtocolCodes [] True"

definition noauth_as_handler :: "'z request_scheme auth_handler" where
  "noauth_as_handler = AuthHandler NoAuthProtocol NoAuthProtocol True NoAuth_Handle [] [] [] True"

definition hmac_as_handler :: "crypto \<Rightarrow> 'z request_scheme auth_handler" where
  "hmac_as_handler cr = AuthHandler HmacProtocol HmacProtocol True (Hmac_Handle cr)
     [(ErrorCodeInvalidHmac, ''Invalid HMAC.'')] [(ErrorCodeInvalidHmac, StatusUnauthorized)] [] False"

definition signature_as_handler ::
    "(string \<Rightarrow> string \<Rightarrow> string \<Rightarrow> string \<Rightarrow> ('z request_scheme, err) comp)
     \<Rightarrow> 'z request_scheme auth_handler" where
  "signature_as_handler verify = AuthHandler SignatureProtocol SignatureProtocol True (Signature_Handle verify)
     [(ErrorCodeInvalidSignature, ''Invalid signature.''), (ErrorCodeInvalidKey, ''Invalid key.'')]
     [(ErrorCodeInvalidSignature, StatusUnauthorized)] [] False"

text \<open>The schema \<^verbatim>\<open>token\<close> of the package \<^verbatim>\<open>auth_token\<close>: the check of the token, as the only member.\<close>

definition TokenSchema :: "'z request_scheme token_handler \<Rightarrow> 'z request_scheme auth_schema" where
  "TokenSchema t = AppendHandlers [token_as_handler t] (NewAuthSchema\<lparr>sc_name := TokenProtocol\<rparr>)"

definition NewLoginphashToken :: "'s auth_schema" where
  "NewLoginphashToken = Construct zero_schema"

text \<open>Unlike \<^verbatim>\<open>NewLoginphashToken\<close>, this constructor does not call \<^verbatim>\<open>Construct\<close>.\<close>

definition NewLoginphashSmsToken :: "'s auth_schema" where
  "NewLoginphashSmsToken = zero_schema"

definition LoginphashToken_Init :: "'t request_scheme auth_methods \<Rightarrow> 't request_scheme auth_schema
    \<Rightarrow> ('z sys_scheme, 't request_scheme auth_schema) comp" where
  "LoginphashToken_Init m l = do {
     l \<leftarrow> SetAggregation agg_And (l\<lparr>sc_name := LoginphashTokenProtocol\<rparr>);
     ret (AppendHandlers [login_as_handler (me_login m), new_token_as_handler (me_token m)] l) }"

definition LoginphashSmsToken_Init :: "'t request_scheme auth_methods \<Rightarrow> 't request_scheme auth_schema
    \<Rightarrow> ('z sys_scheme, 't request_scheme auth_schema) comp" where
  "LoginphashSmsToken_Init m l = do {
     l \<leftarrow> SetAggregation agg_And (l\<lparr>sc_name := LoginphashTokenProtocol\<rparr>);
     ret (AppendHandlers [login_as_handler (me_login m), sms_as_handler (me_sms m),
       new_token_as_handler (me_token m)] l) }"

definition Factory_Create :: "'t request_scheme auth_methods \<Rightarrow> string
    \<Rightarrow> ('z sys_scheme, goerror + 't request_scheme auth_handler) comp" where
  "Factory_Create m protocol =
     (if protocol = LoginphashTokenProtocol then do {
        l \<leftarrow> LoginphashToken_Init m NewLoginphashToken;
        ret (Inr (schema_handler l True)) }
      else if protocol = LoginphashSmsTokenProtocol then do {
        l \<leftarrow> LoginphashSmsToken_Init m NewLoginphashSmsToken;
        ret (Inr (schema_handler l True)) }
      else if protocol = LoginProtocol then ret (Inr (login_as_handler (me_login m)))
      else if protocol = CheckTokenProtocol then ret (Inr (token_as_handler (me_token m)))
      else if protocol = TokenProtocol then ret (Inr (schema_handler (TokenSchema (me_token m)) True))
      else if protocol = HmacProtocol then ret (Inr (hmac_as_handler (me_crypto m)))
      else if protocol = SmsProtocol then ret (Inr (sms_as_handler (me_sms m)))
      else if protocol = SignatureProtocol
        then ret (Inr (signature_as_handler (me_verify m)))
      else if protocol = NoAuthProtocol then ret (Inr noauth_as_handler)
      else ret (Inl (NativeError (''unknown auth handler '' @ protocol))))"

section \<open>The contract of a handler\<close>

text \<open>
  What a schema and the manager rely on in a handler: it leaves the stack of calls as it found it, and
  an error that was reported before stays the one that is reported.
\<close>

locale auth_method =
  fixes handle :: "('z request_scheme, 'r) comp"
  assumes frame_handle: "state_io_rel frame handle"
begin

lemma first_error_stays:
  assumes "run_state handle s = (r, s')" "genericError s \<noteq> None"
  shows "genericError s' = genericError s"
  using io_rel_run [OF frame_handle assms(1)] assms(2) by (simp add: frame_def)

lemma stack_balanced:
  assumes "run_state handle s = (r, s')"
  shows "stack s' = stack s"
  using io_rel_run [OF frame_handle assms] by (simp add: frame_def balanced_def)

end

lemma frame_is_Or [io_rel]: "state_io_rel frame (is_Or a)"
  unfolding is_Or_def by (intro io_rel)

lemma frame_schema_loop:
  assumes "\<And>h. h \<in> set hs \<Longrightarrow> state_io_rel frame (ah_Handle h)"
  shows "state_io_rel frame (schema_loop a c found hs)"
  using assms by (induction hs arbitrary: found) (auto intro!: io_rel)

lemma auth_method_Schema:
  assumes "\<And>h. h \<in> set (sc_handlers a) \<Longrightarrow> auth_method (ah_Handle h)"
  shows "auth_method (Schema_Handle a)"
  unfolding auth_method_def Schema_Handle_def
  by (intro io_rel frame_schema_loop) (auto dest: assms auth_method.frame_handle)

text \<open>A set of methods over the database, with an SMS manager and a signature manager that keep the frame.\<close>

definition good_methods :: "dbhandlers \<Rightarrow> crypto \<Rightarrow> user_validators \<Rightarrow> 'z request_scheme auth_methods \<Rightarrow> bool" where
  "good_methods h cr vld m \<longleftrightarrow> th_users (me_token m) = db_user_sessions h cr vld
     \<and> lh_users (me_login m) = db_user_sessions h cr vld
     \<and> (\<forall>x p. state_io_rel frame (sms_Send (me_sms m) x p))
     \<and> state_io_rel frame (CheckRequestContent (me_sms m))
     \<and> (\<forall>w x y z. state_io_rel frame (me_verify m w x y z))"

interpretation token_method: auth_method "Token_Handle (t\<lparr>th_users := db_user_sessions h cr vld\<rparr>)" for t h cr vld
  by unfold_locales (rule db_us.frame_Token_Handle, simp)

interpretation new_token_method: auth_method "NewToken_Handle (t\<lparr>th_users := db_user_sessions h cr vld\<rparr>)" for t h cr vld
  by unfold_locales (rule db_us.frame_NewToken_Handle, simp)

interpretation login_method: auth_method "Login_Handle (l\<lparr>lh_users := db_user_sessions h cr vld\<rparr>)" for l h cr vld
  by unfold_locales (rule db_us.frame_Login_Handle, simp)

interpretation hmac_method: auth_method "Hmac_Handle cr" for cr
  by unfold_locales (rule frame_Hmac_Handle)

interpretation csrf_method: auth_method "Csrf_Handle a" for a
  by unfold_locales (rule frame_Csrf_Handle)

interpretation noauth_method: auth_method NoAuth_Handle
  by unfold_locales (rule frame_NoAuth)

section \<open>The stores hold good handlers only\<close>

definition good_handler :: "'z request_scheme auth_handler \<Rightarrow> bool" where
  "good_handler x \<longleftrightarrow> auth_method (ah_Handle x) \<and> (\<forall>y \<in> set (ah_Handlers x). auth_method (ah_Handle y))"

definition good_store :: "'z request_scheme handler_store \<Rightarrow> bool" where
  "good_store st \<longleftrightarrow> (\<forall>name x. map_get st name = Some x \<longrightarrow> auth_method (ah_Handle x))"

lemma good_store_AddHandler: "good_store st \<Longrightarrow> auth_method (ah_Handle x) \<Longrightarrow> good_store (AddHandler x st)"
  by (simp add: good_store_def AddHandler_def)

lemma good_store_fold:
  "good_store st \<Longrightarrow> \<forall>x \<in> set hs. auth_method (ah_Handle x) \<Longrightarrow> good_store (fold AddHandler hs st)"
  by (induction hs arbitrary: st) (simp_all add: good_store_AddHandler)

definition good_manager :: "'z request_scheme auth_manager \<Rightarrow> bool" where
  "good_manager a \<longleftrightarrow> good_store (am_handlers a) \<and> good_store (am_schemas a)"

lemma good_add_method: "good_manager a \<Longrightarrow> good_handler x \<Longrightarrow> good_manager (add_method x a)"
  by (simp add: good_manager_def add_method_def Let_def good_handler_def good_store_fold good_store_AddHandler)

lemma good_find_handlers:
  "good_store st \<Longrightarrow> find_handlers st names = Inr hs \<Longrightarrow> \<forall>x \<in> set hs. auth_method (ah_Handle x)"
  by (induction names arbitrary: hs)
     (auto simp: store_Handler_def good_store_def split: option.splits sum.splits)

lemma good_InitSchema:
  assumes "good_store st" "InitSchema st sec NewAuthSchema = Inr sch"
  shows "auth_method (Schema_Handle sch)"
proof (rule auth_method_Schema)
  obtain hs where hs: "find_handlers st (sec_handlers sec) = Inr hs" "sc_handlers sch = hs"
    using assms(2) by (auto simp: InitSchema_def Let_def AppendHandlers_def NewAuthSchema_def Construct_def
        split: if_splits sum.splits)
  fix x assume "x \<in> set (sc_handlers sch)"
  then show "auth_method (ah_Handle x)" using good_find_handlers [OF assms(1) hs(1)] hs(2) by blast
qed

lemma good_init_schemas: "good_manager a \<Longrightarrow> init_schemas secs a = Inr b \<Longrightarrow> good_manager b"
proof (induction secs arbitrary: a)
  case (Cons sec secs)
  from Cons.prems(2) obtain sch where sch: "InitSchema (am_handlers a) sec NewAuthSchema = Inr sch"
    and rest: "init_schemas secs (a\<lparr>am_handlers := AddHandler (schema_handler sch False) (am_handlers a),
            am_schemas := AddHandler (schema_handler sch False) (am_schemas a)\<rparr>) = Inr b"
    by (auto simp: Let_def split: sum.splits)
  have "auth_method (ah_Handle (schema_handler sch False))"
    using good_InitSchema [OF _ sch] Cons.prems(1) by (simp add: schema_handler_def good_manager_def)
  with Cons.prems(1) show ?case
    by (intro Cons.IH [OF _ rest]) (simp add: good_manager_def good_store_AddHandler)
qed simp

lemma wp_init_methods:
  assumes "\<And>p s. wp (create p) (\<lambda>r _. \<forall>x. r = Inr x \<longrightarrow> good_handler x) s" "good_manager a"
  shows "wp (init_methods create ps a) (\<lambda>r _. \<forall>b. r = Inr b \<longrightarrow> good_manager b) s"
  using assms(2)
proof (induction ps arbitrary: a s)
  case (Cons p ps)
  show ?case
    unfolding init_methods.simps wp_bind
    by (rule wp_mono [OF assms(1)]) (auto simp: wp Cons good_add_method split: sum.splits)
qed (simp add: wp)

lemma good_members:
  assumes "good_methods h cr vld m"
  shows "auth_method (ah_Handle (token_as_handler (me_token m)))"
    "auth_method (ah_Handle (new_token_as_handler (me_token m)))"
    "auth_method (ah_Handle (login_as_handler (me_login m)))"
    "auth_method (ah_Handle (sms_as_handler (me_sms m)))"
    "auth_method (ah_Handle (hmac_as_handler (me_crypto m)))"
    "auth_method (ah_Handle (signature_as_handler (me_verify m)))"
    "auth_method (ah_Handle noauth_as_handler)"
  using assms
  by (simp_all add: good_methods_def auth_method_def token_as_handler_def new_token_as_handler_def
      login_as_handler_def sms_as_handler_def hmac_as_handler_def signature_as_handler_def
      noauth_as_handler_def db_us.frame_Token_Handle db_us.frame_NewToken_Handle
      db_us.frame_Login_Handle frame_Sms_Handle frame_Hmac_Handle frame_Signature_Handle frame_NoAuth)

lemma good_schema_handler:
  assumes "\<And>x. x \<in> set (sc_handlers sch) \<Longrightarrow> auth_method (ah_Handle x)"
  shows "good_handler (schema_handler sch b)"
  using assms auth_method_Schema [OF assms] by (simp add: good_handler_def schema_handler_def)

lemma good_Factory_Create:
  assumes "good_methods h cr vld m"
  shows "wp (Factory_Create m p) (\<lambda>r _. \<forall>x. r = Inr x \<longrightarrow> good_handler x) s"
proof -
  note [simp] = good_members [OF assms]
  have leaf: "good_handler (token_as_handler (me_token m))" "good_handler (login_as_handler (me_login m))"
    "good_handler (sms_as_handler (me_sms m))" "good_handler (hmac_as_handler (me_crypto m))"
    "good_handler (signature_as_handler (me_verify m))" "good_handler noauth_as_handler"
    by (simp_all add: good_handler_def) (simp_all add: token_as_handler_def login_as_handler_def
        sms_as_handler_def hmac_as_handler_def signature_as_handler_def noauth_as_handler_def)
  show ?thesis
    by (auto simp: Factory_Create_def wp leaf LoginphashToken_Init_def LoginphashSmsToken_Init_def
        SetAggregation_def AppendHandlers_def TokenSchema_def NewAuthSchema_def NewLoginphashToken_def
        NewLoginphashSmsToken_def Construct_def zero_schema_def intro!: good_schema_handler split: option.splits)
qed

lemma auth_method_manager:
  assumes "good_manager a"
  shows "auth_method (AuthManager_Handle a schema)"
  unfolding auth_method_def AuthManager_Handle_def store_Handler_def
  using assms
  by (auto intro!: io_rel simp: good_manager_def good_store_def auth_method_def split: option.splits)

section \<open>What schemas return\<close>

text \<open>
  The specification of the aggregation, on the results of the real handlers. All of them have to agree
  (\<^verbatim>\<open>and\<close>): the first error decides, and one section has to be there. One of them is enough (\<^verbatim>\<open>or\<close>): the first
  section that is there decides.
\<close>

definition no_section :: "bool \<times> err" where
  "no_section = (False, errors_New ''no auth section in request'')"

definition and_result :: "bool \<Rightarrow> (bool \<times> err) list \<Rightarrow> bool \<times> err" where
  "and_result none rs =
     (case List.find (\<lambda>(f, e). e \<noteq> None) rs of
        Some r \<Rightarrow> r
      | None \<Rightarrow> if \<exists>r \<in> set rs. fst r then (True, None) else if none then (False, None) else no_section)"

definition or_result :: "bool \<Rightarrow> (bool \<times> err) list \<Rightarrow> bool \<times> err" where
  "or_result none rs =
     (case List.find fst rs of
        Some r \<Rightarrow> r
      | None \<Rightarrow> if none then (False, None) else no_section)"

definition real_results :: "('z request_scheme auth_handler \<Rightarrow> bool \<times> err)
    \<Rightarrow> 'z request_scheme auth_handler list \<Rightarrow> (bool \<times> err) list" where
  "real_results out hs = map out (filter ah_IsReal hs)"

lemma wpc_SetGenericError [wpc]:
  "(genericError k = None \<Longrightarrow> Q () (core (k\<lparr>genericError := Some e\<rparr>))) \<Longrightarrow>
   (genericError k \<noteq> None \<Longrightarrow> Q () (core k)) \<Longrightarrow> wpc (SetGenericError (Some e) []) Q k"
  unfolding SetGenericError_def by (rule wpc_modifys) auto

lemma wpc_MakeGenericError [wpc]: "(\<And>e. Q e (core k)) \<Longrightarrow> wpc (MakeGenericError code) Q k"
  unfolding MakeGenericError_def by (rule wpc_gets) (simp_all add: core_def)

lemma is_Or_Some [simp]: "sc_config a = Some cfg \<Longrightarrow> is_Or a = ret (sc_AGGREGATION cfg = agg_Or)"
  by (simp add: is_Or_def)

definition loop_result :: "'s auth_schema \<Rightarrow> schema_config \<Rightarrow> bool \<Rightarrow> (bool \<times> err) list \<Rightarrow> bool \<times> err" where
  "loop_result a cfg found rs =
     (if sc_AGGREGATION cfg = agg_Or then
        (if found \<and> List.find fst rs = None then (True, None) else or_result (sc_handlers a = []) rs)
      else and_result (sc_handlers a = []) (if found then (True, None) # rs else rs))"

text \<open>How one more result changes what the rest of the loop returns.\<close>

lemma loop_result_step:
  "sc_AGGREGATION cfg = agg_Or \<Longrightarrow> loop_result a cfg False ((f, e) # rs)
     = (if f then (True, e) else loop_result a cfg False rs)"
  "sc_AGGREGATION cfg \<noteq> agg_Or \<Longrightarrow> loop_result a cfg found ((f, e) # rs)
     = (if e \<noteq> None then (f, e) else loop_result a cfg (found \<or> f) rs)"
  by (auto simp: loop_result_def or_result_def and_result_def split: option.splits)

lemma real_results_Cons:
  "real_results out (h # hs) = (if ah_IsReal h then out h # real_results out hs else real_results out hs)"
  by (simp add: real_results_def)

lemma schema_loop_spec:
  assumes cfg: "sc_config a = Some cfg"
    and out: "\<And>h k. h \<in> set hs \<Longrightarrow> I k \<Longrightarrow> wpc (ah_Handle h) (\<lambda>r k'. r = out h \<and> I k') k"
    and "I k" "sc_AGGREGATION cfg = agg_Or \<Longrightarrow> \<not> found"
  shows "wpc (schema_loop a c found hs) (\<lambda>r k'. r = loop_result a cfg found (real_results out hs)
     \<and> (snd r = None \<or> genericError k' \<noteq> None)) k"
  using out assms(3,4)
proof (induction hs arbitrary: found k)
  case Nil
  show ?case
    unfolding schema_loop.simps using Nil(3)
    by (intro wpc) (auto simp: loop_result_def and_result_def or_result_def real_results_def no_section_def)
next
  case (Cons h hs)
  have IH: "wpc (schema_loop a c f hs) (\<lambda>r k'. r = loop_result a cfg f (real_results out hs)
     \<and> (snd r = None \<or> genericError k' \<noteq> None)) k'"
    if "I k'" "sc_AGGREGATION cfg = agg_Or \<Longrightarrow> \<not> f" for f k'
    by (rule Cons.IH [OF Cons.prems(1) that]) auto
  obtain f e where o: "out h = (f, e)" by fastforce
  have run: "wpc (ah_Handle h) (\<lambda>r k'. r = (f, e) \<and> I k') k"
    using Cons.prems(1) [of h k] Cons.prems(2) o by simp
  let ?Q = "\<lambda>r k'. r = loop_result a cfg found (real_results out (h # hs))
     \<and> (snd r = None \<or> genericError k' \<noteq> None)"
  have rest: "wpc (do {
     skip \<leftarrow> (if \<not> ah_IsReal h then ret True else if \<not> f then is_Or a else ret False);
     (if skip then schema_loop a c found hs
      else if e \<noteq> None then do {
        ge \<leftarrow> MakeGenericError ErrorCodeUnauthorized;
        SetGenericError (Some ge) [];
        e \<leftarrow> SetError c e;
        ret (f, e) }
      else do {
        isOr \<leftarrow> is_Or a;
        (if isOr then ret (f, None) else schema_loop a c (found \<or> f) hs) }) }) ?Q k'"
    if "core k' = k'" "I k'" for k'
  proof (cases "sc_AGGREGATION cfg = agg_Or")
    case True
    then have "\<not> found" using Cons.prems(3) by blast
    with True that show ?thesis
      unfolding is_Or_Some [OF cfg]
      by (intro wpc wpc_mono [OF IH]) (auto simp: real_results_Cons o loop_result_step)
  next
    case False
    with that show ?thesis
      unfolding is_Or_Some [OF cfg]
      by (intro wpc wpc_mono [OF IH]) (auto simp: real_results_Cons o loop_result_step)
  qed
  show ?case
    unfolding schema_loop.simps
    by (intro wpc_bind, rule wpc_mono [OF run]) (use rest in auto)
qed

lemma Token_Handle_missing:
  assumes "header_of s (th_protocol a) (token_name a s) = []"
  shows "wpc (Token_Handle a) (\<lambda>r k. r = (False, None) \<and> k = core s) s"
  unfolding Token_Handle_def Let_def
  by (intro wpc) (use assms in \<open>auto simp: header_of_def param_of_def token_name_def split: if_splits\<close>)

lemma NewToken_Handle_missing:
  assumes "authUser s = None"
  shows "wpc (NewToken_Handle a) (\<lambda>r k. r = (False, None) \<and> k = core s) s"
  unfolding NewToken_Handle_def
  by (intro wpc_traced_err wpc_bind, rule wpc_gets) (use assms in \<open>auto intro!: wpc\<close>)

lemma Sms_Handle_no_user:
  assumes "authUser s = None"
  shows "wpc (Sms_Handle a) (\<lambda>r k. r = (True, None) \<and> k = core (with_code ErrorCodeUnauthorized s)) s"
  unfolding Sms_Handle_def
  by (intro wpc_traced_err wpc_bind, rule wpc_gets) (use assms in \<open>auto intro!: wpc\<close>)

section \<open>Properties\<close>

text \<open>
  C5: authorisation keeps the contract of its handlers from the configuration on: whatever methods of the
  factory and schemas a manager is initialised with, handling a request leaves the stack of calls
  balanced, and the first error that is reported stays the one that is reported.
\<close>

theorem authorisation_contract:
  assumes "good_methods h cr vld m" "ab_manager a = mgr"
    and "run_state (AuthManager_Init (Factory_Create m) methods schemas) t = (Inr mgr, t')"
    and "run_state (AuthBase_HandleRequest a path access) s = (e, s')"
  shows "stack s' = stack s \<and> (genericError s \<noteq> None \<longrightarrow> genericError s' = genericError s)
    \<and> (errorStack s \<noteq> None \<longrightarrow> errorStack s' = errorStack s)"
proof -
  have "wp (init_methods (Factory_Create m) methods \<lparr>am_handlers = NewHandlerStore, am_schemas = NewHandlerStore\<rparr>)
     (\<lambda>r _. \<forall>b. r = Inr b \<longrightarrow> good_manager b) t"
    by (rule wp_init_methods [OF good_Factory_Create [OF assms(1)]])
       (simp add: good_manager_def good_store_def NewHandlerStore_def)
  then have "good_manager mgr"
    using assms(3) by (auto simp: AuthManager_Init_def wp_def good_init_schemas split: prod.splits sum.splits)
  then have "auth_method (AuthBase_HandleRequest a path access)"
    unfolding auth_method_def AuthBase_HandleRequest_def
    by (auto intro!: io_rel simp: assms(2) auth_method.frame_handle [OF auth_method_manager])
  from auth_method.frame_handle [OF this] assms(4) have "frame s s'" by (rule io_rel_run)
  then show ?thesis by (simp add: frame_def balanced_def)
qed


text \<open>
  The schema \<^verbatim>\<open>token\<close> refuses a request without a token.
\<close>

theorem token_schema_required:
  assumes "header_of s CheckTokenProtocol (token_name t s) = []"
    and "run_state (Schema_Handle (TokenSchema t)) s = ((found, e), s')"
  shows "\<not> found \<and> e \<noteq> None \<and> genericError s' \<noteq> None \<and> authUser s' = authUser s"
proof -
  have miss: "wpc (Token_Handle (t\<lparr>th_protocol := CheckTokenProtocol\<rparr>)) (\<lambda>r k. r = (False, None) \<and> k = core s) s"
    by (rule Token_Handle_missing) (use assms(1) in \<open>simp add: token_name_def\<close>)
  have "wpc (Schema_Handle (TokenSchema t)) (\<lambda>(found, e) k. \<not> found \<and> e \<noteq> None \<and>
      genericError k \<noteq> None \<and> authUser k = authUser s) s"
    by (auto simp: Schema_Handle_def TokenSchema_def AppendHandlers_def NewAuthSchema_def Construct_def
        zero_schema_def token_as_handler_def is_Or_def wpc_core agg_Or_def
        intro!: wpc wpc_mono [OF miss])
  from wpcE [OF this assms(2)] show ?thesis by simp
qed

text \<open>
  The default schema of the configuration is the handler \<^verbatim>\<open>check_token\<close> itself and the manager does not
  look at whether a handler has found its section: a request without a token passes the authorisation
  of an endpoint without a schema of its own, with no error and no user.
\<close>

theorem default_schema_open:
  assumes "DEFAULT_SCHEMA a = CheckTokenProtocol" "endpoint_Schema (ab_endpointsConfig a) path access = None"
    and "store_Handler (am_schemas (ab_manager a)) CheckTokenProtocol = Inr (token_as_handler t)"
    and "header_of s CheckTokenProtocol (token_name t s) = []"
    and "run_state (AuthBase_HandleRequest a path access) s = (e, s')"
  shows "e = None \<and> genericError s' = genericError s \<and> authUser s' = authUser s"
proof -
  have miss: "wpc (Token_Handle (t\<lparr>th_protocol := CheckTokenProtocol\<rparr>)) (\<lambda>r k. r = (False, None) \<and> k = core s) s"
    by (rule Token_Handle_missing) (use assms(4) in \<open>simp add: token_name_def\<close>)
  have "wpc (AuthBase_HandleRequest a path access) (\<lambda>e k. e = None \<and> k = core s) s"
    by (auto simp: AuthBase_HandleRequest_def AuthManager_Handle_def assms(1-3) token_as_handler_def
        intro!: wpc wpc_mono [OF miss])
  from wpcE [OF this assms(5)] have "e = None" "core s' = core s" by simp_all
  then show ?thesis by (metis core_reads(8) core_request_reads(9))
qed

text \<open>
  A schema that asks for a token and an SMS confirmation lets a request with neither of them pass: the
  SMS handler counts as found and returns no error when the request has no user. Only the generic
  error tells that the request is not authorised.
\<close>

theorem token_sms_schema_open:
  assumes "sc_config a = Some cfg" "sc_AGGREGATION cfg = agg_And"
    and "sc_handlers a = [token_as_handler t, sms_as_handler x]"
    and "header_of s CheckTokenProtocol (token_name t s) = []" "authUser s = None"
    and "run_state (Schema_Handle a) s = ((found, e), s')"
  shows "found \<and> e = None \<and> authUser s' = None \<and> genericError s' \<noteq> None"
proof -
  have miss: "wpc (Token_Handle (t\<lparr>th_protocol := CheckTokenProtocol\<rparr>)) (\<lambda>r k. r = (False, None) \<and> k = core s) s"
    by (rule Token_Handle_missing) (use assms(4) in \<open>simp add: token_name_def\<close>)
  have no_user: "wpc (Sms_Handle x) (\<lambda>r k. r = (True, None) \<and> k = core (with_code ErrorCodeUnauthorized s)) s"
    by (rule Sms_Handle_no_user [OF assms(5)])
  have "wpc (Schema_Handle a) (\<lambda>(found, e) k. found \<and> e = None \<and> k = core (with_code ErrorCodeUnauthorized s)) s"
    by (auto simp: Schema_Handle_def assms(1-3) token_as_handler_def sms_as_handler_def wpc_core
        agg_Or_def agg_And_def intro!: wpc wpc_mono [OF miss] wpc_mono [OF no_user])
  from wpcE [OF this assms(6)] have "found" "e = None" and k: "core s' = with_code ErrorCodeUnauthorized (core s)"
    by simp_all
  moreover have "authUser s' = authUser (core s')" "genericError s' = genericError (core s')" by simp_all
  ultimately show ?thesis using assms(5) unfolding k by (simp add: with_code_def)
qed

text \<open>
  C19: the schema \<^verbatim>\<open>login_phash_token\<close>, as its \<^verbatim>\<open>Init\<close> builds it, opens a session for nobody but a user who
  has logged in: when the login handler accepts no user, nothing is written to the databases and the
  request stays without a user.
\<close>

theorem login_token_schema:
  assumes "lh_users (me_login m) = db_user_sessions h cr vld"
    and "run_state (LoginphashToken_Init m NewLoginphashToken) t = (sch, t')"
    and "authUser s = None" "login_as h vld s = None"
    and "run_state (Schema_Handle sch) s = ((found, e), s')"
  shows "dbs s' = dbs s \<and> authUser s' = None \<and> panicked t' = panicked t"
proof -
  let ?P = "\<lambda>k. authUser k = None \<and> dbs k = dbs s"
  have sch: "sch = AppendHandlers [login_as_handler (me_login m), new_token_as_handler (me_token m)]
      \<lparr>sc_name = LoginphashTokenProtocol, sc_config = Some \<lparr>sc_NAME = [], sc_AGGREGATION = agg_And\<rparr>, sc_handlers = []\<rparr>"
    and t': "t' = t"
    using assms(2) by (auto simp: LoginphashToken_Init_def NewLoginphashToken_def Construct_def zero_schema_def
        SetAggregation_def)
  have login: "wpc (Login_Handle (me_login m)) (\<lambda>r k. ?P k) s"
    by (rule wpc_mono [OF Login_Handle_spec [OF assms(1)]]) (use assms(3,4) in auto)
  have new: "?P k \<Longrightarrow> wpc (NewToken_Handle (me_token m\<lparr>th_protocol := NewTokenProtocol\<rparr>)) (\<lambda>r k'. r = (False, None) \<and> ?P k') k" for k
    by (rule wpc_mono [OF NewToken_Handle_missing]) auto
  have err: "?P k \<Longrightarrow> wpc (do { ge \<leftarrow> MakeGenericError c; SetGenericError (Some ge) []; e \<leftarrow> SetError n e; ret (f, e) })
      (\<lambda>r k. ?P k) k" for k c n e f
    by (intro wpc) auto
  have "wpc (Schema_Handle sch) (\<lambda>r k. ?P k) s"
    by (auto simp: Schema_Handle_def sch AppendHandlers_def login_as_handler_def new_token_as_handler_def
        wpc_core is_Or_def agg_Or_def agg_And_def with_code_def
        intro!: wpc wpc_mono [OF login] wpc_mono [OF new] wpc_mono [OF err])
  from wpcE [OF this assms(5)] t' show ?thesis by simp
qed

text \<open>
  The method \<^verbatim>\<open>login_phash_sms_token\<close> cannot be initialised: its constructor leaves the configuration of
  the schema nil, which \<^verbatim>\<open>Init\<close> dereferences.
\<close>

theorem login_sms_token_panics:
  "panicked (snd (run_state (Factory_Create m LoginphashSmsTokenProtocol) t))"
  by (simp add: Factory_Create_def LoginphashSmsToken_Init_def NewLoginphashSmsToken_def zero_schema_def
      SetAggregation_def go_panic_def LoginphashSmsTokenProtocol_def LoginphashTokenProtocol_def)

section \<open>Instances\<close>

definition demo_methods :: "unit request_scheme auth_methods" where
  "demo_methods = \<lparr>me_token = demo_token_handler, me_login = demo_login_handler, me_sms = demo_sms_handler,
     me_crypto = plain_crypto, me_verify = (\<lambda>w x y z. ret None)\<rparr>"

lemma demo_methods_good: "good_methods table_db plain_crypto demo_validators demo_methods"
  by (simp add: good_methods_def demo_methods_def demo_users demo_login_handler_def io_rel)

definition demo_manager :: "unit request_scheme auth_manager" where
  "demo_manager = \<lparr>am_handlers = [(CheckTokenProtocol, token_as_handler demo_token_handler)],
     am_schemas = [(CheckTokenProtocol, token_as_handler demo_token_handler)]\<rparr>"

definition demo_auth :: "unit request_scheme auth_base" where
  "demo_auth = \<lparr>DEFAULT_SCHEMA = CheckTokenProtocol, ab_manager = demo_manager, ab_endpointsConfig = []\<rparr>"

lemma demo_manager_init:
  "run_state (AuthManager_Init (Factory_Create demo_methods) [CheckTokenProtocol] []) t = (Inr demo_manager, t)"
proof -
  have "ah_name (token_as_handler demo_token_handler) = CheckTokenProtocol"
    "ah_registers (token_as_handler demo_token_handler)" "ah_Handlers (token_as_handler demo_token_handler) = []"
    by (simp_all add: token_as_handler_def)
  then show ?thesis
    by (simp add: AuthManager_Init_def Factory_Create_def CheckTokenProtocol_def LoginphashTokenProtocol_def
        LoginphashSmsTokenProtocol_def LoginProtocol_def add_method_def AddHandler_def NewHandlerStore_def
        map_set_def demo_manager_def demo_methods_def)
qed

lemma demo_no_token: "header_of demo_request p k = []" "authUser demo_request = None"
  "genericError demo_request = None"
  by (simp_all add: header_of_def getHttpHeader_def demo_request_def demo_ctx_def op_ctx.defs request.defs)

theorem authorisation_contract_witness:
  "stack (snd (run_state (AuthBase_HandleRequest demo_auth ''/a'' acc_Get) demo_request)) = stack demo_request"
proof -
  obtain e s' where run: "run_state (AuthBase_HandleRequest demo_auth ''/a'' acc_Get) demo_request = (e, s')"
    by fastforce
  have "ab_manager demo_auth = demo_manager" by (simp add: demo_auth_def)
  from authorisation_contract [OF demo_methods_good this demo_manager_init run] run show ?thesis by simp
qed


theorem token_schema_required_witness:
  "genericError (snd (run_state (Schema_Handle (TokenSchema demo_token_handler)) demo_request)) \<noteq> None"
proof -
  obtain found e s' where run: "run_state (Schema_Handle (TokenSchema demo_token_handler)) demo_request = ((found, e), s')"
    by (metis prod.collapse)
  from token_schema_required [OF demo_no_token(1) run] run show ?thesis by simp
qed

theorem default_schema_open_witness:
  "fst (run_state (AuthBase_HandleRequest demo_auth ''/a'' acc_Get) demo_request) = None"
proof -
  obtain e s' where run: "run_state (AuthBase_HandleRequest demo_auth ''/a'' acc_Get) demo_request = (e, s')"
    by fastforce
  have "DEFAULT_SCHEMA demo_auth = CheckTokenProtocol"
    "endpoint_Schema (ab_endpointsConfig demo_auth) ''/a'' acc_Get = None"
    "store_Handler (am_schemas (ab_manager demo_auth)) CheckTokenProtocol = Inr (token_as_handler demo_token_handler)"
    by (simp_all add: demo_auth_def demo_manager_def endpoint_Schema_def store_Handler_def)
  from default_schema_open [OF this demo_no_token(1) run] run show ?thesis by simp
qed

theorem token_sms_schema_open_witness:
  "let a = \<lparr>sc_name = ''token_sms'', sc_config = Some \<lparr>sc_NAME = ''token_sms'', sc_AGGREGATION = agg_And\<rparr>,
       sc_handlers = [token_as_handler demo_token_handler, sms_as_handler demo_sms_handler]\<rparr> in
   fst (run_state (Schema_Handle a) demo_request) = (True, None)"
proof -
  let ?cfg = "\<lparr>sc_NAME = ''token_sms'', sc_AGGREGATION = agg_And\<rparr>"
  let ?a = "\<lparr>sc_name = ''token_sms'', sc_config = Some ?cfg,
       sc_handlers = [token_as_handler demo_token_handler, sms_as_handler demo_sms_handler]\<rparr>"
  obtain found e s' where run: "run_state (Schema_Handle ?a) demo_request = ((found, e), s')"
    by (metis prod.collapse)
  have a: "sc_config ?a = Some ?cfg" "sc_AGGREGATION ?cfg = agg_And"
    "sc_handlers ?a = [token_as_handler demo_token_handler, sms_as_handler demo_sms_handler]" by simp_all
  from token_sms_schema_open [OF a demo_no_token(1,2) run] run show ?thesis by simp
qed

theorem login_token_schema_witness:
  "case run_state (LoginphashToken_Init demo_methods NewLoginphashToken) demo_ctx of (sch, t') \<Rightarrow>
     authUser (snd (run_state (Schema_Handle sch) demo_request)) = None"
proof -
  obtain sch t' where init: "run_state (LoginphashToken_Init demo_methods NewLoginphashToken) demo_ctx = (sch, t')"
    by fastforce
  obtain found e s' where run: "run_state (Schema_Handle sch) demo_request = ((found, e), s')"
    by (metis prod.collapse)
  have users: "lh_users (me_login demo_methods) = db_user_sessions table_db plain_crypto demo_validators"
    by (simp add: demo_methods_def demo_login_handler_def)
  have "login_as table_db demo_validators demo_request = None" by (simp add: login_as_def demo_no_token)
  from login_token_schema [OF users init demo_no_token(2) this run] init run show ?thesis by simp
qed

end
