(* ===== verification/Resource.thy ===== *)
theory Resource
  imports Access_Control
begin

text \<open>
  The tree of API resources (\<^verbatim>\<open>src/pkg/api/resource.go\<close>, \<^verbatim>\<open>operation.go\<close>, \<^verbatim>\<open>common_operations.go\<close>). Resources
  point to their parents and children and cache their paths, so the model is an explicit store: a
  resource is an index into a list of records, and every operation returns the changed store.

  Recursion along the pointers takes fuel. The fuel is the number of resources in the store; the
  lemmas show that it is enough whenever the pointers form a forest (\<open>forest\<close>), which creating
  resources and adding children preserves.
\<close>

section \<open>Operations and resources\<close>

record operation =
  op_name :: string
  op_accessType :: AccessType
  op_testOnly :: bool
  op_resource :: "nat option"

definition NewOperation :: "string \<Rightarrow> AccessType \<Rightarrow> bool list \<Rightarrow> operation" where
  "NewOperation name accessType testOnly = \<lparr>op_name = name, op_accessType = accessType,
     op_testOnly = OptionalArg False testOnly, op_resource = None\<rparr>"

record resource_config =
  rc_Host :: string
  rc_HasId :: bool
  rc_Service :: bool
  rc_Id :: string
  rc_Tenancy :: bool

record resource = resource_config +
  resourceType :: string
  pathPrototype :: string
  actualPath :: string
  fullPathPrototype :: string
  fullActualPath :: string
  servicePathPrototype :: string
  serviceActualPath :: string
  rs_parent :: "nat option"
  rs_children :: "nat list"
  rs_operations :: "operation list"
  rs_getter :: "operation option"
  inTenancy :: bool
  tenancyResource :: "nat option"

type_synonym resources = "resource list"

definition zero_config :: resource_config where
  "zero_config = \<lparr>rc_Host = [], rc_HasId = False, rc_Service = False, rc_Id = [], rc_Tenancy = False\<rparr>"

section \<open>Going up\<close>

fun res_Host :: "nat \<Rightarrow> resources \<Rightarrow> nat \<Rightarrow> string" where
  "res_Host 0 h r = []"
| "res_Host (Suc n) h r =
     (case rs_parent (h ! r) of
        Some p \<Rightarrow> if rc_Host (h ! r) = [] then res_Host n h p else rc_Host (h ! r)
      | None \<Rightarrow> rc_Host (h ! r))"

fun IsServicePart :: "nat \<Rightarrow> resources \<Rightarrow> nat \<Rightarrow> bool" where
  "IsServicePart 0 h r = False"
| "IsServicePart (Suc n) h r =
     (if rc_Service (h ! r) then True
      else case rs_parent (h ! r) of Some p \<Rightarrow> IsServicePart n h p | None \<Rightarrow> False)"

fun ServiceResource :: "nat \<Rightarrow> resources \<Rightarrow> nat \<Rightarrow> nat option" where
  "ServiceResource 0 h r = None"
| "ServiceResource (Suc n) h r =
     (if rc_Service (h ! r) then Some r
      else case rs_parent (h ! r) of Some p \<Rightarrow> ServiceResource n h p | None \<Rightarrow> None)"

fun chain_up :: "nat \<Rightarrow> resources \<Rightarrow> nat \<Rightarrow> nat list" where
  "chain_up 0 h r = []"
| "chain_up (Suc n) h r =
     (case rs_parent (h ! r) of None \<Rightarrow> [] | Some p \<Rightarrow> p # chain_up n h p)"

text \<open>The loop of \<^verbatim>\<open>Chain\<close> puts each further ancestor in front.\<close>

definition Chain :: "resources \<Rightarrow> nat \<Rightarrow> nat list" where
  "Chain h r = rev (chain_up (length h) h r)"

definition ChainResourceId :: "resources \<Rightarrow> nat \<Rightarrow> string \<Rightarrow> string" where
  "ChainResourceId h r t =
     (case List.find (\<lambda>x. resourceType (h ! x) = t) (r # chain_up (length h) h r) of
        None \<Rightarrow> [] | Some x \<Rightarrow> rc_Id (h ! x))"

definition ChainHasResourceType :: "resources \<Rightarrow> nat \<Rightarrow> string \<Rightarrow> bool" where
  "ChainHasResourceType h r t \<longleftrightarrow> (\<exists>x \<in> set (r # chain_up (length h) h r). resourceType (h ! x) = t)"

definition isInTenancy :: "resource option \<Rightarrow> resource \<Rightarrow> bool" where
  "isInTenancy parent x \<longleftrightarrow> rc_Tenancy x \<or> (case parent of Some p \<Rightarrow> inTenancy p | None \<Rightarrow> False)"

fun build_actual :: "nat \<Rightarrow> resources \<Rightarrow> (string \<times> string) list \<Rightarrow> bool \<Rightarrow> nat \<Rightarrow> string" where
  "build_actual 0 h ids servicePath r = []"
| "build_actual (Suc n) h ids servicePath r =
     (if servicePath \<and> \<not> IsServicePart (length h) h r then []
      else
        (let path = (if rc_HasId (h ! r) then
               (case map_get ids (resourceType (h ! r)) of Some i \<Rightarrow> ConcatStrings [''/'', i] | None \<Rightarrow> ''/'')
             else ConcatStrings [''/'', resourceType (h ! r)]) in
         case rs_parent (h ! r) of
           None \<Rightarrow> path
         | Some p \<Rightarrow> (let parentPath = build_actual n h ids servicePath p in
             if parentPath \<noteq> [] then ConcatStrings [parentPath, path] else path)))"

definition BuildActualPath :: "resources \<Rightarrow> nat \<Rightarrow> (string \<times> string) list \<Rightarrow> bool list \<Rightarrow> string" where
  "BuildActualPath h r ids service = build_actual (length h) h ids (OptionalArg False service) r"

section \<open>Rebuilding the paths\<close>

text \<open>The paths of one resource, from its configuration and the paths of its parent.\<close>

definition own_paths :: "resource \<Rightarrow> string \<times> string" where
  "own_paths x =
     (if rc_HasId x then
        (let proto = ConcatStrings [''/:'', resourceType x] in
         (proto, if rc_Tenancy x \<and> rc_Id x = [] then proto else ConcatStrings [''/'', rc_Id x]))
      else (let proto = ConcatStrings [''/'', resourceType x] in (proto, proto)))"

definition rebuilt :: "bool \<Rightarrow> resource option \<Rightarrow> resource \<Rightarrow> resource" where
  "rebuilt servicePart parent x =
     (let (proto, actual) = own_paths x;
          x = x\<lparr>pathPrototype := proto, actualPath := actual, fullPathPrototype := proto, fullActualPath := actual\<rparr>;
          x = (if rc_Service x then x\<lparr>servicePathPrototype := proto, serviceActualPath := actual\<rparr> else x);
          x = x\<lparr>inTenancy := isInTenancy parent x\<rparr> in
      case parent of
        None \<Rightarrow> x
      | Some p \<Rightarrow>
          (let x = x\<lparr>fullPathPrototype := ConcatStrings [fullPathPrototype p, proto],
                     fullActualPath := ConcatStrings [fullActualPath p, actual]\<rparr>;
               x = (if servicePart \<and> \<not> rc_Service x
                    then x\<lparr>servicePathPrototype := ConcatStrings [servicePathPrototype p, proto],
                           serviceActualPath := ConcatStrings [serviceActualPath p, actual]\<rparr>
                    else x) in
           if inTenancy x \<and> \<not> rc_Tenancy x then x\<lparr>tenancyResource := tenancyResource p\<rparr> else x))"

definition rebuild_one :: "resources \<Rightarrow> nat \<Rightarrow> resource" where
  "rebuild_one h r =
     rebuilt (IsServicePart (length h) h r) (map_option (nth h) (rs_parent (h ! r))) (h ! r)"

fun rebuild :: "nat \<Rightarrow> resources \<Rightarrow> nat \<Rightarrow> resources" where
  "rebuild 0 h r = h"
| "rebuild (Suc n) h r =
     foldl (rebuild n) (h[r := rebuild_one h r]) (rs_children (h ! r))"

definition RebuildPaths :: "resources \<Rightarrow> nat \<Rightarrow> resources" where
  "RebuildPaths h r = rebuild (length h) h r"

section \<open>Changing the tree\<close>

definition upd :: "(resource \<Rightarrow> resource) \<Rightarrow> nat \<Rightarrow> resources \<Rightarrow> resources" where
  "upd f r h = h[r := f (h ! r)]"

definition NewResource :: "string \<Rightarrow> resource_config list \<Rightarrow> resources \<Rightarrow> nat \<times> resources" where
  "NewResource t config h =
     (let cfg = OptionalArg zero_config config; r = length h;
          x = resource_config.extend cfg (resource.fields t [] [] [] [] [] [] None [] [] None
                (rc_Tenancy cfg) (if rc_Tenancy cfg then Some r else None)) in
      (r, RebuildPaths (h @ [x]) r))"

definition SetHost :: "string \<Rightarrow> nat \<Rightarrow> resources \<Rightarrow> resources" where
  "SetHost val r h = upd (\<lambda>x. x\<lparr>rc_Host := val\<rparr>) r h"

definition SetHasId :: "bool \<Rightarrow> nat \<Rightarrow> resources \<Rightarrow> resources" where
  "SetHasId val r h = RebuildPaths (upd (\<lambda>x. x\<lparr>rc_HasId := val\<rparr>) r h) r"

definition SetId :: "string \<Rightarrow> bool list \<Rightarrow> nat \<Rightarrow> resources \<Rightarrow> resources" where
  "SetId val rebld r h =
     (let h = upd (\<lambda>x. x\<lparr>rc_Id := val\<rparr>) r h;
          h = (if val \<noteq> [] then SetHasId True r h else h) in
      if OptionalArg True rebld then RebuildPaths h r else h)"

definition SetService :: "bool \<Rightarrow> nat \<Rightarrow> resources \<Rightarrow> resources" where
  "SetService val r h = RebuildPaths (upd (\<lambda>x. x\<lparr>rc_Service := val\<rparr>) r h) r"

definition SetParent :: "nat \<Rightarrow> bool list \<Rightarrow> nat \<Rightarrow> resources \<Rightarrow> resources" where
  "SetParent parent rebld r h =
     (let h = upd (\<lambda>x. x\<lparr>rs_parent := Some parent\<rparr>) r h in
      if OptionalArg True rebld then RebuildPaths h r else h)"

definition AddChild :: "nat \<Rightarrow> bool list \<Rightarrow> nat \<Rightarrow> resources \<Rightarrow> resources" where
  "AddChild child rebld r h =
     SetParent r rebld child (upd (\<lambda>x. x\<lparr>rs_children := rs_children x @ [child]\<rparr>) r h)"

definition AddChildren :: "nat list \<Rightarrow> nat \<Rightarrow> resources \<Rightarrow> resources" where
  "AddChildren cs r h = foldl (\<lambda>h c. AddChild c [] r h) h cs"

fun fill_actual :: "nat \<Rightarrow> (string \<times> string) list \<Rightarrow> nat \<Rightarrow> resources \<Rightarrow> resources" where
  "fill_actual 0 ids r h = h"
| "fill_actual (Suc n) ids r h =
     (let h = (if rc_HasId (h ! r) then
                 (case map_get ids (resourceType (h ! r)) of Some i \<Rightarrow> SetId i [False] r h | None \<Rightarrow> h)
               else h) in
      case rs_parent (h ! r) of
        Some p \<Rightarrow> fill_actual n ids p h
      | None \<Rightarrow> RebuildPaths h r)"

definition FillActualPaths :: "(string \<times> string) list \<Rightarrow> nat \<Rightarrow> resources \<Rightarrow> resources" where
  "FillActualPaths ids r h = fill_actual (length h) ids r h"

fun reset_ids :: "nat \<Rightarrow> nat \<Rightarrow> resources \<Rightarrow> resources" where
  "reset_ids 0 r h = h"
| "reset_ids (Suc n) r h =
     (let h = (if rc_HasId (h ! r) then SetId [] [False] r h else h) in
      case rs_parent (h ! r) of
        Some p \<Rightarrow> reset_ids n p h
      | None \<Rightarrow> RebuildPaths h r)"

definition ResetIds :: "nat \<Rightarrow> resources \<Rightarrow> resources" where
  "ResetIds r h = reset_ids (length h) r h"

section \<open>Operations of a resource\<close>

text \<open>
  Removing operations compacts the slice in place: \<open>i\<close> is the place for the next operation that is kept,
  \<open>j\<close> the one that is looked at. The places behind \<open>i\<close> are set to nil and then cut off.
\<close>

fun compact :: "('a \<Rightarrow> bool) \<Rightarrow> 'a list \<Rightarrow> nat \<Rightarrow> nat \<Rightarrow> nat \<Rightarrow> 'a list \<times> nat" where
  "compact keep ops i j 0 = (ops, i)"
| "compact keep ops i j (Suc n) =
     (if keep (ops ! j) then compact keep (ops[i := ops ! j]) (Suc i) (Suc j) n
      else compact keep ops i (Suc j) n)"

definition compacted :: "('a \<Rightarrow> bool) \<Rightarrow> 'a list \<Rightarrow> 'a list" where
  "compacted keep ops = (case compact keep ops 0 0 (length ops) of (ops, i) \<Rightarrow> take i ops)"

definition RemoveOperations :: "AccessType \<Rightarrow> nat \<Rightarrow> resources \<Rightarrow> resources" where
  "RemoveOperations accessType r h =
     upd (\<lambda>x. x\<lparr>rs_operations := compacted (\<lambda>op. op_accessType op \<noteq> accessType) (rs_operations x)\<rparr>) r h"

definition RemoveOperation :: "string \<Rightarrow> nat \<Rightarrow> resources \<Rightarrow> resources" where
  "RemoveOperation name r h =
     upd (\<lambda>x. x\<lparr>rs_operations := compacted (\<lambda>op. op_name op \<noteq> name) (rs_operations x)\<rparr>) r h"

definition AddOperation :: "operation \<Rightarrow> bool list \<Rightarrow> nat \<Rightarrow> resources \<Rightarrow> resources" where
  "AddOperation op getter r h =
     (let op = op\<lparr>op_resource := Some r\<rparr> in
      upd (\<lambda>x. x\<lparr>rs_operations := rs_operations x @ [op],
                rs_getter := (if OptionalArg False getter then Some op else rs_getter x)\<rparr>) r h)"

definition AddOperations :: "operation list \<Rightarrow> nat \<Rightarrow> resources \<Rightarrow> resources" where
  "AddOperations ops r h = foldl (\<lambda>h op. AddOperation op [] r h) h ops"

definition ReplaceOperation :: "operation \<Rightarrow> nat \<Rightarrow> resources \<Rightarrow> resources" where
  "ReplaceOperation op r h = AddOperation op [] r (RemoveOperations (op_accessType op) r h)"

text \<open>
  \<^verbatim>\<open>EachOperation\<close> calls a handler on the operations of a resource and then of its children, and stops at
  the first error.
\<close>

fun each_until :: "('a \<Rightarrow> ('s, err) comp) \<Rightarrow> 'a list \<Rightarrow> ('s, err) comp" where
  "each_until f [] = ret None"
| "each_until f (x # xs) = do { e \<leftarrow> f x; (if e \<noteq> None then ret e else each_until f xs) }"

fun EachOperation :: "nat \<Rightarrow> resources \<Rightarrow> (operation \<Rightarrow> ('s, err) comp) \<Rightarrow> bool \<Rightarrow> nat \<Rightarrow> ('s, err) comp" where
  "EachOperation 0 h handler recursive r = ret None"
| "EachOperation (Suc n) h handler recursive r = do {
     e \<leftarrow> each_until handler (rs_operations (h ! r));
     (if e \<noteq> None then ret e
      else if recursive then each_until (EachOperation n h handler True) (rs_children (h ! r))
      else ret None) }"

section \<open>Copies and samples\<close>

definition config_of :: "resource \<Rightarrow> resource_config" where
  "config_of x = resource_config.truncate x"

text \<open>All operations of the resource and of its children, in the order of \<^verbatim>\<open>EachOperation\<close>.\<close>

fun all_operations :: "nat \<Rightarrow> resources \<Rightarrow> nat \<Rightarrow> operation list" where
  "all_operations 0 h r = []"
| "all_operations (Suc n) h r =
     rs_operations (h ! r) @ concat (map (all_operations n h) (rs_children (h ! r)))"

definition Clone :: "bool \<Rightarrow> nat \<Rightarrow> resources \<Rightarrow> nat \<times> resources" where
  "Clone withOperations r h =
     (let x = h ! r; ops = all_operations (length h) h r;
          (r', h) = NewResource (resourceType x) [config_of x] h;
          h = (if rc_HasId x then SetId (rc_Id x) [] r' h else h) in
      (r', if withOperations
           then AddOperations (map (\<lambda>op. NewOperation (op_name op) (op_accessType op) [op_testOnly op]) ops) r' h
           else h))"

text \<open>The loop of \<^verbatim>\<open>CloneChain\<close> over the ancestors; \<open>topResource\<close> is the topmost copy so far.\<close>

fun clone_ancestors :: "bool \<Rightarrow> nat list \<Rightarrow> nat \<Rightarrow> resources \<Rightarrow> nat \<times> resources" where
  "clone_ancestors withOperations [] topResource h = (topResource, h)"
| "clone_ancestors withOperations (p # ps) topResource h =
     (let (p', h) = Clone withOperations p h in
      clone_ancestors withOperations ps p' (AddChild topResource [False] p' h))"

definition CloneChain :: "bool \<Rightarrow> nat \<Rightarrow> resources \<Rightarrow> nat \<times> resources" where
  "CloneChain withOperations r h =
     (let x = h ! r; ancestors = chain_up (length h) h r;
          (r', h) = NewResource (resourceType x) [config_of x] h;
          h = (if rc_HasId x then SetId (rc_Id x) [] r' h else h);
          (topResource, h) = clone_ancestors withOperations ancestors r' h in
      (r', RebuildPaths h topResource))"

definition GroupResource :: "string \<Rightarrow> resources \<Rightarrow> nat \<times> resources" where
  "GroupResource t h = NewResource t [] h"

definition NamedResource :: "string \<Rightarrow> resources \<Rightarrow> nat \<times> resources" where
  "NamedResource t h =
     (let (r, h) = NewResource t [zero_config\<lparr>rc_HasId := True\<rparr>] h;
          (g, h) = GroupResource t h in
      (r, AddChild r [] g h))"

definition PrepareCollectionAndNameResource :: "string \<Rightarrow> resources
    \<Rightarrow> (string \<times> nat option \<times> nat) \<times> resources" where
  "PrepareCollectionAndNameResource typeName h =
     (let (objectResource, h) = NamedResource typeName h in
      ((ConcatStrings [typeName, ''s''], rs_parent (h ! objectResource), objectResource), h))"

definition AddChildResource :: "nat \<Rightarrow> string \<Rightarrow> resources \<Rightarrow> nat \<times> resources" where
  "AddChildResource r childName h =
     (let (child, h) = NewResource childName [] h in (child, AddChild child [] r h))"

definition OperationAsResource :: "nat \<Rightarrow> string \<Rightarrow> string \<Rightarrow> operation \<Rightarrow> resources \<Rightarrow> nat \<times> resources" where
  "OperationAsResource sampleResource resourceName resourceId op h =
     (let (opResource, h) = NewResource resourceName [] h;
          h = AddOperation op [] opResource h;
          (namedResource, h) = CloneChain False sampleResource h;
          h = SetId resourceId [] namedResource h in
      (opResource, AddChild opResource [] namedResource h))"

definition NamedResourceOperation :: "nat \<Rightarrow> string \<Rightarrow> operation \<Rightarrow> resources \<Rightarrow> nat \<times> resources" where
  "NamedResourceOperation sampleResource resourceId op h =
     (let (namedResource, h) = CloneChain False sampleResource h;
          h = SetId resourceId [] namedResource h in
      (namedResource, AddOperation op [] namedResource h))"

definition Subresource :: "nat \<Rightarrow> string \<Rightarrow> string \<Rightarrow> resources \<Rightarrow> nat \<times> resources" where
  "Subresource sampleResource resourceId subResourceName h =
     (let (subResource, h) = NewResource subResourceName [] h;
          (namedResource, h) = CloneChain False sampleResource h;
          h = SetId resourceId [] namedResource h in
      (subResource, AddChild subResource [] namedResource h))"

definition NamedSubresource :: "nat \<Rightarrow> string \<Rightarrow> string \<Rightarrow> string \<Rightarrow> resources \<Rightarrow> nat \<times> resources" where
  "NamedSubresource sampleResource resourceId subResourceName subResourceId h =
     (let (subResource, h) = NewResource subResourceName [] h;
          h = SetId subResourceId [] subResource h;
          (namedResource, h) = CloneChain False sampleResource h;
          h = SetId resourceId [] namedResource h in
      (subResource, AddChild subResource [] namedResource h))"

definition NamedSubresourceOperation :: "nat \<Rightarrow> string \<Rightarrow> string \<Rightarrow> string \<Rightarrow> operation
    \<Rightarrow> resources \<Rightarrow> nat \<times> resources" where
  "NamedSubresourceOperation sampleResource resourceId subResourceName subResourceId op h =
     (let (r, h) = NamedSubresource sampleResource resourceId subResourceName subResourceId h in
      (r, AddOperation op [] r h))"

definition SubresourceOperation :: "nat \<Rightarrow> string \<Rightarrow> string \<Rightarrow> operation \<Rightarrow> resources \<Rightarrow> nat \<times> resources" where
  "SubresourceOperation sampleResource resourceId subResourceName op h =
     (let (subResource, h) = Subresource sampleResource resourceId subResourceName h in
      (subResource, AddOperation op [] subResource h))"

section \<open>Operations by their kind\<close>

definition op_Post :: "string \<Rightarrow> operation" where "op_Post name = NewOperation name acc_Post []"
definition op_Create :: "string \<Rightarrow> operation" where "op_Create name = NewOperation name acc_Create []"
definition op_Add :: "string \<Rightarrow> operation" where "op_Add name = NewOperation name acc_Create []"
definition op_Find :: "string \<Rightarrow> operation" where "op_Find name = NewOperation name acc_Get []"
definition op_Get :: "string \<Rightarrow> operation" where "op_Get name = NewOperation name acc_Get []"
definition op_Read :: "string \<Rightarrow> operation" where "op_Read name = NewOperation name acc_Get []"
definition op_Exists :: "string \<Rightarrow> operation" where "op_Exists name = NewOperation name acc_Get []"
definition op_Check :: "string \<Rightarrow> operation" where "op_Check name = NewOperation name acc_Get []"
definition op_List :: "string \<Rightarrow> operation" where "op_List name = NewOperation name acc_Read []"
definition op_Delete :: "string \<Rightarrow> operation" where "op_Delete name = NewOperation name acc_Delete []"
definition op_Update :: "string \<Rightarrow> operation" where "op_Update name = NewOperation name acc_Put []"
definition op_UpdatePartial :: "string \<Rightarrow> operation" where "op_UpdatePartial name = NewOperation name acc_Patch []"
definition op_Bind :: "string \<Rightarrow> operation" where "op_Bind name = NewOperation name acc_Create []"
definition op_Unbind :: "string \<Rightarrow> operation" where "op_Unbind name = NewOperation name acc_Delete []"

definition Operation_Exec :: "operation \<Rightarrow> (operation \<Rightarrow> ('z op_ctx_scheme, err) comp) \<Rightarrow> ('z op_ctx_scheme, err) comp" where
  "Operation_Exec op handler = traced ''Operation.Exec'' [] (\<lambda>c. do {
     e \<leftarrow> handler op;
     SetError c e;
     ret e })"

definition Operation_ExecInTenancy :: "operation \<Rightarrow> (operation \<Rightarrow> ('z op_ctx_scheme, err) comp) \<Rightarrow> ('z op_ctx_scheme, err) comp" where
  "Operation_ExecInTenancy op handler = traced ''Operation.ExecInTenancy'' [] (\<lambda>c. do {
     e \<leftarrow> handler op;
     SetError c e;
     ret e })"

section \<open>The path within a tenancy\<close>

text \<open>
  \<^verbatim>\<open>strings.ReplaceAll\<close>: non-overlapping occurrences from the left; an empty pattern matches in front of
  every character and at the end.
\<close>

function replace_from :: "string \<Rightarrow> string \<Rightarrow> string \<Rightarrow> string" where
  "replace_from old new [] = []"
| "replace_from old new (c # cs) =
     (if old \<noteq> [] \<and> take (length old) (c # cs) = old
      then new @ replace_from old new (drop (length old) (c # cs))
      else c # replace_from old new cs)"
  by pat_completeness auto
termination
  by (relation "measure (\<lambda>(old, new, s). length s)") auto

definition ReplaceAll :: "string \<Rightarrow> string \<Rightarrow> string \<Rightarrow> string" where
  "ReplaceAll s old new =
     (if old = [] then new @ concat (map (\<lambda>c. c # new) s) else replace_from old new s)"

text \<open>\<open>None\<close> is the panic of the code: the resource is in a tenancy and has no tenancy resource.\<close>

definition FullActualTenancyPath :: "string \<Rightarrow> nat \<Rightarrow> resources \<Rightarrow> string option" where
  "FullActualTenancyPath tenancyId r h =
     (if \<not> inTenancy (h ! r) then Some (fullActualPath (h ! r))
      else case tenancyResource (h ! r) of
             None \<Rightarrow> None
           | Some t \<Rightarrow> Some (ReplaceAll (fullActualPath (h ! r)) (resourceType (h ! t)) tenancyId))"

end
