(* ===== verification/Rest_Server.thy ===== *)
theory Rest_Server
  imports Auth_Schema Resource
begin

text \<open>
  The REST server (\<^verbatim>\<open>src/pkg/api/api_server/rest_api_gin_server\<close>): how a request is taken in, brought
  through tenancy, anti-CSRF check and authorisation to its endpoint, and answered. The web framework
  gin is not part of the repository; of it the model has the request's fields, the list of what was
  written to the client and the registered routes.
\<close>

section \<open>Requests and responses\<close>

text \<open>What is written to the client: a status with a redirection, a text, a JSON value or nothing.\<close>

datatype reply =
    Redirect int string
  | Text int string
  | Json int gval
  | Status int

fun reply_status :: "reply \<Rightarrow> int" where
  "reply_status (Redirect code path) = code"
| "reply_status (Text code text) = code"
| "reply_status (Json code body) = code"
| "reply_status (Status code) = code"

text \<open>
  \<open>replies\<close> is what gin has sent, \<open>gin_Errors\<close> the errors gin collects. The other fields are the response
  that the endpoint fills in and what the request remembers of its beginning.
\<close>

record http_request = request +
  resp_Message :: "gval option"
  resp_Text :: string
  resp_RedirectPath :: string
  resp_httpCode :: int
  replies :: "reply list"
  gin_Errors :: "string list"
  initialPath :: string
  req_start :: int

text \<open>A message as it is set; the hypertext links that a server may be configured to add are in \<open>Api_Endpoint\<close>.\<close>

definition Response_SetMessage :: "gval \<Rightarrow> ('z http_request_scheme, unit) comp" where
  "Response_SetMessage message = modifys (\<lambda>s. s\<lparr>resp_Message := Some message\<rparr>)"

definition Response_SetText :: "string \<Rightarrow> ('z http_request_scheme, unit) comp" where
  "Response_SetText text = modifys (\<lambda>s. s\<lparr>resp_Text := text\<rparr>)"

definition Response_SetRedirectPath :: "string \<Rightarrow> ('z http_request_scheme, unit) comp" where
  "Response_SetRedirectPath path = modifys (\<lambda>s. s\<lparr>resp_RedirectPath := path\<rparr>)"

definition gin_send :: "reply \<Rightarrow> ('z http_request_scheme, unit) comp" where
  "gin_send r = modifys (\<lambda>s. s\<lparr>replies := replies s @ [r]\<rparr>)"

text \<open>An error as it is sent to the client.\<close>

definition ResponseError :: "string \<Rightarrow> string \<Rightarrow> string \<Rightarrow> gval" where
  "ResponseError code message details =
     VMap [(''code'', VStr code), (''message'', VStr message), (''details'', VStr details)]"

section \<open>The server\<close>

text \<open>
  \<open>ep_operation\<close> is the operation that the endpoint embeds; its resource is in the store of the server.
\<close>

record 's endpoint =
  ep_operation :: operation
  ep_errors :: errors_extender
  ep_HandleRequest :: "('s, err) comp"

text \<open>
  The configuration and the state of the server. \<open>TenancyByPath\<close>, \<open>IsMultiTenancy\<close> and the database of the
  operation logs are what it calls of other packages. \<open>DumpRequest\<close> and \<open>DumpResponse\<close> stand for the
  text of a request and of a response in verbose mode, \<open>DataLength\<close> for the number of bytes that
  a reply takes.
\<close>

record 's server =
  PATH_PREFIX :: string
  API_VERSION :: string
  VERBOSE :: bool
  ALLOW_NOT_ACTIVE_TENANCY :: bool
  AUTH_FROM_TENANCY_DB :: bool
  OPLOG_USER_TYPE :: string
  sv_Testing :: bool
  sv_app :: "string \<times> string \<times> string"
  sv_db :: string
  sv_cache :: string
  sv_dbhandlers :: dbhandlers
  sv_errors :: error_manager
  sv_auth :: "'s auth_base"
  sv_csrf :: "csrf_handler option"
  IsMultiTenancy :: bool
  TenancyByPath :: "string \<Rightarrow> goerror + tenancy"
  tenancyResource_of :: "nat option"
  sv_resources :: resources
  sv_routes :: "((string \<times> string) \<times> 's endpoint) list"
  DumpRequest :: "'s \<Rightarrow> string"
  DumpResponse :: "'s \<Rightarrow> gval option \<Rightarrow> fields"
  DataLength :: "reply \<Rightarrow> int"

definition TenancyParameter :: string where "TenancyParameter = ''tenancy''"

definition ep_resource :: "'s server \<Rightarrow> 's endpoint \<Rightarrow> nat" where
  "ep_resource sv ep = (case op_resource (ep_operation ep) of Some r \<Rightarrow> r | None \<Rightarrow> 0)"

definition GetResourceId :: "string \<Rightarrow> 'z request_scheme \<Rightarrow> string" where
  "GetResourceId rtype s = (case map_get (req_params s) rtype of Some v \<Rightarrow> v | None \<Rightarrow> [])"

text \<open>The method \<^verbatim>\<open>Message\<close> of a generic error, which leaves the original error out.\<close>

fun gerr_Message :: "err \<Rightarrow> string" where
  "gerr_Message (Some (ErrorBase c m d orig)) = m"
| "gerr_Message e = Message_of e"

definition MakeResponseError :: "'s server \<Rightarrow> err \<Rightarrow> int \<times> gval" where
  "MakeResponseError sv gerr =
     (ErrorProtocolCode (sv_errors sv) (Code gerr), ResponseError (Code gerr) (gerr_Message gerr) (Details_of gerr))"

section \<open>Beginning of a request\<close>

text \<open>
  \<^verbatim>\<open>ContextBase.Init\<close> on a new context, whose other fields have their zero values, and what \<^verbatim>\<open>Request.Init\<close>
  does around it.
\<close>

definition ContextBase_Init :: "string \<Rightarrow> string \<Rightarrow> fields list \<Rightarrow> ('z op_ctx_scheme, unit) comp" where
  "ContextBase_Init db ch fs = do {
     modifys (\<lambda>s. s\<lparr>calls := [], stack := [], errorStack := None, genericError := None, ctx_name := [],
       errorAsWarn := False, oplogs := [], origin := None, dbTransaction := None,
       writeCloseLog := True, mainDb := db, curDb := db\<rparr>);
     i \<leftarrow> GenerateID;
     modifys (\<lambda>s. s\<lparr>ctx_id := i, loggerFields := AppendFieldsNew (AppendFieldsNew [(''context'', VStr i)] []) fs,
       curCache := ch\<rparr>);
     Log LogTrace ''open'' None [] }"

definition Request_Init :: "'s server \<Rightarrow> fields list \<Rightarrow> ('z http_request_scheme, unit) comp" where
  "Request_Init sv fs = do {
     t \<leftarrow> Now;
     modifys (\<lambda>s. s\<lparr>authUser := None, sessionId := [], clientId := [], tenancy_of := None, req_start := t\<rparr>);
     ContextBase_Init (sv_db sv) (sv_cache sv) fs;
     modifys (\<lambda>s. s\<lparr>errorManager := sv_errors sv\<rparr>);
     modifys (\<lambda>s. s\<lparr>resp_Message := None, resp_Text := [], resp_RedirectPath := [], resp_httpCode := StatusOK\<rparr>) }"

section \<open>End of a request\<close>

text \<open>
  The latency in milliseconds is rounded up; the code computes it with floating point numbers, which
  are exact for the durations of requests.
\<close>

definition latency_ms :: "int \<Rightarrow> int" where
  "latency_ms ns = - ((- ns) div 1000000)"

definition logGinRequest :: "'s server \<Rightarrow> string \<Rightarrow> int \<Rightarrow> fields list \<Rightarrow> ('z http_request_scheme, unit) comp" where
  "logGinRequest sv path start extraFields = do {
     now \<leftarrow> Now;
     r \<leftarrow> gets (\<lambda>s. last (replies s));
     let statusCode = reply_status r;
     let dataLength = (if DataLength sv r < 0 then 0 else DataLength sv r);
     fs \<leftarrow> gets (\<lambda>s. [(''hostname'', VStr (snd (snd (sv_app sv)))), (''http_code'', VInt statusCode),
       (''latency'', VInt (latency_ms (now - start))), (''client_ip'', VStr (req_ip s)),
       (''method'', VStr (req_method s)), (''path'', VStr path),
       (''referer'', VStr (getHttpHeader s ''referer'')), (''data_length'', VInt dataLength),
       (''user_agent'', VStr (req_agent s))]);
     let fs = foldl AppendMap fs (take 1 extraFields);
     errs \<leftarrow> gets gin_Errors;
     (if length errs > 0 then Log LogError ''HTTP request'' (errors_New (concat errs)) [fs]
      else if statusCode \<ge> StatusInternalServerError
        then Log LogError ''HTTP request'' (errors_New ''internal server error'') [fs]
      else if statusCode \<ge> StatusBadRequest then Log LogWarn ''HTTP request'' None [fs]
      else Log LogInfo ''HTTP request'' None [fs]) }"

text \<open>The first part of \<^verbatim>\<open>Request.Close\<close> writes the response and returns its body.\<close>

definition send_response :: "'s server \<Rightarrow> ('z http_request_scheme, gval option) comp" where
  "send_response sv = do {
     ge \<leftarrow> gets genericError;
     (if ge = None then do {
        redirect \<leftarrow> gets resp_RedirectPath;
        text \<leftarrow> gets resp_Text;
        message \<leftarrow> gets resp_Message;
        code \<leftarrow> gets resp_httpCode;
        (if redirect \<noteq> [] then gin_send (Redirect 302 redirect)
         else if text \<noteq> [] then gin_send (Text code text)
         else (case message of Some m \<Rightarrow> gin_send (Json code m) | None \<Rightarrow> gin_send (Status code)));
        SetLoggerField ''status'' (VStr ''success'');
        ret (if redirect = [] \<and> text = [] then message else None) }
      else do {
        let (code, e) = MakeResponseError sv ge;
        (if code < StatusInternalServerError then SetErrorAsWarn True else ret ());
        SetLoggerField ''status'' (VStr (Code ge));
        gin_send (Json code e);
        ret (Some e) }) }"

definition finish_request :: "('z http_request_scheme) server \<Rightarrow> gval option \<Rightarrow> ('z http_request_scheme, unit) comp" where
  "finish_request sv reponseBody = do {
     (if VERBOSE sv then do {
        fs \<leftarrow> gets (\<lambda>s. DumpResponse sv s reponseBody);
        Log LogDebug ''Dump HTTP response'' None [fs] }
      else ret ());
     Close (sv_dbhandlers sv) [[]];
     path \<leftarrow> gets initialPath;
     start \<leftarrow> gets req_start;
     logGinRequest sv path start [] }"

definition Request_Close :: "('z http_request_scheme) server \<Rightarrow> ('z http_request_scheme, unit) comp" where
  "Request_Close sv = do {
     reponseBody \<leftarrow> send_response sv;
     finish_request sv reponseBody }"

section \<open>Handling of a request\<close>

text \<open>The part of \<^verbatim>\<open>requestHandler\<close> that finds the tenancy: the tenancy and the error.\<close>

definition extract_tenancy :: "('z http_request_scheme) server \<Rightarrow> ('z http_request_scheme) endpoint \<Rightarrow> nat
    \<Rightarrow> ('z http_request_scheme, tenancy option \<times> err) comp" where
  "extract_tenancy sv ep c =
     (if IsMultiTenancy sv \<and> inTenancy (sv_resources sv ! ep_resource sv ep) then do {
        tenancyInPath \<leftarrow> gets (GetResourceId TenancyParameter);
        SetLoggerField ''tenancy'' (VStr tenancyInPath);
        (case TenancyByPath sv tenancyInPath of
           Inl e \<Rightarrow> do {
             SetGenericErrorCode ErrorCodeNotFound [];
             SetMessage c ''unknown tenancy'';
             ret (None, Some e) }
         | Inr tenancy \<Rightarrow>
             if \<not> ALLOW_NOT_ACTIVE_TENANCY sv \<and> \<not> t_active tenancy then do {
               SetGenericErrorCode ErrorCodeNotFound [];
               ret (Some tenancy, errors_New ''tenancy is not active'') }
             else do {
               (if AUTH_FROM_TENANCY_DB sv then SetTenancy tenancy else ret ());
               ret (Some tenancy, None) }) }
      else ret (None, None))"

definition check_request :: "('z http_request_scheme) server \<Rightarrow> ('z http_request_scheme) endpoint \<Rightarrow> nat
    \<Rightarrow> ('z http_request_scheme, tenancy option \<times> err) comp" where
  "check_request sv ep c = do {
     (tenancy, e) \<leftarrow> extract_tenancy sv ep c;
     e \<leftarrow> (if e = None then
             (case sv_csrf sv of
                None \<Rightarrow> ret e
              | Some csrf \<Rightarrow> do { (_, e) \<leftarrow> Csrf_Handle csrf; ret e })
           else ret e);
     ret (tenancy, e) }"

definition begin_request :: "('z http_request_scheme) server \<Rightarrow> ('z http_request_scheme) endpoint
    \<Rightarrow> ('z http_request_scheme, nat) comp" where
  "begin_request sv ep = do {
     Request_Init sv [];
     SetName (op_name (ep_operation ep));
     c \<leftarrow> TraceInMethod ''Server.RequestHandler'' [];
     (if VERBOSE sv then do {
        b \<leftarrow> gets (DumpRequest sv);
        Log LogDebug ''Dump HTTP request'' None [[(''request'', VStr b)]] }
      else ret ());
     ret c }"

text \<open>Everything before authorisation: the call context of the handler, the tenancy and the error so far.\<close>

definition before_auth :: "('z http_request_scheme) server \<Rightarrow> ('z http_request_scheme) endpoint
    \<Rightarrow> ('z http_request_scheme, nat \<times> tenancy option \<times> err) comp" where
  "before_auth sv ep = do {
     c \<leftarrow> begin_request sv ep;
     (tenancy, e) \<leftarrow> check_request sv ep c;
     ret (c, tenancy, e) }"

definition authorise :: "('z http_request_scheme) server \<Rightarrow> ('z http_request_scheme) endpoint \<Rightarrow> err
    \<Rightarrow> ('z http_request_scheme, err) comp" where
  "authorise sv ep e =
     (if e = None then do {
        e \<leftarrow> AuthBase_HandleRequest (sv_auth sv) (servicePathPrototype (sv_resources sv ! ep_resource sv ep))
               (op_accessType (ep_operation ep));
        (if e \<noteq> None then SetGenericErrorCode ErrorCodeUnauthorized [] else ret ());
        ret e }
      else ret e)"

definition set_origin :: "('z http_request_scheme) server \<Rightarrow> ('z http_request_scheme, unit) comp" where
  "set_origin sv = do {
     let (app, inst, host) = sv_app sv;
     u \<leftarrow> gets authUser;
     ip \<leftarrow> gets req_ip;
     client \<leftarrow> gets clientId;
     let ori = NewOrigin app inst host;
     let ori = (case u of None \<Rightarrow> ori | Some u \<Rightarrow> ori\<lparr>o_User := au_display u\<rparr>);
     SetOrigin (ori\<lparr>o_Source := ip, o_SessionClient := client, o_UserType := OPLOG_USER_TYPE sv\<rparr>) }"

definition requestHandler :: "('z http_request_scheme) server \<Rightarrow> ('z http_request_scheme) endpoint
    \<Rightarrow> ('z http_request_scheme, unit) comp" where
  "requestHandler sv ep = do {
     (c, tenancy, e) \<leftarrow> before_auth sv ep;
     e \<leftarrow> authorise sv ep e;
     set_origin sv;
     (case tenancy of
        None \<Rightarrow> ret ()
      | Some t \<Rightarrow> if \<not> AUTH_FROM_TENANCY_DB sv then SetTenancy t else ret ());
     e \<leftarrow> (if e = None then do {
             e \<leftarrow> ep_HandleRequest ep;
             (if e \<noteq> None then SetGenericErrorCode ErrorCodeInternalServerError [] else ret ());
             ret e }
           else ret e);
     (if e \<noteq> None then do { SetError c e; ret () } else ret ());
     TraceOutMethod;
     Request_Close sv }"

section \<open>Endpoints\<close>

text \<open>
  \<^verbatim>\<open>AddEndpoint\<close>; \<open>None\<close> is its panic on an endpoint whose access has no HTTP method and the nil
  dereference when the resource of an endpoint in a tenancy is in no service. An endpoint for tests only
  is not added outside testing.
\<close>

definition AddEndpoint :: "'s endpoint \<Rightarrow> bool list \<Rightarrow> 's server \<Rightarrow> 's server option" where
  "AddEndpoint ep multitenancy sv =
     (if op_testOnly (ep_operation ep) \<and> \<not> sv_Testing sv then Some sv
      else
        (let sv = sv\<lparr>sv_errors := AttachToErrorManager (ep_errors ep) (sv_errors sv)\<rparr>;
             method = Access2HttpMethod (op_accessType (ep_operation ep)) in
         if method = [] then None
         else case (if IsMultiTenancy sv \<and> OptionalArg False multitenancy then
                      (case (tenancyResource_of sv,
                             ServiceResource (length (sv_resources sv)) (sv_resources sv) (ep_resource sv ep)) of
                         (Some t, Some service) \<Rightarrow> Some (AddChild service [] t (sv_resources sv))
                       | _ \<Rightarrow> None)
                    else Some (sv_resources sv)) of
           None \<Rightarrow> None
         | Some rs \<Rightarrow>
             (let sv = sv\<lparr>sv_resources := rs\<rparr>;
                  path = PATH_PREFIX sv @ ''/'' @ API_VERSION sv @ fullPathPrototype (rs ! ep_resource sv ep) in
              Some (sv\<lparr>sv_routes := sv_routes sv @ [((method, path), ep)]\<rparr>))))"

text \<open>The resource of the tenancies, which \<^verbatim>\<open>Server.Init\<close> creates.\<close>

definition init_tenancy_resource :: "'s server \<Rightarrow> 's server" where
  "init_tenancy_resource sv =
     (if IsMultiTenancy sv then
        (let (parent, h) = NewResource TenancyParameter [] (sv_resources sv);
             (t, h) = NewResource TenancyParameter [zero_config\<lparr>rc_HasId := True, rc_Tenancy := True\<rparr>] h in
         sv\<lparr>tenancyResource_of := Some t, sv_resources := AddChild t [] parent h\<rparr>)
      else sv)"

text \<open>The endpoints of the status service.\<close>

definition StatusResponse :: "string \<Rightarrow> gval" where
  "StatusResponse status = VMap [(''status'', VStr status)]"

definition CheckStatus_HandleRequest :: "('z http_request_scheme, err) comp" where
  "CheckStatus_HandleRequest = do { Response_SetMessage (StatusResponse ''running''); ret None }"

definition CheckAccess_HandleRequest :: "('z http_request_scheme, err) comp" where
  "CheckAccess_HandleRequest = do { Response_SetMessage (StatusResponse ''success''); ret None }"

definition CheckSms_HandleRequest :: "('z http_request_scheme, err) comp" where
  "CheckSms_HandleRequest = do {
     content \<leftarrow> gets req_content;
     Response_SetText content;
     ret None }"

end
