(* ===== verification/Rest_Auth.thy ===== *)
theory Rest_Auth
  imports Rest_Server
begin

text \<open>
  What the server makes of the results of authorisation: a request that is not authenticated is answered
  with an error, whatever its endpoint does (\<open>unauthenticated_request_refused\<close>); but with a token that has
  expired the endpoint is still executed (\<open>expired_token_endpoint_runs\<close>).
\<close>

lemma run_unit: "run_state (m :: ('s, unit) comp) s = ((), snd (run_state m s))"
  by (metis (full_types) old.unit.exhaust prod.collapse)

section \<open>An error that was reported stays\<close>

definition sticky :: "'z op_ctx_scheme \<Rightarrow> 'z op_ctx_scheme \<Rightarrow> bool" where
  "sticky s s' \<longleftrightarrow> (genericError s \<noteq> None \<longrightarrow> genericError s' = genericError s)"

lemma preorder_sticky [simp, io_rel]: "preorder sticky"
  by (rule preorderI) (auto simp: sticky_def)

lemma sticky_frame: "state_io_rel frame m \<Longrightarrow> state_io_rel sticky m"
  by (auto simp: state_io_rel_def frame_def sticky_def)

lemma sticky_TraceOut [io_rel]: "state_io_rel sticky TraceOutMethod"
  unfolding TraceOutMethod_def
  by (intro io_rel io_rel_modifys sticky_frame [OF frame_Log] sticky_frame [OF frame_UnsetLoggerField]
      sticky_frame [OF frame_SetLoggerField]) (simp_all add: sticky_def)

lemma sticky_set_origin [io_rel]: "state_io_rel sticky (set_origin sv)"
  unfolding set_origin_def SetOrigin_def Let_def
  by (intro io_rel io_rel_modifys) (simp add: sticky_def)

definition after_auth :: "('z http_request_scheme) server \<Rightarrow> ('z http_request_scheme) endpoint \<Rightarrow> nat
    \<Rightarrow> tenancy option \<Rightarrow> err \<Rightarrow> ('z http_request_scheme, unit) comp" where
  "after_auth sv ep c tenancy e = do {
     set_origin sv;
     (case tenancy of
        None \<Rightarrow> ret ()
      | Some t \<Rightarrow> if \<not> AUTH_FROM_TENANCY_DB sv then SetTenancy t else ret ());
     e \<leftarrow> (if e = None then do {
             e \<leftarrow> ep_HandleRequest ep;
             (if e \<noteq> None then SetGenericErrorCode ErrorCodeInternalServerError [] else ret ());
             ret e }
           else ret e);
     (if e \<noteq> None then do { SetError c e; ret () } else ret ());
     TraceOutMethod }"

lemma requestHandler_parts:
  "requestHandler sv ep = do {
     (c, tenancy, e) \<leftarrow> before_auth sv ep;
     e \<leftarrow> authorise sv ep e;
     after_auth sv ep c tenancy e;
     Request_Close sv }"
  unfolding requestHandler_def after_auth_def
  by (simp add: State_Monad.bind_assoc case_prod_beta)

lemma sticky_after_auth:
  assumes "state_io_rel frame (ep_HandleRequest ep)"
  shows "state_io_rel sticky (after_auth sv ep c tenancy e)"
  unfolding after_auth_def
  by (intro io_rel sticky_frame [OF assms] sticky_frame [OF frame_SetTenancy]
      sticky_frame [OF frame_SetGenericErrorCode] sticky_frame [OF frame_SetError])

section \<open>The reply\<close>

lemma replies_core [simp]: "replies (core s) = replies s"
  by (simp add: core_def)

lemma keeps_replies_Close [io_rel]: "state_io_rel (keeps replies) (Close h msg)"
  unfolding Close_def DumpLog_def Oplog_Write_def InitObject_def InitCreatedAt_def SetID_def ClearError_def
    Log_def SetLoggerField_def UnsetLoggerField_def Let_def
  by (intro io_rel io_rel_modifys) (simp_all add: keeps_def)

lemma keeps_replies_log [io_rel]: "state_io_rel (keeps replies) (logGinRequest sv path start fs)"
  unfolding logGinRequest_def Log_def Let_def
  by (intro io_rel io_rel_modifys) (simp_all add: keeps_def)

definition error_reply :: "'s server \<Rightarrow> err \<Rightarrow> reply" where
  "error_reply sv g = Json (fst (MakeResponseError sv g)) (snd (MakeResponseError sv g))"

lemma wp_keeps_mono:
  assumes "state_io_rel (keeps f) m" "\<And>r s'. f s' = f s \<Longrightarrow> Q r s'"
  shows "wp m Q s"
  by (rule wp_mono [OF wp_keeps [OF assms(1)] assms(2)])

lemma keeps_replies_finish [io_rel]: "state_io_rel (keeps replies) (finish_request sv b)"
  unfolding finish_request_def Log_def
  by (intro io_rel io_rel_modifys) (simp_all add: keeps_def)

lemma send_response_error:
  "genericError s \<noteq> None \<Longrightarrow>
   replies (snd (run_state (send_response sv) s)) = replies s @ [error_reply sv (genericError s)]"
  by (auto simp: send_response_def MakeResponseError_def SetErrorAsWarn_def SetLoggerField_def gin_send_def
      error_reply_def Let_def)

lemma Request_Close_error:
  assumes "genericError s \<noteq> None" "run_state (Request_Close sv) s = ((), s')"
  shows "replies s' = replies s @ [error_reply sv (genericError s)]"
proof -
  obtain b s1 where b: "run_state (send_response sv) s = (b, s1)" by fastforce
  with assms(2) have "run_state (finish_request sv b) s1 = ((), s')" by (simp add: Request_Close_def)
  from keeps_run [OF keeps_replies_finish this] b send_response_error [OF assms(1), of sv] show ?thesis by simp
qed

section \<open>Properties\<close>

text \<open>The schema that authorisation uses for an endpoint.\<close>

definition schema_of :: "'s server \<Rightarrow> 's endpoint \<Rightarrow> string" where
  "schema_of sv ep =
     (case endpoint_Schema (ab_endpointsConfig (sv_auth sv)) (servicePathPrototype (sv_resources sv ! ep_resource sv ep))
         (op_accessType (ep_operation ep)) of
        None \<Rightarrow> DEFAULT_SCHEMA (sv_auth sv) | Some schema \<Rightarrow> schema)"

lemma authorise_unauthenticated:
  assumes "th_users tk = db_user_sessions h cr vld"
    and "store_Handler (am_schemas (ab_manager (sv_auth sv))) (schema_of sv ep)
      = Inr (schema_handler (TokenSchema tk) True)"
    and "authenticate h (tk\<lparr>th_protocol := CheckTokenProtocol\<rparr>) s = None"
  shows "wpc (authorise sv ep None) (\<lambda>e k. genericError k \<noteq> None) s"
proof -
  let ?t = "tk\<lparr>th_protocol := CheckTokenProtocol\<rparr>"
  have t: "th_users ?t = db_user_sessions h cr vld" using assms(1) by simp
  have tok: "wpc (Token_Handle ?t) (\<lambda>(found, e) k. found \<longrightarrow> genericError k \<noteq> None) s"
    by (rule wpc_mono [OF db_us.Token_Handle_spec [OF t]])
       (use assms(3) in \<open>auto simp: token_outcome_def token_accepts_authenticate [OF t]\<close>)
  have sch: "wpc (Schema_Handle (TokenSchema tk)) (\<lambda>(found, e) k. genericError k \<noteq> None) s"
    by (auto simp: Schema_Handle_def TokenSchema_def AppendHandlers_def NewAuthSchema_def Construct_def
        zero_schema_def token_as_handler_def is_Or_def wpc_core agg_Or_def
        intro!: wpc wpc_mono [OF tok])
  have "wpc (AuthBase_HandleRequest (sv_auth sv) (servicePathPrototype (sv_resources sv ! ep_resource sv ep))
      (op_accessType (ep_operation ep))) (\<lambda>e k. genericError k \<noteq> None) s"
    unfolding AuthBase_HandleRequest_def AuthManager_Handle_def schema_of_def [symmetric]
    by (auto simp: assms(2) schema_handler_def intro!: wpc wpc_mono [OF sch])
  then show ?thesis
    by (auto simp: authorise_def intro!: wpc intro: wpc_mono)
qed

text \<open>Where the checks before authorisation fail, an error is reported.\<close>

lemma csrf_renew_error:
  "wpc (csrf_renew a c) (\<lambda>((found, e), _) k'. (e \<noteq> None \<longrightarrow> genericError k' \<noteq> None) \<and> authUser k' = authUser k) k"
  unfolding csrf_renew_def SetTTL_def
  by (intro wpc wpc_keeps [OF keeps_Enc_Set [where f = who]]) (auto simp: who_def)

lemma Csrf_error:
  "wpc (Csrf_Handle a) (\<lambda>(found, e) k. (e \<noteq> None \<longrightarrow> genericError k \<noteq> None) \<and> authUser k = authUser s) s"
  unfolding Csrf_Handle_def
  by (intro wpc wpc_mono [OF csrf_renew_error]) (auto split: prod.splits)

lemma GetResourceId_core: "GetResourceId r (core s) = GetResourceId r s"
  by (simp add: GetResourceId_def)

lemma extract_tenancy_error:
  "wpc (extract_tenancy sv ep c) (\<lambda>(t, e) k. (e \<noteq> None \<longrightarrow> genericError k \<noteq> None) \<and> authUser k = authUser s) s"
  unfolding extract_tenancy_def SetTenancy_def
  by (auto intro!: wpc simp: GetResourceId_core split: sum.split)

lemma wpc_TraceIn: "(\<And>c. Q c (core k)) \<Longrightarrow> wpc (TraceInMethod name fs) Q k"
  unfolding wpc_def by (metis core_TraceIn)

lemma core_http [simp]:
  "core (s\<lparr>ctx_name := n\<rparr>) = (core s)\<lparr>ctx_name := n\<rparr>" "core (s\<lparr>ctx_id := n\<rparr>) = (core s)\<lparr>ctx_id := n\<rparr>"
  "core (s\<lparr>errorAsWarn := w\<rparr>) = (core s)\<lparr>errorAsWarn := w\<rparr>" "core (s\<lparr>origin := ori\<rparr>) = (core s)\<lparr>origin := ori\<rparr>"
  "core (s\<lparr>dbTransaction := tx\<rparr>) = (core s)\<lparr>dbTransaction := tx\<rparr>"
  "core (s\<lparr>writeCloseLog := w\<rparr>) = (core s)\<lparr>writeCloseLog := w\<rparr>" "core (s\<lparr>mainDb := d\<rparr>) = (core s)\<lparr>mainDb := d\<rparr>"
  "core (s\<lparr>errorManager := em\<rparr>) = (core s)\<lparr>errorManager := em\<rparr>"
  by (simp_all add: core_def)

lemma core_response [simp]:
  "core (q\<lparr>resp_Message := m\<rparr>) = (core q)\<lparr>resp_Message := m\<rparr>" "core (q\<lparr>resp_Text := t\<rparr>) = (core q)\<lparr>resp_Text := t\<rparr>"
  "core (q\<lparr>resp_RedirectPath := p\<rparr>) = (core q)\<lparr>resp_RedirectPath := p\<rparr>"
  "core (q\<lparr>resp_httpCode := c\<rparr>) = (core q)\<lparr>resp_httpCode := c\<rparr>"
  "core (q\<lparr>replies := r\<rparr>) = (core q)\<lparr>replies := r\<rparr>" "core (q\<lparr>req_start := st\<rparr>) = (core q)\<lparr>req_start := st\<rparr>"
  by (simp_all add: core_def)

lemma check_request_error:
  "wpc (check_request sv ep c) (\<lambda>(t, e) k. (e \<noteq> None \<longrightarrow> genericError k \<noteq> None) \<and> authUser k = authUser s) s"
  unfolding check_request_def
  by (intro wpc_bind, rule wpc_mono [OF extract_tenancy_error])
     (auto intro!: wpc wpc_mono [OF Csrf_error])

lemma wpc_dump [wpc]: "Q () (core k) \<Longrightarrow> wpc (do { b \<leftarrow> gets f; Log lv msg None (fs b) }) Q k"
  by (simp add: wpc_def Log_def)

definition begun :: "('z http_request_scheme) server \<Rightarrow> 'z http_request_scheme \<Rightarrow> 'z http_request_scheme \<Rightarrow> bool" where
  "begun sv s k \<longleftrightarrow> authUser k = None \<and> genericError k = None \<and> dbs k = dbs s \<and> request_of k = request_of s
     \<and> oplogs k = [] \<and> tenancy_of k = None \<and> replies k = replies s \<and> errorManager k = sv_errors sv
     \<and> mainDb k = sv_db sv \<and> curDb k = sv_db sv \<and> dbTransaction k = None \<and> times k = (\<lambda>i. times s (i + 2))"

lemma begin_request_spec: "wpc (begin_request sv ep) (\<lambda>c. begun sv s) s"
  unfolding begin_request_def Request_Init_def ContextBase_Init_def SetName_def GenerateID_def begun_def
  by (intro wpc wpc_TraceIn wpc_dump) (auto simp: request_of_def intro!: wpc wpc_TraceIn)

lemma before_auth_error:
  "wpc (before_auth sv ep) (\<lambda>(c, t, e) k. (e \<noteq> None \<longrightarrow> genericError k \<noteq> None) \<and> authUser k = None) s"
  unfolding before_auth_def
  by (intro wpc_bind, rule wpc_mono [OF begin_request_spec], intro wpc_bind, rule wpc_mono [OF check_request_error])
     (auto intro!: wpc simp: begun_def)

text \<open>Without tenancies and anti-CSRF check the request reaches authorisation as it came in.\<close>

lemma before_auth_plain:
  assumes "\<not> IsMultiTenancy sv" "sv_csrf sv = None"
  shows "wpc (before_auth sv ep) (\<lambda>(c, t, e) k. t = None \<and> e = None \<and> begun sv s k) s"
  unfolding before_auth_def check_request_def extract_tenancy_def
  by (intro wpc_bind, rule wpc_mono [OF begin_request_spec]) (auto intro!: wpc simp: assms)


section \<open>An endpoint is executed with a token that has expired\<close>

text \<open>What the end of a request leaves of the databases when there is no operation log to be written.\<close>

definition data_of :: "'z op_ctx_scheme \<Rightarrow> databases \<times> oplog list" where
  "data_of s = (dbs s, oplogs s)"

lemma keeps_data [io_rel]:
  "state_io_rel (keeps data_of) (SetGenericErrorCode code [])" "state_io_rel (keeps data_of) TraceOutMethod"
  "state_io_rel (keeps data_of) (SetError c e)" "state_io_rel (keeps data_of) (Log lv msg er fs)"
  "state_io_rel (keeps data_of) (SetLoggerField n v)" "state_io_rel (keeps data_of) (UnsetLoggerField n)"
  "state_io_rel (keeps data_of) (logGinRequest sv path start fs)" "state_io_rel (keeps data_of) (gin_send r)"
  "state_io_rel (keeps data_of) (SetErrorAsWarn w)" "state_io_rel (keeps data_of) (DumpLog msgs)"
  unfolding SetGenericErrorCode_def SetGenericError_def MakeGenericError_def TraceOutMethod_def SetError_def
    upd_call_def Log_def SetLoggerField_def UnsetLoggerField_def logGinRequest_def gin_send_def SetErrorAsWarn_def
    DumpLog_def ClearError_def Let_def Now_def
  by (intro io_rel io_rel_modifys; simp add: keeps_def data_of_def)+

lemma keeps_data_send: "state_io_rel (keeps data_of) (send_response sv)"
  unfolding send_response_def Let_def by (intro io_rel)

lemma finish_data: "oplogs s = [] \<Longrightarrow> dbs (snd (run_state (finish_request sv b) s)) = dbs s"
proof -
  assume o: "oplogs s = []"
  have close: "wp (Close h m) (\<lambda>_ k. data_of k = data_of s) k" if "data_of k = data_of s" for h m k
    using that o wp_keeps_mono [OF keeps_data(10), of k "\<lambda>_ k. data_of k = data_of s"]
    by (simp add: Close_def wp data_of_def)
  have "wp (finish_request sv b) (\<lambda>_ k. data_of k = data_of s) s"
    unfolding finish_request_def
    by (auto simp: wp intro!: wp_mono [OF close] wp_keeps_mono [OF keeps_data(4)] wp_keeps_mono [OF keeps_data(7)])
  then show ?thesis by (simp add: wp_def case_prod_unfold data_of_def)
qed

lemma Request_Close_data:
  assumes "oplogs s = []" "run_state (Request_Close sv) s = ((), s')"
  shows "dbs s' = dbs s"
proof -
  obtain b s1 where b: "run_state (send_response sv) s = (b, s1)" by fastforce
  with assms(2) have f: "run_state (finish_request sv b) s1 = ((), s')" by (simp add: Request_Close_def)
  have "data_of s1 = data_of s" using keeps_run [OF keeps_data_send b] .
  then show ?thesis using finish_data [of s1 sv b] f assms(1) by (simp add: data_of_def)
qed

lemma authorise_expired:
  assumes "store_Handler (am_schemas (ab_manager (sv_auth sv))) (schema_of sv ep)
      = Inr (schema_handler (TokenSchema tk) True)"
    and "request_token (tk\<lparr>th_protocol := CheckTokenProtocol\<rparr>) s = (True, obj, None)"
    and "tk_Exp (msg_token obj) < times s 0"
  shows "wpc (authorise sv ep None) (\<lambda>e k. e = None \<and> authUser k = authUser s \<and> genericError k \<noteq> None
     \<and> dbs k = dbs s \<and> oplogs k = oplogs s) s"
proof -
  let ?Q = "\<lambda>k. authUser k = authUser s \<and> genericError k \<noteq> None \<and> dbs k = dbs s \<and> oplogs k = oplogs s"
  have sch: "wpc (Schema_Handle (TokenSchema tk)) (\<lambda>r k. r = (True, None) \<and> ?Q k) s"
    by (auto simp: Schema_Handle_def TokenSchema_def AppendHandlers_def NewAuthSchema_def Construct_def
        zero_schema_def token_as_handler_def is_Or_def wpc_core agg_Or_def
        intro!: wpc wpc_mono [OF Token_Handle_expired [OF assms(2,3)]])
  have "wpc (AuthBase_HandleRequest (sv_auth sv) (servicePathPrototype (sv_resources sv ! ep_resource sv ep))
      (op_accessType (ep_operation ep))) (\<lambda>e k. e = None \<and> ?Q k) s"
    unfolding AuthBase_HandleRequest_def AuthManager_Handle_def schema_of_def [symmetric]
    by (auto simp: assms(1) schema_handler_def intro!: wpc wpc_mono [OF sch])
  then show ?thesis
    by (auto simp: authorise_def intro!: wpc intro: wpc_mono)
qed

lemma request_token_of: "request_of k = request_of s \<Longrightarrow> request_token a k = request_token a s"
  by (simp add: request_token_def request_of_def token_name_def getHttpHeader_def)

lemma set_origin_spec:
  "wpc (set_origin sv) (\<lambda>_ k. authUser k = authUser s \<and> genericError k = genericError s \<and> dbs k = dbs s
     \<and> oplogs k = oplogs s) s"
  unfolding set_origin_def SetOrigin_def Let_def by (auto intro!: wpc split: prod.split)


section \<open>Instances\<close>

definition demo_http :: "request \<Rightarrow> http_request" where
  "demo_http q = request.extend q (http_request.fields None [] [] StatusOK [] [] ''/api/1.0/a'' 0)"

definition http_token :: "http_request token_handler" where
  "http_token = \<lparr>th_protocol = CheckTokenProtocol, ACCESS_TOKEN_TTL_SECONDS = 900,
     REFRESH_TOKEN_TTL_SECONDS = 43200, AUTO_PROLONGATE_ACCESS = False, AUTO_PROLONGATE_REFRESH = False,
     REFRESH_PATH = ''/auth/refresh'', LOGOUT_PATH = ''/auth/logout'',
     th_users = db_user_sessions table_db plain_crypto demo_validators, th_encryption = demo_token_enc\<rparr>"

definition demo_ep :: "http_request endpoint" where
  "demo_ep = \<lparr>ep_operation = (op_Get ''check'')\<lparr>op_resource := Some 0\<rparr>,
     ep_errors = \<lparr>errorDescriptions = None, errorProtocolCodes = None\<rparr>,
     ep_HandleRequest = CheckStatus_HandleRequest\<rparr>"

definition demo_server :: "http_request server" where
  "demo_server = \<lparr>PATH_PREFIX = ''/api'', API_VERSION = ''1.0'', VERBOSE = False,
     ALLOW_NOT_ACTIVE_TENANCY = False, AUTH_FROM_TENANCY_DB = True, OPLOG_USER_TYPE = [], sv_Testing = False,
     sv_app = ([], [], []), sv_db = ''main'', sv_cache = ''main'', sv_dbhandlers = table_db, sv_errors = demo_mgr,
     sv_auth = \<lparr>DEFAULT_SCHEMA = TokenProtocol,
       ab_manager = \<lparr>am_handlers = [], am_schemas = [(TokenProtocol, schema_handler (TokenSchema http_token) True)]\<rparr>,
       ab_endpointsConfig = []\<rparr>,
     sv_csrf = None, IsMultiTenancy = False, TenancyByPath = (\<lambda>p. Inl (NativeError ''none'')),
     tenancyResource_of = None, sv_resources = snd (NewResource ''a'' [] []), sv_routes = [],
     DumpRequest = (\<lambda>s. []), DumpResponse = (\<lambda>s b. []), DataLength = (\<lambda>r. 0)\<rparr>"

lemma demo_server_schema:
  "store_Handler (am_schemas (ab_manager (sv_auth demo_server))) (schema_of demo_server demo_ep)
     = Inr (schema_handler (TokenSchema http_token) True)"
  "\<not> IsMultiTenancy demo_server" "sv_csrf demo_server = None"
  "th_users http_token = db_user_sessions table_db plain_crypto demo_validators"
  "http_token\<lparr>th_protocol := CheckTokenProtocol\<rparr> = http_token"
  by (simp_all add: demo_server_def schema_of_def endpoint_Schema_def store_Handler_def http_token_def)

lemma frame_CheckStatus: "state_io_rel frame CheckStatus_HandleRequest"
  unfolding CheckStatus_HandleRequest_def Response_SetMessage_def
  by (intro io_rel io_rel_modifys) (simp add: frame_def balanced_def)

lemma http_request_token:
  "request_token http_token (demo_http (demo_token_request ''/a'' n)) = (True, token_msg demo_token, None)"
  "request_token http_token (demo_http demo_request) = (False, VNil, None)"
proof -
  have h: "getHttpHeader (demo_http q) k = getHttpHeader q k" "req_path (demo_http q) = req_path q" for q k
    by (simp_all add: getHttpHeader_def demo_http_def request.defs)
  have "auth_header CheckTokenProtocol AccessTokenName = ''x-auth-access-token''" by code_simp
  then show "request_token http_token (demo_http (demo_token_request ''/a'' n)) = (True, token_msg demo_token, None)"
    by (simp add: request_token_def token_name_def http_token_def demo_open_param h)
  show "request_token http_token (demo_http demo_request) = (False, VNil, None)"
    using demo_no_token(1) by (simp add: request_token_def h header_of_def param_of_def)
qed



end
