(* ===== verification/Calendar.thy ===== *)
theory Calendar
  imports World
begin

text \<open>
  Months and days as numbers (\<^verbatim>\<open>src/pkg/utils/month.go\<close>, \<^verbatim>\<open>src/pkg/utils/date.go\<close>): a month is the number
  \<open>year * 100 + month\<close>, a day \<open>year * 10000 + month * 100 + day\<close>. They come from times and from strings, so
  what the Go library does there is modelled first: the civil date of an instant (\<^verbatim>\<open>Time.Date\<close>), the
  instant of a civil date (\<^verbatim>\<open>time.Date\<close>), and parsing by a layout (\<^verbatim>\<open>time.Parse\<close>). The texts of parsing
  errors are not modelled, and times are not bounded.

  The lemmas show that the calendar is right (\<open>civil_days\<close>), that a day and a month survive printing
  and parsing, with the one exception of the first day of year 1, which is the zero time, how months
  follow each other, and when the month of a generated identifier is found.
\<close>

section \<open>The calendar\<close>

definition isLeap :: "int \<Rightarrow> bool" where
  "isLeap year \<longleftrightarrow> year mod 4 = 0 \<and> (year mod 100 \<noteq> 0 \<or> year mod 400 = 0)"

definition daysBefore :: "int list" where
  "daysBefore = [0, 31, 59, 90, 120, 151, 181, 212, 243, 273, 304, 334, 365]"

definition daysIn :: "int \<Rightarrow> int \<Rightarrow> int" where
  "daysIn m year = (if m = 2 \<and> isLeap year then 29
     else daysBefore ! nat m - daysBefore ! nat (m - 1))"

text \<open>Days from the first day of year 1 to the first day of a year.\<close>

definition days_before_year :: "int \<Rightarrow> int" where
  "days_before_year year = (let n = year - 1 in 365 * n + n div 4 - n div 100 + n div 400)"

definition days_before_month :: "bool \<Rightarrow> int \<Rightarrow> int" where
  "days_before_month leap m = daysBefore ! nat (m - 1) + (if leap \<and> m \<ge> 3 then 1 else 0)"

text \<open>\<^verbatim>\<open>time.Date\<close> takes months out of range into the years before and after.\<close>

definition days_of_civil :: "int \<Rightarrow> int \<Rightarrow> int \<Rightarrow> int" where
  "days_of_civil year m d =
     (let y = year + (m - 1) div 12; m = (m - 1) mod 12 + 1 in
      days_before_year y + days_before_month (isLeap y) m + (d - 1))"

text \<open>The year of a day: cycles of 400, 100, 4 years and one year are cut off.\<close>

definition year_of_days :: "int \<Rightarrow> int \<times> int" where
  "year_of_days d =
     (let n4 = d div 146097; d = d - 146097 * n4;
          n1 = d div 36524; n1 = n1 - n1 div 4; d = d - 36524 * n1;
          n2 = d div 1461; d = d - 1461 * n2;
          n3 = d div 365; n3 = n3 - n3 div 4; d = d - 365 * n3
      in (400 * n4 + 100 * n1 + 4 * n2 + n3 + 1, d))"

definition month_day :: "bool \<Rightarrow> int \<Rightarrow> int \<times> int" where
  "month_day leap yday =
     (if leap \<and> yday = 31 + 29 - 1 then (2, 29)
      else let day = (if leap \<and> yday > 31 + 29 - 1 then yday - 1 else yday);
               m = day div 31; end = daysBefore ! nat (m + 1)
           in if day \<ge> end then (m + 2, day - end + 1) else (m + 1, day - daysBefore ! nat m + 1))"

definition civil_of_days :: "int \<Rightarrow> int \<times> int \<times> int" where
  "civil_of_days d = (let (year, yday) = year_of_days d in (year, month_day (isLeap year) yday))"

section \<open>Times\<close>

text \<open>
  A time is an instant in nanoseconds since the first of January of year 1 and the offset of its
  location from UTC in seconds. The offsets of the local time zone are a parameter \<open>zone\<close>, which
  the system provides.
\<close>

record gotime =
  t_instant :: int
  t_offset :: int

abbreviation Hour :: int where "Hour \<equiv> 3600 * Second"

definition TimeNil :: gotime where "TimeNil = \<lparr>t_instant = 0, t_offset = 0\<rparr>"

definition Local :: "(int \<Rightarrow> int) \<Rightarrow> int \<Rightarrow> gotime" where
  "Local zone t = \<lparr>t_instant = t, t_offset = zone t\<rparr>"

definition time_Unix :: "int \<Rightarrow> int" where
  "time_Unix sec = (sec + 62135596800) * Second"

definition Time_Date :: "gotime \<Rightarrow> int \<times> int \<times> int" where
  "Time_Date t = civil_of_days ((t_instant t + t_offset t * Second) div (24 * Hour))"

definition time_Date :: "int \<Rightarrow> int \<Rightarrow> int \<Rightarrow> int \<Rightarrow> int \<Rightarrow> int \<Rightarrow> int \<Rightarrow> gotime" where
  "time_Date year m d hour mins sec nsec =
     \<lparr>t_instant = (((days_of_civil year m d * 24 + hour) * 60 + mins) * 60 + sec) * Second + nsec,
      t_offset = 0\<rparr>"

section \<open>Parsing of times\<close>

text \<open>The chunks of the layouts that the program uses, in the names of the Go library.\<close>

datatype chunk = Literal string | LongYear | ShortYear | ZeroMonth | ZeroDay | StdHour | ZeroMinute | ZeroSecond

record parsed =
  p_year :: int
  p_month :: int
  p_day :: int
  p_hour :: int
  p_min :: int
  p_sec :: int
  p_nsec :: int

definition isDigit :: "string \<Rightarrow> nat \<Rightarrow> bool" where
  "isDigit s i \<longleftrightarrow> i < length s \<and> (case char_digit (s ! i) of Some d \<Rightarrow> d < 10 | None \<Rightarrow> False)"

definition atoi :: "string \<Rightarrow> int option" where
  "atoi s =
     (let neg = (s \<noteq> [] \<and> hd s = CHR ''-'');
          body = (if s \<noteq> [] \<and> (hd s = CHR ''-'' \<or> hd s = CHR ''+'') then tl s else s)
      in case read_digits 10 body of
           None \<Rightarrow> None
         | Some ds \<Rightarrow> Some (if neg then - int (undigits 10 ds) else int (undigits 10 ds)))"

definition digit_at :: "string \<Rightarrow> nat \<Rightarrow> int" where
  "digit_at s i = (case char_digit (s ! i) of Some d \<Rightarrow> int d | None \<Rightarrow> 0)"

definition getnum :: "string \<Rightarrow> bool \<Rightarrow> (int \<times> string) option" where
  "getnum s fixed =
     (if \<not> isDigit s 0 then None
      else if \<not> isDigit s 1 then (if fixed then None else Some (digit_at s 0, drop 1 s))
      else Some (digit_at s 0 * 10 + digit_at s 1, drop 2 s))"

definition cutspace :: "string \<Rightarrow> string" where
  "cutspace s = dropWhile (\<lambda>c. c = CHR '' '') s"

function skip :: "string \<Rightarrow> string \<Rightarrow> string option" where
  "skip val [] = Some val"
| "skip val (c # prefix) =
     (if c = CHR '' '' then
        (if val \<noteq> [] \<and> hd val \<noteq> CHR '' '' then None else skip (cutspace val) (cutspace prefix))
      else if val = [] \<or> hd val \<noteq> c then None
      else skip (tl val) prefix)"
  by pat_completeness auto
termination
  by (relation "measure (\<lambda>(val, prefix). length prefix)")
    (auto simp: cutspace_def less_Suc_eq_le length_dropWhile_le)

text \<open>A fraction of a second may follow the seconds, whatever the layout.\<close>

fun leading_digits :: "string \<Rightarrow> string" where
  "leading_digits [] = []"
| "leading_digits (c # s) = (if isDigit [c] 0 then c # leading_digits s else [])"

definition fraction :: "string \<Rightarrow> int \<times> string" where
  "fraction val =
     (if length val \<ge> 2 \<and> (hd val = CHR ''.'' \<or> hd val = CHR '','') \<and> isDigit val 1
      then let ds = leading_digits (tl val); used = take 9 ds
           in ((case atoi used of Some n \<Rightarrow> n | None \<Rightarrow> 0) * 10 ^ (9 - length used), drop (Suc (length ds)) val)
      else (0, val))"

definition in_range :: "int \<Rightarrow> int \<Rightarrow> (int \<times> string) option \<Rightarrow> (int \<times> string) option" where
  "in_range lo hi r = (case r of
     None \<Rightarrow> None | Some (n, rest) \<Rightarrow> if lo \<le> n \<and> n < hi then Some (n, rest) else None)"

definition parse_chunk :: "chunk \<Rightarrow> string \<Rightarrow> parsed \<Rightarrow> (string \<times> parsed) option" where
  "parse_chunk ch val p = (case ch of
     Literal l \<Rightarrow> map_option (\<lambda>rest. (rest, p)) (skip val l)
   | LongYear \<Rightarrow> (if length val < 4 \<or> \<not> isDigit val 0 then None
       else map_option (\<lambda>y. (drop 4 val, p\<lparr>p_year := y\<rparr>)) (atoi (take 4 val)))
   | ShortYear \<Rightarrow> (if length val < 2 then None
       else map_option (\<lambda>y. (drop 2 val, p\<lparr>p_year := if y \<ge> 69 then y + 1900 else y + 2000\<rparr>)) (atoi (take 2 val)))
   | ZeroMonth \<Rightarrow> map_option (\<lambda>(n, rest). (rest, p\<lparr>p_month := n\<rparr>)) (in_range 1 13 (getnum val True))
   | ZeroDay \<Rightarrow> map_option (\<lambda>(n, rest). (rest, p\<lparr>p_day := n\<rparr>)) (getnum val True)
   | StdHour \<Rightarrow> map_option (\<lambda>(n, rest). (rest, p\<lparr>p_hour := n\<rparr>)) (in_range 0 24 (getnum val False))
   | ZeroMinute \<Rightarrow> map_option (\<lambda>(n, rest). (rest, p\<lparr>p_min := n\<rparr>)) (in_range 0 60 (getnum val True))
   | ZeroSecond \<Rightarrow> map_option (\<lambda>(n, rest). (let (ns, rest) = fraction rest
                       in (rest, p\<lparr>p_sec := n, p_nsec := ns\<rparr>))) (in_range 0 60 (getnum val True)))"

fun parse_chunks :: "chunk list \<Rightarrow> string \<Rightarrow> parsed \<Rightarrow> parsed option" where
  "parse_chunks [] val p = (if val \<noteq> [] then None else Some p)"
| "parse_chunks (ch # layout) val p = (case parse_chunk ch val p of
     None \<Rightarrow> None | Some (rest, p) \<Rightarrow> parse_chunks layout rest p)"

definition ParseError :: goerror where "ParseError = NativeError ''parsing time''"

definition time_Parse :: "chunk list \<Rightarrow> string \<Rightarrow> goerror + gotime" where
  "time_Parse layout val =
     (case parse_chunks layout val \<lparr>p_year = 0, p_month = 1, p_day = 1, p_hour = 0, p_min = 0, p_sec = 0, p_nsec = 0\<rparr> of
        None \<Rightarrow> Inl ParseError
      | Some p \<Rightarrow>
          (if p_day p < 1 \<or> p_day p > daysIn (p_month p) (p_year p) then Inl ParseError
           else Inr (time_Date (p_year p) (p_month p) (p_day p) (p_hour p) (p_min p) (p_sec p) (p_nsec p))))"

definition layout_month :: "chunk list" where
  "layout_month = [LongYear, Literal ''-'', ZeroMonth]"
definition layout_date :: "chunk list" where
  "layout_date = [LongYear, Literal ''-'', ZeroMonth, Literal ''-'', ZeroDay]"
definition layout_ru :: "chunk list" where
  "layout_ru = [ZeroDay, Literal ''.'', ZeroMonth, Literal ''.'', LongYear]"
definition layout_ru_short :: "chunk list" where
  "layout_ru_short = [ZeroDay, Literal ''.'', ZeroMonth, Literal ''.'', ShortYear]"
definition layout_clock :: "chunk list" where
  "layout_clock = [Literal '' '', StdHour, Literal '':'', ZeroMinute, Literal '':'', ZeroSecond]"

section \<open>Months\<close>

text \<open>Go's division of signed integers rounds to zero; a product or sum wraps around at 64 bits.\<close>

definition go_div :: "int \<Rightarrow> int \<Rightarrow> int" where
  "go_div a b = (if a < 0 then - (- a div b) else a div b)"

definition go_mod :: "int \<Rightarrow> int \<Rightarrow> int" where
  "go_mod a b = a - b * go_div a b"

definition Month_Set :: "int \<Rightarrow> int \<Rightarrow> int" where
  "Month_Set year m = to_int64 (year * 100 + m)"

definition Month_SetTime :: "gotime \<Rightarrow> int" where
  "Month_SetTime t = (let (year, m, d) = Time_Date t in Month_Set year m)"

definition MonthFromTime :: "gotime \<Rightarrow> int" where
  "MonthFromTime t = Month_SetTime t"

definition CurrentMonth :: "(int \<Rightarrow> int) \<Rightarrow> ('z sys_scheme, int) comp" where
  "CurrentMonth zone = do { t \<leftarrow> Now; ret (Month_SetTime (Local zone t)) }"

definition Month_Year :: "int \<Rightarrow> int" where
  "Month_Year m = go_div m 100"

definition Month_Month :: "int \<Rightarrow> int" where
  "Month_Month m = to_int64 (m - Month_Year m * 100)"

definition Month_String :: "int \<Rightarrow> string" where
  "Month_String m = fmt_int 10 4 (Month_Year m) @ ''-'' @ fmt_int 10 2 (Month_Month m)"

definition MonthFromString :: "(int \<Rightarrow> int) \<Rightarrow> string \<Rightarrow> ('z sys_scheme, int \<times> err) comp" where
  "MonthFromString zone str =
     (if str = [] then do { m \<leftarrow> CurrentMonth zone; ret (m, None) }
      else case time_Parse layout_month str of
             Inl e \<Rightarrow> ret (0, Some e)
           | Inr t \<Rightarrow> ret (Month_SetTime t, None))"

definition trim_quotes :: "string \<Rightarrow> string" where
  "trim_quotes s = (let q = (\<lambda>c. c = CHR 0x22) in rev (dropWhile q (rev (dropWhile q s))))"

text \<open>\<^verbatim>\<open>json.Marshal\<close> of a string that has no character to be escaped.\<close>

definition json_plain :: "string \<Rightarrow> string" where
  "json_plain s = CHR 0x22 # s @ [CHR 0x22]"

definition Month_UnmarshalJSON :: "(int \<Rightarrow> int) \<Rightarrow> string \<Rightarrow> ('z sys_scheme, int \<times> err) comp" where
  "Month_UnmarshalJSON zone b = MonthFromString zone (trim_quotes b)"

definition Month_MarshalJSON :: "int \<Rightarrow> string" where
  "Month_MarshalJSON m = json_plain (Month_String m)"

definition Month_Time :: "int \<Rightarrow> gotime" where
  "Month_Time m = (case time_Parse layout_month (Month_String m) of Inl e \<Rightarrow> TimeNil | Inr t \<Rightarrow> t)"

definition Month_Prev :: "int \<Rightarrow> int" where
  "Month_Prev x =
     (let m = Month_Month x; year = Month_Year x in
      if m = 1 then Month_Set (year - 1) 12 else Month_Set year (m - 1))"

definition Month_Next :: "int \<Rightarrow> int" where
  "Month_Next x =
     (let m = Month_Month x; year = Month_Year x in
      if m = 12 then Month_Set (year + 1) 1 else Month_Set year (m + 1))"

definition MonthFromId :: "(int \<Rightarrow> int) \<Rightarrow> string \<Rightarrow> int \<times> err" where
  "MonthFromId zone i =
     (if length i \<noteq> 20 then (0, errors_New ''too short ID'')
      else case ParseInt (take 8 i) 16 64 of
             Inl e \<Rightarrow> (0, errors_New ''invalid time in ID'')
           | Inr sec \<Rightarrow> (MonthFromTime (Local zone (time_Unix sec)), None))"

section \<open>Days\<close>

definition DateNil :: int where "DateNil = 0"

definition Date_Set :: "int \<Rightarrow> int \<Rightarrow> int \<Rightarrow> int" where
  "Date_Set year m d = to_int64 (year * 10000 + m * 100 + d)"

definition Date_SetTime :: "gotime \<Rightarrow> int" where
  "Date_SetTime t = (let (year, m, d) = Time_Date t in Date_Set year m d)"

definition Date_IsNil :: "int \<Rightarrow> bool" where
  "Date_IsNil d \<longleftrightarrow> d = DateNil"

definition Date_Year :: "int \<Rightarrow> int" where
  "Date_Year d = go_div d 10000"

definition Date_Month :: "int \<Rightarrow> int" where
  "Date_Month d = go_div (go_mod d 10000) 100"

definition Date_Day :: "int \<Rightarrow> int" where
  "Date_Day d = go_mod d 100"

definition Date_MMonth :: "int \<Rightarrow> int" where
  "Date_MMonth d = Month_Set (Date_Year d) (Date_Month d)"

definition MonthFromDate :: "int \<Rightarrow> int" where
  "MonthFromDate d = Month_Set (Date_Year d) (Date_Month d)"

definition Date_Time :: "int \<Rightarrow> gotime" where
  "Date_Time d = time_Date (Date_Year d) (Date_Month d) (Date_Day d) 0 0 0 0"

definition Date_String :: "int \<Rightarrow> string" where
  "Date_String d =
     (if Date_IsNil d then []
      else fmt_int 10 4 (Date_Year d) @ ''-'' @ fmt_int 10 2 (Date_Month d) @ ''-'' @ fmt_int 10 2 (Date_Day d))"

definition StringRu :: "int \<Rightarrow> string" where
  "StringRu d = fmt_int 10 2 (Date_Day d) @ ''.'' @ fmt_int 10 2 (Date_Month d) @ ''.'' @ fmt_int 10 4 (Date_Year d)"

definition StringRuShort :: "int \<Rightarrow> string" where
  "StringRuShort d =
     fmt_int 10 2 (Date_Day d) @ ''.'' @ fmt_int 10 2 (Date_Month d) @ ''.'' @ fmt_int 10 2 (Date_Year d - 2000)"

definition AsNumber :: "int \<Rightarrow> string" where
  "AsNumber d = fmt_int 10 8 d"

definition BeginningOfDay :: "gotime \<Rightarrow> gotime" where
  "BeginningOfDay t = (let (year, m, d) = Time_Date t in time_Date year m d 0 0 0 0)"

definition EndOfDay :: "gotime \<Rightarrow> gotime" where
  "EndOfDay t = (let b = BeginningOfDay t in b\<lparr>t_instant := t_instant b + Hour * 24 + - Second\<rparr>)"

definition strDateToTime :: "string \<Rightarrow> gotime \<times> err" where
  "strDateToTime s =
     (if s = [] then (TimeNil, None)
      else case time_Parse layout_date s of Inr t \<Rightarrow> (t, None)
      | Inl _ \<Rightarrow> (case time_Parse layout_ru s of Inr t \<Rightarrow> (t, None)
      | Inl _ \<Rightarrow> (case time_Parse layout_ru_short s of Inr t \<Rightarrow> (t, None)
      | Inl e \<Rightarrow> (TimeNil, Some e))))"

definition StrToDate :: "string \<Rightarrow> int \<times> err" where
  "StrToDate s =
     (if s = [] then (DateNil, None)
      else let (t, e) = strDateToTime s in
           if t = TimeNil then (DateNil, e) else (Date_SetTime (BeginningOfDay t), e))"

text \<open>A value that cannot be parsed leaves the date as it was, here the argument \<open>d\<close>.\<close>

definition Date_UnmarshalJSON :: "int \<Rightarrow> string \<Rightarrow> int \<times> err" where
  "Date_UnmarshalJSON d b =
     (let s = trim_quotes b in
      if s = [] then (DateNil, None)
      else let (tmp, e) = StrToDate s in if e \<noteq> None then (d, e) else (tmp, e))"

definition Date_MarshalJSON :: "int \<Rightarrow> string" where
  "Date_MarshalJSON d = json_plain (Date_String d)"

definition Today :: "(int \<Rightarrow> int) \<Rightarrow> ('z sys_scheme, int) comp" where
  "Today zone = do { t \<leftarrow> Now; ret (Date_SetTime (Local zone t)) }"

definition DateOfTime :: "gotime \<Rightarrow> int" where
  "DateOfTime t = Date_SetTime (BeginningOfDay t)"

definition ParseRuTime :: "string \<Rightarrow> goerror + gotime" where
  "ParseRuTime str = (case time_Parse (layout_ru @ layout_clock) str of Inr t \<Rightarrow> Inr t
     | Inl _ \<Rightarrow> (case time_Parse layout_ru str of Inr t \<Rightarrow> Inr t
     | Inl _ \<Rightarrow> time_Parse (layout_ru_short @ layout_clock) str))"

definition ParseTime :: "string \<Rightarrow> goerror + gotime" where
  "ParseTime str = (case time_Parse (layout_date @ layout_clock) str of Inr t \<Rightarrow> Inr t
     | Inl _ \<Rightarrow> time_Parse layout_date str)"

definition ParseRuTimeShort :: "string \<Rightarrow> goerror + gotime" where
  "ParseRuTimeShort str = time_Parse (layout_ru_short @ layout_clock) str"

section \<open>The calendar is right\<close>

definition valid_date :: "int \<Rightarrow> int \<Rightarrow> int \<Rightarrow> bool" where
  "valid_date year m d \<longleftrightarrow> 1 \<le> m \<and> m \<le> 12 \<and> 1 \<le> d \<and> d \<le> daysIn m year"

lemma month_cases:
  assumes "1 \<le> m" "m \<le> 12"
  shows "m = 1 \<or> m = 2 \<or> m = 3 \<or> m = 4 \<or> m = 5 \<or> m = 6 \<or> m = 7 \<or> m = 8 \<or> m = 9 \<or> m = 10 \<or> m = 11 \<or> m = (12::int)"
  using assms by arith

text \<open>The days of a year, leap or not: every month and day is found from its number in the year.\<close>

lemma month_day_all:
  "list_all (\<lambda>leap. list_all (\<lambda>m. list_all (\<lambda>d.
     d \<le> (if m = 2 \<and> leap then 29 else daysBefore ! nat m - daysBefore ! nat (m - 1)) \<longrightarrow>
     month_day leap (days_before_month leap m + (d - 1)) = (m, d)) [1..31]) [1..12]) [True, False]"
  by code_simp

lemma daysIn_le: "1 \<le> m \<Longrightarrow> m \<le> 12 \<Longrightarrow> daysIn m year \<le> 31"
  by (drule (1) month_cases) (auto simp: daysIn_def daysBefore_def)

lemma month_day_of:
  assumes "valid_date year m d"
  shows "month_day (isLeap year) (days_before_month (isLeap year) m + (d - 1)) = (m, d)"
proof -
  have r: "m \<in> set [1..12]" "d \<in> set [1..31]"
    using assms daysIn_le [of m year] by (auto simp: valid_date_def)
  have "isLeap year \<in> set [True, False]" by simp
  from month_day_all [unfolded list_all_iff, rule_format, OF this r(1) r(2)] assms
  show ?thesis by (simp add: valid_date_def daysIn_def)
qed

lemma yday_range:
  assumes "valid_date year m d"
  shows "0 \<le> days_before_month (isLeap year) m + (d - 1)"
    "days_before_month (isLeap year) m + (d - 1) < (if isLeap year then 366 else 365)"
  using month_cases [of m] assms
  by (auto simp: valid_date_def days_before_month_def daysIn_def daysBefore_def)

text \<open>A year in its cycles: of 400 years, of 100, of 4 and one.\<close>

lemma year_cycles:
  fixes year :: int
  obtains a b c e where "year - 1 = 400 * a + 100 * b + 4 * c + e" "0 \<le> b" "b \<le> 3" "0 \<le> c" "c \<le> 24" "0 \<le> e" "e \<le> 3"
proof (rule that)
  let ?r = "(year - 1) mod 400"
  show "year - 1 = 400 * ((year - 1) div 400) + 100 * (?r div 100) + 4 * ((?r mod 100) div 4) + ?r mod 100 mod 4"
    by simp
  have r: "0 \<le> ?r" "?r < 400" "0 \<le> ?r mod 100" "?r mod 100 < 100" by simp_all
  from r show "0 \<le> ?r div 100" by simp
  from r(2) show "?r div 100 \<le> 3" by linarith
  from r show "0 \<le> ?r mod 100 div 4" by simp
  from r(4) show "?r mod 100 div 4 \<le> 24" by linarith
  show "0 \<le> ?r mod 100 mod 4" by simp
  have "?r mod 100 mod 4 < 4" by (rule pos_mod_bound) simp
  then show "?r mod 100 mod 4 \<le> 3" by simp
qed

lemma year_of_days_before:
  assumes "0 \<le> n" "n < (if isLeap year then 366 else 365)"
  shows "year_of_days (days_before_year year + n) = (year, n)"
proof -
  obtain a b c e where y: "year - 1 = 400 * a + 100 * b + 4 * c + e"
    and r: "0 \<le> b" "b \<le> 3" "0 \<le> c" "c \<le> 24" "0 \<le> e" "e \<le> 3" by (rule year_cycles)
  have ys: "year = (e + 1) + (100 * a + 25 * b + c) * 4" "year = (4 * c + e + 1) + (4 * a + b) * 100"
    "year = (100 * b + 4 * c + e + 1) + a * 400" using y by simp_all
  have ms: "year mod 4 = (e + 1) mod 4" "year mod 100 = (4 * c + e + 1) mod 100"
    "year mod 400 = (100 * b + 4 * c + e + 1) mod 400"
    by (subst ys(1), rule mod_mult_self1) (subst ys(2), rule mod_mult_self1, subst ys(3), rule mod_mult_self1)
  have leap: "e = 3 \<and> (c < 24 \<or> b = 3)" if l: "isLeap year"
  proof -
    have e: "e = 3" using l ms(1) r by (cases "e = 3") (auto simp: isLeap_def)
    show ?thesis
    proof (cases "c < 24")
      case False
      with r have c: "c = 24" by simp
      with e ms(2) l have "(100 * b + 100) mod 400 = 0" using ms(3) by (simp add: isLeap_def add.commute)
      with r e c show ?thesis by presburger
    qed (simp add: e)
  qed
  have "(400 * a + 100 * b + 4 * c + e) div 4 = 100 * a + 25 * b + c" using r by linarith
  moreover have "(400 * a + 100 * b + 4 * c + e) div 100 = 4 * a + b" using r by linarith
  moreover have "(400 * a + 100 * b + 4 * c + e) div 400 = a" using r by linarith
  ultimately have "(year - 1) div 4 = 100 * a + 25 * b + c" "(year - 1) div 100 = 4 * a + b" "(year - 1) div 400 = a"
    using y by simp_all
  then have d: "days_before_year year = 146097 * a + 36524 * b + 1461 * c + 365 * e"
    unfolding days_before_year_def Let_def using y by simp
  define m where "m = 36524 * b + 1461 * c + 365 * e + n"
  define k where "k = 1461 * c + 365 * e + n"
  have n: "n < 366" "n = 365 \<Longrightarrow> e = 3 \<and> (c < 24 \<or> b = 3)" using assms leap by (auto split: if_splits)
  have m: "0 \<le> m" "m < 146097" using r n assms by (auto simp: m_def)
  have k: "0 \<le> k" "k < 36524 \<or> (k = 36524 \<and> b = 3)" using r n assms by (auto simp: k_def)
  have "(days_before_year year + n) div 146097 = a" using m d by (simp add: m_def)
  moreover have "m div 36524 - m div 36524 div 4 = b"
    using k r by (auto simp: m_def k_def)
  moreover have "k div 1461 = c" using r n assms by (auto simp: k_def)
  moreover have "(365 * e + n) div 365 - (365 * e + n) div 365 div 4 = e"
    using r n assms by (cases "n = 365") auto
  moreover have "days_before_year year + n - 146097 * a = m" "m - 36524 * b = k" "k - 1461 * c = 365 * e + n"
    using d by (simp_all add: m_def k_def)
  ultimately show ?thesis
    unfolding year_of_days_def Let_def using y by (simp only: prod.inject) simp
qed

lemma civil_days:
  assumes "valid_date year m d"
  shows "civil_of_days (days_of_civil year m d) = (year, m, d)"
proof -
  have m: "(m - 1) div 12 = 0" "(m - 1) mod 12 + 1 = m" using assms by (auto simp: valid_date_def)
  have "days_of_civil year m d = days_before_year year + (days_before_month (isLeap year) m + (d - 1))"
    by (simp add: days_of_civil_def Let_def m)
  then show ?thesis
    using year_of_days_before [OF yday_range [OF assms]] month_day_of [OF assms]
    by (simp add: civil_of_days_def)
qed

lemma Time_Date_time_Date:
  assumes "valid_date year m d"
  shows "Time_Date (time_Date year m d 0 0 0 0) = (year, m, d)"
  using civil_days [OF assms] by (simp add: Time_Date_def time_Date_def Second_def)

lemma BeginningOfDay_civil:
  "valid_date year m d \<Longrightarrow> BeginningOfDay (time_Date year m d 0 0 0 0) = time_Date year m d 0 0 0 0"
  by (simp add: BeginningOfDay_def Time_Date_time_Date)

text \<open>The zero time is the beginning of the first day of year 1 and of no other day.\<close>

lemma TimeNil_civil:
  assumes "valid_date year m d"
  shows "time_Date year m d 0 0 0 0 = TimeNil \<longleftrightarrow> year = 1 \<and> m = 1 \<and> d = 1"
proof
  have z: "valid_date 1 1 1" "time_Date 1 1 1 0 0 0 0 = TimeNil"
    by (simp_all add: valid_date_def daysIn_def daysBefore_def TimeNil_def time_Date_def days_of_civil_def
        days_before_year_def days_before_month_def)
  assume "time_Date year m d 0 0 0 0 = TimeNil"
  with z(2) have "Time_Date (time_Date year m d 0 0 0 0) = Time_Date (time_Date 1 1 1 0 0 0 0)" by simp
  with Time_Date_time_Date [OF assms] Time_Date_time_Date [OF z(1)] show "year = 1 \<and> m = 1 \<and> d = 1" by simp
qed (simp add: TimeNil_def time_Date_def days_of_civil_def days_before_year_def days_before_month_def daysBefore_def)

section \<open>Printing and parsing\<close>

lemma digit_char_zero: "digit_char 0 = CHR ''0''"
  by code_simp

lemma fmt_digits:
  assumes "0 \<le> n" "n < 10 ^ w" "0 < w"
  obtains ds where "fmt_int 10 w n = map digit_char ds" "length ds = w" "\<forall>d \<in> set ds. d < 10" "int (undigits 10 ds) = n"
proof (rule that)
  let ?d = "digits 10 (nat n)" let ?ds = "replicate (w - length ?d) 0 @ ?d"
  have "nat n < 10 ^ w" using assms by (simp add: nat_less_iff)
  with assms show "length ?ds = w" using digits_length_le [of 10 "nat n" w] by simp
  show "fmt_int 10 w n = map digit_char ?ds"
    using assms by (simp add: fmt_int_def pad_zero_def fmt_nat_def digit_char_zero)
  show "\<forall>d \<in> set ?ds. d < 10" using digits_less [of 10 _ "nat n"] by auto
  show "int (undigits 10 ?ds) = n" using assms by (simp add: undigits_zeros)
qed

lemma digit_char_not_sign: "d < 10 \<Longrightarrow> digit_char d \<noteq> CHR ''-'' \<and> digit_char d \<noteq> CHR ''+''"
  using char_digit_digit_char [of d] by (auto simp: char_digit_def)

lemma atoi_digits:
  assumes "\<forall>d \<in> set ds. d < 10"
  shows "atoi (map digit_char ds) = Some (int (undigits 10 ds))"
  using assms read_digits_map [of 10 ds] digit_char_not_sign [of "hd ds"]
  by (cases ds) (auto simp: atoi_def)

lemma isDigit_digit_char [simp]: "d < 10 \<Longrightarrow> isDigit (digit_char d # s) 0"
  by (simp add: isDigit_def char_digit_digit_char)

lemma two_digits:
  assumes "0 \<le> n" "n < 100"
  shows "getnum (fmt_int 10 2 n @ rest) fixed = Some (n, rest)"
proof -
  from assms have "n < 10 ^ 2" by simp
  from fmt_digits [OF assms(1) this] obtain ds where ds: "fmt_int 10 2 n = map digit_char ds" "length ds = 2"
    "\<forall>d \<in> set ds. d < 10" "int (undigits 10 ds) = n" by auto
  then obtain a b where "ds = [a, b]" by (auto simp: numeral_2_eq_2 length_Suc_conv)
  with ds show ?thesis
    by (auto simp: getnum_def isDigit_def digit_at_def char_digit_digit_char undigits_def)
qed

lemma long_year:
  assumes "0 \<le> y" "y < 10000"
  shows "parse_chunk LongYear (fmt_int 10 4 y @ rest) p = Some (rest, p\<lparr>p_year := y\<rparr>)"
proof -
  from assms have "y < 10 ^ 4" by simp
  from fmt_digits [OF assms(1) this] obtain ds where ds: "fmt_int 10 4 y = map digit_char ds" "length ds = 4"
    "\<forall>d \<in> set ds. d < 10" "int (undigits 10 ds) = y" by auto
  then obtain a as where "ds = a # as" by (cases ds) auto
  with ds show ?thesis using atoi_digits [of ds] by (simp add: parse_chunk_def)
qed

lemma zero_month: "1 \<le> m \<Longrightarrow> m \<le> 12 \<Longrightarrow>
    parse_chunk ZeroMonth (fmt_int 10 2 m @ rest) p = Some (rest, p\<lparr>p_month := m\<rparr>)"
  by (simp add: parse_chunk_def two_digits in_range_def)

lemma zero_day: "0 \<le> d \<Longrightarrow> d < 100 \<Longrightarrow>
    parse_chunk ZeroDay (fmt_int 10 2 d @ rest) p = Some (rest, p\<lparr>p_day := d\<rparr>)"
  by (simp add: parse_chunk_def two_digits)

lemma literal_char: "c \<noteq> CHR '' '' \<Longrightarrow> parse_chunk (Literal [c]) (c # rest) p = Some (rest, p)"
  by (simp add: parse_chunk_def)

lemmas chunks = long_year zero_month zero_day literal_char

lemma valid_dateD:
  assumes "valid_date year m d"
  shows "1 \<le> m" "m \<le> 12" "1 \<le> d" "d \<le> daysIn m year" "d \<le> 31"
  using assms daysIn_le [of m year] by (auto simp: valid_date_def)

lemma parse_date:
  assumes "valid_date year m d" "0 \<le> year" "year \<le> 9999"
  shows "time_Parse layout_date (fmt_int 10 4 year @ ''-'' @ fmt_int 10 2 m @ ''-'' @ fmt_int 10 2 d)
      = Inr (time_Date year m d 0 0 0 0)"
  using valid_dateD [OF assms(1)] assms(2,3) zero_day [of d "[]"]
  by (simp add: time_Parse_def layout_date_def chunks)

lemma parse_month:
  assumes "1 \<le> m" "m \<le> 12" "0 \<le> year" "year \<le> 9999"
  shows "time_Parse layout_month (fmt_int 10 4 year @ ''-'' @ fmt_int 10 2 m) = Inr (time_Date year m 1 0 0 0 0)"
proof -
  have "1 \<le> daysIn m year" using month_cases [OF assms(1,2)] by (auto simp: daysIn_def daysBefore_def)
  with assms zero_month [of m "[]"] show ?thesis by (simp add: time_Parse_def layout_month_def chunks)
qed

lemma parse_ru:
  assumes "valid_date year m d" "0 \<le> year" "year \<le> 9999"
  shows "time_Parse layout_ru (fmt_int 10 2 d @ ''.'' @ fmt_int 10 2 m @ ''.'' @ fmt_int 10 4 year)
      = Inr (time_Date year m d 0 0 0 0)"
  using valid_dateD [OF assms(1)] assms(2,3) long_year [of year "[]"]
  by (simp add: time_Parse_def layout_ru_def chunks)

section \<open>Days\<close>

lemma Date_parts:
  assumes "0 \<le> year" "year \<le> 9999" "0 \<le> m" "m \<le> 99" "0 \<le> d" "d \<le> 99"
  shows "Date_Set year m d = year * 10000 + m * 100 + d" "Date_Year (Date_Set year m d) = year"
    "Date_Month (Date_Set year m d) = m" "Date_Day (Date_Set year m d) = d"
proof -
  show s: "Date_Set year m d = year * 10000 + m * 100 + d"
    unfolding Date_Set_def using assms by (intro to_int64_id) auto
  have y: "(year * 10000 + m * 100 + d) div 10000 = year" using assms by auto
  have m: "(year * 10000 + m * 100 + d) div 100 = year * 100 + m" using assms by auto
  show "Date_Year (Date_Set year m d) = year" using assms y by (simp add: Date_Year_def go_div_def s)
  have md: "go_mod (Date_Set year m d) 10000 = m * 100 + d" using assms y by (simp add: go_mod_def go_div_def s)
  show "Date_Month (Date_Set year m d) = m" using assms by (simp add: Date_Month_def md go_div_def)
  show "Date_Day (Date_Set year m d) = d" using assms m by (simp add: Date_Day_def go_mod_def go_div_def s)
qed

lemma Date_parts_valid:
  assumes "valid_date year m d" "0 \<le> year" "year \<le> 9999"
  shows "Date_Year (Date_Set year m d) = year" "Date_Month (Date_Set year m d) = m"
    "Date_Day (Date_Set year m d) = d" "Date_Set year m d \<noteq> DateNil"
  using valid_dateD [OF assms(1)] assms(2,3) Date_parts [of year m d] by (simp_all add: DateNil_def)

lemma Date_SetTime_civil:
  "valid_date year m d \<Longrightarrow> Date_SetTime (time_Date year m d 0 0 0 0) = Date_Set year m d"
  by (simp add: Date_SetTime_def Time_Date_time_Date)

text \<open>What a string of a parsed day is worth: the first day of year 1 is taken for no date.\<close>

definition day_read :: "int \<Rightarrow> int \<Rightarrow> int \<Rightarrow> int" where
  "day_read year m d = (if year = 1 \<and> m = 1 \<and> d = 1 then DateNil else Date_Set year m d)"

lemma StrToDate_parsed:
  assumes "valid_date year m d" "s \<noteq> []" "strDateToTime s = (time_Date year m d 0 0 0 0, None)"
  shows "StrToDate s = (day_read year m d, None)"
  using assms by (simp add: StrToDate_def day_read_def TimeNil_civil BeginningOfDay_civil Date_SetTime_civil)

lemma fmt_int_not_Nil [simp]: "fmt_int b w n \<noteq> []"
  by (simp add: fmt_int_def pad_zero_def fmt_nat_def)

lemma layout_date_refuses_ru:
  assumes "0 \<le> d" "d < 100"
  shows "time_Parse layout_date (fmt_int 10 2 d @ CHR ''.'' # rest) = Inl ParseError"
proof -
  from assms have "d < 10 ^ 2" by simp
  from fmt_digits [OF assms(1) this] obtain ds where ds: "fmt_int 10 2 d = map digit_char ds" "length ds = 2"
    "\<forall>d \<in> set ds. d < 10" by (metis zero_less_numeral)
  then obtain a b where ab: "ds = [a, b]" by (auto simp: numeral_2_eq_2 length_Suc_conv)
  with ds have "atoi (digit_char a # digit_char b # CHR ''.'' # take 1 rest) = None"
    using digit_char_not_sign [of a] by (simp add: atoi_def char_digit_digit_char) (simp add: char_digit_def)
  with ds ab show ?thesis
    by (simp add: time_Parse_def layout_date_def parse_chunk_def)
qed

lemma trim_json_plain:
  assumes "s \<noteq> [] \<Longrightarrow> hd s \<noteq> CHR 0x22 \<and> last s \<noteq> CHR 0x22"
  shows "trim_quotes (json_plain s) = s"
proof (cases "s = []")
  case False
  then obtain c t where s: "s = c # t" by (cases s) auto
  with assms have c: "c \<noteq> CHR 0x22" by simp
  obtain u v where r: "rev s = v # u" using s by (cases "rev s") auto
  then have "last s = v" by (metis last_rev list.sel(1) rev_is_Nil_conv rev_rev_ident list.distinct(1) hd_rev)
  with assms s have "v \<noteq> CHR 0x22" by simp
  with c s r show ?thesis by (simp add: trim_quotes_def json_plain_def) (metis rev_rev_ident rev.simps(2))
qed (simp add: trim_quotes_def json_plain_def)

lemma digits_not_quote:
  assumes "0 \<le> n" "n < 10 ^ w" "0 < w"
  shows "hd (fmt_int 10 w n) \<noteq> CHR 0x22" "last (fmt_int 10 w n) \<noteq> CHR 0x22"
proof -
  from fmt_digits [OF assms] obtain ds where ds: "fmt_int 10 w n = map digit_char ds" "length ds = w"
    "\<forall>d \<in> set ds. d < 10" by metis
  have q: "digit_char d \<noteq> CHR 0x22" if "d < 10" for d
    using char_digit_digit_char [of d] that by (auto simp: char_digit_def)
  from ds assms(3) have "ds \<noteq> []" by auto
  with ds q show "hd (fmt_int 10 w n) \<noteq> CHR 0x22" "last (fmt_int 10 w n) \<noteq> CHR 0x22"
    by (simp_all add: hd_map last_map)
qed

text \<open>
  A day of the years 0 to 9999 that is printed in either of its long forms or as JSON is read back
  as it was, with the one exception of the first day of year 1: it is the zero time, and is read as no date.
\<close>

theorem date_roundtrip:
  assumes "valid_date year m d" "0 \<le> year" "year \<le> 9999"
  shows "StrToDate (Date_String (Date_Set year m d)) = (day_read year m d, None)
    \<and> StrToDate (StringRu (Date_Set year m d)) = (day_read year m d, None)
    \<and> Date_UnmarshalJSON old (Date_MarshalJSON (Date_Set year m d)) = (day_read year m d, None)
    \<and> Date_SetTime (Date_Time (Date_Set year m d)) = Date_Set year m d"
proof (intro conjI)
  note parts = Date_parts_valid [OF assms]
  note vd = valid_dateD [OF assms(1)]
  show str: "StrToDate (Date_String (Date_Set year m d)) = (day_read year m d, None)"
    by (rule StrToDate_parsed [OF assms(1)])
      (use parse_date [OF assms] in \<open>simp_all add: Date_String_def Date_IsNil_def parts strDateToTime_def\<close>)
  show "StrToDate (StringRu (Date_Set year m d)) = (day_read year m d, None)"
    by (rule StrToDate_parsed [OF assms(1)])
      (use parse_ru [OF assms] layout_date_refuses_ru [of d] vd in \<open>simp_all add: StringRu_def parts strDateToTime_def\<close>)
  have "trim_quotes (Date_MarshalJSON (Date_Set year m d)) = Date_String (Date_Set year m d)"
    unfolding Date_MarshalJSON_def
    by (rule trim_json_plain) (use digits_not_quote [of year 4] digits_not_quote [of d 2] vd assms in
        \<open>simp add: Date_String_def Date_IsNil_def parts\<close>)
  with str show "Date_UnmarshalJSON old (Date_MarshalJSON (Date_Set year m d)) = (day_read year m d, None)"
    by (simp add: Date_UnmarshalJSON_def Date_String_def Date_IsNil_def parts)
  show "Date_SetTime (Date_Time (Date_Set year m d)) = Date_Set year m d"
    by (simp add: Date_Time_def parts Date_SetTime_civil [OF assms(1)])
qed

theorem date_roundtrip_witness:
  "StrToDate (Date_String (Date_Set 2024 2 29)) = (Date_Set 2024 2 29, None)"
  using date_roundtrip [of 2024 2 29]
  by (simp add: valid_date_def daysIn_def isLeap_def day_read_def)

section \<open>Months\<close>

lemma Month_parts:
  assumes "0 \<le> year" "year \<le> 10000" "0 \<le> m" "m \<le> 99"
  shows "Month_Set year m = year * 100 + m" "Month_Year (Month_Set year m) = year"
    "Month_Month (Month_Set year m) = m"
proof -
  show s: "Month_Set year m = year * 100 + m"
    unfolding Month_Set_def using assms by (intro to_int64_id) auto
  have y: "(year * 100 + m) div 100 = year" using assms by auto
  show yy: "Month_Year (Month_Set year m) = year" using assms y by (simp add: Month_Year_def go_div_def s)
  show "Month_Month (Month_Set year m) = m"
    unfolding Month_Month_def yy using assms by (simp add: s) (intro to_int64_id, auto)
qed

definition valid_month :: "int \<Rightarrow> bool" where
  "valid_month x \<longleftrightarrow> (let m = x mod 100 in 1 \<le> m \<and> m \<le> 12) \<and> 0 < x"

lemma first_day: "1 \<le> m \<Longrightarrow> m \<le> 12 \<Longrightarrow> valid_date year m 1"
  using month_cases [of m] by (auto simp: valid_date_def daysIn_def daysBefore_def)

text \<open>
  Within the years 1 to 9998 the next month is the least month that follows, the previous month
  undoes it and the other way round, and a month that is printed, as a string or as JSON, is read back as it was.
\<close>

theorem month_order:
  assumes "1 \<le> m" "m \<le> 12" "1 \<le> year" "year \<le> 9998" and x: "x = Month_Set year m"
  shows "Month_Prev (Month_Next x) = x \<and> Month_Next (Month_Prev x) = x
    \<and> (\<forall>z. valid_month z \<and> x < z \<longleftrightarrow> valid_month z \<and> Month_Next x \<le> z)
    \<and> run_state (MonthFromString zone (Month_String x)) s = ((x, None), s)
    \<and> run_state (Month_UnmarshalJSON zone (Month_MarshalJSON x)) s = ((x, None), s)"
proof (intro conjI allI)
  have px: "Month_Year x = year" "Month_Month x = m" "x = year * 100 + m"
    using Month_parts [of year m] assms by simp_all
  have nx: "Month_Next x = (if m = 12 then Month_Set (year + 1) 1 else Month_Set year (m + 1))"
    using px by (simp add: Month_Next_def)
  then show "Month_Prev (Month_Next x) = x"
    using Month_parts [of "year + 1" 1] Month_parts [of year "m + 1"] assms by (auto simp: Month_Prev_def)
  show "Month_Next (Month_Prev x) = x"
    using Month_parts [of "year - 1" 12] Month_parts [of year "m - 1"] px assms
    by (auto simp: Month_Prev_def Month_Next_def)
  show "(valid_month z \<and> x < z) = (valid_month z \<and> Month_Next x \<le> z)" for z
  proof (cases "m = 12")
    case True
    have z: "z = z div 100 * 100 + z mod 100" by simp
    have "101 + year * 100 \<le> z" if "valid_month z" "year * 100 + 12 < z"
    proof -
      have "1 \<le> z mod 100" "z mod 100 \<le> 12" using that(1) by (simp_all add: valid_month_def Let_def)
      moreover from this have "year < z div 100" using z that(2) by linarith
      ultimately show ?thesis using z by linarith
    qed
    then show ?thesis using True nx px Month_parts [of "year + 1" 1] assms by auto
  next
    case False
    then show ?thesis using nx px Month_parts [of year "m + 1"] assms by auto
  qed
  have ms: "Month_String x = fmt_int 10 4 year @ ''-'' @ fmt_int 10 2 m" by (simp add: Month_String_def px(1,2))
  have t: "time_Parse layout_month (Month_String x) = Inr (time_Date year m 1 0 0 0 0)"
    unfolding ms using parse_month [of m year] assms by simp
  then show str: "run_state (MonthFromString zone (Month_String x)) s = ((x, None), s)"
    using Time_Date_time_Date [OF first_day [OF assms(1,2)]] ms
    by (simp add: MonthFromString_def Month_SetTime_def x)
  have "trim_quotes (Month_MarshalJSON x) = Month_String x"
    unfolding Month_MarshalJSON_def
    by (rule trim_json_plain) (use digits_not_quote [of year 4] digits_not_quote [of m 2] assms(1-4) in \<open>simp add: ms\<close>)
  with str show "run_state (Month_UnmarshalJSON zone (Month_MarshalJSON x)) s = ((x, None), s)"
    by (simp add: Month_UnmarshalJSON_def)
qed

theorem month_order_witness:
  "Month_Prev (Month_Next (Month_Set 2023 12)) = Month_Set 2023 12"
  using month_order [of 12 2023 "Month_Set 2023 12", THEN conjunct1] by simp

lemma length_hex: "length (fmt_int 16 w (int n)) = max w (length (digits 16 n))"
  by (simp add: fmt_int_def length_pad_zero fmt_nat_def)

text \<open>The first eight characters of an identifier are the second it was made in.\<close>

lemma id_time:
  assumes "0 \<le> t" "t < 2 ^ 32"
  shows "length (fmt_int 16 8 t) = 8" "ParseInt (fmt_int 16 8 t) 16 64 = Inr t"
proof -
  show "length (fmt_int 16 8 t) = 8"
    using digits_length_le [of 16 "nat t" 8] assms length_hex [of 8 "nat t"] by (simp add: nat_less_iff)
  have f8: "fmt_int 16 8 t = pad_zero 8 (fmt_nat 16 (nat t))" using assms by (simp add: fmt_int_def)
  have pu: "ParseUint (fmt_int 16 8 t) 16 64 = Inr (nat t)"
    unfolding f8 by (rule ParseUint_pad) (use assms in \<open>auto simp: nat_less_iff\<close>)
  have "hd (fmt_int 16 8 t) \<noteq> CHR ''-'' \<and> hd (fmt_int 16 8 t) \<noteq> CHR ''+''"
    using pu by (cases "fmt_int 16 8 t") (auto simp: ParseUint_def char_digit_def split: option.splits)
  with pu show "ParseInt (fmt_int 16 8 t) 16 64 = Inr t"
    using assms by (simp add: ParseInt_def)
qed

text \<open>
  A generated identifier holds the second it was made in, but its month is found only if the random
  number in it has eight hexadecimal digits: one of less than eight makes the identifier shorter than the
  twenty characters that are expected.
\<close>

theorem month_from_generated_id:
  assumes "0 \<le> t" "t < 2 ^ 32" "count < 0x10000" "r < 0x7fffffff"
  shows "MonthFromId zone (format_id t count r) =
    (if r \<ge> 0x10000000 then (MonthFromTime (Local zone (time_Unix t)), None)
     else (0, errors_New ''too short ID''))"
proof -
  have l4: "length (fmt_int 16 4 (int count)) = 4"
    using digits_length_le [of 16 count 4] assms length_hex [of 4 count] by simp
  have lr: "length (fmt_int 16 4 (int r)) = 8 \<longleftrightarrow> r \<ge> 0x10000000"
  proof (cases "r \<ge> 0x10000000")
    case True
    with digits_length_ge [of 16 7 r] digits_length_le [of 16 r 8] assms(4) length_hex [of 4 r] show ?thesis by simp
  next
    case False
    with digits_length_le [of 16 r 7] length_hex [of 4 r] show ?thesis by simp
  qed
  have len: "length (format_id t count r) = 20 \<longleftrightarrow> r \<ge> 0x10000000"
    using id_time(1) [OF assms(1,2)] l4 lr by (simp add: format_id_def)
  show ?thesis using len id_time [OF assms(1,2)] by (simp add: MonthFromId_def format_id_def)
qed

theorem month_from_generated_id_witness:
  "MonthFromId (\<lambda>t. 0) (format_id 1700000000 7 0xfffffff) = (0, errors_New ''too short ID'')"
  using month_from_generated_id [of 1700000000 7 "0xfffffff" "\<lambda>t. 0"] by simp

end
