(* ===== verification/Validator.thy ===== *)
theory Validator
  imports Map_Utils Generic_Error
begin

text \<open>
  Errors of validation and the validation of maps (\<^verbatim>\<open>src/pkg/validator/validator.go\<close>). The validator and the library
  that decodes a map into a structure are parameters.
\<close>

record validation_failure =
  ve_Message :: string
  ve_Field :: string
  ve_Err :: err

definition ValidationError_Error :: "validation_failure \<Rightarrow> string" where
  "ValidationError_Error e =
     (if ve_Message e = [] then (case ve_Err e of None \<Rightarrow> [] | Some er \<Rightarrow> error_text er)
      else if ve_Field e \<noteq> []
      then ''validation failed on field '' @ [CHR 0x22] @ ve_Field e @ [CHR 0x22] @ '': '' @ ve_Message e
      else ''validation failed: '' @ ve_Message e)"

definition ValidationError_GenericError :: "validation_failure \<Rightarrow> goerror" where
  "ValidationError_GenericError e = ErrorBase ErrorCodeFormat (ve_Message e) (ve_Field e) None"

record 's map_validator =
  mv_Decode :: "fields \<Rightarrow> goerror + 's"
  mv_ValidatePartial :: "'s \<Rightarrow> string list \<Rightarrow> validation_failure option"

text \<open>The keys that the parameter \<^verbatim>\<open>allowedFields\<close> lists are the ones that are refused.\<close>

definition refused_key :: "string list \<Rightarrow> string list \<Rightarrow> string option" where
  "refused_key allowedFields keys = (if length allowedFields \<noteq> 0 then List.find (\<lambda>key. key \<in> set allowedFields) keys else None)"

definition ValidateMap :: "'s map_validator \<Rightarrow> fields \<Rightarrow> string list \<Rightarrow> validation_failure option" where
  "ValidateMap v m allowedFields =
     (let keys = AllMapKeys m in
      case refused_key allowedFields keys of
        Some key \<Rightarrow> Some \<lparr>ve_Message = ''map contains not allowed fields'', ve_Field = key, ve_Err = None\<rparr>
      | None \<Rightarrow> (case mv_Decode v m of
          Inl e \<Rightarrow> Some \<lparr>ve_Message = ''Invalid fields for update.'', ve_Field = [], ve_Err = Some e\<rparr>
        | Inr s \<Rightarrow> mv_ValidatePartial v s keys))"

lemma AllMapKeys_map: "AllMapKeys m = map fst m"
proof -
  have "foldl (\<lambda>keys (k, v). keys @ [k]) ks m = ks @ map fst m" for ks
    by (induction m arbitrary: ks) auto
  then show ?thesis by (simp add: AllMapKeys_def)
qed

text \<open>A map that is valid holds none of the fields that it is allowed to hold.\<close>

lemma ValidateMap_inverted:
  assumes "ValidateMap v m allowedFields = None"
  shows "fst ` set m \<inter> set allowedFields = {}"
  using assms
  by (auto simp: ValidateMap_def refused_key_def AllMapKeys_map find_None_iff Let_def image_iff split: option.splits if_splits)

end
