(* ===== verification/Query_Parser.thy ===== *)
theory Query_Parser
  imports Db Calendar Validator
begin

text \<open>
  Queries of clients (\<^verbatim>\<open>src/pkg/db/filter.go\<close>), the descriptors of models and their store
  (\<^verbatim>\<open>src/pkg/db/db_gorm/model_store.go\<close>), and the parser that turns a query into a filter of the database
  (\<^verbatim>\<open>src/pkg/db/db_gorm/filter_parser.go\<close>).

  The schema of a model comes from the gorm library, so it is a parameter, as are the rules of the validator,
  the parsing of floats and the text of a value. A descriptor is a pointer in the source; its fields are a
  function of its schema and are computed before a parser takes it, so that it is a value here.
\<close>

section \<open>Queries\<close>

text \<open>The outer \<open>None\<close> of a bound is the nil pointer, the inner one an optional string that is not present.\<close>

record query_interval =
  qi_From :: "string option option"
  qi_To :: "string option option"
  qi_FromOpen :: bool
  qi_ToOpen :: bool

record query_between =
  qb_FromField :: string
  qb_ToField :: string
  qb_Value :: string
  qb_FromOpen :: bool
  qb_ToOpen :: bool

record query_or =
  qo_Value :: string
  qo_Fields :: "string list"

record query =
  q_SortField :: string
  q_SortDirection :: string
  q_Offset :: int
  q_Limit :: int
  q_Count :: bool
  q_Fields :: "(string \<times> string) list"
  q_FieldsIn :: "(string \<times> string list) list"
  q_FieldsNotIn :: "(string \<times> string list) list"
  q_Intervals :: "(string \<times> query_interval) list"
  q_BetweenFields :: "query_between list"
  q_OrFields :: "query_or list"

text \<open>\<^verbatim>\<open>fmt.Sprintf\<close> with \<^verbatim>\<open>%v\<close>; \<open>other\<close> is what it prints for times, floats, durations and composite values.\<close>

definition filterValueToString :: "(gval \<Rightarrow> string) \<Rightarrow> gval \<Rightarrow> string" where
  "filterValueToString other val = (case val of
     VNil \<Rightarrow> ''<nil>'' | VStr s \<Rightarrow> s | VBool b \<Rightarrow> BoolToStr b | VInt i \<Rightarrow> NumToStr i | VInt64 i \<Rightarrow> NumToStr i
   | VUint n \<Rightarrow> NumToStr (int n) | VUint64 n \<Rightarrow> NumToStr (int n) | _ \<Rightarrow> other val)"

definition ToQuery :: "(gval \<Rightarrow> string) \<Rightarrow> db_filter \<Rightarrow> query" where
  "ToQuery other f = (let text = filterValueToString other in
     \<lparr>q_SortField = SortField f, q_SortDirection = SortDirection f, q_Offset = Offset f, q_Limit = Limit f, q_Count = Count f,
      q_Fields = map (\<lambda>(k, v). (k, text v)) (nil_map (Fields f)),
      q_FieldsIn = map (\<lambda>(k, vs). (k, map text vs)) (nil_map (FieldsIn f)),
      q_FieldsNotIn = map (\<lambda>(k, vs). (k, map text vs)) (nil_map (FieldsNotIn f)),
      q_Intervals = map (\<lambda>(k, i). (k,
         \<lparr>qi_From = Some (if From i \<noteq> VNil then Some (text (From i)) else None),
          qi_To = Some (if To i \<noteq> VNil then Some (text (To i)) else None),
          qi_FromOpen = FromOpen i, qi_ToOpen = ToOpen i\<rparr>)) (nil_map (Intervals f)),
      q_BetweenFields = map (\<lambda>b. \<lparr>qb_FromField = FromField b, qb_ToField = ToField b, qb_Value = text (BetweenValue b),
         qb_FromOpen = BetweenFromOpen b, qb_ToOpen = BetweenToOpen b\<rparr>) (BetweenFields f),
      q_OrFields = map (\<lambda>p. \<lparr>qo_Value = text (OrValue p), qo_Fields = OrNames p\<rparr>) (OrFields f)\<rparr>)"

section \<open>Descriptors of models\<close>

datatype data_type = DString | DInt | DBool | DUint | DFloat | DTime | DOther string

record schema_field =
  sf_DBName :: string
  sf_DataType :: data_type
  sf_json :: string
  sf_source :: string
  sf_validate :: string
  sf_PrimaryKey :: bool
  sf_INDEX :: string
  sf_UNIQUEINDEX :: string
  sf_Owner :: "string option"

record struct_field =
  st_isStruct :: bool
  st_Anonymous :: bool
  st_TypeName :: string
  st_source :: string

record model_schema =
  ms_Name :: string
  ms_Table :: string
  ms_Fields :: "schema_field list"
  ms_Struct :: "struct_field list"

record field_descriptor =
  fd_Json :: string
  fd_DbTable :: string
  fd_DbField :: string
  fd_FullDbName :: string
  fd_Index :: bool
  fd_Schema :: schema_field

record model_descriptor =
  md_Sample :: string
  md_Schema :: model_schema
  md_FieldsJson :: "(string \<times> field_descriptor) list option"

definition FindJsonField :: "string \<Rightarrow> model_descriptor \<Rightarrow> goerror + field_descriptor" where
  "FindJsonField json d = (case map_get (nil_map (md_FieldsJson d)) json of
     None \<Rightarrow> Inl (NativeError ''field not found'') | Some f \<Rightarrow> Inr f)"

definition FieldsReady :: "model_descriptor \<Rightarrow> bool" where
  "FieldsReady d \<longleftrightarrow> md_FieldsJson d \<noteq> None"

definition IsIndexField :: "schema_field \<Rightarrow> bool" where
  "IsIndexField field \<longleftrightarrow> sf_PrimaryKey field \<or> sf_INDEX field \<noteq> [] \<or> sf_UNIQUEINDEX field \<noteq> []"

text \<open>The first run over the fields.\<close>

definition plain_descriptor :: "string \<Rightarrow> schema_field \<Rightarrow> field_descriptor" where
  "plain_descriptor table field =
     (let json = (if sf_json field = [] then sf_DBName field else sf_json field);
          full = (if sf_source field = [] then table @ ''.'' @ sf_DBName field else sf_source field);
          parts = Split (CHR ''.'') full in
      if length parts = 2 then
        \<lparr>fd_Json = json, fd_DbTable = parts ! 0, fd_DbField = parts ! 1, fd_FullDbName = full,
         fd_Index = IsIndexField field, fd_Schema = field\<rparr>
      else
        \<lparr>fd_Json = json, fd_DbTable = full, fd_DbField = sf_DBName field, fd_FullDbName = full @ ''.'' @ sf_DBName field,
         fd_Index = IsIndexField field, fd_Schema = field\<rparr>)"

text \<open>The second run: the sources of embedded structures.\<close>

definition embedded_sources :: "struct_field list \<Rightarrow> (string \<times> string) list" where
  "embedded_sources fs = foldl (\<lambda>m f. if st_isStruct f \<and> st_Anonymous f \<and> st_source f \<noteq> []
     then map_set m (st_TypeName f) (st_source f) else m) [] fs"

text \<open>The third run puts them in.\<close>

definition embed :: "(string \<times> string) list \<Rightarrow> field_descriptor \<Rightarrow> field_descriptor" where
  "embed sources fd = (case sf_Owner (fd_Schema fd) of
     None \<Rightarrow> fd
   | Some owner \<Rightarrow> (case map_get sources owner of
       None \<Rightarrow> fd
     | Some sourceTable \<Rightarrow> fd\<lparr>fd_DbTable := sourceTable, fd_FullDbName := sourceTable @ ''.'' @ fd_DbField fd\<rparr>))"

definition ParseFields :: "model_descriptor \<Rightarrow> model_descriptor" where
  "ParseFields d =
     (let fs = foldl (\<lambda>m f. let fd = plain_descriptor (ms_Table (md_Schema d)) f in map_set m (fd_Json fd) fd) []
           (ms_Fields (md_Schema d))
      in d\<lparr>md_FieldsJson := Some (map (\<lambda>(k, fd). (k, embed (embedded_sources (ms_Struct (md_Schema d))) fd)) fs)\<rparr>)"

section \<open>The store of models\<close>

text \<open>A model that has no schema panics when it is registered, here \<open>Inl\<close>.\<close>

type_synonym schema_lib = "string \<Rightarrow> goerror + model_schema"
type_synonym model_store = "(string \<times> model_descriptor) list"

definition NewModelDescriptor :: "schema_lib \<Rightarrow> string \<Rightarrow> string + model_descriptor" where
  "NewModelDescriptor lib model = (case lib model of
     Inl e \<Rightarrow> Inl (''invalid model: '' @ error_text e)
   | Inr s \<Rightarrow> Inr \<lparr>md_Sample = model, md_Schema = s, md_FieldsJson = None\<rparr>)"

definition RegisterModel :: "schema_lib \<Rightarrow> string \<Rightarrow> model_store \<Rightarrow> string + model_store" where
  "RegisterModel lib model m = (case NewModelDescriptor lib model of
     Inl e \<Rightarrow> Inl e | Inr d \<Rightarrow> Inr (map_set m (ms_Table (md_Schema d)) d))"

fun RegisterModels :: "schema_lib \<Rightarrow> string list \<Rightarrow> model_store \<Rightarrow> string + model_store" where
  "RegisterModels lib [] m = Inr m"
| "RegisterModels lib (model # models) m = (case RegisterModel lib model m of
     Inl e \<Rightarrow> Inl e | Inr m \<Rightarrow> RegisterModels lib models m)"

definition FindModel :: "string \<Rightarrow> model_store \<Rightarrow> string option" where
  "FindModel name m = map_option md_Sample (map_get m name)"

definition AllModels :: "model_store \<Rightarrow> string list" where
  "AllModels m = map (\<lambda>(_, d). md_Sample d) m"

definition FindDescriptor :: "string \<Rightarrow> model_store \<Rightarrow> model_descriptor option" where
  "FindDescriptor name m = map_get m name"

definition ParseModelFields :: "string \<Rightarrow> model_descriptor \<Rightarrow> model_store \<Rightarrow> model_descriptor \<times> model_store" where
  "ParseModelFields table d m = (ParseFields d, map_set m table (ParseFields d))"

section \<open>The parser\<close>

text \<open>What \<^verbatim>\<open>Parse\<close> can end with: an error of validation, another error, or the panic of a nil pointer.\<close>

datatype query_error = QValidation validation_failure | QOther goerror | QPanic

record filter_validator =
  fv_Rules :: "(string \<times> string) list"
  fv_ValidateValue :: "gval \<Rightarrow> string \<Rightarrow> err"

record parser_lib =
  pl_ParseFloat :: "string \<Rightarrow> goerror + nat"
  pl_nil_Present :: "bool option"

record filter_parser =
  fp_Destination :: model_descriptor
  fp_Validator :: "filter_validator option"

text \<open>The value of \<open>pl_ParseFloat\<close> are the bits of the number; \<open>pl_nil_Present\<close> is what asking a nil pointer to an
  optional string whether it is present gives, \<open>None\<close> when that panics.\<close>

definition StrToFloat :: "(string \<Rightarrow> goerror + nat) \<Rightarrow> string \<Rightarrow> goerror + nat" where
  "StrToFloat ParseFloat s = (if s = [] then Inr 0
     else ParseFloat (filter (\<lambda>c. c \<noteq> CHR '' '') (map (\<lambda>c. if c = CHR '','' then CHR ''.'' else c) s)))"

definition convertValue :: "parser_lib \<Rightarrow> schema_field \<Rightarrow> string \<Rightarrow> goerror + gval" where
  "convertValue lib field val = (case sf_DataType field of
     DString \<Rightarrow> Inr (VStr val)
   | DInt \<Rightarrow> (case StrToInt64 val of Inl e \<Rightarrow> Inl e | Inr i \<Rightarrow> Inr (VInt64 i))
   | DBool \<Rightarrow> (case StrToBool val of Inl e \<Rightarrow> Inl e | Inr b \<Rightarrow> Inr (VBool b))
   | DUint \<Rightarrow> (case StrToUint64 val of Inl e \<Rightarrow> Inl e | Inr n \<Rightarrow> Inr (VUint64 n))
   | DFloat \<Rightarrow> (case StrToFloat (pl_ParseFloat lib) val of Inl e \<Rightarrow> Inl e | Inr x \<Rightarrow> Inr (VFloat64 x))
   | DTime \<Rightarrow> (case ParseTime val of Inl e \<Rightarrow> Inl e | Inr t \<Rightarrow> Inr (VTime (t_instant t)))
   | DOther _ \<Rightarrow> Inl (NativeError ''unsupported field type''))"

definition invalid :: "string \<Rightarrow> string \<Rightarrow> query_error" where
  "invalid msg field = QValidation \<lparr>ve_Message = msg, ve_Field = field, ve_Err = None\<rparr>"

definition field_rules :: "filter_validator \<Rightarrow> string \<Rightarrow> field_descriptor \<Rightarrow> string" where
  "field_rules v name field = (case map_get (fv_Rules v) name of
     Some rules \<Rightarrow> rules | None \<Rightarrow> sf_validate (fd_Schema field))"

definition ParseValidateField :: "parser_lib \<Rightarrow> filter_parser \<Rightarrow> string \<Rightarrow> string \<Rightarrow> bool list \<Rightarrow> query_error + (string \<times> gval)" where
  "ParseValidateField lib f name val onlyName = (case FindJsonField name (fp_Destination f) of
     Inl _ \<Rightarrow> Inl (invalid ''Invalid field name'' name)
   | Inr field \<Rightarrow>
       if \<not> fd_Index field then Inl (invalid ''Non-index field can not be used in queries'' name)
       else if OptionalArg False onlyName then Inr (fd_FullDbName field, VStr val)
       else case convertValue lib (fd_Schema field) val of
         Inl _ \<Rightarrow> Inl (invalid ''Invalid field value'' name)
       | Inr res \<Rightarrow>
           (case fp_Validator f of
              None \<Rightarrow> Inr (fd_FullDbName field, res)
            | Some v \<Rightarrow>
                (let fieldRules = field_rules v name field in
                 if fieldRules = [] then Inr (fd_FullDbName field, res)
                 else case fv_ValidateValue v res fieldRules of
                   Some e \<Rightarrow> Inl (QOther e)
                 | None \<Rightarrow> Inr (fd_FullDbName field, res))))"

text \<open>The loops of \<^verbatim>\<open>Parse\<close>; the first error ends them.\<close>

fun parse_fields :: "parser_lib \<Rightarrow> filter_parser \<Rightarrow> (string \<times> string) list \<Rightarrow> fields \<Rightarrow> query_error + fields" where
  "parse_fields lib f [] acc = Inr acc"
| "parse_fields lib f ((key, val) # rest) acc = (case ParseValidateField lib f key val [] of
     Inl e \<Rightarrow> Inl e | Inr (field, v) \<Rightarrow> parse_fields lib f rest (map_set acc field v))"

text \<open>A list without values leaves the name as the query has it.\<close>

fun parse_values :: "parser_lib \<Rightarrow> filter_parser \<Rightarrow> string \<Rightarrow> string list \<Rightarrow> string \<Rightarrow> query_error + (string \<times> gval list)" where
  "parse_values lib f key [] field = Inr (field, [])"
| "parse_values lib f key (val # vals) field = (case ParseValidateField lib f key val [] of
     Inl e \<Rightarrow> Inl e
   | Inr (field, v) \<Rightarrow> (case parse_values lib f key vals field of
       Inl e \<Rightarrow> Inl e | Inr (field, vs) \<Rightarrow> Inr (field, v # vs)))"

fun parse_fields_in :: "parser_lib \<Rightarrow> filter_parser \<Rightarrow> (string \<times> string list) list \<Rightarrow> (string \<times> gval list) list
    \<Rightarrow> query_error + (string \<times> gval list) list" where
  "parse_fields_in lib f [] acc = Inr acc"
| "parse_fields_in lib f ((key, vals) # rest) acc = (case parse_values lib f key vals key of
     Inl e \<Rightarrow> Inl e | Inr (field, arr) \<Rightarrow> parse_fields_in lib f rest (map_set acc field arr))"

definition extractOptional :: "parser_lib \<Rightarrow> string \<Rightarrow> string option option \<Rightarrow> query_error + string option" where
  "extractOptional lib field opt = (case opt of
     None \<Rightarrow> (case pl_nil_Present lib of
        None \<Rightarrow> Inl QPanic | Some True \<Rightarrow> Inl (invalid ''Invalid field type'' field) | Some False \<Rightarrow> Inr None)
   | Some str \<Rightarrow> Inr str)"

text \<open>One bound of an interval: the column and the value, or nothing when the bound is not present.\<close>

definition parse_bound :: "parser_lib \<Rightarrow> filter_parser \<Rightarrow> string \<Rightarrow> string \<Rightarrow> string option option \<Rightarrow> query_error + (string \<times> gval)" where
  "parse_bound lib f key what opt = (case extractOptional lib what opt of
     Inl e \<Rightarrow> Inl e
   | Inr None \<Rightarrow> Inr ([], VNil)
   | Inr (Some str) \<Rightarrow> ParseValidateField lib f key str [])"

fun parse_intervals :: "parser_lib \<Rightarrow> filter_parser \<Rightarrow> (string \<times> query_interval) list \<Rightarrow> (string \<times> interval) list
    \<Rightarrow> query_error + (string \<times> interval) list" where
  "parse_intervals lib f [] acc = Inr acc"
| "parse_intervals lib f ((key, i) # rest) acc = (case parse_bound lib f key ''interval.from'' (qi_From i) of
     Inl e \<Rightarrow> Inl e
   | Inr (fieldFrom, from) \<Rightarrow> (case parse_bound lib f key ''interval.to'' (qi_To i) of
       Inl e \<Rightarrow> Inl e
     | Inr (fieldTo, to) \<Rightarrow>
         (let field = (if fieldFrom = [] then fieldTo else fieldFrom) in
          parse_intervals lib f rest
            (if field \<noteq> [] then map_set acc field \<lparr>From = from, To = to, FromOpen = qi_FromOpen i, ToOpen = qi_ToOpen i\<rparr>
             else acc))))"

fun parse_betweens :: "parser_lib \<Rightarrow> filter_parser \<Rightarrow> query_between list \<Rightarrow> query_error + between_fields list" where
  "parse_betweens lib f [] = Inr []"
| "parse_betweens lib f (b # rest) = (case ParseValidateField lib f (qb_FromField b) (qb_Value b) [] of
     Inl e \<Rightarrow> Inl e
   | Inr (fromField, val) \<Rightarrow> (case ParseValidateField lib f (qb_ToField b) (qb_Value b) [] of
       Inl e \<Rightarrow> Inl e
     | Inr (toField, _) \<Rightarrow> (case parse_betweens lib f rest of
         Inl e \<Rightarrow> Inl e
       | Inr bs \<Rightarrow> Inr (\<lparr>FromField = fromField, ToField = toField, BetweenValue = val,
           BetweenFromOpen = qb_FromOpen b, BetweenToOpen = qb_ToOpen b\<rparr> # bs))))"

fun parse_or :: "parser_lib \<Rightarrow> filter_parser \<Rightarrow> string \<Rightarrow> string list \<Rightarrow> gval \<Rightarrow> query_error + (string list \<times> gval)" where
  "parse_or lib f val [] res = Inr ([], res)"
| "parse_or lib f val (name # names) res = (case ParseValidateField lib f name val [] of
     Inl e \<Rightarrow> Inl e
   | Inr (field, v) \<Rightarrow> (case parse_or lib f val names v of
       Inl e \<Rightarrow> Inl e | Inr (fs, res) \<Rightarrow> Inr (field # fs, res)))"

fun parse_ors :: "parser_lib \<Rightarrow> filter_parser \<Rightarrow> query_or list \<Rightarrow> query_error + or_fields list" where
  "parse_ors lib f [] = Inr []"
| "parse_ors lib f (p # rest) = (case parse_or lib f (qo_Value p) (qo_Fields p) VNil of
     Inl e \<Rightarrow> Inl e
   | Inr (names, val) \<Rightarrow> (case parse_ors lib f rest of
       Inl e \<Rightarrow> Inl e | Inr ps \<Rightarrow> Inr (\<lparr>OrValue = val, OrNames = names\<rparr> # ps)))"

definition parse_sort :: "parser_lib \<Rightarrow> filter_parser \<Rightarrow> string \<Rightarrow> query_error + string" where
  "parse_sort lib f name = (if name = [] then Inr []
     else case ParseValidateField lib f name [] [True] of Inl e \<Rightarrow> Inl e | Inr (field, _) \<Rightarrow> Inr field)"

definition map_or_nil :: "'a list \<Rightarrow> 'b list \<Rightarrow> 'b list option" where
  "map_or_nil src m = (if length src > 0 then Some m else None)"

definition Parse :: "parser_lib \<Rightarrow> filter_parser \<Rightarrow> query option \<Rightarrow> query_error + db_filter option" where
  "Parse lib f query = (case query of
     None \<Rightarrow> Inr None
   | Some q \<Rightarrow> (case parse_sort lib f (q_SortField q) of Inl e \<Rightarrow> Inl e
   | Inr sortField \<Rightarrow> (case parse_fields lib f (q_Fields q) [] of Inl e \<Rightarrow> Inl e
   | Inr fs \<Rightarrow> (case parse_fields_in lib f (q_FieldsIn q) [] of Inl e \<Rightarrow> Inl e
   | Inr fieldsIn \<Rightarrow> (case parse_fields_in lib f (q_FieldsNotIn q) [] of Inl e \<Rightarrow> Inl e
   | Inr fieldsNotIn \<Rightarrow> (case parse_intervals lib f (q_Intervals q) [] of Inl e \<Rightarrow> Inl e
   | Inr intervals \<Rightarrow> (case parse_betweens lib f (q_BetweenFields q) of Inl e \<Rightarrow> Inl e
   | Inr betweens \<Rightarrow> (case parse_ors lib f (q_OrFields q) of Inl e \<Rightarrow> Inl e
   | Inr ors \<Rightarrow> Inr (Some
       \<lparr>SortField = sortField, SortDirection = q_SortDirection q, Offset = q_Offset q, Limit = q_Limit q, Count = q_Count q,
        Fields = map_or_nil (q_Fields q) fs, FieldsIn = map_or_nil (q_FieldsIn q) fieldsIn,
        FieldsNotIn = map_or_nil (q_FieldsNotIn q) fieldsNotIn, Intervals = map_or_nil (q_Intervals q) intervals,
        BetweenFields = betweens, OrFields = ors, PresetFields = []\<rparr>)))))))))"

section \<open>The manager of parsers\<close>

record filter_manager =
  fm_modelStore :: model_store
  fm_parsers :: "(string \<times> filter_parser) list"

definition NewFilterManager :: "model_store \<Rightarrow> model_store list \<Rightarrow> filter_manager" where
  "NewFilterManager GlobalModelStore modelStore =
     \<lparr>fm_modelStore = OptionalArg GlobalModelStore modelStore, fm_parsers = []\<rparr>"

definition ready_descriptor :: "string \<Rightarrow> model_descriptor \<Rightarrow> model_store \<Rightarrow> model_descriptor \<times> model_store" where
  "ready_descriptor table d m = (if FieldsReady d then (d, m) else ParseModelFields table d m)"

definition PrepareFilterParser :: "schema_lib \<Rightarrow> string \<Rightarrow> string \<Rightarrow> filter_validator option list \<Rightarrow> filter_manager
    \<Rightarrow> (goerror + filter_parser) \<times> filter_manager" where
  "PrepareFilterParser sl model name validator f = (case sl model of
     Inl e \<Rightarrow> (Inl (NativeError (''failed to parse model schema: '' @ error_text e)), f)
   | Inr s \<Rightarrow> (case FindDescriptor (ms_Table s) (fm_modelStore f) of
       None \<Rightarrow> (Inl (NativeError (''model '' @ ms_Name s @ '' (table '' @ ms_Table s @ '') not registered'')), f)
     | Some d \<Rightarrow>
         (let (d, store) = ready_descriptor (ms_Table s) d (fm_modelStore f);
              parser = \<lparr>fp_Destination = d, fp_Validator = OptionalArg None validator\<rparr> in
          (Inr parser, f\<lparr>fm_modelStore := store, fm_parsers := map_set (fm_parsers f) name parser\<rparr>))))"

definition ParseFilter :: "parser_lib \<Rightarrow> query option \<Rightarrow> string \<Rightarrow> filter_manager \<Rightarrow> query_error + db_filter option" where
  "ParseFilter lib q parserName f = (case map_get (fm_parsers f) parserName of
     None \<Rightarrow> Inl (invalid ''unknown parser'' [])
   | Some parser \<Rightarrow> Parse lib parser q)"

text \<open>A parser that is there under the name is taken, whatever model it was prepared for.\<close>

definition ParseFilterDirect :: "parser_lib \<Rightarrow> schema_lib \<Rightarrow> query option \<Rightarrow> string \<Rightarrow> string \<Rightarrow> filter_validator option list
    \<Rightarrow> filter_manager \<Rightarrow> (query_error + db_filter option) \<times> filter_manager" where
  "ParseFilterDirect lib sl q model parserName vld f = (case map_get (fm_parsers f) parserName of
     Some parser \<Rightarrow> (Parse lib parser q, f)
   | None \<Rightarrow> (case PrepareFilterParser sl model parserName vld f of
       (Inl e, f) \<Rightarrow> (Inl (QOther e), f)
     | (Inr p, f) \<Rightarrow> (Parse lib p q, f)))"

text \<open>\<open>unmarshal\<close> is the JSON library.\<close>

definition ParseQuery :: "(string \<Rightarrow> goerror + query) \<Rightarrow> parser_lib \<Rightarrow> schema_lib \<Rightarrow> string \<Rightarrow> string \<Rightarrow> string
    \<Rightarrow> filter_validator option list \<Rightarrow> filter_manager \<Rightarrow> (query_error + db_filter option) \<times> filter_manager" where
  "ParseQuery unmarshal lib sl query model parserName vld f =
     (if query = [] then (Inr None, f)
      else case unmarshal query of
        Inl e \<Rightarrow> (Inl (QOther e), f)
      | Inr q \<Rightarrow> ParseFilterDirect lib sl (Some q) model parserName vld f)"

section \<open>What a parsed filter holds\<close>

definition has_type :: "data_type \<Rightarrow> gval \<Rightarrow> bool" where
  "has_type t v \<longleftrightarrow> (case t of
     DString \<Rightarrow> (\<exists>s. v = VStr s)
   | DInt \<Rightarrow> (\<exists>i. v = VInt64 i \<and> - (2 ^ 63) \<le> i \<and> i < 2 ^ 63)
   | DBool \<Rightarrow> (\<exists>b. v = VBool b)
   | DUint \<Rightarrow> (\<exists>n. v = VUint64 n \<and> n < 2 ^ 64)
   | DFloat \<Rightarrow> (\<exists>x. v = VFloat64 x)
   | DTime \<Rightarrow> (\<exists>t. v = VTime t)
   | DOther _ \<Rightarrow> False)"

text \<open>A column that queries may name, and a value that they may compare it with.\<close>

definition indexed :: "filter_parser \<Rightarrow> string \<Rightarrow> field_descriptor \<Rightarrow> bool" where
  "indexed p name fd \<longleftrightarrow> FindJsonField name (fp_Destination p) = Inr fd \<and> fd_Index fd"

definition known_column :: "filter_parser \<Rightarrow> string \<Rightarrow> bool" where
  "known_column p col \<longleftrightarrow> (\<exists>name fd. indexed p name fd \<and> col = fd_FullDbName fd)"

definition passes :: "filter_parser \<Rightarrow> string \<Rightarrow> field_descriptor \<Rightarrow> gval \<Rightarrow> bool" where
  "passes p name fd v \<longleftrightarrow> (case fp_Validator p of
     None \<Rightarrow> True
   | Some vld \<Rightarrow> field_rules vld name fd = [] \<or> fv_ValidateValue vld v (field_rules vld name fd) = None)"

definition typed_value :: "filter_parser \<Rightarrow> string \<Rightarrow> gval \<Rightarrow> bool" where
  "typed_value p col v \<longleftrightarrow> (\<exists>name fd. indexed p name fd \<and> col = fd_FullDbName fd
     \<and> has_type (sf_DataType (fd_Schema fd)) v \<and> passes p name fd v)"

definition typed_list :: "filter_parser \<Rightarrow> string \<times> gval list \<Rightarrow> bool" where
  "typed_list p e \<longleftrightarrow> known_column p (fst e) \<and> (\<forall>v \<in> set (snd e). typed_value p (fst e) v)"

definition typed_interval :: "filter_parser \<Rightarrow> string \<times> interval \<Rightarrow> bool" where
  "typed_interval p e \<longleftrightarrow> known_column p (fst e)
     \<and> (From (snd e) = VNil \<or> typed_value p (fst e) (From (snd e)))
     \<and> (To (snd e) = VNil \<or> typed_value p (fst e) (To (snd e)))"

definition typed_between :: "filter_parser \<Rightarrow> between_fields \<Rightarrow> bool" where
  "typed_between p b \<longleftrightarrow> typed_value p (FromField b) (BetweenValue b) \<and> known_column p (ToField b)"

definition typed_or :: "filter_parser \<Rightarrow> or_fields \<Rightarrow> bool" where
  "typed_or p r \<longleftrightarrow> (\<forall>col \<in> set (OrNames r). known_column p col)
     \<and> (OrNames r \<noteq> [] \<longrightarrow> typed_value p (last (OrNames r)) (OrValue r))"

definition typed_filter :: "filter_parser \<Rightarrow> db_filter \<Rightarrow> bool" where
  "typed_filter p f \<longleftrightarrow>
     (SortField f = [] \<or> known_column p (SortField f))
   \<and> (\<forall>(col, v) \<in> set (nil_map (Fields f)). typed_value p col v)
   \<and> (\<forall>e \<in> set (nil_map (FieldsIn f)). typed_list p e)
   \<and> (\<forall>e \<in> set (nil_map (FieldsNotIn f)). typed_list p e)
   \<and> (\<forall>e \<in> set (nil_map (Intervals f)). typed_interval p e)
   \<and> (\<forall>b \<in> set (BetweenFields f). typed_between p b)
   \<and> (\<forall>r \<in> set (OrFields f). typed_or p r)
   \<and> PresetFields f = []"

section \<open>Lemmas\<close>

lemma convertValue_type:
  assumes "convertValue lib field val = Inr v"
  shows "has_type (sf_DataType field) v"
proof (cases "sf_DataType field")
  case DInt
  then obtain i where i: "StrToInt64 val = Inr i" "v = VInt64 i"
    using assms by (auto simp: convertValue_def split: sum.splits)
  then have "i = 0 \<or> ParseInt val 10 64 = Inr i" by (auto simp: StrToInt64_def split: if_splits sum.splits)
  then have "- (2 ^ 63) \<le> i \<and> i < 2 ^ 63" using ParseInt_bound [of val 10 64 i] by auto
  with i DInt show ?thesis by (simp add: has_type_def)
next
  case DUint
  then obtain n where n: "StrToUint64 val = Inr n" "v = VUint64 n"
    using assms by (auto simp: convertValue_def split: sum.splits)
  then have "n = 0 \<or> ParseUint val 10 64 = Inr n" by (auto simp: StrToUint64_def split: if_splits sum.splits)
  then have "n < 2 ^ 64" using ParseUint_bound [of val 10 64 n] by auto
  with n DUint show ?thesis by (simp add: has_type_def)
qed (use assms in \<open>auto simp: convertValue_def has_type_def split: sum.splits\<close>)

lemma ParseValidateField_typed:
  assumes "ParseValidateField lib p name val [] = Inr (col, v)"
  obtains fd where "indexed p name fd" "col = fd_FullDbName fd" "has_type (sf_DataType (fd_Schema fd)) v" "passes p name fd v"
  using assms convertValue_type
  by (auto simp: ParseValidateField_def indexed_def passes_def OptionalArg_def Let_def
      split: sum.splits if_splits option.splits)

lemma ParseValidateField_value:
  assumes "ParseValidateField lib p name val [] = Inr (col, v)"
  shows "typed_value p col v" "known_column p col"
  by (rule ParseValidateField_typed [OF assms], force simp: typed_value_def known_column_def)+

lemma ParseValidateField_column:
  assumes "ParseValidateField lib p name val [] = Inr (col, v)" "ParseValidateField lib p name val' [] = Inr (col', v')"
  shows "col' = col"
  using ParseValidateField_typed [OF assms(1)] ParseValidateField_typed [OF assms(2)]
  by (metis indexed_def sum.inject(2))

lemma ParseValidateField_value_not_nil:
  assumes "ParseValidateField lib p name val [] = Inr (col, v)"
  shows "v \<noteq> VNil"
  by (rule ParseValidateField_typed [OF assms]) (auto simp: has_type_def split: data_type.splits)

lemma set_map_set: "set (map_set m k v) \<subseteq> insert (k, v) (set m)"
  unfolding map_set_def by (induction m) auto

lemma parse_fields_typed:
  assumes "parse_fields lib p kvs acc = Inr fs" "\<forall>(col, v) \<in> set acc. typed_value p col v"
  shows "\<forall>(col, v) \<in> set fs. typed_value p col v"
  using assms
proof (induction lib p kvs acc rule: parse_fields.induct)
  case (2 lib p key val rest acc)
  from "2.prems"(1) obtain col v where pv: "ParseValidateField lib p key val [] = Inr (col, v)"
    and rest: "parse_fields lib p rest (map_set acc col v) = Inr fs" by (auto split: sum.splits)
  have "\<forall>(col, v) \<in> set (map_set acc col v). typed_value p col v"
    using set_map_set [of acc col v] "2.prems"(2) ParseValidateField_value(1) [OF pv] by auto
  with "2.IH" [OF pv refl] rest show ?case by blast
qed simp

lemma parse_values_typed:
  assumes "parse_values lib p key vals field = Inr (col, vs)" "vals \<noteq> [] \<or> known_column p field"
  shows "typed_list p (col, vs)"
proof -
  have "known_column p col \<and> (\<forall>v \<in> set vs. typed_value p col v) \<and> (vals = [] \<longrightarrow> col = field \<and> vs = [])
     \<and> (vals \<noteq> [] \<longrightarrow> (\<exists>val v. ParseValidateField lib p key val [] = Inr (col, v)))"
    using assms
  proof (induction vals arbitrary: field col vs)
    case (Cons val vals)
    from Cons.prems(1) obtain col1 v1 vs1 where pv: "ParseValidateField lib p key val [] = Inr (col1, v1)"
      and rest: "parse_values lib p key vals col1 = Inr (col, vs1)" and vs: "vs = v1 # vs1" by (auto split: sum.splits)
    note IH = Cons.IH [OF rest] ParseValidateField_value [OF pv]
    have "col = col1" using IH ParseValidateField_column [OF pv] by (cases "vals = []") auto
    with IH pv vs show ?case by auto
  qed auto
  then show ?thesis by (simp add: typed_list_def)
qed

lemma parse_fields_in_typed:
  assumes "parse_fields_in lib p kvs acc = Inr fs" "\<forall>e \<in> set acc. typed_list p e" "\<forall>(k, vs) \<in> set kvs. vs \<noteq> []"
  shows "\<forall>e \<in> set fs. typed_list p e"
  using assms
proof (induction lib p kvs acc rule: parse_fields_in.induct)
  case (2 lib p key vals rest acc)
  from "2.prems"(1) obtain col vs where pv: "parse_values lib p key vals key = Inr (col, vs)"
    and rest: "parse_fields_in lib p rest (map_set acc col vs) = Inr fs" by (auto split: sum.splits)
  have "vals \<noteq> []" using "2.prems"(3) by simp
  then have "\<forall>e \<in> set (map_set acc col vs). typed_list p e"
    using set_map_set [of acc col vs] "2.prems"(2) parse_values_typed [OF pv] by auto
  with "2.IH" [OF pv refl] rest "2.prems"(3) show ?case by simp
qed simp

lemma parse_bound_cases:
  assumes "parse_bound lib p key what opt = Inr (col, v)"
  shows "col = [] \<and> v = VNil \<or> (\<exists>val. ParseValidateField lib p key val [] = Inr (col, v))"
  using assms by (auto simp: parse_bound_def split: sum.splits option.splits)

lemma parse_bounds_typed:
  assumes "parse_bound lib p key a x = Inr (c1, v1)" "parse_bound lib p key b y = Inr (c2, v2)"
    and "col = (if c1 = [] then c2 else c1)" "col \<noteq> []"
  shows "typed_interval p (col, \<lparr>From = v1, To = v2, FromOpen = q, ToOpen = r\<rparr>)"
proof -
  have n: "v \<noteq> VNil" "typed_value p c v" "known_column p c" if "ParseValidateField lib p key val [] = Inr (c, v)" for c v val
    using ParseValidateField_value_not_nil [OF that] ParseValidateField_value [OF that] by auto
  have same: "c = c'" if "ParseValidateField lib p key val [] = Inr (c, v)" "ParseValidateField lib p key val' [] = Inr (c', v')" for c c' v v' val val'
    using ParseValidateField_column [OF that(2,1)] .
  from parse_bound_cases [OF assms(1)] parse_bound_cases [OF assms(2)] show ?thesis
    using assms(3,4) by (elim disjE exE conjE) (auto simp: typed_interval_def dest: n same)
qed

lemma parse_intervals_typed:
  assumes "parse_intervals lib p kis acc = Inr is" "\<forall>e \<in> set acc. typed_interval p e"
  shows "\<forall>e \<in> set is. typed_interval p e"
  using assms
proof (induction kis arbitrary: acc)
  case (Cons ki rest)
  obtain key i where ki: "ki = (key, i)" by fastforce
  from Cons.prems(1) obtain c1 v1 c2 v2 where b: "parse_bound lib p key ''interval.from'' (qi_From i) = Inr (c1, v1)"
      "parse_bound lib p key ''interval.to'' (qi_To i) = Inr (c2, v2)" by (auto simp: ki split: sum.splits)
  define col where "col = (if c1 = [] then c2 else c1)"
  define iv where "iv = \<lparr>From = v1, To = v2, FromOpen = qi_FromOpen i, ToOpen = qi_ToOpen i\<rparr>"
  define acc' where "acc' = (if col \<noteq> [] then map_set acc col iv else acc)"
  have rest: "parse_intervals lib p rest acc' = Inr is"
    using Cons.prems(1) by (simp add: ki b acc'_def col_def iv_def Let_def split: if_splits)
  have "col \<noteq> [] \<Longrightarrow> typed_interval p (col, iv)" unfolding iv_def by (rule parse_bounds_typed [OF b col_def])
  then have "\<forall>e \<in> set acc'. typed_interval p e"
    using set_map_set [of acc col iv] Cons.prems(2) by (auto simp: acc'_def)
  from Cons.IH [OF rest this] show ?case .
qed simp

lemma parse_betweens_typed:
  assumes "parse_betweens lib p qs = Inr bs" "b \<in> set bs"
  shows "typed_between p b"
  using assms
proof (induction qs arbitrary: bs)
  case (Cons q qs)
  from Cons.prems(1) obtain c1 v1 c2 v2 bs1 where pv: "ParseValidateField lib p (qb_FromField q) (qb_Value q) [] = Inr (c1, v1)"
      "ParseValidateField lib p (qb_ToField q) (qb_Value q) [] = Inr (c2, v2)"
    and rest: "parse_betweens lib p qs = Inr bs1"
    and bs: "bs = \<lparr>FromField = c1, ToField = c2, BetweenValue = v1, BetweenFromOpen = qb_FromOpen q, BetweenToOpen = qb_ToOpen q\<rparr> # bs1"
    by (auto split: sum.splits)
  show ?case using Cons.prems(2) Cons.IH [OF rest] ParseValidateField_value(1) [OF pv(1)] ParseValidateField_value(2) [OF pv(2)]
    by (auto simp: bs typed_between_def)
qed simp

lemma parse_or_typed:
  assumes "parse_or lib p val names v0 = Inr (cols, v)"
  shows "(\<forall>col \<in> set cols. known_column p col) \<and> (if cols = [] then v = v0 else typed_value p (last cols) v)"
  using assms
proof (induction names arbitrary: v0 cols)
  case (Cons name names)
  then obtain col v1 cols1 where pv: "ParseValidateField lib p name val [] = Inr (col, v1)"
    and rest: "parse_or lib p val names v1 = Inr (cols1, v)" and cols: "cols = col # cols1" by (auto split: sum.splits)
  from Cons.IH [OF rest] ParseValidateField_value [OF pv] show ?case by (auto simp: cols)
qed auto

lemma parse_ors_typed:
  assumes "parse_ors lib p qs = Inr rs" "r \<in> set rs"
  shows "typed_or p r"
  using assms
proof (induction qs arbitrary: rs)
  case (Cons q qs)
  then obtain cols v rs1 where pv: "parse_or lib p (qo_Value q) (qo_Fields q) VNil = Inr (cols, v)"
    and rest: "parse_ors lib p qs = Inr rs1" and rs: "rs = \<lparr>OrValue = v, OrNames = cols\<rparr> # rs1" by (auto split: sum.splits)
  show ?case using Cons.prems(2) Cons.IH [OF rest] parse_or_typed [OF pv] by (auto simp: rs typed_or_def split: if_splits)
qed simp

lemma parse_sort_known:
  assumes "parse_sort lib p name = Inr col"
  shows "col = [] \<or> known_column p col"
  using assms
  by (auto simp: parse_sort_def ParseValidateField_def known_column_def indexed_def OptionalArg_def
      split: sum.splits if_splits)

lemma nil_map_or_nil: "nil_map (map_or_nil src m) = (if src = [] then [] else m)"
  by (simp add: map_or_nil_def nil_map_def)

lemma Parse_steps:
  assumes "Parse lib p (Some q) = Inr (Some f)"
  obtains sortField fs ins nots ivs bs ors where "parse_sort lib p (q_SortField q) = Inr sortField"
    "parse_fields lib p (q_Fields q) [] = Inr fs" "parse_fields_in lib p (q_FieldsIn q) [] = Inr ins"
    "parse_fields_in lib p (q_FieldsNotIn q) [] = Inr nots" "parse_intervals lib p (q_Intervals q) [] = Inr ivs"
    "parse_betweens lib p (q_BetweenFields q) = Inr bs" "parse_ors lib p (q_OrFields q) = Inr ors"
    "f = \<lparr>SortField = sortField, SortDirection = q_SortDirection q, Offset = q_Offset q, Limit = q_Limit q, Count = q_Count q,
        Fields = map_or_nil (q_Fields q) fs, FieldsIn = map_or_nil (q_FieldsIn q) ins,
        FieldsNotIn = map_or_nil (q_FieldsNotIn q) nots, Intervals = map_or_nil (q_Intervals q) ivs,
        BetweenFields = bs, OrFields = ors, PresetFields = []\<rparr>"
  using assms unfolding Parse_def option.case by (auto split: sum.splits)


section \<open>Queries that are sent and parsed back\<close>

lemma pad_zero_0 [simp]: "pad_zero 0 s = s"
  by (simp add: pad_zero_def)

lemma unsigned_digits: "ParseUint s 10 64 = Inr n \<Longrightarrow> s \<noteq> [] \<and> hd s \<noteq> CHR ''-'' \<and> hd s \<noteq> CHR ''+''"
  by (cases s) (auto simp: ParseUint_def char_digit_def split: option.splits)

lemma StrToUint64_NumToStr: "n < 2 ^ 64 \<Longrightarrow> StrToUint64 (NumToStr (int n)) = Inr n"
  using ParseUint_pad [of 10 n 64 0] unsigned_digits [of "fmt_nat 10 n" n]
  by (simp add: StrToUint64_def NumToStr_def fmt_int_def)

lemma StrToInt64_NumToStr:
  assumes "- (2 ^ 63) \<le> i" "i < 2 ^ 63"
  shows "StrToInt64 (NumToStr i) = Inr i"
proof (cases "i < 0")
  case True
  have "ParseUint (fmt_nat 10 (nat (- i))) 10 64 = Inr (nat (- i))"
    using ParseUint_pad [of 10 "nat (- i)" 64 0] assms by (simp add: nat_less_iff)
  with True assms show ?thesis by (simp add: StrToInt64_def NumToStr_def fmt_int_def ParseInt_def)
next
  case False
  have u: "ParseUint (fmt_nat 10 (nat i)) 10 64 = Inr (nat i)"
    using ParseUint_pad [of 10 "nat i" 64 0] assms False by (simp add: nat_less_iff)
  with False assms unsigned_digits [OF u] show ?thesis
    by (simp add: StrToInt64_def NumToStr_def fmt_int_def ParseInt_def nat_less_iff)
qed

text \<open>What becomes of a value on the way: a boolean always arrives as true.\<close>

definition returned :: "gval \<Rightarrow> gval" where
  "returned v = (case v of VBool b \<Rightarrow> VBool True | _ \<Rightarrow> v)"

definition plain_type :: "data_type \<Rightarrow> bool" where
  "plain_type t \<longleftrightarrow> t = DString \<or> t = DInt \<or> t = DUint \<or> t = DBool"

lemma convertValue_back:
  assumes "plain_type (sf_DataType field)" "has_type (sf_DataType field) v"
  shows "convertValue lib field (filterValueToString other v) = Inr (returned v)"
proof -
  have "StrToBool (BoolToStr b) = Inr True" for b
    by (simp add: StrToBool_def BoolToStr_def to_lower_def Let_def)
  with assms show ?thesis
    by (auto simp: plain_type_def has_type_def convertValue_def filterValueToString_def returned_def
        StrToInt64_NumToStr StrToUint64_NumToStr)
qed

definition column_of :: "filter_parser \<Rightarrow> string \<Rightarrow> string" where
  "column_of p name = (case FindJsonField name (fp_Destination p) of Inl _ \<Rightarrow> [] | Inr fd \<Rightarrow> fd_FullDbName fd)"

definition sendable :: "filter_parser \<Rightarrow> string \<times> gval \<Rightarrow> bool" where
  "sendable p e \<longleftrightarrow> (\<exists>fd. indexed p (fst e) fd \<and> plain_type (sf_DataType (fd_Schema fd))
     \<and> has_type (sf_DataType (fd_Schema fd)) (snd e))"

lemma ParseValidateField_back:
  assumes "fp_Validator p = None" "sendable p (k, v)"
  shows "ParseValidateField lib p k (filterValueToString other v) [] = Inr (column_of p k, returned v)"
  using assms by (auto simp: ParseValidateField_def sendable_def indexed_def column_of_def convertValue_back OptionalArg_def)

lemma map_set_new: "k \<notin> fst ` set m \<Longrightarrow> map_set m k v = m @ [(k, v)]"
  unfolding map_set_def by (induction m) auto

lemma parse_fields_back:
  assumes "fp_Validator p = None" "\<forall>e \<in> set fs. sendable p e" "distinct (map (column_of p \<circ> fst) fs)"
    and "\<forall>e \<in> set fs. column_of p (fst e) \<notin> fst ` set acc"
  shows "parse_fields lib p (map (\<lambda>(k, v). (k, filterValueToString other v)) fs) acc
    = Inr (acc @ map (\<lambda>(k, v). (column_of p k, returned v)) fs)"
  using assms(2-4)
proof (induction fs arbitrary: acc)
  case (Cons e fs)
  obtain k v where e: "e = (k, v)" by fastforce
  have pv: "ParseValidateField lib p k (filterValueToString other v) [] = Inr (column_of p k, returned v)"
    using Cons.prems(1) by (intro ParseValidateField_back [OF assms(1)]) (simp add: e)
  have "column_of p k \<notin> fst ` set acc" using Cons.prems(3) by (simp add: e)
  moreover have "\<forall>e \<in> set fs. column_of p (fst e) \<notin> fst ` set (acc @ [(column_of p k, returned v)])"
    using Cons.prems(2,3) by (auto simp: e image_iff)
  ultimately show ?case using Cons.IH [of "acc @ [(column_of p k, returned v)]"] Cons.prems by (simp add: e pv map_set_new)
qed simp


section \<open>Witnesses\<close>

definition demo_schema :: model_schema where
  "demo_schema =
     (let field = (\<lambda>n t idx. \<lparr>sf_DBName = n, sf_DataType = t, sf_json = [], sf_source = [], sf_validate = [], sf_PrimaryKey = False,
        sf_INDEX = idx, sf_UNIQUEINDEX = [], sf_Owner = None\<rparr>)
      in \<lparr>ms_Name = ''User'', ms_Table = ''users'', ms_Fields = [field ''login'' DString ''INDEX'', field ''blocked'' DBool ''INDEX'',
        field ''note'' DString []], ms_Struct = []\<rparr>)"

definition demo_parser :: filter_parser where
  "demo_parser = \<lparr>fp_Destination = ParseFields \<lparr>md_Sample = ''User'', md_Schema = demo_schema, md_FieldsJson = None\<rparr>,
     fp_Validator = None\<rparr>"

definition demo_parser_lib :: parser_lib where
  "demo_parser_lib = \<lparr>pl_ParseFloat = (\<lambda>_. Inr 0), pl_nil_Present = None\<rparr>"

definition demo_filter :: db_filter where
  "demo_filter = NewFilter\<lparr>Fields := Some [(''login'', VStr ''joe''), (''blocked'', VBool False)], SortDirection := [],
     Offset := 0, Limit := 10, Count := False\<rparr>"

lemma demo_indexed: "\<exists>fd. indexed demo_parser ''login'' fd \<and> sf_DataType (fd_Schema fd) = DString"
    "\<exists>fd. indexed demo_parser ''blocked'' fd \<and> sf_DataType (fd_Schema fd) = DBool"
  by (simp_all add: indexed_def FindJsonField_def demo_parser_def ParseFields_def demo_schema_def plain_descriptor_def
      IsIndexField_def embed_def nil_map_def Let_def map_set_def map_get_def)

lemma demo_sendable: "sendable demo_parser (''login'', VStr ''joe'')" "sendable demo_parser (''blocked'', VBool False)"
  using demo_indexed unfolding sendable_def by (force simp: plain_type_def has_type_def)+

lemma demo_columns: "column_of demo_parser ''login'' = ''users.login''" "column_of demo_parser ''blocked'' = ''users.blocked''"
  by code_simp+



end
