(* ===== verification/Resource_Tree.thy ===== *)
theory Resource_Tree
  imports Resource
begin

text \<open>
  The resource tree is correct: the pointers form a forest, the fuel of \<open>Resource\<close> is enough for it,
  and rebuilding the paths of a resource makes the cached paths of its whole subtree consistent and
  changes no other resource.
\<close>

section \<open>Ancestors\<close>

inductive ancestors :: "resources \<Rightarrow> nat \<Rightarrow> nat list \<Rightarrow> bool" for h where
  root: "rs_parent (h ! r) = None \<Longrightarrow> ancestors h r []"
| step: "\<lbrakk>rs_parent (h ! r) = Some p; ancestors h p ps\<rbrakk> \<Longrightarrow> ancestors h r (p # ps)"

inductive_cases ancestorsE: "ancestors h r ps"
inductive_simps ancestors_Nil [simp]: "ancestors h r []"
inductive_simps ancestors_Cons [simp]: "ancestors h r (p # ps)"

definition under :: "resources \<Rightarrow> nat \<Rightarrow> nat \<Rightarrow> bool" where
  "under h x r \<longleftrightarrow> (\<exists>ps. ancestors h x ps \<and> r \<in> set (x # ps))"

definition forest :: "resources \<Rightarrow> bool" where
  "forest h \<longleftrightarrow> (\<forall>r < length h.
     (\<exists>ps. ancestors h r ps) \<and>
     (\<forall>p. rs_parent (h ! r) = Some p \<longrightarrow> p < length h \<and> r \<in> set (rs_children (h ! p))) \<and>
     distinct (rs_children (h ! r)) \<and>
     (\<forall>c \<in> set (rs_children (h ! r)). c < length h \<and> rs_parent (h ! c) = Some r))"

lemma ancestors_fun: "ancestors h r ps \<Longrightarrow> ancestors h r qs \<Longrightarrow> ps = qs"
proof (induction arbitrary: qs rule: ancestors.induct)
  case (root r)
  from root(2) show ?case by (cases rule: ancestors.cases) (use root in auto)
next
  case (step r p ps)
  from step(4,1) obtain qs' where "qs = p # qs'" "ancestors h p qs'"
    by (cases rule: ancestors.cases) auto
  with step.IH show ?case by blast
qed

lemma ancestors_suffix: "ancestors h r ps \<Longrightarrow> x \<in> set ps \<Longrightarrow> \<exists>qs. ancestors h x qs \<and> length qs < length ps"
  by (induction rule: ancestors.induct) (auto intro: less_SucI)

lemma ancestors_distinct: "ancestors h r ps \<Longrightarrow> distinct (r # ps)"
proof (induction rule: ancestors.induct)
  case (step r p ps)
  have "r \<notin> set (p # ps)"
  proof
    assume "r \<in> set (p # ps)"
    with step obtain qs where "ancestors h r qs" "length qs < Suc (length ps)"
      using ancestors_suffix [of h r "p # ps" r] by auto
    with step show False
      using ancestors_fun [of h r "p # ps" qs] by auto
  qed
  with step show ?case by simp
qed simp

lemma forestD:
  assumes "forest h" "r < length h"
  shows forest_ancestors: "\<exists>ps. ancestors h r ps"
    and forest_parent: "rs_parent (h ! r) = Some p \<Longrightarrow> p < length h \<and> r \<in> set (rs_children (h ! p))"
    and forest_distinct: "distinct (rs_children (h ! r))"
    and forest_child: "c \<in> set (rs_children (h ! r)) \<Longrightarrow> c < length h \<and> rs_parent (h ! c) = Some r"
  using assms unfolding forest_def by blast+

lemma ancestors_in_store: "ancestors h r ps \<Longrightarrow> forest h \<Longrightarrow> r < length h \<Longrightarrow> set ps \<subseteq> {..<length h}"
  by (induction rule: ancestors.induct) (auto dest: forest_parent)

lemma under_in_store:
  assumes "forest h" "x < length h" "under h x z"
  shows "z < length h"
proof -
  obtain ps where "ancestors h x ps" "z \<in> set (x # ps)" using assms(3) by (auto simp: under_def)
  then show ?thesis using ancestors_in_store [OF _ assms(1,2)] assms(2) by auto
qed

lemma ancestors_bound:
  assumes "ancestors h r ps" "forest h" "r < length h"
  shows "length ps < length h"
proof -
  have "card (set (r # ps)) \<le> card {..<length h}"
    using assms ancestors_in_store by (intro card_mono) auto
  then show ?thesis
    using distinct_card [OF ancestors_distinct [OF assms(1)]] by simp
qed

lemma chain_up_ancestors: "ancestors h r ps \<Longrightarrow> length ps \<le> n \<Longrightarrow> chain_up n h r = ps"
proof (induction arbitrary: n rule: ancestors.induct)
  case (root r) then show ?case by (cases n) auto
next
  case (step r p ps) then show ?case by (cases n) auto
qed

text \<open>The fuel of the loops that go up is enough.\<close>

lemma chain_up_forest: "forest h \<Longrightarrow> r < length h \<Longrightarrow> ancestors h r (chain_up (length h) h r)"
  using forest_ancestors [of h r] ancestors_bound [of h r] chain_up_ancestors [of h r]
  by (metis less_imp_le)

lemma under_refl: "forest h \<Longrightarrow> r < length h \<Longrightarrow> under h r r"
  by (auto simp: under_def dest: forest_ancestors)

lemma under_step:
  assumes "rs_parent (h ! x) = Some p"
  shows "under h p r \<Longrightarrow> under h x r" and "under h x r \<Longrightarrow> x = r \<or> under h p r"
proof -
  show "under h p r \<Longrightarrow> under h x r"
    unfolding under_def using assms by (metis ancestors.step list.set_intros(2))
  show "under h x r \<Longrightarrow> x = r \<or> under h p r"
    unfolding under_def using assms by (metis ancestors.simps option.distinct(1) option.inject set_ConsD)
qed

lemma under_root: "rs_parent (h ! x) = None \<Longrightarrow> under h x r \<longleftrightarrow> x = r"
proof -
  assume n: "rs_parent (h ! x) = None"
  then have "ancestors h x ps \<longleftrightarrow> ps = []" for ps by (cases ps) auto
  then show ?thesis by (auto simp: under_def)
qed

lemma under_trans: "under h x y \<Longrightarrow> under h y z \<Longrightarrow> under h x z"
proof -
  have "ancestors h x ps \<Longrightarrow> y \<in> set (x # ps) \<Longrightarrow> under h y z \<Longrightarrow> under h x z" for ps
    by (induction rule: ancestors.induct) (auto intro: under_step(1))
  then show "under h x y \<Longrightarrow> under h y z \<Longrightarrow> under h x z"
    by (auto simp: under_def)
qed

lemma parent_not_under:
  assumes "forest h" "x < length h" "rs_parent (h ! x) = Some p"
  shows "\<not> under h p x"
proof
  assume "under h p x"
  then obtain ps where ps: "ancestors h p ps" "x \<in> set (p # ps)" by (auto simp: under_def)
  from assms(3) ps(1) have "ancestors h x (p # ps)" by simp
  from ancestors_distinct [OF this] ps(2) show False by simp
qed

section \<open>The shape of the tree\<close>

definition shape :: "resource \<Rightarrow> resource_config \<times> string \<times> nat option \<times> nat list" where
  "shape x = (config_of x, resourceType x, rs_parent x, rs_children x)"

abbreviation same :: "resources \<Rightarrow> resources \<Rightarrow> bool" where
  "same h h' \<equiv> map shape h = map shape h'"

lemma shape_eqD:
  assumes "shape x = shape y"
  shows "rc_Host x = rc_Host y" "rc_HasId x = rc_HasId y" "rc_Service x = rc_Service y" "rc_Id x = rc_Id y"
    "rc_Tenancy x = rc_Tenancy y" "resourceType x = resourceType y" "rs_parent x = rs_parent y"
    "rs_children x = rs_children y"
  using assms by (auto simp: shape_def config_of_def resource_config.truncate_def)

lemma same_nth: "same h h' \<Longrightarrow> r < length h \<Longrightarrow> shape (h ! r) = shape (h' ! r)"
  by (metis length_map nth_map)

lemma same_length: "same h h' \<Longrightarrow> length h = length h'"
  by (metis length_map)

lemmas same_fields = shape_eqD [OF same_nth]

text \<open>Being a forest depends on the pointers only.\<close>

definition links :: "resource \<Rightarrow> nat option \<times> nat list" where
  "links x = (rs_parent x, rs_children x)"

abbreviation linked :: "resources \<Rightarrow> resources \<Rightarrow> bool" where
  "linked h h' \<equiv> map links h = map links h'"

lemma linked_length: "linked h h' \<Longrightarrow> length h = length h'"
  by (metis length_map)

lemma linked_fields:
  assumes "linked h h'" "r < length h"
  shows "rs_parent (h ! r) = rs_parent (h' ! r)" "rs_children (h ! r) = rs_children (h' ! r)"
proof -
  have "links (h ! r) = links (h' ! r)"
    using assms linked_length [OF assms(1)] by (metis nth_map)
  then show "rs_parent (h ! r) = rs_parent (h' ! r)" "rs_children (h ! r) = rs_children (h' ! r)"
    by (auto simp: links_def)
qed

lemma linked_update: "links x = links (h ! r) \<Longrightarrow> linked (h[r := x]) h"
  by (metis list_update_id map_update)

lemma same_linked: "same h h' \<Longrightarrow> linked h h'"
proof -
  have "map links g = map (\<lambda>(c, t, p, cs). (p, cs)) (map shape g)" for g
    by (simp add: links_def shape_def)
  then show "same h h' \<Longrightarrow> linked h h'" by metis
qed

lemma linked_ancestors:
  assumes "linked h h'" "forest h"
  shows "ancestors h r ps \<Longrightarrow> r < length h \<Longrightarrow> ancestors h' r ps"
proof (induction rule: ancestors.induct)
  case (root r) with linked_fields [OF assms(1)] show ?case by simp
next
  case (step r p ps)
  with linked_fields [OF assms(1), of r] forest_parent [OF assms(2)] show ?case by auto
qed

lemma linked_forest: "linked h h' \<Longrightarrow> forest h \<Longrightarrow> forest h'"
  unfolding forest_def using linked_ancestors [of h h'] linked_fields [of h h'] linked_length [of h h']
  by (metis (no_types, lifting) forest_def)

lemma linked_under: "linked h h' \<Longrightarrow> forest h \<Longrightarrow> x < length h \<Longrightarrow> under h' x r = under h x r"
  using linked_ancestors [of h h' x] linked_ancestors [of h' h x] linked_forest [of h h'] linked_length [of h h']
  by (auto simp: under_def)

lemmas same_forest = linked_forest [OF same_linked]

lemma same_update: "shape x = shape (h ! r) \<Longrightarrow> same (h[r := x]) h"
  by (metis list_update_id map_update)

lemma same_IsServicePart:
  "same h h' \<Longrightarrow> forest h \<Longrightarrow> r < length h \<Longrightarrow> IsServicePart n h r = IsServicePart n h' r"
proof (induction n arbitrary: r)
  case (Suc n)
  from Suc.prems have "rc_Service (h ! r) = rc_Service (h' ! r)" "rs_parent (h ! r) = rs_parent (h' ! r)"
    using same_fields(3,7) by auto
  with Suc show ?case by (auto split: option.split dest: forest_parent)
qed simp

lemma rebuilt_shape [simp]: "shape (rebuilt sp q x) = shape x"
  by (simp add: rebuilt_def Let_def shape_def config_of_def resource_config.truncate_def
      split: option.split prod.split)

lemma rebuild_one_shape [simp]: "shape (rebuild_one h r) = shape (h ! r)"
  by (simp add: rebuild_one_def)

lemma rebuild_same: "same (rebuild n h r) h"
proof (induction n arbitrary: h r)
  case (Suc n)
  have "same (foldl (rebuild n) g cs) g" for g cs
    by (induction cs arbitrary: g) (use Suc.IH in auto)
  then show ?case by (simp add: same_update)
qed simp

section \<open>Rebuilding\<close>

abbreviation consistent_at :: "resources \<Rightarrow> nat \<Rightarrow> bool" where
  "consistent_at h r \<equiv> rebuild_one h r = h ! r"

definition consistent :: "resources \<Rightarrow> bool" where
  "consistent h \<longleftrightarrow> (\<forall>r < length h. consistent_at h r)"

lemma rebuild_one_local:
  assumes "same h h'" "forest h" "r < length h" "h ! r = h' ! r"
    and "\<And>p. rs_parent (h ! r) = Some p \<Longrightarrow> h ! p = h' ! p"
  shows "rebuild_one h' r = rebuild_one h r"
proof -
  have "IsServicePart (length h') h' r = IsServicePart (length h) h r"
    using same_IsServicePart [OF assms(1-3)] same_length [OF assms(1)] by simp
  then show ?thesis
    using assms(4,5) by (cases "rs_parent (h ! r)") (simp_all add: rebuild_one_def)
qed

text \<open>The fields of a rebuilt resource, one by one.\<close>

lemma own_paths_shape: "shape x = shape y \<Longrightarrow> own_paths x = own_paths y"
  by (auto simp: own_paths_def Let_def dest: shape_eqD)

lemma rebuilt_fields:
  shows rebuilt_proto: "pathPrototype (rebuilt sp q x) = fst (own_paths x)"
    and rebuilt_actual: "actualPath (rebuilt sp q x) = snd (own_paths x)"
    and rebuilt_full: "fullPathPrototype (rebuilt sp q x)
      = (case q of None \<Rightarrow> [] | Some p \<Rightarrow> fullPathPrototype p) @ fst (own_paths x)"
    and rebuilt_full_actual: "fullActualPath (rebuilt sp q x)
      = (case q of None \<Rightarrow> [] | Some p \<Rightarrow> fullActualPath p) @ snd (own_paths x)"
    and rebuilt_service: "servicePathPrototype (rebuilt sp q x)
      = (if rc_Service x then fst (own_paths x)
         else case q of None \<Rightarrow> servicePathPrototype x
         | Some p \<Rightarrow> if sp then servicePathPrototype p @ fst (own_paths x) else servicePathPrototype x)"
    and rebuilt_service_actual: "serviceActualPath (rebuilt sp q x)
      = (if rc_Service x then snd (own_paths x)
         else case q of None \<Rightarrow> serviceActualPath x
         | Some p \<Rightarrow> if sp then serviceActualPath p @ snd (own_paths x) else serviceActualPath x)"
    and rebuilt_inTenancy: "inTenancy (rebuilt sp q x) = isInTenancy q x"
    and rebuilt_tenancyResource: "tenancyResource (rebuilt sp q x)
      = (case q of None \<Rightarrow> tenancyResource x
         | Some p \<Rightarrow> if isInTenancy q x \<and> \<not> rc_Tenancy x then tenancyResource p else tenancyResource x)"
    and rebuilt_operations: "rs_operations (rebuilt sp q x) = rs_operations x"
    and rebuilt_getter: "rs_getter (rebuilt sp q x) = rs_getter x"
  by (cases q; cases sp; cases "rc_Service x"; cases "rc_Tenancy x";
      simp add: rebuilt_def isInTenancy_def ConcatStrings_def split_beta Let_def)+

lemma isInTenancy_shape: "shape x = shape y \<Longrightarrow> isInTenancy q x = isInTenancy q y"
  using shape_eqD(5) [of x y] by (simp add: isInTenancy_def)

lemmas rebuilt_unchanged = shape_eqD [OF rebuilt_shape] own_paths_shape [OF rebuilt_shape]
  isInTenancy_shape [OF rebuilt_shape]

lemma rebuilt_idem: "rebuilt sp q (rebuilt sp q x) = rebuilt sp q x"
  by (intro resource.equality) (simp_all add: rebuilt_fields rebuilt_unchanged split: option.split)

lemma rebuild_one_idem:
  assumes "forest h" "r < length h"
  shows "consistent_at (h[r := rebuild_one h r]) r"
proof -
  let ?h = "h[r := rebuild_one h r]"
  have s: "same h ?h" using same_update [of "rebuild_one h r" h r] by simp
  have sp: "IsServicePart (length ?h) ?h r = IsServicePart (length h) h r"
    using same_IsServicePart [OF s assms] by simp
  have np: "rs_parent (h ! r) \<noteq> Some r"
    using parent_not_under [OF assms] under_refl [OF assms] by auto
  have p: "rs_parent (h ! r) = Some p \<Longrightarrow> ?h ! p = h ! p" for p
    using np by (auto simp: nth_list_update)
  have "rs_parent (?h ! r) = rs_parent (h ! r)" using same_fields(7) [OF s assms(2)] by simp
  then have "map_option (nth ?h) (rs_parent (?h ! r)) = map_option (nth h) (rs_parent (h ! r))"
    using p by (cases "rs_parent (h ! r)") auto
  with sp assms(2) show ?thesis
    by (simp add: rebuild_one_def rebuilt_idem)
qed

lemma under_linear: "under h x c \<Longrightarrow> under h x d \<Longrightarrow> under h c d \<or> under h d c"
proof -
  have "ancestors h x ps \<Longrightarrow> under h x c \<Longrightarrow> under h x d \<Longrightarrow> under h c d \<or> under h d c" for ps
  proof (induction rule: ancestors.induct)
    case (root r) then show ?case using under_root [of h r] by auto
  next
    case (step r p ps) then show ?case using under_step(2) [of h r p] by blast
  qed
  then show "under h x c \<Longrightarrow> under h x d \<Longrightarrow> under h c d \<or> under h d c"
    by (auto simp: under_def)
qed

lemma siblings_disjoint:
  assumes "forest h" "r < length h" "c \<in> set (rs_children (h ! r))" "d \<in> set (rs_children (h ! r))" "c \<noteq> d"
  shows "\<not> (under h x c \<and> under h x d)"
proof -
  have *: "\<not> under h a b" if "a \<in> set (rs_children (h ! r))" "b \<in> set (rs_children (h ! r))" "a \<noteq> b" for a b
    using that forest_child [OF assms(1,2)] under_step(2) [of h a r b] parent_not_under [OF assms(1), of b r]
    by blast
  show ?thesis using under_linear [of h x c d] * assms(3-5) by blast
qed

lemma consistent_local:
  assumes "same h h'" "forest h" "x < length h" "h ! x = h' ! x"
    and "\<And>p. rs_parent (h ! x) = Some p \<Longrightarrow> h ! p = h' ! p"
  shows "consistent_at h x \<longleftrightarrow> consistent_at h' x"
  using rebuild_one_local [OF assms] assms(4) by simp

definition rebuilds :: "resources \<Rightarrow> (resources \<Rightarrow> resources) \<Rightarrow> nat set \<Rightarrow> bool" where
  "rebuilds h f S \<longleftrightarrow> (\<forall>g. same h g \<longrightarrow> same h (f g)
     \<and> (\<forall>x < length h. x \<notin> S \<longrightarrow> f g ! x = g ! x) \<and> (\<forall>x < length h. x \<in> S \<longrightarrow> consistent_at (f g) x))"

lemma rebuilds_children:
  assumes "forest h" "r < length h" "distinct cs" "set cs \<subseteq> set (rs_children (h ! r))"
    and "\<And>c. c \<in> set cs \<Longrightarrow> rebuilds h (\<lambda>g. f g c) {x. under h x c}"
  shows "rebuilds h (\<lambda>g. foldl f g cs) {x. \<exists>c \<in> set cs. under h x c}"
  using assms(3-5)
proof (induction cs)
  case (Cons c cs)
  let ?S = "{x. \<exists>d \<in> set cs. under h x d}"
  have c: "rebuilds h (\<lambda>g. f g c) {x. under h x c}" and cs: "rebuilds h (\<lambda>g. foldl f g cs) ?S"
    using Cons by auto
  have child: "c < length h" "rs_parent (h ! c) = Some r"
    using forest_child [OF assms(1,2)] Cons.prems by auto
  have r_out: "\<not> under h r d" if "d \<in> set (c # cs)" for d
    using that Cons.prems forest_child [OF assms(1,2)] parent_not_under [OF assms(1), of d r] by auto
  have disj: "\<not> (\<exists>d \<in> set cs. under h x d)" if "under h x c" for x
    using siblings_disjoint [OF assms(1,2), of c _ x] that Cons.prems by auto
  show ?case
    unfolding rebuilds_def
  proof (intro allI impI conjI)
    fix g assume g: "same h g"
    from c g have s1: "same h (f g c)" by (simp add: rebuilds_def)
    with cs show s2: "same h (foldl f g (c # cs))" by (simp add: rebuilds_def)
    have keep: "foldl f g (c # cs) ! x = f g c ! x" if "x < length h" "x \<notin> ?S" for x
      using cs s1 that by (simp add: rebuilds_def)
    fix x assume x: "x < length h"
    { assume "x \<notin> {x. \<exists>d \<in> set (c # cs). under h x d}"
      with x g c keep [of x] show "foldl f g (c # cs) ! x = g ! x" by (simp add: rebuilds_def) }
    assume "x \<in> {x. \<exists>d \<in> set (c # cs). under h x d}"
    then consider "under h x c" | "x \<in> ?S" by auto
    then show "consistent_at (foldl f g (c # cs)) x"
    proof cases
      case 1
      have in_c: "consistent_at (f g c) x" using c g x 1 by (simp add: rebuilds_def)
      have parent: "f g c ! p = foldl f g (c # cs) ! p" if "rs_parent (f g c ! x) = Some p" for p
      proof -
        have p: "rs_parent (h ! x) = Some p" using that same_fields(7) [OF s1 x] by simp
        then have "under h p c \<or> p = r" using under_step(2) [OF p 1] child by auto
        then show ?thesis
          using keep [of p] disj [of p] r_out forest_parent [OF assms(1) x p] by auto
      qed
      have l1: "same (f g c) (foldl f g (c # cs))" using s1 s2 by metis
      have l2: "forest (f g c)" using same_forest [OF s1 assms(1)] .
      have l3: "x < length (f g c)" using x unfolding same_length [OF s1] .
      have l4: "f g c ! x = foldl f g (c # cs) ! x" using keep [OF x] disj [OF 1] by (simp only: mem_Collect_eq simp_thms)
      show ?thesis using iffD1 [OF consistent_local [OF l1 l2 l3 l4 parent] in_c] .
    next
      case 2 with cs s1 x show ?thesis by (simp add: rebuilds_def)
    qed
  qed
qed (simp add: rebuilds_def)

lemma under_child:
  assumes "forest h"
  shows "ancestors h x ps \<Longrightarrow> x < length h \<Longrightarrow> under h x r \<Longrightarrow> x \<noteq> r
    \<Longrightarrow> \<exists>c \<in> set (rs_children (h ! r)). under h x c"
proof (induction rule: ancestors.induct)
  case (root x) then show ?case using under_root by auto
next
  case (step x p ps)
  note p = forest_parent [OF assms step.prems(1) step.hyps(1)]
  show ?case
  proof (cases "p = r")
    case True
    with p under_refl [OF assms step.prems(1)] show ?thesis by auto
  next
    case False
    from step.prems have "under h p r" using under_step(2) [OF step.hyps(1)] by blast
    with step.IH p False obtain c where "c \<in> set (rs_children (h ! r))" "under h p c" by blast
    then show ?thesis using under_step(1) [OF step.hyps(1)] by blast
  qed
qed

lemma under_child_iff:
  assumes "forest h" "r < length h" "x < length h"
  shows "under h x r \<longleftrightarrow> x = r \<or> (\<exists>c \<in> set (rs_children (h ! r)). under h x c)"
proof
  assume "under h x r"
  with under_child [OF assms(1)] forest_ancestors [OF assms(1,3)] assms(3)
  show "x = r \<or> (\<exists>c \<in> set (rs_children (h ! r)). under h x c)" by blast
next
  assume "x = r \<or> (\<exists>c \<in> set (rs_children (h ! r)). under h x c)"
  then show "under h x r"
    using forest_child [OF assms(1,2)] under_refl [OF assms(1,2)] under_step(1) [of h _ r r] under_trans
    by blast
qed

lemma rebuild_rebuilds:
  assumes "forest h"
  shows "ancestors h r ps \<Longrightarrow> r < length h \<Longrightarrow> length h \<le> length ps + n
    \<Longrightarrow> rebuilds h (\<lambda>g. rebuild n g r) {x. under h x r}"
proof (induction n arbitrary: r ps)
  case 0
  with ancestors_bound [OF 0(1) assms] show ?case by simp
next
  case (Suc n)
  let ?cs = "rs_children (h ! r)" and ?S = "{x. \<exists>c \<in> set (rs_children (h ! r)). under h x c}"
  have cs: "rebuilds h (\<lambda>g. foldl (rebuild n) g ?cs) ?S"
  proof (rule rebuilds_children [OF assms Suc.prems(2)])
    show "distinct ?cs" using forest_distinct [OF assms Suc.prems(2)] .
    fix c assume "c \<in> set ?cs"
    with forest_child [OF assms Suc.prems(2)] Suc.prems Suc.IH [of c "r # ps"]
    show "rebuilds h (\<lambda>g. rebuild n g c) {x. under h x c}" by auto
  qed simp
  have r_out: "r \<notin> ?S" and p_out: "rs_parent (h ! r) = Some p \<Longrightarrow> p \<notin> ?S" for p
    using forest_child [OF assms Suc.prems(2)] parent_not_under [OF assms] under_step(1) [of h r p]
    by blast+
  show ?case
    unfolding rebuilds_def
  proof (intro allI impI conjI)
    fix g assume g: "same h g"
    let ?g = "g[r := rebuild_one g r]"
    have g1: "same h ?g" using g same_update [of "rebuild_one g r" g r] by simp
    have eq: "rebuild (Suc n) g r = foldl (rebuild n) ?g ?cs"
      using same_fields(8) [OF g Suc.prems(2)] by simp
    from cs g1 show s2: "same h (rebuild (Suc n) g r)" unfolding eq rebuilds_def by blast
    have keep: "rebuild (Suc n) g r ! x = ?g ! x" if "x < length h" "x \<notin> ?S" for x
      using cs g1 that unfolding eq rebuilds_def by blast
    fix x assume x: "x < length h"
    { assume "x \<notin> {x. under h x r}"
      with under_child_iff [OF assms Suc.prems(2) x] have "x \<noteq> r" "x \<notin> ?S" by auto
      with keep [OF x] show "rebuild (Suc n) g r ! x = g ! x" by (simp del: rebuild.simps) }
    assume "x \<in> {x. under h x r}"
    then consider "x = r" | "x \<in> ?S" using under_child_iff [OF assms Suc.prems(2) x] by auto
    then show "consistent_at (rebuild (Suc n) g r) x"
    proof cases
      case 1
      have f: "forest g" "r < length g" using same_forest [OF g assms] same_length [OF g] Suc.prems(2) by auto
      have l1: "same ?g (rebuild (Suc n) g r)" using g1 s2 by metis
      have l2: "forest ?g" using same_forest [OF g1 assms] .
      have l3: "r < length ?g" using f by simp
      have l4: "?g ! r = rebuild (Suc n) g r ! r" using keep [OF Suc.prems(2) r_out] by (rule sym)
      have l5: "?g ! p = rebuild (Suc n) g r ! p" if "rs_parent (?g ! r) = Some p" for p
      proof -
        have p: "rs_parent (h ! r) = Some p" using that same_fields(7) [OF g1 Suc.prems(2)] by (rule trans [rotated])
        show ?thesis using keep [OF _ p_out [OF p]] forest_parent [OF assms Suc.prems(2) p] by metis
      qed
      show ?thesis
        unfolding 1 using iffD1 [OF consistent_local [OF l1 l2 l3 l4 l5] rebuild_one_idem [OF f]] .
    next
      case 2 with cs g1 x show ?thesis unfolding eq rebuilds_def by blast
    qed
  qed
qed

text \<open>What \<^verbatim>\<open>RebuildPaths\<close> does in a forest.\<close>

lemma RebuildPaths_spec:
  assumes "forest h" "r < length h"
  shows "same (RebuildPaths h r) h"
    and "x < length h \<Longrightarrow> \<not> under h x r \<Longrightarrow> RebuildPaths h r ! x = h ! x"
    and "x < length h \<Longrightarrow> under h x r \<Longrightarrow> consistent_at (RebuildPaths h r) x"
proof -
  obtain ps where ps: "ancestors h r ps" using forest_ancestors [OF assms] by blast
  have "rebuilds h (\<lambda>g. rebuild (length h) g r) {x. under h x r}"
    using rebuild_rebuilds [OF assms(1) ps assms(2)] by simp
  then show "same (RebuildPaths h r) h"
    "x < length h \<Longrightarrow> \<not> under h x r \<Longrightarrow> RebuildPaths h r ! x = h ! x"
    "x < length h \<Longrightarrow> under h x r \<Longrightarrow> consistent_at (RebuildPaths h r) x"
    unfolding RebuildPaths_def rebuilds_def by (simp_all del: rebuild.simps add: eq_commute)
qed

lemma RebuildPaths_consistent:
  assumes "forest h" "r < length h" "\<And>x. x < length h \<Longrightarrow> \<not> under h x r \<Longrightarrow> consistent_at h x"
  shows "consistent (RebuildPaths h r)"
  unfolding consistent_def
proof (intro allI impI)
  fix x assume "x < length (RebuildPaths h r)"
  then have x: "x < length h" using same_length [OF RebuildPaths_spec(1) [OF assms(1,2)]] by simp
  show "consistent_at (RebuildPaths h r) x"
  proof (cases "under h x r")
    case True with RebuildPaths_spec(3) [OF assms(1,2) x] show ?thesis by blast
  next
    case False
    have "\<not> under h p r" if "rs_parent (h ! x) = Some p" for p
      using False under_step(1) [OF that] by blast
    then have "consistent_at h x \<longleftrightarrow> consistent_at (RebuildPaths h r) x"
      using RebuildPaths_spec(1,2) [OF assms(1,2)] forest_parent [OF assms(1) x] False x assms(1)
      by (intro consistent_local) auto
    with assms(3) x False show ?thesis by blast
  qed
qed

section \<open>Operations keep the tree well-formed\<close>

definition wf_tree :: "resources \<Rightarrow> bool" where
  "wf_tree h \<longleftrightarrow> forest h \<and> consistent h"

lemma wf_tree_rebuild:
  assumes "forest h" "r < length h" "\<And>x. x < length h \<Longrightarrow> \<not> under h x r \<Longrightarrow> consistent_at h x"
  shows "wf_tree (RebuildPaths h r)"
  unfolding wf_tree_def
  using RebuildPaths_consistent [OF assms] same_forest [OF RebuildPaths_spec(1) [OF assms(1,2), symmetric] assms(1)]
  by simp

text \<open>A change of one resource that keeps its pointers, followed by rebuilding it.\<close>

lemma IsServicePart_ancestors:
  "ancestors h r ps \<Longrightarrow> length ps < n \<Longrightarrow> IsServicePart n h r \<longleftrightarrow> (\<exists>x \<in> set (r # ps). rc_Service (h ! x))"
proof (induction arbitrary: n rule: ancestors.induct)
  case (root r) then show ?case by (cases n) auto
next
  case (step r p ps) then show ?case by (cases n) auto
qed

text \<open>
  The paths of a resource depend on itself and its ancestors only, and not on their children,
  operations and hosts.
\<close>

definition path_core :: "resource \<Rightarrow> resource" where
  "path_core x = x\<lparr>rc_Host := [], rs_children := [], rs_operations := [], rs_getter := None\<rparr>"

lemma path_core_eqD:
  assumes "path_core x = path_core y"
  shows "rc_HasId x = rc_HasId y" "rc_Service x = rc_Service y" "rc_Id x = rc_Id y" "rc_Tenancy x = rc_Tenancy y"
    "resourceType x = resourceType y" "rs_parent x = rs_parent y"
  using arg_cong [OF assms, of rc_HasId] arg_cong [OF assms, of rc_Service] arg_cong [OF assms, of rc_Id]
    arg_cong [OF assms, of rc_Tenancy] arg_cong [OF assms, of resourceType] arg_cong [OF assms, of rs_parent]
  by (simp_all add: path_core_def)

lemma path_core_rebuilt: "path_core (rebuilt sp (map_option path_core q) (path_core x)) = path_core (rebuilt sp q x)"
proof -
  have "own_paths (path_core x) = own_paths x" "isInTenancy (map_option path_core q) (path_core x) = isInTenancy q x"
    by (auto simp: path_core_def own_paths_def isInTenancy_def Let_def split: option.split)
  then show ?thesis
    by (intro resource.equality; cases q)
      (simp_all add: path_core_def rebuilt_fields rebuilt_unchanged isInTenancy_def)
qed

lemma path_rebuilt_cong:
  assumes "path_core x = path_core y" "map_option path_core q = map_option path_core q'"
  shows "path_core (rebuilt sp q x) = path_core (rebuilt sp q' y)"
  using assms path_core_rebuilt [of sp q x] path_core_rebuilt [of sp q' y] by simp

lemma consistent_by_path_core: "consistent_at h x \<longleftrightarrow> path_core (rebuild_one h x) = path_core (h ! x)"
proof
  let ?q = "map_option (nth h) (rs_parent (h ! x))" and ?sp = "IsServicePart (length h) h x"
  assume c: "path_core (rebuild_one h x) = path_core (h ! x)"
  have undo: "z = (path_core z)\<lparr>rc_Host := rc_Host z, rs_children := rs_children z, rs_operations := rs_operations z,
      rs_getter := rs_getter z\<rparr>" for z :: resource
    by (simp add: path_core_def)
  have "rc_Host (rebuild_one h x) = rc_Host (h ! x)" "rs_children (rebuild_one h x) = rs_children (h ! x)"
    "rs_operations (rebuild_one h x) = rs_operations (h ! x)" "rs_getter (rebuild_one h x) = rs_getter (h ! x)"
    by (simp_all add: rebuild_one_def rebuilt_fields rebuilt_unchanged)
  with c undo [of "rebuild_one h x"] undo [of "h ! x"] show "consistent_at h x" by metis
qed simp

lemma ancestors_agree: "ancestors h x ps \<Longrightarrow> \<forall>y \<in> set (x # ps). path_core (h' ! y) = path_core (h ! y) \<Longrightarrow> ancestors h' x ps"
  by (induction rule: ancestors.induct) (auto dest: path_core_eqD(6))

lemma rebuild_one_agree:
  assumes "forest h" "forest h'" "x < length h" "x < length h'" "\<And>y. under h x y \<Longrightarrow> path_core (h' ! y) = path_core (h ! y)"
  shows "path_core (rebuild_one h' x) = path_core (rebuild_one h x)"
proof -
  obtain ps where ps: "ancestors h x ps" using forest_ancestors [OF assms(1,3)] by blast
  then have eq: "path_core (h' ! y) = path_core (h ! y)" if "y \<in> set (x # ps)" for y
    using assms(5) that unfolding under_def by blast
  have ps': "ancestors h' x ps" using ancestors_agree [OF ps] eq by blast
  have "IsServicePart (length h') h' x = IsServicePart (length h) h x"
    using IsServicePart_ancestors [OF ps ancestors_bound [OF ps assms(1,3)]]
      IsServicePart_ancestors [OF ps' ancestors_bound [OF ps' assms(2,4)]] path_core_eqD(2) [OF eq]
    by (simp cong: bex_cong)
  moreover have "map_option path_core (map_option (nth h') (rs_parent (h ! x)))
      = map_option path_core (map_option (nth h) (rs_parent (h ! x)))"
    using ps eq by (cases ps) auto
  moreover have "rs_parent (h' ! x) = rs_parent (h ! x)" using path_core_eqD(6) [OF eq [of x]] by simp
  moreover have "path_core (h' ! x) = path_core (h ! x)" using eq by simp
  ultimately show ?thesis
    unfolding rebuild_one_def using path_rebuilt_cong [of "h' ! x" "h ! x"] by presburger
qed

lemma consistent_agree:
  assumes "wf_tree h" "forest h'" "x < length h" "x < length h'" "\<And>y. under h x y \<Longrightarrow> path_core (h' ! y) = path_core (h ! y)"
  shows "consistent_at h' x"
  using rebuild_one_agree [OF _ assms(2-5)] assms(1,3) assms(5) [OF under_refl] consistent_by_path_core [of h' x]
  by (simp add: wf_tree_def consistent_def)

lemma wf_tree_config:
  assumes "wf_tree h" "r < length h" "links x = links (h ! r)"
  shows "wf_tree (RebuildPaths (h[r := x]) r)"
proof -
  let ?h = "h[r := x]"
  have l: "linked h ?h" using linked_update [OF assms(3)] by simp
  have f: "forest h" "forest ?h" using assms(1) linked_forest [OF l] by (auto simp: wf_tree_def)
  have "consistent_at ?h y" if y: "y < length ?h" "\<not> under ?h y r" for y
  proof (rule consistent_agree [OF assms(1) f(2)])
    fix z assume "under h y z"
    then have "z \<noteq> r" using y linked_under [OF l f(1)] by auto
    then show "path_core (?h ! z) = path_core (h ! z)" by simp
  qed (use y in auto)
  then show ?thesis using wf_tree_rebuild [OF f(2)] assms(2) by auto
qed

text \<open>A change of one resource that none of the paths depends on.\<close>

lemma wf_tree_upd:
  assumes "wf_tree h" "\<And>x. path_core (f x) = path_core x" "\<And>x. links (f x) = links x"
  shows "wf_tree (upd f r h)"
proof -
  let ?h = "upd f r h"
  have l: "linked h ?h" using linked_update [of "f (h ! r)" h r] assms(3) by (simp add: upd_def)
  have f: "forest h" "forest ?h" using assms(1) linked_forest [OF l] by (auto simp: wf_tree_def)
  have "path_core (?h ! y) = path_core (h ! y)" for y
    using assms(2) by (cases "r < length h") (simp_all add: upd_def nth_list_update list_update_beyond)
  then have "consistent_at ?h y" if "y < length h" for y
    using consistent_agree [OF assms(1) f(2) that] that by (simp add: upd_def)
  with f show ?thesis by (simp add: wf_tree_def consistent_def upd_def)
qed

text \<open>A new resource has no pointers; the others are as they were.\<close>

lemma ancestors_append: "ancestors h x ps \<Longrightarrow> forest h \<Longrightarrow> x < length h \<Longrightarrow> ancestors (h @ [y]) x ps"
proof (induction rule: ancestors.induct)
  case (root x) then show ?case by (simp add: nth_append)
next
  case (step x p ps)
  then show ?case using forest_parent [of h x p] by (auto simp: nth_append)
qed

lemma forest_append:
  assumes "forest h" "links y = (None, [])"
  shows "forest (h @ [y])"
  unfolding forest_def
proof (intro allI impI conjI ballI)
  fix r assume r: "r < length (h @ [y])"
  have y: "rs_parent y = None" "rs_children y = []" using assms(2) by (auto simp: links_def)
  show "\<exists>ps. ancestors (h @ [y]) r ps"
  proof (cases "r < length h")
    case True
    then show ?thesis using forest_ancestors [OF assms(1)] ancestors_append [OF _ assms(1)] by blast
  next
    case False
    with r y have "ancestors (h @ [y]) r []" by (simp add: nth_append)
    then show ?thesis by blast
  qed
  show "distinct (rs_children ((h @ [y]) ! r))"
    using r y forest_distinct [OF assms(1), of r] by (cases "r < length h") (auto simp: nth_append)
  { fix p assume "rs_parent ((h @ [y]) ! r) = Some p"
    then show "p < length (h @ [y])" "r \<in> set (rs_children ((h @ [y]) ! p))"
      using r y forest_parent [OF assms(1), of r p] by (auto simp: nth_append split: if_splits) }
  fix c assume "c \<in> set (rs_children ((h @ [y]) ! r))"
  then show "c < length (h @ [y])" "rs_parent ((h @ [y]) ! c) = Some r"
    using r y forest_child [OF assms(1), of r c] by (auto simp: nth_append split: if_splits)
qed

lemma append_under:
  assumes "forest h" "links y = (None, [])" "x < length h"
  shows "\<not> under (h @ [y]) x (length h)"
proof -
  obtain qs where qs: "ancestors h x qs" using forest_ancestors [OF assms(1,3)] by blast
  have eq: "ps = qs" if "ancestors (h @ [y]) x ps" for ps
    using ancestors_fun [OF that ancestors_append [OF qs assms(1,3)]] .
  show "\<not> under (h @ [y]) x (length h)"
    using eq assms(3) ancestors_in_store [OF qs assms(1,3)] by (auto simp: under_def)
qed

lemma append_rebuild:
  assumes "forest h" "links y = (None, [])"
  shows "forest (RebuildPaths (h @ [y]) (length h))"
    and "length (RebuildPaths (h @ [y]) (length h)) = Suc (length h)"
    and "x < length h \<Longrightarrow> RebuildPaths (h @ [y]) (length h) ! x = h ! x"
    and "RebuildPaths (h @ [y]) (length h) ! length h = rebuilt (rc_Service y) None y"
proof -
  note f = forest_append [OF assms]
  have r: "length h < length (h @ [y])" by simp
  note spec = RebuildPaths_spec [OF f r]
  show "forest (RebuildPaths (h @ [y]) (length h))" using same_forest [OF spec(1) [symmetric] f] .
  show "length (RebuildPaths (h @ [y]) (length h)) = Suc (length h)" using same_length [OF spec(1)] by simp
  show "x < length h \<Longrightarrow> RebuildPaths (h @ [y]) (length h) ! x = h ! x"
    using spec(2) [of x] append_under [OF assms] by (simp add: nth_append)
  show "RebuildPaths (h @ [y]) (length h) ! length h = rebuilt (rc_Service y) None y"
    using assms(2) by (simp add: RebuildPaths_def rebuild_one_def links_def)
qed

lemma wf_tree_append:
  assumes "wf_tree h" "links y = (None, [])"
  shows "wf_tree (RebuildPaths (h @ [y]) (length h))"
proof -
  let ?h = "h @ [y]" and ?n = "length h"
  have f: "forest h" "forest ?h" using assms forest_append by (auto simp: wf_tree_def)
  have "consistent_at ?h x" if "x < length ?h" "\<not> under ?h x ?n" for x
  proof -
    have x: "x < ?n" using that under_refl [OF f(2), of ?n] by (cases "x = ?n") auto
    have "path_core (?h ! z) = path_core (h ! z)" if "under h x z" for z
      using under_in_store [OF f(1) x that] by (simp add: nth_append)
    with consistent_agree [OF assms(1) f(2) x] x show ?thesis by simp
  qed
  then show ?thesis using wf_tree_rebuild [OF f(2), of ?n] by simp
qed

lemma NewResource_links [simp]:
  "links (resource_config.extend cfg (resource.fields t a b c d e f None [] ops g i j)) = (None, [])"
  by (simp add: links_def resource_config.defs resource.defs)

lemma NewResource_spec:
  assumes "forest h" "NewResource t cfg h = (r, h')"
  shows "forest h'" "r = length h" "length h' = Suc (length h)" "\<And>x. x < length h \<Longrightarrow> h' ! x = h ! x"
    "links (h' ! r) = (None, [])" "resourceType (h' ! r) = t" "config_of (h' ! r) = OptionalArg zero_config cfg"
    "rs_operations (h' ! r) = []"
proof -
  note * = append_rebuild [OF assms(1)]
  show "forest h'" "r = length h" "length h' = Suc (length h)" "\<And>x. x < length h \<Longrightarrow> h' ! x = h ! x"
    using assms(2) * by (auto simp: NewResource_def Let_def)
  show "links (h' ! r) = (None, [])" "resourceType (h' ! r) = t" "config_of (h' ! r) = OptionalArg zero_config cfg"
    "rs_operations (h' ! r) = []"
    using assms(2)
    by (auto simp: NewResource_def Let_def *(4) links_def config_of_def rebuilt_unchanged rebuilt_fields
        resource_config.defs resource.defs)
qed

lemma wf_tree_NewResource: "wf_tree h \<Longrightarrow> wf_tree (snd (NewResource t cfg h))"
  using wf_tree_append by (simp add: NewResource_def Let_def)

text \<open>Attaching a root to a resource outside its own subtree.\<close>

definition attach :: "nat \<Rightarrow> nat \<Rightarrow> resources \<Rightarrow> resources" where
  "attach c r h = upd (\<lambda>x. x\<lparr>rs_parent := Some r\<rparr>) c (upd (\<lambda>x. x\<lparr>rs_children := rs_children x @ [c]\<rparr>) r h)"

definition attachable :: "resources \<Rightarrow> nat \<Rightarrow> nat \<Rightarrow> bool" where
  "attachable h c r \<longleftrightarrow> c < length h \<and> r < length h \<and> rs_parent (h ! c) = None \<and> \<not> under h r c"

lemma attach_length [simp]: "length (attach c r h) = length h"
  by (simp add: attach_def upd_def)

lemma AddChild_attach: "AddChild c rebld r h = (if OptionalArg True rebld then RebuildPaths (attach c r h) c else attach c r h)"
  by (simp add: AddChild_def SetParent_def attach_def)

lemma attach_fields:
  assumes "attachable h c r" "forest h"
  shows attach_parent: "x < length h \<Longrightarrow> rs_parent (attach c r h ! x) = (if x = c then Some r else rs_parent (h ! x))"
    and attach_children: "x < length h \<Longrightarrow> rs_children (attach c r h ! x) = rs_children (h ! x) @ (if x = r then [c] else [])"
    and attach_other: "x \<noteq> c \<Longrightarrow> x \<noteq> r \<Longrightarrow> attach c r h ! x = h ! x"
    and attach_config: "x < length h \<Longrightarrow> config_of (attach c r h ! x) = config_of (h ! x)"
  using assms
  by (auto simp: attach_def upd_def attachable_def nth_list_update config_of_def resource_config.defs)

lemma attach_ancestors:
  assumes "attachable h c r" "forest h"
  shows "ancestors h x ps \<Longrightarrow> x < length h \<Longrightarrow> \<not> under h x c \<Longrightarrow> ancestors (attach c r h) x ps"
proof (induction rule: ancestors.induct)
  case (root x)
  then have "x \<noteq> c" using under_refl [OF assms(2)] by auto
  with root attach_parent [OF assms] show ?case by simp
next
  case (step x p ps)
  then have "x \<noteq> c" "\<not> under h p c" using under_refl [OF assms(2)] under_step(1) [OF step.hyps(1)] by auto
  with step attach_parent [OF assms] forest_parent [OF assms(2) step.prems(1) step.hyps(1)]
  show ?case by simp
qed

lemma attach_rooted:
  assumes "attachable h c r" "forest h"
  shows "ancestors h x ps \<Longrightarrow> x < length h \<Longrightarrow> \<exists>qs. ancestors (attach c r h) x qs \<and> (under h x c \<longrightarrow> c \<in> set (x # qs))"
proof (induction rule: ancestors.induct)
  case (root x)
  show ?case
  proof (cases "x = c")
    case True
    obtain ps where "ancestors h r ps" using assms forest_ancestors by (auto simp: attachable_def)
    then have "ancestors (attach c r h) r ps" using attach_ancestors [OF assms] assms(1) by (simp add: attachable_def)
    with True root attach_parent [OF assms] have "ancestors (attach c r h) x (r # ps)" by simp
    with True show ?thesis by (meson list.set_intros(1))
  next
    case False
    with root attach_parent [OF assms] have "ancestors (attach c r h) x []" by simp
    with False show ?thesis using under_root [OF root(1)] by blast
  qed
next
  case (step x p ps)
  then obtain qs where qs: "ancestors (attach c r h) p qs" "under h p c \<longrightarrow> c \<in> set (p # qs)"
    using forest_parent [OF assms(2)] by blast
  have "x \<noteq> c" using step assms(1) by (auto simp: attachable_def)
  with step qs attach_parent [OF assms] have "ancestors (attach c r h) x (p # qs)" by simp
  moreover have "under h x c \<longrightarrow> c \<in> set (x # p # qs)"
    using qs(2) under_step(2) [OF step.hyps(1)] by auto
  ultimately show ?case by blast
qed

lemma forest_attach:
  assumes "attachable h c r" "forest h"
  shows "forest (attach c r h)"
  unfolding forest_def
proof (intro allI impI conjI ballI)
  note cr = assms(1) [unfolded attachable_def]
  fix x assume "x < length (attach c r h)"
  then have x: "x < length h" by simp
  show "\<exists>ps. ancestors (attach c r h) x ps"
    using attach_rooted [OF assms _ x] forest_ancestors [OF assms(2) x] by blast
  have "c \<notin> set (rs_children (h ! r))" using cr forest_child [OF assms(2), of r c] by auto
  then show "distinct (rs_children (attach c r h ! x))"
    using attach_children [OF assms x] forest_distinct [OF assms(2) x] by simp
  { fix p assume "rs_parent (attach c r h ! x) = Some p"
    then have "if x = c then p = r else rs_parent (h ! x) = Some p"
      using attach_parent [OF assms x] by (simp split: if_splits)
    then show "p < length (attach c r h)" "x \<in> set (rs_children (attach c r h ! p))"
      using cr forest_parent [OF assms(2) x, of p] attach_children [OF assms, of p] by (auto split: if_splits) }
  fix d assume "d \<in> set (rs_children (attach c r h ! x))"
  then have "d \<in> set (rs_children (h ! x)) \<or> (d = c \<and> x = r)"
    using attach_children [OF assms x] by (auto split: if_splits)
  then show "d < length (attach c r h)" "rs_parent (attach c r h ! d) = Some x"
    using cr forest_child [OF assms(2) x, of d] attach_parent [OF assms, of d] by (auto split: if_splits)
qed

lemma attach_under: 
  assumes "attachable h c r" "forest h" "x < length h"
  shows "under (attach c r h) x c \<longleftrightarrow> under h x c"
proof
  assume u: "under (attach c r h) x c"
  show "under h x c"
  proof (rule ccontr)
    assume n: "\<not> under h x c"
    obtain ps where ps: "ancestors h x ps" using forest_ancestors [OF assms(2,3)] by blast
    from attach_ancestors [OF assms(1,2) ps assms(3) n] have "ancestors (attach c r h) x ps" .
    with u have "c \<in> set (x # ps)" unfolding under_def using ancestors_fun by blast
    with ps n show False by (auto simp: under_def)
  qed
next
  assume "under h x c"
  then show "under (attach c r h) x c"
    using attach_rooted [OF assms(1,2) _ assms(3)] forest_ancestors [OF assms(2,3)] unfolding under_def by blast
qed

lemma attach_path_core: "x \<noteq> c \<Longrightarrow> path_core (attach c r h ! x) = path_core (h ! x)"
  by (cases "r < length h"; cases "x = r") (simp_all add: attach_def upd_def path_core_def list_update_beyond)

lemma attach_consistent:
  assumes "wf_tree h" "attachable h c r" "x < length h" "\<not> under h x c"
  shows "consistent_at (attach c r h) x"
proof (rule consistent_agree [OF assms(1) _ assms(3)])
  fix y assume "under h x y"
  with assms(4) have "y \<noteq> c" by auto
  then show "path_core (attach c r h ! y) = path_core (h ! y)" by (simp add: attach_path_core)
qed (use assms forest_attach in \<open>auto simp: wf_tree_def\<close>)

lemma wf_tree_AddChild:
  assumes "wf_tree h" "attachable h c r"
  shows "wf_tree (AddChild c [] r h)"
proof -
  have f: "forest h" "forest (attach c r h)" using assms forest_attach by (auto simp: wf_tree_def)
  have "wf_tree (RebuildPaths (attach c r h) c)"
    using assms(2) attach_consistent [OF assms] attach_under [OF assms(2) f(1)]
    by (intro wf_tree_rebuild [OF f(2)]) (auto simp: attachable_def)
  then show ?thesis by (simp add: AddChild_attach OptionalArg_def)
qed

text \<open>Loops that change a resource and its ancestors and rebuild at the end.\<close>

definition wf_outside :: "resources \<Rightarrow> nat \<Rightarrow> bool" where
  "wf_outside h r \<longleftrightarrow> forest h \<and> r < length h \<and> (\<forall>x < length h. \<not> under h x r \<longrightarrow> consistent_at h x)"

lemma wf_outside_tree: "wf_tree h \<Longrightarrow> r < length h \<Longrightarrow> wf_outside h r"
  by (simp add: wf_outside_def wf_tree_def consistent_def)

lemma wf_outside_rebuild: "wf_outside h r \<Longrightarrow> wf_tree (RebuildPaths h r)"
  using wf_tree_rebuild by (auto simp: wf_outside_def)

lemma wf_outside_parent: "wf_outside h r \<Longrightarrow> rs_parent (h ! r) = Some p \<Longrightarrow> wf_outside h p"
  unfolding wf_outside_def using forest_parent [of h r p] under_step(1) [of h r p p] under_refl [of h p] under_trans
  by blast

lemma wf_outside_upd:
  assumes "wf_outside h r" "links x = links (h ! r)"
  shows "wf_outside (h[r := x]) r"
  unfolding wf_outside_def
proof (intro conjI allI impI)
  let ?h = "h[r := x]"
  have f: "forest h" "r < length h" and out: "\<And>y. y < length h \<Longrightarrow> \<not> under h y r \<Longrightarrow> consistent_at h y"
    using assms(1) by (auto simp: wf_outside_def)
  have l: "linked h ?h" using linked_update [OF assms(2)] by simp
  show f': "forest ?h" using linked_forest [OF l f(1)] .
  show "r < length ?h" using f by simp
  fix y assume y: "y < length ?h" "\<not> under ?h y r"
  then have ny: "y < length h" "\<not> under h y r" using linked_under [OF l f(1)] by auto
  then have "y \<noteq> r" using under_refl [OF f] by auto
  have "path_core (?h ! z) = path_core (h ! z)" if "under h y z" for z
    using ny that by (cases "z = r") auto
  then have "path_core (rebuild_one ?h y) = path_core (rebuild_one h y)"
    using rebuild_one_agree [OF f(1) f' ny(1) y(1)] by blast
  with out [OF ny] \<open>y \<noteq> r\<close> show "consistent_at ?h y" unfolding consistent_by_path_core by simp
qed

lemma wf_outside_SetId:
  assumes "wf_outside h r"
  shows "wf_outside (SetId v [False] r h) r" and "linked (SetId v [False] r h) h"
proof -
  let ?h = "h[r := (h ! r)\<lparr>rc_Id := v\<rparr>]"
  have 1: "wf_outside ?h r" using assms by (intro wf_outside_upd) (simp_all add: links_def)
  let ?g = "?h[r := (?h ! r)\<lparr>rc_HasId := True\<rparr>]"
  have 2: "wf_outside ?g r" by (rule wf_outside_upd [OF 1]) (simp add: links_def)
  have 3: "wf_outside (RebuildPaths ?g r) r" "linked (RebuildPaths ?g r) ?g"
  proof -
    have fg: "forest ?g" "r < length ?g" using 2 unfolding wf_outside_def by blast+
    show "linked (RebuildPaths ?g r) ?g" using same_linked [OF RebuildPaths_spec(1) [OF fg]] .
    show "wf_outside (RebuildPaths ?g r) r"
      using wf_outside_tree [OF wf_outside_rebuild [OF 2]] same_length [OF RebuildPaths_spec(1) [OF fg]] fg(2)
      by (simp only:)
  qed
  have 4: "linked ?h h" "linked ?g ?h" by (rule linked_update; simp add: links_def)+
  show "wf_outside (SetId v [False] r h) r"
    using 1 3 by (cases "v = []") (simp_all add: SetId_def SetHasId_def upd_def OptionalArg_def Let_def)
  show "linked (SetId v [False] r h) h"
    using 3 4 by (cases "v = []") (simp_all add: SetId_def SetHasId_def upd_def OptionalArg_def Let_def)
qed

lemma fill_actual_wf:
  "ancestors h r ps \<Longrightarrow> wf_outside h r \<Longrightarrow> length ps < n \<Longrightarrow> wf_tree (fill_actual n ids r h)"
proof (induction n arbitrary: h r ps)
  case (Suc n)
  let ?h = "if rc_HasId (h ! r) then
              (case map_get ids (resourceType (h ! r)) of Some i \<Rightarrow> SetId i [False] r h | None \<Rightarrow> h) else h"
  have o: "wf_outside ?h r" and l: "linked ?h h"
    using wf_outside_SetId [OF Suc.prems(2)] Suc.prems(2) by (auto split: option.split)
  have hf: "forest h" "r < length h" using Suc.prems(2) by (simp_all add: wf_outside_def)
  have ps: "ancestors ?h r ps" using linked_ancestors [OF l [symmetric] hf(1) Suc.prems(1) hf(2)] .
  show ?case
  proof (cases "rs_parent (?h ! r)")
    case None
    then show ?thesis using wf_outside_rebuild [OF o] by (simp add: Let_def)
  next
    case (Some p)
    with ps obtain qs where qs: "ps = p # qs" "ancestors ?h p qs" by (cases ps) auto
    with Suc.prems(3) have "length qs < n" by simp
    from Suc.IH [OF qs(2) wf_outside_parent [OF o Some] this] Some show ?thesis by (simp add: Let_def)
  qed
qed simp

lemma reset_ids_wf:
  "ancestors h r ps \<Longrightarrow> wf_outside h r \<Longrightarrow> length ps < n \<Longrightarrow> wf_tree (reset_ids n r h)"
proof (induction n arbitrary: h r ps)
  case (Suc n)
  let ?h = "if rc_HasId (h ! r) then SetId [] [False] r h else h"
  have o: "wf_outside ?h r" and l: "linked ?h h"
    using wf_outside_SetId [OF Suc.prems(2)] Suc.prems(2) by auto
  have hf: "forest h" "r < length h" using Suc.prems(2) by (simp_all add: wf_outside_def)
  have ps: "ancestors ?h r ps" using linked_ancestors [OF l [symmetric] hf(1) Suc.prems(1) hf(2)] .
  show ?case
  proof (cases "rs_parent (?h ! r)")
    case None
    then show ?thesis using wf_outside_rebuild [OF o] by (simp add: Let_def)
  next
    case (Some p)
    with ps obtain qs where qs: "ps = p # qs" "ancestors ?h p qs" by (cases ps) auto
    with Suc.prems(3) have "length qs < n" by simp
    from Suc.IH [OF qs(2) wf_outside_parent [OF o Some] this] Some show ?thesis by (simp add: Let_def)
  qed
qed simp

lemma wf_tree_FillActualPaths: "wf_tree h \<Longrightarrow> r < length h \<Longrightarrow> wf_tree (FillActualPaths ids r h)"
  and wf_tree_ResetIds: "wf_tree h \<Longrightarrow> r < length h \<Longrightarrow> wf_tree (ResetIds r h)"
proof -
  assume h: "wf_tree h" "r < length h"
  then obtain ps where ps: "ancestors h r ps" "length ps < length h"
    using forest_ancestors [of h r] ancestors_bound [of h r] by (auto simp: wf_tree_def)
  show "wf_tree (FillActualPaths ids r h)"
    using fill_actual_wf [OF ps(1) wf_outside_tree [OF h] ps(2)] by (simp add: FillActualPaths_def)
  show "wf_tree (ResetIds r h)"
    using reset_ids_wf [OF ps(1) wf_outside_tree [OF h] ps(2)] by (simp add: ResetIds_def)
qed

lemma wf_tree_rebuild_again: "wf_tree h \<Longrightarrow> r < length h \<Longrightarrow> wf_tree (RebuildPaths h r)"
  by (rule wf_outside_rebuild [OF wf_outside_tree])

lemma wf_tree_SetHasId: "wf_tree h \<Longrightarrow> r < length h \<Longrightarrow> wf_tree (SetHasId v r h)"
  by (simp add: SetHasId_def upd_def wf_tree_config links_def)

lemma wf_tree_SetService: "wf_tree h \<Longrightarrow> r < length h \<Longrightarrow> wf_tree (SetService v r h)"
  by (simp add: SetService_def upd_def wf_tree_config links_def)

lemma wf_tree_SetId:
  assumes "wf_tree h" "r < length h"
  shows "wf_tree (SetId v [] r h)" and "linked (SetId v [] r h) h"
proof -
  have s: "SetId v [] r h = RebuildPaths (SetId v [False] r h) r" by (simp add: SetId_def OptionalArg_def Let_def)
  note o = wf_outside_SetId [OF wf_outside_tree [OF assms], of v]
  show "wf_tree (SetId v [] r h)" unfolding s using wf_outside_rebuild [OF o(1)] .
  have "forest (SetId v [False] r h)" "r < length (SetId v [False] r h)" using o by (simp_all add: wf_outside_def)
  from same_linked [OF RebuildPaths_spec(1) [OF this]] o(2) show "linked (SetId v [] r h) h"
    unfolding s by metis
qed

end
