(* ===== verification/Api_Endpoint.thy ===== *)
theory Api_Endpoint
  imports Rest_Server Query_Parser Resource_Tree
begin

text \<open>
  What the endpoints of the services share: how the command of a request is parsed and validated, how a list is
  queried, how a message is set and provided with hypertext links, and how the endpoints of a service are
  attached to a server (\<^verbatim>\<open>src/pkg/api/api_server\<close>, \<^verbatim>\<open>api/hateoas.go\<close>, \<^verbatim>\<open>api/query.go\<close>, \<^verbatim>\<open>api/response.go\<close>,
  \<^verbatim>\<open>http_request/parse_request.go\<close>).

  The JSON library, the decoder of forms and the validator of structures work on the type of the command; for each
  type they are a record of functions, a codec.
\<close>

section \<open>Requests\<close>

record api_request = http_request +
  req_RawQuery :: string
  req_filters :: filter_manager

record 'c codec =
  cd_ParseMessage :: "string \<Rightarrow> 'c \<Rightarrow> goerror + 'c"
  cd_Decode :: "(string \<times> string list) list \<Rightarrow> 'c \<Rightarrow> goerror + 'c"
  cd_Validate :: "'c \<Rightarrow> (goerror + validation_failure) option"

record api_env =
  ae_resources :: resources
  ae_Hateoas :: bool
  ae_url_ParseQuery :: "string \<Rightarrow> goerror + (string \<times> string list) list"
  ae_unmarshal :: "string \<Rightarrow> goerror + query"
  ae_parser :: parser_lib
  ae_schemas :: schema_lib
  ae_EmptyFilterValidator :: filter_validator
  ae_DbQuery :: "string codec"

text \<open>
  The parsers return the command as it was when they fail: nobody looks at it then.
\<close>

definition http_ParseQuery :: "api_env \<Rightarrow> 'c codec \<Rightarrow> 'c \<Rightarrow> ('z api_request_scheme, 'c \<times> err) comp" where
  "http_ParseQuery en cd cmd = do {
     q \<leftarrow> gets req_RawQuery;
     traced ''http_request.ParseQuery'' [[(''query'', VStr q)]] (\<lambda>c.
       if q = [] then ret (cmd, None)
       else case ae_url_ParseQuery en q of
         Inl e \<Rightarrow> do { SetMessage c ''failed to parse query''; e \<leftarrow> SetError c (Some e); ret (cmd, e) }
       | Inr vals \<Rightarrow> (case cd_Decode cd vals cmd of
           Inl e \<Rightarrow> do { SetMessage c ''failed to decode schema''; e \<leftarrow> SetError c (Some e); ret (cmd, e) }
         | Inr cmd \<Rightarrow> ret (cmd, None))) }"

definition http_ParseBody :: "'c codec \<Rightarrow> 'c \<Rightarrow> ('z api_request_scheme, 'c \<times> err) comp" where
  "http_ParseBody cd cmd = traced ''http_request.ParseBody'' [] (\<lambda>c. do {
     body \<leftarrow> gets req_content;
     (case cd_ParseMessage cd body cmd of
        Inl e \<Rightarrow> do { SetMessage c ''failed to parse body''; e \<leftarrow> SetError c (Some e); ret (cmd, e) }
      | Inr cmd \<Rightarrow> ret (cmd, None)) })"

fun validator_error :: "goerror + validation_failure \<Rightarrow> goerror" where
  "validator_error (Inl e) = e"
| "validator_error (Inr v) = NativeError (ValidationError_Error v)"

definition report_validation :: "goerror + validation_failure \<Rightarrow> ('z op_ctx_scheme, unit) comp" where
  "report_validation f = (case f of
     Inr v \<Rightarrow> SetGenericError (Some (ValidationError_GenericError v)) [True]
   | Inl e \<Rightarrow> ret ())"

definition Req_Validate :: "'c codec \<Rightarrow> 'c \<Rightarrow> ('z api_request_scheme, err) comp" where
  "Req_Validate cd cmd = traced ''Request.Validate'' [] (\<lambda>c. case cd_Validate cd cmd of
     None \<Rightarrow> ret None
   | Some f \<Rightarrow> do { report_validation f; SetError c (Some (validator_error f)) })"

definition validated :: "'c codec \<Rightarrow> nat \<Rightarrow> 'c \<times> err \<Rightarrow> ('z api_request_scheme, 'c \<times> err) comp" where
  "validated cd c parsed = (case parsed of (cmd, e) \<Rightarrow>
     if e \<noteq> None then do { e \<leftarrow> SetError c e; ret (cmd, e) }
     else do {
       e \<leftarrow> Req_Validate cd cmd;
       (if e \<noteq> None then do { e \<leftarrow> SetError c e; ret (cmd, e) } else ret (cmd, None)) })"

definition ParseValidateQuery :: "api_env \<Rightarrow> 'c codec \<Rightarrow> 'c \<Rightarrow> ('z api_request_scheme, 'c \<times> err) comp" where
  "ParseValidateQuery en cd cmd = traced ''Request.ParseValidateQuery'' [] (\<lambda>c. do {
     r \<leftarrow> http_ParseQuery en cd cmd;
     validated cd c r })"

definition ParseValidateBody :: "'c codec \<Rightarrow> 'c \<Rightarrow> ('z api_request_scheme, 'c \<times> err) comp" where
  "ParseValidateBody cd cmd = traced ''Request.ParseValidateBody'' [] (\<lambda>c. do {
     r \<leftarrow> http_ParseBody cd cmd;
     validated cd c r })"

text \<open>\<open>op\<close> is the operation of the endpoint of the request.\<close>

definition ParseValidate :: "api_env \<Rightarrow> operation \<Rightarrow> 'c codec \<Rightarrow> 'c \<Rightarrow> ('z api_request_scheme, 'c \<times> err) comp" where
  "ParseValidate en op cd cmd =
     (if HttpContentInQuery (op_accessType op) then ParseValidateQuery en cd cmd else ParseValidateBody cd cmd)"

definition NewDbQuery :: "(db_filter \<Rightarrow> string) \<Rightarrow> db_filter option \<Rightarrow> string" where
  "NewDbQuery ToQueryString flt = (case flt of None \<Rightarrow> [] | Some f \<Rightarrow> ToQueryString f)"

text \<open>No endpoint gives \<^verbatim>\<open>ParseDbQuery\<close> a query of its own.\<close>

definition ParseDbQuery :: "api_env \<Rightarrow> operation \<Rightarrow> string \<Rightarrow> string \<Rightarrow> ('z api_request_scheme, db_filter option \<times> err) comp" where
  "ParseDbQuery en op model queryName = traced ''ParseDbQuery'' [[(''query_name'', VStr queryName)]] (\<lambda>c. do {
     (q, e) \<leftarrow> ParseValidate en op (ae_DbQuery en) [];
     (if e \<noteq> None then do { SetMessage c ''failed to parse/verify query''; e \<leftarrow> SetError c e; ret (None, e) }
      else if q = [] then ret (None, None)
      else do {
        f \<leftarrow> gets req_filters;
        let (r, f) = ParseQuery (ae_unmarshal en) (ae_parser en) (ae_schemas en) q model queryName
                       [Some (ae_EmptyFilterValidator en)] f;
        modifys (\<lambda>s. s\<lparr>req_filters := f\<rparr>);
        (case r of
           Inr flt \<Rightarrow> ret (flt, None)
         | Inl QPanic \<Rightarrow> go_panic (None, None)
         | Inl (QValidation v) \<Rightarrow> do {
             report_validation (Inr v);
             SetMessage c ''failed to parse/validate db query'';
             e \<leftarrow> SetError c (Some (validator_error (Inr v)));
             ret (None, e) }
         | Inl (QOther e) \<Rightarrow> do {
             SetMessage c ''failed to parse/validate db query'';
             e \<leftarrow> SetError c (Some e);
             ret (None, e) }) }) })"

definition FullRequestPath :: "resources \<Rightarrow> nat \<Rightarrow> 'z request_scheme \<Rightarrow> string" where
  "FullRequestPath h r s = BuildActualPath h r (req_params s) []"

definition FullRequestServicePath :: "resources \<Rightarrow> nat \<Rightarrow> 'z request_scheme \<Rightarrow> string" where
  "FullRequestServicePath h r s = BuildActualPath h r (req_params s) [True]"

section \<open>Hypertext links\<close>

definition TargetSelf :: string where "TargetSelf = ''self''"
definition TargetParent :: string where "TargetParent = ''parent''"
definition TargetChild :: string where "TargetChild = ''parent''"

record hateoas_link =
  hk_Target :: string
  hk_Operation :: string
  hk_HttpMethod :: string
  hk_Host :: string
  hk_Path :: string

definition hateoas_add :: "bool \<Rightarrow> string \<Rightarrow> string \<Rightarrow> string \<Rightarrow> operation option \<Rightarrow> hateoas_link list \<Rightarrow> hateoas_link list" where
  "hateoas_add withTest host path target op ls = (case op of
     None \<Rightarrow> ls
   | Some op \<Rightarrow>
       if op_testOnly op \<and> \<not> withTest then ls
       else ls @ [\<lparr>hk_Target = target, hk_Operation = op_name op,
              hk_HttpMethod = Access2HttpMethod (op_accessType op), hk_Host = host, hk_Path = path\<rparr>])"

definition MakeHateoasLinks :: "resources \<Rightarrow> nat \<Rightarrow> bool list \<Rightarrow> hateoas_link list" where
  "MakeHateoasLinks h r withTestOps =
     (let withTest = OptionalArg False withTestOps;
          host = (\<lambda>r. res_Host (length h) h r);
          getter = (\<lambda>target r ls. hateoas_add withTest (host r) (actualPath (h ! r)) target (rs_getter (h ! r)) ls);
          ls = foldl (\<lambda>ls op. hateoas_add withTest (host r) (fullActualPath (h ! r)) TargetSelf (Some op) ls)
                    [] (rs_operations (h ! r));
          ls = foldl (\<lambda>ls child. getter TargetChild child ls) ls (rs_children (h ! r)) in
      case rs_parent (h ! r) of
        None \<Rightarrow> ls
      | Some p \<Rightarrow> getter TargetParent p ls)"

text \<open>Links and items as they are written in JSON, where empty values are left out.\<close>

definition omitempty :: "string \<Rightarrow> string \<Rightarrow> fields" where
  "omitempty key val = (if val = [] then [] else [(key, VStr val)])"

definition link_json :: "hateoas_link \<Rightarrow> gval" where
  "link_json l = VMap (omitempty ''target'' (hk_Target l) @ omitempty ''operation'' (hk_Operation l)
     @ omitempty ''http_method'' (hk_HttpMethod l) @ omitempty ''host'' (hk_Host l) @ omitempty ''path'' (hk_Path l))"

definition links_json :: "hateoas_link list \<Rightarrow> fields" where
  "links_json ls = (if ls = [] then [] else [(''_links'', VList (map link_json ls))])"

text \<open>The links of the items of a list, made from one sample resource whose identifier is changed from item to item.\<close>

definition hateoas_item :: "nat \<Rightarrow> resources \<times> gval list \<Rightarrow> string \<Rightarrow> resources \<times> gval list" where
  "hateoas_item sample acc i = (case acc of (h, items) \<Rightarrow>
     let h = SetId i [] sample h in
     (h, items @ [VMap ([(''id'', VStr i)] @ links_json (MakeHateoasLinks h sample []))]))"

definition HateoasList :: "string list \<Rightarrow> nat \<Rightarrow> string \<Rightarrow> resources \<Rightarrow> gval list" where
  "HateoasList ids parentResource rtype h =
     (if length ids = 0 then []
      else
        (let (sample, h) = NamedResource rtype h;
             (epResource, h) = CloneChain True parentResource h;
             h = AddChild sample [] epResource h in
         snd (foldl (hateoas_item sample) (h, []) ids)))"

section \<open>Responses\<close>

definition op_Resource :: "operation \<Rightarrow> ('z sys_scheme, nat) comp" where
  "op_Resource op = (case op_resource op of None \<Rightarrow> go_panic 0 | Some r \<Rightarrow> ret r)"

text \<open>\<^verbatim>\<open>SetMessage\<close> of a message that can hold links; one of type \<^verbatim>\<open>ResponseStub\<close> drops them.\<close>

definition Api_SetMessage :: "api_env \<Rightarrow> operation \<Rightarrow> fields \<Rightarrow> ('z api_request_scheme, unit) comp" where
  "Api_SetMessage en op message =
     (if ae_Hateoas en then do {
        r \<leftarrow> op_Resource op;
        Response_SetMessage (VMap (message @ links_json (MakeHateoasLinks (ae_resources en) r []))) }
      else Response_SetMessage (VMap message))"

definition Api_SetStub :: "fields \<Rightarrow> ('z api_request_scheme, unit) comp" where
  "Api_SetStub message = Response_SetMessage (VMap message)"

definition ResponseExists :: "bool \<Rightarrow> fields" where
  "ResponseExists val = [(''exists'', VBool val)]"

text \<open>A list response: the count, the items and the links of the items.\<close>

definition ResponseList :: "int \<Rightarrow> gval list \<Rightarrow> gval list \<Rightarrow> fields" where
  "ResponseList count items itemLinks =
     (if count = 0 then [] else [(''count'', VInt64 count)]) @ [(''items'', VList items)]
     @ (if itemLinks = [] then [] else [(''_item_links'', VList itemLinks)])"

definition SetResponseList :: "api_env \<Rightarrow> operation \<Rightarrow> int \<Rightarrow> (string \<times> gval) list \<Rightarrow> string list
    \<Rightarrow> ('z api_request_scheme, unit) comp" where
  "SetResponseList en op count items rtype = do {
     itemLinks \<leftarrow> (if ae_Hateoas en then do {
         r \<leftarrow> op_Resource op;
         ret (HateoasList (map fst items) r (OptionalArg (resourceType (ae_resources en ! r)) rtype) (ae_resources en)) }
       else ret []);
     Api_SetMessage en op (ResponseList count (map snd items) itemLinks) }"

section \<open>Attaching a service to a server\<close>

text \<open>
  \<open>endpoint\<close> is the endpoint that an operation is, \<open>None\<close> for an operation that is none; the server has no dynamic
  tables. The outer \<open>None\<close> is a panic of \<^verbatim>\<open>AddEndpoint\<close>.
\<close>

fun attach_operations :: "(operation \<Rightarrow> 's endpoint option) \<Rightarrow> bool list \<Rightarrow> operation list \<Rightarrow> 's server \<Rightarrow> ('s server \<times> err) option" where
  "attach_operations endpoint multitenancy [] sv = Some (sv, None)"
| "attach_operations endpoint multitenancy (op # ops) sv = (case endpoint op of
     None \<Rightarrow> Some (sv, errors_New (''invalid opertaion type, must be endpoint: '' @ op_name op))
   | Some ep \<Rightarrow> (case AddEndpoint ep multitenancy sv of
       None \<Rightarrow> None
     | Some sv \<Rightarrow> attach_operations endpoint multitenancy ops sv))"

definition AttachToServer :: "(operation \<Rightarrow> 's endpoint option) \<Rightarrow> nat \<Rightarrow> 's server \<Rightarrow> bool list \<Rightarrow> ('s server \<times> err) option" where
  "AttachToServer endpoint service sv multitenancy =
     attach_operations endpoint multitenancy (all_operations (length (sv_resources sv)) (sv_resources sv) service) sv"

text \<open>\<^verbatim>\<open>AddServiceToServer\<close> panics on an error; \<open>extender\<close> are the errors of the service.\<close>

definition AddServiceToServer :: "(operation \<Rightarrow> 's endpoint option) \<Rightarrow> errors_extender \<Rightarrow> nat \<Rightarrow> bool list \<Rightarrow> 's server \<Rightarrow> 's server option" where
  "AddServiceToServer endpoint extender service multitenancy sv = (case AttachToServer endpoint service sv multitenancy of
     Some (sv, None) \<Rightarrow> Some (sv\<lparr>sv_errors := AttachToErrorManager extender (sv_errors sv)\<rparr>)
   | _ \<Rightarrow> None)"

definition ServiceBase_Init :: "string \<Rightarrow> resources \<Rightarrow> nat \<times> resources" where
  "ServiceBase_Init pathName h = NewResource pathName [zero_config\<lparr>rc_Service := True\<rparr>] h"

end
