(* ===== verification/Pool.thy ===== *)
theory Pool
  imports Users
begin

text \<open>
  Pools of services (\<^verbatim>\<open>src/pkg/pool\<close>): pools, services, the associations that bind a service to a pool in a
  role, the controller of all three over a CRUD, and the store that loads pools at the start of an
  application.
\<close>

section \<open>Errors\<close>

definition ErrorCodePoolNotFound :: string where "ErrorCodePoolNotFound = ''pool_not_found''"
definition ErrorCodeServiceNotFound :: string where "ErrorCodeServiceNotFound = ''service_not_found''"
definition ErrorCodePoolNameConflict :: string where "ErrorCodePoolNameConflict = ''pool_name_conflict''"
definition ErrorCodeServiceNameConflict :: string where "ErrorCodeServiceNameConflict = ''service_name_conflict''"
definition ErrorCodeServiceRoleConflict :: string where "ErrorCodeServiceRoleConflict = ''service_role_conflict''"
definition ErrorCodePoolServiceBindingsExist :: string where
  "ErrorCodePoolServiceBindingsExist = ''pool_service_bindings_exist''"
definition ErrorCodeNoServiceWithRole :: string where "ErrorCodeNoServiceWithRole = ''no_service_with_role''"
definition ErrorCodeInvalidServiceConfiguration :: string where
  "ErrorCodeInvalidServiceConfiguration = ''invalid_service_configuration''"
definition ErrorCodeServiceInitializationFailed :: string where
  "ErrorCodeServiceInitializationFailed = ''service_initialization_failed''"
definition ErrorCodePoolServiceBoundToPool :: string where "ErrorCodePoolServiceBoundToPool = ''service_bound_to_pool''"
definition ErrorCodeServiceNotActive :: string where "ErrorCodeServiceNotActive = ''service_not_active''"
definition ErrorCodePoolNotActive :: string where "ErrorCodePoolNotActive = ''pool_not_active''"

definition pool_ErrorDescriptions :: "(string \<times> string) list" where
  "pool_ErrorDescriptions =
     [(ErrorCodePoolNotFound, ''Pool not found.''),
      (ErrorCodeServiceNotFound, ''Service not found.''),
      (ErrorCodePoolNameConflict, ''Pool with such name already exists, choose another name.''),
      (ErrorCodeServiceNameConflict, ''Service with such name already exists, choose another name.''),
      (ErrorCodeServiceRoleConflict, ''Pool already has service for that role.''),
      (ErrorCodePoolServiceBindingsExist,
        ''Can't delete pool with services. First, remove all services from the pool.''),
      (ErrorCodePoolServiceBoundToPool,
        ''Can't delete service bound to pool. First, remove the services from all pools.''),
      (ErrorCodeNoServiceWithRole, ''Pool does not include service with requested role''),
      (ErrorCodeInvalidServiceConfiguration, ''Invalid configuration of service in the pool''),
      (ErrorCodeServiceInitializationFailed, ''Failed to connect to service''),
      (ErrorCodeServiceNotActive, ''Service not active. First, activate corresponsing service.''),
      (ErrorCodePoolNotActive, ''Pool not active. First, activate corresponsing pool.'')]"

definition pool_ErrorHttpCodes :: "(string \<times> int) list" where
  "pool_ErrorHttpCodes =
     [(ErrorCodePoolNotFound, StatusNotFound),
      (ErrorCodeServiceNotFound, StatusNotFound),
      (ErrorCodeInvalidServiceConfiguration, StatusInternalServerError),
      (ErrorCodeServiceInitializationFailed, StatusInternalServerError),
      (ErrorCodeServiceNotActive, StatusInternalServerError),
      (ErrorCodePoolNotActive, StatusInternalServerError)]"

section \<open>Services, pools and associations\<close>

record service_data =
  sd_LONG_NAME :: string
  sd_DESCRIPTION :: string
  sd_ACTIVE :: bool
  sd_TYPE_NAME :: string
  sd_REFID :: string
  PROVIDER :: string
  PUBLIC_HOST :: string
  PUBLIC_PORT :: nat
  PUBLIC_URL :: string
  PRIVATE_HOST :: string
  PRIVATE_PORT :: nat
  PRIVATE_URL :: string
  sd_USER :: string
  DB_NAME :: string
  PARAMETER1 :: string
  PARAMETER2 :: string
  PARAMETER3 :: string
  PARAMETER1_NAME :: string
  PARAMETER2_NAME :: string
  PARAMETER3_NAME :: string
  SECRET1 :: string
  SECRET2 :: string

record pool_service = object_base +
  sv_NAME :: string
  sv_data :: service_data

definition service_data_row :: "service_data \<Rightarrow> fields" where
  "service_data_row d =
     [(''long_name'', VStr (sd_LONG_NAME d)), (''description'', VStr (sd_DESCRIPTION d)),
      (''active'', VBool (sd_ACTIVE d)), (''type_name'', VStr (sd_TYPE_NAME d)), (''refid'', VStr (sd_REFID d)),
      (''provider'', VStr (PROVIDER d)), (''public_host'', VStr (PUBLIC_HOST d)),
      (''public_port'', VUint (PUBLIC_PORT d)), (''public_url'', VStr (PUBLIC_URL d)),
      (''private_host'', VStr (PRIVATE_HOST d)), (''private_port'', VUint (PRIVATE_PORT d)),
      (''private_url'', VStr (PRIVATE_URL d)), (''user'', VStr (sd_USER d)), (''db_name'', VStr (DB_NAME d)),
      (''parameter1'', VStr (PARAMETER1 d)), (''parameter2'', VStr (PARAMETER2 d)),
      (''parameter3'', VStr (PARAMETER3 d)), (''parameter1_name'', VStr (PARAMETER1_NAME d)),
      (''parameter2_name'', VStr (PARAMETER2_NAME d)), (''parameter3_name'', VStr (PARAMETER3_NAME d)),
      (''secret1'', VStr (SECRET1 d)), (''secret2'', VStr (SECRET2 d))]"

definition row_nat :: "fields \<Rightarrow> string \<Rightarrow> nat" where
  "row_nat row k = (case map_get row k of Some (VUint v) \<Rightarrow> v | _ \<Rightarrow> 0)"

definition row_service_data :: "fields \<Rightarrow> service_data" where
  "row_service_data row =
     \<lparr>sd_LONG_NAME = row_str row ''long_name'', sd_DESCRIPTION = row_str row ''description'',
      sd_ACTIVE = row_bool row ''active'', sd_TYPE_NAME = row_str row ''type_name'', sd_REFID = row_str row ''refid'',
      PROVIDER = row_str row ''provider'', PUBLIC_HOST = row_str row ''public_host'',
      PUBLIC_PORT = row_nat row ''public_port'', PUBLIC_URL = row_str row ''public_url'',
      PRIVATE_HOST = row_str row ''private_host'', PRIVATE_PORT = row_nat row ''private_port'',
      PRIVATE_URL = row_str row ''private_url'', sd_USER = row_str row ''user'', DB_NAME = row_str row ''db_name'',
      PARAMETER1 = row_str row ''parameter1'', PARAMETER2 = row_str row ''parameter2'',
      PARAMETER3 = row_str row ''parameter3'', PARAMETER1_NAME = row_str row ''parameter1_name'',
      PARAMETER2_NAME = row_str row ''parameter2_name'', PARAMETER3_NAME = row_str row ''parameter3_name'',
      SECRET1 = row_str row ''secret1'', SECRET2 = row_str row ''secret2''\<rparr>"

definition service_row :: "pool_service \<Rightarrow> fields" where
  "service_row s =
     [(''id'', VStr (obj_id s)), (''created_at'', VTime (created_at s)), (''updated_at'', VTime (updated_at s)),
      (''name'', VStr (sv_NAME s))] @ service_data_row (sv_data s)"

definition row_service :: "fields \<Rightarrow> pool_service" where
  "row_service row = \<lparr>obj_id = row_str row ''id'', created_at = row_time row ''created_at'',
     updated_at = row_time row ''updated_at'', sv_NAME = row_str row ''name'', sv_data = row_service_data row\<rparr>"

text \<open>A binding is a row of the join of the associations with pools and services.\<close>

record binding = object_base +
  bd_ROLE :: string
  bd_data :: service_data
  bd_PoolId :: string
  bd_PoolName :: string
  bd_ServiceId :: string
  bd_ServiceName :: string

definition row_binding :: "fields \<Rightarrow> binding" where
  "row_binding row = \<lparr>obj_id = row_str row ''id'', created_at = row_time row ''created_at'',
     updated_at = row_time row ''updated_at'', bd_ROLE = row_str row ''role'', bd_data = row_service_data row,
     bd_PoolId = row_str row ''pool_id'', bd_PoolName = row_str row ''pool_name'',
     bd_ServiceId = row_str row ''service_id'', bd_ServiceName = row_str row ''service_name''\<rparr>"

record pool = object_base +
  pl_NAME :: string
  pl_LONG_NAME :: string
  pl_DESCRIPTION :: string
  pl_ACTIVE :: bool
  pl_Services :: "(string \<times> binding) list"

definition NewPool :: pool where
  "NewPool = \<lparr>obj_id = [], created_at = 0, updated_at = 0, pl_NAME = [], pl_LONG_NAME = [],
     pl_DESCRIPTION = [], pl_ACTIVE = False, pl_Services = []\<rparr>"

definition pool_row :: "pool \<Rightarrow> fields" where
  "pool_row p =
     [(''id'', VStr (obj_id p)), (''created_at'', VTime (created_at p)), (''updated_at'', VTime (updated_at p)),
      (''name'', VStr (pl_NAME p)), (''long_name'', VStr (pl_LONG_NAME p)),
      (''description'', VStr (pl_DESCRIPTION p)), (''active'', VBool (pl_ACTIVE p))]"

definition row_pool :: "fields \<Rightarrow> pool" where
  "row_pool row = \<lparr>obj_id = row_str row ''id'', created_at = row_time row ''created_at'',
     updated_at = row_time row ''updated_at'', pl_NAME = row_str row ''name'',
     pl_LONG_NAME = row_str row ''long_name'', pl_DESCRIPTION = row_str row ''description'',
     pl_ACTIVE = row_bool row ''active'', pl_Services = []\<rparr>"

definition Pool_Service :: "pool \<Rightarrow> string \<Rightarrow> goerror + binding" where
  "Pool_Service p role =
     (case map_get (pl_Services p) role of
        None \<Rightarrow> Inl (NativeError ''service not found'')
      | Some b \<Rightarrow> Inr b)"

definition SetServices :: "binding list \<Rightarrow> pool \<Rightarrow> pool" where
  "SetServices services p =
     p\<lparr>pl_Services := foldl (\<lambda>m service. map_set m (bd_ROLE service) service) [] services\<rparr>"

record association = object_base +
  as_POOL_ID :: string
  as_ROLE :: string
  as_SERVICE_ID :: string

definition association_row :: "association \<Rightarrow> fields" where
  "association_row a =
     [(''id'', VStr (obj_id a)), (''created_at'', VTime (created_at a)), (''updated_at'', VTime (updated_at a)),
      (''pool_id'', VStr (as_POOL_ID a)), (''role'', VStr (as_ROLE a)), (''service_id'', VStr (as_SERVICE_ID a))]"

abbreviation pools_table :: string where "pools_table \<equiv> ''pools''"
abbreviation services_table :: string where "services_table \<equiv> ''pool_services''"
abbreviation associations_table :: string where "associations_table \<equiv> ''pool_service_associations''"

section \<open>Controller: pools\<close>

definition fieldName :: "bool list \<Rightarrow> string" where
  "fieldName idIsName = (if OptionalArg False idIsName then ''name'' else ''id'')"

record oplog_pool =
  op_PoolName :: string
  op_PoolId :: string
  op_ServiceName :: string
  op_ServiceId :: string
  op_Role :: string

definition zero_oplog_pool :: oplog_pool where
  "zero_oplog_pool = \<lparr>op_PoolName = [], op_PoolId = [], op_ServiceName = [], op_ServiceId = [], op_Role = []\<rparr>"

definition Pool_OpLog :: "string \<Rightarrow> oplog_pool \<Rightarrow> ('z op_ctx_scheme, unit) comp" where
  "Pool_OpLog operation pl = Oplog
     \<lparr>obj_id = [], created_at = 0, updated_at = 0, ol_table = ''op_log_pools'', ol_operation = operation,
      ol_context = [], ol_context_name = [], ol_origin_app = [], ol_origin_name = [],
      ol_origin_source = [], ol_origin_client = [], ol_user = [], ol_user_type = [],
      ol_extra = [(''pool_name'', VStr (op_PoolName pl)), (''pool_id'', VStr (op_PoolId pl)),
        (''service_name'', VStr (op_ServiceName pl)), (''service_id'', VStr (op_ServiceId pl)),
        (''role'', VStr (op_Role pl))]\<rparr>"

definition CheckPoolNameUnique :: "'z op_ctx_scheme crud \<Rightarrow> gval \<Rightarrow> ('z op_ctx_scheme, err) comp" where
  "CheckPoolNameUnique cr name = traced ''PoolController.CheckPoolNameUnique'' [[(''name'', name)]] (\<lambda>c. do {
     (exists, e) \<leftarrow> c_Exists cr pools_table (AddField ''name'' name NewFilter);
     (if e \<noteq> None then do {
        SetMessage c ''failed to check existence of pool with desired name'';
        SetError c e }
      else if exists then do {
        SetGenericErrorCode ErrorCodePoolNameConflict [];
        SetError c (errors_New ''pool with desired name exists'') }
      else ret None) })"

definition AddPool :: "'z op_ctx_scheme crud \<Rightarrow> pool \<Rightarrow> ('z op_ctx_scheme, pool option \<times> err) comp" where
  "AddPool cr pool = traced ''PoolController.AddPool'' [[(''name'', VStr (pl_NAME pool))]] (\<lambda>c. do {
     e \<leftarrow> CheckPoolNameUnique cr (VStr (pl_NAME pool));
     (if e \<noteq> None then do { e \<leftarrow> SetError c e; ret (None, e) }
      else do {
        pool \<leftarrow> InitObject pool;
        e \<leftarrow> c_Create cr pools_table (pool_row pool);
        (if e \<noteq> None then do { e \<leftarrow> SetError c e; ret (None, e) }
         else do {
           Pool_OpLog ''add_pool'' (zero_oplog_pool\<lparr>op_PoolId := obj_id pool, op_PoolName := pl_NAME pool\<rparr>);
           ret (Some pool, None) }) }) })"

definition FindPool :: "'z op_ctx_scheme crud \<Rightarrow> string \<Rightarrow> bool list \<Rightarrow> ('z op_ctx_scheme, pool option \<times> err) comp" where
  "FindPool cr i idIsName = do {
     (found, e) \<leftarrow> crud_FindByField cr ''PoolController.FindPool'' pools_table (fieldName idIsName) (VStr i);
     (if e \<noteq> None then ret (None, e)
      else case found of
        None \<Rightarrow> do { SetGenericErrorCode ErrorCodePoolNotFound []; ret (None, None) }
      | Some row \<Rightarrow> ret (Some (row_pool row), None)) }"

definition CheckIfActivate :: "fields \<Rightarrow> bool \<times> string \<times> bool" where
  "CheckIfActivate fs =
     (case map_get fs ''active'' of
        Some (VBool activate) \<Rightarrow> (True, if \<not> activate then ''deactivate'' else ''activate'', length fs > 1)
      | _ \<Rightarrow> (False, [], True))"

text \<open>The operation log of an update of a pool names it as a service.\<close>

definition log_update :: "string \<Rightarrow> fields \<Rightarrow> string \<Rightarrow> string \<Rightarrow> ('z op_ctx_scheme, unit) comp" where
  "log_update suffix fs i name =
     (case CheckIfActivate fs of (hasActivate, activateOp, hasOtherFields) \<Rightarrow> do {
        (if hasActivate then Pool_OpLog (ConcatStrings [activateOp, suffix])
           (zero_oplog_pool\<lparr>op_ServiceId := i, op_ServiceName := name\<rparr>) else ret ());
        (if hasOtherFields then Pool_OpLog (ConcatStrings [''update'', suffix])
           (zero_oplog_pool\<lparr>op_ServiceId := i, op_ServiceName := name\<rparr>) else ret ()) })"

definition UpdatePool :: "'z op_ctx_scheme crud \<Rightarrow> string \<Rightarrow> fields \<Rightarrow> bool list
    \<Rightarrow> ('z op_ctx_scheme, pool option \<times> err) comp" where
  "UpdatePool cr i fs idIsName =
     traced ''PoolController.UpdatePool'' [[(''pool'', VStr i), (''use_name'', VBool (OptionalArg False idIsName))]] (\<lambda>c. do {
       e \<leftarrow> (case map_get fs ''name'' of
               None \<Rightarrow> ret None
             | Some name \<Rightarrow> CheckPoolNameUnique cr name);
       (if e \<noteq> None then do { e \<leftarrow> SetError c e; ret (None, e) }
        else do {
          (obj, e) \<leftarrow> crud_FindUpdate cr ''PoolController.FindUpdatePool'' pools_table (fieldName idIsName) (VStr i) fs;
          (if e \<noteq> None then ret (None, e)
           else case obj of
             None \<Rightarrow> do {
               SetGenericErrorCode ErrorCodePoolNotFound [];
               e \<leftarrow> SetError c (errors_New ''pool not found'');
               ret (None, e) }
           | Some row \<Rightarrow> do {
               log_update ''_pool'' fs (row_str row ''id'') (row_str row ''name'');
               (p, e) \<leftarrow> FindPool cr (row_str row ''id'') [];
               (if e \<noteq> None then ret (None, e)
                else case p of
                  None \<Rightarrow> do {
                    SetGenericErrorCode ErrorCodePoolNotFound [];
                    e \<leftarrow> SetError c (errors_New ''pool not found'');
                    ret (None, e) }
                | Some p \<Rightarrow> ret (Some p, None)) }) }) })"

definition ctrl_PoolId :: "'z op_ctx_scheme crud \<Rightarrow> nat \<Rightarrow> string \<Rightarrow> bool list \<Rightarrow> ('z op_ctx_scheme, string \<times> err) comp" where
  "ctrl_PoolId cr c i idIsName =
     (if \<not> OptionalArg False idIsName then do { SetCallField c ''id'' (VStr i); ret (i, None) }
      else do {
        SetCallField c ''name'' (VStr i);
        (pool, e) \<leftarrow> FindPool cr i [True];
        (if e \<noteq> None then do {
           SetMessage c ''failed to find pool'';
           e \<leftarrow> SetError c e;
           ret ([], e) }
         else case pool of
           None \<Rightarrow> ret ([], None)
         | Some pool \<Rightarrow> do {
             SetCallField c ''id'' (VStr (obj_id pool));
             ret (obj_id pool, None) }) })"

definition DeletePool :: "'z op_ctx_scheme crud \<Rightarrow> string \<Rightarrow> bool list \<Rightarrow> ('z op_ctx_scheme, err) comp" where
  "DeletePool cr i idIsName = traced ''PoolController.DeletePool'' [] (\<lambda>c. do {
     (poolId, e) \<leftarrow> ctrl_PoolId cr c i idIsName;
     (if e \<noteq> None then ret e
      else if poolId = [] then do { ClearError; ret None }
      else do {
        (exists, e) \<leftarrow> c_Exists cr associations_table (AddField ''pool_id'' (VStr poolId) NewFilter);
        (if e \<noteq> None then do { SetMessage c ''failed to check associations''; SetError c e }
         else if exists then do {
           SetGenericErrorCode ErrorCodePoolServiceBindingsExist [];
           SetError c (errors_New ''can not delete pool with services, remove all service bindings first'') }
         else do {
           e \<leftarrow> crud_Delete cr ''PoolController.DeletePool'' pools_table ''id'' (VStr poolId);
           (if e \<noteq> None then ret e
            else do {
              Pool_OpLog ''delete_pool'' (zero_oplog_pool\<lparr>op_PoolId := poolId,
                op_PoolName := (if OptionalArg False idIsName then i else [])\<rparr>);
              ret None }) }) }) })"

definition GetPools :: "'z op_ctx_scheme crud \<Rightarrow> db_filter option
    \<Rightarrow> ('z op_ctx_scheme, (pool list \<times> int) \<times> err) comp" where
  "GetPools cr flt = do {
     ((rows, count), e) \<leftarrow> crud_List cr [] pools_table flt;
     (if e \<noteq> None then ret (([], 0), e) else ret ((map row_pool rows, count), None)) }"

section \<open>Controller: services\<close>

definition CheckServiceNameUnique :: "'z op_ctx_scheme crud \<Rightarrow> gval \<Rightarrow> ('z op_ctx_scheme, err) comp" where
  "CheckServiceNameUnique cr name = traced ''PoolController.CheckServiceNameUnique'' [[(''name'', name)]] (\<lambda>c. do {
     (exists, e) \<leftarrow> c_Exists cr services_table (AddField ''name'' name NewFilter);
     (if e \<noteq> None then SetError c e
      else if exists then do {
        SetGenericErrorCode ErrorCodeServiceNameConflict [];
        SetError c (errors_New ''service with such name exists'') }
      else ret None) })"

text \<open>An error of the database is returned as it is, without being recorded in the call.\<close>

definition AddService :: "'z op_ctx_scheme crud \<Rightarrow> pool_service
    \<Rightarrow> ('z op_ctx_scheme, pool_service option \<times> err) comp" where
  "AddService cr service = traced ''PoolController.AddService'' [[(''name'', VStr (sv_NAME service))]] (\<lambda>c. do {
     e \<leftarrow> CheckServiceNameUnique cr (VStr (sv_NAME service));
     (if e \<noteq> None then do { e \<leftarrow> SetError c e; ret (None, e) }
      else do {
        service \<leftarrow> InitObject service;
        e \<leftarrow> c_Create cr services_table (service_row service);
        (if e \<noteq> None then ret (None, e)
         else do {
           Pool_OpLog ''add_service''
             (zero_oplog_pool\<lparr>op_ServiceId := obj_id service, op_ServiceName := sv_NAME service\<rparr>);
           ret (Some service, None) }) }) })"

definition FindService :: "'z op_ctx_scheme crud \<Rightarrow> string \<Rightarrow> bool list
    \<Rightarrow> ('z op_ctx_scheme, pool_service option \<times> err) comp" where
  "FindService cr i idIsName = do {
     (found, e) \<leftarrow> crud_FindByField cr ''PoolController.FindService'' services_table (fieldName idIsName) (VStr i);
     (if e \<noteq> None then ret (None, e)
      else case found of
        None \<Rightarrow> do { SetGenericErrorCode ErrorCodeServiceNotFound []; ret (None, None) }
      | Some row \<Rightarrow> ret (Some (row_service row), None)) }"

text \<open>
  After the update the found service is returned as it is: the second check for a missing one looks
  at the object that was found before the update.
\<close>

definition UpdateService :: "'z op_ctx_scheme crud \<Rightarrow> string \<Rightarrow> fields \<Rightarrow> bool list
    \<Rightarrow> ('z op_ctx_scheme, pool_service option \<times> err) comp" where
  "UpdateService cr i fs idIsName =
     traced ''PoolController.UpdateService'' [[(''service'', VStr i), (''use_name'', VBool (OptionalArg False idIsName))]] (\<lambda>c. do {
       e \<leftarrow> (case map_get fs ''name'' of
               None \<Rightarrow> ret None
             | Some name \<Rightarrow> CheckServiceNameUnique cr name);
       (if e \<noteq> None then do { e \<leftarrow> SetError c e; ret (None, e) }
        else do {
          (obj, e) \<leftarrow> crud_FindUpdate cr ''PoolController.FindUpdateService'' services_table (fieldName idIsName) (VStr i) fs;
          (if e \<noteq> None then do { e \<leftarrow> SetError c e; ret (None, e) }
           else case obj of
             None \<Rightarrow> do {
               SetGenericErrorCode ErrorCodeServiceNotFound [];
               e \<leftarrow> SetError c (errors_New ''service not found'');
               ret (None, e) }
           | Some row \<Rightarrow> do {
               log_update ''_service'' fs (row_str row ''id'') (row_str row ''name'');
               (s, e) \<leftarrow> FindService cr (row_str row ''id'') [];
               (if e \<noteq> None then ret (None, e) else ret (s, None)) }) }) })"

definition ctrl_ServiceId :: "'z op_ctx_scheme crud \<Rightarrow> nat \<Rightarrow> string \<Rightarrow> bool list
    \<Rightarrow> ('z op_ctx_scheme, string \<times> err) comp" where
  "ctrl_ServiceId cr c i idIsName =
     (if \<not> OptionalArg False idIsName then do { SetCallField c ''id'' (VStr i); ret (i, None) }
      else do {
        SetCallField c ''name'' (VStr i);
        (service, e) \<leftarrow> FindService cr i [True];
        (if e \<noteq> None then do {
           SetMessage c ''failed to find service'';
           e \<leftarrow> SetError c e;
           ret ([], e) }
         else case service of
           None \<Rightarrow> ret ([], None)
         | Some service \<Rightarrow> do {
             SetCallField c ''id'' (VStr (obj_id service));
             ret (obj_id service, None) }) })"

definition DeleteService :: "'z op_ctx_scheme crud \<Rightarrow> string \<Rightarrow> bool list \<Rightarrow> ('z op_ctx_scheme, err) comp" where
  "DeleteService cr i idIsName = traced ''PoolController.DeleteService'' [] (\<lambda>c. do {
     (serviceId, e) \<leftarrow> ctrl_ServiceId cr c i idIsName;
     (if e \<noteq> None then ret e
      else if serviceId = [] then do { ClearError; ret None }
      else do {
        (exists, e) \<leftarrow> c_Exists cr associations_table (AddField ''service_id'' (VStr serviceId) NewFilter);
        (if e \<noteq> None then do { SetMessage c ''failed to check associations''; SetError c e }
         else if exists then do {
           SetGenericErrorCode ErrorCodePoolServiceBoundToPool [];
           SetError c (errors_New ''can not delete service bound to pools, remove all service bindings first'') }
         else do {
           e \<leftarrow> crud_Delete cr ''PoolController.DeleteService'' services_table ''id'' (VStr serviceId);
           (if e \<noteq> None then ret e
            else do {
              Pool_OpLog ''delete_service'' (zero_oplog_pool\<lparr>op_ServiceId := serviceId,
                op_ServiceName := (if OptionalArg False idIsName then i else [])\<rparr>);
              ret None }) }) }) })"

definition GetServices :: "'z op_ctx_scheme crud \<Rightarrow> db_filter option
    \<Rightarrow> ('z op_ctx_scheme, (pool_service list \<times> int) \<times> err) comp" where
  "GetServices cr flt = do {
     ((rows, count), e) \<leftarrow> crud_List cr ''PoolController.GetServices'' services_table flt;
     (if e \<noteq> None then ret (([], 0), e) else ret ((map row_service rows, count), None)) }"

section \<open>Controller: bindings\<close>

definition binding_filter :: "string \<Rightarrow> string \<Rightarrow> db_filter" where
  "binding_filter poolId role = AddField ''role'' (VStr role) (AddField ''pool_id'' (VStr poolId) NewFilter)"

definition AddServiceToPool :: "'z op_ctx_scheme crud \<Rightarrow> string \<Rightarrow> string \<Rightarrow> string \<Rightarrow> bool list
    \<Rightarrow> ('z op_ctx_scheme, err) comp" where
  "AddServiceToPool cr poolId serviceId role idIsName =
     (let field = fieldName idIsName in
      traced ''PoolController.AddServiceToPool'' [[(ConcatStrings [''pool_'', field], VStr poolId),
        (ConcatStrings [''service_'', field], VStr serviceId), (''role'', VStr role)]] (\<lambda>c. do {
          (pool, e) \<leftarrow> FindPool cr poolId idIsName;
          (if e \<noteq> None then do { SetMessage c ''failed to find pool''; SetError c e }
           else case pool of
             None \<Rightarrow> SetError c (errors_New ''pool not found'')
           | Some pool \<Rightarrow> do {
               (service, e) \<leftarrow> FindService cr serviceId idIsName;
               (if e \<noteq> None then do { SetMessage c ''failed to find service''; SetError c e }
                else case service of
                  None \<Rightarrow> SetError c (errors_New ''unknown service'')
                | Some service \<Rightarrow> do {
                    (exists, e) \<leftarrow> c_Exists cr associations_table (binding_filter (obj_id pool) role);
                    (if e \<noteq> None then do {
                       SetMessage c ''failed to check existence of pool service binding'';
                       SetError c e }
                     else if exists then do {
                       SetGenericErrorCode ErrorCodeServiceRoleConflict [];
                       SetError c (errors_New ''pool already has service with such role'') }
                     else do {
                       association \<leftarrow> InitObject \<lparr>obj_id = [], created_at = 0, updated_at = 0,
                         as_POOL_ID = [], as_ROLE = [], as_SERVICE_ID = []\<rparr>;
                       e \<leftarrow> c_Create cr associations_table (association_row (association\<lparr>
                         as_POOL_ID := obj_id pool, as_SERVICE_ID := obj_id service, as_ROLE := role\<rparr>));
                       (if e \<noteq> None then do {
                          SetMessage c ''failed to save association in database'';
                          SetError c e }
                        else do {
                          Pool_OpLog ''add_service_to_pool'' \<lparr>op_PoolName = pl_NAME pool, op_PoolId = obj_id pool,
                            op_ServiceName = sv_NAME service, op_ServiceId = obj_id service, op_Role = role\<rparr>;
                          ret None }) }) }) }) }))"

definition RemoveServiceFromPool :: "'z op_ctx_scheme crud \<Rightarrow> string \<Rightarrow> string \<Rightarrow> bool list
    \<Rightarrow> ('z op_ctx_scheme, err) comp" where
  "RemoveServiceFromPool cr i role idIsName =
     traced_err ''PoolController.RemoveServiceFromPool'' [[(''role'', VStr role)]] (\<lambda>c. do {
       (poolId, e) \<leftarrow> ctrl_PoolId cr c i idIsName;
       (if e \<noteq> None then ret (e, e)
        else if poolId = [] then do { ClearError; ret (None, None) }
        else do {
          (found, e) \<leftarrow> c_Read cr associations_table [(''pool_id'', VStr poolId), (''role'', VStr role)];
          (if e \<noteq> None then do { SetMessage c ''failed to find association''; ret (e, e) }
           else case found of
             None \<Rightarrow> ret (None, None)
           | Some row \<Rightarrow> do {
               e \<leftarrow> c_Delete cr associations_table (row_str row ''id'');
               (if e \<noteq> None then do { SetMessage c ''failed to delete association''; ret (e, e) }
                else do {
                  Pool_OpLog ''remove_service_from_pool'' (zero_oplog_pool\<lparr>op_PoolId := poolId, op_Role := role,
                    op_PoolName := (if OptionalArg False idIsName then i else [])\<rparr>);
                  ret (None, None) }) }) }) })"

definition RemoveAllServicesFromPool :: "'z op_ctx_scheme crud \<Rightarrow> string \<Rightarrow> bool list
    \<Rightarrow> ('z op_ctx_scheme, err) comp" where
  "RemoveAllServicesFromPool cr i idIsName =
     traced_err ''PoolController.RemoveAllServicesFromPool'' [] (\<lambda>c. do {
       (poolId, e) \<leftarrow> ctrl_PoolId cr c i idIsName;
       (if e \<noteq> None then ret (e, e)
        else if poolId = [] then do { ClearError; ret (None, None) }
        else do {
          e \<leftarrow> c_DeleteByFields cr associations_table [(''pool_id'', VStr poolId)];
          (if e \<noteq> None then ret (e, e)
           else do {
             Pool_OpLog ''remove_all_services_from_pool'' (zero_oplog_pool\<lparr>op_PoolId := poolId,
               op_PoolName := (if OptionalArg False idIsName then i else [])\<rparr>);
             ret (None, None) }) }) })"

definition RemoveServiceFromAllPools :: "'z op_ctx_scheme crud \<Rightarrow> string \<Rightarrow> bool list
    \<Rightarrow> ('z op_ctx_scheme, err) comp" where
  "RemoveServiceFromAllPools cr i idIsName =
     traced_err ''PoolController.RemoveServiceFromAllPools'' [] (\<lambda>c. do {
       (serviceId, e) \<leftarrow> ctrl_ServiceId cr c i idIsName;
       (if e \<noteq> None then ret (e, e)
        else if serviceId = [] then do { ClearError; ret (None, None) }
        else do {
          e \<leftarrow> c_DeleteByFields cr associations_table [(''service_id'', VStr serviceId)];
          (if e \<noteq> None then ret (e, e)
           else do {
             Pool_OpLog ''remove_service_from_all_pools'' (zero_oplog_pool\<lparr>op_ServiceId := serviceId,
               op_ServiceName := (if OptionalArg False idIsName then i else [])\<rparr>);
             ret (None, None) }) }) })"

text \<open>
  The bindings are selected by the identifier the caller has passed, also when that is a name that
  has just been resolved. The join is named by its query; its rows come from the database.
\<close>

definition GetPoolBindings :: "'z op_ctx_scheme crud \<Rightarrow> string \<Rightarrow> bool list
    \<Rightarrow> ('z op_ctx_scheme, binding list \<times> err) comp" where
  "GetPoolBindings cr i idIsName = traced_err ''PoolController.GetPoolBindings'' [] (\<lambda>c. do {
     (poolId, e) \<leftarrow> ctrl_PoolId cr c i idIsName;
     (if e \<noteq> None then ret (([], e), e)
      else if poolId = [] then do { ClearError; ret (([], None), None) }
      else do {
        ((rows, _), e) \<leftarrow> c_Join cr ''GetPoolBindings'' (AddField ''pools.id'' (VStr i) NewFilter);
        (if e \<noteq> None then ret (([], e), e) else ret ((map row_binding rows, None), None)) }) })"

definition GetServiceBindings :: "'z op_ctx_scheme crud \<Rightarrow> string \<Rightarrow> bool list
    \<Rightarrow> ('z op_ctx_scheme, binding list \<times> err) comp" where
  "GetServiceBindings cr i idIsName = traced_err ''PoolController.GetServiceBindings'' [] (\<lambda>c. do {
     (serviceId, e) \<leftarrow> ctrl_ServiceId cr c i idIsName;
     (if e \<noteq> None then ret (([], e), e)
      else if serviceId = [] then do { ClearError; ret (([], None), None) }
      else do {
        ((rows, _), e) \<leftarrow> c_Join cr ''GetServiceBindings'' (AddField ''pool_services.id'' (VStr i) NewFilter);
        (if e \<noteq> None then ret (([], e), e) else ret ((map row_binding rows, None), None)) }) })"

definition LoadPool :: "'z op_ctx_scheme crud \<Rightarrow> string \<Rightarrow> bool list
    \<Rightarrow> ('z op_ctx_scheme, pool option \<times> err) comp" where
  "LoadPool cr i idIsName = traced_err ''LoadPool'' [] (\<lambda>c. do {
     (pool, e) \<leftarrow> FindPool cr i idIsName;
     (if e \<noteq> None then ret ((None, e), e)
      else case pool of
        None \<Rightarrow> ret ((None, None), None)
      | Some pool \<Rightarrow> do {
          (services, e) \<leftarrow> GetPoolBindings cr (obj_id pool) [];
          (if e \<noteq> None then ret ((None, e), e)
           else ret ((Some (SetServices services pool), None), None)) }) })"

definition ActivatePool :: "'z op_ctx_scheme crud \<Rightarrow> string \<Rightarrow> bool list
    \<Rightarrow> ('z op_ctx_scheme, pool option \<times> err) comp" where
  "ActivatePool cr i idIsName = UpdatePool cr i [(''active'', VBool True)] idIsName"

definition DeactivatePool :: "'z op_ctx_scheme crud \<Rightarrow> string \<Rightarrow> bool list
    \<Rightarrow> ('z op_ctx_scheme, pool option \<times> err) comp" where
  "DeactivatePool cr i idIsName = UpdatePool cr i [(''active'', VBool False)] idIsName"

definition ActivateService :: "'z op_ctx_scheme crud \<Rightarrow> string \<Rightarrow> bool list
    \<Rightarrow> ('z op_ctx_scheme, pool_service option \<times> err) comp" where
  "ActivateService cr i idIsName = UpdateService cr i [(''active'', VBool True)] idIsName"

definition DeactivateService :: "'z op_ctx_scheme crud \<Rightarrow> string \<Rightarrow> bool list
    \<Rightarrow> ('z op_ctx_scheme, pool_service option \<times> err) comp" where
  "DeactivateService cr i idIsName = UpdateService cr i [(''active'', VBool False)] idIsName"

end
