(* ===== verification/Pool_Api.thy ===== *)
theory Pool_Api
  imports Api_Endpoint Pool
begin

text \<open>
  The API of pools (\<^verbatim>\<open>src/pkg/pool/pool_api\<close>): its operations, its messages and the service that serves them
  with a controller of pools. The service works with any controller; the one of \<open>Pool\<close> over a CRUD is one of them.
\<close>

section \<open>The interface of controllers\<close>

record 's pool_controller =
  pc_AddPool :: "pool \<Rightarrow> ('s, pool option \<times> err) comp"
  pc_FindPool :: "string \<Rightarrow> bool list \<Rightarrow> ('s, pool option \<times> err) comp"
  pc_UpdatePool :: "string \<Rightarrow> fields \<Rightarrow> bool list \<Rightarrow> ('s, pool option \<times> err) comp"
  pc_DeletePool :: "string \<Rightarrow> bool list \<Rightarrow> ('s, err) comp"
  pc_GetPools :: "db_filter option \<Rightarrow> ('s, (pool list \<times> int) \<times> err) comp"
  pc_AddService :: "pool_service \<Rightarrow> ('s, pool_service option \<times> err) comp"
  pc_FindService :: "string \<Rightarrow> bool list \<Rightarrow> ('s, pool_service option \<times> err) comp"
  pc_UpdateService :: "string \<Rightarrow> fields \<Rightarrow> bool list \<Rightarrow> ('s, pool_service option \<times> err) comp"
  pc_DeleteService :: "string \<Rightarrow> bool list \<Rightarrow> ('s, err) comp"
  pc_GetServices :: "db_filter option \<Rightarrow> ('s, (pool_service list \<times> int) \<times> err) comp"
  pc_AddServiceToPool :: "string \<Rightarrow> string \<Rightarrow> string \<Rightarrow> bool list \<Rightarrow> ('s, err) comp"
  pc_RemoveServiceFromPool :: "string \<Rightarrow> string \<Rightarrow> bool list \<Rightarrow> ('s, err) comp"
  pc_RemoveAllServicesFromPool :: "string \<Rightarrow> bool list \<Rightarrow> ('s, err) comp"
  pc_RemoveServiceFromAllPools :: "string \<Rightarrow> bool list \<Rightarrow> ('s, err) comp"
  pc_GetPoolBindings :: "string \<Rightarrow> bool list \<Rightarrow> ('s, binding list \<times> err) comp"
  pc_GetServiceBindings :: "string \<Rightarrow> bool list \<Rightarrow> ('s, binding list \<times> err) comp"

definition NewPoolController :: "'z op_ctx_scheme crud \<Rightarrow> 'z op_ctx_scheme pool_controller" where
  "NewPoolController cr =
     \<lparr>pc_AddPool = AddPool cr, pc_FindPool = FindPool cr, pc_UpdatePool = UpdatePool cr, pc_DeletePool = DeletePool cr,
      pc_GetPools = GetPools cr, pc_AddService = AddService cr, pc_FindService = FindService cr,
      pc_UpdateService = UpdateService cr, pc_DeleteService = DeleteService cr, pc_GetServices = GetServices cr,
      pc_AddServiceToPool = AddServiceToPool cr, pc_RemoveServiceFromPool = RemoveServiceFromPool cr,
      pc_RemoveAllServicesFromPool = RemoveAllServicesFromPool cr,
      pc_RemoveServiceFromAllPools = RemoveServiceFromAllPools cr,
      pc_GetPoolBindings = GetPoolBindings cr, pc_GetServiceBindings = GetServiceBindings cr\<rparr>"

section \<open>Operations\<close>

definition pool_UpdateService :: operation where "pool_UpdateService = op_UpdatePartial ''update_service''"
definition pool_UpdatePool :: operation where "pool_UpdatePool = op_UpdatePartial ''update_pool''"
definition pool_RemoveServiceFromPool :: operation where
  "pool_RemoveServiceFromPool = op_Unbind ''remove_service_from_pool''"
definition pool_RemoveServiceFromAllPools :: operation where
  "pool_RemoveServiceFromAllPools = op_Unbind ''remove_service_from_all_pools''"
definition pool_RemoveAllServicesFromPool :: operation where
  "pool_RemoveAllServicesFromPool = op_Unbind ''remove_all_services_from_pool''"
definition pool_ListServices :: operation where "pool_ListServices = op_List ''list_services''"
definition pool_ListServicePools :: operation where "pool_ListServicePools = op_List ''list_service_pools''"
definition pool_FindService :: operation where "pool_FindService = op_Find ''find_service''"
definition pool_FindPool :: operation where "pool_FindPool = op_Find ''find_pool''"
definition pool_DeleteService :: operation where "pool_DeleteService = op_Delete ''delete_service''"
definition pool_DeletePool :: operation where "pool_DeletePool = op_Delete ''delete_pool''"
definition pool_AddService :: operation where "pool_AddService = op_Add ''add_service''"
definition pool_AddServiceToPool :: operation where "pool_AddServiceToPool = op_Bind ''add_service_to_pool''"
definition pool_AddPool :: operation where "pool_AddPool = op_Add ''add_pool''"
definition pool_ListPools :: operation where "pool_ListPools = op_List ''list_pools''"
definition pool_ListPoolServices :: operation where "pool_ListPoolServices = op_List ''list_pool_services''"

lemmas pool_operations = pool_UpdateService_def pool_UpdatePool_def pool_RemoveServiceFromPool_def
  pool_RemoveServiceFromAllPools_def pool_RemoveAllServicesFromPool_def pool_ListServices_def pool_ListServicePools_def
  pool_FindService_def pool_FindPool_def pool_DeleteService_def pool_DeletePool_def pool_AddService_def
  pool_AddServiceToPool_def pool_AddPool_def pool_ListPools_def pool_ListPoolServices_def

section \<open>Messages\<close>

text \<open>The names of the values in JSON are those of the columns but for the role of a binding.\<close>

definition NewService :: pool_service where
  "NewService = row_service []"

definition PoolResponse :: "pool \<Rightarrow> fields" where
  "PoolResponse p = pool_row p"

definition ServiceResponse :: "pool_service \<Rightarrow> fields" where
  "ServiceResponse s = service_row s"

definition binding_json :: "binding \<Rightarrow> fields" where
  "binding_json b =
     [(''id'', VStr (obj_id b)), (''created_at'', VTime (created_at b)), (''updated_at'', VTime (updated_at b)),
      (''type'', VStr (bd_ROLE b))] @ service_data_row (bd_data b) @
     [(''pool_id'', VStr (bd_PoolId b)), (''pool_name'', VStr (bd_PoolName b)),
      (''service_id'', VStr (bd_ServiceId b)), (''service_name'', VStr (bd_ServiceName b))]"

record association_cmd =
  ac_ROLE :: string
  ac_SERVICE_ID :: string

record pool_codecs =
  pq_Pool :: "pool codec"
  pq_Service :: "pool_service codec"
  pq_Update :: "fields codec"
  pq_Association :: "association_cmd codec"
  pq_PoolData :: "gval map_validator"
  pq_ServiceData :: "gval map_validator"

section \<open>Endpoints of pools\<close>

text \<open>A call field is given a message and an error, which is returned.\<close>

definition failed :: "nat \<Rightarrow> string \<Rightarrow> err \<Rightarrow> ('z op_ctx_scheme, err) comp" where
  "failed c msg e = do { SetMessage c msg; SetError c e }"

text \<open>The type assertion of a result to its structure panics on nil.\<close>

definition respond :: "api_env \<Rightarrow> operation \<Rightarrow> ('a \<Rightarrow> fields) \<Rightarrow> 'a option \<Rightarrow> ('z api_request_scheme, err) comp" where
  "respond en op json r = (case r of
     None \<Rightarrow> go_panic None
   | Some x \<Rightarrow> do { Api_SetMessage en op (json x); ret None })"

type_synonym 's pool_handler = "api_env \<Rightarrow> pool_codecs \<Rightarrow> 's pool_controller \<Rightarrow> operation \<Rightarrow> ('s, err) comp"

definition AddPool_Handle :: "'z api_request_scheme pool_handler" where
  "AddPool_Handle en cds pc op = traced ''pool.AddPool'' [] (\<lambda>c. do {
     (cmd, e) \<leftarrow> ParseValidate en op (pq_Pool cds) NewPool;
     (if e \<noteq> None then do { SetMessage c ''failed to parse/validate command''; ret e }
      else do {
        (p, e) \<leftarrow> pc_AddPool pc cmd;
        (if e \<noteq> None then failed c ''failed to add pool'' e else respond en op PoolResponse p) }) })"

definition FindPool_Handle :: "'z api_request_scheme pool_handler" where
  "FindPool_Handle en cds pc op = traced ''pool.FindPool'' [] (\<lambda>c. do {
     i \<leftarrow> gets (GetResourceId ''pool'');
     (p, e) \<leftarrow> pc_FindPool pc i [];
     (if e \<noteq> None then failed c ''failed to find pool'' e else respond en op PoolResponse p) })"

definition ListPools_Handle :: "'z api_request_scheme pool_handler" where
  "ListPools_Handle en cds pc op = traced ''pool.ListPools'' [] (\<lambda>c. do {
     r \<leftarrow> op_Resource op;
     (flt, e) \<leftarrow> ParseDbQuery en op ''PoolBase'' (servicePathPrototype (ae_resources en ! r));
     (if e \<noteq> None then SetError c e
      else do {
        ((items, count), e) \<leftarrow> pc_GetPools pc flt;
        (if e \<noteq> None then SetError c e
         else do {
           SetResponseList en op count (map (\<lambda>p. (obj_id p, VMap (pool_row p))) items) [];
           ret None }) }) })"

text \<open>
  The fields of an update are validated as a whole. A failed validation sets the generic error and returns the
  error within it, which may be nil.
\<close>

definition refuse_fields :: "nat \<Rightarrow> validation_failure \<Rightarrow> ('z op_ctx_scheme, err) comp" where
  "refuse_fields c v = do {
     SetMessage c ''failed to validate fields'';
     SetGenericError (Some (ValidationError_GenericError v)) [];
     SetError c (ve_Err v) }"

definition UpdatePool_Handle :: "'z api_request_scheme pool_handler" where
  "UpdatePool_Handle en cds pc op = traced ''pool.UpdatePool'' [] (\<lambda>c. do {
     (fs, e) \<leftarrow> ParseValidate en op (pq_Update cds) [];
     (if e \<noteq> None then failed c ''failed to parse/validate command'' e
      else case ValidateMap (pq_PoolData cds) fs [] of
        Some v \<Rightarrow> refuse_fields c v
      | None \<Rightarrow> do {
          i \<leftarrow> gets (GetResourceId ''pool'');
          (p, e) \<leftarrow> pc_UpdatePool pc i fs [];
          (if e \<noteq> None then failed c ''failed to update pool'' e
           else if p = None then do {
             SetGenericErrorCode ErrorCodePoolNotFound [];
             SetError c (errors_New ''pool not found'') }
           else respond en op PoolResponse p) }) })"

definition DeletePool_Handle :: "'z api_request_scheme pool_handler" where
  "DeletePool_Handle en cds pc op = traced ''pool.DeletePool'' [] (\<lambda>c. do {
     i \<leftarrow> gets (GetResourceId ''pool'');
     e \<leftarrow> pc_DeletePool pc i [];
     (if e \<noteq> None then failed c ''failed to delete pool'' e else ret None) })"

section \<open>Endpoints of services\<close>

definition AddService_Handle :: "'z api_request_scheme pool_handler" where
  "AddService_Handle en cds pc op = traced ''pool.AddService'' [] (\<lambda>c. do {
     (cmd, e) \<leftarrow> ParseValidate en op (pq_Service cds) NewService;
     (if e \<noteq> None then do { SetMessage c ''failed to parse/validate command''; ret e }
      else do {
        (s, e) \<leftarrow> pc_AddService pc cmd;
        (if e \<noteq> None then failed c ''failed to add service'' e else respond en op ServiceResponse s) }) })"

definition FindService_Handle :: "'z api_request_scheme pool_handler" where
  "FindService_Handle en cds pc op = traced ''pool.FindService'' [] (\<lambda>c. do {
     i \<leftarrow> gets (GetResourceId ''service'');
     (s, e) \<leftarrow> pc_FindService pc i [];
     (if e \<noteq> None then failed c ''failed to find service'' e
      else if s = None then do {
        SetGenericErrorCode ErrorCodeServiceNotFound [];
        SetError c (errors_New ''service not found'') }
      else respond en op ServiceResponse s) })"

definition ListServices_Handle :: "'z api_request_scheme pool_handler" where
  "ListServices_Handle en cds pc op = traced ''pool.ListServices'' [] (\<lambda>c. do {
     r \<leftarrow> op_Resource op;
     (flt, e) \<leftarrow> ParseDbQuery en op ''PoolServiceBase'' (servicePathPrototype (ae_resources en ! r));
     (if e \<noteq> None then SetError c e
      else do {
        ((items, count), e) \<leftarrow> pc_GetServices pc flt;
        (if e \<noteq> None then SetError c e
         else do {
           SetResponseList en op count (map (\<lambda>s. (obj_id s, VMap (service_row s))) items) [];
           ret None }) }) })"

definition UpdateService_Handle :: "'z api_request_scheme pool_handler" where
  "UpdateService_Handle en cds pc op = traced ''pool.UpdateService'' [] (\<lambda>c. do {
     (fs, e) \<leftarrow> ParseValidate en op (pq_Update cds) [];
     (if e \<noteq> None then failed c ''failed to parse/validate command'' e
      else case ValidateMap (pq_ServiceData cds) fs [] of
        Some v \<Rightarrow> refuse_fields c v
      | None \<Rightarrow> do {
          i \<leftarrow> gets (GetResourceId ''service'');
          (s, e) \<leftarrow> pc_UpdateService pc i fs [];
          (if e \<noteq> None then failed c ''failed to update service'' e else respond en op ServiceResponse s) }) })"

definition DeleteService_Handle :: "'z api_request_scheme pool_handler" where
  "DeleteService_Handle en cds pc op = traced ''pool.DeleteService'' [] (\<lambda>c. do {
     i \<leftarrow> gets (GetResourceId ''service'');
     e \<leftarrow> pc_DeleteService pc i [];
     (if e \<noteq> None then failed c ''failed to delete service'' e else ret None) })"

section \<open>Endpoints of bindings\<close>

definition ListPoolServices_Handle :: "'z api_request_scheme pool_handler" where
  "ListPoolServices_Handle en cds pc op = traced ''pool.ListPoolServices'' [] (\<lambda>c. do {
     i \<leftarrow> gets (GetResourceId ''pool'');
     (items, e) \<leftarrow> pc_GetPoolBindings pc i [];
     (if e \<noteq> None then failed c ''failed to get service bindings'' e
      else do {
        Api_SetMessage en op (ResponseList 0 (map (\<lambda>b. VMap (binding_json b)) items) []);
        ret None }) })"

definition ListServicePools_Handle :: "'z api_request_scheme pool_handler" where
  "ListServicePools_Handle en cds pc op = traced ''pool.ListServicePools'' [] (\<lambda>c. do {
     i \<leftarrow> gets (GetResourceId ''service'');
     (items, e) \<leftarrow> pc_GetServiceBindings pc i [];
     (if e \<noteq> None then failed c ''failed to get service bindings'' e
      else do {
        Api_SetMessage en op (ResponseList 0 (map (\<lambda>b. VMap (binding_json b)) items) []);
        ret None }) })"

definition AddServiceToPool_Handle :: "'z api_request_scheme pool_handler" where
  "AddServiceToPool_Handle en cds pc op = traced ''pool.AddServiceToPool'' [] (\<lambda>c. do {
     (cmd, e) \<leftarrow> ParseValidate en op (pq_Association cds) \<lparr>ac_ROLE = [], ac_SERVICE_ID = []\<rparr>;
     (if e \<noteq> None then do { SetMessage c ''failed to parse/validate command''; ret e }
      else do {
        i \<leftarrow> gets (GetResourceId ''pool'');
        e \<leftarrow> pc_AddServiceToPool pc i (ac_SERVICE_ID cmd) (ac_ROLE cmd) [];
        (if e \<noteq> None then failed c ''failed to add service to pool'' e else ret None) }) })"

definition RemoveServiceFromPool_Handle :: "'z api_request_scheme pool_handler" where
  "RemoveServiceFromPool_Handle en cds pc op = traced ''pool.RemoveServiceToPool'' [] (\<lambda>c. do {
     i \<leftarrow> gets (GetResourceId ''pool'');
     role \<leftarrow> gets (GetResourceId ''role'');
     e \<leftarrow> pc_RemoveServiceFromPool pc i role [];
     (if e \<noteq> None then failed c ''failed to remove service from pool'' e else ret None) })"

definition RemoveAllServicesFromPool_Handle :: "'z api_request_scheme pool_handler" where
  "RemoveAllServicesFromPool_Handle en cds pc op = traced ''pool.RemoveAllServicesFromPool'' [] (\<lambda>c. do {
     i \<leftarrow> gets (GetResourceId ''pool'');
     e \<leftarrow> pc_RemoveAllServicesFromPool pc i [];
     (if e \<noteq> None then failed c ''failed to remove services from pool'' e else ret None) })"

definition RemoveServiceFromAllPools_Handle :: "'z api_request_scheme pool_handler" where
  "RemoveServiceFromAllPools_Handle en cds pc op = traced ''pool.RemoveServiceFromAllPools'' [] (\<lambda>c. do {
     i \<leftarrow> gets (GetResourceId ''service'');
     e \<leftarrow> pc_RemoveServiceFromAllPools pc i [];
     (if e \<noteq> None then failed c ''failed to remove services from all pools'' e else ret None) })"

section \<open>The service\<close>

text \<open>An endpoint embeds its operation and has no errors of its own; the service has those of the pools.\<close>

definition pool_handlers :: "(operation \<times> ('z api_request_scheme) pool_handler) list" where
  "pool_handlers =
     [(pool_AddPool, AddPool_Handle), (pool_ListPools, ListPools_Handle), (pool_FindPool, FindPool_Handle),
      (pool_UpdatePool, UpdatePool_Handle), (pool_DeletePool, DeletePool_Handle),
      (pool_ListPoolServices, ListPoolServices_Handle), (pool_AddServiceToPool, AddServiceToPool_Handle),
      (pool_RemoveAllServicesFromPool, RemoveAllServicesFromPool_Handle),
      (pool_RemoveServiceFromPool, RemoveServiceFromPool_Handle),
      (pool_AddService, AddService_Handle), (pool_ListServices, ListServices_Handle),
      (pool_FindService, FindService_Handle), (pool_UpdateService, UpdateService_Handle),
      (pool_DeleteService, DeleteService_Handle), (pool_ListServicePools, ListServicePools_Handle),
      (pool_RemoveServiceFromAllPools, RemoveServiceFromAllPools_Handle)]"

definition PoolEndpoint :: "api_env \<Rightarrow> pool_codecs \<Rightarrow> ('z api_request_scheme) pool_controller \<Rightarrow> operation
    \<Rightarrow> ('z api_request_scheme) endpoint option" where
  "PoolEndpoint en cds pc op =
     map_option (\<lambda>handle. \<lparr>ep_operation = op, ep_errors = \<lparr>errorDescriptions = None, errorProtocolCodes = None\<rparr>,
         ep_HandleRequest = handle en cds pc op\<rparr>)
       (map_of pool_handlers (op\<lparr>op_resource := None\<rparr>))"

definition pool_errors :: errors_extender where
  "pool_errors = \<lparr>errorDescriptions = Some pool_ErrorDescriptions, errorProtocolCodes = Some pool_ErrorHttpCodes\<rparr>"

record pool_resources =
  pr_Service :: nat
  pr_PoolsResource :: "nat option"
  pr_PoolResource :: nat
  pr_ServicesResource :: "nat option"
  pr_ServiceResource :: nat

text \<open>The collection of a named resource is its parent, which is always there.\<close>

definition with_collection :: "nat option \<Rightarrow> (nat \<Rightarrow> resources \<Rightarrow> resources) \<Rightarrow> resources \<Rightarrow> resources" where
  "with_collection r f h = (case r of None \<Rightarrow> h | Some x \<Rightarrow> f x h)"

definition add_pool_resources :: "(string \<Rightarrow> resources \<Rightarrow> nat \<times> resources) \<Rightarrow> resources \<Rightarrow> pool_resources \<times> resources" where
  "add_pool_resources init h =
     (let ((serviceName, pools, pool), h) = PrepareCollectionAndNameResource ''pool'' h;
          (service, h) = init serviceName h;
          h = with_collection pools (\<lambda>x. AddChild x [] service) h;
          ((_, services, serv), h) = PrepareCollectionAndNameResource ''service'' h;
          h = with_collection services (\<lambda>x. AddChild x [] service) h in
      (\<lparr>pr_Service = service, pr_PoolsResource = pools, pr_PoolResource = pool,
        pr_ServicesResource = services, pr_ServiceResource = serv\<rparr>, h))"

definition NewPoolService :: "resources \<Rightarrow> pool_resources \<times> resources" where
  "NewPoolService h =
     (let (s, h) = add_pool_resources ServiceBase_Init h;
          h = with_collection (pr_PoolsResource s) (AddOperations [pool_AddPool, pool_ListPools]) h;
          h = AddOperation pool_FindPool [True] (pr_PoolResource s) h;
          h = AddOperations [pool_UpdatePool, pool_DeletePool] (pr_PoolResource s) h;
          (poolServices, h) = NewResource ''service'' [] h;
          h = AddOperations [pool_ListPoolServices, pool_AddServiceToPool, pool_RemoveAllServicesFromPool] poolServices h;
          h = AddChild poolServices [] (pr_PoolResource s) h;
          (poolService, h) = NamedResource ''role'' h;
          h = AddOperation pool_RemoveServiceFromPool [] poolService h;
          h = AddChild poolService [] poolServices h;
          h = with_collection (pr_ServicesResource s) (AddOperations [pool_AddService, pool_ListServices]) h;
          h = AddOperation pool_FindService [True] (pr_ServiceResource s) h;
          h = AddOperations [pool_UpdateService, pool_DeleteService] (pr_ServiceResource s) h;
          (servicePools, h) = NewResource ''pool'' [] h;
          h = AddOperations [pool_ListServicePools, pool_RemoveServiceFromAllPools] servicePools h;
          h = AddChild servicePools [] (pr_ServiceResource s) h in
      (s, h))"

end
