(* ===== verification/Api_Client.thy ===== *)
theory Api_Client
  imports Resource_Tree Auth_Methods
begin

text \<open>
  The API client (\<^verbatim>\<open>src/pkg/api/api_client\<close> and \<^verbatim>\<open>rest_api_client\<close>): requests that carry the tokens of the
  client, the exchange of a login, the confirmation by SMS, the operations that are run on a server, and the
  client that is to reconnect by itself.

  The network and the server behind it are one parameter, a function from the requests sent so far, the last of
  them included, to the answer: nothing is assumed of it, so the answers may be any. JSON and the encoding of
  queries are parameters too. Names of HTTP headers are compared without case; they are kept in lower case.
\<close>

section \<open>State\<close>

type_synonym http_headers = "(string \<times> string) list"

record resp_error =
  re_Code :: string
  re_Message :: string
  re_Details :: string

record http_response =
  hr_Code :: int
  hr_Header :: http_headers
  hr_Body :: "string option"
  hr_serverError :: "resp_error option"

record http_call =
  hc_Method :: string
  hc_Url :: string
  hc_Query :: string
  hc_Headers :: http_headers
  hc_Body :: "string option"

record rest_client =
  cl_BaseUrl :: string
  cl_UserAgent :: string
  cl_AccessToken :: string
  cl_RefreshToken :: string
  cl_CsrfToken :: string

text \<open>
  \<open>sent\<close> are the requests that have gone out, \<open>decoded\<close> is what was decoded into the object that the caller
  passed for the response, \<open>ctx_tenancy\<close> the tenancy of the context.
\<close>

record client_ctx = op_ctx +
  rest :: rest_client
  sent :: "http_call list"
  decoded :: "gval option"
  ctx_tenancy :: "tenancy option"

record http_lib =
  hl_NewRequest :: "string \<Rightarrow> string \<Rightarrow> err"
  hl_Do :: "http_call list \<Rightarrow> goerror + http_response"
  hl_Marshal :: "gval option \<Rightarrow> goerror + string"
  hl_Unmarshal :: "string \<Rightarrow> goerror + gval"
  hl_UnmarshalError :: "string \<Rightarrow> goerror + resp_error"
  hl_QueryValues :: "gval \<Rightarrow> goerror + string"

text \<open>A response that is nil is \<open>None\<close>; calling a method on it panics.\<close>

type_synonym response = "http_response option"
type_synonym 's do_request = "string \<Rightarrow> string \<Rightarrow> gval option \<Rightarrow> http_headers list \<Rightarrow> ('s, response \<times> err) comp"

record 's senders =
  SendWithBody :: "'s do_request"
  SendWithQuery :: "'s do_request"

section \<open>Responses\<close>

definition NewResponse :: "http_response \<Rightarrow> http_response" where
  "NewResponse raw = raw\<lparr>hr_serverError := None\<rparr>"

definition ToLower :: "string \<Rightarrow> string" where
  "ToLower s = map to_lower s"

definition Header_Get :: "http_response \<Rightarrow> string \<Rightarrow> string" where
  "Header_Get resp key = (case map_get (hr_Header resp) (ToLower key) of None \<Rightarrow> [] | Some v \<Rightarrow> v)"

definition Response_Body :: "http_response \<Rightarrow> string option" where
  "Response_Body resp = hr_Body resp"

definition IsResponseOK :: "response \<Rightarrow> err \<Rightarrow> bool" where
  "IsResponseOK resp e \<longleftrightarrow> e = None \<and> (case resp of None \<Rightarrow> False | Some r \<Rightarrow> hr_Code r < StatusBadRequest)"

definition ResponseGenericError :: "resp_error option \<Rightarrow> err" where
  "ResponseGenericError re = (case re of
     None \<Rightarrow> None
   | Some r \<Rightarrow> Some (SetDetails_err (New (re_Code r) [re_Message r]) (re_Details r)))"

definition fillResponseError :: "http_lib \<Rightarrow> http_response \<Rightarrow> goerror + http_response" where
  "fillResponseError lib resp = (case Response_Body resp of
     None \<Rightarrow> Inr resp
   | Some b \<Rightarrow> (case hl_UnmarshalError lib b of
       Inl e \<Rightarrow> Inl e
     | Inr errResp \<Rightarrow> Inr (resp\<lparr>hr_serverError := Some errResp\<rparr>)))"

text \<open>\<^verbatim>\<open>resp.Error().Code\<close>: the error of a response is nil unless the response was refused and its body decoded.\<close>

definition Error_Code :: "http_response \<Rightarrow> ('z sys_scheme, string) comp" where
  "Error_Code resp = (case hr_serverError resp of None \<Rightarrow> go_panic [] | Some re \<Rightarrow> ret (re_Code re))"

section \<open>Sending\<close>

definition HttpHeadersSet :: "http_call \<Rightarrow> http_headers list \<Rightarrow> http_call" where
  "HttpHeadersSet req headers =
     (if length headers > 0
      then foldl (\<lambda>req (k, v). req\<lparr>hc_Headers := map_set (hc_Headers req) (ToLower k) v\<rparr>) req (headers ! 0)
      else req)"

definition SendRawRequest :: "http_lib \<Rightarrow> http_call \<Rightarrow> ('z client_ctx_scheme, http_response option \<times> err) comp" where
  "SendRawRequest lib req =
     traced ''http_request.Send'' [[(''url'', VStr (hc_Url req)), (''method'', VStr (hc_Method req))]] (\<lambda>c. do {
       modifys (\<lambda>s. s\<lparr>sent := sent s @ [req]\<rparr>);
       answer \<leftarrow> gets (\<lambda>s. hl_Do lib (sent s));
       (case answer of
          Inl e \<Rightarrow> do { e \<leftarrow> SetError c (Some e); ret (None, e) }
        | Inr resp \<Rightarrow> ret (Some resp, None)) })"

definition new_call :: "string \<Rightarrow> string \<Rightarrow> string option \<Rightarrow> http_headers \<Rightarrow> http_call" where
  "new_call meth url body hs =
     \<lparr>hc_Method = meth, hc_Url = url, hc_Query = [], hc_Headers = hs, hc_Body = body\<rparr>"

definition finish_send :: "http_lib \<Rightarrow> nat \<Rightarrow> http_call \<Rightarrow> ('z client_ctx_scheme, (response \<times> err) \<times> err) comp" where
  "finish_send lib c req = do {
     (rawResp, e) \<leftarrow> SendRawRequest lib req;
     (if e \<noteq> None then do {
        SetMessage c ''failed to send request'';
        e \<leftarrow> SetError c e;
        ret ((None, e), e) }
      else ret ((map_option NewResponse rawResp, None), None)) }"

definition DefaultSendWithBody :: "http_lib \<Rightarrow> 'z client_ctx_scheme do_request" where
  "DefaultSendWithBody lib meth url cmd headers =
     traced_err ''http_request.DefaultSendWithBody'' [[(''method'', VStr meth), (''url'', VStr url)]] (\<lambda>c.
       case hl_Marshal lib cmd of
         Inl e \<Rightarrow> do { SetMessage c ''failed to marshal message''; e \<leftarrow> SetError c (Some e); ret ((None, e), e) }
       | Inr cmdByte \<Rightarrow> (case hl_NewRequest lib meth url of
           Some e \<Rightarrow> do { SetMessage c ''failed to create request''; e \<leftarrow> SetError c (Some e); ret ((None, e), e) }
         | None \<Rightarrow>
             let req = new_call meth url (Some cmdByte) [(''content-type'', ''application/json''), (''accept'', ''application/json'')]
             in finish_send lib c (HttpHeadersSet req headers)))"

text \<open>In the second function the error of the query is another variable than the one the deferred function reads.\<close>

definition DefaultSendWithQuery :: "http_lib \<Rightarrow> 'z client_ctx_scheme do_request" where
  "DefaultSendWithQuery lib meth url cmd headers =
     traced_err ''http_request.DefaultSendWithQuery'' [[(''method'', VStr meth), (''url'', VStr url)]] (\<lambda>c.
       case hl_NewRequest lib meth url of
         Some e \<Rightarrow> do { SetMessage c ''failed to create request''; e \<leftarrow> SetError c (Some e); ret ((None, e), e) }
       | None \<Rightarrow>
           (let req = new_call meth url None []; query = (case cmd of None \<Rightarrow> Inr [] | Some v \<Rightarrow> hl_QueryValues lib v) in
            case query of
              Inl e \<Rightarrow> do { SetMessage c ''failed to build query''; e \<leftarrow> SetError c (Some e); ret ((None, e), None) }
            | Inr q \<Rightarrow>
                let req = req\<lparr>hc_Query := q, hc_Headers := map_set (hc_Headers req) ''accept'' ''application/json''\<rparr>
                in finish_send lib c (HttpHeadersSet req headers)))"

definition default_senders :: "http_lib \<Rightarrow> 'z client_ctx_scheme senders" where
  "default_senders lib = \<lparr>SendWithBody = DefaultSendWithBody lib, SendWithQuery = DefaultSendWithQuery lib\<rparr>"

definition Rest_Init :: "string \<Rightarrow> string \<Rightarrow> ('z client_ctx_scheme, unit) comp" where
  "Rest_Init baseUrl userAgent = modifys (\<lambda>s. s\<lparr>rest := (rest s)\<lparr>cl_BaseUrl := baseUrl, cl_UserAgent := userAgent\<rparr>\<rparr>)"

definition Rest_SetRefreshToken :: "string \<Rightarrow> ('z client_ctx_scheme, unit) comp" where
  "Rest_SetRefreshToken token = modifys (\<lambda>s. s\<lparr>rest := (rest s)\<lparr>cl_RefreshToken := token\<rparr>\<rparr>)"

definition Rest_Url :: "rest_client \<Rightarrow> string \<Rightarrow> string" where
  "Rest_Url r path = ConcatStrings [cl_BaseUrl r, path]"

section \<open>Requests with the tokens of the client\<close>

definition addTokens :: "rest_client \<Rightarrow> http_headers list \<Rightarrow> http_headers" where
  "addTokens r headers =
     (let h = [];
          h = (if cl_AccessToken r \<noteq> [] then map_set h ''x-auth-access-token'' (cl_AccessToken r) else h);
          h = (if cl_CsrfToken r \<noteq> [] then map_set h ''x-csrf'' (cl_CsrfToken r) else h) in
      if length headers > 0 then AppendMap h (headers ! 0) else h)"

definition updated_tokens :: "http_response \<Rightarrow> rest_client \<Rightarrow> rest_client" where
  "updated_tokens resp r =
     (let accessToken = Header_Get resp ''x-auth-access-token'';
          r = (if accessToken \<noteq> [] then r\<lparr>cl_AccessToken := accessToken\<rparr> else r);
          refreshToken = Header_Get resp ''x-auth-refresh-token'';
          r = (if refreshToken \<noteq> [] then r\<lparr>cl_RefreshToken := refreshToken\<rparr> else r);
          csrfToken = Header_Get resp ''x-csrf'' in
      if csrfToken \<noteq> [] then r\<lparr>cl_CsrfToken := csrfToken\<rparr> else r)"

definition updateTokens :: "http_response \<Rightarrow> ('z client_ctx_scheme, unit) comp" where
  "updateTokens resp = modifys (\<lambda>s. s\<lparr>rest := updated_tokens resp (rest s)\<rparr>)"

text \<open>\<open>response\<close> says whether the caller wants the body decoded.\<close>

definition read_response :: "http_lib \<Rightarrow> nat \<Rightarrow> bool \<Rightarrow> http_response \<Rightarrow> ('z client_ctx_scheme, response \<times> err) comp" where
  "read_response lib c response resp =
     (if hr_Code resp < StatusBadRequest then
        (if response then
           (case Response_Body resp of
              None \<Rightarrow> do { e \<leftarrow> SetError c (errors_New ''failed to parse empty response''); ret (None, e) }
            | Some b \<Rightarrow>
                if length b = 0 then do { e \<leftarrow> SetError c (errors_New ''failed to parse empty response''); ret (None, e) }
                else (case hl_Unmarshal lib b of
                  Inl e \<Rightarrow> do { e \<leftarrow> SetError c (errors_New ''failed to parse response message''); ret (None, e) }
                | Inr v \<Rightarrow> do { modifys (\<lambda>s. s\<lparr>decoded := Some v\<rparr>); ret (Some resp, None) }))
         else ret (Some resp, None))
      else (case fillResponseError lib resp of
        Inl e \<Rightarrow> do {
          SetMessage c ''failed to parse response error'';
          e \<leftarrow> SetError c (Some e);
          ret (Some resp, e) }
      | Inr resp \<Rightarrow> do {
          SetGenericError (ResponseGenericError (hr_serverError resp)) [];
          ret (Some resp, None) }))"

definition sendRequest :: "http_lib \<Rightarrow> 'z client_ctx_scheme do_request \<Rightarrow> string \<Rightarrow> string \<Rightarrow> gval option \<Rightarrow> bool
    \<Rightarrow> http_headers list \<Rightarrow> ('z client_ctx_scheme, response \<times> err) comp" where
  "sendRequest lib send meth path cmd response headers =
     traced ''RestApiClientBase.sendRequest'' [[(''method'', VStr meth), (''path'', VStr path)]] (\<lambda>c. do {
       r \<leftarrow> gets rest;
       let hs = addTokens r headers;
       let hs = (if cl_UserAgent r \<noteq> [] then map_set hs ''User-Agent'' (cl_UserAgent r) else hs);
       (resp, e) \<leftarrow> send meth (Rest_Url r path) cmd [hs];
       (if e \<noteq> None then do {
          SetMessage c ''failed to send request'';
          e \<leftarrow> SetError c e;
          ret (None, e) }
        else case resp of
          None \<Rightarrow> go_panic (None, None)
        | Some resp \<Rightarrow> do { updateTokens resp; read_response lib c response resp }) })"

definition RequestBody :: "http_lib \<Rightarrow> 'z client_ctx_scheme senders \<Rightarrow> string \<Rightarrow> string \<Rightarrow> gval option \<Rightarrow> bool
    \<Rightarrow> http_headers list \<Rightarrow> ('z client_ctx_scheme, response \<times> err) comp" where
  "RequestBody lib sd meth path cmd response headers = sendRequest lib (SendWithBody sd) meth path cmd response headers"

definition RequestQuery :: "http_lib \<Rightarrow> 'z client_ctx_scheme senders \<Rightarrow> string \<Rightarrow> string \<Rightarrow> gval option \<Rightarrow> bool
    \<Rightarrow> http_headers list \<Rightarrow> ('z client_ctx_scheme, response \<times> err) comp" where
  "RequestQuery lib sd meth path cmd response headers = sendRequest lib (SendWithQuery sd) meth path cmd response headers"

type_synonym 's rest_method = "string \<Rightarrow> gval option \<Rightarrow> bool \<Rightarrow> http_headers list \<Rightarrow> ('s, response \<times> err) comp"

definition Rest_Post :: "http_lib \<Rightarrow> 'z client_ctx_scheme senders \<Rightarrow> 'z client_ctx_scheme rest_method" where
  "Rest_Post lib sd path cmd response headers = RequestBody lib sd ''POST'' path cmd response headers"

definition Rest_Put :: "http_lib \<Rightarrow> 'z client_ctx_scheme senders \<Rightarrow> 'z client_ctx_scheme rest_method" where
  "Rest_Put lib sd path cmd response headers = RequestBody lib sd ''PUT'' path cmd response headers"

definition Rest_Patch :: "http_lib \<Rightarrow> 'z client_ctx_scheme senders \<Rightarrow> 'z client_ctx_scheme rest_method" where
  "Rest_Patch lib sd path cmd response headers = RequestBody lib sd ''PATCH'' path cmd response headers"

definition Rest_Get :: "http_lib \<Rightarrow> 'z client_ctx_scheme senders \<Rightarrow> 'z client_ctx_scheme rest_method" where
  "Rest_Get lib sd path cmd response headers = RequestQuery lib sd ''GET'' path cmd response headers"

definition Rest_Delete :: "http_lib \<Rightarrow> 'z client_ctx_scheme senders \<Rightarrow> 'z client_ctx_scheme rest_method" where
  "Rest_Delete lib sd path cmd response headers = RequestQuery lib sd ''DELETE'' path cmd response headers"

section \<open>The session of the client\<close>

text \<open>What \<^verbatim>\<open>Login\<close>, \<^verbatim>\<open>UpdateCsrfToken\<close> and \<^verbatim>\<open>RequestRefreshToken\<close> do with their last response.\<close>

definition expect_ok :: "nat \<Rightarrow> string \<Rightarrow> response \<Rightarrow> ('z client_ctx_scheme, response \<times> err) comp" where
  "expect_ok c msg resp = (case resp of
     None \<Rightarrow> go_panic (None, None)
   | Some resp \<Rightarrow>
       if hr_Code resp \<noteq> StatusOK then do {
         code \<leftarrow> Error_Code resp;
         SetCallField c ''error_code'' (VStr code);
         ret (Some resp, errors_New msg) }
       else ret (Some resp, None))"

text \<open>The second step of \<^verbatim>\<open>Login\<close>.\<close>

definition login_second :: "http_lib \<Rightarrow> 'z client_ctx_scheme senders \<Rightarrow> nat \<Rightarrow> string \<Rightarrow> http_headers
    \<Rightarrow> ('z client_ctx_scheme, (response \<times> err) \<times> err) comp" where
  "login_second lib sd c path headers = do {
     (resp, e) \<leftarrow> Rest_Post lib sd path None False [headers];
     (if e \<noteq> None then do { SetMessage c ''failed to send second request''; ret ((None, e), e) }
      else do {
        (resp, e) \<leftarrow> expect_ok c ''login failed'' resp;
        ret ((resp, e), e) }) }"

definition Rest_Login :: "http_lib \<Rightarrow> crypto \<Rightarrow> 'z client_ctx_scheme senders \<Rightarrow> string \<Rightarrow> string
    \<Rightarrow> ('z client_ctx_scheme, response \<times> err) comp" where
  "Rest_Login lib cr sd user password = traced_err ''RestApiClientBase.Login'' [[(''user'', VStr user)]] (\<lambda>c. do {
     let path = ''/auth/login'';
     let headers = [(''x-auth-login'', user)];
     (resp, e) \<leftarrow> Rest_Post lib sd path None False [headers];
     (if e \<noteq> None then do { SetMessage c ''failed to send first request''; ret ((None, e), e) }
      else case resp of
        None \<Rightarrow> go_panic ((None, None), None)
      | Some resp \<Rightarrow> do {
          code \<leftarrow> Error_Code resp;
          (if code \<noteq> ErrorCodeCredentialsRequired then do {
             SetCallField c ''error_code'' (VStr code);
             ret ((Some resp, errors_New ''unexpected error code''), errors_New ''unexpected error code'') }
           else do {
             let salt = Header_Get resp ''x-auth-login-salt'';
             let phash = Phash cr password salt;
             let headers = map_set headers ''x-auth-login-phash'' phash;
             login_second lib sd c path headers }) }) })"

definition SendSmsConfirmation :: "http_lib \<Rightarrow> 'z client_ctx_scheme do_request \<Rightarrow> http_response \<Rightarrow> string \<Rightarrow> string \<Rightarrow> string
    \<Rightarrow> gval option \<Rightarrow> http_headers list \<Rightarrow> ('z client_ctx_scheme, response \<times> err) comp" where
  "SendSmsConfirmation lib send resp code meth path cmd headers =
     traced ''RestApiClientBase.SendSmsConfirmation'' [] (\<lambda>c. do {
       r \<leftarrow> gets rest;
       let hs = map_set (addTokens r headers) ''x-auth-sms-code'' code;
       let token = Header_Get resp ''x-auth-sms-token'';
       let hs = (if token \<noteq> [] then map_set hs ''x-auth-sms-token'' token else hs);
       (nextResp, e) \<leftarrow> sendRequest lib send meth path cmd False [hs];
       (if e \<noteq> None then do { e \<leftarrow> SetError c e; ret (None, e) } else ret (nextResp, None)) })"

definition Rest_Logout :: "http_lib \<Rightarrow> 'z client_ctx_scheme senders \<Rightarrow> ('z client_ctx_scheme, response \<times> err) comp" where
  "Rest_Logout lib sd = traced ''RestApiClientBase.Logout'' [] (\<lambda>c. do {
     (resp, e) \<leftarrow> Rest_Post lib sd ''/auth/logout'' None False [];
     (if e \<noteq> None then do { e \<leftarrow> SetError c e; ret (None, e) } else ret (resp, None)) })"

definition UpdateCsrfToken :: "http_lib \<Rightarrow> 'z client_ctx_scheme senders \<Rightarrow> ('z client_ctx_scheme, response \<times> err) comp" where
  "UpdateCsrfToken lib sd = traced ''RestApiClientBase.UpdateCsrfToken'' [] (\<lambda>c. do {
     (resp, e) \<leftarrow> Rest_Get lib sd ''/status/check'' None False [];
     (if e \<noteq> None then do { e \<leftarrow> SetError c e; ret (None, e) }
      else expect_ok c ''failed to update CSRF'' resp) })"

definition RequestRefreshToken :: "http_lib \<Rightarrow> 'z client_ctx_scheme senders \<Rightarrow> ('z client_ctx_scheme, response \<times> err) comp" where
  "RequestRefreshToken lib sd = traced ''RestApiClientBase.RequestRefreshToken'' [] (\<lambda>c. do {
     token \<leftarrow> gets (\<lambda>s. cl_RefreshToken (rest s));
     (resp, e) \<leftarrow> Rest_Post lib sd ''/auth/refresh'' None False [[(''x-auth-refresh-token'', token)]];
     (if e \<noteq> None then do { e \<leftarrow> SetError c e; ret (None, e) }
      else expect_ok c ''failed to update CSRF'' resp) })"

definition UpdateTokens :: "http_lib \<Rightarrow> 'z client_ctx_scheme senders \<Rightarrow> ('z client_ctx_scheme, response \<times> err) comp" where
  "UpdateTokens lib sd = traced ''RestApiClientBase.UpdateTokens'' [] (\<lambda>c. do {
     (resp, e) \<leftarrow> UpdateCsrfToken lib sd;
     (if e \<noteq> None then do { e \<leftarrow> SetError c e; ret (resp, e) }
      else do {
        (resp, e) \<leftarrow> RequestRefreshToken lib sd;
        (if e \<noteq> None then do { e \<leftarrow> SetError c e; ret (resp, e) } else ret (resp, None)) }) })"

definition Prepare :: "http_lib \<Rightarrow> 'z client_ctx_scheme senders \<Rightarrow> ('z client_ctx_scheme, response \<times> err) comp" where
  "Prepare lib sd = UpdateCsrfToken lib sd"

section \<open>Operations\<close>

definition client_methods :: "http_lib \<Rightarrow> 'z client_ctx_scheme senders \<Rightarrow> (AccessType \<times> 'z client_ctx_scheme rest_method) list" where
  "client_methods lib sd =
     foldl (\<lambda>m (meth, f). map_set m (HttpMethod2Access meth) f) []
       [(''POST'', Rest_Post lib sd), (''PUT'', Rest_Put lib sd), (''PATCH'', Rest_Patch lib sd),
        (''GET'', Rest_Get lib sd), (''DELETE'', Rest_Delete lib sd)]"

text \<open>The path of an operation; \<open>None\<close> where the code panics.\<close>

definition operation_path :: "resources \<Rightarrow> operation \<Rightarrow> string list \<Rightarrow> string option" where
  "operation_path h op tenancyId = (case op_resource op of
     None \<Rightarrow> None
   | Some r \<Rightarrow> if length tenancyId = 0 then Some (fullActualPath (h ! r)) else FullActualTenancyPath (tenancyId ! 0) r h)"

definition invoke_method :: "nat \<Rightarrow> ('z client_ctx_scheme, response \<times> err) comp \<Rightarrow> ('z client_ctx_scheme, err) comp" where
  "invoke_method c meth = do {
     (resp, e) \<leftarrow> meth;
     (if e \<noteq> None then do { SetMessage c ''failed to invoke HTTP method''; SetError c e }
      else case resp of
        None \<Rightarrow> go_panic None
      | Some resp \<Rightarrow> (case ResponseGenericError (hr_serverError resp) of
          None \<Rightarrow> ret None
        | Some ge \<Rightarrow> do {
            SetCallField c ''response_code'' (VStr (err_code ge));
            SetCallField c ''response_message'' (VStr (err_message ge));
            SetCallField c ''response_details'' (VStr (err_details ge));
            SetMessage c ''server returned error'';
            SetError c (Some ge) })) }"

definition Client_Exec :: "http_lib \<Rightarrow> 'z client_ctx_scheme senders \<Rightarrow> resources \<Rightarrow> operation \<Rightarrow> gval option \<Rightarrow> bool
    \<Rightarrow> string list \<Rightarrow> ('z client_ctx_scheme, err) comp" where
  "Client_Exec lib sd h op cmd response tenancyId = traced ''Client.Exec'' [] (\<lambda>c.
     case map_get (client_methods lib sd) (op_accessType op) of
       None \<Rightarrow> do {
         SetCallField c ''access_type'' (VUint (unat (op_accessType op)));
         SetError c (Some (NewFromMessage ''access type not supported'')) }
     | Some meth \<Rightarrow> (case operation_path h op tenancyId of
         None \<Rightarrow> go_panic None
       | Some path \<Rightarrow> invoke_method c (meth path cmd response [])))"

type_synonym 's api_client = "operation \<Rightarrow> gval option \<Rightarrow> bool \<Rightarrow> string list \<Rightarrow> ('s, err) comp"

definition exec_traced :: "string \<Rightarrow> ('z op_ctx_scheme, err) comp \<Rightarrow> ('z op_ctx_scheme, err) comp" where
  "exec_traced name m = traced name [] (\<lambda>c. do { e \<leftarrow> m; SetError c e; ret e })"

definition Handler_Exec :: "gval \<Rightarrow> 'z op_ctx_scheme api_client \<Rightarrow> operation \<Rightarrow> ('z op_ctx_scheme, err) comp" where
  "Handler_Exec cmd client op = exec_traced ''Handler.Exec'' (client op (Some cmd) True [])"

definition HandlerCmd_Exec :: "gval \<Rightarrow> 'z op_ctx_scheme api_client \<Rightarrow> operation \<Rightarrow> ('z op_ctx_scheme, err) comp" where
  "HandlerCmd_Exec cmd client op = exec_traced ''Handler.Exec'' (client op (Some cmd) False [])"

definition HandlerResult_Exec :: "'z op_ctx_scheme api_client \<Rightarrow> operation \<Rightarrow> ('z op_ctx_scheme, err) comp" where
  "HandlerResult_Exec client op = exec_traced ''Handler.Exec'' (client op None True [])"

definition HandlerNil_Exec :: "'z op_ctx_scheme api_client \<Rightarrow> operation \<Rightarrow> ('z op_ctx_scheme, err) comp" where
  "HandlerNil_Exec client op = exec_traced ''Handler.Exec'' (client op None False [])"

text \<open>The same in a tenancy, whose identifier, empty without a tenancy, is passed to the client.\<close>

definition client_tenancy :: "'z client_ctx_scheme \<Rightarrow> string" where
  "client_tenancy s = (case ctx_tenancy s of None \<Rightarrow> [] | Some t \<Rightarrow> t_id t)"

definition exec_in_tenancy :: "gval option \<Rightarrow> bool \<Rightarrow> 'z client_ctx_scheme api_client \<Rightarrow> operation \<Rightarrow> ('z client_ctx_scheme, err) comp" where
  "exec_in_tenancy cmd result client op = exec_traced ''HandlerInTenancy.Exec'' (do {
     i \<leftarrow> gets client_tenancy;
     client op cmd result [i] })"

definition HandlerInTenancy_Exec :: "gval \<Rightarrow> 'z client_ctx_scheme api_client \<Rightarrow> operation \<Rightarrow> ('z client_ctx_scheme, err) comp" where
  "HandlerInTenancy_Exec cmd client op = exec_in_tenancy (Some cmd) True client op"

definition HandlerInTenancyCmd_Exec :: "gval \<Rightarrow> 'z client_ctx_scheme api_client \<Rightarrow> operation \<Rightarrow> ('z client_ctx_scheme, err) comp" where
  "HandlerInTenancyCmd_Exec cmd client op = exec_in_tenancy (Some cmd) False client op"

definition HandlerInTenancyResult_Exec :: "'z client_ctx_scheme api_client \<Rightarrow> operation \<Rightarrow> ('z client_ctx_scheme, err) comp" where
  "HandlerInTenancyResult_Exec client op = exec_in_tenancy None True client op"

definition HandlerInTenancyNil_Exec :: "'z client_ctx_scheme api_client \<Rightarrow> operation \<Rightarrow> ('z client_ctx_scheme, err) comp" where
  "HandlerInTenancyNil_Exec client op = exec_in_tenancy None False client op"

definition MakeOperationHandler :: "'c \<Rightarrow> ('c \<Rightarrow> operation \<Rightarrow> ('s, err) comp) \<Rightarrow> operation \<Rightarrow> ('s, err) comp" where
  "MakeOperationHandler client clientOperation op = clientOperation client op"

definition ServiceClient_Init :: "string \<Rightarrow> resources \<Rightarrow> nat \<times> resources" where
  "ServiceClient_Init serviceName h = NewResource serviceName [zero_config\<lparr>rc_Service := True\<rparr>] h"

section \<open>Reconnecting\<close>

record 's reconnect_handlers =
  rh_GetRefreshToken :: "('s, string) comp"
  rh_SaveRefreshToken :: "string \<Rightarrow> ('s, unit) comp"
  rh_GetCredentials :: "('s, (string \<times> string) \<times> err) comp"

definition out_of_fuel :: "response \<times> err" where
  "out_of_fuel = (None, errors_New ''out of fuel'')"

text \<open>
  \<^verbatim>\<open>checkResponse\<close> and \<^verbatim>\<open>resend\<close> call each other, and the client that they use sends through them again: the
  fuel counts the resends, and the client has senders with less fuel. The variable \<^verbatim>\<open>err\<close> that the deferred
  function reads is shadowed everywhere and stays nil.
\<close>

fun checkResponse :: "http_lib \<Rightarrow> crypto \<Rightarrow> 'z client_ctx_scheme reconnect_handlers \<Rightarrow> 'z client_ctx_scheme senders
    \<Rightarrow> ('z client_ctx_scheme, response \<times> err) comp \<Rightarrow> nat \<Rightarrow> response \<Rightarrow> err \<Rightarrow> ('z client_ctx_scheme, response \<times> err) comp" where
  "checkResponse lib cr rh sd send 0 lastResp lastErr = ret out_of_fuel"
| "checkResponse lib cr rh sd send (Suc n) lastResp lastErr =
     traced_err ''autoReconnect.checkResponse'' [] (\<lambda>c.
       let resend = do { (resp, e) \<leftarrow> send; checkResponse lib cr rh sd send n resp e } in
       case lastResp of
         None \<Rightarrow> ret ((lastResp, lastErr), None)
       | Some lr \<Rightarrow> do {
           code \<leftarrow> Error_Code lr;
           (if IsCsrfError code then do {
              (resp, e) \<leftarrow> UpdateCsrfToken lib sd;
              (if \<not> IsResponseOK resp e then ret ((resp, e), None)
               else do { r \<leftarrow> resend; ret (r, None) }) }
            else do {
              r \<leftarrow> gets rest;
              (if cl_RefreshToken r = [] \<or> ReloginRequired code \<or> code = ErrorCodeLoginFailed then do {
                 ((login, password), e) \<leftarrow> rh_GetCredentials rh;
                 (if e \<noteq> None then do { SetMessage c ''failed to get credentials''; ret ((lastResp, e), None) }
                  else do {
                    UpdateCsrfToken lib sd;
                    (resp, e) \<leftarrow> Rest_Login lib cr sd login password;
                    (if resp = None then do { SetMessage c ''nil login response''; ret ((None, e), None) }
                     else do {
                       token \<leftarrow> gets (\<lambda>s. cl_RefreshToken (rest s));
                       rh_SaveRefreshToken rh token;
                       r \<leftarrow> resend;
                       ret (r, None) }) }) }
               else if cl_AccessToken r = [] \<or> RefreshRequired code then do {
                 (resp, e) \<leftarrow> RequestRefreshToken lib sd;
                 (if \<not> IsResponseOK resp e then ret ((resp, e), None)
                  else do {
                    token \<leftarrow> gets (\<lambda>s. cl_RefreshToken (rest s));
                    rh_SaveRefreshToken rh token;
                    r \<leftarrow> resend;
                    ret (r, None) }) }
               else ret ((lastResp, lastErr), None)) }) })"

fun reconnect_senders :: "http_lib \<Rightarrow> crypto \<Rightarrow> 'z client_ctx_scheme reconnect_handlers \<Rightarrow> nat \<Rightarrow> 'z client_ctx_scheme senders" where
  "reconnect_senders lib cr rh 0 =
     \<lparr>SendWithBody = (\<lambda>_ _ _ _. ret out_of_fuel), SendWithQuery = (\<lambda>_ _ _ _. ret out_of_fuel)\<rparr>"
| "reconnect_senders lib cr rh (Suc n) =
     \<lparr>SendWithBody = (\<lambda>meth url cmd headers. do {
        (resp, e) \<leftarrow> DefaultSendWithBody lib meth url cmd headers;
        checkResponse lib cr rh (reconnect_senders lib cr rh n) (DefaultSendWithBody lib meth url cmd headers) (Suc n) resp e }),
      SendWithQuery = (\<lambda>meth url cmd headers. do {
        (resp, e) \<leftarrow> DefaultSendWithQuery lib meth url cmd headers;
        checkResponse lib cr rh (reconnect_senders lib cr rh n) (DefaultSendWithQuery lib meth url cmd headers) (Suc n) resp e })\<rparr>"

definition autoReconnect_init :: "'z client_ctx_scheme reconnect_handlers \<Rightarrow> ('z client_ctx_scheme, unit) comp" where
  "autoReconnect_init rh = do {
     token \<leftarrow> rh_GetRefreshToken rh;
     (if token \<noteq> [] then modifys (\<lambda>s. s\<lparr>rest := (rest s)\<lparr>cl_RefreshToken := token\<rparr>\<rparr>) else ret ()) }"

text \<open>The handlers of a client within an application: the token is kept in the cache of the application.\<close>

record embedded_config =
  TOKEN_CACHE_KEY :: string
  ec_LOGIN :: string
  ec_PASSWORD :: string

definition token_keeper :: "string \<Rightarrow> gval" where
  "token_keeper token = VMap [(''token'', VStr token)]"

definition Embedded_GetRefreshToken :: "ttlcache \<Rightarrow> serializer \<Rightarrow> embedded_config \<Rightarrow> ('z op_ctx_scheme, string) comp" where
  "Embedded_GetRefreshToken tc ser cfg = do {
     (found, tokenKeeper, e) \<leftarrow> Cache_Get tc ser (TOKEN_CACHE_KEY cfg);
     (if found \<and> e \<noteq> None then ret (msg_str tokenKeeper ''token'')
      else do {
        Log LogWarn ''client refresh token not found in cache'' None [];
        ret [] }) }"

definition Embedded_SaveRefreshToken :: "ttlcache \<Rightarrow> serializer \<Rightarrow> embedded_config \<Rightarrow> string \<Rightarrow> ('z op_ctx_scheme, unit) comp" where
  "Embedded_SaveRefreshToken tc ser cfg token = do {
     e \<leftarrow> Cache_Set tc ser (TOKEN_CACHE_KEY cfg) (token_keeper token) [];
     (if e \<noteq> None then Log LogError ''failed to save client refresh token in cache'' e [] else ret ()) }"

definition Embedded_GetCredentials :: "embedded_config \<Rightarrow> ('s, (string \<times> string) \<times> err) comp" where
  "Embedded_GetCredentials cfg = ret ((ec_LOGIN cfg, ec_PASSWORD cfg), None)"

definition EmbeddedClientHandlers :: "ttlcache \<Rightarrow> serializer \<Rightarrow> embedded_config \<Rightarrow> 'z op_ctx_scheme reconnect_handlers" where
  "EmbeddedClientHandlers tc ser cfg =
     \<lparr>rh_GetRefreshToken = Embedded_GetRefreshToken tc ser cfg, rh_SaveRefreshToken = Embedded_SaveRefreshToken tc ser cfg,
      rh_GetCredentials = Embedded_GetCredentials cfg\<rparr>"

definition Embedded_InitDirect :: "string \<Rightarrow> string \<Rightarrow> string \<Rightarrow> embedded_config" where
  "Embedded_InitDirect login password tokenCacheKey =
     \<lparr>TOKEN_CACHE_KEY = tokenCacheKey, ec_LOGIN = login, ec_PASSWORD = password\<rparr>"

text \<open>The handlers that ask at the console and keep the token in a file; reading, writing and asking are parameters.\<close>

record 's console =
  cn_ReadFile :: "('s, goerror + string) comp"
  cn_WriteFile :: "string \<Rightarrow> ('s, err) comp"
  cn_ReadLogin :: "('s, goerror + string) comp"
  cn_ReadPassword :: "('s, goerror + string) comp"

definition TrimSuffix :: "string \<Rightarrow> string \<Rightarrow> string" where
  "TrimSuffix s suffix =
     (if length suffix \<le> length s \<and> drop (length s - length suffix) s = suffix then take (length s - length suffix) s else s)"

definition Interactive_GetRefreshToken :: "'z op_ctx_scheme console \<Rightarrow> serializer \<Rightarrow> ('z op_ctx_scheme, string) comp" where
  "Interactive_GetRefreshToken cn ser = do {
     content \<leftarrow> cn_ReadFile cn;
     (case content of
        Inl e \<Rightarrow> do {
          Log LogWarn ''failed to read refresh token from file'' None [[(''error'', err_val (Some e))]];
          ret [] }
      | Inr b \<Rightarrow> (case ParseMessage ser b of
          Inl e \<Rightarrow> do {
            Log LogWarn ''failed to unarshal refresh token from file'' None [[(''error'', err_val (Some e))]];
            ret [] }
        | Inr tokenKeeper \<Rightarrow> ret (msg_str tokenKeeper ''token''))) }"

text \<open>When the token cannot be serialised, an empty file is written.\<close>

definition Interactive_SaveRefreshToken :: "'z op_ctx_scheme console \<Rightarrow> serializer \<Rightarrow> string \<Rightarrow> ('z op_ctx_scheme, unit) comp" where
  "Interactive_SaveRefreshToken cn ser token = traced ''InteractiveClientHandlers.SaveRefreshToken'' [] (\<lambda>c. do {
     content \<leftarrow> (case SerializeMessage ser (token_keeper token) of
       Inl e \<Rightarrow> do { Log LogError ''failed to marshal refresh token'' (Some e) []; ret [] }
     | Inr b \<Rightarrow> ret b);
     e \<leftarrow> cn_WriteFile cn content;
     (if e \<noteq> None then Log LogError ''failed to save refresh token to file'' e [] else ret ()) })"

definition Interactive_GetCredentials :: "'z op_ctx_scheme console \<Rightarrow> ('z op_ctx_scheme, (string \<times> string) \<times> err) comp" where
  "Interactive_GetCredentials cn = traced ''InteractiveClientHandlers.GetCredentials'' [] (\<lambda>c. do {
     login \<leftarrow> cn_ReadLogin cn;
     (case login of
        Inl e \<Rightarrow> do { SetMessage c ''failed to enter login''; e \<leftarrow> SetError c (Some e); ret (([], []), e) }
      | Inr login \<Rightarrow> do {
          password \<leftarrow> cn_ReadPassword cn;
          (case password of
             Inl e \<Rightarrow> do { SetMessage c ''failed to enter password''; e \<leftarrow> SetError c (Some e); ret (([], []), e) }
           | Inr password \<Rightarrow> ret ((TrimSuffix login [CHR 0x0A], password), None)) }) })"

end
