(* ===== verification/Pool_Client.thy ===== *)
theory Pool_Client
  imports Pool_Api Api_Client
begin

text \<open>
  The client of the API of pools (\<^verbatim>\<open>src/pkg/pool/pool_api/pool_client\<close>): the interface of a controller whose
  operations are requests to a server. Every operation finds the identifiers it needs, makes the resource of its
  path, which is garbage afterwards, and executes its operation on it.
\<close>

section \<open>The client\<close>

text \<open>
  \<open>pl_Client\<close> is the API client with the store in which it finds the resource of the operation; the decoders are those
  of JSON for the types of the responses.
\<close>

record 's pool_client =
  pl_resources :: resources
  pl_ids :: pool_resources
  pl_add_pool :: operation
  pl_add_service :: operation
  pl_list_pools :: operation
  pl_list_services :: operation
  pl_Client :: "resources \<Rightarrow> 's api_client"
  pl_ToQueryString :: "db_filter \<Rightarrow> string"
  pl_Pool :: "gval \<Rightarrow> pool option"
  pl_Pools :: "gval \<Rightarrow> pool list \<times> int"
  pl_Service :: "gval \<Rightarrow> pool_service option"
  pl_Services :: "gval \<Rightarrow> pool_service list \<times> int"
  pl_Bindings :: "gval \<Rightarrow> binding list"

definition on_resource :: "operation \<Rightarrow> nat option \<Rightarrow> operation" where
  "on_resource op r = op\<lparr>op_resource := r\<rparr>"

definition NewPoolClient :: "(resources \<Rightarrow> 's api_client) \<Rightarrow> resources \<Rightarrow> pool_resources \<times> resources" where
  "NewPoolClient client h =
     (let (c, h) = add_pool_resources ServiceClient_Init h;
          h = with_collection (pr_PoolsResource c) (AddOperations [pool_AddPool, pool_ListPools]) h;
          h = with_collection (pr_ServicesResource c) (AddOperations [pool_AddService, pool_ListServices]) h in
      (c, h))"

definition make_pool_client :: "(resources \<Rightarrow> 's api_client) \<Rightarrow> (db_filter \<Rightarrow> string) \<Rightarrow> (gval \<Rightarrow> pool option)
    \<Rightarrow> (gval \<Rightarrow> pool list \<times> int) \<Rightarrow> (gval \<Rightarrow> pool_service option) \<Rightarrow> (gval \<Rightarrow> pool_service list \<times> int) \<Rightarrow> (gval \<Rightarrow> binding list)
    \<Rightarrow> 's pool_client" where
  "make_pool_client client to_query pool pools service services bindings =
     (case NewPoolClient client [] of (c, h) \<Rightarrow>
       \<lparr>pl_resources = h, pl_ids = c, pl_add_pool = on_resource pool_AddPool (pr_PoolsResource c),
        pl_add_service = on_resource pool_AddService (pr_ServicesResource c),
        pl_list_pools = on_resource pool_ListPools (pr_PoolsResource c),
        pl_list_services = on_resource pool_ListServices (pr_ServicesResource c),
        pl_Client = client, pl_ToQueryString = to_query, pl_Pool = pool, pl_Pools = pools, pl_Service = service,
        pl_Services = services, pl_Bindings = bindings\<rparr>)"

section \<open>Resources of operations\<close>

definition namedPoolResource :: "pool_resources \<Rightarrow> string \<Rightarrow> resources \<Rightarrow> nat \<times> resources" where
  "namedPoolResource p poolId h =
     (let (poolResource, h) = CloneChain False (pr_PoolResource p) h in (poolResource, SetId poolId [] poolResource h))"

definition namedServiceResource :: "pool_resources \<Rightarrow> string \<Rightarrow> resources \<Rightarrow> nat \<times> resources" where
  "namedServiceResource p serviceId h =
     (let (serviceResource, h) = CloneChain False (pr_ServiceResource p) h in
      (serviceResource, SetId serviceId [] serviceResource h))"

definition resourceForPoolServices :: "pool_resources \<Rightarrow> string \<Rightarrow> resources \<Rightarrow> nat \<times> resources" where
  "resourceForPoolServices p poolId h =
     (let (poolResource, h) = namedPoolResource p poolId h;
          (servicesResource, h) = NewResource ''service'' [] h in
      (servicesResource, AddChild servicesResource [] poolResource h))"

definition resourceForServicePools :: "pool_resources \<Rightarrow> string \<Rightarrow> resources \<Rightarrow> nat \<times> resources" where
  "resourceForServicePools p serviceId h =
     (let (serviceResource, h) = namedServiceResource p serviceId h;
          (poolsResource, h) = NewResource ''pool'' [] h in
      (poolsResource, AddChild poolsResource [] serviceResource h))"

text \<open>The resource with the role of a service in a pool.\<close>

definition resourceForRole :: "pool_resources \<Rightarrow> string \<Rightarrow> string \<Rightarrow> resources \<Rightarrow> nat \<times> resources" where
  "resourceForRole p poolId role h =
     (let (poolServiceResource, h) = resourceForPoolServices p poolId h;
          (roleResource, h) = NamedResource ''role'' h;
          h = AddChild roleResource [] poolServiceResource h in
      (roleResource, SetId role [] roleResource h))"

section \<open>Running operations\<close>

text \<open>\<^verbatim>\<open>Exec\<close> of the handlers of the operations: they differ in name, command and response.\<close>

definition client_handler :: "string \<Rightarrow> gval option \<Rightarrow> bool \<Rightarrow> 'z client_ctx_scheme api_client \<Rightarrow> operation
    \<Rightarrow> ('z client_ctx_scheme, err) comp" where
  "client_handler name cmd response client op = exec_traced name (client op cmd response [])"

definition exec_on :: "'z client_ctx_scheme pool_client \<Rightarrow> string \<Rightarrow> gval option \<Rightarrow> bool \<Rightarrow> resources \<Rightarrow> operation
    \<Rightarrow> ('z client_ctx_scheme, err) comp" where
  "exec_on p name cmd response h op =
     Operation_Exec op (MakeOperationHandler (pl_Client p h) (client_handler name cmd response))"

text \<open>An operation with a result, which is a new object: what was decoded into it, nil when nothing was.\<close>

definition client_result :: "nat \<Rightarrow> ('z client_ctx_scheme, err) comp \<Rightarrow> 'a \<Rightarrow> (gval \<Rightarrow> 'a)
    \<Rightarrow> ('z client_ctx_scheme, ('a \<times> err) \<times> err) comp" where
  "client_result c run nothing decode = do {
     modifys (\<lambda>s. s\<lparr>decoded := None\<rparr>);
     e \<leftarrow> run;
     (if e \<noteq> None then do { SetMessage c ''failed to exec operation''; ret ((nothing, e), e) }
      else do {
        v \<leftarrow> gets decoded;
        ret ((case v of None \<Rightarrow> nothing | Some v \<Rightarrow> decode v, None), None) }) }"

definition client_done :: "nat \<Rightarrow> ('z client_ctx_scheme, err) comp \<Rightarrow> ('z client_ctx_scheme, err \<times> err) comp" where
  "client_done c run = do {
     e \<leftarrow> run;
     (if e \<noteq> None then do { SetMessage c ''failed to exec operation''; ret (e, e) } else ret (None, None)) }"

text \<open>An operation on the named resource, as \<^verbatim>\<open>NamedResourceOperation\<close> makes it.\<close>

definition exec_named :: "'z client_ctx_scheme pool_client \<Rightarrow> string \<Rightarrow> gval option \<Rightarrow> bool \<Rightarrow> nat \<Rightarrow> string \<Rightarrow> operation
    \<Rightarrow> ('z client_ctx_scheme, err) comp" where
  "exec_named p name cmd response sample i op =
     (case NamedResourceOperation sample i op (pl_resources p) of (r, h) \<Rightarrow>
        exec_on p name cmd response h (on_resource op (Some r)))"

definition exec_at :: "'z client_ctx_scheme pool_client \<Rightarrow> string \<Rightarrow> gval option \<Rightarrow> bool
    \<Rightarrow> (resources \<Rightarrow> nat \<times> resources) \<Rightarrow> operation \<Rightarrow> ('z client_ctx_scheme, err) comp" where
  "exec_at p name cmd response build op =
     (case build (pl_resources p) of (r, h) \<Rightarrow>
        exec_on p name cmd response (AddOperation op [] r h) (on_resource op (Some r)))"

definition db_query_cmd :: "string \<Rightarrow> gval" where
  "db_query_cmd q = VMap [(''query'', VStr q)]"

definition UpdateCmd :: "fields \<Rightarrow> gval" where
  "UpdateCmd fs = VMap [(''field'', VMap fs)]"

section \<open>Lists and identifiers\<close>

definition Client_GetPools :: "'z client_ctx_scheme pool_client \<Rightarrow> db_filter option
    \<Rightarrow> ('z client_ctx_scheme, (pool list \<times> int) \<times> err) comp" where
  "Client_GetPools p flt = traced_err ''PoolClient.GetPools'' [] (\<lambda>c.
     client_result c (exec_on p ''ListPools.Exec'' (Some (db_query_cmd (NewDbQuery (pl_ToQueryString p) flt))) True
       (pl_resources p) (pl_list_pools p)) ([], 0) (pl_Pools p))"

definition Client_GetServices :: "'z client_ctx_scheme pool_client \<Rightarrow> db_filter option
    \<Rightarrow> ('z client_ctx_scheme, (pool_service list \<times> int) \<times> err) comp" where
  "Client_GetServices p flt = traced_err ''PoolClient.GetServices'' [] (\<lambda>c.
     client_result c (exec_on p ''ListServices.Exec'' (Some (db_query_cmd (NewDbQuery (pl_ToQueryString p) flt))) True
       (pl_resources p) (pl_list_services p)) ([], 0) (pl_Services p))"

definition client_poolId :: "'z client_ctx_scheme pool_client \<Rightarrow> string \<Rightarrow> bool list
    \<Rightarrow> ('z client_ctx_scheme, (string \<times> pool option) \<times> err) comp" where
  "client_poolId p i idIsName = traced ''PoolClient.serviceId'' [] (\<lambda>c.
     if \<not> OptionalArg False idIsName then ret ((i, None), None)
     else do {
       ((xs, _), e) \<leftarrow> Client_GetPools p (Some (AddField ''name'' (VStr i) NewFilter));
       (if e \<noteq> None then do { e \<leftarrow> SetError c e; ret (([], None), e) }
        else case xs of
          [] \<Rightarrow> do {
            SetGenericErrorCode ErrorCodePoolNotFound [];
            e \<leftarrow> SetError c (errors_New ''pool not found'');
            ret (([], None), e) }
        | x # _ \<Rightarrow> ret ((obj_id x, Some x), None)) })"

definition client_serviceId :: "'z client_ctx_scheme pool_client \<Rightarrow> string \<Rightarrow> bool list
    \<Rightarrow> ('z client_ctx_scheme, (string \<times> pool_service option) \<times> err) comp" where
  "client_serviceId p i idIsName = traced ''PoolClient.serviceId'' [] (\<lambda>c.
     if \<not> OptionalArg False idIsName then ret ((i, None), None)
     else do {
       ((xs, _), e) \<leftarrow> Client_GetServices p (Some (AddField ''name'' (VStr i) NewFilter));
       (if e \<noteq> None then do { e \<leftarrow> SetError c e; ret (([], None), e) }
        else case xs of
          [] \<Rightarrow> do {
            SetGenericErrorCode ErrorCodeServiceNotFound [];
            e \<leftarrow> SetError c (errors_New ''service not found'');
            ret (([], None), e) }
        | x # _ \<Rightarrow> ret ((obj_id x, Some x), None)) })"

section \<open>Pools\<close>

definition Client_AddPool :: "'z client_ctx_scheme pool_client \<Rightarrow> pool \<Rightarrow> ('z client_ctx_scheme, pool option \<times> err) comp" where
  "Client_AddPool p x = traced_err ''PoolClient.AddPool'' [] (\<lambda>c.
     client_result c (exec_on p ''AddPool.Exec'' (Some (VMap (pool_row x))) True (pl_resources p) (pl_add_pool p)) None (pl_Pool p))"

definition Client_FindPool :: "'z client_ctx_scheme pool_client \<Rightarrow> string \<Rightarrow> bool list
    \<Rightarrow> ('z client_ctx_scheme, pool option \<times> err) comp" where
  "Client_FindPool p i idIsName = traced_err ''PoolClient.FindPool'' [] (\<lambda>c. do {
     ((xId, x), e) \<leftarrow> client_poolId p i idIsName;
     (if e \<noteq> None then ret ((None, e), e)
      else if x \<noteq> None then ret ((x, None), None)
      else client_result c (exec_named p ''FindPool.Exec'' None True (pr_PoolResource (pl_ids p)) xId pool_FindPool) None (pl_Pool p)) })"

definition Client_UpdatePool :: "'z client_ctx_scheme pool_client \<Rightarrow> string \<Rightarrow> fields \<Rightarrow> bool list
    \<Rightarrow> ('z client_ctx_scheme, pool option \<times> err) comp" where
  "Client_UpdatePool p i fs idIsName = traced_err ''PoolClient.UpdatePool'' [] (\<lambda>c. do {
     ((xId, x), e) \<leftarrow> client_poolId p i idIsName;
     (if e \<noteq> None then ret ((None, e), e)
      else if OptionalArg False idIsName \<and> x = None then do {
        SetGenericErrorCode ErrorCodePoolNotFound [];
        ret ((None, errors_New ''pool not found by name''), None) }
      else client_result c (exec_named p ''UpdatePool.Exec'' (Some (UpdateCmd fs)) True (pr_PoolResource (pl_ids p)) xId pool_UpdatePool)
             None (pl_Pool p)) })"

definition Client_DeletePool :: "'z client_ctx_scheme pool_client \<Rightarrow> string \<Rightarrow> bool list \<Rightarrow> ('z client_ctx_scheme, err) comp" where
  "Client_DeletePool p i idIsName = traced_err ''PoolClient.DeletePool'' [] (\<lambda>c. do {
     ((xId, x), e) \<leftarrow> client_poolId p i idIsName;
     (if e \<noteq> None then ret (e, e)
      else if OptionalArg False idIsName \<and> x = None then ret (None, None)
      else client_done c (exec_named p ''DeletePool.Exec'' None False (pr_PoolResource (pl_ids p)) xId pool_DeletePool)) })"

section \<open>Services\<close>

definition Client_AddService :: "'z client_ctx_scheme pool_client \<Rightarrow> pool_service \<Rightarrow> ('z client_ctx_scheme, pool_service option \<times> err) comp" where
  "Client_AddService p x = traced_err ''PoolClient.AddService'' [] (\<lambda>c.
     client_result c (exec_on p ''AddService.Exec'' (Some (VMap (service_row x))) True (pl_resources p) (pl_add_service p)) None (pl_Service p))"

definition Client_FindService :: "'z client_ctx_scheme pool_client \<Rightarrow> string \<Rightarrow> bool list
    \<Rightarrow> ('z client_ctx_scheme, pool_service option \<times> err) comp" where
  "Client_FindService p i idIsName = traced_err ''PoolClient.FindService'' [] (\<lambda>c. do {
     ((xId, x), e) \<leftarrow> client_serviceId p i idIsName;
     (if e \<noteq> None then ret ((None, e), e)
      else if x \<noteq> None then ret ((x, None), None)
      else client_result c (exec_named p ''FindService.Exec'' None True (pr_ServiceResource (pl_ids p)) xId pool_FindService) None (pl_Service p)) })"

definition Client_UpdateService :: "'z client_ctx_scheme pool_client \<Rightarrow> string \<Rightarrow> fields \<Rightarrow> bool list
    \<Rightarrow> ('z client_ctx_scheme, pool_service option \<times> err) comp" where
  "Client_UpdateService p i fs idIsName = traced_err ''PoolClient.UpdateService'' [] (\<lambda>c. do {
     ((xId, x), e) \<leftarrow> client_serviceId p i idIsName;
     (if e \<noteq> None then ret ((None, e), e)
      else if OptionalArg False idIsName \<and> x = None then do {
        SetGenericErrorCode ErrorCodeServiceNotFound [];
        ret ((None, errors_New ''service not found by name''), None) }
      else client_result c (exec_named p ''UpdateService.Exec'' (Some (UpdateCmd fs)) True (pr_ServiceResource (pl_ids p)) xId pool_UpdateService)
             None (pl_Service p)) })"

definition Client_DeleteService :: "'z client_ctx_scheme pool_client \<Rightarrow> string \<Rightarrow> bool list \<Rightarrow> ('z client_ctx_scheme, err) comp" where
  "Client_DeleteService p i idIsName = traced_err ''PoolClient.DeleteService'' [] (\<lambda>c. do {
     ((xId, x), e) \<leftarrow> client_serviceId p i idIsName;
     (if e \<noteq> None then ret (e, e)
      else if OptionalArg False idIsName \<and> x = None then ret (None, None)
      else client_done c (exec_named p ''DeleteService.Exec'' None False (pr_ServiceResource (pl_ids p)) xId pool_DeleteService)) })"

section \<open>Bindings\<close>

definition Client_GetPoolBindings :: "'z client_ctx_scheme pool_client \<Rightarrow> string \<Rightarrow> bool list
    \<Rightarrow> ('z client_ctx_scheme, binding list \<times> err) comp" where
  "Client_GetPoolBindings p i idIsName = traced_err ''PoolClient.GetServiceBindings'' [] (\<lambda>c. do {
     ((pId, _), e) \<leftarrow> client_poolId p i idIsName;
     (if e \<noteq> None then ret (([], e), e)
      else client_result c (exec_at p ''ListPoolServices.Exec'' None True (resourceForPoolServices (pl_ids p) pId)
             pool_ListPoolServices) [] (pl_Bindings p)) })"

definition Client_GetServiceBindings :: "'z client_ctx_scheme pool_client \<Rightarrow> string \<Rightarrow> bool list
    \<Rightarrow> ('z client_ctx_scheme, binding list \<times> err) comp" where
  "Client_GetServiceBindings p i idIsName = traced_err ''PoolClient.GetServiceBindings'' [] (\<lambda>c. do {
     ((sId, _), e) \<leftarrow> client_serviceId p i idIsName;
     (if e \<noteq> None then ret (([], e), e)
      else client_result c (exec_at p ''ListServicePools.Exec'' None True (resourceForServicePools (pl_ids p) sId)
             pool_ListServicePools) [] (pl_Bindings p)) })"

definition association_json :: "string \<Rightarrow> string \<Rightarrow> gval" where
  "association_json role serviceId = VMap [(''type'', VStr role), (''service_id'', VStr serviceId)]"

definition Client_AddServiceToPool :: "'z client_ctx_scheme pool_client \<Rightarrow> string \<Rightarrow> string \<Rightarrow> string \<Rightarrow> bool list
    \<Rightarrow> ('z client_ctx_scheme, err) comp" where
  "Client_AddServiceToPool p poolId serviceId role idIsName = traced_err ''PoolClient.AddServiceToPool'' [] (\<lambda>c. do {
     ((pId, _), e) \<leftarrow> client_poolId p poolId idIsName;
     (if e \<noteq> None then ret (e, e)
      else do {
        ((sId, _), e) \<leftarrow> client_serviceId p serviceId idIsName;
        (if e \<noteq> None then ret (e, e)
         else client_done c (exec_at p ''AddServiceToPool.Exec'' (Some (association_json role sId)) False
                (resourceForPoolServices (pl_ids p) pId) pool_AddServiceToPool)) }) })"

definition Client_RemoveServiceFromPool :: "'z client_ctx_scheme pool_client \<Rightarrow> string \<Rightarrow> string \<Rightarrow> bool list
    \<Rightarrow> ('z client_ctx_scheme, err) comp" where
  "Client_RemoveServiceFromPool p poolId role idIsName = traced_err ''PoolClient.RemoveServiceFromPool'' [] (\<lambda>c. do {
     ((pId, _), e) \<leftarrow> client_poolId p poolId idIsName;
     (if e \<noteq> None then ret (e, e)
      else client_done c (exec_at p ''RemoveServiceFromPool.Exec'' None False (resourceForRole (pl_ids p) pId role)
             pool_RemoveServiceFromPool)) })"

definition Client_RemoveAllServicesFromPool :: "'z client_ctx_scheme pool_client \<Rightarrow> string \<Rightarrow> bool list
    \<Rightarrow> ('z client_ctx_scheme, err) comp" where
  "Client_RemoveAllServicesFromPool p i idIsName = traced_err ''PoolClient.RemoveAllServicesFromPool'' [] (\<lambda>c. do {
     ((pId, _), e) \<leftarrow> client_poolId p i idIsName;
     (if e \<noteq> None then ret (e, e)
      else client_done c (exec_at p ''ListPoolservices.Exec'' None False (resourceForPoolServices (pl_ids p) pId)
             pool_RemoveAllServicesFromPool)) })"

definition Client_RemoveServiceFromAllPools :: "'z client_ctx_scheme pool_client \<Rightarrow> string \<Rightarrow> bool list
    \<Rightarrow> ('z client_ctx_scheme, err) comp" where
  "Client_RemoveServiceFromAllPools p i idIsName = traced_err ''PoolClient.RemoveServiceFromAllPools'' [] (\<lambda>c. do {
     ((sId, _), e) \<leftarrow> client_serviceId p i idIsName;
     (if e \<noteq> None then ret (e, e)
      else client_done c (exec_at p ''RemoveServiceFromAllPools.Exec'' None False (resourceForServicePools (pl_ids p) sId)
             pool_RemoveServiceFromAllPools)) })"

definition PoolClient :: "'z client_ctx_scheme pool_client \<Rightarrow> 'z client_ctx_scheme pool_controller" where
  "PoolClient p =
     \<lparr>pc_AddPool = Client_AddPool p, pc_FindPool = Client_FindPool p, pc_UpdatePool = Client_UpdatePool p,
      pc_DeletePool = Client_DeletePool p, pc_GetPools = Client_GetPools p, pc_AddService = Client_AddService p,
      pc_FindService = Client_FindService p, pc_UpdateService = Client_UpdateService p,
      pc_DeleteService = Client_DeleteService p, pc_GetServices = Client_GetServices p,
      pc_AddServiceToPool = Client_AddServiceToPool p, pc_RemoveServiceFromPool = Client_RemoveServiceFromPool p,
      pc_RemoveAllServicesFromPool = Client_RemoveAllServicesFromPool p,
      pc_RemoveServiceFromAllPools = Client_RemoveServiceFromAllPools p,
      pc_GetPoolBindings = Client_GetPoolBindings p, pc_GetServiceBindings = Client_GetServiceBindings p\<rparr>"

end
