(* ===== verification/Client_Laws.thy ===== *)
theory Client_Laws
  imports Api_Client
begin

text \<open>
  What the API client does, whatever the network answers: which requests go out, when an operation succeeds, that
  a login sends what the login handler of the server accepts, and that the client which is to reconnect by itself
  panics as soon as it gets an answer.
\<close>

section \<open>Rules\<close>

lemma core_client [simp]:
  "rest (core s) = rest s" "sent (core s) = sent s" "decoded (core s) = decoded s" "ctx_tenancy (core s) = ctx_tenancy s"
  "core (s\<lparr>rest := r\<rparr>) = (core s)\<lparr>rest := r\<rparr>" "core (s\<lparr>sent := cs\<rparr>) = (core s)\<lparr>sent := cs\<rparr>"
  "core (s\<lparr>decoded := d\<rparr>) = (core s)\<lparr>decoded := d\<rparr>" "core (s\<lparr>ctx_tenancy := t\<rparr>) = (core s)\<lparr>ctx_tenancy := t\<rparr>"
  by (simp_all add: core_def)

lemma wpc_client_error [wpc]:
  "Q () (core (if genericError k = None \<or> e = None \<or> OptionalArg False ov then k\<lparr>genericError := e\<rparr> else k))
   \<Longrightarrow> wpc (SetGenericError e ov) Q k"
  unfolding SetGenericError_def by (rule wpc_modifys) simp_all

lemma wpc_client_sum [wpc]:
  "(\<And>x. v = Inl x \<Longrightarrow> wpc (m x) Q k) \<Longrightarrow> (\<And>y. v = Inr y \<Longrightarrow> wpc (n y) Q k) \<Longrightarrow>
   wpc (case v of Inl x \<Rightarrow> m x | Inr y \<Rightarrow> n y) Q k"
  by (cases v) auto

text \<open>One request goes out; its answer is the one of the network.\<close>

definition answer :: "http_lib \<Rightarrow> http_call \<Rightarrow> 'z client_ctx_scheme \<Rightarrow> response \<times> err" where
  "answer lib req k = (case hl_Do lib (sent k @ [req]) of
     Inl e \<Rightarrow> (None, Some e) | Inr resp \<Rightarrow> (Some (NewResponse resp), None))"

lemma wpc_finish_send [wpc]:
  assumes "Q (answer lib req k, snd (answer lib req k)) (core (k\<lparr>sent := sent k @ [req]\<rparr>))"
  shows "wpc (finish_send lib c req) Q k"
  unfolding finish_send_def SendRawRequest_def
  by (intro wpc) (use assms in \<open>auto simp: answer_def split: sum.splits\<close>)

text \<open>The request that a sender makes of its arguments, or the error that it meets before it sends anything.\<close>

definition body_call :: "http_lib \<Rightarrow> string \<Rightarrow> string \<Rightarrow> gval option \<Rightarrow> http_headers list \<Rightarrow> goerror + http_call" where
  "body_call lib meth url cmd headers = (case hl_Marshal lib cmd of
     Inl e \<Rightarrow> Inl e
   | Inr b \<Rightarrow> (case hl_NewRequest lib meth url of
       Some e \<Rightarrow> Inl e
     | None \<Rightarrow> Inr (HttpHeadersSet (new_call meth url (Some b)
         [(''content-type'', ''application/json''), (''accept'', ''application/json'')]) headers)))"

definition query_call :: "http_lib \<Rightarrow> string \<Rightarrow> string \<Rightarrow> gval option \<Rightarrow> http_headers list \<Rightarrow> goerror + http_call" where
  "query_call lib meth url cmd headers = (case hl_NewRequest lib meth url of
     Some e \<Rightarrow> Inl e
   | None \<Rightarrow> (case (case cmd of None \<Rightarrow> Inr [] | Some v \<Rightarrow> hl_QueryValues lib v) of
       Inl e \<Rightarrow> Inl e
     | Inr q \<Rightarrow> Inr (HttpHeadersSet ((new_call meth url None [(''accept'', ''application/json'')])\<lparr>hc_Query := q\<rparr>) headers)))"

definition outcome :: "http_lib \<Rightarrow> goerror + http_call \<Rightarrow> (response \<times> err \<Rightarrow> 'z client_ctx_scheme \<Rightarrow> bool) \<Rightarrow> 'z client_ctx_scheme \<Rightarrow> bool" where
  "outcome lib call Q k = (case call of
     Inl e \<Rightarrow> Q (None, Some e) (core k)
   | Inr req \<Rightarrow> Q (answer lib req k) (core (k\<lparr>sent := sent k @ [req]\<rparr>)))"

lemma wpc_DefaultSendWithBody [wpc]:
  "outcome lib (body_call lib meth url cmd headers) Q k \<Longrightarrow> wpc (DefaultSendWithBody lib meth url cmd headers) Q k"
  unfolding DefaultSendWithBody_def Let_def
  by (intro wpc) (auto simp: outcome_def body_call_def)

lemma wpc_DefaultSendWithQuery [wpc]:
  "outcome lib (query_call lib meth url cmd headers) Q k \<Longrightarrow> wpc (DefaultSendWithQuery lib meth url cmd headers) Q k"
  unfolding DefaultSendWithQuery_def Let_def
  by (intro wpc) (auto simp: outcome_def query_call_def new_call_def map_set_def)

text \<open>The headers of a request of the client, and what the client makes of an answer.\<close>

definition client_headers :: "rest_client \<Rightarrow> http_headers list \<Rightarrow> http_headers" where
  "client_headers r headers =
     (let hs = addTokens r headers in if cl_UserAgent r \<noteq> [] then map_set hs ''User-Agent'' (cl_UserAgent r) else hs)"

definition taken :: "http_lib \<Rightarrow> bool \<Rightarrow> http_response \<Rightarrow> (response \<times> err \<Rightarrow> 'z client_ctx_scheme \<Rightarrow> bool) \<Rightarrow> 'z client_ctx_scheme \<Rightarrow> bool" where
  "taken lib response resp Q k =
     (if hr_Code resp < StatusBadRequest then
        (if response then
           (case hr_Body resp of
              None \<Rightarrow> Q (None, errors_New ''failed to parse empty response'') k
            | Some b \<Rightarrow>
                if b = [] then Q (None, errors_New ''failed to parse empty response'') k
                else (case hl_Unmarshal lib b of
                  Inl e \<Rightarrow> Q (None, errors_New ''failed to parse response message'') k
                | Inr v \<Rightarrow> Q (Some resp, None) (k\<lparr>decoded := Some v\<rparr>)))
         else Q (Some resp, None) k)
      else (case fillResponseError lib resp of
        Inl e \<Rightarrow> Q (Some resp, Some e) k
      | Inr resp \<Rightarrow> let e = ResponseGenericError (hr_serverError resp) in
          Q (Some resp, None) (if genericError k = None \<or> e = None then k\<lparr>genericError := e\<rparr> else k)))"

lemma wpc_read_response [wpc]:
  "taken lib response resp Q (core k) \<Longrightarrow> wpc (read_response lib c response resp) Q k"
  unfolding read_response_def Response_Body_def
  by (intro wpc) (auto simp: taken_def Let_def split: if_splits)

definition sent_outcome :: "http_lib \<Rightarrow> goerror + http_call \<Rightarrow> bool \<Rightarrow> (response \<times> err \<Rightarrow> 'z client_ctx_scheme \<Rightarrow> bool)
    \<Rightarrow> 'z client_ctx_scheme \<Rightarrow> bool" where
  "sent_outcome lib call response Q k = outcome lib call (\<lambda>(resp, e) k'. case resp of
     None \<Rightarrow> Q (None, e) k'
   | Some resp \<Rightarrow> taken lib response resp Q (k'\<lparr>rest := updated_tokens resp (rest k')\<rparr>)) k"

lemma answer_cases:
  obtains (failed) e where "answer lib req k = (None, Some e)"
  | (answered) resp where "answer lib req k = (Some (NewResponse resp), None)" "hl_Do lib (sent k @ [req]) = Inr resp"
  by (cases "hl_Do lib (sent k @ [req])") (auto simp: answer_def)

lemma outcome_cases:
  assumes "outcome lib call Q k"
    and "\<And>r k'. core k' = k' \<Longrightarrow> Q r k' \<Longrightarrow> (\<exists>e. r = (None, Some e)) \<or> (\<exists>resp. r = (Some resp, None)) \<Longrightarrow> P r k'"
  shows "outcome lib call P k"
proof (cases call)
  case (Inl e)
  with assms show ?thesis by (simp add: outcome_def)
next
  case (Inr req)
  with assms(1) have "Q (answer lib req k) (core (k\<lparr>sent := sent k @ [req]\<rparr>))" by (simp add: outcome_def)
  then have "P (answer lib req k) (core (k\<lparr>sent := sent k @ [req]\<rparr>))"
    by (rule assms(2) [rotated]) (cases rule: answer_cases [of lib req k], simp_all)
  with Inr show ?thesis by (simp add: outcome_def)
qed

lemma wpc_sendRequest:
  assumes send: "\<And>hs Q k. outcome lib (call hs) Q k \<Longrightarrow> wpc (send meth (Rest_Url (rest k0) path) cmd [hs]) Q k"
    and "rest k = rest k0" "sent_outcome lib (call (client_headers (rest k) headers)) response Q k"
  shows "wpc (sendRequest lib send meth path cmd response headers) Q k"
  unfolding sendRequest_def Let_def
proof (intro wpc, simp, simp only: assms(2) wpc_core, rule send, rule outcome_cases)
  show "outcome lib (call (if cl_UserAgent (rest k0) \<noteq> [] then map_set (addTokens (rest k0) headers) ''User-Agent'' (cl_UserAgent (rest k0))
      else addTokens (rest k0) headers)) (\<lambda>(resp, e) k'. case resp of None \<Rightarrow> Q (None, e) k'
     | Some resp \<Rightarrow> taken lib response resp Q (k'\<lparr>rest := updated_tokens resp (rest k')\<rparr>)) k"
    using assms(2,3) by (simp add: sent_outcome_def client_headers_def Let_def)
qed (auto intro!: wpc simp: updateTokens_def)

lemma wpc_Rest_body:
  assumes "sent_outcome lib (body_call lib meth (Rest_Url (rest k) path) cmd [client_headers (rest k) headers]) response Q k"
  shows "wpc (RequestBody lib (default_senders lib) meth path cmd response headers) Q k"
  unfolding RequestBody_def
  by (rule wpc_sendRequest [where ?k0.0 = k and call = "\<lambda>hs. body_call lib meth (Rest_Url (rest k) path) cmd [hs]"])
    (use assms in \<open>simp_all add: default_senders_def wpc_DefaultSendWithBody\<close>)

lemma wpc_Rest_query:
  assumes "sent_outcome lib (query_call lib meth (Rest_Url (rest k) path) cmd [client_headers (rest k) headers]) response Q k"
  shows "wpc (RequestQuery lib (default_senders lib) meth path cmd response headers) Q k"
  unfolding RequestQuery_def
  by (rule wpc_sendRequest [where ?k0.0 = k and call = "\<lambda>hs. query_call lib meth (Rest_Url (rest k) path) cmd [hs]"])
    (use assms in \<open>simp_all add: default_senders_def wpc_DefaultSendWithQuery\<close>)

lemma wpc_Error_Code [wpc]:
  assumes "\<And>re. hr_serverError resp = Some re \<Longrightarrow> Q (re_Code re) (core k)"
    and "hr_serverError resp = None \<Longrightarrow> Q [] (core (k\<lparr>panicked := True\<rparr>))"
  shows "wpc (Error_Code resp) Q k"
  unfolding Error_Code_def by (intro wpc) (use assms in auto)

lemma wpc_expect_ok [wpc]:
  assumes "\<And>r. resp = Some r \<Longrightarrow> hr_Code r = StatusOK \<Longrightarrow> Q (Some r, None) (core k)"
    and "\<And>r k'. resp = Some r \<Longrightarrow> hr_Code r \<noteq> StatusOK \<Longrightarrow> k' = core k \<or> k' = core (k\<lparr>panicked := True\<rparr>)
      \<Longrightarrow> Q (Some r, errors_New msg) k'"
    and "resp = None \<Longrightarrow> Q (None, None) (core (k\<lparr>panicked := True\<rparr>))"
  shows "wpc (expect_ok c msg resp) Q k"
  unfolding expect_ok_def by (intro wpc) (use assms in simp_all)

section \<open>Headers\<close>

lemma lower_headers [simp]:
  "ToLower ''x-auth-access-token'' = ''x-auth-access-token''" "ToLower ''x-csrf'' = ''x-csrf''"
  "ToLower ''User-Agent'' = ''user-agent''" "ToLower ''x-auth-login'' = ''x-auth-login''"
  "ToLower ''x-auth-login-phash'' = ''x-auth-login-phash''"
  "ToLower ''x-auth-refresh-token'' = ''x-auth-refresh-token''"
  by code_simp+

lemma server_headers [simp]:
  "auth_header TokenProtocol AccessTokenName = ''x-auth-access-token''"
  "auth_header TokenProtocol RefreshTokenName = ''x-auth-refresh-token''"
  "auth_header AntiCsrfProtocol AntiCsrfTokenName = ''x-csrf''"
  "auth_header LoginProtocol LoginName = ''x-auth-login''"
  "auth_header LoginProtocol SaltName = ''x-auth-login-salt''"
  "auth_header LoginProtocol PasswordHashName = ''x-auth-login-phash''"
  by code_simp+

lemma HttpHeadersSet_simps [simp]:
  "HttpHeadersSet req [[]] = req"
  "HttpHeadersSet req [(k, v) # hs] =
     HttpHeadersSet (req\<lparr>hc_Headers := map_set (hc_Headers req) (ToLower k) v\<rparr>) [hs]"
  by (simp_all add: HttpHeadersSet_def)

lemma HttpHeadersSet_keeps [simp]:
  "hc_Method (HttpHeadersSet req hs) = hc_Method req" "hc_Url (HttpHeadersSet req hs) = hc_Url req"
  "hc_Query (HttpHeadersSet req hs) = hc_Query req" "hc_Body (HttpHeadersSet req hs) = hc_Body req"
proof -
  have *: "hc_Method (HttpHeadersSet req [h]) = hc_Method req \<and> hc_Url (HttpHeadersSet req [h]) = hc_Url req
      \<and> hc_Query (HttpHeadersSet req [h]) = hc_Query req \<and> hc_Body (HttpHeadersSet req [h]) = hc_Body req" for h
    by (induction h arbitrary: req) auto
  have "HttpHeadersSet req hs = (if hs = [] then req else HttpHeadersSet req [hd hs])"
    by (cases hs) (simp_all add: HttpHeadersSet_def)
  with * show "hc_Method (HttpHeadersSet req hs) = hc_Method req" "hc_Url (HttpHeadersSet req hs) = hc_Url req"
    "hc_Query (HttpHeadersSet req hs) = hc_Query req" "hc_Body (HttpHeadersSet req hs) = hc_Body req" by simp_all
qed

text \<open>A header that a set of headers names, each in lower case once, arrives with the value it has there.\<close>

lemma header_arrives:
  assumes "distinct (map (ToLower \<circ> fst) hs)"
  shows "map_get (hc_Headers (HttpHeadersSet req [hs])) key =
    (case map_of (map (\<lambda>(k, v). (ToLower k, v)) hs) key of Some v \<Rightarrow> Some v | None \<Rightarrow> map_get (hc_Headers req) key)"
  using assms
proof (induction hs arbitrary: req)
  case (Cons kv hs)
  then have "ToLower (fst kv) \<notin> (ToLower \<circ> fst) ` set hs" by simp
  then have "map_of (map (\<lambda>(k, v). (ToLower k, v)) hs) (ToLower (fst kv)) = None"
    by (force simp: map_of_eq_None_iff)
  with Cons show ?case by (cases kv) (auto split: option.splits)
qed simp

definition arriving :: "http_call \<Rightarrow> string \<Rightarrow> string" where
  "arriving call key = (case map_get (hc_Headers call) key of None \<Rightarrow> [] | Some v \<Rightarrow> v)"

lemma arriving_header: "req_headers req = hc_Headers call \<Longrightarrow> header_of req p n = arriving call (auth_header p n)"
  by (simp add: header_of_def getHttpHeader_def arriving_def)

lemma AppendMap_simps [simp]: "AppendMap m [] = m" "AppendMap m ((k, v) # m2) = AppendMap (map_set m k v) m2"
  by (simp_all add: AppendMap_def)

lemma tokens_arrive:
  "arriving (HttpHeadersSet (new_call meth url b hs\<lparr>hc_Query := q\<rparr>) [client_headers r []]) ''x-auth-access-token''
     = (if cl_AccessToken r \<noteq> [] then cl_AccessToken r else arriving (new_call meth url b hs) ''x-auth-access-token'')"
  "arriving (HttpHeadersSet (new_call meth url b hs\<lparr>hc_Query := q\<rparr>) [client_headers r []]) ''x-csrf''
     = (if cl_CsrfToken r \<noteq> [] then cl_CsrfToken r else arriving (new_call meth url b hs) ''x-csrf'')"
  by (auto simp: arriving_def client_headers_def addTokens_def Let_def map_set_def new_call_def map_get_def update_conv)

section \<open>Operations\<close>

text \<open>The HTTP library gives every answer a body, be it empty.\<close>

definition has_bodies :: "http_lib \<Rightarrow> bool" where
  "has_bodies lib \<longleftrightarrow> (\<forall>calls resp. hl_Do lib calls = Inr resp \<longrightarrow> hr_Body resp \<noteq> None)"

lemma NewResponse_simps [simp]:
  "hr_Code (NewResponse resp) = hr_Code resp" "hr_Body (NewResponse resp) = hr_Body resp"
  "hr_serverError (NewResponse resp) = None" "Header_Get (NewResponse resp) key = Header_Get resp key"
  "updated_tokens (NewResponse resp) r = updated_tokens resp r"
  by (simp_all add: NewResponse_def Header_Get_def updated_tokens_def)

definition call_of :: "rest_client \<Rightarrow> string \<Rightarrow> string \<Rightarrow> http_call \<Rightarrow> bool" where
  "call_of r meth path call \<longleftrightarrow> hc_Method call = meth \<and> hc_Url call = cl_BaseUrl r @ path
     \<and> arriving call ''x-auth-access-token'' = cl_AccessToken r \<and> arriving call ''x-csrf'' = cl_CsrfToken r"

lemma calls_of:
  "body_call lib meth (Rest_Url r path) cmd [client_headers r []] = Inr call \<Longrightarrow> call_of r meth path call"
  "query_call lib meth (Rest_Url r path) cmd [client_headers r []] = Inr call \<Longrightarrow> call_of r meth path call"
proof -
  have upd: "new_call meth url b hs = new_call meth url b hs\<lparr>hc_Query := []\<rparr>" for meth url b hs
    by (simp add: new_call_def)
  have url: "Rest_Url r path = cl_BaseUrl r @ path" by (simp add: Rest_Url_def ConcatStrings_def)
  show "body_call lib meth (Rest_Url r path) cmd [client_headers r []] = Inr call \<Longrightarrow> call_of r meth path call"
    by (subst (asm) body_call_def, subst (asm) upd)
      (auto simp: call_of_def tokens_arrive url split: sum.splits option.splits, simp_all add: new_call_def arriving_def)
  show "query_call lib meth (Rest_Url r path) cmd [client_headers r []] = Inr call \<Longrightarrow> call_of r meth path call"
    by (auto simp: query_call_def call_of_def tokens_arrive url split: sum.splits option.splits)
      (simp_all add: new_call_def arriving_def)
qed

text \<open>What is so after an operation has succeeded.\<close>

definition exec_done :: "http_lib \<Rightarrow> resources \<Rightarrow> operation \<Rightarrow> string list \<Rightarrow> bool \<Rightarrow> 'z client_ctx_scheme \<Rightarrow> 'z client_ctx_scheme \<Rightarrow> bool" where
  "exec_done lib h op tenancyId response s s' \<longleftrightarrow> (\<exists>call resp path.
     operation_path h op tenancyId = Some path \<and> sent s' = sent s @ [call]
     \<and> call_of (rest s) (Access2HttpMethod (op_accessType op)) path call
     \<and> hl_Do lib (sent s') = Inr resp \<and> hr_Code resp < StatusBadRequest \<and> rest s' = updated_tokens resp (rest s)
     \<and> (response \<longrightarrow> (\<exists>b v. hr_Body resp = Some b \<and> hl_Unmarshal lib b = Inr v \<and> decoded s' = Some v)))"

lemma client_methods_get:
  "map_get (client_methods lib sd) at = Some m \<Longrightarrow>
     m = RequestBody lib sd (Access2HttpMethod at) \<or> m = RequestQuery lib sd (Access2HttpMethod at)"
proof -
  have eq: "Access2HttpMethod (HttpMethod2Access meth) = meth" if "meth \<in> {''GET'', ''POST'', ''PUT'', ''PATCH'', ''DELETE''}" for meth
    using that by (elim insertE emptyE; hypsubst; code_simp)
  have fs: "Rest_Post lib sd = RequestBody lib sd ''POST''" "Rest_Put lib sd = RequestBody lib sd ''PUT''"
    "Rest_Patch lib sd = RequestBody lib sd ''PATCH''" "Rest_Get lib sd = RequestQuery lib sd ''GET''"
    "Rest_Delete lib sd = RequestQuery lib sd ''DELETE''"
    by (intro ext, simp add: Rest_Post_def Rest_Put_def Rest_Patch_def Rest_Get_def Rest_Delete_def)+
  assume "map_get (client_methods lib sd) at = Some m"
  then show ?thesis
    using eq by (auto simp: client_methods_def fs split: if_splits)
qed

lemma exec_sent:
  assumes bodies: "has_bodies lib" and call: "\<And>call. c = Inr call \<Longrightarrow> call_of (rest k) (Access2HttpMethod (op_accessType op)) path call"
    and path: "operation_path h op tenancyId = Some path"
  shows "sent_outcome lib c response (\<lambda>(resp, e) k'.
     (if e = None \<and> resp \<noteq> None \<and> hr_serverError (the resp) = None then exec_done lib h op tenancyId response k k'
      else (\<exists>cs. length cs \<le> 1 \<and> sent k' = sent k @ cs)) \<and> (resp = None \<longrightarrow> e \<noteq> None)) k"
proof (cases c)
  case (Inl e)
  then show ?thesis by (auto simp: sent_outcome_def outcome_def)
next
  case (Inr req)
  have one: "\<exists>cs. length cs \<le> Suc 0 \<and> sent k @ [req] = sent k @ cs" by auto
  show ?thesis
  proof (cases rule: answer_cases [of lib req k])
    case (failed e)
    then show ?thesis by (auto simp: Inr sent_outcome_def outcome_def)
  next
    case (answered resp)
    from answered(2) bodies have "\<exists>b. hr_Body resp = Some b" by (auto simp: has_bodies_def)
    then show ?thesis
      using one call [OF Inr] path answered(2)
      by (auto simp: Inr sent_outcome_def outcome_def answered(1) taken_def fillResponseError_def Response_Body_def
          exec_done_def Let_def split: sum.splits if_splits)
  qed
qed

lemma wpc_invoke_method:
  assumes "wpc m (\<lambda>(resp, e) k'. (if e = None \<and> resp \<noteq> None \<and> hr_serverError (the resp) = None then P k' else N k')
    \<and> (resp = None \<longrightarrow> e \<noteq> None)) k"
  shows "wpc (invoke_method c m) (\<lambda>e k'. \<not> panicked k' \<longrightarrow> (if e = None then P k' else N k')) k"
proof -
  have code: "ResponseGenericError None = None" "ResponseGenericError re = None \<longleftrightarrow> re = None" for re
    by (simp_all add: ResponseGenericError_def split: option.splits)
  show ?thesis
    unfolding invoke_method_def
    by (intro wpc_bind, rule wpc_mono [OF assms]) (auto intro!: wpc simp: code split: if_splits)
qed

lemma Client_Exec_wpc:
  assumes "has_bodies lib"
  shows "wpc (Client_Exec lib (default_senders lib) h op cmd response tenancyId) (\<lambda>e k'. \<not> panicked k' \<longrightarrow>
     (if e = None then exec_done lib h op tenancyId response k k' else (\<exists>cs. length cs \<le> 1 \<and> sent k' = sent k @ cs))) k"
proof -
  let ?meth = "Access2HttpMethod (op_accessType op)"
  let ?Q = "\<lambda>(resp, e) k'. (if e = None \<and> resp \<noteq> None \<and> hr_serverError (the resp) = None then exec_done lib h op tenancyId response k k'
      else (\<exists>cs. length cs \<le> 1 \<and> sent k' = sent k @ cs)) \<and> (resp = None \<longrightarrow> e \<noteq> None)"
  have meth: "wpc (m path cmd response []) ?Q k"
    if "map_get (client_methods lib (default_senders lib)) (op_accessType op) = Some m" "operation_path h op tenancyId = Some path" for m path
    using client_methods_get [OF that(1)] that(2)
    by (elim disjE; hypsubst) (intro wpc_Rest_body wpc_Rest_query exec_sent assms; (erule calls_of | assumption))+
  show ?thesis
    unfolding Client_Exec_def
    by (intro wpc wpc_invoke_method [OF meth]) auto
qed

text \<open>
  C34: An operation of the client has succeeded only when one request went to the server, with the HTTP method of the
  operation, the path of its resource and the tokens of the client, and the server answered it without an error;
  then the client has taken over the tokens of the answer and decoded its body if asked to. An operation that
  fails sends one request at most.
\<close>

theorem client_exec:
  assumes "has_bodies lib" "run_state (Client_Exec lib (default_senders lib) h op cmd response tenancyId) s = (e, s')"
    and "\<not> panicked s'"
  shows "if e = None then exec_done lib h op tenancyId response s s' else (\<exists>cs. length cs \<le> 1 \<and> sent s' = sent s @ cs)"
  using wpcE [OF Client_Exec_wpc [OF assms(1)] assms(2)] assms(3) by (auto simp: exec_done_def)

section \<open>Login\<close>

text \<open>The state after one request: the call, its answer and the error that the answer leaves in the context.\<close>

definition after_call :: "http_call \<Rightarrow> http_response \<Rightarrow> err \<Rightarrow> 'z client_ctx_scheme \<Rightarrow> 'z client_ctx_scheme" where
  "after_call call resp ge k = k\<lparr>sent := sent k @ [call], rest := updated_tokens resp (rest k), genericError := ge\<rparr>"

lemma after_call_simps [simp]:
  "sent (after_call call resp ge k) = sent k @ [call]" "rest (after_call call resp ge k) = updated_tokens resp (rest k)"
  "genericError (after_call call resp ge k) = ge" "core (after_call call resp ge k) = after_call call resp ge (core k)"
  by (simp_all add: after_call_def)

lemma sent_outcomeI:
  assumes "\<And>resp e k'. Q (resp, Some e) k'"
    and "\<And>call resp. c = Inr call \<Longrightarrow> hl_Do lib (sent k @ [call]) = Inr resp \<Longrightarrow> hr_Code resp < StatusBadRequest
      \<Longrightarrow> Q (Some (NewResponse resp), None) (after_call call resp (genericError k) (core k))"
    and "\<And>call resp re. c = Inr call \<Longrightarrow> hl_Do lib (sent k @ [call]) = Inr resp \<Longrightarrow> \<not> hr_Code resp < StatusBadRequest
      \<Longrightarrow> Q (Some (resp\<lparr>hr_serverError := re\<rparr>), None)
        (after_call call resp (if genericError k = None \<or> re = None then ResponseGenericError re else genericError k) (core k))"
  shows "sent_outcome lib c False Q k"
proof (cases c)
  case (Inl e)
  with assms(1) show ?thesis by (simp add: sent_outcome_def outcome_def)
next
  case (Inr call)
  have ge: "ResponseGenericError re = None \<longleftrightarrow> re = None" for re
    by (simp add: ResponseGenericError_def split: option.splits)
  show ?thesis
  proof (cases rule: answer_cases [of lib call k])
    case (failed e)
    with assms(1) Inr show ?thesis by (simp add: sent_outcome_def outcome_def)
  next
    case (answered resp)
    let ?k = "core (k\<lparr>sent := sent k @ [call]\<rparr>)\<lparr>rest := updated_tokens resp (rest k)\<rparr>"
    have k: "(if genericError k = None \<or> ge = None then ?k\<lparr>genericError := ge\<rparr> else ?k)
      = after_call call resp (if genericError k = None \<or> ge = None then ge else genericError k) (core k)" for ge
      by (cases k) (simp add: after_call_def core_def)
    have k0: "?k = after_call call resp (genericError k) (core k)"
      by (cases k) (simp add: after_call_def core_def)
    have out: "sent_outcome lib c False Q k = taken lib False (NewResponse resp) Q ?k"
      by (simp add: Inr sent_outcome_def outcome_def answered(1))
    show ?thesis
    proof (cases "hr_Code resp < StatusBadRequest")
      case True
      with assms(2) [OF Inr answered(2)] show ?thesis unfolding out k0 by (simp add: taken_def)
    next
      case False
      note bad = assms(3) [OF Inr answered(2) False]
      have "Q (Some resp', None) (if genericError k = None \<or> ResponseGenericError (hr_serverError resp') = None
          then ?k\<lparr>genericError := ResponseGenericError (hr_serverError resp')\<rparr> else ?k)"
        if "fillResponseError lib (NewResponse resp) = Inr resp'" for resp'
      proof -
        from that have "resp' = resp\<lparr>hr_serverError := hr_serverError resp'\<rparr>"
          by (auto simp: fillResponseError_def NewResponse_def Response_Body_def split: option.splits sum.splits)
        with bad [of "hr_serverError resp'"] show ?thesis unfolding k by (simp add: ge)
      qed
      moreover have "genericError ?k = genericError k" by simp
      ultimately show ?thesis
        using False assms(1) unfolding out taken_def Let_def
        by (cases "fillResponseError lib (NewResponse resp)") (simp_all del: core_client)
    qed
  qed
qed

definition login_headers :: "string \<Rightarrow> string \<Rightarrow> http_call \<Rightarrow> bool" where
  "login_headers login phash call \<longleftrightarrow> hc_Method call = ''POST''
     \<and> arriving call ''x-auth-login'' = login \<and> arriving call ''x-auth-login-phash'' = phash"

lemma login_client_headers:
  "client_headers r [[(''x-auth-login'', user)]] =
     client_headers (r\<lparr>cl_UserAgent := []\<rparr>) [] @ (''x-auth-login'', user) # (if cl_UserAgent r \<noteq> [] then [(''User-Agent'', cl_UserAgent r)] else [])"
  "client_headers r [[(''x-auth-login'', user), (''x-auth-login-phash'', ph)]] =
     client_headers (r\<lparr>cl_UserAgent := []\<rparr>) [] @ (''x-auth-login'', user) # (''x-auth-login-phash'', ph)
       # (if cl_UserAgent r \<noteq> [] then [(''User-Agent'', cl_UserAgent r)] else [])"
  by (simp_all add: client_headers_def addTokens_def Let_def map_set_def)

lemma HttpHeadersSet_append: "HttpHeadersSet req [h1 @ h2] = HttpHeadersSet (HttpHeadersSet req [h1]) [h2]"
  by (simp add: HttpHeadersSet_def)

lemma login_arriving:
  "login_headers user [] (HttpHeadersSet (new_call ''POST'' url b
     [(''content-type'', ''application/json''), (''accept'', ''application/json'')]) [client_headers r [[(''x-auth-login'', user)]]])"
  "login_headers user ph (HttpHeadersSet (new_call ''POST'' url b
     [(''content-type'', ''application/json''), (''accept'', ''application/json'')])
     [client_headers r [[(''x-auth-login'', user), (''x-auth-login-phash'', ph)]]])"
proof -
  let ?hs = "client_headers (r\<lparr>cl_UserAgent := []\<rparr>) []"
  let ?req = "HttpHeadersSet (new_call ''POST'' url b
     [(''content-type'', ''application/json''), (''accept'', ''application/json'')]) [?hs]"
  have none: "map_get (hc_Headers ?req) key = None" if "key \<in> {''x-auth-login'', ''x-auth-login-phash''}" for key
    using that by (auto simp: client_headers_def addTokens_def map_set_def new_call_def map_get_def update_conv)
  show "login_headers user [] (HttpHeadersSet (new_call ''POST'' url b
     [(''content-type'', ''application/json''), (''accept'', ''application/json'')]) [client_headers r [[(''x-auth-login'', user)]]])"
    unfolding login_client_headers HttpHeadersSet_append
    by (simp add: login_headers_def arriving_def none, simp add: new_call_def)
  show "login_headers user ph (HttpHeadersSet (new_call ''POST'' url b
     [(''content-type'', ''application/json''), (''accept'', ''application/json'')])
     [client_headers r [[(''x-auth-login'', user), (''x-auth-login-phash'', ph)]]])"
    unfolding login_client_headers HttpHeadersSet_append
    by (simp add: login_headers_def arriving_def none, simp add: new_call_def)
qed

lemma login_calls:
  "body_call lib ''POST'' url None [client_headers r [[(''x-auth-login'', user)]]] = Inr call \<Longrightarrow> login_headers user [] call"
  "body_call lib ''POST'' url None [client_headers r [[(''x-auth-login'', user), (''x-auth-login-phash'', ph)]]] = Inr call
     \<Longrightarrow> login_headers user ph call"
  by (auto simp: body_call_def login_arriving simp del: HttpHeadersSet_simps split: sum.splits option.splits)

text \<open>
  The exchange of a successful login: the first request names the user, its answer brings the salt; the second
  request has the hash of the password with this salt.
\<close>

definition login_exchange :: "http_lib \<Rightarrow> crypto \<Rightarrow> string \<Rightarrow> string \<Rightarrow> 'z client_ctx_scheme \<Rightarrow> 'z client_ctx_scheme
    \<Rightarrow> http_call \<Rightarrow> http_response \<Rightarrow> http_call \<Rightarrow> http_response \<Rightarrow> bool" where
  "login_exchange lib cr user password s s' c1 r1 c2 r2 \<longleftrightarrow>
     sent s' = sent s @ [c1, c2] \<and> hl_Do lib (sent s @ [c1]) = Inr r1 \<and> hl_Do lib (sent s @ [c1, c2]) = Inr r2
     \<and> login_headers user [] c1 \<and> login_headers user (Phash cr password (Header_Get r1 ''x-auth-login-salt'')) c2
     \<and> hr_Code r2 = StatusOK \<and> rest s' = updated_tokens r2 (updated_tokens r1 (rest s))"

lemma Login_second:
  assumes "genericError k = Some g" "login_headers user [] c1" "hl_Do lib (sent s @ [c1]) = Inr r1"
    and "sent k = sent s @ [c1]" "rest k = updated_tokens r1 (rest s)" "Header_Get r1 ''x-auth-login-salt'' = salt"
  shows "wpc (login_second lib (default_senders lib) c ''/auth/login''
      [(''x-auth-login'', user), (''x-auth-login-phash'', Phash cr password salt)])
    (\<lambda>((resp, e), _) k'. e = None \<and> \<not> panicked k' \<longrightarrow>
       genericError k' \<noteq> None \<and> (\<exists>c1 r1 c2 r2. login_exchange lib cr user password s k' c1 r1 c2 r2)) k"
proof -
  have ok: "login_exchange lib cr user password s k' c1 r1 c2 r2" if
    "body_call lib ''POST'' (Rest_Url (rest k) ''/auth/login'') None
      [client_headers (rest k) [[(''x-auth-login'', user), (''x-auth-login-phash'', Phash cr password salt)]]] = Inr c2"
    "hl_Do lib (sent k @ [c2]) = Inr r2" "hr_Code r2 = StatusOK" "sent k' = sent k @ [c2]" "rest k' = updated_tokens r2 (rest k)"
    for c2 r2 and k' :: "'a client_ctx_scheme"
    using that(2-) assms login_calls(2) [OF that(1)] by (simp add: login_exchange_def)
  show ?thesis
    unfolding login_second_def Rest_Post_def
    by (rule wpc_bind, rule wpc_Rest_body, rule sent_outcomeI)
      (auto intro!: wpc simp: assms(1) http_status, intro exI, rule ok, simp_all add: http_status)
qed

lemma Rest_Login_wpc:
  "wpc (Rest_Login lib cr (default_senders lib) user password)
    (\<lambda>(resp, e) k'. e = None \<and> \<not> panicked k' \<longrightarrow>
       genericError k' \<noteq> None \<and> (\<exists>c1 r1 c2 r2. login_exchange lib cr user password k k' c1 r1 c2 r2)) k"
proof -
  have upd: "map_set [(''x-auth-login'', user)] ''x-auth-login-phash'' ph = [(''x-auth-login'', user), (''x-auth-login-phash'', ph)]" for ph
    by (simp add: map_set_def)
  have cred: "[] \<noteq> ErrorCodeCredentialsRequired" by (simp add: ErrorCodeCredentialsRequired_def)
  have second: "wpc (login_second lib (default_senders lib) c ''/auth/login''
      [(''x-auth-login'', user), (''x-auth-login-phash'', Phash cr password (Header_Get resp ''x-auth-login-salt''))])
    (\<lambda>((resp, e), _) k'. e = None \<and> \<not> panicked k' \<longrightarrow>
       genericError k' \<noteq> None \<and> (\<exists>c1 r1 c2 r2. login_exchange lib cr user password k k' c1 r1 c2 r2)) (after_call call resp (Some g) (core k))"
    if "body_call lib ''POST'' url None [client_headers r [[(''x-auth-login'', user)]]] = Inr call"
      "hl_Do lib (sent k @ [call]) = Inr resp" for c resp call g url r
    by (rule Login_second [where ?c1.0 = call and ?r1.0 = resp]) (use that login_calls(1) [OF that(1)] in simp_all)
  have head: "Header_Get (resp\<lparr>hr_serverError := re\<rparr>) key = Header_Get resp key" for resp re key
    by (simp add: Header_Get_def)
  have ge: "ResponseGenericError (Some re) = Some (SetDetails_err (New (re_Code re) [re_Message re]) (re_Details re))" for re
    by (simp add: ResponseGenericError_def)
  show ?thesis
    unfolding Rest_Login_def Let_def upd
    by (rule wpc_traced_err, rule wpc_bind, subst Rest_Post_def, rule wpc_Rest_body, rule sent_outcomeI)
      (auto intro!: wpc wpc_mono [OF second] simp: cred head ge, blast+)
qed

text \<open>The server takes a request with these headers for a login of the user who has the hash.\<close>

definition server_accepts :: "string \<Rightarrow> string \<Rightarrow> http_call \<Rightarrow> bool" where
  "server_accepts user phash call \<longleftrightarrow> (\<forall>h vld (req :: request) u salt.
     req_headers req = hc_Headers call \<and> user \<noteq> [] \<and> phash \<noteq> [] \<and> ValidateLogin vld user = None
     \<and> found_user h req user = (Some u, None) \<and> au_phash u = Some (phash, salt) \<and> \<not> au_blocked u
     \<longrightarrow> login_as h vld req = Some u)"

lemma login_headers_accepted: "login_headers user phash call \<Longrightarrow> server_accepts user phash call"
  by (auto simp: server_accepts_def login_headers_def login_as_def arriving_header Let_def)

text \<open>
  C35: A login of the client that succeeds has sent two requests, the second with the hash of the password under the
  salt of the first answer, which the login handler of the server accepts for a user with this hash; the client has
  the tokens of the answers. The error of the first answer stays in the context as its generic error.
\<close>

theorem client_login:
  assumes "run_state (Rest_Login lib cr (default_senders lib) user password) s = ((resp, None), s')" "\<not> panicked s'"
  shows "genericError s' \<noteq> None \<and> (\<exists>c1 r1 c2 r2. login_exchange lib cr user password s s' c1 r1 c2 r2
    \<and> server_accepts user (Phash cr password (Header_Get r1 ''x-auth-login-salt'')) c2)"
proof -
  from wpcE [OF Rest_Login_wpc assms(1)] assms(2) obtain c1 r1 c2 r2 where
    "genericError s' \<noteq> None" "login_exchange lib cr user password s (core s') c1 r1 c2 r2" by auto
  then have "genericError s' \<noteq> None" "login_exchange lib cr user password s s' c1 r1 c2 r2"
    by (simp_all add: login_exchange_def)
  then show ?thesis by (auto simp: login_exchange_def intro!: login_headers_accepted)
qed

section \<open>Reconnecting\<close>

text \<open>A panic is not undone.\<close>

definition panic_stays :: "'z sys_scheme \<Rightarrow> 'z sys_scheme \<Rightarrow> bool" where
  "panic_stays s s' \<longleftrightarrow> (panicked s \<longrightarrow> panicked s')"

lemma preorder_panic_stays [simp, io_rel]: "preorder panic_stays"
  by (rule preorderI) (auto simp: panic_stays_def)

lemma keeps_panic_stays: "state_io_rel (keeps panicked) m \<Longrightarrow> state_io_rel panic_stays m"
  by (auto simp: state_io_rel_def keeps_def panic_stays_def)

lemma stays_go_panic [io_rel]: "state_io_rel panic_stays (go_panic x)"
  by (auto simp: state_io_rel_def panic_stays_def go_panic_def)

lemma stays_modifys: "(\<And>s. panicked (f s) = panicked s) \<Longrightarrow> state_io_rel panic_stays (modifys f)"
  by (auto simp: state_io_rel_def panic_stays_def)

lemmas stays_tracing [io_rel] = keeps_tracing [where f = panicked, THEN keeps_panic_stays, simplified]

lemma stays_traced [io_rel]:
  assumes "\<And>c. state_io_rel panic_stays (body c)"
  shows "state_io_rel panic_stays (traced name fs body)"
  unfolding traced_def
  by (intro io_rel assms keeps_panic_stays keeps_core_eq) (simp_all add: core_TraceIn core_TraceOut)

lemma stays_traced_err [io_rel]:
  assumes "\<And>c. state_io_rel panic_stays (body c)"
  shows "state_io_rel panic_stays (traced_err name fs body)"
  unfolding traced_err_traced by (intro io_rel assms)

lemma stays_sum [io_rel]:
  "(\<And>x. state_io_rel R (m x)) \<Longrightarrow> (\<And>y. state_io_rel R (n y)) \<Longrightarrow> state_io_rel R (case v of Inl x \<Rightarrow> m x | Inr y \<Rightarrow> n y)"
  by (cases v) auto

lemma stays_sends [io_rel]:
  "state_io_rel panic_stays (DefaultSendWithBody lib meth url cmd headers)"
  "state_io_rel panic_stays (DefaultSendWithQuery lib meth url cmd headers)"
  unfolding DefaultSendWithBody_def DefaultSendWithQuery_def finish_send_def SendRawRequest_def Let_def
  by (intro io_rel stays_modifys; simp)+

definition senders_stay :: "'z client_ctx_scheme senders \<Rightarrow> bool" where
  "senders_stay sd \<longleftrightarrow> (\<forall>meth url cmd hs. state_io_rel panic_stays (SendWithBody sd meth url cmd hs)
     \<and> state_io_rel panic_stays (SendWithQuery sd meth url cmd hs))"

definition handlers_stay :: "'z client_ctx_scheme reconnect_handlers \<Rightarrow> bool" where
  "handlers_stay rh \<longleftrightarrow> state_io_rel panic_stays (rh_GetRefreshToken rh) \<and> state_io_rel panic_stays (rh_GetCredentials rh)
     \<and> (\<forall>token. state_io_rel panic_stays (rh_SaveRefreshToken rh token))"

lemma stays_Error_Code [io_rel]: "state_io_rel panic_stays (Error_Code resp)"
  unfolding Error_Code_def by (intro io_rel)

lemma stays_expect_ok [io_rel]: "state_io_rel panic_stays (expect_ok c msg resp)"
  unfolding expect_ok_def by (intro io_rel)

lemma stays_SetGenericError [io_rel]: "state_io_rel panic_stays (SetGenericError e ov)"
  unfolding SetGenericError_def by (rule stays_modifys) simp

lemma stays_sendRequest:
  assumes "\<And>meth url cmd hs. state_io_rel panic_stays (send meth url cmd hs)"
  shows "state_io_rel panic_stays (sendRequest lib send meth path cmd response headers)"
  unfolding sendRequest_def read_response_def updateTokens_def Let_def
  by (intro io_rel stays_modifys assms; simp)

lemma stays_Requests [io_rel]:
  assumes "senders_stay sd"
  shows "state_io_rel panic_stays (RequestBody lib sd meth path cmd response headers)"
    "state_io_rel panic_stays (RequestQuery lib sd meth path cmd response headers)"
  using assms unfolding RequestBody_def RequestQuery_def senders_stay_def by (intro stays_sendRequest; simp)+

lemma stays_session [io_rel]:
  assumes "senders_stay sd"
  shows "state_io_rel panic_stays (UpdateCsrfToken lib sd)" "state_io_rel panic_stays (RequestRefreshToken lib sd)"
    "state_io_rel panic_stays (Rest_Login lib cr sd user password)"
  unfolding UpdateCsrfToken_def RequestRefreshToken_def Rest_Login_def login_second_def Rest_Get_def Rest_Post_def Let_def
  using assms by (intro io_rel; simp)+

lemma stays_checkResponse:
  assumes "senders_stay sd" "handlers_stay rh" "state_io_rel panic_stays send"
  shows "state_io_rel panic_stays (checkResponse lib cr rh sd send n resp e)"
proof (induction n arbitrary: resp e)
  case (Suc n)
  note h = assms(2) [unfolded handlers_stay_def]
  show ?case unfolding checkResponse.simps Let_def
    by (intro io_rel assms Suc.IH h [THEN conjunct1] h [THEN conjunct2, THEN conjunct1] h [THEN conjunct2, THEN conjunct2, rule_format])
qed (simp add: io_rel)

lemma stays_reconnect: "handlers_stay rh \<Longrightarrow> senders_stay (reconnect_senders lib cr rh n)"
proof (induction n)
  case 0
  show ?case by (simp add: senders_stay_def io_rel)
next
  case (Suc n)
  then show ?case
    by (auto simp: senders_stay_def simp del: checkResponse.simps intro!: io_rel stays_checkResponse Suc.IH)
qed

lemma wpc_stays: "state_io_rel panic_stays m \<Longrightarrow> panicked k \<Longrightarrow> wpc m (\<lambda>_ k'. panicked k') k"
  unfolding wpc_def state_io_rel_def panic_stays_def by (metis core_reads(6) prod.collapse)

lemma checkResponse_panics:
  assumes "senders_stay sd" "handlers_stay rh" "state_io_rel panic_stays send" "hr_serverError lr = None"
  shows "wpc (checkResponse lib cr rh sd send (Suc n) (Some lr) e) (\<lambda>_ k'. panicked k') k"
proof -
  note h = assms(2) [unfolded handlers_stay_def]
  show ?thesis
    unfolding checkResponse.simps Let_def option.case
    by (rule wpc_traced_err, rule wpc_bind, rule wpc_Error_Code, use assms(4) in simp, rule wpc_mono, rule wpc_stays,
      intro io_rel assms stays_checkResponse h [THEN conjunct1] h [THEN conjunct2, THEN conjunct1]
        h [THEN conjunct2, THEN conjunct2, rule_format]) auto
qed

definition sent_or_panic :: "http_lib \<Rightarrow> goerror + http_call \<Rightarrow> 'z client_ctx_scheme \<Rightarrow> response \<times> err \<Rightarrow> 'z client_ctx_scheme \<Rightarrow> bool" where
  "sent_or_panic lib c s r s' \<longleftrightarrow> (case c of
     Inl e \<Rightarrow> r = (None, Some e) \<and> sent s' = sent s
   | Inr call \<Rightarrow> (case hl_Do lib (sent s @ [call]) of
       Inl e \<Rightarrow> r = (None, Some e) \<and> sent s' = sent s @ [call]
     | Inr resp \<Rightarrow> panicked s'))"

lemma sent_or_panic_core [simp]: "sent_or_panic lib c s r (core s') = sent_or_panic lib c s r s'"
  by (simp add: sent_or_panic_def cong: sum.case_cong)

lemma checkResponse_nil: "wpc (checkResponse lib cr rh sd send (Suc n) None e) (\<lambda>r k'. r = (None, e) \<and> k' = core k) k"
  by (simp, intro wpc) simp

lemma reconnect_wpc:
  assumes "senders_stay sd" "handlers_stay rh" "state_io_rel panic_stays send"
    and send: "\<And>Q. outcome lib c Q k \<Longrightarrow> wpc send Q k"
  shows "wpc (do { (resp, e) \<leftarrow> send; checkResponse lib cr rh sd send (Suc n) resp e }) (\<lambda>r k'. sent_or_panic lib c k r k') k"
proof -
  have nil: "wpc (checkResponse lib cr rh sd send (Suc n) None (Some e)) (sent_or_panic lib c k) (core k')"
    if "sent_or_panic lib c k (None, Some e) k'" for e k'
    by (rule wpc_mono [OF checkResponse_nil]) (use that in simp)
  show ?thesis
  proof (rule wpc_bind, rule send, cases c)
    case (Inl e)
    have "wpc (checkResponse lib cr rh sd send (Suc n) None (Some e)) (sent_or_panic lib c k) (core k)"
      by (rule nil) (simp add: sent_or_panic_def Inl)
    then show "outcome lib c (\<lambda>x. wpc (case x of (resp, e) \<Rightarrow> checkResponse lib cr rh sd send (Suc n) resp e)
        (sent_or_panic lib c k)) k"
      by (simp add: outcome_def Inl del: checkResponse.simps)
  next
    case (Inr req)
    show "outcome lib c (\<lambda>x. wpc (case x of (resp, e) \<Rightarrow> checkResponse lib cr rh sd send (Suc n) resp e)
        (sent_or_panic lib c k)) k"
    proof (cases "hl_Do lib (sent k @ [req])")
      case (Inl e)
      have "wpc (checkResponse lib cr rh sd send (Suc n) None (Some e)) (sent_or_panic lib c k) (core (k\<lparr>sent := sent k @ [req]\<rparr>))"
        by (rule nil) (simp add: sent_or_panic_def Inl \<open>c = Inr req\<close>)
      then show ?thesis by (simp add: outcome_def answer_def Inl \<open>c = Inr req\<close> del: checkResponse.simps)
    next
      case (Inr resp)
      have "wpc (checkResponse lib cr rh sd send (Suc n) (Some (NewResponse resp)) None) (sent_or_panic lib c k) (core (k\<lparr>sent := sent k @ [req]\<rparr>))"
        by (rule wpc_mono [OF checkResponse_panics [OF assms(1-3)]]) (simp_all add: sent_or_panic_def \<open>c = Inr req\<close> Inr)
      then show ?thesis by (simp add: outcome_def answer_def Inr \<open>c = Inr req\<close> del: checkResponse.simps)
    qed
  qed
qed

text \<open>
  C38: The client that is to reconnect by itself never does: an answer of the server, whatever it is, makes it panic,
  because it looks at the error of the response before anything has put one there; otherwise the error of
  sending is passed on. This holds with any fuel.
\<close>

theorem auto_reconnect_panics:
  assumes "handlers_stay rh"
    and "run_state (SendWithBody (reconnect_senders lib cr rh (Suc n)) meth url cmd hs) s = (r, s')"
    and "run_state (SendWithQuery (reconnect_senders lib cr rh (Suc n)) meth url cmd hs) s = (q, t)"
  shows "sent_or_panic lib (body_call lib meth url cmd hs) s r s' \<and> sent_or_panic lib (query_call lib meth url cmd hs) s q t"
proof -
  have "wpc (SendWithBody (reconnect_senders lib cr rh (Suc n)) meth url cmd hs)
      (sent_or_panic lib (body_call lib meth url cmd hs) s) s"
    unfolding reconnect_senders.simps senders.simps
    by (intro reconnect_wpc stays_reconnect io_rel wpc assms(1))
  from wpcE [OF this assms(2)] have 1: "sent_or_panic lib (body_call lib meth url cmd hs) s r s'"
    by simp
  have "wpc (SendWithQuery (reconnect_senders lib cr rh (Suc n)) meth url cmd hs)
      (sent_or_panic lib (query_call lib meth url cmd hs) s) s"
    unfolding reconnect_senders.simps senders.simps
    by (intro reconnect_wpc stays_reconnect io_rel wpc assms(1))
  from wpcE [OF this assms(3)] 1 show ?thesis by simp
qed

text \<open>The refresh token that was saved in the cache is not found there again: the test of the error is inverted.\<close>

lemma saved_token_lost:
  assumes "run_state (Cache_Get tc ser (TOKEN_CACHE_KEY cfg)) s = ((found, obj, None), s')"
  shows "fst (run_state (Embedded_GetRefreshToken tc ser cfg) s) = []"
  by (simp add: Embedded_GetRefreshToken_def assms Log_def)

section \<open>An instance\<close>

text \<open>A server that asks for credentials in answer to the first request and accepts the second.\<close>

definition demo_http :: http_lib where
  "demo_http = \<lparr>hl_NewRequest = (\<lambda>meth url. None),
     hl_Do = (\<lambda>calls. Inr (if length calls = 1
       then \<lparr>hr_Code = 401, hr_Header = [(''x-auth-login-salt'', ''salt'')], hr_Body = Some ''{}'', hr_serverError = None\<rparr>
       else \<lparr>hr_Code = 200, hr_Header = [(''x-auth-access-token'', ''token'')], hr_Body = Some ''{}'', hr_serverError = None\<rparr>)),
     hl_Marshal = (\<lambda>cmd. Inr ''{}''), hl_Unmarshal = (\<lambda>b. Inr (VStr b)),
     hl_UnmarshalError = (\<lambda>b. Inr \<lparr>re_Code = ErrorCodeCredentialsRequired, re_Message = [], re_Details = []\<rparr>),
     hl_QueryValues = (\<lambda>v. Inr [])\<rparr>"

definition demo_client :: "http_call list \<Rightarrow> client_ctx" where
  "demo_client cs = op_ctx.extend demo_ctx (client_ctx.fields
     \<lparr>cl_BaseUrl = ''http://host'', cl_UserAgent = [], cl_AccessToken = ''old'', cl_RefreshToken = [], cl_CsrfToken = []\<rparr>
     cs None None)"

definition demo_call :: http_call where "demo_call = new_call ''POST'' [] None []"

lemma demo_client_simps [simp]:
  "sent (demo_client cs) = cs" "panicked (demo_client cs) = False" "genericError (demo_client cs) = None"
  "core (demo_client cs) = demo_client cs"
  by (simp_all add: demo_client_def demo_ctx_def op_ctx.defs sys.defs client_ctx.defs core_def)

lemma demo_http_bodies: "has_bodies demo_http"
  by (auto simp: has_bodies_def demo_http_def split: if_splits)

lemma demo_body_call: "\<exists>call. body_call demo_http meth url cmd hs = Inr call"
  by (simp add: body_call_def demo_http_def)

lemma demo_second:
  assumes "sent k \<noteq> []" "\<not> panicked k"
  shows "wpc (RequestBody demo_http (default_senders demo_http) meth path cmd False hs)
    (\<lambda>(resp, e) k'. e = None \<and> \<not> panicked k' \<and> (\<exists>r. resp = Some r \<and> hr_Code r = StatusOK \<and> hr_serverError r = None)) k"
proof (rule wpc_Rest_body)
  obtain call where "body_call demo_http meth (Rest_Url (rest k) path) cmd [client_headers (rest k) hs] = Inr call"
    using demo_body_call by blast
  then show "sent_outcome demo_http (body_call demo_http meth (Rest_Url (rest k) path) cmd [client_headers (rest k) hs]) False
      (\<lambda>(resp, e) k'. e = None \<and> \<not> panicked k' \<and> (\<exists>r. resp = Some r \<and> hr_Code r = StatusOK \<and> hr_serverError r = None)) k"
    using assms by (simp add: sent_outcome_def outcome_def answer_def demo_http_def taken_def http_status)
qed

lemma demo_first:
  assumes "sent k = []" "\<not> panicked k"
  shows "wpc (RequestBody demo_http (default_senders demo_http) meth path cmd False hs)
    (\<lambda>(resp, e) k'. e = None \<and> \<not> panicked k' \<and> sent k' \<noteq> []
      \<and> (\<exists>r re. resp = Some r \<and> hr_serverError r = Some re \<and> re_Code re = ErrorCodeCredentialsRequired)) k"
proof (rule wpc_Rest_body)
  obtain call where "body_call demo_http meth (Rest_Url (rest k) path) cmd [client_headers (rest k) hs] = Inr call"
    using demo_body_call by blast
  then show "sent_outcome demo_http (body_call demo_http meth (Rest_Url (rest k) path) cmd [client_headers (rest k) hs]) False
      (\<lambda>(resp, e) k'. e = None \<and> \<not> panicked k' \<and> sent k' \<noteq> []
        \<and> (\<exists>r re. resp = Some r \<and> hr_serverError r = Some re \<and> re_Code re = ErrorCodeCredentialsRequired)) k"
    using assms
    by (simp add: sent_outcome_def outcome_def answer_def demo_http_def taken_def http_status fillResponseError_def
        Response_Body_def Let_def)
qed

lemma demo_login_second:
  assumes "sent k \<noteq> []" "\<not> panicked k"
  shows "wpc (login_second demo_http (default_senders demo_http) c path hs) (\<lambda>((resp, e), _) k'. e = None \<and> \<not> panicked k') k"
  unfolding login_second_def Rest_Post_def
  by (intro wpc wpc_mono [OF demo_second [OF assms]]) (auto intro!: wpc)

theorem client_login_witness:
  "\<exists>c1 r1 c2 r2 s'. login_exchange demo_http plain_crypto ''joe'' ''secret'' (demo_client []) s' c1 r1 c2 r2
     \<and> server_accepts ''joe'' (Phash plain_crypto ''secret'' (Header_Get r1 ''x-auth-login-salt'')) c2"
proof -
  obtain resp e s' where run: "run_state (Rest_Login demo_http plain_crypto (default_senders demo_http) ''joe'' ''secret'') (demo_client [])
      = ((resp, e), s')" by (metis prod.collapse)
  have "wpc (Rest_Login demo_http plain_crypto (default_senders demo_http) ''joe'' ''secret'')
      (\<lambda>(resp, e) k'. e = None \<and> \<not> panicked k') (demo_client [])"
    unfolding Rest_Login_def Let_def
    by (rule wpc_traced_err, rule wpc_bind, subst Rest_Post_def, rule wpc_mono [OF demo_first])
      (auto intro!: wpc wpc_mono [OF demo_login_second])
  from wpcE [OF this run] have "e = None" "\<not> panicked s'" by simp_all
  with client_login [of demo_http plain_crypto "''joe''" "''secret''" "demo_client []" resp s'] run show ?thesis by blast
qed

definition demo_resources :: resources where
  "demo_resources = snd (NewResource ''users'' [] [])"

theorem client_exec_witness:
  "exec_done demo_http demo_resources ((op_Add ''add'')\<lparr>op_resource := Some 0\<rparr>) [] False (demo_client [demo_call])
     (snd (run_state (Client_Exec demo_http (default_senders demo_http) demo_resources ((op_Add ''add'')\<lparr>op_resource := Some 0\<rparr>)
        None False []) (demo_client [demo_call])))"
proof -
  let ?op = "(op_Add ''add'')\<lparr>op_resource := Some 0\<rparr>"
  obtain e s' where run: "run_state (Client_Exec demo_http (default_senders demo_http) demo_resources ?op None False [])
      (demo_client [demo_call]) = (e, s')" by (metis prod.collapse)
  have at: "op_accessType ?op = HttpMethod2Access ''POST''" by code_simp
  have ne: "HttpMethod2Access m \<noteq> HttpMethod2Access ''POST''" if "m \<in> {''PUT'', ''PATCH'', ''GET'', ''DELETE''}" for m
    using that by (elim insertE emptyE; hypsubst; code_simp)
  have get: "map_get (client_methods demo_http sd) (op_accessType ?op) = Some (Rest_Post demo_http sd)" for sd
    by (simp add: client_methods_def at ne [symmetric])
  have path: "operation_path demo_resources ?op [] = Some (fullActualPath (demo_resources ! 0))"
    by (simp add: operation_path_def)
  have "wpc (Client_Exec demo_http (default_senders demo_http) demo_resources ?op None False [])
      (\<lambda>e k'. e = None \<and> \<not> panicked k') (demo_client [demo_call])"
    unfolding Client_Exec_def get path Rest_Post_def invoke_method_def option.case
    by (intro wpc wpc_mono [OF demo_second]) (auto intro!: wpc simp: ResponseGenericError_def)
  from wpcE [OF this run] have "e = None" "\<not> panicked s'" by simp_all
  with client_exec [OF demo_http_bodies run] show ?thesis by (simp add: run)
qed

definition demo_reconnect :: "client_ctx reconnect_handlers" where
  "demo_reconnect = \<lparr>rh_GetRefreshToken = ret [], rh_SaveRefreshToken = (\<lambda>token. ret ()), rh_GetCredentials = ret (([], []), None)\<rparr>"

theorem auto_reconnect_panics_witness:
  "panicked (snd (run_state (SendWithBody (reconnect_senders demo_http plain_crypto demo_reconnect (Suc 4)) ''POST'' [] None []) (demo_client [])))"
proof -
  obtain r s' where run: "run_state (SendWithBody (reconnect_senders demo_http plain_crypto demo_reconnect (Suc 4)) ''POST'' [] None [])
      (demo_client []) = (r, s')" by (metis prod.collapse)
  obtain q t where run2: "run_state (SendWithQuery (reconnect_senders demo_http plain_crypto demo_reconnect (Suc 4)) ''POST'' [] None [])
      (demo_client []) = (q, t)" by (metis prod.collapse)
  have "handlers_stay demo_reconnect" by (simp add: handlers_stay_def demo_reconnect_def io_rel)
  from auto_reconnect_panics [OF this run run2] have "panicked s'"
    by (simp add: sent_or_panic_def body_call_def demo_http_def)
  then show ?thesis unfolding run by simp
qed

end
