(* ===== verification/Resource_Paths.thy ===== *)
theory Resource_Paths
  imports Resource_Tree
begin

text \<open>
  What the resource tree promises to its users: every store that is built by its operations is a
  forest with consistent paths (\<open>resource_tree_invariant\<close>), a full path is the concatenation of the
  paths of the ancestors (\<open>full_paths\<close>), a copy of a chain leaves the original alone and has its paths
  (\<open>clone_chain\<close>), filling the ids of a chain gives the path that \<^verbatim>\<open>BuildActualPath\<close> computes, and every
  walk over the pointers ends (\<open>resource_walks_end\<close>).
\<close>

section \<open>Stores that are built by the operations\<close>

inductive built :: "resources \<Rightarrow> bool" where
  empty: "built []"
| new: "built h \<Longrightarrow> built (snd (NewResource t cfg h))"
| child: "\<lbrakk>built h; attachable h c r\<rbrakk> \<Longrightarrow> built (AddChild c [] r h)"
| host: "built h \<Longrightarrow> built (SetHost v r h)"
| hasId: "\<lbrakk>built h; r < length h\<rbrakk> \<Longrightarrow> built (SetHasId b r h)"
| setId: "\<lbrakk>built h; r < length h\<rbrakk> \<Longrightarrow> built (SetId v [] r h)"
| service: "\<lbrakk>built h; r < length h\<rbrakk> \<Longrightarrow> built (SetService b r h)"
| rebuild: "\<lbrakk>built h; r < length h\<rbrakk> \<Longrightarrow> built (RebuildPaths h r)"
| fill: "\<lbrakk>built h; r < length h\<rbrakk> \<Longrightarrow> built (FillActualPaths ids r h)"
| reset: "\<lbrakk>built h; r < length h\<rbrakk> \<Longrightarrow> built (ResetIds r h)"
| addOperation: "built h \<Longrightarrow> built (AddOperation op getter r h)"
| removeOperations: "built h \<Longrightarrow> built (RemoveOperations a r h)"
| removeOperation: "built h \<Longrightarrow> built (RemoveOperation n r h)"

lemma wf_tree_empty: "wf_tree []"
  by (simp add: wf_tree_def forest_def consistent_def)

lemma wf_tree_AddOperation: "wf_tree h \<Longrightarrow> wf_tree (AddOperation op getter r h)"
  by (simp add: AddOperation_def Let_def wf_tree_upd path_core_def links_def)

lemma built_wf_tree: "built h \<Longrightarrow> wf_tree h"
proof (induction rule: built.induct)
  case (host h v r)
  then show ?case by (simp add: SetHost_def wf_tree_upd path_core_def links_def)
next
  case (removeOperations h a r)
  then show ?case by (simp add: RemoveOperations_def wf_tree_upd path_core_def links_def)
next
  case (removeOperation h n r)
  then show ?case by (simp add: RemoveOperation_def wf_tree_upd path_core_def links_def)
qed (simp_all add: wf_tree_empty wf_tree_NewResource wf_tree_AddChild wf_tree_SetHasId wf_tree_SetId
    wf_tree_SetService wf_tree_rebuild_again wf_tree_FillActualPaths wf_tree_ResetIds wf_tree_AddOperation)

section \<open>Full paths\<close>

lemma consistent_fields:
  assumes "wf_tree h" "r < length h"
  shows "pathPrototype (h ! r) = fst (own_paths (h ! r))" "actualPath (h ! r) = snd (own_paths (h ! r))"
    "fullPathPrototype (h ! r)
      = (case rs_parent (h ! r) of None \<Rightarrow> [] | Some p \<Rightarrow> fullPathPrototype (h ! p)) @ fst (own_paths (h ! r))"
    "fullActualPath (h ! r)
      = (case rs_parent (h ! r) of None \<Rightarrow> [] | Some p \<Rightarrow> fullActualPath (h ! p)) @ snd (own_paths (h ! r))"
proof -
  have "h ! r = rebuilt (IsServicePart (length h) h r) (map_option (nth h) (rs_parent (h ! r))) (h ! r)"
    using assms by (simp add: wf_tree_def consistent_def rebuild_one_def)
  note * = arg_cong [OF this, of pathPrototype] arg_cong [OF this, of actualPath]
    arg_cong [OF this, of fullPathPrototype] arg_cong [OF this, of fullActualPath]
  show "pathPrototype (h ! r) = fst (own_paths (h ! r))" "actualPath (h ! r) = snd (own_paths (h ! r))"
    "fullPathPrototype (h ! r)
      = (case rs_parent (h ! r) of None \<Rightarrow> [] | Some p \<Rightarrow> fullPathPrototype (h ! p)) @ fst (own_paths (h ! r))"
    "fullActualPath (h ! r)
      = (case rs_parent (h ! r) of None \<Rightarrow> [] | Some p \<Rightarrow> fullActualPath (h ! p)) @ snd (own_paths (h ! r))"
    using * by (auto simp: rebuilt_fields split: option.splits)
qed

lemma full_paths_ancestors:
  assumes "wf_tree h"
  shows "ancestors h r ps \<Longrightarrow> r < length h \<Longrightarrow>
      fullPathPrototype (h ! r) = concat (map (\<lambda>x. fst (own_paths (h ! x))) (rev (r # ps))) \<and>
      fullActualPath (h ! r) = concat (map (\<lambda>x. snd (own_paths (h ! x))) (rev (r # ps)))"
proof (induction rule: ancestors.induct)
  case (root r)
  then show ?case using consistent_fields [OF assms, of r] by simp
next
  case (step r p ps)
  then have "p < length h" using assms forest_parent [of h r p] by (simp add: wf_tree_def)
  with step consistent_fields [OF assms, of r] show ?case by simp
qed

section \<open>Copies\<close>

lemma RebuildPaths_linked:
  assumes "forest h" "r < length h"
  shows "forest (RebuildPaths h r)" "length (RebuildPaths h r) = length h"
  using same_forest [OF RebuildPaths_spec(1) [OF assms, symmetric] assms(1)]
    same_length [OF RebuildPaths_spec(1) [OF assms]] .

definition with_id :: "string \<Rightarrow> resource \<Rightarrow> resource" where
  "with_id v x = x\<lparr>rc_Id := v, rc_HasId := rc_HasId x \<or> v \<noteq> []\<rparr>"

lemma SetId_spec:
  assumes "forest h" "r < length h"
  shows "same (SetId v [] r h) (h[r := with_id v (h ! r)])"
    and "x < length h \<Longrightarrow> \<not> under h x r \<Longrightarrow> SetId v [] r h ! x = h ! x"
proof -
  let ?g = "h[r := with_id v (h ! r)]"
  have l: "linked h ?g" using linked_update [of "with_id v (h ! r)" h r] by (simp add: links_def with_id_def)
  have g: "forest ?g" "r < length ?g" using linked_forest [OF l assms(1)] assms(2) by simp_all
  have 1: "SetId v [] r h = (if v = [] then RebuildPaths ?g r else RebuildPaths (RebuildPaths ?g r) r)"
    using assms(2) by (auto simp: SetId_def SetHasId_def upd_def OptionalArg_def with_id_def Let_def)
  note s1 = RebuildPaths_spec [OF g]
  have f2: "forest (RebuildPaths ?g r)" "r < length (RebuildPaths ?g r)"
    using RebuildPaths_linked [OF g] g(2) by auto
  note s2 = RebuildPaths_spec [OF f2]
  show "same (SetId v [] r h) ?g" unfolding 1 using s1(1) s2(1) by (cases "v = []") simp_all
  assume x: "x < length h" "\<not> under h x r"
  then have "x \<noteq> r" "\<not> under ?g x r" "\<not> under (RebuildPaths ?g r) x r"
    using under_refl [OF assms] linked_under [OF l assms(1)] linked_under [OF same_linked [OF s1(1) [symmetric]] g(1)]
    by auto
  then show "SetId v [] r h ! x = h ! x"
    unfolding 1 using s1(2) [of x] s2(2) [of x] RebuildPaths_linked(2) [OF g] x(1)
    by (cases "v = []") simp_all
qed

abbreviation kind :: "resource \<Rightarrow> string \<times> resource_config" where
  "kind x \<equiv> (resourceType x, config_of x)"

lemma own_paths_kind: "kind x = kind y \<Longrightarrow> own_paths x = own_paths y"
  by (auto simp: own_paths_def config_of_def resource_config.defs Let_def)

lemma AddOperations_nth:
  "x \<noteq> r \<Longrightarrow> AddOperations ops r h ! x = h ! x" "length (AddOperations ops r h) = length h"
  "links (AddOperations ops r h ! r) = links (h ! r)" "kind (AddOperations ops r h ! r) = kind (h ! r)"
proof -
  have *: "length (AddOperation op g r h) = length h" "x \<noteq> r \<Longrightarrow> AddOperation op g r h ! x = h ! x"
    "links (AddOperation op g r h ! r) = links (h ! r)" "kind (AddOperation op g r h ! r) = kind (h ! r)" for op g h x
    by (cases "r < length h"; simp add: AddOperation_def upd_def Let_def links_def config_of_def
        resource_config.defs list_update_beyond)+
  show "x \<noteq> r \<Longrightarrow> AddOperations ops r h ! x = h ! x" "length (AddOperations ops r h) = length h"
    "links (AddOperations ops r h ! r) = links (h ! r)" "kind (AddOperations ops r h ! r) = kind (h ! r)"
    by (induction ops arbitrary: h) (auto simp: AddOperations_def *)
qed

text \<open>A new resource without pointers is a tree of its own at the end of the store.\<close>

definition fresh :: "resources \<Rightarrow> nat \<Rightarrow> resources \<Rightarrow> bool" where
  "fresh h r h' \<longleftrightarrow> forest h' \<and> r = length h \<and> length h' = Suc (length h) \<and> (\<forall>x < length h. h' ! x = h ! x)
     \<and> links (h' ! r) = (None, [])"

lemma fresh_copy:
  assumes "forest h" "x = h ! p" "NewResource (resourceType x) [config_of x] h = (r, h1)"
    "h2 = (if rc_HasId x then SetId (rc_Id x) [] r h1 else h1)"
  shows "fresh h r h2" "kind (h2 ! r) = kind x"
proof -
  note n = NewResource_spec [OF assms(1,3)]
  have r: "r < length h1" using n by simp
  have kd: "kind (h1 ! r) = kind x" using n by (simp add: OptionalArg_def)
  have id: "rc_Id (h1 ! r) = rc_Id x" "rc_HasId (h1 ! r) = rc_HasId x"
    using kd by (auto simp: config_of_def resource_config.defs)
  note s = SetId_spec [OF n(1) r, where v = "rc_Id x"]
  have "with_id (rc_Id x) (h1 ! r) = h1 ! r" if "rc_HasId x" using id that by (simp add: with_id_def)
  with s(1) have same: "rc_HasId x \<Longrightarrow> same (SetId (rc_Id x) [] r h1) h1" by simp
  have sh: "same h2 h1" using same assms(4) by auto
  have out: "\<not> under h1 y r" if yh: "y < length h" for y
  proof
    assume u: "under h1 y r"
    obtain ps where ps: "ancestors h1 y ps" using forest_ancestors [OF n(1), of y] n(3) yh by auto
    have "r \<noteq> y" using yh n(2) by simp
    then obtain c where "c \<in> set (rs_children (h1 ! r))"
      using under_child [OF n(1) ps _ u] n(3) yh by auto
    with n(5) show False by (simp add: links_def)
  qed
  have "\<forall>y < length h. h2 ! y = h1 ! y" using s(2) out n(3) assms(4) by auto
  then show "fresh h r h2"
    using n same_forest [OF sh [symmetric] n(1)] same_length [OF sh] linked_fields [OF same_linked [OF sh [symmetric]] r]
    by (auto simp: fresh_def links_def)
  show "kind (h2 ! r) = kind x" using kd same_nth [OF sh [symmetric] r] by (simp add: shape_def)
qed

lemma Clone_spec:
  assumes "forest h" "Clone w p h = (r, h')"
  shows "fresh h r h'" "kind (h' ! r) = kind (h ! p)"
proof -
  obtain h1 where n: "NewResource (resourceType (h ! p)) [config_of (h ! p)] h = (r, h1)"
    using assms(2) by (auto simp: Clone_def Let_def split: prod.splits)
  define h2 where "h2 = (if rc_HasId (h ! p) then SetId (rc_Id (h ! p)) [] r h1 else h1)"
  note f = fresh_copy [OF assms(1) refl n h2_def]
  define ops where "ops = map (\<lambda>op. NewOperation (op_name op) (op_accessType op) [op_testOnly op])
    (all_operations (length h) h p)"
  have h': "h' = (if w then AddOperations ops r h2 else h2)"
    using assms(2) n unfolding Clone_def Let_def h2_def ops_def by simp
  have l: "linked h2 h'"
  proof (rule nth_equalityI)
    show "map links h2 ! i = map links h' ! i" if "i < length (map links h2)" for i
      using that by (cases "i = r") (auto simp: h' AddOperations_nth)
  qed (simp add: h' AddOperations_nth)
  show "fresh h r h'"
    using f(1) linked_forest [OF l] by (auto simp: fresh_def h' AddOperations_nth)
  show "kind (h' ! r) = kind (h ! p)" using f(2) AddOperations_nth(4) [of ops r h2] by (simp add: h')
qed

lemma attach_ancestors_below:
  assumes "attachable h c r" "forest h" "ancestors h r rs"
  shows "ancestors h x ps \<Longrightarrow> x < length h \<Longrightarrow> under h x c \<Longrightarrow> ancestors (attach c r h) x (ps @ r # rs)"
proof (induction rule: ancestors.induct)
  case (root x)
  have "ancestors (attach c r h) r rs"
    using attach_ancestors [OF assms] assms(1) by (simp add: attachable_def)
  with root under_root [OF root(1)] attach_parent [OF assms(1,2)] show ?case by simp
next
  case (step x p ps)
  have "x \<noteq> c" using step.hyps assms(1) by (auto simp: attachable_def)
  then have "under h p c" using under_step(2) [OF step.hyps(1) step.prems(2)] by blast
  with step attach_parent [OF assms(1,2)] \<open>x \<noteq> c\<close> forest_parent [OF assms(2) step.prems(1) step.hyps(1)]
  show ?case by simp
qed

lemma attach_kind: "kind (attach c r h ! x) = kind (h ! x)"
proof -
  have "kind (upd f i g ! x) = kind (g ! x)" if "\<And>y. kind (f y) = kind y" for f i g
    using that by (cases "i < length g"; cases "x = i") (auto simp: upd_def list_update_beyond)
  then show ?thesis unfolding attach_def by (simp add: config_of_def resource_config.defs)
qed

text \<open>
  The loop of \<^verbatim>\<open>CloneChain\<close>: the copies form one chain from the copy \<open>r\<close> of the resource up to \<open>t\<close>,
  behind the unchanged original store.
\<close>

definition clone_inv :: "resources \<Rightarrow> nat \<Rightarrow> nat list \<Rightarrow> nat \<Rightarrow> nat list \<Rightarrow> resources \<Rightarrow> bool" where
  "clone_inv h0 r origs t qs h \<longleftrightarrow> forest h \<and> length h0 \<le> t \<and> t < length h \<and> r < length h \<and> length h0 \<le> r
     \<and> rs_parent (h ! t) = None \<and> (\<forall>x < length h0. h ! x = h0 ! x)
     \<and> (\<forall>x < length h. length h0 \<le> x \<longrightarrow> under h x t) \<and> ancestors h r qs
     \<and> map (\<lambda>x. kind (h ! x)) (r # qs) = map (\<lambda>x. kind (h0 ! x)) origs"

lemma fresh_ancestors:
  assumes "forest h" "fresh h p h'" "ancestors h x ps" "x < length h"
  shows "ancestors h' x ps"
proof (rule ancestors_agree [OF assms(3)], rule ballI)
  fix y assume "y \<in> set (x # ps)"
  then have "y < length h" using ancestors_in_store [OF assms(3,1,4)] assms(4) by auto
  with assms(2) show "path_core (h' ! y) = path_core (h ! y)" by (simp add: fresh_def)
qed

lemma clone_inv_step:
  assumes "clone_inv h0 r origs t qs h" "p < length h0" "Clone w p h = (p', h1)"
  shows "clone_inv h0 r (origs @ [p]) p' (qs @ [p']) (AddChild t [False] p' h1)"
proof -
  have f: "forest h" and t: "length h0 \<le> t" "t < length h" "rs_parent (h ! t) = None"
    and r: "length h0 \<le> r" "r < length h" and pre: "\<And>x. x < length h0 \<Longrightarrow> h ! x = h0 ! x"
    and below: "\<And>x. x < length h \<Longrightarrow> length h0 \<le> x \<Longrightarrow> under h x t" and qs: "ancestors h r qs"
    and kinds: "map (\<lambda>x. kind (h ! x)) (r # qs) = map (\<lambda>x. kind (h0 ! x)) origs"
    using assms(1) by (auto simp: clone_inv_def)
  note c = Clone_spec [OF f assms(3)]
  have f1: "forest h1" and p': "p' = length h" "p' < length h1" "links (h1 ! p') = (None, [])"
    and keep: "\<And>x. x < length h \<Longrightarrow> h1 ! x = h ! x" using c(1) by (auto simp: fresh_def)
  have root: "rs_parent (h1 ! p') = None" using p'(3) by (simp add: links_def)
  have at: "attachable h1 t p'"
    using t p' keep under_root [OF root] by (auto simp: attachable_def)
  have a: "AddChild t [False] p' h1 = attach t p' h1" by (simp add: AddChild_attach OptionalArg_def)
  have anc1: "ancestors h1 x ps" if "ancestors h x ps" "x < length h" for x ps
    using fresh_ancestors [OF f c(1) that] .
  have up: "under (attach t p' h1) x p'" if x: "x < length h" "length h0 \<le> x" for x
  proof -
    have "under h1 x t" using below [OF x] anc1 [OF _ x(1)] unfolding under_def by blast
    moreover obtain ps where "ancestors h x ps" using forest_ancestors [OF f x(1)] by blast
    ultimately have "ancestors (attach t p' h1) x (ps @ p' # [])"
      using attach_ancestors_below [OF at f1, of "[]"] anc1 [OF _ x(1)] root p' x(1) by simp
    then show ?thesis unfolding under_def by force
  qed
  have "ancestors (attach t p' h1) r (qs @ [p'])"
    using attach_ancestors_below [OF at f1, of "[]" r qs] root anc1 [OF qs r(2)] r p'
      below [OF r(2,1)] anc1 [OF _ r(2)] unfolding under_def by force
  moreover have "rs_parent (attach t p' h1 ! p') = None"
    using attach_parent [OF at f1 p'(2)] root t p' by simp
  moreover have "\<forall>x < length h0. attach t p' h1 ! x = h0 ! x"
    using attach_other [OF at f1] t p' keep pre by simp
  moreover have "under (attach t p' h1) x p'" if "x < length (attach t p' h1)" "length h0 \<le> x" for x
    using that up [of x] under_refl [OF forest_attach [OF at f1], of p'] p' c(1) by (cases "x = p'") (auto simp: fresh_def)
  moreover have "map (\<lambda>x. kind (attach t p' h1 ! x)) (r # qs @ [p']) = map (\<lambda>x. kind (h0 ! x)) (origs @ [p])"
  proof -
    have "map (\<lambda>x. kind (h1 ! x)) (r # qs) = map (\<lambda>x. kind (h ! x)) (r # qs)"
      using keep r(2) ancestors_in_store [OF qs f r(2)] by auto
    then show ?thesis using kinds c(2) pre [OF assms(2)] by (simp only: attach_kind) simp
  qed
  ultimately show ?thesis
    unfolding a using forest_attach [OF at f1] p' t r by (simp add: clone_inv_def)
qed

lemma clone_ancestors_inv:
  "clone_inv h0 r origs t qs h \<Longrightarrow> set ps \<subseteq> {..<length h0} \<Longrightarrow> clone_ancestors w ps t h = (t', h')
   \<Longrightarrow> \<exists>qs'. clone_inv h0 r (origs @ ps) t' qs' h'"
proof (induction ps arbitrary: origs t qs h)
  case (Cons p ps)
  obtain p' h1 where c: "Clone w p h = (p', h1)" by fastforce
  have "clone_inv h0 r (origs @ [p]) p' (qs @ [p']) (AddChild t [False] p' h1)"
    using clone_inv_step [OF Cons.prems(1) _ c] Cons.prems(2) by simp
  from Cons.IH [OF this] Cons.prems(2,3) c show ?case by simp
qed auto

lemma CloneChain_spec:
  assumes "wf_tree h" "r < length h" "CloneChain w r h = (r', h')"
  shows "wf_tree h'" "\<forall>x < length h. h' ! x = h ! x" "r' < length h'" "length h \<le> r'"
    "\<exists>qs. ancestors h' r' qs \<and> map (\<lambda>x. kind (h' ! x)) (r' # qs) = map (\<lambda>x. kind (h ! x)) (r # chain_up (length h) h r)"
proof -
  have f: "forest h" using assms(1) by (simp add: wf_tree_def)
  let ?ps = "chain_up (length h) h r" and ?x = "h ! r"
  obtain h1 where n: "NewResource (resourceType ?x) [config_of ?x] h = (r', h1)"
    using assms(3) by (auto simp: CloneChain_def Let_def split: prod.splits)
  define h2 where "h2 = (if rc_HasId ?x then SetId (rc_Id ?x) [] r' h1 else h1)"
  note c = fresh_copy [OF f refl n h2_def]
  obtain t h3 where l: "clone_ancestors w ?ps r' h2 = (t, h3)" by fastforce
  have h': "h' = RebuildPaths h3 t"
    using assms(3) n l unfolding CloneChain_def Let_def h2_def by simp
  have ps: "ancestors h r ?ps" using chain_up_forest [OF f assms(2)] .
  have "clone_inv h r' [r] r' [] h2"
    using c under_refl [of h2 r'] by (auto simp: clone_inv_def fresh_def links_def less_Suc_eq)
  from clone_ancestors_inv [OF this _ l] ancestors_in_store [OF ps f assms(2)]
  obtain qs where inv: "clone_inv h r' (r # ?ps) t qs h3" by auto
  then have f3: "forest h3" "t < length h3" and r': "r' < length h3" "length h \<le> r'"
    and keep: "\<And>x. x < length h \<Longrightarrow> h3 ! x = h ! x" and qs: "ancestors h3 r' qs" 
    and below: "\<And>x. x < length h3 \<Longrightarrow> length h \<le> x \<Longrightarrow> under h3 x t"
    and root: "rs_parent (h3 ! t) = None" "length h \<le> t" 
    by (auto simp: clone_inv_def)
  note spec = RebuildPaths_spec [OF f3]
  have agree: "under h x y \<Longrightarrow> path_core (h3 ! y) = path_core (h ! y)" if "x < length h" for x y
    using under_in_store [OF f that] keep by simp
  have old: "x < length h" if "x < length h3" "\<not> under h3 x t" for x
    using below that by (meson not_less)
  have "consistent_at h3 x" if x: "x < length h3" "\<not> under h3 x t" for x
    using consistent_agree [OF assms(1) f3(1) old [OF x] x(1)] agree [OF old [OF x]] by blast
  then show "wf_tree h'" unfolding h' using wf_tree_rebuild [OF f3] by blast
  have "\<not> under h3 x t" if x: "x < length h" for x
  proof
    assume u: "under h3 x t"
    obtain as where as: "ancestors h x as" using forest_ancestors [OF f x] by blast
    have "\<forall>y \<in> set (x # as). path_core (h3 ! y) = path_core (h ! y)" using agree [OF x] as unfolding under_def by blast
    from ancestors_agree [OF as this] u have "t \<in> set (x # as)" unfolding under_def using ancestors_fun by blast
    with ancestors_in_store [OF as f x] x root(2) show False by auto
  qed
  with spec(2) keep r' show "\<forall>x < length h. h' ! x = h ! x" unfolding h' by force
  show "r' < length h'" "length h \<le> r'" unfolding h' using RebuildPaths_linked(2) [OF f3] r' by simp_all
  have sh: "kind (h' ! x) = kind (h3 ! x)" if "x < length h3" for x
    using same_nth [OF spec(1) [symmetric] that] unfolding h' by (simp add: shape_def)
  have "ancestors h' r' qs"
    unfolding h' using linked_ancestors [OF same_linked [OF spec(1) [symmetric]] f3(1) qs r'(1)] .
  moreover have "map (\<lambda>x. kind (h' ! x)) (r' # qs) = map (\<lambda>x. kind (h3 ! x)) (r' # qs)"
    using sh r'(1) ancestors_in_store [OF qs f3(1) r'(1)] by auto
  ultimately show "\<exists>qs. ancestors h' r' qs \<and>
      map (\<lambda>x. kind (h' ! x)) (r' # qs) = map (\<lambda>x. kind (h ! x)) (r # ?ps)"
    using inv [unfolded clone_inv_def] by (intro exI [of _ qs] conjI) (simp_all only:)
qed

section \<open>Filling the ids of a chain\<close>

text \<open>
  \<^verbatim>\<open>BuildActualPath\<close> computes the path of a chain for given ids without changing the resources;
  \<^verbatim>\<open>FillActualPaths\<close> stores the ids and rebuilds the paths.
\<close>

definition filled :: "(string \<times> string) list \<Rightarrow> resource \<Rightarrow> resource" where
  "filled ids x =
     (if rc_HasId x then (case map_get ids (resourceType x) of Some i \<Rightarrow> x\<lparr>rc_Id := i\<rparr> | None \<Rightarrow> x) else x)"

lemma SetId_False_shape:
  assumes "forest h" "r < length h" "rc_HasId (h ! r)"
  shows "same (SetId v [False] r h) (h[r := (h ! r)\<lparr>rc_Id := v\<rparr>])"
proof -
  let ?g = "h[r := (h ! r)\<lparr>rc_Id := v\<rparr>]"
  have l: "linked h ?g" using linked_update [of "(h ! r)\<lparr>rc_Id := v\<rparr>" h r] by (simp add: links_def)
  have g: "forest ?g" "r < length ?g" using linked_forest [OF l assms(1)] assms(2) by simp_all
  have "(h ! r)\<lparr>rc_Id := v, rc_HasId := True\<rparr> = (h ! r)\<lparr>rc_Id := v\<rparr>" using assms(3) by simp
  then have "SetId v [False] r h = (if v = [] then ?g else RebuildPaths ?g r)"
    using assms(2) by (simp add: SetId_def SetHasId_def upd_def OptionalArg_def Let_def)
  then show ?thesis using RebuildPaths_spec(1) [OF g] by simp
qed

lemma fill_actual_shape:
  "ancestors h r ps \<Longrightarrow> wf_outside h r \<Longrightarrow> length ps < n
   \<Longrightarrow> linked (fill_actual n ids r h) h \<and>
     (\<forall>x < length h. shape (fill_actual n ids r h ! x) = shape (if x \<in> set (r # ps) then filled ids (h ! x) else h ! x))"
proof (induction n arbitrary: h r ps)
  case (Suc n)
  have f: "forest h" "r < length h" using Suc.prems(2) by (simp_all add: wf_outside_def)
  let ?h = "if rc_HasId (h ! r) then
              (case map_get ids (resourceType (h ! r)) of Some i \<Rightarrow> SetId i [False] r h | None \<Rightarrow> h) else h"
  have o: "wf_outside ?h r" and l: "linked ?h h"
    using wf_outside_SetId [OF Suc.prems(2)] Suc.prems(2) by (auto split: option.split)
  have sh: "same ?h (h[r := filled ids (h ! r)])"
    using SetId_False_shape [OF f] by (auto simp: filled_def split: option.split)
  have ps: "ancestors ?h r ps" using linked_ancestors [OF l [symmetric] f(1) Suc.prems(1) f(2)] .
  have d: "r \<notin> set ps" using ancestors_distinct [OF Suc.prems(1)] by simp
  have len: "length ?h = length h" using linked_length [OF l] .
  have one: "shape (?h ! x) = shape (if x = r then filled ids (h ! x) else h ! x)" if "x < length h" for x
    using same_nth [OF sh] that len by simp
  show ?case
  proof (cases "rs_parent (?h ! r)")
    case None
    then have e: "fill_actual (Suc n) ids r h = RebuildPaths ?h r" by (simp add: Let_def)
    have fh: "forest ?h" "r < length ?h" using o by (simp_all add: wf_outside_def)
    have "ps = []" using ps None by (cases ps) auto
    moreover note s = RebuildPaths_spec(1) [OF fh]
    moreover have "shape (RebuildPaths ?h r ! x) = shape (?h ! x)" if "x < length h" for x
      using same_nth [OF s [symmetric]] that len by simp
    ultimately show ?thesis unfolding e using same_linked [OF s] l one by simp
  next
    case (Some p)
    then have e: "fill_actual (Suc n) ids r h = fill_actual n ids p ?h" by (simp add: Let_def)
    from Some ps obtain qs where qs: "ps = p # qs" "ancestors ?h p qs" by (cases ps) auto
    with Suc.prems(3) have "length qs < n" by simp
    note IH = Suc.IH [OF qs(2) wf_outside_parent [OF o Some] this]
    have "shape (fill_actual n ids p ?h ! x) = shape (if x \<in> set (r # ps) then filled ids (h ! x) else h ! x)"
      if x: "x < length h" for x
    proof -
      have fl: "shape (filled ids y) = shape (filled ids z)" if "shape y = shape z" for y z
        using that shape_eqD [OF that]
        by (auto simp: filled_def shape_def config_of_def resource_config.defs split: option.split)
      have "shape (fill_actual n ids p ?h ! x) = shape (if x \<in> set ps then filled ids (?h ! x) else ?h ! x)"
        using IH x len qs(1) by simp
      then show ?thesis using one [OF x] fl [of "?h ! x" "h ! x"] d
        by (cases "x = r"; cases "x \<in> set ps") (simp_all split del: if_split)
    qed
    with IH l show ?thesis unfolding e by simp
  qed
qed simp

definition segment :: "(string \<times> string) list \<Rightarrow> resource \<Rightarrow> string" where
  "segment ids x = CHR ''/'' # (if rc_HasId x then
     (case map_get ids (resourceType x) of Some i \<Rightarrow> i | None \<Rightarrow> []) else resourceType x)"

lemma build_actual_ancestors:
  "ancestors h r ps \<Longrightarrow> length ps < n
   \<Longrightarrow> build_actual n h ids False r = concat (map (\<lambda>x. segment ids (h ! x)) (rev (r # ps)))"
proof (induction arbitrary: n rule: ancestors.induct)
  case (root r)
  then obtain m where "n = Suc m" by (cases n) auto
  with root show ?case by (simp add: segment_def ConcatStrings_def split: option.split)
next
  case (step r p ps)
  then obtain m where n: "n = Suc m" by (cases n) auto
  with step have "build_actual m h ids False p = concat (map (\<lambda>x. segment ids (h ! x)) (rev (p # ps)))" by simp
  moreover have "\<dots> \<noteq> []" by (simp add: segment_def)
  ultimately show ?case using step.hyps(1) n
    by (simp add: segment_def ConcatStrings_def Let_def split: option.split)
qed

definition ids_complete :: "(string \<times> string) list \<Rightarrow> resource \<Rightarrow> bool" where
  "ids_complete ids x \<longleftrightarrow> (rc_HasId x \<longrightarrow>
     (case map_get ids (resourceType x) of None \<Rightarrow> False | Some i \<Rightarrow> i \<noteq> [] \<or> \<not> rc_Tenancy x))"

lemma filled_segment: "ids_complete ids x \<Longrightarrow> snd (own_paths (filled ids x)) = segment ids x"
  by (auto simp: ids_complete_def filled_def own_paths_def segment_def ConcatStrings_def Let_def split: option.splits)

section \<open>Operations of a resource\<close>

lemma compact_filter:
  "i \<le> j \<Longrightarrow> j + n = length ops
   \<Longrightarrow> (case compact keep ops i j n of (ops', k) \<Rightarrow> take k ops') = take i ops @ filter keep (drop j ops)"
proof (induction n arbitrary: ops i j)
  case (Suc n)
  then have d: "drop j ops = ops ! j # drop (Suc j) ops" by (simp add: Cons_nth_drop_Suc)
  have "take (Suc i) (ops[i := ops ! j]) = take i ops @ [ops ! j]"
    using Suc.prems by (simp add: take_Suc_conv_app_nth)
  moreover have "drop (Suc j) (ops[i := ops ! j]) = drop (Suc j) ops" using Suc.prems by simp
  ultimately show ?case
    using Suc.IH [of "Suc i" "Suc j" "ops[i := ops ! j]"] Suc.IH [of i "Suc j" ops] Suc.prems d by simp
qed simp

lemma compacted_filter: "compacted keep ops = filter keep ops"
  using compact_filter [of 0 0 "length ops" ops keep] by (simp add: compacted_def)

text \<open>\<open>all_operations\<close> are the operations that \<^verbatim>\<open>EachOperation\<close> visits, in its order.\<close>

lemma each_until_ok:
  assumes "\<And>x s. x \<in> set xs \<Longrightarrow> run_state (f x) s = (None, s @ g x)"
  shows "run_state (each_until f xs) s = (None, s @ concat (map g xs))"
  using assms by (induction xs arbitrary: s) auto

lemma EachOperation_visits:
  "run_state (EachOperation n h (\<lambda>op. State (\<lambda>s. (None, s @ [op]))) True r) s = (None, s @ all_operations n h r)"
proof (induction n arbitrary: r s)
  case (Suc n)
  have "run_state (each_until (\<lambda>op. State (\<lambda>s. (None, s @ [op]))) (rs_operations (h ! r))) s
      = (None, s @ rs_operations (h ! r))"
    using each_until_ok [of "rs_operations (h ! r)" "\<lambda>op. State (\<lambda>s. (None, s @ [op]))" "\<lambda>op. [op]"] by simp
  then show ?case
    using each_until_ok [of "rs_children (h ! r)"
        "EachOperation n h (\<lambda>op. State (\<lambda>s. (None, s @ [op]))) True" "all_operations n h"] Suc.IH
    by simp
qed simp

section \<open>Properties\<close>

text \<open>Two resources, \<open>/api\<close> and \<open>/api/:user\<close>, for the concrete instances below.\<close>

definition demo_roots :: resources where
  "demo_roots = snd (NewResource ''user'' [zero_config\<lparr>rc_HasId := True\<rparr>] (snd (NewResource ''api'' [] [])))"

definition demo_tree :: resources where
  "demo_tree = AddChild 1 [] 0 demo_roots"

lemma demo_attachable: "attachable demo_roots 1 0"
proof -
  have "rs_parent (demo_roots ! 0) = None" "rs_parent (demo_roots ! 1) = None" "length demo_roots = 2"
    by code_simp+
  then show ?thesis using under_root [of demo_roots 0 1] by (simp add: attachable_def)
qed

lemma demo_built: "built demo_tree"
  unfolding demo_tree_def
  by (rule built.child [OF _ demo_attachable]) (simp add: demo_roots_def built.intros)

lemma demo_length: "length demo_tree = 2"
  by code_simp



text \<open>More fuel than there are resources changes nothing: every walk over the pointers has come to its end.\<close>

lemma walks_up_fuel:
  assumes "ancestors h r ps" "length ps < n" "length ps < m"
  shows "res_Host n h r = res_Host m h r \<and> IsServicePart n h r = IsServicePart m h r
    \<and> ServiceResource n h r = ServiceResource m h r \<and> chain_up n h r = chain_up m h r
    \<and> build_actual n h ids sp r = build_actual m h ids sp r"
  using assms
proof (induction arbitrary: n m rule: ancestors.induct)
  case (root r)
  then obtain n' m' where "n = Suc n'" "m = Suc m'" by (meson less_natE)
  with root show ?case by simp
next
  case (step r p ps)
  then obtain n' m' where nm: "n = Suc n'" "m = Suc m'" by (meson less_natE)
  from step.IH [of n' m'] step.prems have "res_Host n' h p = res_Host m' h p" "IsServicePart n' h p = IsServicePart m' h p"
    "ServiceResource n' h p = ServiceResource m' h p" "chain_up n' h p = chain_up m' h p"
    "build_actual n' h ids sp p = build_actual m' h ids sp p" by (simp_all add: nm)
  then show ?case using step.hyps(1) by (simp add: nm)
qed

lemma enough_below:
  assumes "forest h" "r < length h" "ancestors h r ps" "length h \<le> length ps + n"
  obtains n' where "n = Suc n'"
    "\<And>c. c \<in> set (rs_children (h ! r)) \<Longrightarrow> c < length h \<and> ancestors h c (r # ps) \<and> length h \<le> length (r # ps) + n'"
proof (cases n)
  case 0
  with ancestors_bound [OF assms(3,1,2)] assms(4) show thesis by simp
next
  case (Suc n')
  then show thesis using that [of n'] forest_child [OF assms(1,2)] assms(3,4) by (auto intro: ancestors.step)
qed

lemma each_until_cong: "(\<And>x. x \<in> set xs \<Longrightarrow> f x = g x) \<Longrightarrow> each_until f xs = each_until g xs"
  by (induction xs) (simp_all cong: if_cong)

lemma walks_down_fuel:
  assumes "forest h"
  shows "\<lbrakk>ancestors h r ps; r < length h; length h \<le> length ps + n; length h \<le> length ps + m\<rbrakk>
    \<Longrightarrow> all_operations n h r = all_operations m h r
      \<and> EachOperation n h handler recursive r = EachOperation m h handler recursive r"
proof (induction n arbitrary: r ps m recursive)
  case 0
  then show ?case using ancestors_bound [OF _ assms] by fastforce
next
  case (Suc n)
  obtain m' where m: "m = Suc m'" by (rule enough_below [OF assms Suc.prems(2,1,4)])
  have c: "all_operations n h c = all_operations m' h c \<and> EachOperation n h handler True c = EachOperation m' h handler True c"
    if "c \<in> set (rs_children (h ! r))" for c
    using that forest_child [OF assms Suc.prems(2) that] Suc.prems by (intro Suc.IH [of c "r # ps"]) (auto simp: m)
  then have "map (all_operations n h) (rs_children (h ! r)) = map (all_operations m' h) (rs_children (h ! r))" by simp
  moreover have "each_until (EachOperation n h handler True) (rs_children (h ! r))
    = each_until (EachOperation m' h handler True) (rs_children (h ! r))" using c by (intro each_until_cong) blast
  ultimately show ?case unfolding m all_operations.simps EachOperation.simps by (simp only:)
qed

lemma rebuild_fuel:
  assumes "forest h"
  shows "\<lbrakk>ancestors h r ps; r < length h; length h \<le> length ps + n; length h \<le> length ps + m; same g h\<rbrakk>
    \<Longrightarrow> rebuild n g r = rebuild m g r"
proof (induction n arbitrary: r ps m g)
  case 0
  then show ?case using ancestors_bound [OF _ assms] by fastforce
next
  case (Suc n)
  obtain m' where m: "m = Suc m'" by (rule enough_below [OF assms Suc.prems(2,1,4)])
  have eq: "foldl (rebuild n) g' cs = foldl (rebuild m') g' cs" if "set cs \<subseteq> set (rs_children (h ! r))" "same g' h" for cs g'
    using that
  proof (induction cs arbitrary: g')
    case (Cons c cs)
    have "rebuild n g' c = rebuild m' g' c"
      using Cons.prems forest_child [OF assms Suc.prems(2), of c] Suc.prems by (intro Suc.IH [of c "r # ps"]) (auto simp: m)
    moreover have "same (rebuild m' g' c) h" using rebuild_same [of m' g' c] Cons.prems(2) by simp
    ultimately show ?case using Cons by simp
  qed simp
  have "rs_children (g ! r) = rs_children (h ! r)" "r < length g"
    using same_fields(8) [OF Suc.prems(5)] same_length [OF Suc.prems(5)] Suc.prems(2) by auto
  moreover have "same (g[r := rebuild_one g r]) h"
    using Suc.prems(5) by (simp add: map_update list_update_id) (metis list_update_id map_update rebuild_one_shape)
  ultimately show ?case unfolding m rebuild.simps by (simp add: eq)
qed



text \<open>
  The full path of a resource is the concatenation of the paths of its chain, from the root down to
  the resource, both for the prototypes and for the actual paths.
\<close>

theorem full_paths:
  assumes "built h" "r < length h"
  shows "fullPathPrototype (h ! r) = concat (map (\<lambda>x. pathPrototype (h ! x)) (Chain h r @ [r]))
    \<and> fullActualPath (h ! r) = concat (map (\<lambda>x. actualPath (h ! x)) (Chain h r @ [r]))"
proof -
  have w: "wf_tree h" using built_wf_tree [OF assms(1)] .
  then have f: "forest h" by (simp add: wf_tree_def)
  have ps: "ancestors h r (chain_up (length h) h r)" using chain_up_forest [OF f assms(2)] .
  have "x < length h" if "x \<in> set (Chain h r @ [r])" for x
    using that ancestors_in_store [OF ps f assms(2)] assms(2) by (auto simp: Chain_def)
  then have "map (\<lambda>x. pathPrototype (h ! x)) (Chain h r @ [r]) = map (\<lambda>x. fst (own_paths (h ! x))) (Chain h r @ [r])"
    "map (\<lambda>x. actualPath (h ! x)) (Chain h r @ [r]) = map (\<lambda>x. snd (own_paths (h ! x))) (Chain h r @ [r])"
    using consistent_fields [OF w] by auto
  then show ?thesis using full_paths_ancestors [OF w ps assms(2)] by (simp only: Chain_def rev.simps)
qed

theorem full_paths_witness:
  "fullPathPrototype (demo_tree ! 1) = ''/api/:user'' \<and> Chain demo_tree 1 = [0]
   \<and> concat (map (\<lambda>x. pathPrototype (demo_tree ! x)) [0, 1]) = ''/api/:user''"
proof -
  have c: "Chain demo_tree 1 = [0]" by code_simp
  have f: "fullPathPrototype (demo_tree ! 1) = ''/api/:user''" by code_simp
  show ?thesis using full_paths [OF demo_built, of 1] c f by (simp add: demo_length)
qed

text \<open>
  Copying the chain of a resource changes none of the existing resources, and the copy is well formed
  and has the full path, prototype and actual, of the resource it was made from.
\<close>

theorem clone_chain:
  assumes "built h" "r < length h" "CloneChain withOperations r h = (r', h')"
  shows "(\<forall>x < length h. h' ! x = h ! x) \<and> forest h' \<and> consistent h'
    \<and> fullPathPrototype (h' ! r') = fullPathPrototype (h ! r) \<and> fullActualPath (h' ! r') = fullActualPath (h ! r)"
proof -
  have w: "wf_tree h" using built_wf_tree [OF assms(1)] .
  then have f: "forest h" by (simp add: wf_tree_def)
  note c = CloneChain_spec [OF w assms(2,3)]
  obtain qs where qs: "ancestors h' r' qs" and
    k: "map (\<lambda>x. kind (h' ! x)) (r' # qs) = map (\<lambda>x. kind (h ! x)) (r # chain_up (length h) h r)"
    using c(5) by blast
  have "map g xs = map g' ys" if "map (\<lambda>x. kind (h' ! x)) xs = map (\<lambda>x. kind (h ! x)) ys"
    "\<And>x y. kind (h' ! x) = kind (h ! y) \<Longrightarrow> g x = g' y" for g g' :: "nat \<Rightarrow> string" and xs ys
    using that(1)
  proof (induction xs arbitrary: ys)
    case (Cons x xs) then show ?case using that(2) by (cases ys) auto
  qed simp
  from this [OF k] own_paths_kind
  have "map (\<lambda>x. fst (own_paths (h' ! x))) (r' # qs) = map (\<lambda>x. fst (own_paths (h ! x))) (r # chain_up (length h) h r)"
    "map (\<lambda>x. snd (own_paths (h' ! x))) (r' # qs) = map (\<lambda>x. snd (own_paths (h ! x))) (r # chain_up (length h) h r)"
    by metis+
  then show ?thesis
    using c(1,2) full_paths_ancestors [OF c(1) qs c(3)]
      full_paths_ancestors [OF w chain_up_forest [OF f assms(2)] assms(2)]
    by (simp only: wf_tree_def rev_map [symmetric])
qed

theorem clone_chain_witness:
  "fullPathPrototype (snd (CloneChain False 1 demo_tree) ! fst (CloneChain False 1 demo_tree)) = ''/api/:user''
   \<and> snd (CloneChain False 1 demo_tree) ! 0 = demo_tree ! 0"
proof -
  have "fullPathPrototype (demo_tree ! 1) = ''/api/:user''" by code_simp
  then show ?thesis
    using clone_chain [OF demo_built, of 1 False "fst (CloneChain False 1 demo_tree)" "snd (CloneChain False 1 demo_tree)"]
    by (simp add: demo_length)
qed

text \<open>
  If the ids of all resources with an id in the chain are given, the path that
  \<^verbatim>\<open>BuildActualPath\<close> computes without changing the tree is the full actual path of the resource after
  \<^verbatim>\<open>FillActualPaths\<close> stored the ids in the tree.
\<close>

theorem fill_builds_path:
  assumes "built h" "r < length h" "\<And>x. x \<in> set (Chain h r @ [r]) \<Longrightarrow> ids_complete ids (h ! x)"
  shows "fullActualPath (FillActualPaths ids r h ! r) = BuildActualPath h r ids []"
proof -
  have w: "wf_tree h" using built_wf_tree [OF assms(1)] .
  then have f: "forest h" by (simp add: wf_tree_def)
  define ps where "ps = chain_up (length h) h r"
  have ps: "ancestors h r ps" using chain_up_forest [OF f assms(2)] by (simp add: ps_def)
  note b = ancestors_bound [OF ps f assms(2)]
  let ?h = "FillActualPaths ids r h"
  note s = fill_actual_shape [OF ps wf_outside_tree [OF w assms(2)] b, of ids, folded FillActualPaths_def]
  have w': "wf_tree ?h" using wf_tree_FillActualPaths [OF w assms(2)] .
  have ps': "ancestors ?h r ps" using linked_ancestors [OF _ f ps assms(2)] s by simp
  have r': "r < length ?h" using linked_length s assms(2) by metis
  have "snd (own_paths (?h ! x)) = segment ids (h ! x)" if x: "x \<in> set (r # ps)" for x
  proof -
    have "x < length h" using x ancestors_in_store [OF ps f assms(2)] assms(2) by auto
    with s x have "own_paths (?h ! x) = own_paths (filled ids (h ! x))" by (intro own_paths_shape) simp
    then show ?thesis using filled_segment [OF assms(3)] x by (simp add: Chain_def ps_def)
  qed
  then have "map (\<lambda>x. snd (own_paths (?h ! x))) (rev (r # ps)) = map (\<lambda>x. segment ids (h ! x)) (rev (r # ps))"
    by (intro map_cong) auto
  moreover have "BuildActualPath h r ids [] = build_actual (length h) h ids False r"
    by (simp add: BuildActualPath_def OptionalArg_def)
  ultimately show ?thesis
    using full_paths_ancestors [OF w' ps' r'] build_actual_ancestors [OF ps b, of ids] by (simp only:)
qed

theorem fill_builds_path_witness:
  "fullActualPath (FillActualPaths [(''user'', ''u1'')] 1 demo_tree ! 1) = ''/api/u1''"
proof -
  have c: "Chain demo_tree 1 = [0]" by code_simp
  have b: "BuildActualPath demo_tree 1 [(''user'', ''u1'')] [] = ''/api/u1''" by code_simp
  have "ids_complete [(''user'', ''u1'')] (demo_tree ! 0)" "ids_complete [(''user'', ''u1'')] (demo_tree ! 1)"
    by code_simp+
  then show ?thesis
    using fill_builds_path [OF demo_built, of 1 "[(''user'', ''u1'')]"] c b by (auto simp: demo_length)
qed

text \<open>
  Removing operations, which compacts the slice of operations in place, keeps exactly the operations
  with another access type or name, in their order.
\<close>

theorem remove_operations:
  assumes "r < length h"
  shows "rs_operations (RemoveOperations a r h ! r) = filter (\<lambda>op. op_accessType op \<noteq> a) (rs_operations (h ! r))
    \<and> rs_operations (RemoveOperation n r h ! r) = filter (\<lambda>op. op_name op \<noteq> n) (rs_operations (h ! r))"
  using assms by (simp add: RemoveOperations_def RemoveOperation_def upd_def compacted_filter)

theorem remove_operations_witness:
  "rs_operations (RemoveOperation ''a'' 0 (AddOperations [NewOperation ''a'' 1 [], NewOperation ''b'' 1 []] 0 demo_tree) ! 0)
     = [NewOperation ''b'' 1 []\<lparr>op_resource := Some 0\<rparr>]"
proof -
  have "rs_operations (AddOperations [NewOperation ''a'' 1 [], NewOperation ''b'' 1 []] 0 demo_tree ! 0)
      = [NewOperation ''a'' 1 []\<lparr>op_resource := Some 0\<rparr>, NewOperation ''b'' 1 []\<lparr>op_resource := Some 0\<rparr>]"
    by code_simp
  then show ?thesis
    using remove_operations [of 0 "AddOperations [NewOperation ''a'' 1 [], NewOperation ''b'' 1 []] 0 demo_tree"]
    by (simp add: AddOperations_nth demo_length NewOperation_def)
qed

end
