(* ===== verification/Pool_Routes.thy ===== *)
theory Pool_Routes
  imports Pool_Client Client_Laws Resource_Paths
begin

text \<open>
  The client and the service of pools meet: what the client sends is what the service has a route for, and the
  identifiers arrive.
\<close>

section \<open>The resources of the client and of the service\<close>

text \<open>The stores are built step by step, so that each step is evaluated on a known store.\<close>

definition pool_store1 :: resources where
  "pool_store1 = snd (PrepareCollectionAndNameResource ''pool'' [])"

definition pool_store2 :: resources where
  "pool_store2 = AddChild 1 [] 2 (snd (ServiceBase_Init ''pools'' pool_store1))"

definition pool_store3 :: resources where
  "pool_store3 = AddChild 4 [] 2 (snd (PrepareCollectionAndNameResource ''service'' pool_store2))"

definition pool_ids :: pool_resources where
  "pool_ids = \<lparr>pr_Service = 2, pr_PoolsResource = Some 1, pr_PoolResource = 0, pr_ServicesResource = Some 4, pr_ServiceResource = 3\<rparr>"

lemma pool_steps:
  "PrepareCollectionAndNameResource ''pool'' [] = ((''pools'', Some 1, 0), pool_store1)"
  "fst (ServiceBase_Init ''pools'' pool_store1) = 2"
  "fst (PrepareCollectionAndNameResource ''service'' pool_store2) = (''services'', Some 4, 3)"
proof -
  have "fst (PrepareCollectionAndNameResource ''pool'' []) = (''pools'', Some 1, 0)" by code_simp
  then show "PrepareCollectionAndNameResource ''pool'' [] = ((''pools'', Some 1, 0), pool_store1)"
    by (simp add: pool_store1_def prod_eq_iff)
  show "fst (ServiceBase_Init ''pools'' pool_store1) = 2" by code_simp
  show "fst (PrepareCollectionAndNameResource ''service'' pool_store2) = (''services'', Some 4, 3)" by code_simp
qed

lemma add_pool_resources_base: "add_pool_resources ServiceBase_Init [] = (pool_ids, pool_store3)"
proof -
  obtain s where s: "ServiceBase_Init ''pools'' pool_store1 = (2, s)" using pool_steps(2) by (metis prod.collapse)
  obtain t where t: "PrepareCollectionAndNameResource ''service'' pool_store2 = ((''services'', Some 4, 3), t)"
    using pool_steps(3) by (metis prod.collapse)
  have p: "AddChild 1 [] 2 s = pool_store2" by (simp add: pool_store2_def s)
  show ?thesis
    by (simp add: add_pool_resources_def pool_steps(1) s t p with_collection_def pool_ids_def pool_store3_def Let_def del: One_nat_def)
qed

lemma add_pool_resources_client: "add_pool_resources ServiceClient_Init [] = (pool_ids, pool_store3)"
proof -
  have "ServiceClient_Init = ServiceBase_Init" by (simp add: fun_eq_iff ServiceClient_Init_def ServiceBase_Init_def)
  then show ?thesis by (simp add: add_pool_resources_base)
qed

definition pool_store4 :: resources where
  "pool_store4 = AddOperations [pool_UpdatePool, pool_DeletePool] 0 (AddOperation pool_FindPool [True] 0
     (AddOperations [pool_AddPool, pool_ListPools] 1 pool_store3))"

definition pool_store5 :: resources where
  "pool_store5 = AddChild 5 [] 0 (AddOperations [pool_ListPoolServices, pool_AddServiceToPool, pool_RemoveAllServicesFromPool] 5
     (snd (NewResource ''service'' [] pool_store4)))"

definition pool_store6 :: resources where
  "pool_store6 = AddChild 6 [] 5 (AddOperation pool_RemoveServiceFromPool [] 6 (snd (NamedResource ''role'' pool_store5)))"

definition pool_store7 :: resources where
  "pool_store7 = AddOperations [pool_UpdateService, pool_DeleteService] 3 (AddOperation pool_FindService [True] 3
     (AddOperations [pool_AddService, pool_ListServices] 4 pool_store6))"

definition pool_store8 :: resources where
  "pool_store8 = AddChild 8 [] 3 (AddOperations [pool_ListServicePools, pool_RemoveServiceFromAllPools] 8
     (snd (NewResource ''pool'' [] pool_store7)))"

lemma pool_service_steps:
  "fst (NewResource ''service'' [] pool_store4) = 5" "fst (NamedResource ''role'' pool_store5) = 6"
  "fst (NewResource ''pool'' [] pool_store7) = 8"
  by code_simp+

lemma NewPoolService_store: "NewPoolService [] = (pool_ids, pool_store8)"
proof -
  obtain s where s: "NewResource ''service'' [] pool_store4 = (5, s)" using pool_service_steps(1) by (metis prod.collapse)
  obtain t where t: "NamedResource ''role'' pool_store5 = (6, t)" using pool_service_steps(2) by (metis prod.collapse)
  obtain u where u: "NewResource ''pool'' [] pool_store7 = (8, u)" using pool_service_steps(3) by (metis prod.collapse)
  have ids: "pr_PoolsResource pool_ids = Some 1" "pr_PoolResource pool_ids = 0" "pr_ServicesResource pool_ids = Some 4"
    "pr_ServiceResource pool_ids = 3" by (simp_all add: pool_ids_def)
  note steps = pool_store4_def [symmetric] pool_store5_def [symmetric, unfolded s snd_conv]
    pool_store6_def [symmetric, unfolded t snd_conv] pool_store7_def [symmetric] pool_store8_def [symmetric, unfolded u snd_conv]
  show ?thesis
    unfolding NewPoolService_def add_pool_resources_base Let_def prod.case ids with_collection_def option.case
    by (simp only: steps s t u prod.case)
qed

definition service_operations :: "operation list" where
  "service_operations = map (\<lambda>(op, r). on_resource op (Some r))
     [(pool_AddPool, 1), (pool_ListPools, 1), (pool_FindPool, 0), (pool_UpdatePool, 0), (pool_DeletePool, 0),
      (pool_ListPoolServices, 5), (pool_AddServiceToPool, 5), (pool_RemoveAllServicesFromPool, 5),
      (pool_RemoveServiceFromPool, 6), (pool_AddService, 4), (pool_ListServices, 4), (pool_FindService, 3),
      (pool_UpdateService, 3), (pool_DeleteService, 3), (pool_ListServicePools, 8), (pool_RemoveServiceFromAllPools, 8)]"

lemma service_store:
  "all_operations 9 pool_store8 2 = service_operations" "length pool_store8 = 9"
  "map fullPathPrototype pool_store8 = [''/pools/pool/:pool'', ''/pools/pool'', ''/pools'', ''/pools/service/:service'',
     ''/pools/service'', ''/pools/pool/:pool/service'', ''/pools/pool/:pool/service/:role'', ''/role'', ''/pools/service/:service/pool'']"
  by code_simp+

section \<open>The routes of the server\<close>

definition route_of :: "'s server \<Rightarrow> 's endpoint \<Rightarrow> (string \<times> string) \<times> 's endpoint" where
  "route_of sv ep = ((Access2HttpMethod (op_accessType (ep_operation ep)),
     PATH_PREFIX sv @ ''/'' @ API_VERSION sv @ fullPathPrototype (sv_resources sv ! ep_resource sv ep)), ep)"

text \<open>Operations that can be attached outside testing: they have a method and are endpoints.\<close>

definition attachable_op :: "(operation \<Rightarrow> 's endpoint option) \<Rightarrow> operation \<Rightarrow> bool" where
  "attachable_op endpoint op \<longleftrightarrow> (\<exists>ep. endpoint op = Some ep \<and> ep_operation ep = op)
     \<and> \<not> op_testOnly op \<and> Access2HttpMethod (op_accessType op) \<noteq> []"

lemma attach_routes:
  assumes "\<forall>op \<in> set ops. attachable_op endpoint op"
  shows "\<exists>m. attach_operations endpoint [] ops sv
     = Some (sv\<lparr>sv_errors := m, sv_routes := sv_routes sv @ map (\<lambda>op. route_of sv (the (endpoint op))) ops\<rparr>, None)"
  using assms
proof (induction ops arbitrary: sv)
  case Nil
  have "sv = sv\<lparr>sv_errors := sv_errors sv, sv_routes := sv_routes sv\<rparr>" by simp
  then show ?case by (metis append_Nil2 attach_operations.simps(1) list.map(1))
next
  case (Cons op ops)
  then obtain ep where ep: "endpoint op = Some ep" "ep_operation ep = op" "\<not> op_testOnly op"
    "Access2HttpMethod (op_accessType op) \<noteq> []" by (auto simp: attachable_op_def)
  let ?sv = "sv\<lparr>sv_errors := AttachToErrorManager (ep_errors ep) (sv_errors sv), sv_routes := sv_routes sv @ [route_of sv ep]\<rparr>"
  have add: "AddEndpoint ep [] sv = Some ?sv"
    using ep by (simp add: AddEndpoint_def Let_def route_of_def ep_resource_def)
  have same: "route_of ?sv = route_of sv" by (simp add: fun_eq_iff route_of_def ep_resource_def)
  obtain m where "attach_operations endpoint [] ops ?sv
     = Some (?sv\<lparr>sv_errors := m, sv_routes := sv_routes ?sv @ map (\<lambda>op. route_of sv (the (endpoint op))) ops\<rparr>, None)"
    using Cons.IH [of ?sv] Cons.prems same by auto
  then show ?case using ep(1) add by auto
qed

definition pool_server :: "api_env \<Rightarrow> pool_codecs \<Rightarrow> ('z api_request_scheme) pool_controller
    \<Rightarrow> ('z api_request_scheme) server \<Rightarrow> ('z api_request_scheme) server option" where
  "pool_server en cds pc sv = (case NewPoolService [] of (ids, h) \<Rightarrow>
     AddServiceToServer (PoolEndpoint en cds pc) pool_errors (pr_Service ids) [] (sv\<lparr>sv_resources := h\<rparr>))"

lemma pool_handlers_distinct: "distinct (map fst pool_handlers)"
  by (simp add: pool_handlers_def pool_operations NewOperation_def op_UpdatePartial_def op_Unbind_def op_List_def
      op_Find_def op_Delete_def op_Add_def op_Bind_def)

lemma service_operations_base:
  "map (\<lambda>op. op\<lparr>op_resource := None\<rparr>) service_operations = map fst pool_handlers"
  by (simp add: service_operations_def on_resource_def pool_handlers_def pool_operations NewOperation_def op_UpdatePartial_def
      op_Unbind_def op_List_def op_Find_def op_Delete_def op_Add_def op_Bind_def)

lemma service_operations_methods:
  "\<forall>op \<in> set service_operations. \<not> op_testOnly op \<and> Access2HttpMethod (op_accessType op) \<noteq> []"
  unfolding Ball_set by code_simp

lemma pool_endpoint:
  assumes "op \<in> set service_operations"
  obtains handle where "(op\<lparr>op_resource := None\<rparr>, handle) \<in> set pool_handlers"
    "PoolEndpoint en cds pc op = Some \<lparr>ep_operation = op,
       ep_errors = \<lparr>errorDescriptions = None, errorProtocolCodes = None\<rparr>, ep_HandleRequest = handle en cds pc op\<rparr>"
proof -
  have "op\<lparr>op_resource := None\<rparr> \<in> set (map fst (pool_handlers :: (operation \<times> 'a api_request_scheme pool_handler) list))"
    unfolding service_operations_base [symmetric] using assms by auto
  then obtain handle :: "'a api_request_scheme pool_handler" where "(op\<lparr>op_resource := None\<rparr>, handle) \<in> set pool_handlers" by auto
  with that show thesis by (simp add: PoolEndpoint_def map_of_is_SomeI [OF pool_handlers_distinct])
qed

lemma service_attachable: "\<forall>op \<in> set service_operations. attachable_op (PoolEndpoint en cds pc) op"
proof
  fix op assume op: "op \<in> set service_operations"
  then show "attachable_op (PoolEndpoint en cds pc) op"
    using service_operations_methods by (auto simp: attachable_op_def intro: pool_endpoint [OF op, of en cds pc])
qed

lemma pool_server_routes:
  obtains sv' where "pool_server en cds pc sv = Some sv'" "PATH_PREFIX sv' = PATH_PREFIX sv" "API_VERSION sv' = API_VERSION sv"
    "sv_routes sv' = sv_routes sv @ map (\<lambda>op. route_of (sv\<lparr>sv_resources := pool_store8\<rparr>) (the (PoolEndpoint en cds pc op)))
       service_operations"
  using attach_routes [OF service_attachable, of en cds pc "sv\<lparr>sv_resources := pool_store8\<rparr>"]
  by (auto simp: pool_server_def NewPoolService_store AddServiceToServer_def AttachToServer_def service_store pool_ids_def)

section \<open>Patterns of routes\<close>

text \<open>
  How a router takes a path to a route: segment by segment, where a segment of the pattern that begins with a colon
  takes any segment that is not empty.
\<close>

fun segments :: "string \<Rightarrow> string list" where
  "segments [] = [[]]"
| "segments (c # cs) = (if c = CHR ''/'' then [] # segments cs
     else case segments cs of [] \<Rightarrow> [[c]] | x # xs \<Rightarrow> (c # x) # xs)"

fun match_segments :: "string list \<Rightarrow> string list \<Rightarrow> (string \<times> string) list option" where
  "match_segments [] [] = Some []"
| "match_segments (p # ps) (x # xs) =
     (if p \<noteq> [] \<and> hd p = CHR '':'' then
        (if x = [] then None else map_option (Cons (tl p, x)) (match_segments ps xs))
      else if p = x then match_segments ps xs else None)"
| "match_segments _ _ = None"

definition route_params :: "string \<Rightarrow> string \<Rightarrow> (string \<times> string) list option" where
  "route_params pattern path = match_segments (segments pattern) (segments path)"

definition is_id :: "string \<Rightarrow> bool" where
  "is_id i \<longleftrightarrow> i \<noteq> [] \<and> CHR ''/'' \<notin> set i"

lemma segments_id: "is_id i \<Longrightarrow> segments i = [i]"
proof -
  have "CHR ''/'' \<notin> set i \<Longrightarrow> segments i = [i]" for i by (induction i) auto
  then show "is_id i \<Longrightarrow> segments i = [i]" by (simp add: is_id_def)
qed

lemma segments_append: "segments (xs @ CHR ''/'' # ys) = segments xs @ segments ys"
proof (induction xs)
  case (Cons x xs)
  have "segments xs \<noteq> []" by (cases xs) (auto split: list.splits)
  then show ?case using Cons by (auto split: list.splits)
qed simp

section \<open>The requests of the client\<close>

text \<open>The operations with the pattern of their routes, the path of the request and the parameters that the router finds.\<close>

definition pool_paths :: "string \<Rightarrow> string \<Rightarrow> (operation \<times> string \<times> string \<times> (string \<times> string) list) list" where
  "pool_paths i role =
     (let named = (\<lambda>t. ''/pools/'' @ t @ ''/:'' @ t); path = (\<lambda>t. ''/pools/'' @ t @ ''/'' @ i) in
      [(pool_AddPool, ''/pools/pool'', ''/pools/pool'', []),
       (pool_ListPools, ''/pools/pool'', ''/pools/pool'', []),
       (pool_FindPool, named ''pool'', path ''pool'', [(''pool'', i)]),
       (pool_UpdatePool, named ''pool'', path ''pool'', [(''pool'', i)]),
       (pool_DeletePool, named ''pool'', path ''pool'', [(''pool'', i)]),
       (pool_ListPoolServices, named ''pool'' @ ''/service'', path ''pool'' @ ''/service'', [(''pool'', i)]),
       (pool_AddServiceToPool, named ''pool'' @ ''/service'', path ''pool'' @ ''/service'', [(''pool'', i)]),
       (pool_RemoveAllServicesFromPool, named ''pool'' @ ''/service'', path ''pool'' @ ''/service'', [(''pool'', i)]),
       (pool_RemoveServiceFromPool, named ''pool'' @ ''/service/:role'', path ''pool'' @ ''/service/'' @ role,
          [(''pool'', i), (''role'', role)]),
       (pool_AddService, ''/pools/service'', ''/pools/service'', []),
       (pool_ListServices, ''/pools/service'', ''/pools/service'', []),
       (pool_FindService, named ''service'', path ''service'', [(''service'', i)]),
       (pool_UpdateService, named ''service'', path ''service'', [(''service'', i)]),
       (pool_DeleteService, named ''service'', path ''service'', [(''service'', i)]),
       (pool_ListServicePools, named ''service'' @ ''/pool'', path ''service'' @ ''/pool'', [(''service'', i)]),
       (pool_RemoveServiceFromAllPools, named ''service'' @ ''/pool'', path ''service'' @ ''/pool'', [(''service'', i)])])"

lemma pool_paths_match:
  assumes "is_id i" "is_id role"
  shows "\<forall>(op, pattern, path, params) \<in> set (pool_paths i role). route_params pattern path = Some params"
proof -
  have "segments (i @ CHR ''/'' # ys) = i # segments ys" for ys by (simp add: segments_append segments_id assms)
  moreover have "i \<noteq> []" "role \<noteq> []" using assms by (simp_all add: is_id_def)
  ultimately show ?thesis
    by (simp add: pool_paths_def Let_def route_params_def segments_id [OF assms(1)] segments_id [OF assms(2)])
qed

lemma pool_paths_served:
  "map (\<lambda>(op, pattern, _). (op, pattern)) (pool_paths i role)
   = map (\<lambda>op. (op\<lparr>op_resource := None\<rparr>, fullPathPrototype (pool_store8 ! the (op_resource op)))) service_operations"
proof -
  have "fullPathPrototype (pool_store8 ! k) = map fullPathPrototype pool_store8 ! k" if "k < 9" for k
    using that service_store(2) by simp
  then show ?thesis
    unfolding service_store(3)
    by (simp add: pool_paths_def service_operations_def on_resource_def Let_def pool_operations NewOperation_def
        op_UpdatePartial_def op_Unbind_def op_List_def op_Find_def op_Delete_def op_Add_def op_Bind_def)
qed

lemma pool_route:
  assumes "(op, pattern, path, params) \<in> set (pool_paths i role)" "is_id i" "is_id role"
    and "pool_server en cds pc sv = Some sv'"
  shows "\<exists>ep handle. ((Access2HttpMethod (op_accessType op), PATH_PREFIX sv @ ''/'' @ API_VERSION sv @ pattern), ep) \<in> set (sv_routes sv')
    \<and> (op, handle) \<in> set pool_handlers \<and> ep_HandleRequest ep = handle en cds pc (ep_operation ep)
    \<and> route_params pattern path = Some params"
proof -
  have "(op, pattern) \<in> set (map (\<lambda>(op, pattern, _). (op, pattern)) (pool_paths i role))" using assms(1) by force
  then obtain op' where op': "op' \<in> set service_operations" "op = op'\<lparr>op_resource := None\<rparr>"
    "pattern = fullPathPrototype (pool_store8 ! the (op_resource op'))"
    unfolding pool_paths_served by auto
  obtain handle where h: "(op'\<lparr>op_resource := None\<rparr>, handle) \<in> set pool_handlers"
    "PoolEndpoint en cds pc op' = Some \<lparr>ep_operation = op',
       ep_errors = \<lparr>errorDescriptions = None, errorProtocolCodes = None\<rparr>, ep_HandleRequest = handle en cds pc op'\<rparr>"
    by (rule pool_endpoint [OF op'(1)])
  have res: "\<forall>op \<in> set service_operations. op_resource op \<noteq> None"
    by (simp add: service_operations_def on_resource_def)
  let ?ep = "the (PoolEndpoint en cds pc op')"
  have "route_of (sv\<lparr>sv_resources := pool_store8\<rparr>) ?ep \<in> set (sv_routes sv')"
    using op'(1) assms(4) by (rule_tac pool_server_routes [of en cds pc sv]) auto
  then have "((Access2HttpMethod (op_accessType op), PATH_PREFIX sv @ ''/'' @ API_VERSION sv @ pattern), ?ep) \<in> set (sv_routes sv')"
    using h(2) op' res by (auto simp: route_of_def ep_resource_def)
  moreover have "ep_HandleRequest ?ep = handle en cds pc (ep_operation ?ep)" using h(2) by simp
  ultimately show ?thesis using h(1) op'(2) pool_paths_match [OF assms(2,3)] assms(1) by blast
qed

definition pool_client_store :: resources where
  "pool_client_store = AddOperations [pool_AddService, pool_ListServices] 4 (AddOperations [pool_AddPool, pool_ListPools] 1 pool_store3)"

lemma NewPoolClient_store: "NewPoolClient client [] = (pool_ids, pool_client_store)"
  by (simp add: NewPoolClient_def add_pool_resources_client with_collection_def pool_ids_def pool_client_store_def del: One_nat_def)

section \<open>Paths of the resources that operations make\<close>

lemma kinds_own:
  "map (\<lambda>x. kind (h ! x)) xs = map (\<lambda>x. kind (g ! x)) ys
   \<Longrightarrow> map (\<lambda>x. snd (own_paths (h ! x))) xs = map (\<lambda>x. snd (own_paths (g ! x))) ys"
proof (induction xs arbitrary: ys)
  case (Cons x xs)
  then obtain y ys' where ys: "ys = y # ys'" "kind (h ! x) = kind (g ! y)" by (cases ys) auto
  with Cons show ?case using own_paths_kind [OF ys(2)] by simp
qed simp

lemma clone_named:
  assumes "wf_tree h" "r < length h" "rc_HasId (h ! r)" "\<not> rc_Tenancy (h ! r)" "rs_parent (h ! r) = Some p"
    and "CloneChain False r h = (n, h1)" "h2 = SetId i [] n h1"
  shows "wf_tree h2" "n < length h2" "fullActualPath (h2 ! n) = fullActualPath (h ! p) @ ''/'' @ i"
proof -
  note c = CloneChain_spec [OF assms(1,2,6)]
  have f: "forest h1" "forest h" using c(1) assms(1) by (simp_all add: wf_tree_def)
  show w: "wf_tree h2" using wf_tree_SetId [OF c(1,3)] assms(7) by simp
  note s = SetId_spec(1) [OF f(1) c(3), of i, folded assms(7)]
  have len: "length h2 = length h1" using same_length [OF s] by simp
  then show n: "n < length h2" using c(3) by simp
  obtain ps where ps: "chain_up (length h) h r = p # ps" "ancestors h p ps"
    using chain_up_forest [OF f(2) assms(2)] assms(5) by (cases "chain_up (length h) h r") auto
  obtain qs where qs: "ancestors h1 n qs" "map (\<lambda>x. kind (h1 ! x)) (n # qs) = map (\<lambda>x. kind (h ! x)) (r # p # ps)"
    using c(5) unfolding ps(1) by blast
  let ?g = "h1[n := with_id i (h1 ! n)]"
  have g: "linked h1 ?g" using linked_update [of "with_id i (h1 ! n)" h1 n] by (simp add: links_def with_id_def)
  have "ancestors ?g n qs" using linked_ancestors [OF g f(1) qs(1) c(3)] .
  then have anc: "ancestors h2 n qs"
    using linked_ancestors [OF same_linked [OF s [symmetric]] linked_forest [OF g f(1)]] c(3) by simp
  have sh: "own_paths (h2 ! x) = own_paths (?g ! x)" if "x < length h1" for x
    using own_paths_shape [OF same_nth [OF s]] that len by simp
  have "snd (own_paths (h2 ! x)) = snd (own_paths (h1 ! x))" if "x \<in> set qs" for x
  proof -
    have "x < length h1" using ancestors_in_store [OF qs(1) f(1) c(3)] that by auto
    moreover have "x \<noteq> n" using ancestors_distinct [OF qs(1)] that by auto
    ultimately show ?thesis using sh by simp
  qed
  then have own: "map (\<lambda>x. snd (own_paths (h2 ! x))) qs = map (\<lambda>x. snd (own_paths (h ! x))) (p # ps)"
    using kinds_own [of h1 qs h "p # ps"] qs(2) by (simp cong: map_cong)
  have "config_of (h1 ! n) = config_of (h ! r)" using qs(2) by simp
  then have cfg: "rc_HasId (h1 ! n)" "\<not> rc_Tenancy (h1 ! n)"
    using assms(3,4) by (simp_all add: config_of_def resource_config.defs)
  have me: "snd (own_paths (h2 ! n)) = ''/'' @ i"
    using sh [OF c(3)] c(3) cfg by (simp add: own_paths_def with_id_def ConcatStrings_concat)
  have "p < length h" using forest_parent [OF f(2) assms(2,5)] by simp
  then have "fullActualPath (h ! p) = concat (map (\<lambda>x. snd (own_paths (h ! x))) (rev (p # ps)))"
    using full_paths_ancestors [OF assms(1) ps(2)] by simp
  moreover have "fullActualPath (h2 ! n) = concat (map (\<lambda>x. snd (own_paths (h2 ! x))) (rev (n # qs)))"
    using full_paths_ancestors [OF w anc n] by simp
  ultimately show "fullActualPath (h2 ! n) = fullActualPath (h ! p) @ ''/'' @ i"
    using own me by (simp flip: rev_map)
qed

text \<open>Rebuilding the paths of a resource without children changes nothing else.\<close>

lemma leaf_rebuild:
  assumes "c < length h" "rs_children (h ! c) = []"
  shows "RebuildPaths h c = h[c := rebuild_one h c]"
  using assms by (cases "length h") (simp_all add: RebuildPaths_def)

lemma leaf_path:
  assumes "c < length h" "rs_children (h ! c) = []" "rs_parent (h ! c) = Some n" "n \<noteq> c"
  shows "fullActualPath (RebuildPaths h c ! c) = fullActualPath (h ! n) @ snd (own_paths (h ! c))"
    "shape (RebuildPaths h c ! c) = shape (h ! c)" "x \<noteq> c \<Longrightarrow> RebuildPaths h c ! x = h ! x"
    "length (RebuildPaths h c) = length h"
  using assms by (simp_all add: leaf_rebuild rebuild_one_def rebuilt_fields)

lemma leaf_child:
  assumes "c < length h" "n < length h" "c \<noteq> n" "rs_children (h ! c) = []"
  shows "length (AddChild c [] n h) = length h" "rs_children (AddChild c [] n h ! c) = []"
    "rs_parent (AddChild c [] n h ! c) = Some n" "fullActualPath (AddChild c [] n h ! n) = fullActualPath (h ! n)"
    "shape (AddChild c [] n h ! c) = shape ((h ! c)\<lparr>rs_parent := Some n\<rparr>)"
    "fullActualPath (AddChild c [] n h ! c) = fullActualPath (h ! n) @ snd (own_paths (h ! c))"
    "x \<noteq> c \<Longrightarrow> x \<noteq> n \<Longrightarrow> AddChild c [] n h ! x = h ! x"
proof -
  let ?g = "upd (\<lambda>x. x\<lparr>rs_parent := Some n\<rparr>) c (upd (\<lambda>x. x\<lparr>rs_children := rs_children x @ [c]\<rparr>) n h)"
  have g: "AddChild c [] n h = RebuildPaths ?g c" by (simp add: AddChild_def SetParent_def Let_def)
  have gc: "?g ! c = (h ! c)\<lparr>rs_parent := Some n\<rparr>" "?g ! n = (h ! n)\<lparr>rs_children := rs_children (h ! n) @ [c]\<rparr>" "length ?g = length h"
    using assms by (simp_all add: upd_def)
  have own: "own_paths ((h ! c)\<lparr>rs_parent := Some n\<rparr>) = own_paths (h ! c)" by (rule own_paths_kind) (simp add: config_of_def resource_config.defs)
  note l = leaf_path [of c ?g n]
  show "length (AddChild c [] n h) = length h" "fullActualPath (AddChild c [] n h ! n) = fullActualPath (h ! n)"
    "shape (AddChild c [] n h ! c) = shape ((h ! c)\<lparr>rs_parent := Some n\<rparr>)"
    "fullActualPath (AddChild c [] n h ! c) = fullActualPath (h ! n) @ snd (own_paths (h ! c))"
    using l assms gc own unfolding g by simp_all
  show "x \<noteq> c \<Longrightarrow> x \<noteq> n \<Longrightarrow> AddChild c [] n h ! x = h ! x"
    using l(3) assms gc unfolding g by (simp add: upd_def)
  from \<open>shape (AddChild c [] n h ! c) = shape ((h ! c)\<lparr>rs_parent := Some n\<rparr>)\<close> show "rs_children (AddChild c [] n h ! c) = []" "rs_parent (AddChild c [] n h ! c) = Some n"
    using assms(4) by (simp_all add: shape_def)
qed

lemma leaf_id:
  assumes "c < length h" "rs_children (h ! c) = []" "rs_parent (h ! c) = Some n" "n \<noteq> c" "rc_HasId (h ! c)" "\<not> rc_Tenancy (h ! c)"
  shows "fullActualPath (SetId i [] c h ! c) = fullActualPath (h ! n) @ ''/'' @ i"
proof -
  let ?x = "(h ! c)\<lparr>rc_Id := i\<rparr>"
  let ?g = "upd (\<lambda>x. x\<lparr>rc_Id := i\<rparr>) c h"
  have x: "?x\<lparr>rc_HasId := True\<rparr> = ?x" using assms(5) by simp
  have g: "?g ! c = ?x" "length ?g = length h" "?g ! n = h ! n" using assms(1,4) by (simp_all add: upd_def)
  have own: "snd (own_paths ?x) = ''/'' @ i" using assms(5,6) by (simp add: own_paths_def ConcatStrings_concat)
  have has: "SetHasId True c ?g = RebuildPaths ?g c" using g x assms(1) by (simp add: SetHasId_def upd_def)
  note l = leaf_path [of c ?g n]
  note m = leaf_path [of c "RebuildPaths ?g c" n]
  have "fullActualPath (RebuildPaths ?g c ! c) = fullActualPath (h ! n) @ ''/'' @ i" using l g own assms by simp
  moreover have "fullActualPath (RebuildPaths (RebuildPaths ?g c) c ! c) = fullActualPath (h ! n) @ ''/'' @ i"
    using l m g own assms own_paths_shape [OF l(2)] shape_eqD [OF l(2)] by simp
  ultimately show ?thesis by (cases "i = []") (simp_all add: SetId_def Let_def has)
qed

lemma NamedResource_steps:
  assumes "forest h" "NamedResource t h = (c, g)"
  obtains h2 where "c = length h" "g = AddChild c [] (Suc c) h2" "length h2 = Suc (Suc (length h))" "\<And>x. x < length h \<Longrightarrow> h2 ! x = h ! x"
    "rs_children (h2 ! c) = []" "rs_parent (h2 ! c) = None" "rs_parent (h2 ! Suc c) = None" "rc_HasId (h2 ! c)" "\<not> rc_Tenancy (h2 ! c)"
    "h2 = snd (NewResource t [] (snd (NewResource t [zero_config\<lparr>rc_HasId := True\<rparr>] h)))"
proof -
  obtain h1 where h1: "NewResource t [zero_config\<lparr>rc_HasId := True\<rparr>] h = (c, h1)"
    using assms(2) by (auto simp: NamedResource_def Let_def split: prod.splits)
  obtain q h2 where h2: "NewResource t [] h1 = (q, h2)" "g = AddChild c [] q h2"
    using assms(2) h1 by (auto simp: NamedResource_def GroupResource_def Let_def split: prod.splits)
  note n = NewResource_spec [OF assms(1) h1]
  note m = NewResource_spec [OF n(1) h2(1)]
  have cfg: "config_of (h1 ! c) = zero_config\<lparr>rc_HasId := True\<rparr>" using n(7) by (simp add: OptionalArg_def)
  then have id: "rc_HasId (h1 ! c)" "\<not> rc_Tenancy (h1 ! c)"
    by (auto simp: config_of_def resource_config.defs zero_config_def)
  have q: "q = Suc c" using m(2) n(2,3) by simp
  have old: "h2 ! x = h1 ! x" if "x \<le> c" for x using m(4) [of x] n(2,3) that by simp
  have lens: "length h2 = Suc (Suc (length h))" using m(3) n(3) by simp
  have keeps: "h2 ! x = h ! x" if "x < length h" for x using old [of x] n(2) n(4) [OF that] that by simp
  have leaf: "rs_children (h2 ! c) = []" "rs_parent (h2 ! c) = None" "rs_parent (h2 ! Suc c) = None"
    using n(5) m(5) old [of c] q by (simp_all add: links_def)
  have both: "h2 = snd (NewResource t [] (snd (NewResource t [zero_config\<lparr>rc_HasId := True\<rparr>] h)))"
    using h1 h2(1) by simp
  show thesis
    by (rule that [OF n(2) h2(2) [unfolded q] lens keeps leaf _ _ both]) (use id old [of c] in simp_all)
qed

lemma attachable_root:
  "\<lbrakk>c < length h; r < length h; rs_parent (h ! c) = None; rs_parent (h ! r) = None; c \<noteq> r\<rbrakk> \<Longrightarrow> attachable h c r"
  using under_root [of h r c] by (auto simp: attachable_def)

lemma built_NamedResource: "built h \<Longrightarrow> built (snd (NamedResource t h))"
proof -
  assume h: "built h"
  obtain c g where g: "NamedResource t h = (c, g)" by fastforce
  from built_wf_tree [OF h] have "forest h" by (simp add: wf_tree_def)
  from NamedResource_steps [OF this g] obtain h2 where h2: "c = length h" "g = AddChild c [] (Suc c) h2"
    "length h2 = Suc (Suc (length h))" "rs_parent (h2 ! c) = None" "rs_parent (h2 ! Suc c) = None"
    "h2 = snd (NewResource t [] (snd (NewResource t [zero_config\<lparr>rc_HasId := True\<rparr>] h)))"
    by metis
  then have "attachable h2 c (Suc c)" by (intro attachable_root) simp_all
  moreover have "built h2" unfolding h2(6) by (intro built.new h)
  ultimately have "built (AddChild c [] (Suc c) h2)" by (rule_tac built.child)
  with h2(2) g show "built (snd (NamedResource t h))" by simp
qed

lemma built_pool_client_store: "built pool_client_store"
proof -
  have named: "snd (PrepareCollectionAndNameResource t h) = snd (NamedResource t h)" for t h
    by (simp add: PrepareCollectionAndNameResource_def split: prod.split)
  have "built pool_store1" unfolding pool_store1_def named by (intro built_NamedResource built.empty)
  then have 2: "built (snd (ServiceBase_Init ''pools'' pool_store1))" unfolding ServiceBase_Init_def by (rule built.new)
  have "attachable (snd (ServiceBase_Init ''pools'' pool_store1)) 1 2"
    by (rule attachable_root) code_simp+
  with 2 have "built pool_store2" unfolding pool_store2_def by (rule built.child)
  then have 3: "built (snd (PrepareCollectionAndNameResource ''service'' pool_store2))" unfolding named by (rule built_NamedResource)
  have "attachable (snd (PrepareCollectionAndNameResource ''service'' pool_store2)) 4 2"
    by (rule attachable_root) code_simp+
  with 3 have "built pool_store3" unfolding pool_store3_def by (rule built.child)
  then show ?thesis unfolding pool_client_store_def AddOperations_def by (simp add: built.addOperation)
qed

lemma client_store_facts:
  "length pool_client_store = 5"
  "map (\<lambda>k. (rc_HasId (pool_client_store ! k), rc_Tenancy (pool_client_store ! k), rs_parent (pool_client_store ! k))) [0, 3]
     = [(True, False, Some 1), (True, False, Some 4)]"
  "fullActualPath (pool_client_store ! 1) = ''/pools/pool''" "fullActualPath (pool_client_store ! 4) = ''/pools/service''"
  by code_simp+

text \<open>A named resource of the client, with its identifier, and what is added below it.\<close>

lemma AddOperation_path [simp]: "fullActualPath (AddOperation op getter r h ! x) = fullActualPath (h ! x)"
  by (cases "r < length h"; cases "x = r") (simp_all add: AddOperation_def upd_def Let_def list_update_beyond)

lemma named_resource:
  assumes "k = 0 \<and> t = ''pool'' \<or> k = 3 \<and> t = ''service''" "CloneChain False k pool_client_store = (n, h)"
  shows "wf_tree (SetId i [] n h)" "n < length (SetId i [] n h)" "fullActualPath (SetId i [] n h ! n) = ''/pools/'' @ t @ ''/'' @ i"
proof -
  note w = built_wf_tree [OF built_pool_client_store]
  note c0 = clone_named [OF w, of 0 1 n h, OF _ _ _ _ _ refl]
  note c3 = clone_named [OF w, of 3 4 n h, OF _ _ _ _ _ refl]
  show "wf_tree (SetId i [] n h)" "n < length (SetId i [] n h)" "fullActualPath (SetId i [] n h ! n) = ''/pools/'' @ t @ ''/'' @ i"
    using assms c0 c3 client_store_facts by auto
qed

lemma child_path:
  assumes "wf_tree h" "n < length h" "NewResource t [] h = (c, g)"
  shows "fullActualPath (AddChild c [] n g ! c) = fullActualPath (h ! n) @ ''/'' @ t" "c < length (AddChild c [] n g)"
    "wf_tree (AddChild c [] n g)"
proof -
  have f: "forest h" using assms(1) by (simp add: wf_tree_def)
  note n = NewResource_spec [OF f assms(3)]
  have c: "c < length g" "n < length g" "c \<noteq> n" "rs_children (g ! c) = []" using n assms(2) by (auto simp: links_def)
  have "config_of (g ! c) = zero_config" using n(7) by (simp add: OptionalArg_def)
  then have "\<not> rc_HasId (g ! c)" by (auto simp: config_of_def resource_config.defs zero_config_def)
  then have own: "snd (own_paths (g ! c)) = ''/'' @ t" using n(6) by (simp add: own_paths_def ConcatStrings_concat Let_def)
  show "fullActualPath (AddChild c [] n g ! c) = fullActualPath (h ! n) @ ''/'' @ t" "c < length (AddChild c [] n g)"
    using leaf_child [OF c] own n(4) assms(2) c(1) by simp_all
  obtain ps where ps: "ancestors h n ps" using forest_ancestors [OF f assms(2)] by blast
  have "fresh h c g" using n(1-5) by (simp add: fresh_def)
  then have "ancestors g n ps" using fresh_ancestors [OF f _ ps assms(2)] by simp
  moreover have "c \<notin> set (n # ps)" using ancestors_in_store [OF ps f assms(2)] assms(2) n(2) by auto
  ultimately have "\<not> under g n c" by (auto simp: under_def dest: ancestors_fun)
  then have "attachable g c n" using c n(5) by (simp add: attachable_def links_def)
  moreover have "wf_tree g" using wf_tree_NewResource [OF assms(1), of t "[]"] assms(3) by simp
  ultimately show "wf_tree (AddChild c [] n g)" by (rule_tac wf_tree_AddChild)
qed

lemma role_path:
  assumes "forest h" "n < length h" "NamedResource t h = (c, g)"
  shows "fullActualPath (SetId role [] c (AddChild c [] n g) ! c) = fullActualPath (h ! n) @ ''/'' @ role"
proof -
  obtain h2 where h2: "c = length h" "g = AddChild c [] (Suc c) h2" "length h2 = Suc (Suc (length h))" "h2 ! n = h ! n"
    "rs_children (h2 ! c) = []" "rc_HasId (h2 ! c)" "\<not> rc_Tenancy (h2 ! c)"
    using NamedResource_steps [OF assms(1,3)] assms(2) by metis
  have 2: "c < length h2" "Suc c < length h2" "c \<noteq> Suc c" using h2(1,3) by simp_all
  note l = leaf_child [OF 2 h2(5), folded h2(2)]
  have g: "rc_HasId (g ! c)" "\<not> rc_Tenancy (g ! c)" using shape_eqD [OF l(5)] h2(6,7) by simp_all
  have gn: "g ! n = h ! n" using l(7) [of n] h2(1,4) assms(2) by simp
  have 3: "c < length g" "n < length g" "c \<noteq> n" using l(1) h2(1,3) assms(2) by simp_all
  note m = leaf_child [OF 3 l(2)]
  have "fullActualPath (SetId role [] c (AddChild c [] n g) ! c) = fullActualPath (AddChild c [] n g ! n) @ ''/'' @ role"
    using m(1,2,3) 3 shape_eqD [OF m(5)] g by (intro leaf_id) simp_all
  then show ?thesis using m(4) gn by simp
qed

lemma client_paths:
  shows "k = 0 \<and> t = ''pool'' \<or> k = 3 \<and> t = ''service'' \<Longrightarrow> NamedResourceOperation k i op pool_client_store = (r, h)
      \<Longrightarrow> fullActualPath (h ! r) = ''/pools/'' @ t @ ''/'' @ i"
    "resourceForPoolServices pool_ids i pool_client_store = (r, h) \<Longrightarrow> fullActualPath (h ! r) = ''/pools/pool/'' @ i @ ''/service''"
    "resourceForServicePools pool_ids i pool_client_store = (r, h) \<Longrightarrow> fullActualPath (h ! r) = ''/pools/service/'' @ i @ ''/pool''"
    "resourceForRole pool_ids i role pool_client_store = (r, h) \<Longrightarrow> fullActualPath (h ! r) = ''/pools/pool/'' @ i @ ''/service/'' @ role"
proof -
  show "k = 0 \<and> t = ''pool'' \<or> k = 3 \<and> t = ''service'' \<Longrightarrow> NamedResourceOperation k i op pool_client_store = (r, h)
      \<Longrightarrow> fullActualPath (h ! r) = ''/pools/'' @ t @ ''/'' @ i"
    using named_resource(3) [of k t] by (auto simp: NamedResourceOperation_def Let_def split: prod.splits)
  obtain n h0 where clone: "CloneChain False 0 pool_client_store = (n, h0)" by fastforce
  obtain m g0 where clone': "CloneChain False 3 pool_client_store = (m, g0)" by fastforce
  note a = named_resource [OF disjI1, of 0 "''pool''", OF _ clone, of i, simplified]
  note b = named_resource [OF disjI2, of 3 "''service''", OF _ clone', of i, simplified]
  have ids: "pr_PoolResource pool_ids = 0" "pr_ServiceResource pool_ids = 3" by (simp_all add: pool_ids_def)
  have services: "wf_tree h \<and> r < length h \<and> fullActualPath (h ! r) = ''/pools/pool/'' @ i @ ''/service''"
    if "resourceForPoolServices pool_ids i pool_client_store = (r, h)" for r h
    using that child_path [OF a(1,2), of "''service''"] a(3) clone
    by (auto simp: resourceForPoolServices_def namedPoolResource_def ids Let_def split: prod.splits)
  then show "resourceForPoolServices pool_ids i pool_client_store = (r, h) \<Longrightarrow> fullActualPath (h ! r) = ''/pools/pool/'' @ i @ ''/service''"
    by blast
  show "resourceForServicePools pool_ids i pool_client_store = (r, h) \<Longrightarrow> fullActualPath (h ! r) = ''/pools/service/'' @ i @ ''/pool''"
    using child_path [OF b(1,2), of "''pool''"] b(3) clone'
    by (auto simp: resourceForServicePools_def namedServiceResource_def ids Let_def split: prod.splits)
  assume run: "resourceForRole pool_ids i role pool_client_store = (r, h)"
  obtain x hx where x: "resourceForPoolServices pool_ids i pool_client_store = (x, hx)" by fastforce
  obtain g where g: "NamedResource ''role'' hx = (r, g)" "h = SetId role [] r (AddChild r [] x g)"
    using run x by (auto simp: resourceForRole_def Let_def split: prod.splits)
  show "fullActualPath (h ! r) = ''/pools/pool/'' @ i @ ''/service/'' @ role"
    using role_path [OF _ _ g(1), of x role] services [OF x] g(2) by (simp add: wf_tree_def)
qed

section \<open>The runs of the client\<close>

text \<open>One request for an operation on a path.\<close>

definition requested :: "operation \<Rightarrow> string \<Rightarrow> 'z client_ctx_scheme \<Rightarrow> 'z client_ctx_scheme \<Rightarrow> bool" where
  "requested op path k k' \<longleftrightarrow> (\<exists>call. sent k' = sent k @ [call] \<and> call_of (rest k) (Access2HttpMethod (op_accessType op)) path call)"

abbreviation succeeds :: "('z client_ctx_scheme, err) comp \<Rightarrow> operation \<Rightarrow> string \<Rightarrow> 'z client_ctx_scheme \<Rightarrow> bool" where
  "succeeds run op path k \<equiv> wpc run (\<lambda>e k'. e = None \<longrightarrow> \<not> panicked k' \<longrightarrow> requested op path k k') k"

definition rest_pools :: "http_lib \<Rightarrow> (db_filter \<Rightarrow> string) \<Rightarrow> (gval \<Rightarrow> pool option) \<Rightarrow> (gval \<Rightarrow> pool list \<times> int)
    \<Rightarrow> (gval \<Rightarrow> pool_service option) \<Rightarrow> (gval \<Rightarrow> pool_service list \<times> int) \<Rightarrow> (gval \<Rightarrow> binding list) \<Rightarrow> 'z client_ctx_scheme pool_client" where
  "rest_pools lib = make_pool_client (Client_Exec lib (default_senders lib))"

lemma rest_pools_simps [simp]:
  "pl_resources (rest_pools lib tq p ps sv svs bs) = pool_client_store" "pl_ids (rest_pools lib tq p ps sv svs bs) = pool_ids"
  "pl_add_pool (rest_pools lib tq p ps sv svs bs) = on_resource pool_AddPool (Some 1)"
  "pl_add_service (rest_pools lib tq p ps sv svs bs) = on_resource pool_AddService (Some 4)"
  "pl_list_pools (rest_pools lib tq p ps sv svs bs) = on_resource pool_ListPools (Some 1)"
  "pl_list_services (rest_pools lib tq p ps sv svs bs) = on_resource pool_ListServices (Some 4)"
  "pl_Client (rest_pools lib tq p ps sv svs bs) = Client_Exec lib (default_senders lib)"
  by (simp_all add: rest_pools_def make_pool_client_def NewPoolClient_store pool_ids_def)

lemma succeeds_exec_on:
  assumes "has_bodies lib" "pl_Client p = Client_Exec lib (default_senders lib)" "fullActualPath (h ! r) = path"
  shows "succeeds (exec_on p name cmd response h (on_resource op (Some r))) op path k"
proof -
  have "succeeds (Client_Exec lib (default_senders lib) h (on_resource op (Some r)) cmd response []) op path k"
    by (rule wpc_mono [OF Client_Exec_wpc [OF assms(1)]])
      (auto simp: exec_done_def requested_def on_resource_def operation_path_def assms(3))
  then show ?thesis
    unfolding exec_on_def Operation_Exec_def MakeOperationHandler_def client_handler_def exec_traced_def assms(2)
    by (intro wpc) (auto elim!: wpc_mono intro!: wpc)
qed

lemma succeeds_client_done:
  "succeeds run op path k \<Longrightarrow> wpc (client_done c run) (\<lambda>(e, e') k'. e' = e \<and> (e = None \<longrightarrow> \<not> panicked k' \<longrightarrow> requested op path k k')) k"
  unfolding client_done_def by (intro wpc_bind, erule wpc_mono) (auto intro!: wpc)

lemma succeeds_client_result:
  assumes "\<And>k. succeeds run op path k"
  shows "wpc (client_result c run nothing decode)
     (\<lambda>((x, e), e') k'. e' = e \<and> (e = None \<longrightarrow> \<not> panicked k' \<longrightarrow> requested op path k k')) k"
  unfolding client_result_def
  by (intro wpc_bind wpc_modifys, simp_all, rule wpc_mono [OF assms]) (auto intro!: wpc simp: requested_def)

definition err_of :: "('s, 'a \<times> err) comp \<Rightarrow> ('s, err) comp" where
  "err_of m = do { (x, e) \<leftarrow> m; ret e }"

lemma succeeds_done:
  "succeeds run op path k \<Longrightarrow> succeeds (traced_err name fs (\<lambda>c. client_done c run)) op path k"
  by (intro wpc wpc_mono [OF succeeds_client_done]) auto

lemma succeeds_result:
  "(\<And>k. succeeds run op path k) \<Longrightarrow> succeeds (err_of (traced_err name fs (\<lambda>c. client_result c run nothing decode))) op path k"
  unfolding err_of_def by (intro wpc wpc_mono [OF succeeds_client_result]) (auto intro!: wpc)

text \<open>The operations of a controller of pools, with the identifier of a pool or of a service and without looking it up by name.\<close>

definition controller_calls :: "'s pool_controller \<Rightarrow> string \<Rightarrow> string \<Rightarrow> string \<Rightarrow> pool \<Rightarrow> pool_service \<Rightarrow> fields \<Rightarrow> db_filter option
    \<Rightarrow> (('s, err) comp \<times> operation) list" where
  "controller_calls pc i serviceId role pool service fs flt =
     [(err_of (pc_AddPool pc pool), pool_AddPool), (err_of (pc_GetPools pc flt), pool_ListPools),
      (err_of (pc_FindPool pc i []), pool_FindPool), (err_of (pc_UpdatePool pc i fs []), pool_UpdatePool),
      (pc_DeletePool pc i [], pool_DeletePool), (err_of (pc_GetPoolBindings pc i []), pool_ListPoolServices),
      (pc_AddServiceToPool pc i serviceId role [], pool_AddServiceToPool),
      (pc_RemoveAllServicesFromPool pc i [], pool_RemoveAllServicesFromPool),
      (pc_RemoveServiceFromPool pc i role [], pool_RemoveServiceFromPool),
      (err_of (pc_AddService pc service), pool_AddService), (err_of (pc_GetServices pc flt), pool_ListServices),
      (err_of (pc_FindService pc i []), pool_FindService), (err_of (pc_UpdateService pc i fs []), pool_UpdateService),
      (pc_DeleteService pc i [], pool_DeleteService), (err_of (pc_GetServiceBindings pc i []), pool_ListServicePools),
      (pc_RemoveServiceFromAllPools pc i [], pool_RemoveServiceFromAllPools)]"

lemma client_poolId_given [wpc]: "Q ((i, None), None) (core k) \<Longrightarrow> wpc (client_poolId p i []) Q k"
  unfolding client_poolId_def by (intro wpc; simp)

lemma client_serviceId_given [wpc]: "Q ((i, None), None) (core k) \<Longrightarrow> wpc (client_serviceId p i []) Q k"
  unfolding client_serviceId_def by (intro wpc; simp)

lemma succeeds_named:
  assumes "has_bodies lib" "k0 = 0 \<and> t = ''pool'' \<or> k0 = 3 \<and> t = ''service''"
  shows "succeeds (exec_named (rest_pools lib tq p ps sv svs bs) name cmd response k0 i op) op (''/pools/'' @ t @ ''/'' @ i) k"
proof -
  obtain r h where n: "NamedResourceOperation k0 i op pool_client_store = (r, h)" by fastforce
  show ?thesis unfolding exec_named_def
    using succeeds_exec_on [OF assms(1) rest_pools_simps(7) client_paths(1) [OF assms(2) n]] n by simp
qed

lemma succeeds_at:
  assumes "has_bodies lib" "\<And>r h. build pool_client_store = (r, h) \<Longrightarrow> fullActualPath (h ! r) = path"
  shows "succeeds (exec_at (rest_pools lib tq p ps sv svs bs) name cmd response build op) op path k"
proof -
  obtain r h where n: "build pool_client_store = (r, h)" by fastforce
  show ?thesis unfolding exec_at_def
    using succeeds_exec_on [OF assms(1) rest_pools_simps(7), of "AddOperation op [] r h"] assms(2) [OF n] n by simp
qed

text \<open>An operation that first finds the identifier.\<close>

lemma succeeds_given_result:
  assumes "\<And>k. succeeds (run i) op path k" and ids: "\<And>Q. Q ((i, None), None) (core k) \<Longrightarrow> wpc ids Q k"
    and body: "\<And>c. body c ((i, None), None) = client_result c (run i) nothing decode"
  shows "succeeds (err_of (traced_err name fs (\<lambda>c. do { r \<leftarrow> ids; body c r }))) op path k"
  unfolding err_of_def
  by (intro wpc_bind wpc_traced_err ids, unfold body, rule wpc_mono [OF succeeds_client_result [OF assms(1)]])
    (auto intro!: wpc simp: requested_def)

lemma succeeds_given_done:
  assumes "succeeds (run i) op path (core k)" and ids: "\<And>Q. Q ((i, None), None) (core k) \<Longrightarrow> wpc ids Q k"
    and body: "\<And>c. body c ((i, None), None) = client_done c (run i)"
  shows "succeeds (traced_err name fs (\<lambda>c. do { r \<leftarrow> ids; body c r })) op path k"
  by (intro wpc_bind wpc_traced_err ids, unfold body, rule wpc_mono [OF succeeds_client_done [OF assms(1)]])
    (auto intro!: wpc simp: requested_def)

lemma client_calls:
  fixes k :: "'z client_ctx_scheme"
  assumes "has_bodies lib"
  shows "list_all2 (\<lambda>(run, op) (op', pattern, path, params). op = op' \<and> succeeds run op path k)
     (controller_calls (PoolClient (rest_pools lib tq p ps sv svs bs)) i serviceId role pool service fs flt) (pool_paths i role)"
proof -
  let ?p = "rest_pools lib tq p ps sv svs bs :: 'z client_ctx_scheme pool_client"
  have ids: "pr_PoolResource pool_ids = 0" "pr_ServiceResource pool_ids = 3" by (simp_all add: pool_ids_def)
  note on = succeeds_exec_on [OF assms rest_pools_simps(7)]
  have AddPool: "succeeds (err_of (Client_AddPool ?p pool)) pool_AddPool ''/pools/pool'' k"
    unfolding Client_AddPool_def rest_pools_simps by (intro succeeds_result on client_store_facts)
  have ListPools: "succeeds (err_of (Client_GetPools ?p flt)) pool_ListPools ''/pools/pool'' k"
    unfolding Client_GetPools_def rest_pools_simps by (intro succeeds_result on client_store_facts)
  have FindPool: "succeeds (err_of (Client_FindPool ?p i [])) pool_FindPool (''/pools/'' @ ''pool'' @ ''/'' @ i) k"
    unfolding Client_FindPool_def rest_pools_simps ids
    by (rule succeeds_given_result, rule succeeds_named [OF assms], simp, rule client_poolId_given, assumption, simp add: OptionalArg_def)
  have UpdatePool: "succeeds (err_of (Client_UpdatePool ?p i fs [])) pool_UpdatePool (''/pools/'' @ ''pool'' @ ''/'' @ i) k"
    unfolding Client_UpdatePool_def rest_pools_simps ids
    by (rule succeeds_given_result, rule succeeds_named [OF assms], simp, rule client_poolId_given, assumption, simp add: OptionalArg_def)
  have DeletePool: "succeeds (Client_DeletePool ?p i []) pool_DeletePool (''/pools/'' @ ''pool'' @ ''/'' @ i) k"
    unfolding Client_DeletePool_def rest_pools_simps ids
    by (rule succeeds_given_done, rule succeeds_named [OF assms], simp, rule client_poolId_given, assumption, simp add: OptionalArg_def)
  have AddService: "succeeds (err_of (Client_AddService ?p service)) pool_AddService ''/pools/service'' k"
    unfolding Client_AddService_def rest_pools_simps by (intro succeeds_result on client_store_facts)
  have ListServices: "succeeds (err_of (Client_GetServices ?p flt)) pool_ListServices ''/pools/service'' k"
    unfolding Client_GetServices_def rest_pools_simps by (intro succeeds_result on client_store_facts)
  have FindService: "succeeds (err_of (Client_FindService ?p i [])) pool_FindService (''/pools/'' @ ''service'' @ ''/'' @ i) k"
    unfolding Client_FindService_def rest_pools_simps ids
    by (rule succeeds_given_result, rule succeeds_named [OF assms], simp, rule client_serviceId_given, assumption, simp add: OptionalArg_def)
  have UpdateService: "succeeds (err_of (Client_UpdateService ?p i fs [])) pool_UpdateService (''/pools/'' @ ''service'' @ ''/'' @ i) k"
    unfolding Client_UpdateService_def rest_pools_simps ids
    by (rule succeeds_given_result, rule succeeds_named [OF assms], simp, rule client_serviceId_given, assumption, simp add: OptionalArg_def)
  have DeleteService: "succeeds (Client_DeleteService ?p i []) pool_DeleteService (''/pools/'' @ ''service'' @ ''/'' @ i) k"
    unfolding Client_DeleteService_def rest_pools_simps ids
    by (rule succeeds_given_done, rule succeeds_named [OF assms], simp, rule client_serviceId_given, assumption, simp add: OptionalArg_def)
  have ListPoolServices: "succeeds (err_of (Client_GetPoolBindings ?p i [])) pool_ListPoolServices (''/pools/pool/'' @ i @ ''/service'') k"
    unfolding Client_GetPoolBindings_def rest_pools_simps
    by (rule succeeds_given_result, rule succeeds_at [OF assms], erule client_paths, rule client_poolId_given, assumption, simp)
  have ListServicePools: "succeeds (err_of (Client_GetServiceBindings ?p i [])) pool_ListServicePools (''/pools/service/'' @ i @ ''/pool'') k"
    unfolding Client_GetServiceBindings_def rest_pools_simps
    by (rule succeeds_given_result, rule succeeds_at [OF assms], erule client_paths, rule client_serviceId_given, assumption, simp)
  have RemoveServiceFromPool: "succeeds (Client_RemoveServiceFromPool ?p i role []) pool_RemoveServiceFromPool (''/pools/pool/'' @ i @ ''/service/'' @ role) k"
    unfolding Client_RemoveServiceFromPool_def rest_pools_simps
    by (rule succeeds_given_done, rule succeeds_at [OF assms], erule client_paths, rule client_poolId_given, assumption, simp)
  have RemoveAllServicesFromPool: "succeeds (Client_RemoveAllServicesFromPool ?p i []) pool_RemoveAllServicesFromPool (''/pools/pool/'' @ i @ ''/service'') k"
    unfolding Client_RemoveAllServicesFromPool_def rest_pools_simps
    by (rule succeeds_given_done, rule succeeds_at [OF assms], erule client_paths, rule client_poolId_given, assumption, simp)
  have RemoveServiceFromAllPools: "succeeds (Client_RemoveServiceFromAllPools ?p i []) pool_RemoveServiceFromAllPools (''/pools/service/'' @ i @ ''/pool'') k"
    unfolding Client_RemoveServiceFromAllPools_def rest_pools_simps
    by (rule succeeds_given_done, rule succeeds_at [OF assms], erule client_paths, rule client_serviceId_given, assumption, simp)
  have at: "succeeds (exec_at ?p ''AddServiceToPool.Exec'' cmd False (resourceForPoolServices pool_ids i) pool_AddServiceToPool)
      pool_AddServiceToPool (''/pools/pool/'' @ i @ ''/service'') (core k)" for cmd
    by (rule succeeds_at [OF assms]) (erule client_paths)
  have AddServiceToPool: "succeeds (Client_AddServiceToPool ?p i serviceId role []) pool_AddServiceToPool (''/pools/pool/'' @ i @ ''/service'') k"
    unfolding Client_AddServiceToPool_def rest_pools_simps
    by (rule wpc_traced_err, rule wpc_bind, rule client_poolId_given, simp, rule wpc_bind, rule client_serviceId_given, simp,
        rule wpc_mono [OF succeeds_client_done [OF at]]) (auto intro!: wpc simp: requested_def)
  show ?thesis
    unfolding controller_calls_def PoolClient_def pool_paths_def Let_def
    using AddPool ListPools FindPool UpdatePool DeletePool AddService ListServices FindService UpdateService DeleteService ListPoolServices ListServicePools RemoveServiceFromPool RemoveAllServicesFromPool RemoveServiceFromAllPools AddServiceToPool by simp
qed

lemma list_all2_setD: "\<lbrakk>list_all2 P xs ys; x \<in> set xs\<rbrakk> \<Longrightarrow> \<exists>y \<in> set ys. P x y"
  by (induction rule: list_all2_induct) auto

section \<open>What the client sends, the service routes\<close>


text \<open>A client that adds a service to a pool; the server answers every request but the first with success.\<close>

definition demo_pools :: "client_ctx pool_client" where
  "demo_pools = rest_pools demo_http (\<lambda>_. []) (\<lambda>_. None) (\<lambda>_. ([], 0)) (\<lambda>_. None) (\<lambda>_. ([], 0)) (\<lambda>_. [])"

lemma demo_add_service:
  "wpc (pc_AddServiceToPool (PoolClient demo_pools) ''p'' ''s'' ''db'' []) (\<lambda>e k'. e = None \<and> \<not> panicked k') (demo_client [demo_call])"
proof -
  obtain r h where r: "resourceForPoolServices pool_ids ''p'' pool_client_store = (r, h)" by fastforce
  have at: "op_accessType (on_resource pool_AddServiceToPool (Some r)) = HttpMethod2Access ''POST''"
    by (simp add: on_resource_def) code_simp
  have ne: "HttpMethod2Access m \<noteq> HttpMethod2Access ''POST''" if "m \<in> {''PUT'', ''PATCH'', ''GET'', ''DELETE''}" for m
    using that by (elim insertE emptyE; hypsubst; code_simp)
  have get: "map_get (client_methods demo_http sd) (op_accessType (on_resource pool_AddServiceToPool (Some r)))
      = Some (Rest_Post demo_http sd)" for sd
    by (simp add: client_methods_def at ne [symmetric])
  have path: "operation_path h' (on_resource op (Some r)) [] = Some (fullActualPath (h' ! r))" for h' op
    by (simp add: operation_path_def on_resource_def)
  have run: "wpc (Client_Exec demo_http (default_senders demo_http) h' (on_resource pool_AddServiceToPool (Some r)) cmd False [])
      (\<lambda>e k'. e = None \<and> \<not> panicked k') k" if "sent k \<noteq> []" "\<not> panicked k" for h' cmd and k :: client_ctx
    unfolding Client_Exec_def get path Rest_Post_def invoke_method_def option.case
    by (intro wpc wpc_mono [OF demo_second]) (use that in \<open>auto intro!: wpc simp: ResponseGenericError_def\<close>)
  show ?thesis
    unfolding demo_pools_def PoolClient_def pool_controller.simps Client_AddServiceToPool_def client_done_def exec_at_def
      rest_pools_simps r prod.case exec_on_def Operation_Exec_def MakeOperationHandler_def client_handler_def exec_traced_def
    by (rule wpc_traced_err, rule wpc_bind, rule client_poolId_given, simp, rule wpc_bind, rule client_serviceId_given, simp,
        simp add: r, intro wpc, rule wpc_mono [OF run]) (auto intro!: wpc)
qed


end
