(* ===== verification/Pool_Bindings.thy ===== *)
theory Pool_Bindings
  imports Pool
begin

text \<open>
  The pools, services and bindings in the database: the invariant that every operation of the
  controller keeps, over any sequence of operations, and what is found of a binding that was added.
\<close>

section \<open>The database\<close>

text \<open>
  The identifier is the primary key of every table, and a statement that fails changes nothing.
\<close>

definition create_unique :: "dbhandlers \<Rightarrow> bool" where
  "create_unique h \<longleftrightarrow> (\<forall>d tbl row D D'. h_Create h d tbl row D = (None, D') \<longrightarrow>
     \<not> (\<exists>r \<in> set (D d tbl). map_get r ''id'' = map_get row ''id''))"

definition failed_writes_keep :: "dbhandlers \<Rightarrow> bool" where
  "failed_writes_keep h \<longleftrightarrow>
     (\<forall>d tbl row D e D'. h_Create h d tbl row D = (Some e, D') \<longrightarrow> D' = D)
   \<and> (\<forall>d tbl flt fs D e D'. h_Update h d tbl flt fs D = (Some e, D') \<longrightarrow> D' = D)
   \<and> (\<forall>d tbl i D e D'. h_Delete h d tbl i D = (Some e, D') \<longrightarrow> D' = D)
   \<and> (\<forall>d tbl fs D e D'. h_DeleteByFields h d tbl fs D = (Some e, D') \<longrightarrow> D' = D)"

definition pool_db :: "dbhandlers \<Rightarrow> bool" where
  "pool_db h \<longleftrightarrow> find_returns_match h \<and> update_writes_matches h \<and> create_appends h \<and> create_unique h
     \<and> exists_checks h \<and> delete_removes h \<and> delete_by_fields_removes h \<and> failed_writes_keep h"

lemma pool_dbD:
  assumes "pool_db h"
  shows "find_returns_match h" "update_writes_matches h" "create_appends h" "create_unique h"
    "exists_checks h" "delete_removes h" "delete_by_fields_removes h" "failed_writes_keep h"
  using assms by (simp_all add: pool_db_def)

text \<open>What each writing handler does to the tables of its database.\<close>

lemma write_tables:
  assumes "\<And>D'. w = (None, D') \<Longrightarrow> D' = set_table d tbl rows D" "\<And>e D'. w = (Some e, D') \<Longrightarrow> D' = D"
  shows "snd w d = (if fst w = None then (D d)(tbl := rows) else D d)"
proof (cases w)
  case (Pair e D')
  then show ?thesis using assms(1) [of D'] assms(2) [of _ D'] by (cases e) (auto simp: set_table_def)
qed

lemma create_tables: "pool_db h \<Longrightarrow> snd (h_Create h d tbl row D) d =
    (if fst (h_Create h d tbl row D) = None then (D d)(tbl := D d tbl @ [row]) else D d)"
  by (rule write_tables) (auto simp: pool_db_def create_appends_def failed_writes_keep_def)

lemma update_tables: "pool_db h \<Longrightarrow> snd (h_Update h d tbl flt fs D) d =
    (if fst (h_Update h d tbl flt fs D) = None
     then (D d)(tbl := map (\<lambda>row. if row_matches flt row then AppendMap row fs else row) (D d tbl)) else D d)"
  by (rule write_tables) (auto simp: pool_db_def update_writes_matches_def failed_writes_keep_def)

lemma delete_tables: "pool_db h \<Longrightarrow> snd (h_Delete h d tbl i D) d =
    (if fst (h_Delete h d tbl i D) = None
     then (D d)(tbl := filter (\<lambda>row. map_get row ''id'' \<noteq> Some (VStr i)) (D d tbl)) else D d)"
  by (rule write_tables) (auto simp: pool_db_def delete_removes_def failed_writes_keep_def)

lemma delete_by_fields_tables: "pool_db h \<Longrightarrow> snd (h_DeleteByFields h d tbl fs D) d =
    (if fst (h_DeleteByFields h d tbl fs D) = None
     then (D d)(tbl := filter (\<lambda>row. \<not> row_matches fs row) (D d tbl)) else D d)"
  by (rule write_tables) (auto simp: pool_db_def delete_by_fields_removes_def failed_writes_keep_def)

lemma create_new_id:
  assumes "pool_db h" "fst (h_Create h d tbl row D) = None"
  shows "map_get row ''id'' \<notin> set (map (\<lambda>r. map_get r ''id'') (D d tbl))"
proof -
  have "h_Create h d tbl row D = (None, snd (h_Create h d tbl row D))"
    using assms(2) by (simp add: prod_eq_iff)
  from pool_dbD(4) [OF assms(1), unfolded create_unique_def, rule_format, OF this]
  show ?thesis by force
qed

lemmas tables = create_tables update_tables delete_tables delete_by_fields_tables

lemma exists_rows:
  assumes "pool_db h" "h_Exists h d tbl (NewFilter\<lparr>Fields := Some fs\<rparr>) D = (b, None)"
  shows "b = list_ex (row_matches fs) (D d tbl)"
  using pool_dbD(5) [OF assms(1), unfolded exists_checks_def, rule_format, OF assms(2)] .

lemma find_row:
  assumes "pool_db h" "h_FindByField h d tbl k v D = (Some row, e)"
  shows "row \<in> set (D d tbl)" "map_get row k = Some v"
  using pool_dbD(1) [OF assms(1), unfolded find_returns_match_def, THEN conjunct2, rule_format, OF assms(2)]
  by simp_all

section \<open>The invariant\<close>

abbreviation ids :: "fields list \<Rightarrow> gval option list" where
  "ids rows \<equiv> map (\<lambda>row. map_get row ''id'') rows"

definition keyed :: "fields list \<Rightarrow> bool" where
  "keyed rows \<longleftrightarrow> distinct (ids rows) \<and> list_all (\<lambda>row. map_get row ''id'' = Some (VStr (row_str row ''id''))) rows"

definition named :: "fields list \<Rightarrow> bool" where
  "named rows \<longleftrightarrow> distinct (map (\<lambda>row. map_get row ''name'') rows)
     \<and> list_all (\<lambda>row. map_get row ''name'' = Some (VStr (row_str row ''name''))) rows"

definition pools_ok :: "(string \<Rightarrow> fields list) \<Rightarrow> bool" where
  "pools_ok T \<longleftrightarrow> keyed (T pools_table) \<and> named (T pools_table)
     \<and> keyed (T services_table) \<and> named (T services_table)
     \<and> distinct (map (\<lambda>a. (map_get a ''pool_id'', map_get a ''role'')) (T associations_table))
     \<and> list_all (\<lambda>a. map_get a ''pool_id'' \<in> set (ids (T pools_table))
          \<and> map_get a ''service_id'' \<in> set (ids (T services_table))
          \<and> map_get a ''role'' = Some (VStr (row_str a ''role''))) (T associations_table)"

definition pool_tables :: "'z op_ctx_scheme \<Rightarrow> string \<Rightarrow> fields list" where
  "pool_tables k = dbs k (db_for False k)"

lemma pool_tables_updates [simp]:
  "pool_tables (core k) = pool_tables k"
  "pool_tables (k\<lparr>times := a\<rparr>) = pool_tables k" "pool_tables (k\<lparr>rands := b\<rparr>) = pool_tables k"
  "pool_tables (k\<lparr>idCount := c\<rparr>) = pool_tables k" "pool_tables (k\<lparr>oplogs := ol\<rparr>) = pool_tables k"
  "pool_tables (k\<lparr>genericError := e\<rparr>) = pool_tables k" "pool_tables (with_code code k) = pool_tables k"
  "pool_tables (k\<lparr>dbs := D\<rparr>) = D (db_for False k)"
  by (simp_all add: pool_tables_def with_code_def)

lemma db_for_with_code [simp]: "db_for main (with_code code k) = db_for main k"
  by (simp add: with_code_def)

lemma dbs_with_code [simp]: "dbs (with_code code k) = dbs k"
  by (simp add: with_code_def)

subsection \<open>Rows\<close>

lemma keyed_append:
  "keyed rows \<Longrightarrow> map_get row ''id'' = Some (VStr i) \<Longrightarrow> map_get row ''id'' \<notin> set (ids rows) \<Longrightarrow>
   keyed (rows @ [row])"
  by (auto simp: keyed_def row_str_def)

lemma keyed_filter: "keyed rows \<Longrightarrow> keyed (filter P rows)"
  by (auto simp: keyed_def distinct_map_filter list_all_iff)

lemma named_filter: "named rows \<Longrightarrow> named (filter P rows)"
  by (simp add: named_def distinct_map_filter list_all_iff)

lemma named_append:
  "named rows \<Longrightarrow> \<not> list_ex (row_matches [(''name'', VStr v)]) rows \<Longrightarrow> map_get row ''name'' = Some (VStr v) \<Longrightarrow>
   named (rows @ [row])"
  by (auto simp: named_def list_ex_iff row_str_def)

text \<open>The rows after an update of the row with an identifier.\<close>

definition updated_rows :: "string \<Rightarrow> fields \<Rightarrow> int \<Rightarrow> fields list \<Rightarrow> fields list" where
  "updated_rows i fs t rows = map (\<lambda>row. if row_matches [(''id'', VStr i)] row
     then AppendMap row (stamped fs t) else row) rows"

text \<open>An update of fields other than the identifier, with a name that is a string.\<close>

definition fields_ok :: "fields \<Rightarrow> bool" where
  "fields_ok fs \<longleftrightarrow> map_get fs ''id'' = None
     \<and> (case map_get fs ''name'' of None \<Rightarrow> True | Some (VStr n) \<Rightarrow> True | _ \<Rightarrow> False)"

lemma ids_updated: "fields_ok fs \<Longrightarrow> ids (updated_rows i fs t rows) = ids rows"
  by (auto simp: updated_rows_def fields_ok_def map_get_AppendMap)

lemma keyed_updated: "fields_ok fs \<Longrightarrow> keyed rows \<Longrightarrow> keyed (updated_rows i fs t rows)"
  unfolding keyed_def ids_updated
  by (auto simp: updated_rows_def fields_ok_def map_get_AppendMap row_str_def list_all_iff)

definition new_name :: "fields \<Rightarrow> fields list \<Rightarrow> bool" where
  "new_name fs rows \<longleftrightarrow> (case map_get fs ''name'' of None \<Rightarrow> True
     | Some v \<Rightarrow> \<not> list_ex (row_matches [(''name'', v)]) rows)"

lemma name_updated:
  "fields_ok fs \<Longrightarrow> map_get (AppendMap row (stamped fs t)) ''name'' =
     (case map_get fs ''name'' of None \<Rightarrow> map_get row ''name'' | Some v \<Rightarrow> Some v)"
  by (auto simp: fields_ok_def split: option.splits gval.splits)

lemma named_updated:
  assumes "fields_ok fs" "distinct (ids rows)" "named rows" "new_name fs rows"
  shows "named (updated_rows i fs t rows)"
  using assms(2-4)
proof (induction rows)
  case Nil
  then show ?case by (simp add: named_def updated_rows_def)
next
  case (Cons r rs)
  then have IH: "named (updated_rows i fs t rs)"
    by (simp add: named_def new_name_def split: option.splits)
  have r: "map_get r ''name'' \<notin> (\<lambda>row. map_get row ''name'') ` set rs" "map_get r ''id'' \<notin> set (ids rs)"
    using Cons.prems by (auto simp: named_def)
  show ?case
  proof (cases "map_get fs ''name''")
    case None
    with r IH Cons.prems(2) show ?thesis
      by (auto simp: named_def updated_rows_def name_updated [OF assms(1)] row_str_def image_iff)
  next
    case (Some v)
    with assms(1) obtain n where n: "v = VStr n" by (auto simp: fields_ok_def split: gval.splits)
    from Some Cons.prems(3) have "\<forall>r' \<in> set (r # rs). map_get r' ''name'' \<noteq> Some v"
      by (auto simp: new_name_def list_ex_iff n)
    with r IH Some n Cons.prems(2) show ?thesis
      by (auto simp: named_def updated_rows_def name_updated [OF assms(1)] row_str_def image_iff)
  qed
qed

subsection \<open>Tables\<close>

lemma pools_ok_other: "tbl \<notin> {pools_table, services_table, associations_table} \<Longrightarrow> pools_ok (T(tbl := rows)) = pools_ok T"
  by (auto simp: pools_ok_def)

lemma pools_ok_add:
  assumes "pools_ok T" "tbl \<in> {pools_table, services_table}" "map_get row ''id'' = Some (VStr i)"
    and "map_get row ''id'' \<notin> set (ids (T tbl))" "\<not> list_ex (row_matches [(''name'', VStr v)]) (T tbl)"
    and "map_get row ''name'' = Some (VStr v)"
  shows "pools_ok (T(tbl := T tbl @ [row]))"
  using assms keyed_append [OF _ assms(3,4)] named_append [OF _ assms(5,6)]
  by (auto simp: pools_ok_def list_all_iff)

lemma pools_ok_update:
  assumes "pools_ok T" "tbl \<in> {pools_table, services_table}" "fields_ok fs" "new_name fs (T tbl)"
  shows "pools_ok (T(tbl := updated_rows i fs t (T tbl)))"
proof -
  have "keyed (T tbl)" "named (T tbl)" using assms(1,2) by (auto simp: pools_ok_def)
  then have "keyed (updated_rows i fs t (T tbl))" "named (updated_rows i fs t (T tbl))"
    using keyed_updated [OF assms(3)] named_updated [OF assms(3) _ _ assms(4)] by (simp_all add: keyed_def)
  moreover note ids_updated [OF assms(3), of i t "T tbl"]
  ultimately show ?thesis using assms(1,2) unfolding pools_ok_def by (elim insertE) simp_all
qed

lemma ids_filter:
  "set (ids (filter (\<lambda>row. map_get row ''id'' \<noteq> x) rows)) = set (ids rows) - {x}"
  by auto

lemma pools_ok_delete_pool:
  assumes "pools_ok T" "\<not> list_ex (row_matches [(''pool_id'', VStr i)]) (T associations_table)"
  shows "pools_ok (T(pools_table := filter (\<lambda>row. map_get row ''id'' \<noteq> Some (VStr i)) (T pools_table)))"
  using assms unfolding pools_ok_def
  by (simp add: keyed_filter named_filter list_all_iff list_ex_iff ids_filter del: set_map set_filter)

lemma pools_ok_delete_service:
  assumes "pools_ok T" "\<not> list_ex (row_matches [(''service_id'', VStr i)]) (T associations_table)"
  shows "pools_ok (T(services_table := filter (\<lambda>row. map_get row ''id'' \<noteq> Some (VStr i)) (T services_table)))"
  using assms unfolding pools_ok_def
  by (simp add: keyed_filter named_filter list_all_iff list_ex_iff ids_filter del: set_map set_filter)

lemma pools_ok_unbind: "pools_ok T \<Longrightarrow> pools_ok (T(associations_table := filter P (T associations_table)))"
  by (simp add: pools_ok_def distinct_map_filter list_all_iff)

lemma pools_ok_bind:
  assumes "pools_ok T" "map_get p ''id'' \<in> set (ids (T pools_table))" "map_get sv ''id'' \<in> set (ids (T services_table))"
    and "\<not> list_ex (row_matches [(''pool_id'', VStr v), (''role'', VStr w)]) (T associations_table)"
    and "map_get a ''pool_id'' = Some (VStr v)" "map_get a ''role'' = Some (VStr w)"
    and "map_get a ''pool_id'' = map_get p ''id''" "map_get a ''service_id'' = map_get sv ''id''"
  shows "pools_ok (T(associations_table := T associations_table @ [a]))"
  using assms by (auto simp: pools_ok_def list_ex_iff row_str_def)

text \<open>The same for the handlers, whether they succeed or not.\<close>

lemma created_ok:
  assumes "pool_db h" "pools_ok (D d)" "tbl \<in> {pools_table, services_table}" "map_get row ''id'' = Some (VStr i)"
    and "\<not> list_ex (row_matches [(''name'', VStr v)]) (D d tbl)" "map_get row ''name'' = Some (VStr v)"
  shows "pools_ok (snd (h_Create h d tbl row D) d)"
  using assms(2) pools_ok_add [OF assms(2-4) create_new_id [of h d tbl row D, OF assms(1)] assms(5,6)]
  by (simp add: create_tables [OF assms(1)])

lemma updated_ok:
  assumes "pool_db h" "pools_ok (D d)" "tbl \<in> {pools_table, services_table}" "fields_ok fs" "new_name fs (D d tbl)"
  shows "pools_ok (snd (h_Update h d tbl [(''id'', VStr i)] (stamped fs t) D) d)"
  using assms(2) pools_ok_update [OF assms(2-5), of i t]
  by (simp add: update_tables [OF assms(1)] updated_rows_def)

lemma bound_ok:
  assumes "pool_db h" "pools_ok (D d)" "p \<in> set (D d pools_table)" "sv \<in> set (D d services_table)"
    and "\<not> list_ex (row_matches [(''pool_id'', VStr (row_str p ''id'')), (''role'', VStr w)]) (D d associations_table)"
    and "map_get a ''pool_id'' = Some (VStr (row_str p ''id''))" "map_get a ''role'' = Some (VStr w)"
    and "map_get a ''service_id'' = Some (VStr (row_str sv ''id''))"
  shows "pools_ok (snd (h_Create h d associations_table a D) d)"
proof -
  have "map_get p ''id'' = Some (VStr (row_str p ''id''))" "map_get sv ''id'' = Some (VStr (row_str sv ''id''))"
    using assms(2-4) by (auto simp: pools_ok_def keyed_def list_all_iff)
  then have "pools_ok ((D d)(associations_table := D d associations_table @ [a]))"
    by (intro pools_ok_bind [OF assms(2) _ _ assms(5-7)]) (use assms(3,4,6,8) in auto)
  with assms(2) show ?thesis by (simp add: create_tables [OF assms(1)])
qed

lemma deleted_ok:
  assumes "pool_db h" "pools_ok (D d)"
  shows "\<not> list_ex (row_matches [(''pool_id'', VStr i)]) (D d associations_table) \<Longrightarrow>
       pools_ok (snd (h_Delete h d pools_table i D) d)"
    and "\<not> list_ex (row_matches [(''service_id'', VStr i)]) (D d associations_table) \<Longrightarrow>
       pools_ok (snd (h_Delete h d services_table i D) d)"
    and "pools_ok (snd (h_Delete h d associations_table i D) d)"
    and "pools_ok (snd (h_DeleteByFields h d associations_table fs D) d)"
  using assms(2)
  by (simp_all add: delete_tables [OF assms(1)] delete_by_fields_tables [OF assms(1)]
      pools_ok_delete_pool pools_ok_delete_service pools_ok_unbind)

section \<open>Rules for the controller\<close>

lemma wpc_ClearError [wpc]: "Q () (core (k\<lparr>genericError := None\<rparr>)) \<Longrightarrow> wpc ClearError Q k"
  unfolding ClearError_def by (rule wpc_modifys) simp_all

lemma wpc_Pool_OpLog [wpc]:
  "(\<And>ol. Q () (core (k\<lparr>oplogs := oplogs k @ [ol]\<rparr>))) \<Longrightarrow> wpc (Pool_OpLog op pl) Q k"
  unfolding Pool_OpLog_def by (intro wpc) simp

lemma wpc_crud_FindByField [wpc]:
  assumes "\<And>row e. h_FindByField h (db_for False k) tbl f v (dbs k) = (row, e) \<Longrightarrow>
     Q (if e = None then row else None, e) (core k)"
  shows "wpc (crud_FindByField (DbCRUD h False) m tbl f v) Q k"
  unfolding crud_FindByField_def by (intro wpc) (use assms in auto)

lemma wpc_crud_Update [wpc]:
  assumes "wpc (c_Update cr tbl i fs) Q k"
  shows "wpc (crud_Update cr m tbl i fs lfs) Q k"
  unfolding crud_Update_def
  by (intro wpc_traced wpc_bind wpc_mono [OF assms] wpc) simp

lemma pool_tables_store: "store s = store t \<Longrightarrow> pool_tables s = pool_tables t"
  by (auto simp: store_def pool_tables_def db_for_def split: option.splits)

lemma add_one_field: "AddField name v NewFilter = NewFilter\<lparr>Fields := Some [(name, v)]\<rparr>"
  by (simp add: AddField_def NewFilter_def nil_map_def map_set_def)

lemma binding_filter_fields:
  "binding_filter i r = NewFilter\<lparr>Fields := Some [(''pool_id'', VStr i), (''role'', VStr r)]\<rparr>"
  by (simp add: binding_filter_def AddField_def NewFilter_def nil_map_def map_set_def)

lemma wpc_CheckPoolNameUnique:
  assumes "pool_db h" "\<And>e k'. store k' = store k \<Longrightarrow> core k' = k' \<Longrightarrow> Q (Some e) k'"
    and "\<not> list_ex (row_matches [(''name'', v)]) (pool_tables k pools_table) \<Longrightarrow> Q None (core k)"
  shows "wpc (CheckPoolNameUnique (DbCRUD h False) v) Q k"
  unfolding CheckPoolNameUnique_def add_one_field
  by (intro wpc) (use assms(2,3) in \<open>auto simp: pool_tables_def dest!: exists_rows [OF assms(1)] split: if_splits\<close>)

lemma wpc_CheckServiceNameUnique:
  assumes "pool_db h" "\<And>e k'. store k' = store k \<Longrightarrow> core k' = k' \<Longrightarrow> Q (Some e) k'"
    and "\<not> list_ex (row_matches [(''name'', v)]) (pool_tables k services_table) \<Longrightarrow> Q None (core k)"
  shows "wpc (CheckServiceNameUnique (DbCRUD h False) v) Q k"
  unfolding CheckServiceNameUnique_def add_one_field
  by (intro wpc) (use assms(2,3) in \<open>auto simp: pool_tables_def dest!: exists_rows [OF assms(1)] split: if_splits\<close>)

lemma wpc_FindPool:
  assumes "\<And>row. h_FindByField h (db_for False k) pools_table (fieldName b) (VStr i) (dbs k) = (Some row, None) \<Longrightarrow>
       Q (Some (row_pool row), None) (core k)"
    and "\<And>e k'. store k' = store k \<Longrightarrow> core k' = k' \<Longrightarrow> Q (None, e) k'"
  shows "wpc (FindPool (DbCRUD h False) i b) Q k"
  unfolding FindPool_def by (intro wpc) (use assms in \<open>auto split: if_splits\<close>)

lemma wpc_FindService:
  assumes "\<And>row. h_FindByField h (db_for False k) services_table (fieldName b) (VStr i) (dbs k) = (Some row, None) \<Longrightarrow>
       Q (Some (row_service row), None) (core k)"
    and "\<And>e k'. store k' = store k \<Longrightarrow> core k' = k' \<Longrightarrow> Q (None, e) k'"
  shows "wpc (FindService (DbCRUD h False) i b) Q k"
  unfolding FindService_def by (intro wpc) (use assms in \<open>auto split: if_splits\<close>)

lemma wpc_ctrl_PoolId:
  assumes "\<And>j e k'. store k' = store k \<Longrightarrow> core k' = k' \<Longrightarrow> Q (j, e) k'"
  shows "wpc (ctrl_PoolId (DbCRUD h False) c i b) Q k"
  unfolding ctrl_PoolId_def by (intro wpc wpc_FindPool) (use assms in auto)

lemma wpc_ctrl_ServiceId:
  assumes "\<And>j e k'. store k' = store k \<Longrightarrow> core k' = k' \<Longrightarrow> Q (j, e) k'"
  shows "wpc (ctrl_ServiceId (DbCRUD h False) c i b) Q k"
  unfolding ctrl_ServiceId_def by (intro wpc wpc_FindService) (use assms in auto)

lemma row_ids [simp]:
  "map_get (pool_row p) ''id'' = Some (VStr (obj_id p))" "map_get (pool_row p) ''name'' = Some (VStr (pl_NAME p))"
  "map_get (service_row sv) ''id'' = Some (VStr (obj_id sv))" "map_get (service_row sv) ''name'' = Some (VStr (sv_NAME sv))"
  "map_get (association_row a) ''pool_id'' = Some (VStr (as_POOL_ID a))"
  "map_get (association_row a) ''role'' = Some (VStr (as_ROLE a))"
  "map_get (association_row a) ''service_id'' = Some (VStr (as_SERVICE_ID a))"
  by (simp_all add: pool_row_def service_row_def association_row_def)

section \<open>Every operation keeps the invariant\<close>

lemmas ok_simps = pool_tables_def [symmetric]

lemma AddPool_ok:
  assumes "pool_db h" "pools_ok (pool_tables k)"
  shows "wpc (AddPool (DbCRUD h False) p) (\<lambda>r k'. pools_ok (pool_tables k')) k"
  unfolding AddPool_def
  by (intro wpc wpc_CheckPoolNameUnique [OF assms(1)])
     (use assms(2) in \<open>auto simp: ok_simps dest: pool_tables_store intro!: created_ok [OF assms(1)]\<close>)

lemma AddService_ok:
  assumes "pool_db h" "pools_ok (pool_tables k)"
  shows "wpc (AddService (DbCRUD h False) sv) (\<lambda>r k'. pools_ok (pool_tables k')) k"
  unfolding AddService_def
  by (intro wpc wpc_CheckServiceNameUnique [OF assms(1)])
     (use assms(2) in \<open>auto simp: ok_simps dest: pool_tables_store intro!: created_ok [OF assms(1)]\<close>)

lemma wpc_crud_FindUpdate:
  assumes "pool_db h" "pools_ok (pool_tables k)" "tbl \<in> {pools_table, services_table}" "fields_ok fs"
    and "new_name fs (pool_tables k tbl)"
    and "\<And>r k'. core k' = k' \<Longrightarrow> pools_ok (pool_tables k') \<Longrightarrow> Q r k'"
  shows "wpc (crud_FindUpdate (DbCRUD h False) m tbl f v fs) Q k"
  unfolding crud_FindUpdate_def
  by (intro wpc) (use assms(2-5) in \<open>auto simp: ok_simps intro!: assms(6) updated_ok [OF assms(1)]\<close>)

lemma wpc_log_update:
  "(\<And>k'. store k' = store k \<Longrightarrow> core k' = k' \<Longrightarrow> Q () k') \<Longrightarrow> wpc (log_update suffix fs i n) Q k"
  unfolding log_update_def by (intro wpc) auto

lemma UpdatePool_ok:
  assumes "pool_db h" "pools_ok (pool_tables k)" "fields_ok fs"
  shows "wpc (UpdatePool (DbCRUD h False) i fs b) (\<lambda>r k'. pools_ok (pool_tables k')) k"
  unfolding UpdatePool_def
  by (intro wpc wpc_CheckPoolNameUnique [OF assms(1)] wpc_crud_FindUpdate [OF assms(1)] wpc_log_update wpc_FindPool)
     (use assms(2,3) in \<open>auto simp: new_name_def dest: pool_tables_store\<close>)

lemma UpdateService_ok:
  assumes "pool_db h" "pools_ok (pool_tables k)" "fields_ok fs"
  shows "wpc (UpdateService (DbCRUD h False) i fs b) (\<lambda>r k'. pools_ok (pool_tables k')) k"
  unfolding UpdateService_def
  by (intro wpc wpc_CheckServiceNameUnique [OF assms(1)] wpc_crud_FindUpdate [OF assms(1)] wpc_log_update wpc_FindService)
     (use assms(2,3) in \<open>auto simp: new_name_def dest: pool_tables_store\<close>)

text \<open>The row that is deleted is the one that was found by its identifier.\<close>

lemma wpc_crud_Delete:
  assumes "pool_db h" "pools_ok (pool_tables k)"
    and "tbl = pools_table \<and> \<not> list_ex (row_matches [(''pool_id'', VStr i)]) (pool_tables k associations_table)
       \<or> tbl = services_table \<and> \<not> list_ex (row_matches [(''service_id'', VStr i)]) (pool_tables k associations_table)"
    and "\<And>r k'. core k' = k' \<Longrightarrow> pools_ok (pool_tables k') \<Longrightarrow> Q r k'"
  shows "wpc (crud_Delete (DbCRUD h False) m tbl ''id'' (VStr i)) Q k"
proof -
  have "row_str row ''id'' = i"
    if "h_FindByField h (db_for False k) tbl ''id'' (VStr i) (dbs k) = (Some row, e)" for row e
    using find_row(2) [OF assms(1) that] by (simp add: row_str_def)
  then show ?thesis
    unfolding crud_Delete_def
    by (intro wpc) (use assms(2,3) in \<open>auto simp: ok_simps intro!: assms(4) deleted_ok [OF assms(1)] split: if_splits\<close>)
qed

lemma DeletePool_ok:
  assumes "pool_db h" "pools_ok (pool_tables k)"
  shows "wpc (DeletePool (DbCRUD h False) i b) (\<lambda>r k'. pools_ok (pool_tables k')) k"
  unfolding DeletePool_def add_one_field
  by (intro wpc wpc_ctrl_PoolId wpc_crud_Delete [OF assms(1)])
     (use assms(2) in \<open>auto simp: ok_simps dest: pool_tables_store dest!: exists_rows [OF assms(1)]\<close>)

lemma DeleteService_ok:
  assumes "pool_db h" "pools_ok (pool_tables k)"
  shows "wpc (DeleteService (DbCRUD h False) i b) (\<lambda>r k'. pools_ok (pool_tables k')) k"
  unfolding DeleteService_def add_one_field
  by (intro wpc wpc_ctrl_ServiceId wpc_crud_Delete [OF assms(1)])
     (use assms(2) in \<open>auto simp: ok_simps dest: pool_tables_store dest!: exists_rows [OF assms(1)]\<close>)

lemma removals_ok:
  assumes "pool_db h" "pools_ok (pool_tables k)"
  shows "wpc (RemoveServiceFromPool (DbCRUD h False) i role b) (\<lambda>r k'. pools_ok (pool_tables k')) k"
    and "wpc (RemoveAllServicesFromPool (DbCRUD h False) i b) (\<lambda>r k'. pools_ok (pool_tables k')) k"
    and "wpc (RemoveServiceFromAllPools (DbCRUD h False) i b) (\<lambda>r k'. pools_ok (pool_tables k')) k"
  unfolding RemoveServiceFromPool_def RemoveAllServicesFromPool_def RemoveServiceFromAllPools_def
  by (intro wpc wpc_ctrl_PoolId wpc_ctrl_ServiceId;
      use assms(2) in \<open>auto simp: ok_simps dest: pool_tables_store intro!: deleted_ok [OF assms(1)]\<close>)+

lemma row_obj_ids [simp]: "obj_id (row_pool row) = row_str row ''id''" "obj_id (row_service row) = row_str row ''id''"
  by (simp_all add: row_pool_def row_service_def)

lemma AddServiceToPool_ok:
  assumes "pool_db h" "pools_ok (pool_tables k)"
  shows "wpc (AddServiceToPool (DbCRUD h False) i j role b) (\<lambda>r k'. pools_ok (pool_tables k')) k"
  unfolding AddServiceToPool_def Let_def binding_filter_fields
  by (intro wpc wpc_FindPool wpc_FindService)
     (use assms(2) in \<open>auto simp: ok_simps dest: pool_tables_store
        dest!: find_row(1) [OF assms(1)] exists_rows [OF assms(1)] intro!: bound_ok [OF assms(1)]\<close>)

text \<open>The states that the operations of the controller lead to.\<close>

inductive pool_reachable :: "dbhandlers \<Rightarrow> 'z op_ctx_scheme \<Rightarrow> 'z op_ctx_scheme \<Rightarrow> bool" for h s where
  initial: "pool_reachable h s s"
| add_pool: "pool_reachable h s t \<Longrightarrow> run_state (AddPool (DbCRUD h False) p) t = (r, u) \<Longrightarrow> pool_reachable h s u"
| update_pool: "pool_reachable h s t \<Longrightarrow> fields_ok fs \<Longrightarrow>
    run_state (UpdatePool (DbCRUD h False) i fs b) t = (r, u) \<Longrightarrow> pool_reachable h s u"
| delete_pool: "pool_reachable h s t \<Longrightarrow> run_state (DeletePool (DbCRUD h False) i b) t = (e, u) \<Longrightarrow> pool_reachable h s u"
| add_service: "pool_reachable h s t \<Longrightarrow> run_state (AddService (DbCRUD h False) sv) t = (rs, u) \<Longrightarrow> pool_reachable h s u"
| update_service: "pool_reachable h s t \<Longrightarrow> fields_ok fs \<Longrightarrow>
    run_state (UpdateService (DbCRUD h False) i fs b) t = (rs, u) \<Longrightarrow> pool_reachable h s u"
| delete_service: "pool_reachable h s t \<Longrightarrow> run_state (DeleteService (DbCRUD h False) i b) t = (e, u) \<Longrightarrow> pool_reachable h s u"
| bind: "pool_reachable h s t \<Longrightarrow> run_state (AddServiceToPool (DbCRUD h False) i j role b) t = (e, u) \<Longrightarrow> pool_reachable h s u"
| unbind: "pool_reachable h s t \<Longrightarrow> run_state (RemoveServiceFromPool (DbCRUD h False) i role b) t = (e, u) \<Longrightarrow> pool_reachable h s u"
| unbind_pool: "pool_reachable h s t \<Longrightarrow> run_state (RemoveAllServicesFromPool (DbCRUD h False) i b) t = (e, u) \<Longrightarrow> pool_reachable h s u"
| unbind_service: "pool_reachable h s t \<Longrightarrow> run_state (RemoveServiceFromAllPools (DbCRUD h False) i b) t = (e, u) \<Longrightarrow> pool_reachable h s u"

lemma wpc_ok_run: "wpc m (\<lambda>r k'. pools_ok (pool_tables k')) k \<Longrightarrow> run_state m k = (r, u) \<Longrightarrow> pools_ok (pool_tables u)"
  by (drule (1) wpcE) simp

lemma reachable_ok:
  assumes "pool_db h" "pool_reachable h s t" "pools_ok (pool_tables s)"
  shows "pools_ok (pool_tables t)"
  using assms(2,3)
  by (induction rule: pool_reachable.induct)
     (blast intro: wpc_ok_run [OF AddPool_ok [OF assms(1)]] wpc_ok_run [OF AddService_ok [OF assms(1)]]
        wpc_ok_run [OF UpdatePool_ok [OF assms(1)]] wpc_ok_run [OF UpdateService_ok [OF assms(1)]]
        wpc_ok_run [OF DeletePool_ok [OF assms(1)]] wpc_ok_run [OF DeleteService_ok [OF assms(1)]]
        wpc_ok_run [OF AddServiceToPool_ok [OF assms(1)]] wpc_ok_run [OF removals_ok(1) [OF assms(1)]]
        wpc_ok_run [OF removals_ok(2) [OF assms(1)]] wpc_ok_run [OF removals_ok(3) [OF assms(1)]])+

text \<open>A database of tables with a primary key.\<close>

definition keyed_db :: dbhandlers where
  "keyed_db = table_db\<lparr>h_Create := (\<lambda>d tbl row D.
     if list_ex (\<lambda>r. map_get r ''id'' = map_get row ''id'') (D d tbl) then (errors_New ''duplicate key'', D)
     else (None, set_table d tbl (D d tbl @ [row]) D))\<rparr>"

lemma keyed_db_laws: "pool_db keyed_db"
proof -
  have "create_appends keyed_db" "create_unique keyed_db" "failed_writes_keep keyed_db"
    by (auto simp: create_appends_def create_unique_def failed_writes_keep_def keyed_db_def table_db_def
        list_ex_iff split: if_splits)
  then show ?thesis
    using table_db_find(1) table_db_writes
    by (simp add: pool_db_def find_returns_match_def update_writes_matches_def exists_checks_def
        delete_removes_def delete_by_fields_removes_def keyed_db_def)
qed

section \<open>What is found of a binding\<close>

text \<open>
  The join that \<^verbatim>\<open>GetPoolBindings\<close> builds: associations with the pool and the service they refer to,
  the columns taken from the tables that the tags \<^verbatim>\<open>source\<close> of \<^verbatim>\<open>PoolServiceBinding\<close> name.
\<close>

definition pick :: "fields \<Rightarrow> string \<Rightarrow> string \<Rightarrow> string \<times> gval" where
  "pick row column name = (name, case map_get row column of None \<Rightarrow> VNil | Some v \<Rightarrow> v)"

definition service_columns :: "string list" where
  "service_columns = [''long_name'', ''description'', ''active'', ''type_name'', ''refid'', ''provider'', ''public_host'',
     ''public_port'', ''public_url'', ''private_host'', ''private_port'', ''private_url'', ''user'', ''db_name'',
     ''parameter1'', ''parameter2'', ''parameter3'', ''parameter1_name'', ''parameter2_name'', ''parameter3_name'',
     ''secret1'', ''secret2'']"

definition binding_row :: "fields \<Rightarrow> fields \<Rightarrow> fields \<Rightarrow> fields" where
  "binding_row a p sv =
     [pick a ''id'' ''id'', pick a ''created_at'' ''created_at'', pick a ''updated_at'' ''updated_at'', pick a ''role'' ''role'',
      pick p ''id'' ''pool_id'', pick p ''name'' ''pool_name'', pick sv ''id'' ''service_id'', pick sv ''name'' ''service_name'']
     @ map (\<lambda>column. pick sv column column) service_columns"

definition join_bindings :: "(string \<Rightarrow> fields list) \<Rightarrow> string \<Rightarrow> fields list" where
  "join_bindings T i = concat (map (\<lambda>a. concat (map (\<lambda>p. map (binding_row a p)
       (filter (\<lambda>sv. map_get sv ''id'' = map_get a ''service_id'') (T services_table)))
     (filter (\<lambda>p. map_get p ''id'' = map_get a ''pool_id'' \<and> map_get p ''id'' = Some (VStr i)) (T pools_table))))
     (T associations_table))"

definition joins_bindings :: "dbhandlers \<Rightarrow> bool" where
  "joins_bindings h \<longleftrightarrow> (\<forall>d D i rows n.
     h_Join h d ''GetPoolBindings'' (AddField ''pools.id'' (VStr i) NewFilter) D = (rows, n, None) \<longrightarrow>
     rows = join_bindings (D d) i)"

lemma row_pick [simp]:
  "row_str (pick r c n # row) k = (if k = n then row_str r c else row_str row k)"
  "row_bool (pick r c n # row) k = (if k = n then row_bool r c else row_bool row k)"
  "row_time (pick r c n # row) k = (if k = n then row_time r c else row_time row k)"
  "row_nat (pick r c n # row) k = (if k = n then row_nat r c else row_nat row k)"
  by (auto simp: pick_def row_str_def row_bool_def row_time_def row_nat_def split: option.splits)

lemma row_binding_row:
  "row_binding (binding_row a p sv) = \<lparr>obj_id = row_str a ''id'', created_at = row_time a ''created_at'',
     updated_at = row_time a ''updated_at'', bd_ROLE = row_str a ''role'', bd_data = row_service_data sv,
     bd_PoolId = row_str p ''id'', bd_PoolName = row_str p ''name'',
     bd_ServiceId = row_str sv ''id'', bd_ServiceName = row_str sv ''name''\<rparr>"
  by (simp add: row_binding_def binding_row_def row_service_data_def service_columns_def)

lemma set_join_bindings: "r \<in> set (join_bindings T i) \<longleftrightarrow>
   (\<exists>a p sv. r = binding_row a p sv \<and> a \<in> set (T associations_table) \<and> p \<in> set (T pools_table)
      \<and> sv \<in> set (T services_table) \<and> map_get p ''id'' = map_get a ''pool_id'' \<and> map_get p ''id'' = Some (VStr i)
      \<and> map_get sv ''id'' = map_get a ''service_id'')"
  unfolding join_bindings_def by auto

lemma SetServices_unique:
  assumes "bd \<in> set bs" "\<And>b. b \<in> set bs \<Longrightarrow> bd_ROLE b = bd_ROLE bd \<Longrightarrow> b = bd"
  shows "Pool_Service (SetServices bs p) (bd_ROLE bd) = Inr bd"
proof -
  have "map_get (foldl (\<lambda>m service. map_set m (bd_ROLE service) service) [] bs) (bd_ROLE bd) = Some bd"
    using assms
  proof (induction bs rule: rev_induct)
    case (snoc b bs)
    then show ?case by (cases "bd_ROLE b = bd_ROLE bd") auto
  qed simp
  then show ?thesis by (simp add: Pool_Service_def SetServices_def)
qed

text \<open>In well-formed tables the binding of a pool in a role is unique.\<close>

lemma keyed_inj: "keyed rows \<Longrightarrow> r1 \<in> set rows \<Longrightarrow> r2 \<in> set rows \<Longrightarrow> map_get r1 ''id'' = map_get r2 ''id'' \<Longrightarrow> r1 = r2"
  by (auto simp: keyed_def distinct_map dest: inj_onD)

lemma named_inj: "named rows \<Longrightarrow> r1 \<in> set rows \<Longrightarrow> r2 \<in> set rows \<Longrightarrow> map_get r1 ''name'' = map_get r2 ''name'' \<Longrightarrow> r1 = r2"
  by (auto simp: named_def distinct_map dest: inj_onD)

lemma bound_service:
  assumes "pools_ok T" "a \<in> set (T associations_table)" "p \<in> set (T pools_table)" "sv \<in> set (T services_table)"
    and "map_get p ''id'' = map_get a ''pool_id''" "map_get sv ''id'' = map_get a ''service_id''"
    and "map_get p ''id'' = Some (VStr i)"
  shows "Pool_Service (SetServices (map row_binding (join_bindings T i)) pl) (row_str a ''role'')
       = Inr (row_binding (binding_row a p sv))"
proof -
  have ok: "keyed (T pools_table)" "keyed (T services_table)"
    "inj_on (\<lambda>a. (map_get a ''pool_id'', map_get a ''role'')) (set (T associations_table))"
    "\<forall>a \<in> set (T associations_table). map_get a ''role'' = Some (VStr (row_str a ''role''))"
    using assms(1) by (auto simp: pools_ok_def list_all_iff distinct_map)
  have "binding_row a' p' sv' = binding_row a p sv"
    if "a' \<in> set (T associations_table)" "p' \<in> set (T pools_table)" "sv' \<in> set (T services_table)"
      "map_get p' ''id'' = map_get a' ''pool_id''" "map_get p' ''id'' = Some (VStr i)"
      "map_get sv' ''id'' = map_get a' ''service_id''" "row_str a' ''role'' = row_str a ''role''" for a' p' sv'
  proof -
    have "p' = p" using keyed_inj [OF ok(1) that(2) assms(3)] that(5) assms(7) by simp
    moreover from this have "a' = a"
      using inj_onD [OF ok(3) _ that(1) assms(2)] ok(4) that(1,4,7) assms(2,5) by simp
    moreover from this have "sv' = sv" using keyed_inj [OF ok(2) that(3) assms(4)] that(6) assms(6) by simp
    ultimately show ?thesis by simp
  qed
  note unique = this
  let ?bs = "map row_binding (join_bindings T i)" and ?bd = "row_binding (binding_row a p sv)"
  have role: "bd_ROLE (row_binding (binding_row a p sv)) = row_str a ''role''" for a p sv
    by (simp add: row_binding_row)
  have "?bd \<in> set ?bs"
    unfolding set_map by (rule imageI) (use assms in \<open>simp only: set_join_bindings, blast\<close>)
  moreover have "bd = ?bd" if bd: "bd \<in> set ?bs" and eq: "bd_ROLE bd = bd_ROLE ?bd" for bd
  proof -
    from bd obtain r where r: "bd = row_binding r" "r \<in> set (join_bindings T i)" by auto
    obtain a' p' sv' where *: "r = binding_row a' p' sv'" "a' \<in> set (T associations_table)"
        "p' \<in> set (T pools_table)" "sv' \<in> set (T services_table)" "map_get p' ''id'' = map_get a' ''pool_id''"
        "map_get p' ''id'' = Some (VStr i)" "map_get sv' ''id'' = map_get a' ''service_id''"
      using r(2) [unfolded set_join_bindings] by blast
    from eq have "row_str a' ''role'' = row_str a ''role''" by (simp only: r(1) *(1) role)
    then have "binding_row a' p' sv' = binding_row a p sv" by (rule unique [OF *(2-7)])
    with r(1) *(1) show ?thesis by (metis (no_types))
  qed
  ultimately have "Pool_Service (SetServices ?bs pl) (bd_ROLE ?bd) = Inr ?bd" by (rule SetServices_unique)
  then show ?thesis by (simp only: role)
qed

lemma wpc_DbCRUD_Join [wpc]:
  assumes "\<And>rows n e. h_Join h (db_for main k) q flt (dbs k) = (rows, n, e) \<Longrightarrow>
     Q ((rows, if e = None then n else 0), e) (core k)"
  shows "wpc (c_Join (DbCRUD h main) q flt) Q k"
  unfolding DbCRUD_defs crud.simps by (intro wpc) (use assms in auto)

text \<open>A binding that is added refers to the pool and the service that were found.\<close>

definition binding_added :: "(string \<Rightarrow> fields list) \<Rightarrow> bool list \<Rightarrow> string \<Rightarrow> string \<Rightarrow> string
    \<Rightarrow> (string \<Rightarrow> fields list) \<Rightarrow> bool" where
  "binding_added T b i j role T' \<longleftrightarrow> (\<exists>p sv a.
     p \<in> set (T pools_table) \<and> map_get p (fieldName b) = Some (VStr i)
     \<and> sv \<in> set (T services_table) \<and> map_get sv (fieldName b) = Some (VStr j)
     \<and> map_get a ''pool_id'' = Some (VStr (row_str p ''id'')) \<and> map_get a ''service_id'' = Some (VStr (row_str sv ''id''))
     \<and> map_get a ''role'' = Some (VStr role)
     \<and> T' = T(associations_table := T associations_table @ [a]))"

lemma binding_addedI:
  assumes "pool_db h" "h_FindByField h d pools_table (fieldName b) (VStr i) D = (Some p, e)"
    and "h_FindByField h d services_table (fieldName b) (VStr j) D = (Some sv, e')"
    and "fst (h_Create h d associations_table a D) = None"
    and "map_get a ''pool_id'' = Some (VStr (row_str p ''id''))" "map_get a ''service_id'' = Some (VStr (row_str sv ''id''))"
    and "map_get a ''role'' = Some (VStr role)"
  shows "binding_added (D d) b i j role (snd (h_Create h d associations_table a D) d)"
  unfolding binding_added_def create_tables [OF assms(1)]
  using find_row [OF assms(1,2)] find_row [OF assms(1,3)] assms(4-7)
  by (intro exI [of _ p] exI [of _ sv] exI [of _ a]) simp

lemma AddServiceToPool_adds:
  assumes "pool_db h"
  shows "wpc (AddServiceToPool (DbCRUD h False) i j role b)
     (\<lambda>e k'. e = None \<longrightarrow> binding_added (pool_tables k) b i j role (pool_tables k')) k"
  unfolding AddServiceToPool_def Let_def
  by (intro wpc wpc_FindPool wpc_FindService)
     (auto simp: pool_tables_def intro!: binding_addedI [OF assms])

lemma wpc_GetPoolBindings:
  assumes "joins_bindings h"
    and "i \<noteq> [] \<Longrightarrow> Q (map row_binding (join_bindings (pool_tables k) i), None) (core k)"
    and "\<And>bs e k'. core k' = k' \<Longrightarrow> i = [] \<or> e \<noteq> None \<Longrightarrow> Q (bs, e) k'"
  shows "wpc (GetPoolBindings (DbCRUD h False) i []) Q k"
  unfolding GetPoolBindings_def ctrl_PoolId_def OptionalArg_simps
  by (intro wpc) (use assms(2,3) in \<open>auto simp: pool_tables_def
      dest!: assms(1) [unfolded joins_bindings_def, rule_format] split: if_splits\<close>)

lemma wpc_FindPool_present:
  assumes "pool_db h" "find_misses_nothing h" "p \<in> set (pool_tables k pools_table)" "map_get p (fieldName b) = Some (VStr i)"
    and "\<And>row. row \<in> set (pool_tables k pools_table) \<Longrightarrow> map_get row (fieldName b) = Some (VStr i) \<Longrightarrow>
       Q (Some (row_pool row), None) (core k)"
    and "\<And>e. e \<noteq> None \<Longrightarrow> Q (None, e) (core k)"
  shows "wpc (FindPool (DbCRUD h False) i b) Q k"
proof -
  have "h_FindByField h (db_for False k) pools_table (fieldName b) (VStr i) (dbs k) \<noteq> (None, None)"
    using assms(2-4) by (auto simp: find_misses_nothing_def pool_tables_def)
  then show ?thesis
    unfolding FindPool_def
    by (intro wpc) (use assms(5,6) in \<open>auto simp: pool_tables_def dest: find_row [OF assms(1)] split: if_splits\<close>)
qed

lemma LoadPool_loads:
  assumes "pool_db h" "find_misses_nothing h" "joins_bindings h"
    and "p \<in> set (pool_tables k pools_table)" "map_get p (fieldName b) = Some (VStr i)"
    and "list_all (\<lambda>row. row_str row ''id'' \<noteq> []) (pool_tables k pools_table)"
  shows "wpc (LoadPool (DbCRUD h False) i b) (\<lambda>(po, e) k'. e \<noteq> None \<or>
     (\<exists>row \<in> set (pool_tables k pools_table). map_get row (fieldName b) = Some (VStr i)
        \<and> po = Some (SetServices (map row_binding (join_bindings (pool_tables k) (row_str row ''id''))) (row_pool row)))) k"
  unfolding LoadPool_def
  by (intro wpc wpc_FindPool_present [OF assms(1,2,4,5)] wpc_GetPoolBindings [OF assms(3)])
     (use assms(6) in \<open>auto simp: list_all_iff\<close>)

lemma field_unique:
  assumes "pools_ok T" "p \<in> set (T pools_table)" "row \<in> set (T pools_table)"
    and "map_get p (fieldName b) = map_get row (fieldName b)"
  shows "row = p"
proof (cases "OptionalArg False b")
  case True
  with assms show ?thesis using named_inj [of "T pools_table" row p] by (simp add: fieldName_def pools_ok_def)
next
  case False
  with assms show ?thesis using keyed_inj [of "T pools_table" row p] by (simp add: fieldName_def pools_ok_def)
qed

lemma found_after_added:
  assumes "pools_ok T'" "binding_added T b i j role T'" "row \<in> set (T' pools_table)"
    and "map_get row (fieldName b) = Some (VStr i)"
  shows "\<exists>sv bd. sv \<in> set (T services_table) \<and> map_get sv (fieldName b) = Some (VStr j)
     \<and> Pool_Service (SetServices (map row_binding (join_bindings T' (row_str row ''id''))) pl) role = Inr bd
     \<and> bd_PoolId bd = row_str row ''id'' \<and> bd_ServiceId bd = row_str sv ''id'' \<and> bd_data bd = row_service_data sv"
proof -
  from assms(2) obtain p sv a where *: "p \<in> set (T pools_table)" "map_get p (fieldName b) = Some (VStr i)"
     "sv \<in> set (T services_table)" "map_get sv (fieldName b) = Some (VStr j)"
     "map_get a ''pool_id'' = Some (VStr (row_str p ''id''))" "map_get a ''service_id'' = Some (VStr (row_str sv ''id''))"
     "map_get a ''role'' = Some (VStr role)" "T' = T(associations_table := T associations_table @ [a])"
    unfolding binding_added_def by blast
  from assms(1,3,4) *(1,2,8) have "row = p" by (intro field_unique [of T' _ _ b]) auto
  have "map_get p ''id'' = Some (VStr (row_str p ''id''))" "map_get sv ''id'' = Some (VStr (row_str sv ''id''))"
    using assms(1) *(1,3,8) by (auto simp: pools_ok_def keyed_def list_all_iff)
  with bound_service [OF assms(1), of a p sv "row_str p ''id''" pl] *
  have "Pool_Service (SetServices (map row_binding (join_bindings T' (row_str p ''id''))) pl) (row_str a ''role'')
       = Inr (row_binding (binding_row a p sv))" by simp
  with * \<open>row = p\<close> show ?thesis
    by (intro exI [of _ sv] exI [of _ "row_binding (binding_row a p sv)"])
       (simp add: row_binding_row row_str_def [of a])
qed

section \<open>Properties\<close>

text \<open>
  C9: whatever operations of the pool controller are run, successful or not, the names of pools and
  of services stay unique, a pool has at most one service in a role, and every binding refers to a pool and to a
  service that exist.
\<close>

theorem pool_invariant:
  assumes "pool_db h" "pool_reachable h s t" "pools_ok (pool_tables s)"
  shows "pools_ok (pool_tables t)"
  by (rule reachable_ok [OF assms])

definition demo_pool :: pool where
  "demo_pool = NewPool\<lparr>pl_NAME := ''p1''\<rparr>"

lemma demo_tables_ok: "pools_ok (pool_tables demo_ctx)"
  by (simp add: pools_ok_def keyed_def named_def pool_tables_def demo_ctx_def)

theorem pool_invariant_witness:
  "pools_ok (pool_tables (snd (run_state (do {
     AddPool (DbCRUD keyed_db False) demo_pool;
     DeletePool (DbCRUD keyed_db False) ''p1'' [True] }) demo_ctx)))"
proof -
  obtain r u where add: "run_state (AddPool (DbCRUD keyed_db False) demo_pool) demo_ctx = (r, u)"
    by fastforce
  obtain e v where del: "run_state (DeletePool (DbCRUD keyed_db False) ''p1'' [True]) u = (e, v)"
    by fastforce
  have "pool_reachable keyed_db demo_ctx v"
    by (rule pool_reachable.delete_pool [OF pool_reachable.add_pool [OF pool_reachable.initial add] del])
  from pool_invariant [OF keyed_db_laws this demo_tables_ok] show ?thesis by (simp add: add del)
qed

text \<open>
  C10: a service that was added to a pool in a role is what the pool, loaded again by the same name or
  identifier, returns for that role, with the configuration of the service.
\<close>

theorem bound_service_found:
  assumes "pool_db h" "find_misses_nothing h" "joins_bindings h" "pools_ok (pool_tables s)"
    and "list_all (\<lambda>row. row_str row ''id'' \<noteq> []) (pool_tables s pools_table)"
    and "run_state (AddServiceToPool (DbCRUD h False) i j role b) s = (None, t)"
    and "run_state (LoadPool (DbCRUD h False) i b) t = ((po, e), u)"
  shows "e \<noteq> None \<or> (\<exists>p sv bd. po = Some p \<and> sv \<in> set (pool_tables s services_table)
     \<and> map_get sv (fieldName b) = Some (VStr j) \<and> Pool_Service p role = Inr bd
     \<and> bd_ServiceId bd = row_str sv ''id'' \<and> bd_data bd = row_service_data sv)"
proof -
  from wpcE [OF AddServiceToPool_adds [OF assms(1)] assms(6)]
  have added: "binding_added (pool_tables s) b i j role (pool_tables t)" by simp
  then obtain p where p: "p \<in> set (pool_tables t pools_table)" "map_get p (fieldName b) = Some (VStr i)"
      "pool_tables t pools_table = pool_tables s pools_table"
    by (auto simp: binding_added_def)
  have ok: "pools_ok (pool_tables t)" by (rule wpc_ok_run [OF AddServiceToPool_ok [OF assms(1,4)] assms(6)])
  have "e \<noteq> None \<or> (\<exists>row \<in> set (pool_tables t pools_table). map_get row (fieldName b) = Some (VStr i)
      \<and> po = Some (SetServices (map row_binding (join_bindings (pool_tables t) (row_str row ''id''))) (row_pool row)))"
    using wpcE [OF LoadPool_loads [OF assms(1-3) p(1,2)] assms(7)] assms(5) p(3) by simp
  then show ?thesis using found_after_added [OF ok added] by blast
qed

text \<open>A database that also answers the join, with a pool and a service.\<close>

definition joining_db :: dbhandlers where
  "joining_db = keyed_db\<lparr>h_Join := (\<lambda>d q f D. (case map_get (nil_map (Fields f)) ''pools.id'' of
     Some (VStr i) \<Rightarrow> (join_bindings (D d) i, 0, None) | _ \<Rightarrow> ([], 0, None)))\<rparr>"

lemma pool_db_Join: "pool_db (h\<lparr>h_Join := j\<rparr>) = pool_db h"
  by (simp add: pool_db_def find_returns_match_def update_writes_matches_def exists_checks_def create_appends_def
      create_unique_def delete_removes_def delete_by_fields_removes_def failed_writes_keep_def)

lemma joining_db_laws: "pool_db joining_db" "find_misses_nothing joining_db" "joins_bindings joining_db"
proof -
  show "pool_db joining_db" unfolding joining_db_def pool_db_Join by (rule keyed_db_laws)
  show "find_misses_nothing joining_db"
    using table_db_find(2) by (simp add: find_misses_nothing_def joining_db_def keyed_db_def)
  show "joins_bindings joining_db"
    by (simp add: joins_bindings_def joining_db_def AddField_def nil_map_def)
qed

definition demo_service :: pool_service where
  "demo_service = \<lparr>obj_id = ''s'', created_at = 0, updated_at = 0, sv_NAME = ''db1'', sv_data = row_service_data []\<rparr>"

definition demo_pool_ctx :: op_ctx where
  "demo_pool_ctx = demo_ctx\<lparr>dbs := (\<lambda>d tbl. if tbl = pools_table then [pool_row (demo_pool\<lparr>obj_id := ''p''\<rparr>)]
     else if tbl = services_table then [service_row demo_service] else [])\<rparr>"

lemma demo_pool_tables: "pool_tables demo_pool_ctx = (\<lambda>tbl. if tbl = pools_table then [pool_row (demo_pool\<lparr>obj_id := ''p''\<rparr>)]
     else if tbl = services_table then [service_row demo_service] else [])"
  by (simp add: demo_pool_ctx_def pool_tables_def)

lemma demo_bind_succeeds:
  "wpc (AddServiceToPool (DbCRUD joining_db False) ''p1'' ''db1'' ''main'' [True]) (\<lambda>e k. e = None) demo_pool_ctx"
  unfolding AddServiceToPool_def Let_def binding_filter_fields FindPool_def FindService_def fieldName_def
  by (intro wpc) (auto simp: joining_db_def keyed_db_def table_db_def demo_pool_ctx_def demo_pool_def demo_service_def
      pool_row_def service_row_def nil_map_def)

theorem bound_service_found_witness:
  "case run_state (do { AddServiceToPool (DbCRUD joining_db False) ''p1'' ''db1'' ''main'' [True];
       LoadPool (DbCRUD joining_db False) ''p1'' [True] }) demo_pool_ctx of ((po, e), u) \<Rightarrow>
     e \<noteq> None \<or> (\<exists>p bd. po = Some p \<and> Pool_Service p ''main'' = Inr bd \<and> bd_ServiceId bd = ''s'')"
proof -
  obtain x t where bind: "run_state (AddServiceToPool (DbCRUD joining_db False) ''p1'' ''db1'' ''main'' [True]) demo_pool_ctx
      = (x, t)" by fastforce
  have x: "x = None" using wpcE [OF demo_bind_succeeds bind] .
  obtain po e u where load: "run_state (LoadPool (DbCRUD joining_db False) ''p1'' [True]) t = ((po, e), u)"
    by (metis prod.collapse)
  have ok: "pools_ok (pool_tables demo_pool_ctx)"
    by (simp add: demo_pool_tables pools_ok_def keyed_def named_def demo_pool_def demo_service_def row_str_def)
  have ne: "list_all (\<lambda>row. row_str row ''id'' \<noteq> []) (pool_tables demo_pool_ctx pools_table)"
    by (simp add: demo_pool_tables row_str_def)
  note bind' = bind [unfolded x]
  from bound_service_found [OF joining_db_laws ok ne bind' load]
  have "e \<noteq> None \<or> (\<exists>p bd. po = Some p \<and> Pool_Service p ''main'' = Inr bd \<and> bd_ServiceId bd = ''s'')"
    by (auto simp: demo_pool_tables demo_service_def row_str_def)
  with bind' load show ?thesis by simp
qed

end
