(* ===== verification/Pool_Store.thy ===== *)
theory Pool_Store
  imports Pool_Bindings
begin

text \<open>
  The stack of fatal errors of the logger (\<^verbatim>\<open>src/pkg/logger/logger.go\<close>) and the store of pools that an
  application loads at its start (\<^verbatim>\<open>src/pkg/pool/pool_store.go\<close>). The part of the logger that keeps
  fatal errors is passed explicitly; the text it prints is the fatal entry of the log.
\<close>

section \<open>Fatal errors of the logger\<close>

definition nil_list :: "'a list option \<Rightarrow> 'a list" where
  "nil_list xs = (case xs of None \<Rightarrow> [] | Some ys \<Rightarrow> ys)"

record fatal_error =
  messageStack :: "string list option"
  deepestError :: err
  fatal_fields :: fields

definition NewFields :: "fields list \<Rightarrow> fields" where
  "NewFields fs = (if length fs > 0 then CopyMap (fs ! 0) else [])"

definition Logger_Init :: fatal_error where
  "Logger_Init = \<lparr>messageStack = Some [], deepestError = None, fatal_fields = NewFields []\<rparr>"

definition PushFatalStack :: "string \<Rightarrow> err \<Rightarrow> fields list \<Rightarrow> fatal_error \<Rightarrow> goerror \<times> fatal_error" where
  "PushFatalStack message e fs l =
     (let l = (if messageStack l = None then Logger_Init else l);
          e = (case e of Some x \<Rightarrow> x
               | None \<Rightarrow> NativeError (if message = [] then ''unknown error'' else message));
          l = (if deepestError l = None then l\<lparr>deepestError := Some e\<rparr> else l);
          l = l\<lparr>messageStack := Some (nil_list (messageStack l) @ [if message \<noteq> [] then message else error_text e])\<rparr>;
          l = l\<lparr>fatal_fields := (if length fs > 0 then AppendMap (fatal_fields l) (fs ! 0) else fatal_fields l)\<rparr>
      in (e, l))"

text \<open>The messages are printed from the last one pushed to the first, then the deepest error.\<close>

fun fatal_text :: "string \<Rightarrow> string list \<Rightarrow> string" where
  "fatal_text errMsg [] = errMsg"
| "fatal_text errMsg (msg # msgs) = fatal_text (errMsg @ msg @ '': '') msgs"

definition CheckFatalStack :: "string list \<Rightarrow> fatal_error \<Rightarrow> (string \<times> fields) option \<times> fatal_error" where
  "CheckFatalStack message l =
     (case deepestError l of
        None \<Rightarrow> (None, l)
      | Some e \<Rightarrow>
          let errMsg = OptionalArg [] message;
              errMsg = (if errMsg \<noteq> [] then errMsg @ '': '' else errMsg);
              errMsg = fatal_text errMsg (rev (nil_list (messageStack l))) @ error_text e
          in (Some (errMsg, fatal_fields l), Logger_Init))"

section \<open>The store of pools\<close>

record pool_store =
  POOL_NAME :: string
  selfPool :: "pool option"
  poolsByName :: "(string \<times> pool) list"
  poolsById :: "(string \<times> pool) list"

definition NewPoolStore :: pool_store where
  "NewPoolStore = \<lparr>POOL_NAME = [], selfPool = None, poolsByName = [], poolsById = []\<rparr>"

definition SelfPool :: "pool_store \<Rightarrow> goerror + pool" where
  "SelfPool p = (case selfPool p of None \<Rightarrow> Inl (NativeError ''self pool undefined'') | Some pl \<Rightarrow> Inr pl)"

definition store_Pool :: "pool_store \<Rightarrow> string \<Rightarrow> goerror + pool" where
  "store_Pool p i = (case map_get (poolsById p) i of
     None \<Rightarrow> Inl (NativeError ''pool not found'') | Some pl \<Rightarrow> Inr pl)"

definition PoolByName :: "pool_store \<Rightarrow> string \<Rightarrow> goerror + pool" where
  "PoolByName p i = (case map_get (poolsByName p) i of
     None \<Rightarrow> Inl (NativeError ''pool not found'') | Some pl \<Rightarrow> Inr pl)"

definition Pools :: "pool_store \<Rightarrow> pool list" where
  "Pools p = AllMapValues (poolsById p)"

definition fatal :: "string \<Rightarrow> err \<Rightarrow> fatal_error \<Rightarrow> err \<times> fatal_error" where
  "fatal msg e l = (case PushFatalStack msg e [] l of (e, l) \<Rightarrow> (Some e, l))"

definition keep_pool :: "pool \<Rightarrow> pool_store \<Rightarrow> pool_store" where
  "keep_pool pool p = p\<lparr>poolsById := map_set (poolsById p) (obj_id pool) pool,
     poolsByName := map_set (poolsByName p) (pl_NAME pool) pool\<rparr>"

definition loadServices :: "'z op_ctx_scheme crud \<Rightarrow> nat \<Rightarrow> pool \<Rightarrow> fatal_error
    \<Rightarrow> ('z op_ctx_scheme, pool \<times> err \<times> fatal_error) comp" where
  "loadServices cr c pool l = do {
     (services, e) \<leftarrow> GetPoolBindings cr (obj_id pool) [];
     (if e \<noteq> None then do {
        SetCallField c ''pool_name'' (VStr (pl_NAME pool));
        SetCallField c ''pool_id'' (VStr (obj_id pool));
        SetMessage c ''failed to load pool services'';
        e \<leftarrow> SetError c e;
        ret (pool, fatal ''failed to load pool services'' e l) }
      else ret (SetServices services pool, None, l)) }"

fun load_pools :: "'z op_ctx_scheme crud \<Rightarrow> nat \<Rightarrow> pool list \<Rightarrow> pool_store \<Rightarrow> fatal_error
    \<Rightarrow> ('z op_ctx_scheme, pool_store \<times> err \<times> fatal_error) comp" where
  "load_pools cr c [] p l = ret (p, None, l)"
| "load_pools cr c (pool # pools) p l = do {
     (pool, e, l) \<leftarrow> loadServices cr c pool l;
     (if e \<noteq> None then ret (p, e, l)
      else load_pools cr c pools (keep_pool pool p) l) }"

text \<open>The configuration loader is the parameter \<open>cfg\<close>: it fails, or gives the name of the pool.\<close>

definition PoolStore_Init :: "'z op_ctx_scheme crud \<Rightarrow> goerror + string \<Rightarrow> pool_store \<Rightarrow> fatal_error
    \<Rightarrow> ('z op_ctx_scheme, pool_store \<times> err \<times> fatal_error) comp" where
  "PoolStore_Init cr cfg p l = traced ''PoolStore.Init'' [] (\<lambda>c.
     case cfg of
       Inl e \<Rightarrow> do {
         SetMessage c ''failed to init PoolStore'';
         e \<leftarrow> SetError c (Some e);
         ret (p, fatal ''failed to init PoolStore'' e l) }
     | Inr name \<Rightarrow>
         let p = p\<lparr>POOL_NAME := name\<rparr> in
         if name = [] then do {
           ((pools, _), e) \<leftarrow> GetPools cr None;
           (if e \<noteq> None then do {
              SetMessage c ''failed to load pools'';
              e \<leftarrow> SetError c e;
              ret (p, fatal ''failed to load pools'' e l) }
            else load_pools cr c pools p l) }
         else do {
           (pool, e) \<leftarrow> FindPool cr name [True];
           (if e \<noteq> None then do {
              SetMessage c ''failed to load self pool'';
              e \<leftarrow> SetError c e;
              ret (p, fatal ''failed to load self pool'' e l) }
            else case pool of
              None \<Rightarrow> do { e \<leftarrow> SetErrorStr c ''self pool not found''; ret (p, e, l) }
            | Some pool \<Rightarrow> do {
                (pool, e, l) \<leftarrow> loadServices cr c pool l;
                (if e \<noteq> None then ret (p, e, l)
                 else ret ((keep_pool pool p)\<lparr>selfPool := Some pool\<rparr>, None, l)) }) })"

section \<open>What the store holds\<close>

definition loaded :: "(string \<Rightarrow> fields list) \<Rightarrow> pool \<Rightarrow> pool" where
  "loaded T pool = SetServices (map row_binding (join_bindings T (obj_id pool))) pool"

lemma loaded_simps [simp]: "obj_id (loaded T pool) = obj_id pool" "pl_NAME (loaded T pool) = pl_NAME pool"
  by (simp_all add: loaded_def SetServices_def)

definition keep_all :: "(string \<Rightarrow> fields list) \<Rightarrow> pool list \<Rightarrow> pool_store \<Rightarrow> pool_store" where
  "keep_all T pools p = foldl (\<lambda>p pool. keep_pool (loaded T pool) p) p pools"

lemma keep_all_simps [simp]:
  "keep_all T [] p = p" "keep_all T (pool # pools) p = keep_all T pools (keep_pool (loaded T pool) p)"
  "keep_all T (pools @ [pool]) p = keep_pool (loaded T pool) (keep_all T pools p)"
  by (simp_all add: keep_all_def)

lemma wpc_load_pools:
  fixes k :: "'z op_ctx_scheme"
  assumes "joins_bindings h" "list_all (\<lambda>pool. obj_id pool \<noteq> []) pools" "pool_tables k = T"
  shows "wpc (load_pools (DbCRUD h False) c pools p l) (\<lambda>(p', e, l') k'. e = None \<longrightarrow> p' = keep_all T pools p) k"
  using assms(2,3)
proof (induction pools arbitrary: p l k)
  case Nil
  then show ?case by (auto intro!: wpc)
next
  case (Cons pool pools)
  have IH: "pool_tables k' = T \<Longrightarrow> wpc (load_pools (DbCRUD h False) c pools p l)
      (\<lambda>(p', e, l') k'. e = None \<longrightarrow> p' = keep_all T pools p) k'" for p l and k' :: "'z op_ctx_scheme"
    using Cons.IH Cons.prems(1) by simp
  show ?case
    unfolding load_pools.simps loadServices_def
    by (intro wpc wpc_GetPoolBindings [OF assms(1)])
       (use Cons.prems IH in \<open>auto simp: fatal_def PushFatalStack_def Let_def loaded_def
          intro!: wpc split: prod.splits\<close>)
qed

lemma keep_all_ids:
  assumes "distinct (map obj_id pools)"
  shows "map_get (poolsById (keep_all T pools NewPoolStore)) i = Some pl \<longleftrightarrow>
     (\<exists>pool \<in> set pools. obj_id pool = i \<and> pl = loaded T pool)"
  using assms
  by (induction pools rule: rev_induct) (auto simp: keep_pool_def NewPoolStore_def image_iff)

lemma keep_all_names:
  assumes "distinct (map pl_NAME pools)"
  shows "map_get (poolsByName (keep_all T pools NewPoolStore)) n = Some pl \<longleftrightarrow>
     (\<exists>pool \<in> set pools. pl_NAME pool = n \<and> pl = loaded T pool)"
  using assms
  by (induction pools rule: rev_induct) (auto simp: keep_pool_def NewPoolStore_def image_iff)

section \<open>Properties\<close>

text \<open>A list without a filter holds every row.\<close>

definition lists_all :: "dbhandlers \<Rightarrow> bool" where
  "lists_all h \<longleftrightarrow> (\<forall>d tbl D rows n. h_FindWithFilter h d tbl None D = (rows, n, None) \<longrightarrow> rows = D d tbl)"

lemma wpc_crud_List [wpc]:
  assumes "\<And>rows n e. h_FindWithFilter h (db_for False k) tbl flt (dbs k) = (rows, n, e) \<Longrightarrow>
     Q ((rows, if e = None then n else 0), e) (core k)"
  shows "wpc (crud_List (DbCRUD h False) m tbl flt) Q k"
  unfolding crud_List_def by (intro wpc) (use assms in auto)

lemma Init_loads:
  assumes "joins_bindings h" "lists_all h" "list_all (\<lambda>row. row_str row ''id'' \<noteq> []) (pool_tables k pools_table)"
  shows "wpc (PoolStore_Init (DbCRUD h False) (Inr []) NewPoolStore l) (\<lambda>(p, e, l') k'. e = None \<longrightarrow>
     p = keep_all (pool_tables k) (map row_pool (pool_tables k pools_table)) NewPoolStore) k"
proof -
  have "NewPoolStore\<lparr>POOL_NAME := []\<rparr> = NewPoolStore" by (simp add: NewPoolStore_def)
  moreover have "list_all (\<lambda>pool. obj_id pool \<noteq> []) (map row_pool (pool_tables k pools_table))"
    using assms(3) by (simp add: list_all_iff)
  ultimately show ?thesis
    unfolding PoolStore_Init_def GetPools_def sum.case
    by (intro wpc wpc_mono [OF wpc_load_pools [OF assms(1), where T = "pool_tables k"]])
       (auto simp: pool_tables_def fatal_def PushFatalStack_def Let_def
          dest!: assms(2) [unfolded lists_all_def, rule_format] split: prod.splits)
qed

lemma pool_keys:
  assumes "pools_ok T"
  shows "distinct (map obj_id (map row_pool (T pools_table)))" "distinct (map pl_NAME (map row_pool (T pools_table)))"
proof -
  have "keyed (T pools_table)" "named (T pools_table)" using assms by (simp_all add: pools_ok_def)
  then show "distinct (map obj_id (map row_pool (T pools_table)))" "distinct (map pl_NAME (map row_pool (T pools_table)))"
    by (auto simp: keyed_def named_def distinct_map inj_on_def row_pool_def list_all_iff)
qed



end
