(* ===== verification/Tenancy.thy ===== *)
theory Tenancy
  imports Pool_Store
begin

text \<open>
  Tenancies (\<^verbatim>\<open>src/pkg/multitenancy\<close>): a customer's space in a pool with a database of its own. The
  controller keeps the tenancies in the database and publishes what it changes; the manager holds the
  tenancies that are loaded, finds them by identifier and by path, and follows the notifications.

  The state of a context is extended by the maps of the manager and by the events that leave the
  process: notifications, subscriptions and closed connections. A connection to a database is
  the database's name. What reaches a database server (connecting, creating a database, migrating models)
  is a field of \<open>tenancy_env\<close>, as is the pubsub of the pools.
\<close>

section \<open>Tenancies\<close>

record tenancy_data =
  td_DESCRIPTION :: string
  td_PATH :: string
  td_ROLE :: string
  td_CUSTOMER_ID :: string
  td_POOL_ID :: string
  td_DBNAME :: string

record tenancy_db = object_base +
  tdb_ACTIVE :: bool
  tdb_data :: tenancy_data

record tenancy_item =
  ti_db :: tenancy_db
  CustomerLogin :: string
  PoolName :: string

record tenancy_base =
  tb_db :: tenancy_db
  tb_Db :: "string option"
  tb_Cache :: string
  tb_Pool :: "pool option"
  tb_Customer :: "user option"

abbreviation tenancies_table :: string where "tenancies_table \<equiv> ''tenancies''"
abbreviation metas_table :: string where "metas_table \<equiv> ''tenancy_meta''"

definition tenancy_row :: "tenancy_db \<Rightarrow> fields" where
  "tenancy_row t =
     [(''id'', VStr (obj_id t)), (''created_at'', VTime (created_at t)), (''updated_at'', VTime (updated_at t)),
      (''active'', VBool (tdb_ACTIVE t)), (''description'', VStr (td_DESCRIPTION (tdb_data t))),
      (''path'', VStr (td_PATH (tdb_data t))), (''role'', VStr (td_ROLE (tdb_data t))),
      (''customer_id'', VStr (td_CUSTOMER_ID (tdb_data t))), (''pool_id'', VStr (td_POOL_ID (tdb_data t))),
      (''dbname'', VStr (td_DBNAME (tdb_data t)))]"

definition row_tenancy :: "fields \<Rightarrow> tenancy_db" where
  "row_tenancy row = \<lparr>obj_id = row_str row ''id'', created_at = row_time row ''created_at'',
     updated_at = row_time row ''updated_at'', tdb_ACTIVE = row_bool row ''active'',
     tdb_data = \<lparr>td_DESCRIPTION = row_str row ''description'', td_PATH = row_str row ''path'',
       td_ROLE = row_str row ''role'', td_CUSTOMER_ID = row_str row ''customer_id'',
       td_POOL_ID = row_str row ''pool_id'', td_DBNAME = row_str row ''dbname''\<rparr>\<rparr>"

definition row_item :: "fields \<Rightarrow> tenancy_item" where
  "row_item row = \<lparr>ti_db = row_tenancy row, CustomerLogin = row_str row ''customer_login'',
     PoolName = row_str row ''pool_name''\<rparr>"

definition TenancyDisplay :: "tenancy_base \<Rightarrow> string" where
  "TenancyDisplay t = ConcatStrings
     [case tb_Customer t of Some u \<Rightarrow> u_LOGIN u | None \<Rightarrow> [], ''/'', td_ROLE (tdb_data (tb_db t))]"

definition TenancySelector :: "string \<Rightarrow> string \<Rightarrow> string" where
  "TenancySelector customer role = ConcatStrings [customer, ''/'', role]"

definition ParseTenancyDisplay :: "string \<Rightarrow> (string \<times> string) option" where
  "ParseTenancyDisplay display = (let parts = Split (CHR ''/'') display in
     if length parts \<noteq> 2 then None else Some (parts ! 0, parts ! 1))"

definition display_error :: goerror where
  "display_error = NativeError ''validation failed: invalid format of tenancy ID''"

definition display_generic_error :: goerror where
  "display_generic_error = SetDetails_err (New ErrorCodeFormat [''invalid format of tenancy ID'']) []"

text \<open>A customer is blocked as any user; a tenancy without one or without a pool panics.\<close>

definition TenancyBase_IsActive :: "tenancy_base \<Rightarrow> bool option" where
  "TenancyBase_IsActive t =
     (if \<not> tdb_ACTIVE (tb_db t) then Some False
      else case tb_Customer t of
        None \<Rightarrow> None
      | Some u \<Rightarrow> if u_BLOCKED u then Some False else map_option pl_ACTIVE (tb_Pool t))"

section \<open>Operations and errors\<close>

definition OpAdd :: string where "OpAdd = ''add''"
definition OpDelete :: string where "OpDelete = ''delete''"
definition OpActivate :: string where "OpActivate = ''activate''"
definition OpDeactivate :: string where "OpDeactivate = ''deactivate''"
definition OpSetPath :: string where "OpSetPath = ''set_path''"
definition OpSetRole :: string where "OpSetRole = ''set_role''"
definition OpSetCustomer :: string where "OpSetCustomer = ''set_customer''"
definition OpChangePoolOrDb :: string where "OpChangePoolOrDb = ''change_pool_or_db''"
definition TENANCY_DATABASE_ROLE :: string where "TENANCY_DATABASE_ROLE = ''tenancy_db''"

definition ErrorCodeTenancyConflictRole :: string where "ErrorCodeTenancyConflictRole = ''tenancy_conflict_role''"
definition ErrorCodeTenancyConflictPath :: string where "ErrorCodeTenancyConflictPath = ''tenancy_conflict_path''"
definition ErrorCodeTenancyNotFound :: string where "ErrorCodeTenancyNotFound = ''tenancy_not_found''"
definition ErrorCodeTenancyDbInitializationFailed :: string where
  "ErrorCodeTenancyDbInitializationFailed = ''tenancy_db_initialization_failed''"
definition ErrorCodeForeignDatabase :: string where "ErrorCodeForeignDatabase = ''foreign_tenancy_database''"
definition ErrorCodeNoDbserviceInPool :: string where "ErrorCodeNoDbserviceInPool = ''no_db_service_in_pool''"
definition ErrorCodeCreateTenancyDatabaseFailed :: string where
  "ErrorCodeCreateTenancyDatabaseFailed = ''create_tenancy_database_dailed''"
definition ErrorCodeCustomerNotFound :: string where "ErrorCodeCustomerNotFound = ''customer_not_found''"

definition tenancy_ErrorDescriptions :: "(string \<times> string) list" where
  "tenancy_ErrorDescriptions =
     [(ErrorCodeTenancyNotFound, ''Tenancy not found.''),
      (ErrorCodeTenancyConflictRole, ''Tenancy with such role already exists for that customer.''),
      (ErrorCodeTenancyConflictPath, ''Tenancy with such path already exists in that pool.''),
      (ErrorCodeTenancyDbInitializationFailed, ''Failed to initialize tenancy database.''),
      (ErrorCodeForeignDatabase, ''Database does not belong to this tenancy.''),
      (ErrorCodeNoDbserviceInPool, ''Pool does not contain service for tenancy database.''),
      (ErrorCodeCreateTenancyDatabaseFailed, ''Failed to create tenancy database.'')]"

definition tenancy_ErrorHttpCodes :: "(string \<times> int) list" where
  "tenancy_ErrorHttpCodes =
     [(ErrorCodeTenancyNotFound, StatusNotFound),
      (ErrorCodeNoDbserviceInPool, StatusInternalServerError),
      (ErrorCodeTenancyDbInitializationFailed, StatusInternalServerError),
      (ErrorCodeForeignDatabase, StatusInternalServerError),
      (ErrorCodeCreateTenancyDatabaseFailed, StatusInternalServerError)]"

section \<open>Customers\<close>

text \<open>A customer is a user with a name and a description; its controller has two more setters.\<close>

definition customer_ErrorDescriptions :: "(string \<times> string) list" where
  "customer_ErrorDescriptions = [(ErrorCodeCustomerNotFound, ''Customer not found.'')]"

definition customer_ErrorHttpCodes :: "(string \<times> int) list" where
  "customer_ErrorHttpCodes = [(ErrorCodeCustomerNotFound, StatusNotFound)]"

definition Customer_SetName :: "'z op_ctx_scheme user_controller \<Rightarrow> string \<Rightarrow> string \<Rightarrow> bool list
    \<Rightarrow> ('z op_ctx_scheme, err) comp" where
  "Customer_SetName u i name idIsLogin = do {
     SetLoggerField ''name'' (VStr name);
     traced_err ''Users.SetName'' [] (\<lambda>c.
       update_user u ''set_name'' i idIsLogin (\<lambda>usr. ret [(''name'', VStr name)])) }"

definition Customer_SetDescription :: "'z op_ctx_scheme user_controller \<Rightarrow> string \<Rightarrow> string \<Rightarrow> bool list
    \<Rightarrow> ('z op_ctx_scheme, err) comp" where
  "Customer_SetDescription u i description idIsLogin =
     traced_err ''Users.SetDescription'' [] (\<lambda>c.
       update_user u ''set_description'' i idIsLogin (\<lambda>usr. ret [(''description'', VStr description)]))"

section \<open>Databases of tenancies\<close>

record db_config =
  DB_PROVIDER :: string
  DB_HOST :: string
  DB_PORT :: nat
  cfg_DB_NAME :: string
  DB_USER :: string
  DB_PASSWORD :: string
  DB_EXTRA_CONFIG :: string
  DB_DSN :: string

definition TypeDatabase :: string where "TypeDatabase = ''database''"

definition ParseDbService :: "service_data \<Rightarrow> goerror + db_config" where
  "ParseDbService service =
     (if sd_TYPE_NAME service \<noteq> TypeDatabase then Inl (NativeError ''invalid service type'')
      else Inr \<lparr>DB_PROVIDER = PROVIDER service, DB_HOST = PRIVATE_HOST service, DB_PORT = PRIVATE_PORT service,
        cfg_DB_NAME = DB_NAME service, DB_USER = sd_USER service, DB_PASSWORD = SECRET1 service,
        DB_EXTRA_CONFIG = PARAMETER1 service, DB_DSN = PRIVATE_URL service\<rparr>)"

section \<open>The state of the manager\<close>

datatype tm_event =
    Published (ev_tenancy: string) (ev_op: string) (ev_pools: "string list")
  | SubscribedSelfPool
  | SubscribedPools
  | UnsubscribedPools
  | UnsubscribedSelfPool
  | ClosedDb string

record tm_ctx = op_ctx +
  tenanciesById :: "(string \<times> tenancy_base) list"
  tenanciesByPath :: "(string \<times> tenancy_base) list"
  tm_events :: "tm_event list"

text \<open>
  \<open>te_connect\<close> opens a database of a server and gives its name, \<open>te_CreateDatabase\<close> creates one over a
  connection, the two others migrate lists of models.
\<close>

record 's tenancy_env =
  te_crud :: "'s crud"
  te_customers :: "'s user_controller"
  te_pools :: pool_store
  te_DB_PREFIX :: string
  te_crypto :: crypto
  te_handlers :: dbhandlers
  te_connect :: "db_config \<Rightarrow> databases \<Rightarrow> string \<times> err"
  te_CreateDatabase :: "string \<Rightarrow> string \<Rightarrow> databases \<Rightarrow> err \<times> databases"
  te_AutoMigrate :: "string \<Rightarrow> string list \<Rightarrow> databases \<Rightarrow> err \<times> databases"
  te_PartitionedMonthAutoMigrate :: "string \<Rightarrow> string list \<Rightarrow> databases \<Rightarrow> err \<times> databases"
  te_DbModels :: "string list"
  te_PartitionedDbModels :: "string list"

definition event :: "tm_event \<Rightarrow> ('z tm_ctx_scheme, unit) comp" where
  "event ev = modifys (\<lambda>s. s\<lparr>tm_events := tm_events s @ [ev]\<rparr>)"

definition close_db :: "string option \<Rightarrow> ('z tm_ctx_scheme, unit) comp" where
  "close_db d = (case d of None \<Rightarrow> ret () | Some name \<Rightarrow> event (ClosedDb name))"

definition CheckTenancyDatabase :: "dbhandlers \<Rightarrow> string \<Rightarrow> string \<Rightarrow> ('z op_ctx_scheme, err) comp" where
  "CheckTenancyDatabase h database tenancyId =
     traced ''CheckTenancyDatabase'' [[(''tenancy_id'', VStr tenancyId)]] (\<lambda>c. do {
       (exists, e) \<leftarrow> db_read (h_Exists h database metas_table (AddField ''id'' (VStr tenancyId) NewFilter));
       (if e \<noteq> None then SetError c e
        else if \<not> exists then do {
          SetGenericErrorCode ErrorCodeForeignDatabase [];
          SetError c (errors_New ''database does not belong to this tenancy'') }
        else ret None) })"

definition tenancy_fields :: "tenancy_base \<Rightarrow> fields" where
  "tenancy_fields t = [(''customer'', VStr (td_CUSTOMER_ID (tdb_data (tb_db t)))), (''role'', VStr (td_ROLE (tdb_data (tb_db t))))]"

text \<open>A generic error is recorded in the context and returned.\<close>

definition fail_generic :: "goerror \<Rightarrow> ('z op_ctx_scheme, err) comp" where
  "fail_generic genErr = do { SetGenericError (Some genErr) []; ret (Some genErr) }"

definition original_error :: "string \<Rightarrow> string \<Rightarrow> goerror \<Rightarrow> string \<Rightarrow> goerror" where
  "original_error code message original details =
     SetDetails_err (NewFromOriginal code message (Some original)) details"

definition connect_db :: "'s tenancy_env \<Rightarrow> db_config \<Rightarrow> ('z sys_scheme, string \<times> err) comp" where
  "connect_db te cfg = gets (\<lambda>s. te_connect te cfg (dbs s))"

definition create_database :: "'s tenancy_env \<Rightarrow> db_config \<Rightarrow> string \<Rightarrow> string
    \<Rightarrow> ('z tm_ctx_scheme, err) comp" where
  "create_database te cfg dbname serviceName = do {
     (database, e) \<leftarrow> connect_db te cfg;
     (case e of
        Some x \<Rightarrow> fail_generic (original_error ErrorCodeServiceInitializationFailed
          ''Failed to connect to master database'' x serviceName)
      | None \<Rightarrow> do {
          e \<leftarrow> db_write (te_CreateDatabase te database dbname);
          close_db (Some database);
          (case e of
             Some x \<Rightarrow> fail_generic (original_error ErrorCodeCreateTenancyDatabaseFailed
               ''Failed to create tenancy database'' x dbname)
           | None \<Rightarrow> ret None) }) }"

definition ConnectDatabase :: "'s tenancy_env \<Rightarrow> bool list \<Rightarrow> tenancy_base
    \<Rightarrow> ('z tm_ctx_scheme, tenancy_base \<times> err) comp" where
  "ConnectDatabase te newDb t = traced_err ''TenancyBase.ConnectDatabase'' [tenancy_fields t] (\<lambda>c.
     case tb_Pool t of
       None \<Rightarrow> go_panic ((t, None), None)
     | Some pool \<Rightarrow> (case Pool_Service pool TENANCY_DATABASE_ROLE of
         Inl x \<Rightarrow> do {
           e \<leftarrow> fail_generic (original_error ErrorCodeNoServiceWithRole
             ''Pool does not include service for tenancy database'' x TENANCY_DATABASE_ROLE);
           ret ((t, e), e) }
       | Inr dbService \<Rightarrow>
           if \<not> sd_ACTIVE (bd_data dbService) then do {
             e \<leftarrow> fail_generic (New ErrorCodeServiceNotActive
               [''Service for tenancy database in the pool is not active.'']);
             ret ((t, e), e) }
           else (case ParseDbService (bd_data dbService) of
             Inl x \<Rightarrow> do {
               e \<leftarrow> fail_generic (original_error ErrorCodeInvalidServiceConfiguration
                 ''Invalid configuration of service for tenancy database'' x (bd_ServiceName dbService));
               ret ((t, e), e) }
           | Inr dbConfig \<Rightarrow> do {
               let dbname = td_DBNAME (tdb_data (tb_db t));
               e \<leftarrow> (if OptionalArg False newDb \<and> cfg_DB_NAME dbConfig \<noteq> []
                    then create_database te dbConfig dbname (bd_ServiceName dbService) else ret None);
               (if e \<noteq> None then ret ((t, e), e)
                else do {
                  (database, e) \<leftarrow> connect_db te (dbConfig\<lparr>cfg_DB_NAME := dbname\<rparr>);
                  (case e of
                     Some x \<Rightarrow> do {
                       e \<leftarrow> fail_generic (original_error ErrorCodeServiceInitializationFailed
                         ''Failed to connect to tenancy database'' x (bd_ServiceName dbService));
                       ret ((t, e), e) }
                   | None \<Rightarrow> ret ((t\<lparr>tb_Db := Some database\<rparr>, None), None)) }) })))"

definition NewTenancy :: tenancy_base where
  "NewTenancy = \<lparr>tb_db = \<lparr>obj_id = [], created_at = 0, updated_at = 0, tdb_ACTIVE = False,
       tdb_data = \<lparr>td_DESCRIPTION = [], td_PATH = [], td_ROLE = [], td_CUSTOMER_ID = [], td_POOL_ID = [], td_DBNAME = []\<rparr>\<rparr>,
     tb_Db = None, tb_Cache = [], tb_Pool = None, tb_Customer = None\<rparr>"

text \<open>The result is the tenancy, whether it is skipped, and an error.\<close>

definition TenancyBase_Init :: "'z tm_ctx_scheme tenancy_env \<Rightarrow> tenancy_db \<Rightarrow> tenancy_base
    \<Rightarrow> ('z tm_ctx_scheme, tenancy_base \<times> bool \<times> err) comp" where
  "TenancyBase_Init te data t = traced_err ''TenancyBase.ConnectDatabase'' [tenancy_fields t] (\<lambda>c. do {
     cache \<leftarrow> gets curCache;
     let t = t\<lparr>tb_db := data, tb_Cache := cache\<rparr>;
     (customer, e) \<leftarrow> Users_Find (te_customers te) (td_CUSTOMER_ID (tdb_data data));
     let t = t\<lparr>tb_Customer := customer\<rparr>;
     (if e \<noteq> None \<or> customer = None then do {
        SetMessage c ''failed to find customer'';
        ret ((t, False, e), e) }
      else do {
        SetCallField c ''tenancy'' (VStr (TenancyDisplay t));
        (case store_Pool (te_pools te) (td_POOL_ID (tdb_data data)) of
           Inl x \<Rightarrow> do {
             SetGenericErrorCode ErrorCodePoolNotFound [];
             SetMessage c ''unknown pool'';
             ret ((t, False, Some x), Some x) }
         | Inr pool \<Rightarrow>
             let t = t\<lparr>tb_Pool := Some pool\<rparr> in
             if \<not> pl_ACTIVE pool then do {
               Log LogWarn ''skipping tenancy because pool is not active'' None [[(''pool'', VStr (pl_NAME pool))]];
               ret ((t, True, None), None) }
             else do {
               (t, e) \<leftarrow> ConnectDatabase te [] t;
               (if e \<noteq> None then ret ((t, False, e), e)
                else (case tb_Db t of
                  None \<Rightarrow> go_panic ((t, False, None), None)
                | Some database \<Rightarrow> do {
                    e \<leftarrow> CheckTenancyDatabase (te_handlers te) database (obj_id (tb_db t));
                    (if e \<noteq> None then do { close_db (tb_Db t); ret ((t, False, e), e) }
                     else ret ((t, False, None), None)) })) }) }) })"

end
