(* ===== verification/Tenancy_Manager.thy ===== *)
theory Tenancy_Manager
  imports Tenancy
begin

text \<open>
  The tenancy controller and the tenancy manager (\<^verbatim>\<open>src/pkg/multitenancy/tenancy_manager\<close>), which refer to
  each other. The mutex of the manager guards single reads and writes of its maps; each such section is one step.
\<close>

section \<open>Finding tenancies\<close>

definition Tenancy_OpLog :: "string \<Rightarrow> fields \<Rightarrow> ('z op_ctx_scheme, unit) comp" where
  "Tenancy_OpLog operation extra = Oplog
     \<lparr>obj_id = [], created_at = 0, updated_at = 0, ol_table = ''op_log_tenancies'', ol_operation = operation,
      ol_context = [], ol_context_name = [], ol_origin_app = [], ol_origin_name = [],
      ol_origin_source = [], ol_origin_client = [], ol_user = [], ol_user_type = [], ol_extra = extra\<rparr>"

text \<open>\<^verbatim>\<open>OpLogTenancy\<close>: customer, identifier, role, path, database and pool.\<close>

definition oplog_tenancy :: "string \<Rightarrow> string \<Rightarrow> string \<Rightarrow> string \<Rightarrow> string \<Rightarrow> string \<Rightarrow> fields" where
  "oplog_tenancy customer i role path dbname pool =
     [(''customer'', VStr customer), (''tenancy_id'', VStr i), (''role'', VStr role), (''path'', VStr path),
      (''db_name'', VStr dbname), (''pool'', VStr pool)]"

definition Tenancy_List :: "'z op_ctx_scheme crud \<Rightarrow> db_filter
    \<Rightarrow> ('z op_ctx_scheme, (tenancy_item list \<times> int) \<times> err) comp" where
  "Tenancy_List cr flt = traced ''TenancyController.List'' [] (\<lambda>c. do {
     ((rows, count), e) \<leftarrow> c_Join cr ''ListTenancies'' flt;
     (if e \<noteq> None then do {
        SetMessage c ''failed to find tenancy'';
        e \<leftarrow> SetError c e;
        ret (([], 0), e) }
      else ret ((map row_item rows, count), None)) })"

definition not_found :: "nat \<Rightarrow> ('z op_ctx_scheme, err) comp" where
  "not_found c = do {
     SetGenericErrorCode ErrorCodeTenancyNotFound [];
     e \<leftarrow> gets genericError;
     SetError c e }"

definition TenancyId :: "'z op_ctx_scheme crud \<Rightarrow> string \<Rightarrow> bool list
    \<Rightarrow> ('z op_ctx_scheme, string \<times> tenancy_item option \<times> err) comp" where
  "TenancyId cr i idIsDisplay =
     (let useDisplay = OptionalArg False idIsDisplay in
      traced ''TenancyController.TenancyId'' [[(''tenancy'', VStr i), (''use_display'', VBool useDisplay)]] (\<lambda>c.
        if \<not> useDisplay then ret (i, None, None)
        else (case ParseTenancyDisplay i of
          None \<Rightarrow> do {
            SetMessage c ''failed to parse display'';
            SetGenericError (Some display_generic_error) [];
            SetError c (Some display_error);
            ret ([], None, Some display_generic_error) }
        | Some (customerLogin, role) \<Rightarrow> do {
            ((tenancies, _), e) \<leftarrow> Tenancy_List cr ((AddField ''role'' (VStr role)
              (AddField ''customer_login'' (VStr customerLogin) NewFilter))\<lparr>Limit := 1\<rparr>);
            (if e \<noteq> None then do {
               SetMessage c ''failed to list tenancies'';
               e \<leftarrow> SetError c e;
               ret ([], None, e) }
             else case tenancies of
               [] \<Rightarrow> do { e \<leftarrow> not_found c; ret ([], None, e) }
             | tenancy # _ \<Rightarrow> ret (obj_id (ti_db tenancy), Some tenancy, None)) })))"

definition FindTenancy :: "'z op_ctx_scheme crud \<Rightarrow> string \<Rightarrow> bool list
    \<Rightarrow> ('z op_ctx_scheme, tenancy_item option \<times> err) comp" where
  "FindTenancy cr i idIsDisplay = traced ''TenancyController.Find'' [] (\<lambda>c. do {
     (i, tenancy, e) \<leftarrow> TenancyId cr i idIsDisplay;
     (if e \<noteq> None then do { e \<leftarrow> SetError c e; ret (None, e) }
      else case tenancy of
        Some t \<Rightarrow> ret (Some t, None)
      | None \<Rightarrow> do {
          ((tenancies, _), e) \<leftarrow> Tenancy_List cr ((AddField ''tenancies.id'' (VStr i) NewFilter)\<lparr>Limit := 1\<rparr>);
          (if e \<noteq> None then do { e \<leftarrow> SetError c e; ret (None, e) }
           else case tenancies of
             [] \<Rightarrow> do { e \<leftarrow> not_found c; ret (None, e) }
           | tenancy # _ \<Rightarrow> ret (Some tenancy, None)) }) })"

definition Tenancy_Exists :: "'z op_ctx_scheme crud \<Rightarrow> fields \<Rightarrow> ('z op_ctx_scheme, bool \<times> err) comp" where
  "Tenancy_Exists cr fs = crud_Exists cr ''TenancyController.Exists'' tenancies_table (AddFields fs NewFilter)"

section \<open>Manager: maps of tenancies\<close>

definition Tenancy_get :: "string \<Rightarrow> 'z tm_ctx_scheme \<Rightarrow> goerror + tenancy_base" where
  "Tenancy_get i s = (case map_get (tenanciesById s) i of
     None \<Rightarrow> Inl (NativeError ''unknown tenancy'') | Some t \<Rightarrow> Inr t)"

definition TenancyByPath :: "string \<Rightarrow> 'z tm_ctx_scheme \<Rightarrow> goerror + tenancy_base" where
  "TenancyByPath path s = (case map_get (tenanciesByPath s) path of
     None \<Rightarrow> Inl (NativeError ''tenancy not found'') | Some t \<Rightarrow> Inr t)"

definition Tenancies :: "'z tm_ctx_scheme \<Rightarrow> tenancy_base list" where
  "Tenancies s = AllMapValues (tenanciesById s)"

abbreviation tb_id :: "tenancy_base \<Rightarrow> string" where "tb_id t \<equiv> obj_id (tb_db t)"
abbreviation tb_path :: "tenancy_base \<Rightarrow> string" where "tb_path t \<equiv> td_PATH (tdb_data (tb_db t))"

definition UnloadTenancy :: "string \<Rightarrow> ('z tm_ctx_scheme, unit) comp" where
  "UnloadTenancy i = do {
     found \<leftarrow> gets (\<lambda>s. map_get (tenanciesById s) i);
     (case found of
        None \<Rightarrow> ret ()
      | Some t \<Rightarrow> do {
          close_db (tb_Db t);
          modifys (\<lambda>s. s\<lparr>tenanciesById := AList.delete i (tenanciesById s),
            tenanciesByPath := AList.delete (tb_path t) (tenanciesByPath s)\<rparr>) }) }"

definition keep_tenancy :: "tenancy_base \<Rightarrow> ('z tm_ctx_scheme, unit) comp" where
  "keep_tenancy t = modifys (\<lambda>s. s\<lparr>tenanciesById := map_set (tenanciesById s) (tb_id t) t,
     tenanciesByPath := map_set (tenanciesByPath s) (tb_path t) t\<rparr>)"

definition LoadTenancyFromData :: "'z tm_ctx_scheme tenancy_env \<Rightarrow> tenancy_db
    \<Rightarrow> ('z tm_ctx_scheme, tenancy_base option \<times> err) comp" where
  "LoadTenancyFromData te data = traced_err ''TenancyManager.LoadTenancyFromData''
     [[(''tenancy'', VStr (obj_id data)), (''customer'', VStr (td_CUSTOMER_ID (tdb_data data))),
       (''role'', VStr (td_ROLE (tdb_data data)))]] (\<lambda>c. do {
       (tenancy, skip, e) \<leftarrow> TenancyBase_Init te data NewTenancy;
       (if e \<noteq> None then ret ((None, e), e)
        else if skip then ret ((None, None), None)
        else do {
          keep_tenancy tenancy;
          ret ((Some tenancy, None), None) }) })"

text \<open>The address of the found tenancy's data is never nil, so its check never fails.\<close>

definition LoadTenancy :: "'z tm_ctx_scheme tenancy_env \<Rightarrow> string
    \<Rightarrow> ('z tm_ctx_scheme, tenancy_base option \<times> err) comp" where
  "LoadTenancy te i = traced_err ''TenancyManager.LoadTenancy'' [[(''tenancy'', VStr i)]] (\<lambda>c. do {
     (item, e) \<leftarrow> FindTenancy (te_crud te) i [];
     (if e \<noteq> None then do { SetMessage c ''failed to find tenancy''; ret ((None, e), e) }
      else case item of
        None \<Rightarrow> go_panic ((None, None), None)
      | Some item \<Rightarrow> do {
          (tenancy, e) \<leftarrow> LoadTenancyFromData te (ti_db item);
          (if e \<noteq> None then ret ((None, e), e) else ret ((tenancy, None), None)) }) })"

definition Notification_Handle :: "'z tm_ctx_scheme tenancy_env \<Rightarrow> string \<Rightarrow> string
    \<Rightarrow> ('z tm_ctx_scheme, err) comp" where
  "Notification_Handle te tenancy operation = traced ''TenancyNotificationHandler.Handle'' [] (\<lambda>c. do {
     UnloadTenancy tenancy;
     (if operation \<noteq> OpDelete then do {
        (_, e) \<leftarrow> LoadTenancy te tenancy;
        (if e \<noteq> None then SetError c e else ret None) }
      else ret None) })"

fun load_each :: "'z tm_ctx_scheme tenancy_env \<Rightarrow> tenancy_item list \<Rightarrow> ('z tm_ctx_scheme, err) comp" where
  "load_each te [] = ret None"
| "load_each te (tenancy # tenancies) = do {
     (_, e) \<leftarrow> LoadTenancyFromData te (ti_db tenancy);
     (if e \<noteq> None then ret e else load_each te tenancies) }"

definition LoadTenancies :: "'z tm_ctx_scheme tenancy_env \<Rightarrow> pool option \<Rightarrow> ('z tm_ctx_scheme, err) comp" where
  "LoadTenancies te self = traced_err ''TenancyManager.LoadTenancies'' [] (\<lambda>c. do {
     ((tenancies, _), e) \<leftarrow> Tenancy_List (te_crud te) (case self of
        None \<Rightarrow> NewFilter
      | Some p \<Rightarrow> AddField ''pool_id'' (VStr (obj_id p)) NewFilter);
     (if e \<noteq> None then do { SetMessage c ''failed to load tenancies from database''; ret (e, e) }
      else do { e \<leftarrow> load_each te tenancies; ret (e, e) }) })"

text \<open>
  The configuration loader (\<open>cfg\<close>, an error or none) and the pubsub's answers to a subscription
  (\<open>subscribe\<close>) are parameters. A self pool that is not active is not subscribed.
\<close>

definition TenancyManager_Init :: "'z tm_ctx_scheme tenancy_env \<Rightarrow> err \<Rightarrow> (tm_event \<Rightarrow> err) \<Rightarrow> fatal_error
    \<Rightarrow> ('z tm_ctx_scheme, err \<times> fatal_error) comp" where
  "TenancyManager_Init te cfg subscribe l = traced ''TenancyManager.Init'' [] (\<lambda>c.
     if cfg \<noteq> None then do { SetError c cfg; ret (fatal ''failed to init tenancy manager'' cfg l) }
     else do {
       let self = selfPool (te_pools te);
       e \<leftarrow> (case self of
          Some p \<Rightarrow> if pl_ACTIVE p then do { event SubscribedSelfPool; ret (subscribe SubscribedSelfPool) } else ret None
        | None \<Rightarrow> do { event SubscribedPools; ret (subscribe SubscribedPools) });
       (if e \<noteq> None then do {
          SetError c e;
          ret (fatal (if self = None then ''failed to subscribe to pubsub notifications in all pools''
            else ''failed to subscribe to pubsub notifications in self pool'') e l) }
        else do {
          e \<leftarrow> LoadTenancies te self;
          (if e \<noteq> None then do { SetError c e; ret (fatal ''failed to load tenancies'' e l) }
           else ret (None, l)) }) })"

definition TenancyManager_Close :: "('z tm_ctx_scheme, unit) comp" where
  "TenancyManager_Close = do {
     ts \<leftarrow> gets Tenancies;
     each (\<lambda>t. close_db (tb_Db t)) ts;
     modifys (\<lambda>s. s\<lparr>tenanciesById := [], tenanciesByPath := []\<rparr>);
     event UnsubscribedPools;
     event UnsubscribedSelfPool }"

section \<open>Manager: creating tenancies\<close>

definition FindCustomer :: "'z op_ctx_scheme tenancy_env \<Rightarrow> nat \<Rightarrow> string
    \<Rightarrow> ('z op_ctx_scheme, user option \<times> err) comp" where
  "FindCustomer te c i = do {
     (owner, e) \<leftarrow> Users_Find (te_customers te) i;
     ge \<leftarrow> gets genericError;
     (owner, e) \<leftarrow> (if e \<noteq> None \<and> ge \<noteq> None \<and> Code ge = ErrorCodeNotFound
        then do { ClearError; Users_FindByLogin (te_customers te) i }
        else ret (owner, e));
     (if e \<noteq> None then do { SetMessage c ''failed to find customer''; ret (None, e) }
      else if owner = None then do {
        SetGenericErrorCode ErrorCodeCustomerNotFound [True];
        ret (None, errors_New ''customer not found'') }
      else ret (owner, None)) }"

definition manager_FindPool :: "'s tenancy_env \<Rightarrow> nat \<Rightarrow> string \<Rightarrow> ('z op_ctx_scheme, pool option \<times> err) comp" where
  "manager_FindPool te c i =
     (case store_Pool (te_pools te) i of
        Inr p \<Rightarrow> ret (Some p, None)
      | Inl _ \<Rightarrow> (case PoolByName (te_pools te) i of
          Inr p \<Rightarrow> ret (Some p, None)
        | Inl x \<Rightarrow> do {
            SetGenericErrorCode ErrorCodePoolNotFound [];
            SetMessage c ''unknown pool'';
            ret (None, Some x) }))"

definition check_duplicate :: "'z op_ctx_scheme crud \<Rightarrow> nat \<Rightarrow> fields \<Rightarrow> string \<Rightarrow> string
    \<Rightarrow> ('z op_ctx_scheme, err) comp" where
  "check_duplicate cr c fs msg code = do {
     (exists, e) \<leftarrow> Tenancy_Exists cr fs;
     (if e \<noteq> None then do { SetMessage c ''failed to check existence of tenancy''; ret e }
      else if exists then do { SetGenericErrorCode code []; ret (errors_New msg) }
      else ret None) }"

definition CheckDuplicateRole :: "'z op_ctx_scheme crud \<Rightarrow> nat \<Rightarrow> string \<Rightarrow> string \<Rightarrow> ('z op_ctx_scheme, err) comp" where
  "CheckDuplicateRole cr c customerId role = do {
     SetCallField c ''customer_id'' (VStr customerId);
     SetCallField c ''role'' (VStr role);
     check_duplicate cr c [(''customer_id'', VStr customerId), (''role'', VStr role)]
       ''tenancy already exists with such role for that customer'' ErrorCodeTenancyConflictRole }"

definition CheckDuplicatePath :: "'z op_ctx_scheme crud \<Rightarrow> nat \<Rightarrow> string \<Rightarrow> string \<Rightarrow> ('z op_ctx_scheme, err) comp" where
  "CheckDuplicatePath cr c poolId path = do {
     SetCallField c ''pool_id'' (VStr poolId);
     SetCallField c ''path'' (VStr path);
     check_duplicate cr c [(''pool_id'', VStr poolId), (''path'', VStr path)]
       ''tenancy already exists with such path in that pool'' ErrorCodeTenancyConflictPath }"

definition UpgradeTenancyDatabase :: "'s tenancy_env \<Rightarrow> string \<Rightarrow> tenancy_base \<Rightarrow> ('z op_ctx_scheme, err) comp" where
  "UpgradeTenancyDatabase te database t = traced_err ''multitenancy.UpgradeTenancyDatabase''
     [[(''tenancy'', VStr (tb_id t)), (''tenancy_db'', VStr (td_DBNAME (tdb_data (tb_db t))))]] (\<lambda>c. do {
       e \<leftarrow> db_write (te_AutoMigrate te database [metas_table]);
       (if e \<noteq> None then do { SetMessage c ''failed to upgrade internal models in tenancy database''; ret (e, e) }
        else do {
          e \<leftarrow> db_write (te_AutoMigrate te database (te_DbModels te));
          (if e \<noteq> None then do { SetMessage c ''failed to upgrade ordinary models tenancy database''; ret (e, e) }
           else do {
             e \<leftarrow> db_write (te_PartitionedMonthAutoMigrate te database (te_PartitionedDbModels te));
             (if e \<noteq> None then do {
                SetMessage c ''failed to upgrade partitioned models in tenancy database'';
                ret (e, e) }
              else ret (None, None)) }) }) })"

fun upgrade_each :: "'z tm_ctx_scheme tenancy_env \<Rightarrow> nat \<Rightarrow> tenancy_base list \<Rightarrow> ('z tm_ctx_scheme, err) comp" where
  "upgrade_each te c [] = ret None"
| "upgrade_each te c (t # ts) = (case tb_Db t of
     None \<Rightarrow> go_panic None
   | Some database \<Rightarrow> do {
       e \<leftarrow> UpgradeTenancyDatabase te database t;
       (if e \<noteq> None then SetError c e else upgrade_each te c ts) })"

definition UpgradeTenancyDatabases :: "'z tm_ctx_scheme tenancy_env \<Rightarrow> ('z tm_ctx_scheme, err) comp" where
  "UpgradeTenancyDatabases te = traced ''multitenancy.UpgradeTenancyDatabases'' [] (\<lambda>c. do {
     ts \<leftarrow> gets Tenancies;
     upgrade_each te c ts })"

text \<open>The new tenancy: the identifiers of the customer and the pool replace what the caller has given.\<close>

definition fill_tenancy :: "'s tenancy_env \<Rightarrow> tenancy_data \<Rightarrow> user \<Rightarrow> pool \<Rightarrow> ('z sys_scheme, tenancy_base) comp" where
  "fill_tenancy te data customer p = do {
     tdb \<leftarrow> InitObject (tb_db NewTenancy);
     let d = data\<lparr>td_CUSTOMER_ID := obj_id customer, td_POOL_ID := obj_id p\<rparr>;
     path \<leftarrow> (if td_PATH d = [] then GenerateString (te_crypto te) [] else ret (td_PATH d));
     let d = d\<lparr>td_PATH := path, td_DBNAME := (if td_DBNAME d = []
           then ConcatStrings [te_DB_PREFIX te, ''_'', u_LOGIN customer, ''_'', td_ROLE data] else td_DBNAME d)\<rparr>;
     ret (NewTenancy\<lparr>tb_db := tdb\<lparr>tdb_data := d\<rparr>, tb_Pool := Some p\<rparr>) }"

definition meta_row :: "tenancy_db \<Rightarrow> fields" where
  "meta_row t = [(''id'', VStr (obj_id t)), (''created_at'', VTime (created_at t)), (''updated_at'', VTime (updated_at t))]"

definition claim_database :: "'s tenancy_env \<Rightarrow> nat \<Rightarrow> string \<Rightarrow> tenancy_base \<Rightarrow> ('z op_ctx_scheme, err) comp" where
  "claim_database te c database t = do {
     (metas, _, e) \<leftarrow> db_read (h_FindWithFilter (te_handlers te) database metas_table None);
     (if e \<noteq> None then do { SetMessage c ''failed to check tenancy metas in created database''; ret e }
      else case metas of
        meta # _ \<Rightarrow>
          if row_str meta ''id'' \<noteq> tb_id t then do {
            SetGenericErrorCode ErrorCodeForeignDatabase [];
            ret (errors_New ''created database already belongs to other tenancy'') }
          else ret None
      | [] \<Rightarrow> do {
          e \<leftarrow> db_write (h_Create (te_handlers te) database metas_table (meta_row (tb_db t)));
          (if e \<noteq> None then do { SetMessage c ''failed to save tenancy meta in created database''; ret e }
           else ret None) }) }"

text \<open>The database is open here; it is closed on every way out.\<close>

definition prepare_database :: "'z tm_ctx_scheme tenancy_env \<Rightarrow> nat \<Rightarrow> tenancy_base \<Rightarrow> ('z tm_ctx_scheme, err) comp" where
  "prepare_database te c t = (case tb_Db t of
     None \<Rightarrow> go_panic None
   | Some database \<Rightarrow> do {
       e \<leftarrow> UpgradeTenancyDatabase te database t;
       e \<leftarrow> (if e \<noteq> None then do {
               SetGenericErrorCode ErrorCodeTenancyDbInitializationFailed [];
               SetMessage c ''failed to initialize database models'';
               ret e }
             else claim_database te c database t);
       close_db (Some database);
       ret e })"

text \<open>
  The checks for duplicates look for the customer, the pool and the path as the caller has given
  them. The error of an inactive pool is not recorded in the call.
\<close>

definition CreateTenancy :: "'z tm_ctx_scheme tenancy_env \<Rightarrow> tenancy_data
    \<Rightarrow> ('z tm_ctx_scheme, tenancy_item option \<times> err) comp" where
  "CreateTenancy te data = traced_err ''TenancyManager.LoadTenancy''
     [[(''customer'', VStr (td_CUSTOMER_ID data)), (''role'', VStr (td_ROLE data))]] (\<lambda>c. do {
       (customer, e) \<leftarrow> FindCustomer te c (td_CUSTOMER_ID data);
       (case customer of
          None \<Rightarrow> ret ((None, e), e)
        | Some customer \<Rightarrow> do {
            (p, e) \<leftarrow> manager_FindPool te c (td_POOL_ID data);
            (case p of
               None \<Rightarrow> ret ((None, e), e)
             | Some p \<Rightarrow>
                 if \<not> pl_ACTIVE p then do {
                   SetGenericErrorCode ErrorCodePoolNotActive [];
                   ret ((None, errors_New ''pool not active''), None) }
                 else do {
                   e \<leftarrow> CheckDuplicateRole (te_crud te) c (td_CUSTOMER_ID data) (td_ROLE data);
                   (if e \<noteq> None then ret ((None, e), e)
                    else do {
                      t \<leftarrow> fill_tenancy te data customer p;
                      e \<leftarrow> CheckDuplicatePath (te_crud te) c (td_POOL_ID data) (td_PATH data);
                      (if e \<noteq> None then ret ((None, e), e)
                       else do {
                         (t, e) \<leftarrow> ConnectDatabase te [True] t;
                         (if e \<noteq> None then ret ((None, e), e)
                          else do {
                            e \<leftarrow> prepare_database te c t;
                            (if e \<noteq> None then ret ((None, e), e)
                             else ret ((Some \<lparr>ti_db = tb_db t, CustomerLogin = u_LOGIN customer, PoolName = pl_NAME p\<rparr>, None),
                               None)) }) }) }) }) }) })"

end
