(* ===== verification/Tenancy_Controller.thy ===== *)
theory Tenancy_Controller
  imports Tenancy_Manager
begin

text \<open>
  The operations of the tenancy controller (\<^verbatim>\<open>tenancy_controller.go\<close>) that change tenancies: each finds the
  tenancy, changes its row, adds an operation log and publishes a notification to the tenancy's pool.
\<close>

section \<open>Operations\<close>

definition PublishOp :: "tenancy_item \<Rightarrow> string \<Rightarrow> string list \<Rightarrow> ('z tm_ctx_scheme, unit) comp" where
  "PublishOp tenancy op poolIds =
     (if length poolIds \<noteq> 0 then event (Published (obj_id (ti_db tenancy)) op poolIds)
      else event (Published (obj_id (ti_db tenancy)) op [td_POOL_ID (tdb_data (ti_db tenancy))]))"

definition Tenancy_Add :: "'z tm_ctx_scheme tenancy_env \<Rightarrow> tenancy_data
    \<Rightarrow> ('z tm_ctx_scheme, tenancy_item option \<times> err) comp" where
  "Tenancy_Add te data = traced ''TenancyController.Add''
     [[(''customer'', VStr (td_CUSTOMER_ID data)), (''role'', VStr (td_ROLE data))]] (\<lambda>c. do {
       (tenancy, e) \<leftarrow> CreateTenancy te data;
       (case tenancy of
          None \<Rightarrow> do {
            SetMessage c ''failed to create tenancy'';
            e \<leftarrow> SetError c e;
            ret (None, e) }
        | Some tenancy \<Rightarrow> do {
            e \<leftarrow> c_Create (te_crud te) tenancies_table (tenancy_row (ti_db tenancy));
            (if e \<noteq> None then do {
               SetMessage c ''failed to save tenancy in database'';
               e \<leftarrow> SetError c e;
               ret (None, e) }
             else do {
               let d = tdb_data (ti_db tenancy);
               Tenancy_OpLog OpAdd (oplog_tenancy (CustomerLogin tenancy) (obj_id (ti_db tenancy)) (td_ROLE d)
                 (td_PATH d) (td_DBNAME d) (PoolName tenancy));
               PublishOp tenancy OpAdd [];
               ret (Some tenancy, None) }) }) })"

text \<open>
  What the setters share: the update of the row, the operation log and the notification. A tenancy is
  found whenever no error is reported.
\<close>

definition update_tenancy :: "'z tm_ctx_scheme tenancy_env \<Rightarrow> nat \<Rightarrow> tenancy_item \<Rightarrow> fields \<Rightarrow> string \<Rightarrow> fields
    \<Rightarrow> ('z tm_ctx_scheme, err) comp" where
  "update_tenancy te c tenancy fs op oplog = do {
     e \<leftarrow> c_Update (te_crud te) tenancies_table (obj_id (ti_db tenancy)) fs;
     (if e \<noteq> None then do { SetMessage c ''failed to update tenancy''; SetError c e }
      else do {
        Tenancy_OpLog op oplog;
        PublishOp tenancy op [];
        ret None }) }"

definition with_tenancy :: "'z op_ctx_scheme tenancy_env \<Rightarrow> nat \<Rightarrow> string \<Rightarrow> bool list
    \<Rightarrow> (tenancy_item \<Rightarrow> ('z op_ctx_scheme, err) comp) \<Rightarrow> ('z op_ctx_scheme, err) comp" where
  "with_tenancy te c i idIsDisplay f = do {
     (tenancy, e) \<leftarrow> FindTenancy (te_crud te) i idIsDisplay;
     (case tenancy of
        None \<Rightarrow> SetError c e
      | Some tenancy \<Rightarrow> if e \<noteq> None then SetError c e else f tenancy) }"

text \<open>The operation log of a new path holds the old one.\<close>

definition SetPath :: "'z tm_ctx_scheme tenancy_env \<Rightarrow> string \<Rightarrow> string \<Rightarrow> bool list \<Rightarrow> ('z tm_ctx_scheme, err) comp" where
  "SetPath te i path idIsDisplay = traced ''TenancyController.SetPath'' [] (\<lambda>c.
     with_tenancy te c i idIsDisplay (\<lambda>tenancy. do {
       let d = tdb_data (ti_db tenancy);
       e \<leftarrow> CheckDuplicatePath (te_crud te) c (td_POOL_ID d) path;
       (if e \<noteq> None then ret e
        else update_tenancy te c tenancy [(''path'', VStr path)] OpSetPath
          (oplog_tenancy (CustomerLogin tenancy) (obj_id (ti_db tenancy)) (td_ROLE d) (td_PATH d) [] [])) }))"

definition SetRole :: "'z tm_ctx_scheme tenancy_env \<Rightarrow> string \<Rightarrow> string \<Rightarrow> bool list \<Rightarrow> ('z tm_ctx_scheme, err) comp" where
  "SetRole te i role idIsDisplay = traced ''TenancyController.SetRole'' [] (\<lambda>c.
     with_tenancy te c i idIsDisplay (\<lambda>tenancy. do {
       let d = tdb_data (ti_db tenancy);
       e \<leftarrow> CheckDuplicateRole (te_crud te) c (td_CUSTOMER_ID d) role;
       (if e \<noteq> None then ret e
        else update_tenancy te c tenancy [(''role'', VStr role)] OpSetRole
          (oplog_tenancy (CustomerLogin tenancy) (obj_id (ti_db tenancy)) (td_ROLE d) [] [] [])) }))"

definition Activate :: "'z tm_ctx_scheme tenancy_env \<Rightarrow> string \<Rightarrow> bool list \<Rightarrow> ('z tm_ctx_scheme, err) comp" where
  "Activate te i idIsDisplay = traced ''TenancyController.activate'' [] (\<lambda>c.
     with_tenancy te c i idIsDisplay (\<lambda>tenancy.
       update_tenancy te c tenancy [(''active'', VBool True)] OpActivate
         (oplog_tenancy (CustomerLogin tenancy) (obj_id (ti_db tenancy)) (td_ROLE (tdb_data (ti_db tenancy))) [] [] [])))"

definition Deactivate :: "'z tm_ctx_scheme tenancy_env \<Rightarrow> string \<Rightarrow> bool list \<Rightarrow> ('z tm_ctx_scheme, err) comp" where
  "Deactivate te i idIsDisplay = traced ''TenancyController.activate'' [] (\<lambda>c.
     with_tenancy te c i idIsDisplay (\<lambda>tenancy.
       update_tenancy te c tenancy [(''active'', VBool False)] OpDeactivate
         (oplog_tenancy (CustomerLogin tenancy) (obj_id (ti_db tenancy)) (td_ROLE (tdb_data (ti_db tenancy))) [] [] [])))"

definition SetCustomer :: "'z tm_ctx_scheme tenancy_env \<Rightarrow> string \<Rightarrow> string \<Rightarrow> bool list \<Rightarrow> ('z tm_ctx_scheme, err) comp" where
  "SetCustomer te i customer idIsDisplay = traced ''TenancyController.SetRole'' [] (\<lambda>c.
     with_tenancy te c i idIsDisplay (\<lambda>tenancy. do {
       (cust, e) \<leftarrow> FindCustomer te c customer;
       (case cust of
          None \<Rightarrow> SetError c e
        | Some cust \<Rightarrow> do {
            e \<leftarrow> CheckDuplicateRole (te_crud te) c (obj_id cust) (td_ROLE (tdb_data (ti_db tenancy)));
            (if e \<noteq> None then ret e
             else update_tenancy te c tenancy [(''customer_id'', VStr (obj_id cust))] OpSetCustomer
               (oplog_tenancy (u_LOGIN cust) (obj_id (ti_db tenancy)) (td_ROLE (tdb_data (ti_db tenancy))) [] [] [])) }) }))"

text \<open>
  The tenancy is tried with the new parameters before its row is changed. When the pool given by the
  caller differs from the old one, also as a name of the same pool, the old pool is told that the tenancy is deleted.
\<close>

definition ChangePoolOrDb :: "'z tm_ctx_scheme tenancy_env \<Rightarrow> string \<Rightarrow> string \<Rightarrow> string \<Rightarrow> bool list
    \<Rightarrow> ('z tm_ctx_scheme, err) comp" where
  "ChangePoolOrDb te i poolId dbName idIsDisplay = traced ''TenancyController.ChangePoolOrDb'' [] (\<lambda>c.
     with_tenancy te c i idIsDisplay (\<lambda>tenancy. do {
       let d = tdb_data (ti_db tenancy);
       let oldPoolId = td_POOL_ID d;
       let pId = (if poolId = [] then td_POOL_ID d else poolId);
       (p, e) \<leftarrow> manager_FindPool te c pId;
       (case p of
          None \<Rightarrow> SetError c e
        | Some p \<Rightarrow> do {
            e \<leftarrow> (if obj_id p \<noteq> td_POOL_ID d
                 then CheckDuplicatePath (te_crud te) c (obj_id p) (td_PATH d) else ret None);
            (if e \<noteq> None then ret e
             else do {
               let dbN = (if dbName = [] then td_DBNAME d else dbName);
               let tenancy = tenancy\<lparr>ti_db := (ti_db tenancy)\<lparr>tdb_data := d\<lparr>td_DBNAME := dbN, td_POOL_ID := obj_id p\<rparr>\<rparr>\<rparr>;
               (checkTenancy, skip, e) \<leftarrow> TenancyBase_Init te (ti_db tenancy) NewTenancy;
               close_db (tb_Db checkTenancy);
               (if e \<noteq> None then do { SetMessage c ''failed to init tenancy with new parameters''; SetError c e }
                else if skip then do {
                  SetGenericErrorCode ErrorCodePoolNotActive [];
                  SetError c (errors_New ''failed to check tenancy database as the pool is not active'') }
                else do {
                  e \<leftarrow> c_Update (te_crud te) tenancies_table (obj_id (ti_db tenancy))
                    [(''pool_id'', VStr (obj_id p)), (''dbname'', VStr dbN)];
                  (if e \<noteq> None then do { SetMessage c ''failed to update tenancy''; SetError c e }
                   else do {
                     Tenancy_OpLog OpChangePoolOrDb (oplog_tenancy (CustomerLogin tenancy) (obj_id (ti_db tenancy))
                       (td_ROLE d) [] dbN (pl_NAME p));
                     (if oldPoolId \<noteq> pId then PublishOp tenancy OpDelete [oldPoolId] else ret ());
                     PublishOp tenancy OpChangePoolOrDb [];
                     ret None }) }) }) }) }))"

definition Tenancy_Delete :: "'z tm_ctx_scheme tenancy_env \<Rightarrow> string \<Rightarrow> bool \<Rightarrow> bool list \<Rightarrow> ('z tm_ctx_scheme, err) comp" where
  "Tenancy_Delete te i withDatabase idIsDisplay = traced ''TenancyController.Delete'' [] (\<lambda>c.
     if withDatabase then do {
       SetGenericError (Some (New ErrorCodeUnsupported
         [''Database can not be droped through administrator. Use raw database tools for database dropping.''])) [];
       SetError c (errors_New ''database can not be dropped'') }
     else with_tenancy te c i idIsDisplay (\<lambda>tenancy. do {
       e \<leftarrow> c_Delete (te_crud te) tenancies_table (obj_id (ti_db tenancy));
       (if e \<noteq> None then do { SetMessage c ''failed to delete tenancy''; SetError c e }
        else do {
          Tenancy_OpLog OpDelete (oplog_tenancy (CustomerLogin tenancy) (obj_id (ti_db tenancy))
            (td_ROLE (tdb_data (ti_db tenancy))) [] [] []);
          PublishOp tenancy OpDelete [];
          ret None }) }))"

end
