(* ===== verification/Tenancy_Maps.thy ===== *)
theory Tenancy_Maps
  imports Tenancy_Controller
begin

text \<open>
  The maps of the tenancy manager: what is found by a path is loaded, has that path, and is no
  longer found once its tenancy is unloaded or deleted.
\<close>

section \<open>What leaves the maps alone\<close>

definition tm_maps :: "'z tm_ctx_scheme \<Rightarrow> (string \<times> tenancy_base) list \<times> (string \<times> tenancy_base) list" where
  "tm_maps s = (tenanciesById s, tenanciesByPath s)"

lemma tm_maps_updates [simp]:
  "tm_maps (core s) = tm_maps s" "tm_maps (s\<lparr>dbs := D\<rparr>) = tm_maps s" "tm_maps (s\<lparr>times := a\<rparr>) = tm_maps s"
  "tm_maps (s\<lparr>rands := b\<rparr>) = tm_maps s" "tm_maps (s\<lparr>idCount := ic\<rparr>) = tm_maps s"
  "tm_maps (s\<lparr>genericError := e\<rparr>) = tm_maps s" "tm_maps (s\<lparr>oplogs := ol\<rparr>) = tm_maps s"
  "tm_maps (s\<lparr>panicked := p\<rparr>) = tm_maps s" "tm_maps (s\<lparr>tm_events := ev\<rparr>) = tm_maps s"
  by (simp_all add: tm_maps_def core_def)

lemma keeps_modifys [io_rel]: "(\<And>s. f (g s) = f s) \<Longrightarrow> state_io_rel (keeps f) (modifys g)"
  by (rule io_rel_modifys) (simp add: keeps_def)

lemma maps_basic [io_rel]:
  "state_io_rel (keeps tm_maps) (event ev)"
  "state_io_rel (keeps tm_maps) (close_db d)"
  "state_io_rel (keeps tm_maps) (SetGenericError e b)"
  "state_io_rel (keeps tm_maps) (fail_generic ge)"
  "state_io_rel (keeps tm_maps) ClearError"
  "state_io_rel (keeps tm_maps) (connect_db te cfg)"
  "state_io_rel (keeps tm_maps) (Tenancy_OpLog op fs)"
  "state_io_rel (keeps tm_maps) (PublishOp t op ps)"
  unfolding event_def close_db_def SetGenericError_def fail_generic_def ClearError_def connect_db_def
    Tenancy_OpLog_def Oplog_def PublishOp_def
  by (intro io_rel; simp add: tm_maps_def)+

text \<open>The controller and the customers over the database.\<close>

definition over_db :: "dbhandlers \<Rightarrow> 'z op_ctx_scheme tenancy_env \<Rightarrow> bool" where
  "over_db h te \<longleftrightarrow> te_crud te = DbCRUD h False \<and> uc_crud (te_customers te) = DbCRUD h False"

lemma maps_customers:
  assumes "uc_crud u = DbCRUD h False"
  shows "state_io_rel (keeps tm_maps) (Users_Find u i)" "state_io_rel (keeps tm_maps) (Users_FindByLogin u i)"
  unfolding Users_Find_def Users_FindByLogin_def find_user_by_def assms by (intro io_rel; simp)+

lemma maps_find:
  "state_io_rel (keeps tm_maps) (Tenancy_List (DbCRUD h False) flt)"
  "state_io_rel (keeps tm_maps) (TenancyId (DbCRUD h False) i b)"
  "state_io_rel (keeps tm_maps) (FindTenancy (DbCRUD h False) i b)"
  "state_io_rel (keeps tm_maps) (Tenancy_Exists (DbCRUD h False) fs)"
proof -
  show l: "state_io_rel (keeps tm_maps) (Tenancy_List (DbCRUD h False) flt)" for flt
    unfolding Tenancy_List_def by (intro io_rel; simp)
  have n: "state_io_rel (keeps tm_maps) (not_found c)" for c
    unfolding not_found_def by (intro io_rel; simp)
  show t: "state_io_rel (keeps tm_maps) (TenancyId (DbCRUD h False) i b)" for i b
    unfolding TenancyId_def by (intro io_rel l n; simp split: list.splits; intro conjI allI impI io_rel l n; simp)
  show "state_io_rel (keeps tm_maps) (FindTenancy (DbCRUD h False) i b)"
    unfolding FindTenancy_def by (intro io_rel t l n; simp split: list.splits; intro conjI allI impI io_rel l n; simp)
  show "state_io_rel (keeps tm_maps) (Tenancy_Exists (DbCRUD h False) fs)"
    unfolding Tenancy_Exists_def crud_Exists_def by (intro io_rel; simp)
qed

lemma maps_CheckTenancyDatabase: "state_io_rel (keeps tm_maps) (CheckTenancyDatabase h d i)"
  unfolding CheckTenancyDatabase_def by (intro io_rel; simp)

lemma maps_ConnectDatabase: "state_io_rel (keeps tm_maps) (ConnectDatabase te b t)"
proof -
  have "state_io_rel (keeps tm_maps) (create_database te cfg n sn)" for cfg n sn
    unfolding create_database_def by (intro io_rel; simp)
  then show ?thesis unfolding ConnectDatabase_def by (intro io_rel; simp)
qed

lemma maps_TenancyBase_Init:
  assumes "over_db h te"
  shows "state_io_rel (keeps tm_maps) (TenancyBase_Init te data t)"
  unfolding TenancyBase_Init_def
  by (intro io_rel maps_customers [of _ h] maps_ConnectDatabase maps_CheckTenancyDatabase;
      use assms in \<open>simp add: over_db_def\<close>)

lemma maps_controller:
  assumes "over_db h te"
  shows "state_io_rel (keeps tm_maps) (Tenancy_Add te data)"
    and "state_io_rel (keeps tm_maps) (SetPath te i path b)"
    and "state_io_rel (keeps tm_maps) (SetRole te i role b)"
    and "state_io_rel (keeps tm_maps) (Activate te i b)"
    and "state_io_rel (keeps tm_maps) (Deactivate te i b)"
    and "state_io_rel (keeps tm_maps) (SetCustomer te i customer b)"
    and "state_io_rel (keeps tm_maps) (ChangePoolOrDb te i poolId dbName b)"
    and "state_io_rel (keeps tm_maps) (Tenancy_Delete te i wd b)"
proof -
  note te = assms [unfolded over_db_def, THEN conjunct1] and cu = assms [unfolded over_db_def, THEN conjunct2]
  have dup: "state_io_rel (keeps tm_maps) (CheckDuplicateRole (DbCRUD h False) c x y)"
    "state_io_rel (keeps tm_maps) (CheckDuplicatePath (DbCRUD h False) c x y)" for c x y
    unfolding CheckDuplicateRole_def CheckDuplicatePath_def check_duplicate_def by (intro io_rel maps_find; simp)+
  have cust: "state_io_rel (keeps tm_maps) (FindCustomer te c i)" for c i
    unfolding FindCustomer_def by (intro io_rel maps_customers [OF cu]; simp)
  have pool: "state_io_rel (keeps tm_maps) (manager_FindPool te c i)" for c i
    unfolding manager_FindPool_def by (intro io_rel; simp)
  have upg: "state_io_rel (keeps tm_maps) (UpgradeTenancyDatabase te d t)" for d t
    unfolding UpgradeTenancyDatabase_def by (intro io_rel; simp)
  have claim: "state_io_rel (keeps tm_maps) (claim_database te c d t)" for c d t
    unfolding claim_database_def by (intro io_rel; simp split: list.splits; intro conjI allI impI io_rel; simp)
  have prep: "state_io_rel (keeps tm_maps) (prepare_database te c t)" for c t
    unfolding prepare_database_def by (intro io_rel upg claim; simp)
  have fill: "state_io_rel (keeps tm_maps) (fill_tenancy te data cu p)" for data cu p
    unfolding fill_tenancy_def by (intro io_rel; simp)
  have create: "state_io_rel (keeps tm_maps) (CreateTenancy te data)" for data
    unfolding CreateTenancy_def te
    by (intro io_rel cust pool dup fill maps_ConnectDatabase prep; simp)
  show "state_io_rel (keeps tm_maps) (Tenancy_Add te data)"
    unfolding Tenancy_Add_def te by (intro io_rel create; simp)
  have upd: "state_io_rel (keeps tm_maps) (update_tenancy te c t fs op ol)" for c t fs op ol
    unfolding update_tenancy_def te by (intro io_rel; simp)
  have wth: "state_io_rel (keeps tm_maps) (with_tenancy te c i b f)"
    if "\<And>t. state_io_rel (keeps tm_maps) (f t)" for c i b f
    unfolding with_tenancy_def te by (intro io_rel maps_find that; simp)
  show "state_io_rel (keeps tm_maps) (SetPath te i path b)" "state_io_rel (keeps tm_maps) (SetRole te i role b)"
    "state_io_rel (keeps tm_maps) (Activate te i b)" "state_io_rel (keeps tm_maps) (Deactivate te i b)"
    "state_io_rel (keeps tm_maps) (SetCustomer te i customer b)"
    unfolding SetPath_def SetRole_def Activate_def Deactivate_def SetCustomer_def
    by (intro io_rel wth upd cust; simp add: te; intro io_rel dup; simp)+
  show "state_io_rel (keeps tm_maps) (ChangePoolOrDb te i poolId dbName b)"
    unfolding ChangePoolOrDb_def te
    by (intro io_rel wth pool dup maps_TenancyBase_Init [OF assms]; simp)
  show "state_io_rel (keeps tm_maps) (Tenancy_Delete te i wd b)"
    unfolding Tenancy_Delete_def te by (intro io_rel wth; simp)
qed

section \<open>The invariant\<close>

definition maps_ok :: "'z tm_ctx_scheme \<Rightarrow> bool" where
  "maps_ok s \<longleftrightarrow> (\<forall>i t. map_get (tenanciesById s) i = Some t \<longrightarrow> tb_id t = i)
     \<and> (\<forall>p t. map_get (tenanciesByPath s) p = Some t \<longrightarrow>
          tb_path t = p \<and> map_get (tenanciesById s) (tb_id t) = Some t)"

lemma maps_ok_cong: "tm_maps s = tm_maps t \<Longrightarrow> maps_ok s = maps_ok t"
  by (simp add: maps_ok_def tm_maps_def)

lemma maps_ok_empty: "tm_maps s = ([], []) \<Longrightarrow> maps_ok s"
  by (simp add: maps_ok_def tm_maps_def)

lemma map_get_delete: "map_get (AList.delete k m) k' = (if k' = k then None else map_get m k')"
  by (simp add: map_get_def delete_conv)

lemma maps_ok_unload:
  assumes "maps_ok s" "map_get (tenanciesById s) i = Some t"
    and "tm_maps s' = (AList.delete i (tenanciesById s), AList.delete (tb_path t) (tenanciesByPath s))"
  shows "maps_ok s'"
  using assms unfolding maps_ok_def tm_maps_def by (auto simp: map_get_delete)

lemma maps_ok_keep:
  assumes "maps_ok s" "map_get (tenanciesById s) (tb_id t) = None"
    and "tm_maps s' = (map_set (tenanciesById s) (tb_id t) t, map_set (tenanciesByPath s) (tb_path t) t)"
  shows "maps_ok s'"
  using assms unfolding maps_ok_def tm_maps_def by auto (metis option.distinct(1))

subsection \<open>Loading and unloading\<close>

lemma core_tm [simp]:
  "core (s\<lparr>tenanciesById := a\<rparr>) = (core s)\<lparr>tenanciesById := a\<rparr>"
  "core (s\<lparr>tenanciesByPath := b\<rparr>) = (core s)\<lparr>tenanciesByPath := b\<rparr>"
  "core (s\<lparr>tm_events := ev\<rparr>) = (core s)\<lparr>tm_events := ev\<rparr>"
  "tenanciesById (core s) = tenanciesById s" "tenanciesByPath (core s) = tenanciesByPath s"
  "tm_events (core s) = tm_events s"
  by (simp_all add: core_def)

lemma maps_ok_core [simp]: "maps_ok (core s) = maps_ok s"
  by (simp add: maps_ok_def)

lemma maps_ok_updates [simp]:
  "maps_ok (s\<lparr>panicked := p\<rparr>) = maps_ok s" "maps_ok (s\<lparr>tm_events := ev\<rparr>) = maps_ok s"
  by (simp_all add: maps_ok_def)

lemma wpc_any: "(\<And>r k'. core k' = k' \<Longrightarrow> Q r k') \<Longrightarrow> wpc m Q k"
  by (simp add: wpc_def)

lemma wpc_maps:
  assumes "state_io_rel (keeps tm_maps) m" "\<And>r k'. core k' = k' \<Longrightarrow> tm_maps k' = tm_maps k \<Longrightarrow> Q r k'"
  shows "wpc m Q k"
  by (rule wpc_keeps [OF assms(1)]) (simp_all add: assms(2))

lemma ConnectDatabase_db: "wpc (ConnectDatabase te b t) (\<lambda>(t', e) k'. tb_db t' = tb_db t) k"
  unfolding ConnectDatabase_def
  by (intro wpc wpc_any [of _ "create_database te cfg n sn" for cfg n sn]
        wpc_any [of _ "connect_db te cfg" for cfg] wpc_any [of _ "fail_generic e" for e]) auto

lemma TenancyBase_Init_db: "wpc (TenancyBase_Init te data t) (\<lambda>(t', skip, e) k'. tb_db t' = data) k"
  unfolding TenancyBase_Init_def
  by (intro wpc wpc_any [of _ "Users_Find u i" for u i] wpc_mono [OF ConnectDatabase_db]
        wpc_any [of _ "CheckTenancyDatabase h d i" for h d i] wpc_any [of _ "close_db d" for d]) auto

lemma TenancyBase_Init_keeps:
  assumes "over_db h te"
  shows "wpc (TenancyBase_Init te data t) (\<lambda>(t', skip, e) k'. tb_db t' = data \<and> tm_maps k' = tm_maps k) k"
  by (rule wpc_mono [OF wpc_conj [OF TenancyBase_Init_db wpc_maps [OF maps_TenancyBase_Init [OF assms],
        where Q = "\<lambda>r k'. tm_maps k' = tm_maps k"]]]) auto

text \<open>The tenancy is not loaded before it is loaded.\<close>

definition unloaded :: "string \<Rightarrow> 'z tm_ctx_scheme \<Rightarrow> bool" where
  "unloaded i s \<longleftrightarrow> map_get (tenanciesById s) i = None"

lemma unloaded_cong: "tm_maps s = tm_maps t \<Longrightarrow> unloaded i s = unloaded i t"
  by (simp add: unloaded_def tm_maps_def)

lemma wpc_keep_tenancy:
  assumes "maps_ok k" "unloaded (tb_id t) k"
    and "\<And>k'. core k' = k' \<Longrightarrow> maps_ok k' \<Longrightarrow> (\<And>i. i \<noteq> tb_id t \<Longrightarrow> unloaded i k' = unloaded i k) \<Longrightarrow> Q () k'"
  shows "wpc (keep_tenancy t) Q k"
  unfolding keep_tenancy_def
proof (rule wpc_modifys)
  let ?k = "k\<lparr>tenanciesById := map_set (tenanciesById k) (tb_id t) t,
      tenanciesByPath := map_set (tenanciesByPath k) (tb_path t) t\<rparr>"
  have "maps_ok ?k"
    by (rule maps_ok_keep [OF assms(1) assms(2) [unfolded unloaded_def]]) (simp add: tm_maps_def)
  then have "maps_ok (core ?k)" by (simp only: maps_ok_core)
  then show "Q () (core ?k)" by (rule assms(3) [rotated]) (simp_all add: unloaded_def)
qed simp

lemma LoadTenancyFromData_ok:
  assumes "over_db h te" "maps_ok k" "unloaded (obj_id data) k"
  shows "wpc (LoadTenancyFromData te data) (\<lambda>r k'. maps_ok k' \<and> (\<forall>i. i \<noteq> obj_id data \<longrightarrow> unloaded i k' = unloaded i k)) k"
  unfolding LoadTenancyFromData_def
  by (intro wpc wpc_mono [OF TenancyBase_Init_keeps [OF assms(1)]] wpc_keep_tenancy)
     (use assms(2,3) in \<open>auto dest: maps_ok_cong unloaded_cong\<close>)

lemma UnloadTenancy_ok:
  assumes "maps_ok k"
  shows "wpc (UnloadTenancy i) (\<lambda>r k'. maps_ok k' \<and> unloaded i k') k"
proof -
  have "maps_ok (k'\<lparr>tenanciesById := AList.delete i (tenanciesById k'),
      tenanciesByPath := AList.delete (tb_path t) (tenanciesByPath k')\<rparr>)"
    if "tm_maps k' = tm_maps k" "map_get (tenanciesById k) i = Some t" for t and k' :: "'a tm_ctx_scheme"
    by (rule maps_ok_unload [OF assms that(2)]) (use that(1) in \<open>simp add: tm_maps_def\<close>)
  then show ?thesis
    unfolding UnloadTenancy_def
    by (intro wpc wpc_maps [OF maps_basic(2)])
       (use assms in \<open>auto simp: unloaded_def map_get_delete\<close>)
qed

text \<open>A tenancy that is found by its identifier has it: the join selects by the column of the filter.\<close>

definition joins_by_id :: "dbhandlers \<Rightarrow> bool" where
  "joins_by_id h \<longleftrightarrow> (\<forall>d i D rows n.
     h_Join h d ''ListTenancies'' ((AddField ''tenancies.id'' (VStr i) NewFilter)\<lparr>Limit := 1\<rparr>) D = (rows, n, None) \<longrightarrow>
     list_all (\<lambda>row. row_str row ''id'' = i) rows)"

lemma wpc_list [wpc]:
  "(xs = [] \<Longrightarrow> wpc m Q k) \<Longrightarrow> (\<And>y ys. xs = y # ys \<Longrightarrow> wpc (n y ys) Q k) \<Longrightarrow>
   wpc (case xs of [] \<Rightarrow> m | y # ys \<Rightarrow> n y ys) Q k"
  by (cases xs) auto

lemma wpc_not_found: "(\<And>k'. core k' = k' \<Longrightarrow> Q (genericError k') k') \<Longrightarrow> wpc (not_found c) Q k"
  unfolding not_found_def by (intro wpc) auto

lemma FindTenancy_by_id:
  assumes "joins_by_id h"
  shows "wpc (FindTenancy (DbCRUD h False) i []) (\<lambda>(item, e) k'.
     case item of None \<Rightarrow> True | Some it \<Rightarrow> e = None \<and> obj_id (ti_db it) = i) k"
proof -
  have "obj_id (ti_db (row_item row)) = i"
    if "h_Join h d ''ListTenancies'' ((AddField ''tenancies.id'' (VStr i) NewFilter)\<lparr>Limit := 1\<rparr>) D = (rows, n, None)"
      "row \<in> set rows" for d D rows n row
    using assms [unfolded joins_by_id_def, rule_format, OF that(1)] that(2)
    by (simp add: list_all_iff row_item_def row_tenancy_def)
  then show ?thesis
    unfolding FindTenancy_def TenancyId_def Tenancy_List_def Let_def OptionalArg_simps
    by (intro wpc wpc_not_found) (auto split: if_splits simp: Cons_eq_map_conv)
qed

lemma LoadTenancy_ok:
  assumes "over_db h te" "joins_by_id h" "maps_ok k" "unloaded i k"
  shows "wpc (LoadTenancy te i) (\<lambda>r k'. maps_ok k') k"
proof -
  have find: "wpc (FindTenancy (te_crud te) i []) (\<lambda>(item, e) k'. tm_maps k' = tm_maps k \<and>
     (case item of None \<Rightarrow> True | Some it \<Rightarrow> e = None \<and> obj_id (ti_db it) = i)) k"
    using assms(1) unfolding over_db_def
    by (auto intro!: wpc_mono [OF wpc_conj [OF FindTenancy_by_id [OF assms(2)] wpc_maps [OF maps_find(3),
        where Q = "\<lambda>r k'. tm_maps k' = tm_maps k"]]] split: prod.splits)
  show ?thesis
    unfolding LoadTenancy_def
    by (intro wpc wpc_mono [OF find] wpc_mono [OF LoadTenancyFromData_ok [OF assms(1)]])
       (use assms(3,4) in \<open>auto dest: maps_ok_cong unloaded_cong\<close>)
qed

lemma Notification_Handle_ok:
  assumes "over_db h te" "joins_by_id h" "maps_ok k"
  shows "wpc (Notification_Handle te i op) (\<lambda>e k'. maps_ok k' \<and> (op = OpDelete \<longrightarrow> unloaded i k')) k"
  unfolding Notification_Handle_def
  by (intro wpc wpc_mono [OF UnloadTenancy_ok [OF assms(3)]] wpc_mono [OF LoadTenancy_ok [OF assms(1,2)]])
     (auto simp: unloaded_def)

subsection \<open>Initialisation and closing\<close>

text \<open>The rows of the join are those of tenancies, whose identifiers are a primary key.\<close>

definition tenancy_joins :: "dbhandlers \<Rightarrow> bool" where
  "tenancy_joins h \<longleftrightarrow> joins_by_id h \<and> (\<forall>d flt D rows n.
     h_Join h d ''ListTenancies'' flt D = (rows, n, None) \<longrightarrow> distinct (map (\<lambda>row. row_str row ''id'') rows))"

lemma load_each_ok:
  fixes k :: "'z tm_ctx_scheme"
  assumes "over_db h te" "maps_ok k" "distinct (map (\<lambda>it. obj_id (ti_db it)) items)"
    and "\<And>it. it \<in> set items \<Longrightarrow> unloaded (obj_id (ti_db it)) k"
  shows "wpc (load_each te items) (\<lambda>e k'. maps_ok k') k"
  using assms(2-4)
proof (induction items arbitrary: k)
  case Nil
  then show ?case by (auto intro!: wpc)
next
  case (Cons it items)
  have IH: "wpc (load_each te items) (\<lambda>e k'. maps_ok k') k'"
    if "maps_ok k'" "\<forall>i. i \<noteq> obj_id (ti_db it) \<longrightarrow> unloaded i k' = unloaded i k" for k' :: "'z tm_ctx_scheme"
    by (rule Cons.IH [OF that(1)]) (use Cons.prems(2,3) that(2) in \<open>auto simp: image_iff\<close>)
  show ?case
    unfolding load_each.simps
    by (intro wpc wpc_mono [OF LoadTenancyFromData_ok [OF assms(1) Cons.prems(1)]])
       (use Cons.prems(3) in \<open>auto intro: IH\<close>)
qed

lemma LoadTenancies_ok:
  assumes "over_db h te" "tenancy_joins h" "tm_maps k = ([], [])"
  shows "wpc (LoadTenancies te p) (\<lambda>e k'. maps_ok k') k"
proof -
  have te: "te_crud te = DbCRUD h False" using assms(1) by (simp add: over_db_def)
  have ok: "maps_ok k" "unloaded i k" for i
    using assms(3) maps_ok_empty by (auto simp: unloaded_def tm_maps_def)
  have "distinct (map (\<lambda>it. obj_id (ti_db it)) (map row_item rows))"
    if "h_Join h d ''ListTenancies'' flt D = (rows, n, None)" for d flt D rows n
    using assms(2) [unfolded tenancy_joins_def, THEN conjunct2, rule_format, OF that]
    by (simp add: row_item_def row_tenancy_def comp_def)
  then show ?thesis
    unfolding LoadTenancies_def Tenancy_List_def te
    by (intro wpc wpc_mono [OF load_each_ok [OF assms(1)]]) (auto simp: ok unloaded_def [of _ "core k"] ok [unfolded unloaded_def])
qed

lemma event_maps: "tm_maps k' = tm_maps (core k) \<Longrightarrow> tm_maps k = ([], []) \<Longrightarrow> tm_maps k' = ([], [])"
  by simp

lemma Init_ok:
  assumes "over_db h te" "tenancy_joins h" "tm_maps k = ([], [])"
  shows "wpc (TenancyManager_Init te cfg sub l) (\<lambda>r k'. maps_ok k') k"
proof -
  note load = wpc_mono [OF LoadTenancies_ok [OF assms(1,2)]]
  show ?thesis
    unfolding TenancyManager_Init_def
    by (intro wpc wpc_maps [OF maps_basic(1)] load) (use assms(3) in \<open>auto intro: maps_ok_empty\<close>)
qed

lemma Close_ok: "wpc TenancyManager_Close (\<lambda>r k'. maps_ok k') k"
  unfolding TenancyManager_Close_def
  by (intro wpc wpc_any [of _ "each f xs" for f xs] wpc_maps [OF maps_basic(1)])
     (auto simp: maps_ok_def tm_maps_def Tenancies_def)

inductive tm_reachable :: "'z tm_ctx_scheme tenancy_env \<Rightarrow> 'z tm_ctx_scheme \<Rightarrow> bool" for te where
  init: "tm_maps s = ([], []) \<Longrightarrow> run_state (TenancyManager_Init te cfg sub l) s = (r, t) \<Longrightarrow> tm_reachable te t"
| notify: "tm_reachable te s \<Longrightarrow> run_state (Notification_Handle te i op) s = (e, t) \<Longrightarrow> tm_reachable te t"
| unload: "tm_reachable te s \<Longrightarrow> run_state (UnloadTenancy i) s = (u, t) \<Longrightarrow> tm_reachable te t"
| close: "tm_reachable te s \<Longrightarrow> run_state TenancyManager_Close s = (u, t) \<Longrightarrow> tm_reachable te t"
| add: "tm_reachable te s \<Longrightarrow> run_state (Tenancy_Add te data) s = (ra, t) \<Longrightarrow> tm_reachable te t"
| set_path: "tm_reachable te s \<Longrightarrow> run_state (SetPath te i path b) s = (e, t) \<Longrightarrow> tm_reachable te t"
| set_role: "tm_reachable te s \<Longrightarrow> run_state (SetRole te i role b) s = (e, t) \<Longrightarrow> tm_reachable te t"
| activate: "tm_reachable te s \<Longrightarrow> run_state (Activate te i b) s = (e, t) \<Longrightarrow> tm_reachable te t"
| deactivate: "tm_reachable te s \<Longrightarrow> run_state (Deactivate te i b) s = (e, t) \<Longrightarrow> tm_reachable te t"
| set_customer: "tm_reachable te s \<Longrightarrow> run_state (SetCustomer te i cust b) s = (e, t) \<Longrightarrow> tm_reachable te t"
| change: "tm_reachable te s \<Longrightarrow> run_state (ChangePoolOrDb te i poolId dbName b) s = (e, t) \<Longrightarrow> tm_reachable te t"
| delete: "tm_reachable te s \<Longrightarrow> run_state (Tenancy_Delete te i wd b) s = (e, t) \<Longrightarrow> tm_reachable te t"

lemma wpc_maps_run: "wpc m (\<lambda>r k'. maps_ok k') k \<Longrightarrow> run_state m k = (r, u) \<Longrightarrow> maps_ok u"
  by (drule (1) wpcE) simp

lemma keeps_maps_run: "state_io_rel (keeps tm_maps) m \<Longrightarrow> run_state m k = (r, u) \<Longrightarrow> maps_ok k \<Longrightarrow> maps_ok u"
  using keeps_run [of tm_maps m k r u] maps_ok_cong [of u k] by simp

lemma Notification_maps_ok:
  assumes "over_db h te" "tenancy_joins h" "maps_ok k"
  shows "wpc (Notification_Handle te i op) (\<lambda>e k'. maps_ok k') k"
  using assms(2) by (auto intro!: wpc_mono [OF Notification_Handle_ok [OF assms(1) _ assms(3)]] simp: tenancy_joins_def)

lemma Unload_maps_ok: "maps_ok k \<Longrightarrow> wpc (UnloadTenancy i) (\<lambda>u k'. maps_ok k') k"
  by (rule wpc_mono [OF UnloadTenancy_ok]) simp_all

lemma tm_reachable_ok:
  assumes "tm_reachable te s" "over_db h te" "tenancy_joins h"
  shows "maps_ok s"
  using assms(1)
proof induction
  case (init s cfg sub l r t)
  show ?case by (rule wpc_maps_run [OF Init_ok [OF assms(2,3) init(1)] init(2)])
next
  case (notify s i op e t)
  show ?case by (rule wpc_maps_run [OF Notification_maps_ok [OF assms(2,3) notify(3)] notify(2)])
next
  case (unload s i u t)
  show ?case by (rule wpc_maps_run [OF Unload_maps_ok [OF unload(3)] unload(2)])
next
  case (close s u t)
  show ?case by (rule wpc_maps_run [OF Close_ok close(2)])
qed (blast intro: keeps_maps_run maps_controller [OF assms(2)])+

section \<open>Loading succeeds\<close>

text \<open>What a tenancy needs to be served: its customer, an active pool with an active database service, and a database that is its own.\<close>

definition available :: "dbhandlers \<Rightarrow> 'z tm_ctx_scheme tenancy_env \<Rightarrow> tenancy_db \<Rightarrow> 'z tm_ctx_scheme \<Rightarrow> bool" where
  "available h te data s \<longleftrightarrow>
     (\<exists>row. h_FindByFields h (db_for False s) (uc_table (te_customers te)) [(''id'', VStr (td_CUSTOMER_ID (tdb_data data)))] (dbs s)
        = (Some row, None))
   \<and> (case store_Pool (te_pools te) (td_POOL_ID (tdb_data data)) of Inl x \<Rightarrow> False | Inr p \<Rightarrow> pl_ACTIVE p \<and>
       (case Pool_Service p TENANCY_DATABASE_ROLE of Inl x \<Rightarrow> False | Inr sv \<Rightarrow> sd_ACTIVE (bd_data sv) \<and>
         (case ParseDbService (bd_data sv) of Inl x \<Rightarrow> False | Inr cfg \<Rightarrow>
           (case te_connect te (cfg\<lparr>cfg_DB_NAME := td_DBNAME (tdb_data data)\<rparr>) (dbs s) of (d, e) \<Rightarrow> e = None \<and>
             h_Exists (te_handlers te) d metas_table (AddField ''id'' (VStr (obj_id data)) NewFilter) (dbs s) = (True, None)))))"

lemma wpc_connect_db [wpc]: "Q (te_connect te cfg (dbs k)) (core k) \<Longrightarrow> wpc (connect_db te cfg) Q k"
  unfolding connect_db_def by (rule wpc_gets) simp_all

lemma wpc_Users_Find:
  assumes "uc_crud u = DbCRUD h False"
    and "h_FindByFields h (db_for False k) (uc_table u) [(''id'', VStr i)] (dbs k) = (Some row, None)"
    and "Q (Some (row_user row), None) (core k)"
  shows "wpc (Users_Find u i) Q k"
  unfolding Users_Find_def find_user_by_def assms(1) by (intro wpc) (use assms(2,3) in auto)

lemma available_cong:
  "dbs s = dbs t \<Longrightarrow> db_for False s = db_for False t \<Longrightarrow> available h te data s = available h te data t"
  by (simp only: available_def)

lemma available_store: "store s = store t \<Longrightarrow> available h te data s = available h te data t"
  by (rule available_cong) (auto simp: store_def db_for_def split: option.splits)

lemma ConnectDatabase_connects:
  assumes "tb_Pool t = Some p" "Pool_Service p TENANCY_DATABASE_ROLE = Inr sv" "sd_ACTIVE (bd_data sv)"
    and "ParseDbService (bd_data sv) = Inr cfg"
    and "te_connect te (cfg\<lparr>cfg_DB_NAME := td_DBNAME (tdb_data (tb_db t))\<rparr>) (dbs k) = (d, None)"
    and "Q (t\<lparr>tb_Db := Some d\<rparr>, None) (core k)"
  shows "wpc (ConnectDatabase te [] t) Q k"
  unfolding ConnectDatabase_def assms(1) option.case assms(2) sum.case
  by (intro wpc) (use assms(3-6) in auto)

lemma CheckTenancyDatabase_accepts:
  assumes "h_Exists h d metas_table (AddField ''id'' (VStr i) NewFilter) (dbs k) = (True, None)" "Q None (core k)"
  shows "wpc (CheckTenancyDatabase h d i) Q k"
  unfolding CheckTenancyDatabase_def by (intro wpc) (use assms in auto)

lemma TenancyBase_Init_succeeds:
  assumes "over_db h te" "available h te data k"
    and "\<And>t k'. core k' = k' \<Longrightarrow> tb_db t = data \<Longrightarrow> tm_maps k' = tm_maps k \<Longrightarrow> Q (t, False, None) k'"
  shows "wpc (TenancyBase_Init te data t) Q k"
proof -
  obtain row where row: "h_FindByFields h (db_for False k) (uc_table (te_customers te))
      [(''id'', VStr (td_CUSTOMER_ID (tdb_data data)))] (dbs k) = (Some row, None)"
    using assms(2) by (auto simp: available_def)
  obtain p sv cfg d where p: "store_Pool (te_pools te) (td_POOL_ID (tdb_data data)) = Inr p" "pl_ACTIVE p"
    "Pool_Service p TENANCY_DATABASE_ROLE = Inr sv" "sd_ACTIVE (bd_data sv)" "ParseDbService (bd_data sv) = Inr cfg"
    "te_connect te (cfg\<lparr>cfg_DB_NAME := td_DBNAME (tdb_data data)\<rparr>) (dbs k) = (d, None)"
    "h_Exists (te_handlers te) d metas_table (AddField ''id'' (VStr (obj_id data)) NewFilter) (dbs k) = (True, None)"
    using assms(2) by (auto simp: available_def split: sum.splits prod.splits)
  have cu: "uc_crud (te_customers te) = DbCRUD h False" using assms(1) by (simp add: over_db_def)
  show ?thesis
    unfolding TenancyBase_Init_def p(1) sum.case
    by (intro wpc wpc_Users_Find [OF cu, of _ _ row] ConnectDatabase_connects [of _ p sv cfg _ _ d]
          CheckTenancyDatabase_accepts)
       (use row p(2-7) assms(3) in auto)
qed

lemma wpc_keep_found:
  assumes "\<And>k'. core k' = k' \<Longrightarrow> TenancyByPath (tb_path t) k' = Inr t \<Longrightarrow> Tenancy_get (tb_id t) k' = Inr t \<Longrightarrow> Q () k'"
  shows "wpc (keep_tenancy t) Q k"
  unfolding keep_tenancy_def
  by (rule wpc_modifys) (simp, intro assms, simp_all add: TenancyByPath_def Tenancy_get_def)

definition served :: "tenancy_db \<Rightarrow> 'z tm_ctx_scheme \<Rightarrow> bool" where
  "served data s \<longleftrightarrow> (\<exists>t. tb_db t = data \<and> TenancyByPath (tb_path t) s = Inr t \<and> Tenancy_get (tb_id t) s = Inr t)"

lemma LoadTenancyFromData_serves:
  assumes "over_db h te" "available h te data k" "\<And>t k'. core k' = k' \<Longrightarrow> served data k' \<Longrightarrow> Q (Some t, None) k'"
  shows "wpc (LoadTenancyFromData te data) Q k"
  unfolding LoadTenancyFromData_def
  by (intro wpc TenancyBase_Init_succeeds [OF assms(1,2)] wpc_keep_found)
     (auto simp: served_def intro!: assms(3))

lemma store_tm [simp]:
  "store (s\<lparr>tenanciesById := a\<rparr>) = store s" "store (s\<lparr>tenanciesByPath := b\<rparr>) = store s"
  "store (s\<lparr>tm_events := ev\<rparr>) = store s"
  by (simp_all add: store_def)

lemma store_Unload: "state_io_rel (keeps store) (UnloadTenancy i)"
  unfolding UnloadTenancy_def close_db_def event_def by (intro io_rel; simp)

lemma FindTenancy_finds:
  assumes "h_Join h (db_for False k) ''ListTenancies'' ((AddField ''tenancies.id'' (VStr i) NewFilter)\<lparr>Limit := 1\<rparr>) (dbs k)
      = (row # rows, n, None)"
    and "Q (Some (row_item row), None) (core k)"
  shows "wpc (FindTenancy (DbCRUD h False) i []) Q k"
  unfolding FindTenancy_def TenancyId_def Tenancy_List_def Let_def OptionalArg_simps
  by (intro wpc wpc_not_found) (use assms in auto)

lemma Notification_serves:
  assumes "over_db h te" "op \<noteq> OpDelete" "available h te (row_tenancy row) k"
    and "h_Join h (db_for False k) ''ListTenancies'' ((AddField ''tenancies.id'' (VStr i) NewFilter)\<lparr>Limit := 1\<rparr>) (dbs k)
      = (row # rows, n, None)"
  shows "wpc (Notification_Handle te i op) (\<lambda>e k'. e = None \<and> served (row_tenancy row) k') k"
proof -
  have te: "te_crud te = DbCRUD h False" using assms(1) by (simp add: over_db_def)
  have load: "wpc (LoadTenancy te i) (\<lambda>(t, e) k'. e = None \<and> served (row_tenancy row) k') k'"
    if "store k' = store k" for k'
  proof -
    have "dbs k' = dbs k" "db_for False k' = db_for False k"
      using that by (auto simp: store_def db_for_def split: option.splits)
    moreover from this have "available h te (row_tenancy row) (core k')"
      using assms(3) available_cong [of "core k'" k] by simp
    moreover have "ti_db (row_item row) = row_tenancy row" by (simp add: row_item_def)
    ultimately show ?thesis
      using assms(4) unfolding LoadTenancy_def te
      by (intro wpc FindTenancy_finds [of _ _ _ row rows n] LoadTenancyFromData_serves [OF assms(1)])
         (auto simp: served_def TenancyByPath_def Tenancy_get_def)
  qed
  show ?thesis
    unfolding Notification_Handle_def
    by (intro wpc wpc_keeps [OF store_Unload] wpc_mono [OF load])
       (use assms(2) in \<open>auto simp: served_def TenancyByPath_def Tenancy_get_def\<close>)
qed

section \<open>Properties\<close>

text \<open>
  C13: a tenancy that the manager finds by a path has that path and is the one loaded under its
  identifier; once a notification of its deletion is handled, no path leads to it any more. This holds after any
  sequence of notifications and operations of the controller, whatever the databases answer.
\<close>

theorem tenancy_routing:
  assumes "over_db h te" "tenancy_joins h" "tm_reachable te s"
  shows "(TenancyByPath p s = Inr t \<longrightarrow> tb_path t = p \<and> Tenancy_get (tb_id t) s = Inr t)
   \<and> (run_state (Notification_Handle te i OpDelete) s = (e, s') \<longrightarrow> TenancyByPath p s' = Inr t \<longrightarrow> tb_id t \<noteq> i)"
proof (intro conjI impI)
  have ok: "maps_ok s" by (rule tm_reachable_ok [OF assms(3,1,2)])
  show "tb_path t = p" "Tenancy_get (tb_id t) s = Inr t" if "TenancyByPath p s = Inr t"
    using ok that by (auto simp: maps_ok_def TenancyByPath_def Tenancy_get_def split: option.splits)
  show "tb_id t \<noteq> i" if run: "run_state (Notification_Handle te i OpDelete) s = (e, s')"
    and found: "TenancyByPath p s' = Inr t"
  proof -
    have "joins_by_id h" using assms(2) by (simp add: tenancy_joins_def)
    from wpcE [OF Notification_Handle_ok [OF assms(1) this ok] run]
    have "maps_ok s'" "unloaded i s'" by (simp_all add: unloaded_def)
    with found show ?thesis
      by (auto simp: maps_ok_def unloaded_def TenancyByPath_def split: option.splits)
  qed
qed

text \<open>A database with one tenancy, whose join gives the tenancies themselves.\<close>

definition tenancy_db_demo :: dbhandlers where
  "tenancy_db_demo = table_db\<lparr>h_Join := (\<lambda>d q f D.
     let rows = D d tenancies_table;
         rows = (case map_get (nil_map (Fields f)) ''tenancies.id'' of
             Some (VStr i) \<Rightarrow> filter (\<lambda>row. row_str row ''id'' = i) rows | _ \<Rightarrow> rows)
     in (if distinct (map (\<lambda>row. row_str row ''id'') rows) then rows else [], 0, None))\<rparr>"

lemma tenancy_db_demo_joins: "tenancy_joins tenancy_db_demo"
  by (simp add: tenancy_joins_def joins_by_id_def tenancy_db_demo_def Let_def AddField_def nil_map_def NewFilter_def
      list_all_iff)

definition demo_tenancy :: tenancy_db where
  "demo_tenancy = \<lparr>obj_id = ''t'', created_at = 0, updated_at = 0, tdb_ACTIVE = True,
     tdb_data = \<lparr>td_DESCRIPTION = [], td_PATH = ''a'', td_ROLE = ''r'', td_CUSTOMER_ID = ''c'', td_POOL_ID = ''p'', td_DBNAME = ''d''\<rparr>\<rparr>"

definition demo_binding :: binding where
  "demo_binding = \<lparr>obj_id = ''b'', created_at = 0, updated_at = 0, bd_ROLE = TENANCY_DATABASE_ROLE,
     bd_data = (row_service_data [])\<lparr>sd_ACTIVE := True, sd_TYPE_NAME := TypeDatabase\<rparr>,
     bd_PoolId = ''p'', bd_PoolName = ''p1'', bd_ServiceId = ''s'', bd_ServiceName = ''db1''\<rparr>"

definition demo_store :: pool_store where
  "demo_store = keep_pool (SetServices [demo_binding] (NewPool\<lparr>obj_id := ''p'', pl_NAME := ''p1'', pl_ACTIVE := True\<rparr>)) NewPoolStore"

definition demo_te :: "'z op_ctx_scheme tenancy_env" where
  "demo_te = \<lparr>te_crud = DbCRUD tenancy_db_demo False,
     te_customers = \<lparr>uc_crud = DbCRUD tenancy_db_demo False, uc_table = ''customers'', uc_oplog_table = ''op_log_customers'',
       uc_validators = None, uc_crypto = plain_crypto\<rparr>,
     te_pools = demo_store, te_DB_PREFIX = ''x'', te_crypto = plain_crypto, te_handlers = tenancy_db_demo,
     te_connect = (\<lambda>cfg D. (cfg_DB_NAME cfg, None)), te_CreateDatabase = (\<lambda>d n D. (None, D)),
     te_AutoMigrate = (\<lambda>d ms D. (None, D)), te_PartitionedMonthAutoMigrate = (\<lambda>d ms D. (None, D)),
     te_DbModels = [], te_PartitionedDbModels = []\<rparr>"

definition demo_tm_ctx :: tm_ctx where
  "demo_tm_ctx = op_ctx.extend (demo_ctx\<lparr>dbs := (\<lambda>d tbl.
       if d = ''main'' \<and> tbl = tenancies_table then [tenancy_row demo_tenancy]
       else if d = ''main'' \<and> tbl = ''customers'' then [user_row (MakeUser\<lparr>obj_id := ''c'', u_LOGIN := ''joe''\<rparr>)]
       else if d = ''d'' \<and> tbl = metas_table then [meta_row demo_tenancy] else [])\<rparr>)
     (tm_ctx.fields [] [] [])"


lemma demo_te_over_db: "over_db tenancy_db_demo demo_te"
  by (simp add: over_db_def demo_te_def)

lemma demo_reachable:
  obtains t where "tm_reachable demo_te t" "t = snd (run_state (TenancyManager_Init demo_te None (\<lambda>ev. None) Logger_Init) demo_tm_ctx)"
proof -
  obtain r t where run: "run_state (TenancyManager_Init demo_te None (\<lambda>ev. None) Logger_Init) demo_tm_ctx = (r, t)"
    by fastforce
  have "tm_maps demo_tm_ctx = ([], [])" by (simp add: tm_maps_def demo_tm_ctx_def op_ctx.defs tm_ctx.defs)
  from tm_reachable.init [OF this run] show ?thesis by (rule that) (simp add: run)
qed

theorem tenancy_routing_witness:
  "case run_state (do { TenancyManager_Init demo_te None (\<lambda>ev. None) Logger_Init;
       Notification_Handle demo_te ''t'' OpDelete }) demo_tm_ctx of (e, s') \<Rightarrow>
     (\<forall>t. TenancyByPath ''a'' s' = Inr t \<longrightarrow> tb_id t \<noteq> ''t'')"
proof -
  obtain s where s: "tm_reachable demo_te s"
    and eq: "s = snd (run_state (TenancyManager_Init demo_te None (\<lambda>ev. None) Logger_Init) demo_tm_ctx)"
    by (rule demo_reachable)
  obtain e s' where run: "run_state (Notification_Handle demo_te ''t'' OpDelete) s = (e, s')" by fastforce
  have "\<forall>t. TenancyByPath ''a'' s' = Inr t \<longrightarrow> tb_id t \<noteq> ''t''"
    using tenancy_routing [OF demo_te_over_db tenancy_db_demo_joins s, of "''a''" _ "''t''" e s'] run by blast
  then show ?thesis using run by (simp add: eq case_prod_unfold)
qed

text \<open>
  C14: when a notification reports a change of a tenancy that exists, and its customer, its pool and its
  database are available, the tenancy is served under its path and its identifier afterwards, with the data from the database.
\<close>

theorem tenancy_served:
  assumes "over_db h te" "op \<noteq> OpDelete" "available h te (row_tenancy row) s"
    and "h_Join h (db_for False s) ''ListTenancies'' ((AddField ''tenancies.id'' (VStr i) NewFilter)\<lparr>Limit := 1\<rparr>) (dbs s)
      = (row # rows, n, None)"
    and "run_state (Notification_Handle te i op) s = (e, s')"
  shows "e = None \<and> (\<exists>t. tb_db t = row_tenancy row \<and> TenancyByPath (row_str row ''path'') s' = Inr t
     \<and> Tenancy_get (row_str row ''id'') s' = Inr t)"
proof -
  have "e = None \<and> served (row_tenancy row) s'"
    using wpcE [OF Notification_serves [OF assms(1-4)] assms(5)]
    by (simp add: served_def TenancyByPath_def Tenancy_get_def)
  moreover have "td_PATH (tdb_data (row_tenancy row)) = row_str row ''path''" "obj_id (row_tenancy row) = row_str row ''id''"
    by (simp_all add: row_tenancy_def)
  ultimately show ?thesis by (auto simp: served_def)
qed

lemma demo_available: "available tenancy_db_demo demo_te (row_tenancy (tenancy_row demo_tenancy)) demo_tm_ctx"
proof -
  have rt: "row_tenancy (tenancy_row demo_tenancy) = demo_tenancy"
    by (simp add: row_tenancy_def tenancy_row_def demo_tenancy_def row_str_def row_time_def row_bool_def)
  show ?thesis
    unfolding rt available_def
    by (simp add: demo_te_def demo_store_def demo_tm_ctx_def demo_tenancy_def demo_binding_def tenancy_db_demo_def table_db_def
      store_Pool_def keep_pool_def SetServices_def Pool_Service_def NewPool_def NewPoolStore_def ParseDbService_def
      user_row_def MakeUser_def meta_row_def AddField_def nil_map_def NewFilter_def db_for_def demo_ctx_def
      op_ctx.defs tm_ctx.defs map_set_def map_get_def row_matches_def)
qed

theorem tenancy_served_witness:
  "case run_state (Notification_Handle demo_te ''t'' OpSetPath) demo_tm_ctx of (e, s') \<Rightarrow>
     e = None \<and> (\<exists>t. tb_db t = row_tenancy (tenancy_row demo_tenancy) \<and> TenancyByPath ''a'' s' = Inr t)"
proof -
  obtain e s' where run: "run_state (Notification_Handle demo_te ''t'' OpSetPath) demo_tm_ctx = (e, s')" by fastforce
  have op: "OpSetPath \<noteq> OpDelete" by (simp add: OpSetPath_def OpDelete_def)
  have join: "h_Join tenancy_db_demo (db_for False demo_tm_ctx) ''ListTenancies''
      ((AddField ''tenancies.id'' (VStr ''t'') NewFilter)\<lparr>Limit := 1\<rparr>) (dbs demo_tm_ctx) = ([tenancy_row demo_tenancy], 0, None)"
    by (simp add: tenancy_db_demo_def demo_tm_ctx_def demo_tenancy_def tenancy_row_def row_str_def AddField_def nil_map_def
        NewFilter_def db_for_def demo_ctx_def op_ctx.defs tm_ctx.defs Let_def)
  have "row_str (tenancy_row demo_tenancy) ''path'' = ''a''"
    by (simp add: row_str_def tenancy_row_def demo_tenancy_def)
  with tenancy_served [OF demo_te_over_db op demo_available join run] run show ?thesis by auto
qed

end
