(* ===== verification/Signature.thy ===== *)
theory Signature
  imports Calendar Auth_Methods Pool_Bindings
begin

text \<open>
  Signatures of messages: signing and verifying with RSA (\<^verbatim>\<open>src/pkg/crypt_utils/rsa_signer.go\<close>,
  \<^verbatim>\<open>rsa_verifier.go\<close>, \<^verbatim>\<open>signature.go\<close>) and the manager that verifies the signature of a request and keeps
  it (\<^verbatim>\<open>src/pkg/signature/signature_manager.go\<close>). The formats of keys and the RSA operations of the Go
  library are the record \<open>rsa_lib\<close>.
\<close>

section \<open>Signing and verifying\<close>

datatype parsed_key = RsaKey string | OtherKey

record rsa_lib =
  pem_Decode :: "string \<Rightarrow> (string \<times> string) option"
  ParsePKIXPublicKey :: "string \<Rightarrow> goerror + parsed_key"
  ParsePKCS1PrivateKey :: "string \<Rightarrow> goerror + parsed_key"
  ParsePKCS8PrivateKey :: "string \<Rightarrow> goerror + parsed_key"
  DecryptPEMBlock :: "string \<Rightarrow> string \<Rightarrow> goerror + string"
  VerifyPKCS1v15 :: "string \<Rightarrow> string \<Rightarrow> string \<Rightarrow> err"
  SignPKCS1v15 :: "string \<Rightarrow> string \<Rightarrow> nat \<Rightarrow> goerror + string"

definition RSA_H256_SIGNATURE :: string where "RSA_H256_SIGNATURE = ''rsa_h256_signature''"

text \<open>Text that is not in PEM format makes the decoded block nil, and reading its type panics.\<close>

definition RsaSigner_LoadKey :: "rsa_lib \<Rightarrow> string \<Rightarrow> string \<Rightarrow> ('z sys_scheme, goerror + string) comp" where
  "RsaSigner_LoadKey lib data password = (case pem_Decode lib data of
     None \<Rightarrow> go_panic (Inl (NativeError []))
   | Some (ty, bytes) \<Rightarrow>
      (if ty \<noteq> ''RSA PRIVATE KEY'' then ret (Inl (NativeError ''RSA private key is of the wrong type''))
       else ret (case (if password \<noteq> [] then DecryptPEMBlock lib bytes password else Inr bytes) of
           Inl _ \<Rightarrow> Inl (NativeError ''unable to decrypt passphrase'')
         | Inr der \<Rightarrow>
             (case (case ParsePKCS1PrivateKey lib der of Inr k \<Rightarrow> Inr k | Inl _ \<Rightarrow> ParsePKCS8PrivateKey lib der) of
                Inr (RsaKey k) \<Rightarrow> Inr k
              | _ \<Rightarrow> Inl (NativeError ''unable to parse RSA private key'')))))"

definition RsaSigner_LoadKeyFromFile :: "rsa_lib \<Rightarrow> (string \<Rightarrow> goerror + string) \<Rightarrow> string \<Rightarrow> string
    \<Rightarrow> ('z sys_scheme, goerror + string) comp" where
  "RsaSigner_LoadKeyFromFile lib ReadFile filePath password = (case ReadFile filePath of
     Inl _ \<Rightarrow> ret (Inl (NativeError ''no RSA private key found''))
   | Inr data \<Rightarrow> RsaSigner_LoadKey lib data password)"

definition RsaSigner_Sign :: "rsa_lib \<Rightarrow> crypto \<Rightarrow> string \<Rightarrow> string \<Rightarrow> string list
    \<Rightarrow> ('z sys_scheme, goerror + string) comp" where
  "RsaSigner_Sign lib cr key data extraData = do {
     let hashed = H256 cr data extraData;
     r \<leftarrow> draw;
     ret (SignPKCS1v15 lib key hashed r) }"

definition RsaVerifier_LoadKey :: "rsa_lib \<Rightarrow> string \<Rightarrow> goerror + string" where
  "RsaVerifier_LoadKey lib data = (case pem_Decode lib data of
     None \<Rightarrow> Inl (NativeError ''RSA public key not in pem format'')
   | Some (ty, bytes) \<Rightarrow>
      (if ty \<noteq> ''RSA PUBLIC KEY'' \<and> ty \<noteq> ''PUBLIC KEY'' then Inl (NativeError ''RSA public key is of the wrong type'')
       else case ParsePKIXPublicKey lib bytes of
           Inl e \<Rightarrow> Inl (NativeError (''unable to parse RSA public key: '' @ error_text e))
         | Inr (RsaKey k) \<Rightarrow> Inr k
         | Inr OtherKey \<Rightarrow> Inl (NativeError ''unable to parse RSA public key'')))"

definition RsaVerifier_LoadKeyFromFile :: "rsa_lib \<Rightarrow> (string \<Rightarrow> goerror + string) \<Rightarrow> string \<Rightarrow> goerror + string" where
  "RsaVerifier_LoadKeyFromFile lib ReadFile filePath = (case ReadFile filePath of
     Inl _ \<Rightarrow> Inl (NativeError ''no RSA public key found'')
   | Inr data \<Rightarrow> RsaVerifier_LoadKey lib data)"

definition RsaVerifier_Verify :: "rsa_lib \<Rightarrow> crypto \<Rightarrow> string \<Rightarrow> string \<Rightarrow> string \<Rightarrow> string list \<Rightarrow> err" where
  "RsaVerifier_Verify lib cr key data signature extraData =
     (let hashed = H256 cr data extraData in VerifyPKCS1v15 lib key hashed signature)"

text \<open>\<^verbatim>\<open>Sign\<close> takes extra data but does not hand it on.\<close>

definition Sign :: "rsa_lib \<Rightarrow> crypto \<Rightarrow> string \<Rightarrow> string \<Rightarrow> string list \<Rightarrow> ('z sys_scheme, string \<times> err) comp" where
  "Sign lib cr key data extraData = do {
     r \<leftarrow> RsaSigner_Sign lib cr key data [];
     ret (case r of Inl e \<Rightarrow> ([], Some e) | Inr signature \<Rightarrow> (Base64Encode signature, None)) }"

definition VerifySignature :: "rsa_lib \<Rightarrow> crypto \<Rightarrow> string \<Rightarrow> string \<Rightarrow> string \<Rightarrow> string list \<Rightarrow> err" where
  "VerifySignature lib cr key data signature extraData = (case Base64Decode signature of
     Inl e \<Rightarrow> Some e
   | Inr sig \<Rightarrow> RsaVerifier_Verify lib cr key data sig extraData)"

section \<open>The manager\<close>

text \<open>
  \<open>sg_pubkey\<close> is what the type assertion of a user to \<^verbatim>\<open>UserWithPubkey\<close> gives: the public key and its hash;
  \<open>None\<close> when the user's type does not implement it.
\<close>

record sig_manager =
  sg_ALGORITHM :: string
  sg_ENCRYPT_MESSAGE_STORE :: bool
  sg_SECRET :: string
  sg_SALT :: string
  sg_cipher :: string
  sg_pubkey :: "auth_user \<Rightarrow> (string \<times> string) option"
  sg_rsa :: rsa_lib
  sg_crypto :: crypto
  sg_handlers :: dbhandlers
  sg_zone :: "int \<Rightarrow> int"

text \<open>The end of \<^verbatim>\<open>Init\<close>, after the configuration has been loaded.\<close>

definition SignatureManager_Init :: "sig_manager \<Rightarrow> string + sig_manager" where
  "SignatureManager_Init sm =
     (if sg_ENCRYPT_MESSAGE_STORE sm then
        if sg_SECRET sm = [] then Inl ''encryption secret must not be empty''
        else if sg_SALT sm = [] then Inl ''encryption salt must not be empty''
        else case NewAEAD (sg_crypto sm) (sg_SECRET sm) (sg_SALT sm) [] of
               Inl _ \<Rightarrow> Inl ''failed to init cipher for signature manager''
             | Inr key \<Rightarrow> Inr (sm\<lparr>sg_cipher := key\<rparr>)
      else Inr sm)"

definition MakeVerifier :: "sig_manager \<Rightarrow> string \<Rightarrow> ('z op_ctx_scheme, goerror + string) comp" where
  "MakeVerifier sm key = traced_err ''SignatureManagerBase.MakeVerfier'' [] (\<lambda>c.
     if sg_ALGORITHM sm \<noteq> RSA_H256_SIGNATURE
     then ret (Inl (NativeError ''unsupported algorithm''), errors_New ''unsupported algorithm'')
     else case RsaVerifier_LoadKey (sg_rsa sm) key of
            Inl e \<Rightarrow> do {
              SetGenericErrorCode ErrorCodeInvalidKey [];
              SetMessage c ''failed to load public key'';
              ret (Inl e, Some e) }
          | Inr verifier \<Rightarrow> ret (Inr verifier, None))"

definition CheckPubKey :: "sig_manager \<Rightarrow> string \<Rightarrow> ('z op_ctx_scheme, err) comp" where
  "CheckPubKey sm key = traced_err ''SignatureManagerBase.CheckPubKey'' [] (\<lambda>c. do {
     r \<leftarrow> MakeVerifier sm key;
     ret (case r of Inl e \<Rightarrow> (Some e, Some e) | Inr _ \<Rightarrow> (None, None)) })"

record message_signature = object_base +
  ms_month :: int
  ms_UserId :: string
  ms_UserLogin :: string
  ms_UserDisplay :: string
  ms_Context :: string
  ms_Operation :: string
  ms_Algorithm :: string
  ms_Message :: string
  ms_Signature :: string
  ms_ExtraData :: string
  ms_PubKeyHash :: string

definition signatures_table :: string where "signatures_table = ''message_signatures''"

definition signature_row :: "message_signature \<Rightarrow> fields" where
  "signature_row x =
     [(''id'', VStr (obj_id x)), (''created_at'', VTime (created_at x)), (''updated_at'', VTime (updated_at x)),
      (''month'', VInt (ms_month x)), (''user_id'', VStr (ms_UserId x)), (''user_login'', VStr (ms_UserLogin x)),
      (''user_display'', VStr (ms_UserDisplay x)), (''context'', VStr (ms_Context x)),
      (''operation'', VStr (ms_Operation x)), (''algorithm'', VStr (ms_Algorithm x)),
      (''message'', VStr (ms_Message x)), (''signature'', VStr (ms_Signature x)),
      (''extra_data'', VStr (ms_ExtraData x)), (''pub_key_hash'', VStr (ms_PubKeyHash x))]"

fun join_with :: "string \<Rightarrow> string list \<Rightarrow> string" where
  "join_with sep [] = []"
| "join_with sep [x] = x"
| "join_with sep (x # y # ys) = x @ sep @ join_with sep (y # ys)"

text \<open>
  The object with its month: its own \<^verbatim>\<open>InitObject\<close> takes the month from its identifier, and \<^verbatim>\<open>Verify\<close>
  then sets that of the context. An invalid identifier gives the month 0, its error is ignored.
\<close>

definition new_signature :: "sig_manager \<Rightarrow> auth_user \<Rightarrow> string \<Rightarrow> string \<Rightarrow> string \<Rightarrow> string list \<Rightarrow> string
    \<Rightarrow> ('z sys_scheme, message_signature) comp" where
  "new_signature sm u ctxId opName signature extraData keyHash = do {
     ob \<leftarrow> InitObject \<lparr>obj_id = [], created_at = 0, updated_at = 0, ms_month = 0, ms_UserId = [], ms_UserLogin = [],
       ms_UserDisplay = [], ms_Context = [], ms_Operation = [], ms_Algorithm = [], ms_Message = [],
       ms_Signature = [], ms_ExtraData = [], ms_PubKeyHash = []\<rparr>;
     let ob = ob\<lparr>ms_month := fst (MonthFromId (sg_zone sm) (obj_id ob))\<rparr>;
     ret (ob\<lparr>ms_month := fst (MonthFromId (sg_zone sm) ctxId), ms_Context := ctxId, ms_UserId := au_id u,
       ms_UserLogin := au_login u, ms_UserDisplay := au_display u, ms_Operation := opName,
       ms_Algorithm := sg_ALGORITHM sm, ms_Signature := signature, ms_ExtraData := join_with ''+'' extraData,
       ms_PubKeyHash := keyHash\<rparr>) }"

definition store_message :: "sig_manager \<Rightarrow> string \<Rightarrow> ('z sys_scheme, goerror + string) comp" where
  "store_message sm message =
     (if sg_ENCRYPT_MESSAGE_STORE sm then do {
        r \<leftarrow> Encrypt (sg_crypto sm) (sg_cipher sm) message [];
        ret (case r of Inl e \<Rightarrow> Inl e | Inr ciphertext \<Rightarrow> Inr (Base64Encode ciphertext)) }
      else ret (Inr message))"

text \<open>
  A user without a public key ends the method with a nil error. The error of the encryption is
  declared in an inner block, so the deferred function does not record it.
\<close>

definition Signature_Verify :: "sig_manager \<Rightarrow> string \<Rightarrow> string \<Rightarrow> string list \<Rightarrow> ('z request_scheme, err) comp" where
  "Signature_Verify sm signature message extraData = do {
     u \<leftarrow> AuthUser_or_panic;
     traced_err ''SignatureManagerBase.Verify'' [[(''user'', VStr (au_display u)), (''extra_data'', VStrs extraData)]] (\<lambda>c.
       case sg_pubkey sm u of
         None \<Rightarrow> do {
           SetMessage c ''user must be of UserWithPubkey interface'';
           SetGenericErrorCode ErrorCodeInternalServerError [];
           ret (None, None) }
       | Some (key, keyHash) \<Rightarrow> do {
           v \<leftarrow> MakeVerifier sm key;
           (case v of
              Inl e \<Rightarrow> ret (Some e, Some e)
            | Inr verifier \<Rightarrow>
                (case VerifySignature (sg_rsa sm) (sg_crypto sm) verifier message signature [] of
                   Some e \<Rightarrow> do {
                     SetMessage c ''invalid signature'';
                     SetGenericErrorCode ErrorCodeInvalidSignature [];
                     ret (Some e, Some e) }
                 | None \<Rightarrow> do {
                     ctxId \<leftarrow> gets ctx_id;
                     opName \<leftarrow> gets ctx_name;
                     ob \<leftarrow> new_signature sm u ctxId opName signature extraData keyHash;
                     m \<leftarrow> store_message sm message;
                     (case m of
                        Inl e \<Rightarrow> do {
                          SetMessage c ''failed to encrypt message'';
                          SetGenericErrorCode ErrorCodeInternalServerError [];
                          ret (Some e, None) }
                      | Inr text \<Rightarrow> do {
                          d \<leftarrow> ctx_DB [];
                          e \<leftarrow> db_write (h_Create (sg_handlers sm) d signatures_table
                                (signature_row (ob\<lparr>ms_Message := text\<rparr>)));
                          (if e \<noteq> None then do {
                             SetMessage c ''failed to save message signature in database'';
                             SetGenericErrorCode ErrorCodeInternalServerError [];
                             ret (e, e) }
                           else ret (None, None)) }) })) }) }"

definition Signature_Find :: "sig_manager \<Rightarrow> string \<Rightarrow> ('z op_ctx_scheme, fields option \<times> err) comp" where
  "Signature_Find sm contextId = traced_err ''SmsManagerBase.FindSms'' [[(''signature_context_id'', VStr contextId)]] (\<lambda>c.
     let (m, e) = MonthFromId (sg_zone sm) contextId in
     if e \<noteq> None then do { SetMessage c ''invalid context ID''; ret ((None, e), e) }
     else do {
       d \<leftarrow> ctx_DB [];
       (found, e) \<leftarrow> db_read (h_FindByFields (sg_handlers sm) d signatures_table
           [(''month'', VInt m), (''context'', VStr contextId)]);
       (if e \<noteq> None then do { SetMessage c ''failed to find signature in database''; ret ((None, e), e) }
        else case found of
          None \<Rightarrow> ret ((None, errors_New ''signature not found''), errors_New ''signature not found'')
        | Some row \<Rightarrow> ret ((Some row, None), None)) })"

section \<open>What verification shows\<close>

text \<open>The signature of a message under the public key of a user; no other data is covered by it.\<close>

definition sig_accepts :: "sig_manager \<Rightarrow> auth_user \<Rightarrow> string \<Rightarrow> string \<Rightarrow> bool" where
  "sig_accepts sm u message signature = (case sg_pubkey sm u of
     None \<Rightarrow> False
   | Some (key, keyHash) \<Rightarrow> sg_ALGORITHM sm = RSA_H256_SIGNATURE \<and>
       (case RsaVerifier_LoadKey (sg_rsa sm) key of
          Inl _ \<Rightarrow> False
        | Inr verifier \<Rightarrow>
            (case Base64Decode signature of
               Inl _ \<Rightarrow> False
             | Inr b \<Rightarrow> VerifyPKCS1v15 (sg_rsa sm) verifier (H256 (sg_crypto sm) message []) b = None)))"

lemma VerifySignature_accepts:
  "VerifySignature lib cr key data signature extraData = None \<longleftrightarrow>
   (case Base64Decode signature of Inl _ \<Rightarrow> False | Inr b \<Rightarrow> VerifyPKCS1v15 lib key (H256 cr data extraData) b = None)"
  by (simp add: VerifySignature_def RsaVerifier_Verify_def split: sum.split)

definition kept_message :: "sig_manager \<Rightarrow> fields \<Rightarrow> goerror + string" where
  "kept_message sm row =
     (if sg_ENCRYPT_MESSAGE_STORE sm then
        (case Base64Decode (row_str row ''message'') of
           Inl e \<Rightarrow> Inl e
         | Inr c \<Rightarrow> Decrypt (sg_crypto sm) (sg_cipher sm) c [])
      else Inr (row_str row ''message''))"

definition kept_signature :: "sig_manager \<Rightarrow> auth_user \<Rightarrow> string \<Rightarrow> string \<Rightarrow> string \<Rightarrow> string list \<Rightarrow> fields \<Rightarrow> bool" where
  "kept_signature sm u ctxId message signature extraData row \<longleftrightarrow>
     kept_message sm row = Inr message \<and> map_get row ''signature'' = Some (VStr signature)
     \<and> map_get row ''user_id'' = Some (VStr (au_id u)) \<and> map_get row ''context'' = Some (VStr ctxId)
     \<and> map_get row ''month'' = Some (VInt (fst (MonthFromId (sg_zone sm) ctxId)))
     \<and> map_get row ''extra_data'' = Some (VStr (join_with ''+'' extraData))"

definition kept_rows :: "'z op_ctx_scheme \<Rightarrow> fields list" where
  "kept_rows s = dbs s (db_for False s) signatures_table"

lemma wpc_ctx_DB_default [wpc]: "Q (db_for False k) (core k) \<Longrightarrow> wpc (ctx_DB []) Q k"
  unfolding ctx_DB_def by (rule wpc_gets) (auto simp: db_for_def split: option.splits)

lemma wpc_AuthUser [wpc]:
  assumes "authUser k = Some u" "Q u (core k)"
  shows "wpc AuthUser_or_panic Q k"
  unfolding AuthUser_or_panic_def by (intro wpc) (use assms in simp_all)

lemma wpc_MakeVerifier [wpc]:
  assumes "\<And>e k'. sg_ALGORITHM sm \<noteq> RSA_H256_SIGNATURE \<or> RsaVerifier_LoadKey (sg_rsa sm) key = Inl e \<Longrightarrow>
      core k' = k' \<Longrightarrow> dbs k' = dbs k \<Longrightarrow> db_for False k' = db_for False k \<Longrightarrow> Q (Inl e) k'"
    and "\<And>v. sg_ALGORITHM sm = RSA_H256_SIGNATURE \<Longrightarrow> RsaVerifier_LoadKey (sg_rsa sm) key = Inr v \<Longrightarrow> Q (Inr v) (core k)"
  shows "wpc (MakeVerifier sm key) Q k"
  unfolding MakeVerifier_def by (intro wpc) (use assms in auto)

lemma store_message_kept:
  assumes "aead_laws (sg_crypto sm)"
  shows "wp (store_message sm message) (\<lambda>r _. \<forall>text row. r = Inr text \<longrightarrow> row_str row ''message'' = text \<longrightarrow>
    kept_message sm row = Inr message) s"
  unfolding store_message_def kept_message_def
  by (auto simp: wp b64.decode_encode intro!: wp_mono [OF Encrypt_result [OF assms]] split: sum.splits)

lemma wpc_store_message [wpc]:
  assumes "aead_laws (sg_crypto sm)"
    and "\<And>r rd. (\<And>text row. r = Inr text \<Longrightarrow> row_str row ''message'' = text \<Longrightarrow> kept_message sm row = Inr message) \<Longrightarrow>
      Q r (core (k\<lparr>rands := rd\<rparr>))"
  shows "wpc (store_message sm message) Q k"
proof -
  have keep: "state_io_rel (keeps (\<lambda>s. (core s)\<lparr>rands := undefined\<rparr>)) (store_message sm message)"
    unfolding store_message_def by (intro io_rel) simp_all
  have "wpc (store_message sm message) (\<lambda>r k'. (\<exists>rd. k' = core (k\<lparr>rands := rd\<rparr>)) \<and>
      (\<forall>text row. r = Inr text \<longrightarrow> row_str row ''message'' = text \<longrightarrow> kept_message sm row = Inr message)) k"
  proof (rule wpc_conj)
    show "wpc (store_message sm message) (\<lambda>r k'. \<exists>rd. k' = core (k\<lparr>rands := rd\<rparr>)) k"
    proof (rule wpc_keeps [OF keep])
      fix k' :: "'a op_ctx_scheme"
      assume "core k' = k'" "(core k')\<lparr>rands := undefined\<rparr> = (core k)\<lparr>rands := undefined\<rparr>"
      then have "k' = (core k)\<lparr>rands := rands k'\<rparr>" by (metis sys.surjective sys.update_convs(2))
      then show "\<exists>rd. k' = core (k\<lparr>rands := rd\<rparr>)" by auto
    qed simp
    show "wpc (store_message sm message) (\<lambda>r k'.
      \<forall>text row. r = Inr text \<longrightarrow> row_str row ''message'' = text \<longrightarrow> kept_message sm row = Inr message) k"
      by (rule wpc_result [OF store_message_kept [OF assms(1)]]) auto
  qed
  then show ?thesis by (rule wpc_mono) (use assms(2) in blast)
qed

lemma signature_row_message [simp]: "row_str (signature_row x) ''message'' = ms_Message x"
  by (simp add: signature_row_def row_str_def)

lemma kept_signatureI:
  assumes "kept_message sm (signature_row x) = Inr message" "ms_Signature x = signature" "ms_UserId x = au_id u"
    "ms_Context x = ctxId" "ms_month x = fst (MonthFromId (sg_zone sm) ctxId)"
    "ms_ExtraData x = join_with ''+'' extraData"
  shows "kept_signature sm u ctxId message signature extraData (signature_row x)"
  using assms by (simp add: kept_signature_def signature_row_def)

text \<open>The laws of the database that the manager relies on.\<close>

definition sig_laws :: "sig_manager \<Rightarrow> bool" where
  "sig_laws sm \<longleftrightarrow> aead_laws (sg_crypto sm) \<and> create_appends (sg_handlers sm) \<and> failed_writes_keep (sg_handlers sm)"

lemma sig_create:
  assumes "sig_laws sm"
  shows "snd (h_Create (sg_handlers sm) d tbl row D) =
    (if fst (h_Create (sg_handlers sm) d tbl row D) = None then set_table d tbl (D d tbl @ [row]) D else D)"
proof (cases "h_Create (sg_handlers sm) d tbl row D")
  case (Pair e D')
  with assms show ?thesis by (cases e) (auto simp: sig_laws_def create_appends_def failed_writes_keep_def)
qed

text \<open>What is in the way of a signature, and what is left of it once it was created.\<close>

definition verified :: "sig_manager \<Rightarrow> auth_user \<Rightarrow> string \<Rightarrow> string \<Rightarrow> string list \<Rightarrow> 'z op_ctx_scheme \<Rightarrow> err
    \<Rightarrow> 'z op_ctx_scheme \<Rightarrow> bool" where
  "verified sm u message signature extraData k e k' \<longleftrightarrow> db_for False k' = db_for False k \<and>
     (if e = None \<and> sg_pubkey sm u \<noteq> None
      then sig_accepts sm u message signature \<and> genericError k' = genericError k
        \<and> (\<exists>row. dbs k' = set_table (db_for False k) signatures_table (kept_rows k @ [row]) (dbs k)
             \<and> kept_signature sm u (ctx_id k) message signature extraData row)
      else dbs k' = dbs k \<and> (e = None \<longrightarrow> genericError k' \<noteq> None))"

lemma verified_error:
  "db_for False k' = db_for False k \<Longrightarrow> dbs k' = dbs k \<Longrightarrow> verified sm u message signature extraData k (Some e) k'"
  by (auto simp: verified_def)

lemma verified_nokey:
  "db_for False k' = db_for False k \<Longrightarrow> dbs k' = dbs k \<Longrightarrow> sg_pubkey sm u = None \<Longrightarrow> genericError k' \<noteq> None \<Longrightarrow>
   verified sm u message signature extraData k None k'"
  by (auto simp: verified_def)

lemma verified_created:
  assumes "sig_accepts sm u message signature" "sig_laws sm" "kept_signature sm u (ctx_id k) message signature extraData row"
    "db_for False k' = db_for False k" "genericError k' = genericError k"
    "fst (h_Create (sg_handlers sm) (db_for False k) signatures_table row (dbs k)) = None"
    "dbs k' = snd (h_Create (sg_handlers sm) (db_for False k) signatures_table row (dbs k))"
  shows "verified sm u message signature extraData k None k'"
proof -
  have "sg_pubkey sm u \<noteq> None" using assms(1) by (auto simp: sig_accepts_def split: option.splits)
  moreover have "dbs k' = set_table (db_for False k) signatures_table (kept_rows k @ [row]) (dbs k)"
    using assms(6,7) sig_create [OF assms(2)] by (simp add: kept_rows_def)
  ultimately show ?thesis using assms(1,3-5) by (auto simp: verified_def)
qed

lemma Verify_wpc:
  assumes "sig_laws sm" "authUser k = Some u"
  shows "wpc (Signature_Verify sm signature message extraData) (verified sm u message signature extraData k) k"
proof -
  have cr: "aead_laws (sg_crypto sm)" using assms(1) by (simp add: sig_laws_def)
  show ?thesis
    unfolding Signature_Verify_def new_signature_def Let_def
    by (intro wpc wpc_AuthUser [OF assms(2)] wpc_store_message [OF cr]; simp;
        (rule verified_nokey; simp; fail)?)
      (auto intro!: verified_error verified_created [OF _ assms(1)] kept_signatureI
        simp: sig_accepts_def VerifySignature_accepts sig_create [OF assms(1)])
qed

section \<open>Signed requests\<close>

abbreviation signed_request :: "sig_manager \<Rightarrow> ('z request_scheme, bool \<times> err) comp" where
  "signed_request sm \<equiv> Signature_Handle (\<lambda>signature content meth path. Signature_Verify sm signature content [meth, path])"

lemma signed_request_wpc:
  assumes "sig_laws sm" "authUser k = Some u" "header_of k SignatureProtocol SignatureParameter = signature" "signature \<noteq> []"
  shows "wpc (signed_request sm)
    (\<lambda>(found, e) k'. found \<and> verified sm u (req_content k) signature [req_method k, req_path k] k e k') k"
  unfolding Signature_Handle_def
  by (intro wpc wpc_mono [OF Verify_wpc [OF assms(1)]])
    (use assms in \<open>auto simp: header_of_def verified_def kept_rows_def\<close>)


text \<open>Reading does not fail.\<close>

definition reads_succeed :: "dbhandlers \<Rightarrow> bool" where
  "reads_succeed h \<longleftrightarrow> (\<forall>d tbl fs D. snd (h_FindByFields h d tbl fs D) = None)"

text \<open>
  C28: The signature of a request that passed is found by the identifier of its context, with the message
  that was signed; but only if the identifier has the twenty characters from which its month is read.
\<close>

theorem signature_found:
  assumes "sig_laws sm" "find_returns_match (sg_handlers sm)" "find_misses_nothing (sg_handlers sm)"
    and rd: "reads_succeed (sg_handlers sm)"
    and "authUser s = Some u" "sg_pubkey sm u \<noteq> None"
    and new: "\<forall>row \<in> set (kept_rows s). map_get row ''context'' \<noteq> Some (VStr (ctx_id s))"
    and run: "run_state (Signature_Verify sm signature message extraData) s = (None, s')"
  shows "case MonthFromId (sg_zone sm) (ctx_id s) of
      (_, Some e) \<Rightarrow> fst (run_state (Signature_Find sm (ctx_id s)) s') = (None, Some e)
    | (_, None) \<Rightarrow> \<exists>row. fst (run_state (Signature_Find sm (ctx_id s)) s') = (Some row, None)
        \<and> kept_signature sm u (ctx_id s) message signature extraData row"
proof -
  let ?c = "ctx_id s"
  have v: "verified sm u message signature extraData s None (core s')"
    by (rule wpcE [OF Verify_wpc [OF assms(1,5)] run])
  with assms(6) obtain row where row: "dbs s' = set_table (db_for False s) signatures_table (kept_rows s @ [row]) (dbs s)"
    "kept_signature sm u ?c message signature extraData row" "db_for False s' = db_for False s"
    by (auto simp: verified_def)
  have "wpc (Signature_Find sm ?c) (\<lambda>r _. case MonthFromId (sg_zone sm) ?c of
      (_, Some e) \<Rightarrow> r = (None, Some e) | (_, None) \<Rightarrow> r = (Some row, None)) s'"
  proof -
    define m where "m = fst (MonthFromId (sg_zone sm) ?c)"
    let ?fs = "[(''month'', VInt m), (''context'', VStr ?c)]"
    let ?f = "h_FindByFields (sg_handlers sm) (db_for False s') signatures_table ?fs (dbs s')"
    have rows: "dbs s' (db_for False s') signatures_table = kept_rows s @ [row]" using row by simp
    have "row_matches ?fs row" using row(2) by (simp add: kept_signature_def m_def)
    then have "\<exists>row \<in> set (dbs s' (db_for False s') signatures_table). row_matches ?fs row"
      using rows by auto
    with assms(3) have "?f \<noteq> (None, None)" unfolding find_misses_nothing_def by blast
    moreover have "snd ?f = None" using rd by (simp add: reads_succeed_def)
    ultimately obtain r where r: "?f = (Some r, None)" by (cases ?f) auto
    from assms(2) [unfolded find_returns_match_def, THEN conjunct1, rule_format, OF r]
    have "r \<in> set (kept_rows s @ [row])" "map_get r ''context'' = Some (VStr ?c)" using rows by simp_all
    with new have "r = row" by auto
    with r show ?thesis
      unfolding Signature_Find_def Let_def
      by (intro wpc) (auto simp: m_def split: prod.splits option.splits)
  qed
  from wpcD [OF this] row(2) show ?thesis by (auto split: prod.splits option.splits)
qed

section \<open>An instance\<close>

text \<open>A signature that is the key with the hash of the message, checked by comparing.\<close>

definition demo_rsa :: rsa_lib where
  "demo_rsa = \<lparr>pem_Decode = (\<lambda>data. Some (''PUBLIC KEY'', data)), ParsePKIXPublicKey = (\<lambda>b. Inr (RsaKey b)),
     ParsePKCS1PrivateKey = (\<lambda>b. Inr (RsaKey b)), ParsePKCS8PrivateKey = (\<lambda>b. Inr (RsaKey b)),
     DecryptPEMBlock = (\<lambda>b p. Inr b), VerifyPKCS1v15 = (\<lambda>k h sig. if sig = k @ h then None else errors_New ''invalid''),
     SignPKCS1v15 = (\<lambda>k h r. Inr (k @ h))\<rparr>"

definition demo_sig_manager :: sig_manager where
  "demo_sig_manager = \<lparr>sg_ALGORITHM = RSA_H256_SIGNATURE, sg_ENCRYPT_MESSAGE_STORE = False, sg_SECRET = [], sg_SALT = [],
     sg_cipher = [], sg_pubkey = (\<lambda>u. Some (''key'', ''hash'')), sg_rsa = demo_rsa, sg_crypto = plain_crypto,
     sg_handlers = table_db, sg_zone = (\<lambda>t. 0)\<rparr>"

definition demo_signer :: auth_user where
  "demo_signer = \<lparr>au_id = ''1'', au_display = ''joe'', au_login = ''joe'', au_blocked = False, au_phone = None,
     au_phash = None, au_hmac_secret = None\<rparr>"

definition demo_signature :: string where
  "demo_signature = Base64Encode (''key'' @ H256 plain_crypto ''pay'' [])"

definition demo_ctx_id :: string where
  "demo_ctx_id = fmt_int 16 8 1700000000 @ ''0001fffffff0''"

definition demo_signed :: request where
  "demo_signed = demo_request\<lparr>authUser := Some demo_signer, ctx_id := demo_ctx_id, genericError := None,
     dbs := (\<lambda>d t. []), req_content := ''pay'',
     req_headers := [(''x-auth-signature'', demo_signature)]\<rparr>"

lemma table_db_failed: "failed_writes_keep table_db"
  by (simp add: failed_writes_keep_def table_db_def)

lemma demo_sig_handlers: "sg_handlers demo_sig_manager = table_db" "sg_crypto demo_sig_manager = plain_crypto"
  by (simp_all add: demo_sig_manager_def)

lemma demo_sig_laws: "sig_laws demo_sig_manager" "reads_succeed (sg_handlers demo_sig_manager)"
  by (simp_all add: sig_laws_def demo_sig_handlers plain_crypto_laws table_db_writes table_db_failed)
    (simp add: reads_succeed_def table_db_def)

lemma demo_signed_header:
  "header_of demo_signed SignatureProtocol SignatureParameter = demo_signature"
proof -
  have "auth_header SignatureProtocol SignatureParameter = ''x-auth-signature''" by code_simp
  then show ?thesis by (simp add: header_of_def getHttpHeader_def demo_signed_def)
qed

lemma demo_signed_state: "authUser demo_signed = Some demo_signer" "genericError demo_signed = None"
  "req_content demo_signed = ''pay''" "kept_rows demo_signed = []"
  by (simp_all add: demo_signed_def kept_rows_def)

lemma demo_signature_not_Nil: "demo_signature \<noteq> []"
  by (simp add: demo_signature_def)

lemma demo_decode: "Base64Decode demo_signature = Inr (''key'' @ H256 plain_crypto ''pay'' [])"
  unfolding demo_signature_def by (rule b64.decode_encode)

lemma demo_accepts: "RsaVerifier_LoadKey demo_rsa ''key'' = Inr ''key''"
  "VerifySignature demo_rsa plain_crypto ''key'' ''pay'' demo_signature [] = None"
  by (simp_all add: RsaVerifier_LoadKey_def demo_rsa_def VerifySignature_def RsaVerifier_Verify_def demo_decode)

lemma demo_verify_runs:
  "wpc (Signature_Verify demo_sig_manager demo_signature ''pay'' extraData) (\<lambda>e _. e = None) demo_signed"
  unfolding Signature_Verify_def new_signature_def Let_def store_message_def
  by (intro wpc wpc_AuthUser [OF demo_signed_state(1)])
    (auto simp: demo_sig_manager_def demo_accepts, simp add: table_db_def)

lemma demo_signed_runs:
  "wpc (signed_request demo_sig_manager) (\<lambda>(found, e) k'. e = None) demo_signed"
  unfolding Signature_Handle_def
  by (intro wpc, use demo_signed_header in \<open>simp_all add: header_of_def demo_signed_state demo_signature_not_Nil\<close>)
    (rule wpc_mono [OF iffD2 [OF wpc_core demo_verify_runs]], auto intro!: wpc)


lemma demo_month: "\<exists>m. MonthFromId (\<lambda>t. 0) demo_ctx_id = (m, None)"
  using id_time [of 1700000000] by (simp add: MonthFromId_def demo_ctx_id_def)

theorem signature_found_witness:
  "case run_state (Signature_Verify demo_sig_manager demo_signature ''pay'' []) demo_signed of (e, s') \<Rightarrow>
     \<exists>row. fst (run_state (Signature_Find demo_sig_manager demo_ctx_id) s') = (Some row, None)
       \<and> kept_message demo_sig_manager row = Inr ''pay''"
proof -
  obtain e s' where run: "run_state (Signature_Verify demo_sig_manager demo_signature ''pay'' []) demo_signed = (e, s')"
    by (metis prod.collapse)
  have e: "e = None" using wpcE [OF demo_verify_runs run] by simp
  have "ctx_id demo_signed = demo_ctx_id" "sg_zone demo_sig_manager = (\<lambda>t. 0)"
    "sg_pubkey demo_sig_manager demo_signer \<noteq> None" by (simp_all add: demo_signed_def demo_sig_manager_def)
  moreover obtain m where "MonthFromId (\<lambda>t. 0) demo_ctx_id = (m, None)" using demo_month by blast
  ultimately show ?thesis
    using signature_found [OF demo_sig_laws(1) _ _ demo_sig_laws(2) demo_signed_state(1), of demo_signature "''pay''" "[]" s']
    by (auto simp: run e demo_sig_handlers table_db_find demo_signed_state kept_signature_def)
qed

end
