(* ===== verification/Pubkey.thy ===== *)
theory Pubkey
  imports Signature
begin

text \<open>
  Public keys of users (\<^verbatim>\<open>src/pkg/signature/user_pubkey\<close>): a user may have had many keys, of which one is
  active at most. A key is added in a transaction of the database (\<^verbatim>\<open>src/pkg/db/db_gorm/gorm_db.go\<close>, \<^verbatim>\<open>Transaction\<close>),
  which deactivates the key before it.
\<close>

section \<open>Transactions\<close>

text \<open>
  What the database library may fail at; the handler runs on the database itself, and when it or the
  commit fails its tables are again as they were.
\<close>

record transactions =
  tx_Begin :: "string \<Rightarrow> databases \<Rightarrow> err"
  tx_Commit :: "string \<Rightarrow> databases \<Rightarrow> err"

definition rollback :: "string \<Rightarrow> databases \<Rightarrow> ('z sys_scheme, unit) comp" where
  "rollback d D = modifys (\<lambda>s. s\<lparr>dbs := (dbs s)(d := D d)\<rparr>)"

text \<open>The handler is a closure: it returns its error with the values of the captured variables, initially \<open>x\<close>.\<close>

definition Transaction :: "transactions \<Rightarrow> string \<Rightarrow> 'a \<Rightarrow> (string \<Rightarrow> ('z sys_scheme, 'a \<times> err) comp)
    \<Rightarrow> ('z sys_scheme, 'a \<times> err) comp" where
  "Transaction tx d x handler = do {
     D \<leftarrow> gets dbs;
     (case tx_Begin tx d D of
        Some e \<Rightarrow> ret (x, Some e)
      | None \<Rightarrow> do {
          (x, e) \<leftarrow> handler d;
          (if e \<noteq> None then do { rollback d D; ret (x, e) }
           else do {
             D' \<leftarrow> gets dbs;
             (case tx_Commit tx d D' of
                Some e \<Rightarrow> do { rollback d D; ret (x, Some e) }
              | None \<Rightarrow> ret (x, None)) }) }) }"

definition in_transaction :: "('z op_ctx_scheme, 'a) comp \<Rightarrow> string \<Rightarrow> ('z op_ctx_scheme, 'a) comp" where
  "in_transaction handler d = do {
     SetDbTransaction d;
     r \<leftarrow> handler;
     ClearDbTransaction;
     ret r }"

text \<open>\<^verbatim>\<open>ContextBase.ExecDbTransaction\<close> always takes the main database.\<close>

definition ExecDbTransaction :: "transactions \<Rightarrow> 'a \<Rightarrow> ('z op_ctx_scheme, 'a \<times> err) comp
    \<Rightarrow> ('z op_ctx_scheme, 'a \<times> err) comp" where
  "ExecDbTransaction tx x handler = do {
     d \<leftarrow> gets mainDb;
     Transaction tx d x (in_transaction handler) }"

section \<open>Keys\<close>

definition ErrorCodeDuplicateKey :: string where "ErrorCodeDuplicateKey = ''duplicate_pubkey''"
definition ErrorCodeActiveKeyNotFound :: string where "ErrorCodeActiveKeyNotFound = ''active_pubkey_not_found''"

definition pubkey_ErrorDescriptions :: "(string \<times> string) list" where
  "pubkey_ErrorDescriptions =
     [(ErrorCodeDuplicateKey, ''Duplicate key already loaded.''),
      (ErrorCodeActiveKeyNotFound, ''Active public key not found.'')]"

definition pubkey_ErrorHttpCodes :: "(string \<times> int) list" where
  "pubkey_ErrorHttpCodes = [(ErrorCodeActiveKeyNotFound, StatusNotFound)]"

record user_pubkey = object_base +
  pk_active :: bool
  pk_key :: string
  pk_hash :: string
  pk_owner :: string

definition NewUserPubkey :: user_pubkey where
  "NewUserPubkey = \<lparr>obj_id = [], created_at = 0, updated_at = 0, pk_active = False, pk_key = [], pk_hash = [], pk_owner = []\<rparr>"

definition pubkey_row :: "user_pubkey \<Rightarrow> fields" where
  "pubkey_row x =
     [(''id'', VStr (obj_id x)), (''created_at'', VTime (created_at x)), (''updated_at'', VTime (updated_at x)),
      (''active'', VBool (pk_active x)), (''public_key'', VStr (pk_key x)), (''public_key_hash'', VStr (pk_hash x)),
      (''public_key_owner'', VStr (pk_owner x))]"

definition row_pubkey :: "fields \<Rightarrow> user_pubkey" where
  "row_pubkey row = \<lparr>obj_id = row_str row ''id'', created_at = row_time row ''created_at'',
     updated_at = row_time row ''updated_at'', pk_active = row_bool row ''active'', pk_key = row_str row ''public_key'',
     pk_hash = row_str row ''public_key_hash'', pk_owner = row_str row ''public_key_owner''\<rparr>"

section \<open>The controller\<close>

record 's pubkey_controller =
  pc_crud :: "'s crud"
  pc_table :: string
  pc_users :: "'s user_controller"
  pc_sig :: sig_manager
  pc_crypto :: crypto
  pc_tx :: transactions

definition Pubkey_OpLog :: "string \<Rightarrow> string \<Rightarrow> string \<Rightarrow> string \<Rightarrow> string \<Rightarrow> ('z op_ctx_scheme, unit) comp" where
  "Pubkey_OpLog op userId login keyId keyHash = Oplog
     \<lparr>obj_id = [], created_at = 0, updated_at = 0, ol_table = ''op_log_pub_keys'', ol_operation = op,
      ol_context = [], ol_context_name = [], ol_origin_app = [], ol_origin_name = [],
      ol_origin_source = [], ol_origin_client = [], ol_user = [], ol_user_type = [],
      ol_extra = [(''login'', VStr login), (''user_id'', VStr userId), (''key_id'', VStr keyId), (''key_hash'', VStr keyHash)]\<rparr>"

text \<open>The identifier of the key is put into the query as the slice of the optional arguments.\<close>

definition active_fields :: "string \<Rightarrow> fields" where
  "active_fields owner = [(''public_key_owner'', VStr owner), (''active'', VBool True)]"

definition deactivateKey :: "'z op_ctx_scheme pubkey_controller \<Rightarrow> nat \<Rightarrow> user \<Rightarrow> string list
    \<Rightarrow> ('z op_ctx_scheme, err) comp" where
  "deactivateKey p c usr keyId = do {
     let fs = active_fields (obj_id usr) @
       (if length keyId \<noteq> 0 \<and> keyId ! 0 \<noteq> [] then [(''id'', VStrs keyId)] else []);
     (found, e) \<leftarrow> c_Read (pc_crud p) (pc_table p) fs;
     (if e \<noteq> None then do { SetMessage c ''failed to find previous key''; SetError c e }
      else case found of
        None \<Rightarrow> ret None
      | Some row \<Rightarrow> do {
          e \<leftarrow> c_Update (pc_crud p) (pc_table p) (row_str row ''id'') [(''active'', VBool False)];
          (if e \<noteq> None then do { SetMessage c ''failed to deactivate previous key''; SetError c e }
           else do {
             Pubkey_OpLog ''deactivate_pubkey'' (obj_id usr) (u_LOGIN usr) (row_str row ''id'') (row_str row ''public_key_hash'');
             ret None }) }) }"

definition key_filter :: "string \<Rightarrow> string \<Rightarrow> db_filter" where
  "key_filter owner hash = AddField ''public_key_hash'' (VStr hash) (AddField ''public_key_owner'' (VStr owner) NewFilter)"

text \<open>The body of the transaction; it leaves behind the new key with its identifier.\<close>

definition add_key :: "'z op_ctx_scheme pubkey_controller \<Rightarrow> nat \<Rightarrow> user \<Rightarrow> string \<Rightarrow> string \<Rightarrow> user_pubkey
    \<Rightarrow> ('z op_ctx_scheme, user_pubkey \<times> err) comp" where
  "add_key p c usr key hash doc = do {
     (exists, e) \<leftarrow> c_Exists (pc_crud p) (pc_table p) (key_filter (obj_id usr) hash);
     (if e \<noteq> None then do { SetMessage c ''failed to check if this key exists''; ret (doc, e) }
      else if exists then do { SetGenericErrorCode ErrorCodeDuplicateKey []; ret (doc, errors_New ''duplicate pubkey'') }
      else do {
        e \<leftarrow> deactivateKey p c usr [];
        (if e \<noteq> None then ret (doc, e)
         else do {
           doc \<leftarrow> InitObject doc;
           let doc = doc\<lparr>pk_active := True, pk_key := key, pk_hash := hash, pk_owner := obj_id usr\<rparr>;
           e \<leftarrow> c_Create (pc_crud p) (pc_table p) (pubkey_row doc);
           (if e \<noteq> None then do { SetMessage c ''failed to create pubkey in database''; ret (doc, e) }
            else do {
              Pubkey_OpLog ''add_pubkey'' (obj_id usr) (u_LOGIN usr) (obj_id doc) hash;
              ret (doc, None) }) }) }) }"

text \<open>\<^verbatim>\<open>ctx.Db()\<close> is the database of the context, here of the tenancy if there is one.\<close>

definition AddPubKey :: "'z op_ctx_scheme pubkey_controller \<Rightarrow> string \<Rightarrow> string \<Rightarrow> bool list
    \<Rightarrow> ('z op_ctx_scheme, string \<times> err) comp" where
  "AddPubKey p userId key idIsLogin = traced_err ''PubkeyController.AddPubKey'' [] (\<lambda>c. do {
     e \<leftarrow> CheckPubKey (pc_sig p) key;
     (if e \<noteq> None then do { SetMessage c ''invalid key format''; ret (([], e), e) }
      else do {
        (usr, e) \<leftarrow> FindUser (pc_users p) userId idIsLogin;
        (case usr of
           None \<Rightarrow> ret (([], e), e)
         | Some usr \<Rightarrow>
             if e \<noteq> None then ret (([], e), e)
             else do {
               SetCallField c ''user'' (VStr (u_LOGIN usr));
               let hash = H256B64 (pc_crypto p) key [];
               SetCallField c ''key_hash'' (VStr hash);
               d \<leftarrow> gets curDb;
               (doc, e) \<leftarrow> Transaction (pc_tx p) d NewUserPubkey (in_transaction (add_key p c usr key hash NewUserPubkey));
               (if e \<noteq> None then ret (([], e), e) else ret ((obj_id doc, None), None)) }) }) })"

definition DeactivatePubKey :: "'z op_ctx_scheme pubkey_controller \<Rightarrow> string \<Rightarrow> string \<Rightarrow> bool list
    \<Rightarrow> ('z op_ctx_scheme, err) comp" where
  "DeactivatePubKey p userId keyId idIsLogin =
     traced_err ''PubkeyController.DeactivatePubKey'' [[(''key_id'', VStr keyId)]] (\<lambda>c. do {
       (usr, e) \<leftarrow> FindUser (pc_users p) userId idIsLogin;
       (case usr of
          None \<Rightarrow> ret (e, e)
        | Some usr \<Rightarrow>
            if e \<noteq> None then ret (e, e)
            else do {
              SetCallField c ''user'' (VStr (u_LOGIN usr));
              e \<leftarrow> deactivateKey p c usr [keyId];
              ret (e, e) }) })"

definition FindActivePubKey :: "'z op_ctx_scheme pubkey_controller \<Rightarrow> string \<Rightarrow> bool list
    \<Rightarrow> ('z op_ctx_scheme, user_pubkey option \<times> err) comp" where
  "FindActivePubKey p userId idIsLogin = traced_err ''PubkeyController.FindActivePubKey'' [] (\<lambda>c. do {
     (usr, e) \<leftarrow> FindUser (pc_users p) userId idIsLogin;
     (case usr of
        None \<Rightarrow> ret ((None, e), e)
      | Some usr \<Rightarrow>
          if e \<noteq> None then ret ((None, e), e)
          else do {
            SetCallField c ''user'' (VStr (u_LOGIN usr));
            (found, e) \<leftarrow> c_Read (pc_crud p) (pc_table p) (active_fields (obj_id usr));
            (if e \<noteq> None then do { SetMessage c ''failed to find active public key''; ret ((None, e), e) }
             else case found of
               None \<Rightarrow> do {
                 SetGenericErrorCode ErrorCodeActiveKeyNotFound [];
                 ret ((None, errors_New ''key not found''), errors_New ''key not found'') }
             | Some row \<Rightarrow> ret ((Some (row_pubkey row), None), None)) }) })"

definition ListPubKeys :: "'z op_ctx_scheme pubkey_controller \<Rightarrow> db_filter option
    \<Rightarrow> ('z op_ctx_scheme, (user_pubkey list \<times> int) \<times> err) comp" where
  "ListPubKeys p flt = traced_err ''PubkeyController.ListPubKeys'' [] (\<lambda>c. do {
     ((rows, count), e) \<leftarrow> c_List (pc_crud p) (pc_table p) flt;
     (if e \<noteq> None then do { SetMessage c ''failed to read documents from database''; ret ((([], 0), e), e) }
      else ret (((map row_pubkey rows, count), None), None)) })"

text \<open>Keys joined with their users, in rows of any type; the join is named by the query.\<close>

definition ListPubkeys :: "'z op_ctx_scheme crud \<Rightarrow> db_filter \<Rightarrow> string \<Rightarrow> ('z op_ctx_scheme, (fields list \<times> int) \<times> err) comp" where
  "ListPubkeys cr flt queryName = traced queryName [] (\<lambda>c. do {
     ((rows, count), e) \<leftarrow> c_Join cr queryName flt;
     (if e \<noteq> None then do {
        SetMessage c ''failed to list public keys'';
        e \<leftarrow> SetError c e;
        ret (([], 0), e) }
      else ret ((rows, count), None)) })"

definition NewPubkeyController :: "dbhandlers \<Rightarrow> crypto \<Rightarrow> user_validators \<Rightarrow> sig_manager \<Rightarrow> transactions
    \<Rightarrow> 'z op_ctx_scheme crud list \<Rightarrow> 'z op_ctx_scheme pubkey_controller" where
  "NewPubkeyController h cr vld sm tx cruds =
     \<lparr>pc_crud = (if length cruds = 0 then DbCRUD h False else cruds ! 0), pc_table = ''user_pubkeys'',
      pc_users = db_users h cr vld, pc_sig = sm, pc_crypto = cr, pc_tx = tx\<rparr>"

section \<open>Rules\<close>

lemma wpc_SetDbTransaction [wpc]:
  "Q () (core (k\<lparr>dbTransaction := Some d\<rparr>)) \<Longrightarrow> wpc (SetDbTransaction d) Q k"
  unfolding SetDbTransaction_def by (rule wpc_modifys) (simp_all add: core_def)

lemma wpc_ClearDbTransaction [wpc]:
  "Q () (core (k\<lparr>dbTransaction := None\<rparr>)) \<Longrightarrow> wpc ClearDbTransaction Q k"
  unfolding ClearDbTransaction_def by (rule wpc_modifys) (simp_all add: core_def)

lemma core_dbTransaction [simp]: "core (k\<lparr>dbTransaction := x\<rparr>) = (core k)\<lparr>dbTransaction := x\<rparr>"
  by (simp add: core_def)

lemma wpc_Transaction:
  assumes "\<And>e. Q (x, Some e) (core k)"
    and "wpc (handler d) (\<lambda>(y, e) k'.
        (\<forall>e'. e' \<noteq> None \<longrightarrow> e = None \<or> e = e' \<longrightarrow> Q (y, e') (core (k'\<lparr>dbs := (dbs k')(d := dbs k d)\<rparr>)))
        \<and> (e = None \<longrightarrow> Q (y, None) k')) (core k)"
  shows "wpc (Transaction tx d x handler) Q k"
  unfolding Transaction_def rollback_def
  by (intro wpc) (use assms in \<open>auto intro!: wpc wpc_mono [OF assms(2)]\<close>)

lemma wpc_CheckPubKey:
  assumes "\<And>e k'. core k' = k' \<Longrightarrow> store k' = store k \<Longrightarrow> Q (Some e) k'" "Q None (core k)"
  shows "wpc (CheckPubKey sm key) Q k"
  unfolding CheckPubKey_def MakeVerifier_def by (intro wpc) (use assms in \<open>auto simp: store_def with_code_def intro!: wpc_ret\<close>)

section \<open>The keys in the table\<close>

definition active_keys :: "string \<Rightarrow> fields list \<Rightarrow> fields list" where
  "active_keys owner rows = filter (row_matches (active_fields owner)) rows"

abbreviation owner_hash :: "fields \<Rightarrow> gval option \<times> gval option" where
  "owner_hash row \<equiv> (map_get row ''public_key_owner'', map_get row ''public_key_hash'')"

text \<open>A key is stored once for its owner, and of the keys of an owner one at most is active.\<close>

definition pubkeys_ok :: "fields list \<Rightarrow> bool" where
  "pubkeys_ok rows \<longleftrightarrow> keyed rows \<and> distinct (map owner_hash rows) \<and> (\<forall>owner. length (active_keys owner rows) \<le> 1)"

abbreviation deactivated :: "string \<Rightarrow> int \<Rightarrow> fields list \<Rightarrow> fields list" where
  "deactivated i t rows \<equiv> updated_rows i [(''active'', VBool False)] t rows"

lemma deactivated_fields [simp]:
  "map_get (AppendMap row (stamped [(''active'', VBool False)] t)) ''public_key_owner'' = map_get row ''public_key_owner''"
  "map_get (AppendMap row (stamped [(''active'', VBool False)] t)) ''public_key_hash'' = map_get row ''public_key_hash''"
  "map_get (AppendMap row (stamped [(''active'', VBool False)] t)) ''active'' = Some (VBool False)"
  by (simp_all add: map_get_AppendMap)

lemma owner_hash_deactivated: "map owner_hash (deactivated i t rows) = map owner_hash rows"
  by (simp add: updated_rows_def)

lemma active_deactivated:
  "active_keys owner (deactivated i t rows) = filter (\<lambda>row. \<not> row_matches [(''id'', VStr i)] row) (active_keys owner rows)"
  by (induction rows) (simp_all add: active_keys_def updated_rows_def active_fields_def)

lemma pubkeys_deactivated:
  assumes "pubkeys_ok rows"
  shows "pubkeys_ok (deactivated i t rows)"
proof -
  have "length (active_keys owner (deactivated i t rows)) \<le> 1" for owner
    using assms length_filter_le [of _ "active_keys owner rows"] unfolding active_deactivated pubkeys_ok_def
    by (meson le_trans)
  moreover have "keyed (deactivated i t rows)"
    using assms by (intro keyed_updated) (simp_all add: fields_ok_def pubkeys_ok_def)
  ultimately show ?thesis using assms by (simp only: pubkeys_ok_def owner_hash_deactivated) simp
qed

lemma none_active_deactivated:
  assumes "pubkeys_ok rows" "row \<in> set (active_keys owner rows)"
  shows "active_keys owner (deactivated (row_str row ''id'') t rows) = []"
proof -
  have "length (active_keys owner rows) \<le> 1" using assms(1) by (simp add: pubkeys_ok_def)
  with assms(2) have eq: "active_keys owner rows = [row]"
    by (cases "active_keys owner rows") auto
  have "row \<in> set rows" using assms(2) by (simp add: active_keys_def)
  then have "map_get row ''id'' = Some (VStr (row_str row ''id''))"
    using assms(1) by (simp add: pubkeys_ok_def keyed_def list_all_iff)
  with eq show ?thesis by (simp add: active_deactivated)
qed

lemma pubkeys_append:
  assumes "pubkeys_ok rows" "active_keys owner rows = []" "map_get row ''id'' = Some (VStr i)"
    and "map_get row ''id'' \<notin> set (ids rows)" "owner_hash row \<notin> owner_hash ` set rows"
    and "map_get row ''public_key_owner'' = Some (VStr owner)"
  shows "pubkeys_ok (rows @ [row])"
  using assms keyed_append [OF _ assms(3,4)]
  by (auto simp: pubkeys_ok_def active_keys_def active_fields_def)

section \<open>What the operations do to the table\<close>

abbreviation key_table :: string where "key_table \<equiv> ''user_pubkeys''"

abbreviation pubkeys :: "dbhandlers \<Rightarrow> crypto \<Rightarrow> user_validators \<Rightarrow> sig_manager \<Rightarrow> transactions \<Rightarrow> 'z op_ctx_scheme pubkey_controller" where
  "pubkeys h cr vld sm tx \<equiv> NewPubkeyController h cr vld sm tx []"

lemma pubkeys_simps [simp]:
  "pc_crud (pubkeys h cr vld sm tx) = DbCRUD h False" "pc_table (pubkeys h cr vld sm tx) = key_table"
  "pc_users (pubkeys h cr vld sm tx) = db_users h cr vld" "pc_sig (pubkeys h cr vld sm tx) = sm"
  "pc_crypto (pubkeys h cr vld sm tx) = cr" "pc_tx (pubkeys h cr vld sm tx) = tx"
  by (simp_all add: NewPubkeyController_def)

text \<open>The state of the database connection.\<close>

definition conn :: "'z op_ctx_scheme \<Rightarrow> string \<times> string \<times> string option" where
  "conn k = (mainDb k, curDb k, dbTransaction k)"

lemma conn_simps [simp]: "conn (core k) = conn k" "conn (with_code code k) = conn k" "conn (k\<lparr>dbs := D\<rparr>) = conn k"
  "conn (k\<lparr>times := a\<rparr>) = conn k" "conn (k\<lparr>rands := b\<rparr>) = conn k" "conn (k\<lparr>idCount := c\<rparr>) = conn k"
  "conn (k\<lparr>oplogs := ol\<rparr>) = conn k"
  by (simp_all add: conn_def with_code_def)

lemma db_for_conn: "conn k' = conn k \<Longrightarrow> db_for main k' = db_for main k"
  by (auto simp: conn_def db_for_def split: option.splits)

lemma find_fields_row:
  assumes "pool_db h" "h_FindByFields h d tbl fs D = (Some row, e)"
  shows "row \<in> set (D d tbl)" "row_matches fs row"
  using pool_dbD(1) [OF assms(1), unfolded find_returns_match_def, THEN conjunct1, rule_format, OF assms(2)] by simp_all

lemma find_fields_none:
  assumes "find_misses_nothing h" "h_FindByFields h d tbl fs D = (None, None)"
  shows "filter (row_matches fs) (D d tbl) = []"
  using assms unfolding find_misses_nothing_def by (auto simp: filter_empty_conv)

lemma wpc_Pubkey_OpLog [wpc]:
  "(\<And>ol. Q () (core (k\<lparr>oplogs := oplogs k @ [ol]\<rparr>))) \<Longrightarrow> wpc (Pubkey_OpLog op u l i hsh) Q k"
  unfolding Pubkey_OpLog_def by (intro wpc) simp

lemma deactivated_tables:
  assumes "pool_db h"
  shows "snd (h_Update h d tbl [(''id'', VStr i)] (stamped [(''active'', VBool False)] t) D) d =
    (if fst (h_Update h d tbl [(''id'', VStr i)] (stamped [(''active'', VBool False)] t) D) = None
     then (D d)(tbl := deactivated i t (D d tbl)) else D d)"
  by (simp add: update_tables [OF assms] updated_rows_def)

definition keys_step :: "(string \<Rightarrow> fields list) \<Rightarrow> (string \<Rightarrow> fields list) \<Rightarrow> bool" where
  "keys_step T T' \<longleftrightarrow> (\<exists>rows. T' = T(key_table := rows) \<and> pubkeys_ok rows
     \<and> map owner_hash rows = map owner_hash (T key_table))"

lemma keys_step_refl: "pubkeys_ok (T key_table) \<Longrightarrow> keys_step T T"
  unfolding keys_step_def by (rule exI [of _ "T key_table"]) simp

lemma keys_step_deactivated:
  "pubkeys_ok (T key_table) \<Longrightarrow> keys_step T (T(key_table := deactivated i t (T key_table)))"
  unfolding keys_step_def by (intro exI conjI, rule refl) (simp_all add: pubkeys_deactivated owner_hash_deactivated)

lemma deactivateKey_wpc:
  assumes "pool_db h" "find_misses_nothing h" "pubkeys_ok (pool_tables k key_table)"
  shows "wpc (deactivateKey (pubkeys h cr vld sm tx) c usr keyId) (\<lambda>e k'. conn k' = conn k
     \<and> keys_step (pool_tables k) (pool_tables k')
     \<and> (e = None \<and> keyId = [] \<longrightarrow> active_keys (obj_id usr) (pool_tables k' key_table) = [])) k"
  unfolding deactivateKey_def Let_def pubkeys_simps
  by (intro wpc) (use assms(3) in \<open>auto simp: pool_tables_def deactivated_tables [OF assms(1)] keys_step_refl
      keys_step_deactivated active_keys_def
      dest: find_fields_none [OF assms(2)] find_fields_row [OF assms(1)]
      intro!: none_active_deactivated [unfolded active_keys_def]\<close>)

text \<open>The new key is the only active one of its owner.\<close>

definition key_added :: "user \<Rightarrow> string \<Rightarrow> string \<Rightarrow> user_pubkey \<Rightarrow> (string \<Rightarrow> fields list) \<Rightarrow> (string \<Rightarrow> fields list) \<Rightarrow> bool" where
  "key_added usr key hash doc T T' \<longleftrightarrow> (\<exists>rows. T' = T(key_table := rows @ [pubkey_row doc]) \<and> pubkeys_ok (rows @ [pubkey_row doc])
     \<and> active_keys (obj_id usr) rows = [] \<and> pk_active doc \<and> pk_key doc = key \<and> pk_hash doc = hash \<and> pk_owner doc = obj_id usr)"

lemma key_filter_fields:
  "key_filter i hash = NewFilter\<lparr>Fields := Some [(''public_key_owner'', VStr i), (''public_key_hash'', VStr hash)]\<rparr>"
  by (simp add: key_filter_def AddField_def NewFilter_def nil_map_def map_set_def)

lemma pubkey_row_get [simp]:
  "map_get (pubkey_row x) ''id'' = Some (VStr (obj_id x))" "map_get (pubkey_row x) ''active'' = Some (VBool (pk_active x))"
  "map_get (pubkey_row x) ''public_key_hash'' = Some (VStr (pk_hash x))"
  "map_get (pubkey_row x) ''public_key_owner'' = Some (VStr (pk_owner x))"
  by (simp_all add: pubkey_row_def)

lemma new_owner_hash:
  assumes "\<not> list_ex (row_matches [(''public_key_owner'', VStr i), (''public_key_hash'', VStr hash)]) (T key_table)"
    and "map owner_hash rows = map owner_hash (T key_table)"
  shows "(Some (VStr i), Some (VStr hash)) \<notin> owner_hash ` set rows"
proof -
  have "owner_hash ` set rows = owner_hash ` set (T key_table)" using assms(2) by (metis list.set_map)
  with assms(1) show ?thesis by (auto simp: list_ex_iff)
qed

lemma key_addedI:
  assumes "pool_db h" "keys_step T (D d)" "active_keys (obj_id usr) (D d key_table) = []"
    and "\<not> list_ex (row_matches [(''public_key_owner'', VStr (obj_id usr)), (''public_key_hash'', VStr hash)]) (T key_table)"
    and "fst (h_Create h d key_table (pubkey_row doc) D) = None"
    and "pk_active doc" "pk_key doc = key" "pk_hash doc = hash" "pk_owner doc = obj_id usr"
  shows "key_added usr key hash doc T (snd (h_Create h d key_table (pubkey_row doc) D) d)"
proof -
  from assms(2) obtain rows where rows: "D d = T(key_table := rows)" "pubkeys_ok rows"
    "map owner_hash rows = map owner_hash (T key_table)" unfolding keys_step_def by blast
  have "map_get (pubkey_row doc) ''id'' \<notin> set (ids rows)"
    using create_new_id [OF assms(1,5)] rows(1) by simp
  moreover have "owner_hash (pubkey_row doc) \<notin> owner_hash ` set rows"
    using new_owner_hash [of "obj_id usr" hash T, OF assms(4) rows(3)] assms(8,9) by simp
  ultimately have "pubkeys_ok (rows @ [pubkey_row doc])"
    using assms(3,9) rows by (intro pubkeys_append [of rows "obj_id usr" _ "obj_id doc"]) simp_all
  with assms rows show ?thesis
    unfolding key_added_def by (intro exI [of _ rows]) (simp add: create_tables [OF assms(1)])
qed

lemma add_key_wpc:
  assumes "pool_db h" "find_misses_nothing h" "pubkeys_ok (pool_tables k key_table)"
  shows "wpc (add_key (pubkeys h cr vld sm tx) c usr key hash doc) (\<lambda>(doc, e) k'. conn k' = conn k
     \<and> (e = None \<longrightarrow> key_added usr key hash doc (pool_tables k) (pool_tables k'))) k"
  unfolding add_key_def key_filter_fields pubkeys_simps Let_def
  by (intro wpc wpc_mono [OF deactivateKey_wpc [OF assms(1,2)]])
     (use assms(3) in \<open>auto simp: pool_tables_def dest!: exists_rows [OF assms(1)] db_for_conn split: if_splits
        intro!: wpc key_addedI [OF assms(1)]\<close>)

lemma key_transaction_wpc:
  assumes "pool_db h" "find_misses_nothing h" "pubkeys_ok (pool_tables k key_table)" "dbTransaction k = None" "d = curDb k"
  shows "wpc (Transaction tx d NewUserPubkey (in_transaction (add_key (pubkeys h cr vld sm tx') c usr key hash NewUserPubkey)))
    (\<lambda>(doc, e) k'. conn k' = conn k \<and> (if e = None then key_added usr key hash doc (pool_tables k) (pool_tables k')
       else pool_tables k' = pool_tables k)) k"
proof -
  let ?k = "(core k)\<lparr>dbTransaction := Some (curDb k)\<rparr>"
  have t: "pool_tables ?k = pool_tables k" using assms(4) by (simp add: pool_tables_def db_for_def)
  have c: "conn k' = conn ?k \<Longrightarrow> conn (k'\<lparr>dbTransaction := None\<rparr>) = conn k" for k' :: "'a op_ctx_scheme"
    using assms(4) by (simp add: conn_def)
  have p: "conn k' = conn ?k \<Longrightarrow> pool_tables (k'\<lparr>dbTransaction := None\<rparr>) = pool_tables k'" for k' :: "'a op_ctx_scheme"
    by (simp add: conn_def pool_tables_def db_for_def)
  have r: "dbs k (curDb k) = pool_tables k" using assms(4) by (simp add: pool_tables_def db_for_def)
  have e: "conn k' = conn ?k \<Longrightarrow> db_for False (k'\<lparr>dbTransaction := None\<rparr>) = curDb k" for k' :: "'a op_ctx_scheme"
    by (simp add: conn_def db_for_def)
  have "pubkeys_ok (pool_tables ?k key_table)" using assms(3) t by simp
  note add = add_key_wpc [OF assms(1,2) this, of cr vld sm tx' c usr key hash NewUserPubkey, unfolded t]
  show ?thesis
    unfolding in_transaction_def assms(5)
    by (intro wpc_Transaction wpc_bind wpc_SetDbTransaction wpc_core [THEN iffD2] wpc_mono [OF add])
      (auto simp: c p r e intro!: wpc)
qed

lemma pool_tables_conn: "conn k' = conn k \<Longrightarrow> dbs k' = dbs k \<Longrightarrow> pool_tables k' = pool_tables k"
  using db_for_conn [of k' k False] by (simp add: pool_tables_def)

lemma store_conn: "store k' = store k \<Longrightarrow> conn k' = conn k \<and> pool_tables k' = pool_tables k"
  by (auto simp: store_def conn_def intro!: pool_tables_conn)

definition user_field :: "bool list \<Rightarrow> string" where
  "user_field b = (if OptionalArg False b then ''login'' else ''id'')"

lemma wpc_FindUser_row:
  assumes "pool_db h"
    and "\<And>row. row \<in> set (pool_tables k ''users'') \<Longrightarrow> map_get row (user_field b) = Some (VStr i) \<Longrightarrow>
       Q (Some (row_user row), None) (core k)"
    and "\<And>e k'. core k' = k' \<Longrightarrow> conn k' = conn k \<Longrightarrow> pool_tables k' = pool_tables k \<Longrightarrow> e \<noteq> None \<Longrightarrow> Q (None, e) k'"
  shows "wpc (FindUser (db_users h cr vld) i b) Q k"
proof (rule wpc_FindUser)
  fix row assume "h_FindByFields h (db_for False k) ''users''
      [(if OptionalArg False b then ''login'' else ''id'', VStr i)] (dbs k) = (Some row, None)"
  from find_fields_row [OF assms(1) this] show "Q (Some (row_user row), None) (core k)"
    by (intro assms(2)) (simp_all add: pool_tables_def user_field_def)
qed (use assms(3) in \<open>auto dest!: store_conn\<close>)

lemma AddPubKey_wpc:
  assumes "pool_db h" "find_misses_nothing h" "pubkeys_ok (pool_tables k key_table)" "dbTransaction k = None"
  shows "wpc (AddPubKey (pubkeys h cr vld sm tx) userId key b) (\<lambda>(i, e) k'. conn k' = conn k
     \<and> (if e = None then \<exists>row doc. row \<in> set (pool_tables k ''users'') \<and> map_get row (user_field b) = Some (VStr userId)
          \<and> key_added (row_user row) key (H256B64 cr key []) doc (pool_tables k) (pool_tables k') \<and> i = obj_id doc
        else pool_tables k' = pool_tables k)) k"
  unfolding AddPubKey_def pubkeys_simps Let_def
  by (intro wpc wpc_CheckPubKey wpc_FindUser_row [OF assms(1)] wpc_mono [OF key_transaction_wpc [OF assms(1,2)]])
    (use assms(3,4) in \<open>auto dest!: store_conn split: if_splits\<close>)

lemma find_fields_found:
  assumes "pool_db h" "find_misses_nothing h" "reads_succeed h" "row \<in> set (D d tbl)" "row_matches fs row"
  obtains r where "h_FindByFields h d tbl fs D = (Some r, None)" "r \<in> set (D d tbl)" "row_matches fs r"
proof -
  let ?f = "h_FindByFields h d tbl fs D"
  have "?f \<noteq> (None, None)" using assms(2,4,5) unfolding find_misses_nothing_def by blast
  moreover have "snd ?f = None" using assms(3) by (simp add: reads_succeed_def)
  ultimately obtain r where "?f = (Some r, None)" by (cases ?f) auto
  with find_fields_row [OF assms(1) this] that show ?thesis by blast
qed

lemma FindActive_finds:
  assumes "pool_db h" "find_misses_nothing h" "reads_succeed h"
    and "usr \<in> set (pool_tables k ''users'')" "map_get usr ''id'' = Some (VStr userId)"
    and "active_keys userId (pool_tables k key_table) = [row]"
  shows "wpc (FindActivePubKey (pubkeys h cr vld sm tx) userId []) (\<lambda>r _. r = (Some (row_pubkey row), None)) k"
proof -
  let ?d = "db_for False k"
  have "usr \<in> set (dbs k ?d ''users'')" "row_matches [(''id'', VStr userId)] usr"
    using assms(4,5) by (simp_all add: pool_tables_def)
  from find_fields_found [where D = "dbs k" and d = ?d and tbl = "''users''", OF assms(1-3) this]
  obtain u where u: "h_FindByFields h ?d ''users'' [(''id'', VStr userId)] (dbs k) = (Some u, None)"
    "map_get u ''id'' = Some (VStr userId)" by auto
  have row: "row \<in> set (dbs k ?d key_table)" "row_matches (active_fields userId) row"
    using assms(6) by (auto simp: active_keys_def pool_tables_def filter_eq_Cons_iff)
  obtain r where r: "h_FindByFields h ?d key_table (active_fields userId) (dbs k) = (Some r, None)"
    "r \<in> set (dbs k ?d key_table)" "row_matches (active_fields userId) r"
    by (rule find_fields_found [where D = "dbs k" and d = ?d and tbl = key_table, OF assms(1-3) row])
  then have "r \<in> set (active_keys userId (pool_tables k key_table))" by (simp add: active_keys_def pool_tables_def)
  then have "r = row" using assms(6) by simp
  with u r show ?thesis
    unfolding FindActivePubKey_def pubkeys_simps
    by (intro wpc wpc_FindUser) (auto simp: row_user_def row_str_def)
qed

lemma DeactivatePubKey_wpc:
  assumes "pool_db h" "find_misses_nothing h" "pubkeys_ok (pool_tables k key_table)"
  shows "wpc (DeactivatePubKey (pubkeys h cr vld sm tx) userId keyId b) (\<lambda>e k'. conn k' = conn k
     \<and> keys_step (pool_tables k) (pool_tables k')) k"
  unfolding DeactivatePubKey_def pubkeys_simps
  by (intro wpc wpc_FindUser_row [OF assms(1)] wpc_mono [OF deactivateKey_wpc [OF assms(1,2)]])
    (use assms(3) in \<open>auto intro!: wpc keys_step_refl\<close>)

section \<open>Properties\<close>

text \<open>The states that the operations lead to, each run to its end.\<close>

inductive pubkey_reachable :: "'z op_ctx_scheme pubkey_controller \<Rightarrow> 'z op_ctx_scheme \<Rightarrow> 'z op_ctx_scheme \<Rightarrow> bool" for p s where
  initial: "pubkey_reachable p s s"
| add: "pubkey_reachable p s t \<Longrightarrow> run_state (AddPubKey p i key b) t = (r, u) \<Longrightarrow> pubkey_reachable p s u"
| deactivate: "pubkey_reachable p s t \<Longrightarrow> run_state (DeactivatePubKey p i keyId b) t = (e, u) \<Longrightarrow> pubkey_reachable p s u"
| find: "pubkey_reachable p s t \<Longrightarrow> run_state (FindActivePubKey p i b) t = (f, u) \<Longrightarrow> pubkey_reachable p s u"
| list: "pubkey_reachable p s t \<Longrightarrow> run_state (ListPubKeys p flt) t = (l, u) \<Longrightarrow> pubkey_reachable p s u"

lemma FindActive_keeps:
  assumes "pool_db h"
  shows "wpc (FindActivePubKey (pubkeys h cr vld sm tx) i b) (\<lambda>r k'. conn k' = conn k \<and> pool_tables k' = pool_tables k) k"
  unfolding FindActivePubKey_def pubkeys_simps by (intro wpc wpc_FindUser_row [OF assms]) auto

lemma ListPubKeys_keeps:
  "wpc (ListPubKeys (pubkeys h cr vld sm tx) flt) (\<lambda>r k'. conn k' = conn k \<and> pool_tables k' = pool_tables k) k"
  unfolding ListPubKeys_def pubkeys_simps by (intro wpc) auto

lemma key_added_ok: "key_added usr key hash doc T T' \<Longrightarrow> pubkeys_ok (T' key_table)"
  by (auto simp: key_added_def)

lemma keys_step_ok: "keys_step T T' \<Longrightarrow> pubkeys_ok (T' key_table)"
  by (auto simp: keys_step_def)

lemma pubkeys_reachable_ok:
  assumes "pool_db h" "find_misses_nothing h" "pubkey_reachable (pubkeys h cr vld sm tx) s t"
    and "pubkeys_ok (pool_tables s key_table)" "dbTransaction s = None"
  shows "conn t = conn s \<and> pubkeys_ok (pool_tables t key_table)"
  using assms(3)
proof induction
  case initial
  show ?case using assms(4) by simp
next
  case (add t i key b r u)
  moreover from add have "dbTransaction t = None" using assms(5) by (simp add: conn_def)
  ultimately show ?case
    using wpcE [OF AddPubKey_wpc [OF assms(1,2)] add.hyps(2)] assms(4)
    by (auto simp: key_added_ok split: prod.splits if_splits)
next
  case (deactivate t i keyId b e u)
  then show ?case
    using wpcE [OF DeactivatePubKey_wpc [OF assms(1,2)] deactivate.hyps(2)] by (auto simp: keys_step_ok)
next
  case (find t i b f u)
  then show ?case using wpcE [OF FindActive_keeps [OF assms(1)] find.hyps(2)] by simp
next
  case (list t flt l u)
  then show ?case using wpcE [OF ListPubKeys_keeps list.hyps(2)] by simp
qed

text \<open>
  C29: Whatever operations on public keys are run, successful or not, an owner has at most one active key,
  and no key is stored twice for its owner.
\<close>

theorem pubkey_invariant:
  assumes "pool_db h" "find_misses_nothing h" "pubkey_reachable (pubkeys h cr vld sm tx) s t"
    and "pubkeys_ok (pool_tables s key_table)" "dbTransaction s = None"
  shows "pubkeys_ok (pool_tables t key_table)"
  using pubkeys_reachable_ok [OF assms] by simp

text \<open>
  C30: The key that was added last is the active key of its user; an addition that failed has left the
  table as it was.
\<close>

theorem added_key_active:
  assumes "pool_db h" "find_misses_nothing h" "reads_succeed h" "pubkeys_ok (pool_tables s key_table)" "dbTransaction s = None"
    and run: "run_state (AddPubKey (pubkeys h cr vld sm tx) userId key []) s = ((i, e), t)"
  shows "if e = None
    then \<exists>doc. fst (run_state (FindActivePubKey (pubkeys h cr vld sm tx) userId []) t) = (Some doc, None)
      \<and> obj_id doc = i \<and> pk_key doc = key \<and> pk_owner doc = userId
    else pool_tables t = pool_tables s"
proof (cases "e = None")
  case False
  with wpcE [OF AddPubKey_wpc [OF assms(1,2,4,5)] run] show ?thesis by auto
next
  case True
  with wpcE [OF AddPubKey_wpc [OF assms(1,2,4,5)] run] obtain row doc where
    row: "row \<in> set (pool_tables s ''users'')" "map_get row ''id'' = Some (VStr userId)"
    and doc: "key_added (row_user row) key (H256B64 cr key []) doc (pool_tables s) (pool_tables t)" "i = obj_id doc"
    by (auto simp: user_field_def)
  have u: "obj_id (row_user row) = userId" using row(2) by (simp add: row_user_def row_str_def)
  from doc(1) obtain rows where rows: "pool_tables t = (pool_tables s)(key_table := rows @ [pubkey_row doc])"
    "active_keys userId rows = []" "pk_active doc" "pk_key doc = key" "pk_owner doc = userId"
    unfolding key_added_def u by blast
  have "wpc (FindActivePubKey (pubkeys h cr vld sm tx) userId []) (\<lambda>r _. r = (Some (row_pubkey (pubkey_row doc)), None)) t"
    by (rule FindActive_finds [OF assms(1-3)])
      (use row rows in \<open>auto simp: active_keys_def active_fields_def\<close>)
  from wpcD [OF this] True rows doc(2) show ?thesis
    by (simp add: row_pubkey_def pubkey_row_def row_str_def)
qed

section \<open>An instance\<close>

definition demo_tx :: transactions where
  "demo_tx = \<lparr>tx_Begin = (\<lambda>d D. None), tx_Commit = (\<lambda>d D. None)\<rparr>"

definition demo_keys_ctx :: op_ctx where
  "demo_keys_ctx = demo_ctx\<lparr>dbTransaction := None,
     dbs := (\<lambda>d t. if t = ''users'' then [user_row (MakeUser\<lparr>obj_id := ''1'', u_LOGIN := ''joe''\<rparr>)] else [])\<rparr>"

abbreviation demo_pubkeys :: "op_ctx pubkey_controller" where
  "demo_pubkeys \<equiv> pubkeys keyed_db plain_crypto demo_validators demo_sig_manager demo_tx"

lemma keyed_db_reads: "find_misses_nothing keyed_db" "reads_succeed keyed_db"
proof -
  have eq: "h_FindByFields keyed_db = h_FindByFields table_db" "h_FindByField keyed_db = h_FindByField table_db"
    by (simp_all add: keyed_db_def)
  show "find_misses_nothing keyed_db" using table_db_find(2) unfolding find_misses_nothing_def eq .
  show "reads_succeed keyed_db" unfolding reads_succeed_def eq by (simp add: table_db_def)
qed

lemma demo_keys: "pubkeys_ok (pool_tables demo_keys_ctx key_table)" "dbTransaction demo_keys_ctx = None"
  "db_for False demo_keys_ctx = ''main''"
  by (simp_all add: demo_keys_ctx_def pool_tables_def pubkeys_ok_def keyed_def active_keys_def db_for_def demo_ctx_def)

theorem pubkey_invariant_witness:
  "pubkeys_ok (pool_tables (snd (run_state (do {
     AddPubKey demo_pubkeys ''1'' ''key'' [];
     DeactivatePubKey demo_pubkeys ''1'' [] [] }) demo_keys_ctx)) key_table)"
proof -
  obtain r u where add: "run_state (AddPubKey demo_pubkeys ''1'' ''key'' []) demo_keys_ctx = (r, u)" by fastforce
  obtain e v where del: "run_state (DeactivatePubKey demo_pubkeys ''1'' [] []) u = (e, v)" by fastforce
  have "pubkey_reachable demo_pubkeys demo_keys_ctx v"
    by (rule pubkey_reachable.deactivate [OF pubkey_reachable.add [OF pubkey_reachable.initial add] del])
  from pubkey_invariant [OF keyed_db_laws keyed_db_reads(1) this demo_keys(1,2)] show ?thesis by (simp add: add del)
qed

text \<open>On an empty table the key is added.\<close>

lemma demo_add_key:
  assumes "dbs k (db_for False k) key_table = []"
  shows "wpc (add_key demo_pubkeys c usr key hash doc) (\<lambda>(doc, e) k. e = None) k"
  unfolding add_key_def deactivateKey_def pubkeys_simps Let_def
  by (intro wpc) (use assms in \<open>auto simp: keyed_db_def table_db_def split: if_splits\<close>)

lemma demo_check: "wpc (CheckPubKey demo_sig_manager ''key'') (\<lambda>e k'. e = None \<and> k' = core k) k"
  unfolding CheckPubKey_def MakeVerifier_def
  by (intro wpc) (auto simp: demo_sig_manager_def demo_accepts intro!: wpc)

lemma demo_transaction:
  assumes "dbs k d key_table = []"
  shows "wpc (Transaction demo_tx d NewUserPubkey (in_transaction (add_key demo_pubkeys c usr key hash NewUserPubkey)))
    (\<lambda>(doc, e) k. e = None) k"
  unfolding Transaction_def in_transaction_def rollback_def
  by (intro wpc wpc_mono [OF demo_add_key]) (use assms in \<open>auto simp: demo_tx_def db_for_def intro!: wpc\<close>)

theorem added_key_active_witness:
  "case run_state (AddPubKey demo_pubkeys ''1'' ''key'' []) demo_keys_ctx of ((i, e), t) \<Rightarrow>
     e = None \<and> (\<exists>doc. fst (run_state (FindActivePubKey demo_pubkeys ''1'' []) t) = (Some doc, None)
       \<and> obj_id doc = i \<and> pk_key doc = ''key'')"
proof -
  obtain i e t where run: "run_state (AddPubKey demo_pubkeys ''1'' ''key'' []) demo_keys_ctx = ((i, e), t)"
    by (metis prod.collapse)
  have "wpc (AddPubKey demo_pubkeys ''1'' ''key'' []) (\<lambda>(i, e) k. e = None) demo_keys_ctx"
    unfolding AddPubKey_def pubkeys_simps Let_def
    by (intro wpc wpc_mono [OF demo_check] wpc_FindUser wpc_mono [OF demo_transaction])
      (auto simp: demo_keys(3) demo_keys_ctx_def keyed_db_def table_db_def user_row_def)
  from wpcE [OF this run] have "e = None" by simp
  with added_key_active [OF keyed_db_laws keyed_db_reads demo_keys(1,2) run] show ?thesis by (auto simp: run)
qed

end
