(* ===== verification/Pubsub.thy ===== *)
theory Pubsub
  imports Rest_Server Pool_Store
begin

text \<open>
  Publishing and subscribing (\<^verbatim>\<open>src/pkg/pubsub\<close>): topics with their subscribers, the subscriber that
  holds topics by name (\<^verbatim>\<open>pubsub_subscriber\<close>), the providers in memory and over Redis, the factory
  that makes them, and the publishers and subscribers of the pools (\<^verbatim>\<open>pool_pubsub\<close>).

  Topics and subscribers are pointers in the source, here positions in lists of the state. What a client
  does with a message is a parameter of the model, as is the Redis library. A message is delivered to the
  topics and clients that are there when its handling begins, in the order of the lists that model the maps;
  the order in which Go ranges over a map is not specified.
\<close>

section \<open>State\<close>

record topic_obj =
  tp_name :: string
  tp_subscribers :: "(string \<times> nat) list"

record redis_config =
  rc_Host :: string
  rc_Port :: nat
  rc_Db :: nat
  rc_Password :: string

record sub_obj =
  so_topics :: "(string \<times> (string \<times> nat) list) list"
  so_redis :: "redis_config option"
  so_channels :: "string list"

datatype publisher = InmemPublisher nat | RedisPublisher redis_config

record ps_ctx = op_ctx +
  ps_topics :: "topic_obj list"
  ps_objs :: "sub_obj list"
  ps_inmems :: "(string \<times> nat) list"
  ps_singleton :: "(string \<times> nat) list option"
  ps_publishers :: "(string \<times> publisher) list"
  ps_subscribers :: "(string \<times> nat) list"
  ps_selfPublisher :: "publisher option"
  ps_selfSubscriber :: "nat option"
  ps_fatal :: fatal_error

record app_info =
  app_Application :: string
  app_Instance :: string
  app_Hostname :: string
  app_Db :: string
  app_Cache :: string

record 's redis_lib =
  rl_Load :: "string \<Rightarrow> goerror + redis_config"
  rl_Ping :: "redis_config \<Rightarrow> ('s, err) comp"
  rl_Publish :: "redis_config \<Rightarrow> string \<Rightarrow> string \<Rightarrow> ('s, err) comp"
  rl_Receive :: "redis_config \<Rightarrow> string \<Rightarrow> ('s, err) comp"
  rl_Unsubscribe :: "redis_config \<Rightarrow> string \<Rightarrow> ('s, unit) comp"
  rl_Close :: "redis_config \<Rightarrow> ('s, err) comp"

record 's ps_env =
  pe_ser :: serializer
  pe_client :: "nat \<Rightarrow> gval \<Rightarrow> ('s, err) comp"
  pe_app :: app_info
  pe_handlers :: dbhandlers
  pe_redis :: "'s redis_lib"
  pe_GetString :: "string \<Rightarrow> string"

section \<open>Topics\<close>

definition topic_at :: "'z ps_ctx_scheme \<Rightarrow> nat \<Rightarrow> topic_obj" where
  "topic_at s t = (if t < length (ps_topics s) then ps_topics s ! t else \<lparr>tp_name = [], tp_subscribers = []\<rparr>)"

definition upd_topic :: "nat \<Rightarrow> (topic_obj \<Rightarrow> topic_obj) \<Rightarrow> ('z ps_ctx_scheme, unit) comp" where
  "upd_topic t f = modifys (\<lambda>s. s\<lparr>ps_topics := (ps_topics s)[t := f (topic_at s t)]\<rparr>)"

definition Topic_New :: "string \<Rightarrow> ('z ps_ctx_scheme, nat) comp" where
  "Topic_New name = do {
     t \<leftarrow> gets (\<lambda>s. length (ps_topics s));
     modifys (\<lambda>s. s\<lparr>ps_topics := ps_topics s @ [\<lparr>tp_name = name, tp_subscribers = []\<rparr>]\<rparr>);
     ret t }"

definition Topic_Unsubscribe :: "nat \<Rightarrow> string \<Rightarrow> ('z ps_ctx_scheme, unit) comp" where
  "Topic_Unsubscribe t i = upd_topic t (\<lambda>x. x\<lparr>tp_subscribers := AList.delete i (tp_subscribers x)\<rparr>)"

definition Topic_Subscribe :: "nat \<Rightarrow> string \<Rightarrow> nat \<Rightarrow> ('z ps_ctx_scheme, unit) comp" where
  "Topic_Subscribe t name client = upd_topic t (\<lambda>x. x\<lparr>tp_subscribers := map_set (tp_subscribers x) name client\<rparr>)"

definition Topic_Handle :: "'z ps_ctx_scheme ps_env \<Rightarrow> nat \<Rightarrow> string \<Rightarrow> ('z ps_ctx_scheme, err) comp" where
  "Topic_Handle pe t msg = traced ''pubsub.Topic.Handle'' [] (\<lambda>c.
     case ParseMessage (pe_ser pe) msg of
       Inl e \<Rightarrow> do { SetMessage c ''failed to unmarshal message''; SetError c (Some e) }
     | Inr obj \<Rightarrow> do {
         subscribers \<leftarrow> gets (\<lambda>s. tp_subscribers (topic_at s t));
         each (\<lambda>(name, client). do {
           e \<leftarrow> pe_client pe client obj;
           (if e \<noteq> None then Log LogWarn ''failed to handle message'' None [[(''subscriber'', VStr name)]] else ret ()) })
           subscribers;
         ret None })"

section \<open>The subscriber\<close>

definition obj_at :: "'z ps_ctx_scheme \<Rightarrow> nat \<Rightarrow> sub_obj" where
  "obj_at s j = (if j < length (ps_objs s) then ps_objs s ! j else \<lparr>so_topics = [], so_redis = None, so_channels = []\<rparr>)"

definition upd_obj :: "nat \<Rightarrow> (sub_obj \<Rightarrow> sub_obj) \<Rightarrow> ('z ps_ctx_scheme, unit) comp" where
  "upd_obj j f = modifys (\<lambda>s. s\<lparr>ps_objs := (ps_objs s)[j := f (obj_at s j)]\<rparr>)"

definition new_obj :: "redis_config option \<Rightarrow> ('z ps_ctx_scheme, nat) comp" where
  "new_obj rc = do {
     j \<leftarrow> gets (\<lambda>s. length (ps_objs s));
     modifys (\<lambda>s. s\<lparr>ps_objs := ps_objs s @ [\<lparr>so_topics = [], so_redis = rc, so_channels = []\<rparr>]\<rparr>);
     ret j }"

definition Subscriber_Topics :: "'z ps_ctx_scheme \<Rightarrow> nat \<Rightarrow> string \<Rightarrow> goerror + (string \<times> nat) list" where
  "Subscriber_Topics s j topicName = (case map_get (so_topics (obj_at s j)) topicName of
     None \<Rightarrow> Inl (NativeError ''topics not found'') | Some topics \<Rightarrow> Inr topics)"

text \<open>The first topic that fails ends the loop.\<close>

fun handle_topics :: "'z ps_ctx_scheme ps_env \<Rightarrow> (string \<times> nat) list \<Rightarrow> string \<Rightarrow> ('z ps_ctx_scheme, err) comp" where
  "handle_topics pe [] msg = ret None"
| "handle_topics pe ((_, t) # topics) msg = do {
     e \<leftarrow> Topic_Handle pe t msg;
     (if e \<noteq> None then ret e else handle_topics pe topics msg) }"

definition Subscriber_Handle :: "'z ps_ctx_scheme ps_env \<Rightarrow> nat \<Rightarrow> string \<Rightarrow> string \<Rightarrow> ('z ps_ctx_scheme, err) comp" where
  "Subscriber_Handle pe j topicName msg = do {
     topics \<leftarrow> gets (\<lambda>s. map_get (so_topics (obj_at s j)) topicName);
     (case topics of None \<Rightarrow> ret None | Some topics \<Rightarrow> handle_topics pe topics msg) }"

definition AddTopic :: "nat \<Rightarrow> nat \<Rightarrow> ('z ps_ctx_scheme, string \<times> err) comp" where
  "AddTopic j t = do {
     subscriptionId \<leftarrow> GenerateID;
     name \<leftarrow> gets (\<lambda>s. tp_name (topic_at s t));
     upd_obj j (\<lambda>x.
       let topics = (case map_get (so_topics x) name of None \<Rightarrow> [] | Some topics \<Rightarrow> topics)
       in x\<lparr>so_topics := map_set (so_topics x) name (map_set topics subscriptionId t)\<rparr>);
     ret (subscriptionId, None) }"

definition delete_subscription :: "string \<Rightarrow> string list \<Rightarrow> sub_obj \<Rightarrow> bool \<times> sub_obj" where
  "delete_subscription topicName subscriptionId x =
     (if length subscriptionId = 0 then (True, x\<lparr>so_topics := AList.delete topicName (so_topics x)\<rparr>)
      else case map_get (so_topics x) topicName of
             None \<Rightarrow> (True, x)
           | Some topics \<Rightarrow>
               (let topics = AList.delete (subscriptionId ! 0) topics in
                if length topics = 0 then (True, x\<lparr>so_topics := AList.delete topicName (so_topics x)\<rparr>)
                else (False, x\<lparr>so_topics := map_set (so_topics x) topicName topics\<rparr>)))"

definition DeleteTopic :: "nat \<Rightarrow> string \<Rightarrow> string list \<Rightarrow> ('z ps_ctx_scheme, bool) comp" where
  "DeleteTopic j topicName subscriptionId = do {
     r \<leftarrow> gets (\<lambda>s. fst (delete_subscription topicName subscriptionId (obj_at s j)));
     upd_obj j (\<lambda>x. snd (delete_subscription topicName subscriptionId x));
     ret r }"

text \<open>A message is handled in an operation context of its own; that of the caller is back afterwards.\<close>

definition NewOpContext :: "app_info \<Rightarrow> string \<Rightarrow> ('z op_ctx_scheme, unit) comp" where
  "NewOpContext app topicName = do {
     ContextBase_Init (app_Db app) (app_Cache app) [];
     SetName topicName;
     modifys (\<lambda>s. s\<lparr>errorManager := ErrorManagerBase_Init StatusInternalServerError\<rparr>);
     SetOrigin ((NewOrigin (app_Application app) (app_Instance app) (app_Hostname app))\<lparr>o_UserType := ''pubsub''\<rparr>) }"

definition resume :: "'z op_ctx_scheme \<Rightarrow> 'z op_ctx_scheme \<Rightarrow> 'z op_ctx_scheme" where
  "resume s x = x\<lparr>calls := calls s, stack := stack s, errorStack := errorStack s, genericError := genericError s,
     ctx_id := ctx_id s, ctx_name := ctx_name s, loggerFields := loggerFields s, errorAsWarn := errorAsWarn s,
     oplogs := oplogs s, origin := origin s, writeCloseLog := writeCloseLog s, mainDb := mainDb s, curDb := curDb s,
     curCache := curCache s, dbTransaction := dbTransaction s, errorManager := errorManager s\<rparr>"

definition in_new_context :: "dbhandlers \<Rightarrow> app_info \<Rightarrow> string \<Rightarrow> ('z op_ctx_scheme, 'a) comp \<Rightarrow> ('z op_ctx_scheme, 'a) comp" where
  "in_new_context h app topicName body = do {
     s \<leftarrow> gets (\<lambda>s. s);
     NewOpContext app topicName;
     r \<leftarrow> body;
     Close h [];
     modifys (resume s);
     ret r }"

section \<open>The provider in memory\<close>

definition Inmem_Provider :: string where "Inmem_Provider = ''inmem''"

definition Inmem_New :: "('z ps_ctx_scheme, nat) comp" where
  "Inmem_New = new_obj None"

definition Inmem_Publish :: "'z ps_ctx_scheme ps_env \<Rightarrow> nat \<Rightarrow> string \<Rightarrow> gval \<Rightarrow> ('z ps_ctx_scheme, err) comp" where
  "Inmem_Publish pe j topicName obj = (case SerializeMessage (pe_ser pe) obj of
     Inl e \<Rightarrow> ret (Some e)
   | Inr msg \<Rightarrow> do {
       in_new_context (pe_handlers pe) (pe_app pe) topicName (Subscriber_Handle pe j topicName msg);
       ret None })"

section \<open>The provider over Redis\<close>

definition Redis_Provider :: string where "Redis_Provider = ''redis''"

definition push_fatal :: "string \<Rightarrow> err \<Rightarrow> fields list \<Rightarrow> ('z ps_ctx_scheme, err) comp" where
  "push_fatal msg e fs = do {
     r \<leftarrow> gets (\<lambda>s. PushFatalStack msg e fs (ps_fatal s));
     modifys (\<lambda>s. s\<lparr>ps_fatal := snd r\<rparr>);
     ret (Some (fst r)) }"

definition InitWithConfig :: "'z ps_ctx_scheme ps_env \<Rightarrow> redis_config \<Rightarrow> ('z ps_ctx_scheme, err) comp" where
  "InitWithConfig pe cfg = do {
     e \<leftarrow> rl_Ping (pe_redis pe) cfg;
     (if e \<noteq> None then push_fatal ''failed to connect to Redis server'' e [] else ret None) }"

definition RedisClient_Init :: "'z ps_ctx_scheme ps_env \<Rightarrow> string \<Rightarrow> ('z ps_ctx_scheme, redis_config option \<times> err) comp" where
  "RedisClient_Init pe configPath = (case rl_Load (pe_redis pe) configPath of
     Inl e \<Rightarrow> do { e \<leftarrow> push_fatal ''failed to init Redis client'' (Some e) []; ret (None, e) }
   | Inr cfg \<Rightarrow> do { e \<leftarrow> InitWithConfig pe cfg; ret (Some cfg, e) })"

definition Redis_Publish :: "'z ps_ctx_scheme ps_env \<Rightarrow> redis_config \<Rightarrow> string \<Rightarrow> gval \<Rightarrow> ('z ps_ctx_scheme, err) comp" where
  "Redis_Publish pe cfg topicName obj = (case SerializeMessage (pe_ser pe) obj of
     Inl e \<Rightarrow> ret (Some e)
   | Inr payload \<Rightarrow> rl_Publish (pe_redis pe) cfg topicName payload)"

text \<open>A channel that cannot be read leaves the topic added.\<close>

definition Redis_Subscribe :: "'z ps_ctx_scheme ps_env \<Rightarrow> redis_config \<Rightarrow> nat \<Rightarrow> nat \<Rightarrow> ('z ps_ctx_scheme, string \<times> err) comp" where
  "Redis_Subscribe pe cfg j t = do {
     (subscriptionId, e) \<leftarrow> AddTopic j t;
     (if e \<noteq> None then ret ([], e)
      else do {
        name \<leftarrow> gets (\<lambda>s. tp_name (topic_at s t));
        channels \<leftarrow> gets (\<lambda>s. so_channels (obj_at s j));
        (if name \<in> set channels then ret (subscriptionId, None)
         else do {
           e \<leftarrow> rl_Receive (pe_redis pe) cfg name;
           (case e of
              Some e \<Rightarrow> ret ([], errors_New (''failed to receive from redis pubsub channel: '' @ error_text e))
            | None \<Rightarrow> do {
                upd_obj j (\<lambda>x. x\<lparr>so_channels := so_channels x @ [name]\<rparr>);
                ret (subscriptionId, None) }) }) }) }"

text \<open>What the goroutine of a channel does with each message.\<close>

definition Redis_readMessage :: "'z ps_ctx_scheme ps_env \<Rightarrow> nat \<Rightarrow> string \<Rightarrow> string \<Rightarrow> ('z ps_ctx_scheme, unit) comp" where
  "Redis_readMessage pe j topicName payload = do {
     in_new_context (pe_handlers pe) (pe_app pe) topicName (Subscriber_Handle pe j topicName payload);
     ret () }"

definition Redis_Unsubscribe :: "'z ps_ctx_scheme ps_env \<Rightarrow> redis_config \<Rightarrow> nat \<Rightarrow> string \<Rightarrow> string list \<Rightarrow> ('z ps_ctx_scheme, unit) comp" where
  "Redis_Unsubscribe pe cfg j topicName subscriptionId = do {
     unsubscribe \<leftarrow> DeleteTopic j topicName subscriptionId;
     (if \<not> unsubscribe then ret ()
      else do {
        channels \<leftarrow> gets (\<lambda>s. so_channels (obj_at s j));
        (if topicName \<notin> set channels then ret ()
         else do {
           rl_Unsubscribe (pe_redis pe) cfg topicName;
           upd_obj j (\<lambda>x. x\<lparr>so_channels := filter (\<lambda>n. n \<noteq> topicName) (so_channels x)\<rparr>) }) }) }"

section \<open>The interfaces\<close>

definition Publish :: "'z ps_ctx_scheme ps_env \<Rightarrow> publisher \<Rightarrow> string \<Rightarrow> gval \<Rightarrow> ('z ps_ctx_scheme, err) comp" where
  "Publish pe p topicName obj = (case p of
     InmemPublisher j \<Rightarrow> Inmem_Publish pe j topicName obj
   | RedisPublisher cfg \<Rightarrow> Redis_Publish pe cfg topicName obj)"

definition Subscribe :: "'z ps_ctx_scheme ps_env \<Rightarrow> nat \<Rightarrow> nat \<Rightarrow> ('z ps_ctx_scheme, string \<times> err) comp" where
  "Subscribe pe j t = do {
     rc \<leftarrow> gets (\<lambda>s. so_redis (obj_at s j));
     (case rc of None \<Rightarrow> AddTopic j t | Some cfg \<Rightarrow> Redis_Subscribe pe cfg j t) }"

definition Unsubscribe :: "'z ps_ctx_scheme ps_env \<Rightarrow> nat \<Rightarrow> string \<Rightarrow> string list \<Rightarrow> ('z ps_ctx_scheme, unit) comp" where
  "Unsubscribe pe j topicName subscriptionId = do {
     rc \<leftarrow> gets (\<lambda>s. so_redis (obj_at s j));
     (case rc of
        None \<Rightarrow> do { DeleteTopic j topicName subscriptionId; ret () }
      | Some cfg \<Rightarrow> Redis_Unsubscribe pe cfg j topicName subscriptionId) }"

definition Publisher_Shutdown :: "'z ps_ctx_scheme ps_env \<Rightarrow> publisher \<Rightarrow> ('z ps_ctx_scheme, err) comp" where
  "Publisher_Shutdown pe p = (case p of InmemPublisher j \<Rightarrow> ret None | RedisPublisher cfg \<Rightarrow> rl_Close (pe_redis pe) cfg)"

definition Subscriber_Shutdown :: "'z ps_ctx_scheme ps_env \<Rightarrow> nat \<Rightarrow> ('z ps_ctx_scheme, err) comp" where
  "Subscriber_Shutdown pe j = do {
     rc \<leftarrow> gets (\<lambda>s. so_redis (obj_at s j));
     (case rc of None \<Rightarrow> ret None | Some cfg \<Rightarrow> rl_Close (pe_redis pe) cfg) }"

section \<open>The factory\<close>

definition SingletonInmemProvider :: string where "SingletonInmemProvider = ''singleton_inmem''"
definition TypePubsub :: string where "TypePubsub = ''pubsub''"

type_synonym pubsub_config = "binding option \<times> string"

definition splitConfig :: "pubsub_config list \<Rightarrow> binding option \<times> string" where
  "splitConfig config = (if length config \<noteq> 0 then config ! 0 else (None, ''pubsub''))"

definition config_key :: "string \<Rightarrow> string \<Rightarrow> string" where
  "config_key path key = (if path = [] then key else path @ ''.'' @ key)"

definition provider :: "'s ps_env \<Rightarrow> binding option \<Rightarrow> string \<Rightarrow> string" where
  "provider pe poolService configPath = (case poolService of
     Some b \<Rightarrow> PROVIDER (bd_data b)
   | None \<Rightarrow> pe_GetString pe (config_key configPath ''provider''))"

text \<open>Without a service of a pool reading its name of the database dereferences a nil pointer.\<close>

definition service_DbName :: "binding option \<Rightarrow> ('z sys_scheme, string) comp" where
  "service_DbName poolService = (case poolService of None \<Rightarrow> go_panic [] | Some b \<Rightarrow> ret (DB_NAME (bd_data b)))"

definition MakeInmemPubsub :: "binding option \<Rightarrow> ('z ps_ctx_scheme, nat) comp" where
  "MakeInmemPubsub poolService = do {
     name \<leftarrow> service_DbName poolService;
     m \<leftarrow> gets ps_inmems;
     (case map_get m name of
        Some j \<Rightarrow> ret j
      | None \<Rightarrow> do {
          j \<leftarrow> Inmem_New;
          modifys (\<lambda>s. s\<lparr>ps_inmems := map_set (ps_inmems s) name j\<rparr>);
          ret j }) }"

definition ResetSingletonInmemPubsub :: "('z ps_ctx_scheme, unit) comp" where
  "ResetSingletonInmemPubsub = modifys (\<lambda>s. s\<lparr>ps_singleton := None\<rparr>)"

definition MakeSingletonInmemPubsub :: "binding option \<Rightarrow> ('z ps_ctx_scheme, nat) comp" where
  "MakeSingletonInmemPubsub poolService = do {
     modifys (\<lambda>s. if ps_singleton s = None then s\<lparr>ps_singleton := Some []\<rparr> else s);
     name \<leftarrow> service_DbName poolService;
     m \<leftarrow> gets (\<lambda>s. nil_list (ps_singleton s));
     (case map_get m name of
        Some j \<Rightarrow> ret j
      | None \<Rightarrow> do {
          j \<leftarrow> Inmem_New;
          modifys (\<lambda>s. s\<lparr>ps_singleton := Some (map_set (nil_list (ps_singleton s)) name j)\<rparr>);
          ret j }) }"

definition initRedis :: "'z ps_ctx_scheme ps_env \<Rightarrow> binding option \<Rightarrow> string
    \<Rightarrow> ('z ps_ctx_scheme, redis_config option \<times> err) comp" where
  "initRedis pe poolService configPath = (case poolService of
     None \<Rightarrow> RedisClient_Init pe configPath
   | Some b \<Rightarrow>
       (case (if DB_NAME (bd_data b) \<noteq> [] then StrToUint32 (DB_NAME (bd_data b)) else Inr 0) of
          Inl _ \<Rightarrow> ret (None, errors_New ''invalid number of redis database'')
        | Inr db \<Rightarrow> do {
            let cfg = \<lparr>rc_Host = PRIVATE_HOST (bd_data b), rc_Port = PRIVATE_PORT (bd_data b), rc_Db = db,
              rc_Password = SECRET1 (bd_data b)\<rparr>;
            e \<leftarrow> InitWithConfig pe cfg;
            ret (Some cfg, e) }))"

definition MakePublisher :: "'z ps_ctx_scheme ps_env \<Rightarrow> pubsub_config list
    \<Rightarrow> ('z ps_ctx_scheme, publisher option \<times> err) comp" where
  "MakePublisher pe config = (let (poolService, configPath) = splitConfig config;
       prov = provider pe poolService configPath in
     if prov = Redis_Provider then do {
       (cfg, e) \<leftarrow> initRedis pe poolService configPath;
       (if e \<noteq> None then ret (None, e) else ret (map_option RedisPublisher cfg, None)) }
     else if prov = Inmem_Provider then do { j \<leftarrow> MakeInmemPubsub poolService; ret (Some (InmemPublisher j), None) }
     else if prov = SingletonInmemProvider then do {
       j \<leftarrow> MakeSingletonInmemPubsub poolService; ret (Some (InmemPublisher j), None) }
     else ret (None, errors_New ''unknown pubsub publisher provider''))"

definition MakeSubscriber :: "'z ps_ctx_scheme ps_env \<Rightarrow> pubsub_config list
    \<Rightarrow> ('z ps_ctx_scheme, nat option \<times> err) comp" where
  "MakeSubscriber pe config = (let (poolService, configPath) = splitConfig config;
       prov = provider pe poolService configPath in
     if prov = Redis_Provider then do {
       (cfg, e) \<leftarrow> initRedis pe poolService configPath;
       (if e \<noteq> None then ret (None, e) else do { j \<leftarrow> new_obj cfg; ret (Some j, None) }) }
     else if prov = Inmem_Provider then do { j \<leftarrow> MakeInmemPubsub poolService; ret (Some j, None) }
     else if prov = SingletonInmemProvider then do { j \<leftarrow> MakeSingletonInmemPubsub poolService; ret (Some j, None) }
     else ret (None, errors_New ''unknown pubsub subscriber provider''))"

section \<open>The pools\<close>

definition pool_fields :: "pool \<Rightarrow> fields" where
  "pool_fields poo = [(''pool_id'', VStr (obj_id poo)), (''pool_name'', VStr (pl_NAME poo))]"

text \<open>Warnings and messages of the application's logger are entries of the log.\<close>

definition app_log :: "log_level \<Rightarrow> string \<Rightarrow> fields \<Rightarrow> ('z sys_scheme, unit) comp" where
  "app_log lv msg fs = modifys (\<lambda>s. s\<lparr>logs := logs s @ [LogEntry lv msg None fs]\<rparr>)"

definition makePublisher :: "'z ps_ctx_scheme ps_env \<Rightarrow> pool
    \<Rightarrow> ('z ps_ctx_scheme, publisher option \<times> pubsub_config option \<times> err) comp" where
  "makePublisher pe poo = (case Pool_Service poo TypePubsub of
     Inl e \<Rightarrow> do {
       e \<leftarrow> push_fatal ''failed to find pubsub service in pool'' (Some e) [pool_fields poo];
       ret (None, None, e) }
   | Inr service \<Rightarrow>
       if \<not> sd_ACTIVE (bd_data service) then do {
         app_log LogWarn ''Pubsub skipped for inactive service''
           (map_set (pool_fields poo) ''service_name'' (VStr (bd_ServiceName service)));
         ret (None, None, None) }
       else do {
         let cfg = (Some service, []);
         (publisher, e) \<leftarrow> MakePublisher pe [cfg];
         (case publisher of
            None \<Rightarrow> do {
              e \<leftarrow> push_fatal ''failed to make pubsub publisher for pool'' e [pool_fields poo];
              ret (None, None, e) }
          | Some publisher \<Rightarrow> do {
              modifys (\<lambda>s. s\<lparr>ps_publishers := map_set (ps_publishers s) (obj_id poo) publisher\<rparr>);
              app_log LogInfo ''Pubsub publisher connected'' (pool_fields poo);
              ret (Some publisher, Some cfg, None) }) })"

definition makeSubscriber :: "'z ps_ctx_scheme ps_env \<Rightarrow> pool \<Rightarrow> pubsub_config
    \<Rightarrow> ('z ps_ctx_scheme, nat option \<times> err) comp" where
  "makeSubscriber pe poo cfg = do {
     (subscriber, e) \<leftarrow> MakeSubscriber pe [cfg];
     (case subscriber of
        None \<Rightarrow> do {
          e \<leftarrow> push_fatal ''failed to make pubsub subscriber for pool'' e [pool_fields poo];
          ret (None, e) }
      | Some j \<Rightarrow> do {
          modifys (\<lambda>s. s\<lparr>ps_subscribers := map_set (ps_subscribers s) (obj_id poo) j\<rparr>);
          app_log LogInfo ''Pubsub subscriber connected'' (pool_fields poo);
          ret (Some j, None) }) }"

fun init_pools :: "'z ps_ctx_scheme ps_env \<Rightarrow> pool list \<Rightarrow> ('z ps_ctx_scheme, err) comp" where
  "init_pools pe [] = ret None"
| "init_pools pe (poo # pools) =
     (if pl_ACTIVE poo then do {
        (_, cfg, e) \<leftarrow> makePublisher pe poo;
        (if e \<noteq> None then ret e
         else case cfg of
           None \<Rightarrow> init_pools pe pools
         | Some cfg \<Rightarrow> do {
             (_, e) \<leftarrow> makeSubscriber pe poo cfg;
             (if e \<noteq> None then ret e else init_pools pe pools) }) }
      else do {
        app_log LogWarn ''Pubsub skipped for inactive pool'' (pool_fields poo);
        init_pools pe pools })"

definition PoolPubsub_Init :: "'z ps_ctx_scheme ps_env \<Rightarrow> pool_store \<Rightarrow> ('z ps_ctx_scheme, err) comp" where
  "PoolPubsub_Init pe pools = (case SelfPool pools of
     Inr poo \<Rightarrow>
       (if \<not> pl_ACTIVE poo then do {
          app_log LogWarn ''Pubsub skipped for inactive pool'' (pool_fields poo);
          ret None }
        else do {
          (publisher, cfg, e) \<leftarrow> makePublisher pe poo;
          modifys (\<lambda>s. s\<lparr>ps_selfPublisher := publisher\<rparr>);
          (if e \<noteq> None then push_fatal ''failed to make pubsub publisher in self pool'' e []
           else case cfg of
             None \<Rightarrow> ret None
           | Some cfg \<Rightarrow> do {
               (subscriber, e) \<leftarrow> makeSubscriber pe poo cfg;
               modifys (\<lambda>s. s\<lparr>ps_selfSubscriber := subscriber\<rparr>);
               (if e \<noteq> None then push_fatal ''failed to make pubsub subscriber in self pool'' e [] else ret None) }) })
   | Inl _ \<Rightarrow> init_pools pe (Pools pools))"

text \<open>The subscribers of the pools are not shut down.\<close>

fun shutdown_all :: "'z ps_ctx_scheme ps_env \<Rightarrow> publisher list \<Rightarrow> err \<Rightarrow> ('z ps_ctx_scheme, err) comp" where
  "shutdown_all pe [] e = ret e"
| "shutdown_all pe (p # ps) e = do {
     e1 \<leftarrow> Publisher_Shutdown pe p;
     shutdown_all pe ps (if e1 \<noteq> None then e1 else e) }"

definition PoolPubsub_Shutdown :: "'z ps_ctx_scheme ps_env \<Rightarrow> ('z ps_ctx_scheme, err) comp" where
  "PoolPubsub_Shutdown pe = do {
     sp \<leftarrow> gets ps_selfPublisher;
     e \<leftarrow> (case sp of None \<Rightarrow> ret None | Some p \<Rightarrow> Publisher_Shutdown pe p);
     ss \<leftarrow> gets ps_selfSubscriber;
     e1 \<leftarrow> (case ss of None \<Rightarrow> ret None | Some j \<Rightarrow> Subscriber_Shutdown pe j);
     ps \<leftarrow> gets (\<lambda>s. map snd (ps_publishers s));
     shutdown_all pe ps (if e1 \<noteq> None then e1 else e) }"

definition PublishSelfPool :: "'z ps_ctx_scheme ps_env \<Rightarrow> string \<Rightarrow> gval \<Rightarrow> ('z ps_ctx_scheme, err) comp" where
  "PublishSelfPool pe topicName msg = do {
     sp \<leftarrow> gets ps_selfPublisher;
     (case sp of None \<Rightarrow> ret (errors_New ''self publisher not set'') | Some p \<Rightarrow> Publish pe p topicName msg) }"

fun publish_all :: "'z ps_ctx_scheme ps_env \<Rightarrow> (string \<times> publisher) list \<Rightarrow> string \<Rightarrow> gval \<Rightarrow> ('z ps_ctx_scheme, err) comp" where
  "publish_all pe [] topicName msg = ret None"
| "publish_all pe ((poolId, p) # ps) topicName msg = do {
     e \<leftarrow> Publish pe p topicName msg;
     (if e \<noteq> None then ret (errors_New (''failed to publish to '' @ poolId @ '' pool''))
      else publish_all pe ps topicName msg) }"

text \<open>Pools without a publisher are passed over.\<close>

fun known :: "(string \<times> 'a) list \<Rightarrow> string list \<Rightarrow> (string \<times> 'a) list" where
  "known m [] = []"
| "known m (i # is) = (case map_get m i of None \<Rightarrow> known m is | Some p \<Rightarrow> (i, p) # known m is)"

definition PublishPools :: "'z ps_ctx_scheme ps_env \<Rightarrow> string \<Rightarrow> gval \<Rightarrow> string list \<Rightarrow> ('z ps_ctx_scheme, err) comp" where
  "PublishPools pe topicName msg poolIds = do {
     m \<leftarrow> gets ps_publishers;
     publish_all pe (if length poolIds = 0 then m else known m poolIds) topicName msg }"

definition SubscribeSelfPool :: "'z ps_ctx_scheme ps_env \<Rightarrow> nat \<Rightarrow> ('z ps_ctx_scheme, string \<times> err) comp" where
  "SubscribeSelfPool pe t = do {
     name \<leftarrow> gets (\<lambda>s. tp_name (topic_at s t));
     traced ''PoolPubsub.SubscribeSelfPool'' [[(''topic'', VStr name), (''app'', VStr (app_Instance (pe_app pe)))]] (\<lambda>c. do {
       ss \<leftarrow> gets ps_selfSubscriber;
       (case ss of
          None \<Rightarrow> do { e \<leftarrow> SetErrorStr c ''self pool subscriber not set''; ret ([], e) }
        | Some j \<Rightarrow> do {
            (subscriptionId, e) \<leftarrow> Subscribe pe j t;
            (if e \<noteq> None then do { e \<leftarrow> SetError c e; ret ([], e) }
             else do {
               SetCallField c ''subscription_id'' (VStr subscriptionId);
               Log LogDebug ''topic was subscribed to self pool'' None [];
               ret (subscriptionId, None) }) }) }) }"

definition UnsubscribeSelfPool :: "'z ps_ctx_scheme ps_env \<Rightarrow> string \<Rightarrow> ('z ps_ctx_scheme, unit) comp" where
  "UnsubscribeSelfPool pe topicName = do {
     ss \<leftarrow> gets ps_selfSubscriber;
     (case ss of None \<Rightarrow> ret () | Some j \<Rightarrow> Unsubscribe pe j topicName []) }"

definition subscribe_pool :: "'z ps_ctx_scheme ps_env \<Rightarrow> nat \<Rightarrow> nat \<Rightarrow> nat \<Rightarrow> string \<Rightarrow> (string \<times> string) list
    \<Rightarrow> ('z ps_ctx_scheme, (string \<times> string) list option \<times> err) comp" where
  "subscribe_pool pe c t j poolId subs = do {
     (subscriptionId, e) \<leftarrow> Subscribe pe j t;
     (if e \<noteq> None then do { SetMessage c ''failed to subscribe topic to pool''; e \<leftarrow> SetError c e; ret (None, e) }
      else do {
        SetCallField c ''subscription_id'' (VStr subscriptionId);
        Log LogDebug ''topic was subscribed to pool'' None [];
        ret (Some (map_set subs poolId subscriptionId), None) }) }"

fun subscribe_pools :: "'z ps_ctx_scheme ps_env \<Rightarrow> nat \<Rightarrow> nat \<Rightarrow> (string \<times> nat option) list \<Rightarrow> (string \<times> string) list
    \<Rightarrow> ('z ps_ctx_scheme, (string \<times> string) list option \<times> err) comp" where
  "subscribe_pools pe c t [] subs = ret (Some subs, None)"
| "subscribe_pools pe c t ((poolId, j) # ps) subs = do {
     SetCallField c ''pool_id'' (VStr poolId);
     (case j of
        None \<Rightarrow> do {
          Log LogWarn ''pubsub subscriber not found in pool'' None [];
          subscribe_pools pe c t ps subs }
      | Some j \<Rightarrow> do {
          (subs', e) \<leftarrow> subscribe_pool pe c t j poolId subs;
          (case subs' of None \<Rightarrow> ret (None, e) | Some subs \<Rightarrow> subscribe_pools pe c t ps subs) }) }"

definition SubscribePools :: "'z ps_ctx_scheme ps_env \<Rightarrow> nat \<Rightarrow> string list
    \<Rightarrow> ('z ps_ctx_scheme, (string \<times> string) list option \<times> err) comp" where
  "SubscribePools pe t poolIds = do {
     name \<leftarrow> gets (\<lambda>s. tp_name (topic_at s t));
     traced ''PoolPubsub.SubscribePools'' [[(''topic'', VStr name), (''app'', VStr (app_Instance (pe_app pe)))]] (\<lambda>c. do {
       m \<leftarrow> gets ps_subscribers;
       subscribe_pools pe c t
         (if length poolIds = 0 then map (\<lambda>(i, j). (i, Some j)) m else map (\<lambda>i. (i, map_get m i)) poolIds) [] }) }"

definition UnsubscribePools :: "'z ps_ctx_scheme ps_env \<Rightarrow> string \<Rightarrow> string list \<Rightarrow> ('z ps_ctx_scheme, unit) comp" where
  "UnsubscribePools pe topicName poolIds = do {
     m \<leftarrow> gets ps_subscribers;
     each (\<lambda>(_, j). Unsubscribe pe j topicName []) (if length poolIds = 0 then m else known m poolIds) }"

section \<open>Who receives a message\<close>

definition topics_named :: "'z ps_ctx_scheme \<Rightarrow> nat \<Rightarrow> string \<Rightarrow> (string \<times> nat) list" where
  "topics_named s j name = (case map_get (so_topics (obj_at s j)) name of None \<Rightarrow> [] | Some topics \<Rightarrow> topics)"

definition topic_clients :: "'z ps_ctx_scheme \<Rightarrow> nat \<Rightarrow> nat list" where
  "topic_clients s t = map snd (tp_subscribers (topic_at s t))"

definition recipients :: "'z ps_ctx_scheme \<Rightarrow> nat \<Rightarrow> string \<Rightarrow> nat list" where
  "recipients s j name = concat (map (\<lambda>(_, t). topic_clients s t) (topics_named s j name))"

text \<open>
  Clients that keep a log of what they receive, somewhere outside the operation context, and do not
  subscribe or unsubscribe while they handle a message.
\<close>

definition subscriptions :: "'z ps_ctx_scheme \<Rightarrow> _" where
  "subscriptions s = (ps_topics s, ps_objs s, ps_publishers s, ps_subscribers s, ps_selfPublisher s, ps_selfSubscriber s)"

definition clients_log :: "'z ps_ctx_scheme ps_env \<Rightarrow> ('z ps_ctx_scheme \<Rightarrow> (nat \<times> gval) list) \<Rightarrow> bool" where
  "clients_log pe log \<longleftrightarrow>
     (\<forall>s s'. ps_ctx.more s = ps_ctx.more s' \<longrightarrow> log s = log s')
   \<and> (\<forall>cl obj s. subscriptions (snd (run_state (pe_client pe cl obj) s)) = subscriptions s
        \<and> log (snd (run_state (pe_client pe cl obj) s)) = log s @ [(cl, obj)])"

lemma subscriptions_more: "op_ctx.more s = op_ctx.more s' \<Longrightarrow> subscriptions s = subscriptions s'"
  by (cases s, cases s') (simp add: subscriptions_def)

lemma more_more: "op_ctx.more s = op_ctx.more s' \<Longrightarrow> ps_ctx.more s = ps_ctx.more s'"
  by (cases s, cases s') simp

lemma ps_core [simp]:
  "ps_topics (core s) = ps_topics s" "ps_objs (core s) = ps_objs s" "ps_publishers (core s) = ps_publishers s"
  "ps_subscribers (core s) = ps_subscribers s" "ps_selfPublisher (core s) = ps_selfPublisher s"
  "ps_selfSubscriber (core s) = ps_selfSubscriber s" "ps_ctx.more (core s) = ps_ctx.more s"
  by (simp_all add: core_def)

lemma ps_core_at [simp]: "topic_at (core s) t = topic_at s t" "obj_at (core s) j = obj_at s j"
  by (simp_all add: topic_at_def obj_at_def)

lemma ps_core_views [simp]:
  "topic_clients (core s) t = topic_clients s t" "topics_named (core s) j name = topics_named s j name"
  by (simp_all add: topic_clients_def topics_named_def)

lemma recipients_core [simp]: "recipients (core s) j name = recipients s j name"
  by (simp add: recipients_def)

lemma subscriptions_core [simp]: "subscriptions (core s) = subscriptions s"
  by (rule subscriptions_more) simp

lemma views_subscriptions:
  assumes "subscriptions s = subscriptions s'"
  shows "topics_named s = topics_named s'" "topic_clients s = topic_clients s'" "recipients s = recipients s'"
proof -
  show t: "topics_named s = topics_named s'" "topic_clients s = topic_clients s'"
    using assms by (auto simp: topics_named_def topic_clients_def obj_at_def topic_at_def subscriptions_def fun_eq_iff)
  show "recipients s = recipients s'" by (simp add: recipients_def t fun_eq_iff)
qed

lemma clients_logD:
  assumes "clients_log pe log"
  shows "op_ctx.more s = op_ctx.more s' \<Longrightarrow> log s = log s'" "log (core s) = log s"
    "subscriptions (snd (run_state (pe_client pe cl obj) s)) = subscriptions s"
    "log (snd (run_state (pe_client pe cl obj) s)) = log s @ [(cl, obj)]"
    "ps_ctx.more s = ps_ctx.more s' \<Longrightarrow> log s = log s'"
  using assms core_reads(20) [of s] more_more unfolding clients_log_def by blast+

text \<open>A state after a message was handed to some clients.\<close>

definition delivered :: "('z ps_ctx_scheme \<Rightarrow> (nat \<times> gval) list) \<Rightarrow> nat list \<Rightarrow> gval \<Rightarrow> 'z ps_ctx_scheme \<Rightarrow> 'z ps_ctx_scheme \<Rightarrow> bool" where
  "delivered log cls obj s s' \<longleftrightarrow> subscriptions s' = subscriptions s \<and> log s' = log s @ map (\<lambda>cl. (cl, obj)) cls"

lemma delivered_trans:
  "delivered log as obj s t \<Longrightarrow> delivered log bs obj t u \<Longrightarrow> delivered log (as @ bs) obj s u"
  by (simp add: delivered_def)

lemma delivered_more:
  assumes "clients_log pe log" "op_ctx.more s' = op_ctx.more s"
  shows "delivered log [] obj s s'"
  using clients_logD(1) [OF assms] subscriptions_more [OF assms(2)] by (simp add: delivered_def)

lemma delivered_core:
  "clients_log pe log \<Longrightarrow> delivered log cls obj (core s) s' = delivered log cls obj s s'"
  "clients_log pe log \<Longrightarrow> delivered log cls obj s (core s') = delivered log cls obj s s'"
  by (simp_all add: delivered_def clients_logD(2))

lemma wpc_client:
  assumes "clients_log pe log"
  shows "wpc (pe_client pe cl obj) (\<lambda>e k'. delivered log [cl] obj k k') k"
  unfolding wpc_def
proof (intro allI impI)
  fix s assume c: "core s = core k"
  have "op_ctx.more s = op_ctx.more k" using c by (rule core_eqD(15))
  then have "log s = log k" "subscriptions s = subscriptions k"
    using clients_logD(1) [OF assms] subscriptions_more by blast+
  moreover have "subscriptions (snd (run_state (pe_client pe cl obj) s)) = subscriptions s"
    "log (snd (run_state (pe_client pe cl obj) s)) = log s @ [(cl, obj)]"
    by (rule clients_logD(3,4) [OF assms])+
  ultimately show "delivered log [cl] obj k (core (snd (run_state (pe_client pe cl obj) s)))"
    unfolding delivered_core(2) [OF assms] by (simp add: delivered_def)
qed

lemma wpc_clients:
  assumes "clients_log pe log"
  shows "wpc (each (\<lambda>(name, client). do {
       e \<leftarrow> pe_client pe client obj;
       (if e \<noteq> None then Log LogWarn msg None (fs name) else ret ()) }) cls)
     (\<lambda>_ k'. delivered log (map snd cls) obj k k') k"
proof (induction cls arbitrary: k)
  case Nil
  show ?case by (simp, rule wpc_ret) (simp add: delivered_core [OF assms] delivered_more [OF assms])
next
  case (Cons c cls)
  obtain n cl where c: "c = (n, cl)" by fastforce
  show ?case unfolding c each.simps
    by (intro wpc wpc_mono [OF wpc_client [OF assms]] wpc_mono [OF Cons.IH])
      (auto simp: delivered_def clients_logD(2) [OF assms] intro!: wpc wpc_mono [OF Cons.IH])
qed

lemma wpc_Topic_Handle:
  assumes "clients_log pe log" "ParseMessage (pe_ser pe) msg = Inr obj"
  shows "wpc (Topic_Handle pe t msg) (\<lambda>e k'. e = None \<and> delivered log (topic_clients k t) obj k k') k"
  unfolding Topic_Handle_def assms(2) sum.case
  by (intro wpc wpc_mono [OF wpc_clients [OF assms(1)]])
    (auto simp: topic_clients_def delivered_core [OF assms(1)] intro!: wpc)

lemma wpc_handle_topics:
  assumes "clients_log pe log" "ParseMessage (pe_ser pe) msg = Inr obj"
  shows "wpc (handle_topics pe topics msg)
     (\<lambda>e k'. e = None \<and> delivered log (concat (map (\<lambda>(_, t). topic_clients k t) topics)) obj k k') k"
proof (induction topics arbitrary: k)
  case Nil
  show ?case by (simp, rule wpc_ret) (simp add: delivered_core [OF assms(1)] delivered_more [OF assms(1)])
next
  case (Cons x topics)
  obtain i t where x: "x = (i, t)" by fastforce
  have "delivered log (topic_clients k t @ concat (map (\<lambda>(_, t). topic_clients k t) topics)) obj k k''"
    if "delivered log (topic_clients k t) obj k k'" "delivered log (concat (map (\<lambda>(_, t). topic_clients k' t) topics)) obj k' k''"
    for k' k'' :: "'a ps_ctx_scheme"
    using delivered_trans [OF that] views_subscriptions(2) [of k' k] that(1) by (simp add: delivered_def)
  then show ?case unfolding x handle_topics.simps
    by (intro wpc wpc_mono [OF wpc_Topic_Handle [OF assms]]) (auto intro!: wpc_mono [OF Cons.IH])
qed

lemma wpc_Subscriber_Handle:
  assumes "clients_log pe log" "ParseMessage (pe_ser pe) msg = Inr obj"
  shows "wpc (Subscriber_Handle pe j name msg) (\<lambda>e k'. e = None \<and> delivered log (recipients k j name) obj k k') k"
  unfolding Subscriber_Handle_def
  by (intro wpc wpc_mono [OF wpc_handle_topics [OF assms]])
    (auto simp: recipients_def topics_named_def
      delivered_core [OF assms(1)] delivered_more [OF assms(1)])

text \<open>The context that a message is handled in changes nothing outside the operation context.\<close>

lemma more_NewOpContext: "state_io_rel (keeps op_ctx.more) (NewOpContext app name)"
  unfolding NewOpContext_def ContextBase_Init_def SetName_def SetOrigin_def
  by (intro io_rel io_rel_modifys) (simp_all add: keeps_def)

lemma more_Close: "state_io_rel (keeps op_ctx.more) (Close h msgs)"
  unfolding Close_def Oplog_Write_def DumpLog_def ClearError_def UnsetLoggerField_def Let_def
  by (intro io_rel io_rel_modifys) (simp_all add: keeps_def split: prod.splits)

lemma wpc_in_new_context:
  assumes "\<And>k'. op_ctx.more k' = op_ctx.more k \<Longrightarrow> wpc body (\<lambda>r k''. P r (op_ctx.more k'')) k'"
  shows "wpc (in_new_context h app name body) (\<lambda>r k''. P r (op_ctx.more k'')) k"
  unfolding wpc_def
proof (intro allI impI)
  fix s assume "core s = core k"
  then have s: "op_ctx.more s = op_ctx.more k" by (rule core_eqD(15))
  let ?s1 = "snd (run_state (NewOpContext app name) s)"
  let ?s2 = "snd (run_state body ?s1)"
  have "op_ctx.more ?s1 = op_ctx.more k" using keepsD [OF more_NewOpContext, of app name s] s by simp
  from wpcD [OF assms [OF this]] have "P (fst (run_state body ?s1)) (op_ctx.more ?s2)" by simp
  moreover have "op_ctx.more (snd (run_state (Close h []) ?s2)) = op_ctx.more ?s2" by (rule keepsD [OF more_Close])
  ultimately show "P (fst (run_state (in_new_context h app name body) s))
      (op_ctx.more (core (snd (run_state (in_new_context h app name body) s))))"
    by (simp add: in_new_context_def resume_def case_prod_unfold)
qed

lemma wpc_Inmem_Publish:
  assumes "clients_log pe log" "ser_roundtrip (pe_ser pe) obj"
  shows "wpc (Inmem_Publish pe j name obj) (\<lambda>e k'. e = None \<and> delivered log (recipients k j name) obj k k') k"
proof -
  from assms(2) obtain msg where msg: "SerializeMessage (pe_ser pe) obj = Inr msg" "ParseMessage (pe_ser pe) msg = Inr obj"
    by (auto simp: ser_roundtrip_def)
  let ?P = "\<lambda>r m. \<forall>x. op_ctx.more x = m \<longrightarrow> delivered log (recipients k j name) obj k x"
  have "wpc (in_new_context (pe_handlers pe) (pe_app pe) name (Subscriber_Handle pe j name msg)) (\<lambda>r k''. ?P r (op_ctx.more k'')) k"
  proof (rule wpc_in_new_context)
    fix k' :: "'a ps_ctx_scheme" assume m: "op_ctx.more k' = op_ctx.more k"
    have "delivered log (recipients k j name) obj k x"
      if "delivered log (recipients k' j name) obj k' k''" "op_ctx.more x = op_ctx.more k''" for x k''
      using that(1) clients_logD(1) [OF assms(1) m] clients_logD(1) [OF assms(1) that(2)]
        subscriptions_more [OF m] subscriptions_more [OF that(2)] views_subscriptions(3) [OF subscriptions_more [OF m]]
      by (simp add: delivered_def)
    then show "wpc (Subscriber_Handle pe j name msg) (\<lambda>r k''. ?P r (op_ctx.more k'')) k'"
      by (intro wpc_mono [OF wpc_Subscriber_Handle [OF assms(1) msg(2)]]) auto
  qed
  from this show ?thesis unfolding Inmem_Publish_def msg sum.case
    by (intro wpc_bind, elim wpc_mono) (auto intro!: wpc_ret simp: delivered_core [OF assms(1)])
qed

section \<open>Publishing to the pools\<close>

definition inmem_only :: "(string \<times> publisher) list \<Rightarrow> bool" where
  "inmem_only ps \<longleftrightarrow> list_all (\<lambda>(_, p). \<exists>j. p = InmemPublisher j) ps"

definition pool_recipients :: "'z ps_ctx_scheme \<Rightarrow> (string \<times> publisher) list \<Rightarrow> string \<Rightarrow> nat list" where
  "pool_recipients s ps name = concat (map (\<lambda>(_, p). case p of
     InmemPublisher j \<Rightarrow> recipients s j name | RedisPublisher cfg \<Rightarrow> []) ps)"

lemma wpc_publish_all:
  assumes "clients_log pe log" "ser_roundtrip (pe_ser pe) obj" "inmem_only ps"
  shows "wpc (publish_all pe ps name obj) (\<lambda>e k'. e = None \<and> delivered log (pool_recipients k ps name) obj k k') k"
  using assms(3)
proof (induction ps arbitrary: k)
  case Nil
  show ?case
    by (simp, rule wpc_ret) (simp add: delivered_core [OF assms(1)] delivered_more [OF assms(1)] pool_recipients_def)
next
  case (Cons x ps)
  from Cons.prems obtain i j where x: "x = (i, InmemPublisher j)" and ps: "inmem_only ps"
    by (auto simp: inmem_only_def)
  have "delivered log (pool_recipients k (x # ps) name) obj k k''"
    if "delivered log (recipients k j name) obj k k'" "delivered log (pool_recipients k' ps name) obj k' k''"
    for k' k'' :: "'a ps_ctx_scheme"
    using delivered_trans [OF that] views_subscriptions(3) [of k' k] that(1) by (simp add: delivered_def pool_recipients_def x)
  then show ?case unfolding x publish_all.simps Publish_def publisher.case
    by (intro wpc wpc_mono [OF wpc_Inmem_Publish [OF assms(1,2)]]) (auto intro!: wpc_mono [OF Cons.IH [OF ps]])
qed

lemma wpc_PublishPools:
  assumes "clients_log pe log" "ser_roundtrip (pe_ser pe) obj"
    and "ps = (if poolIds = [] then ps_publishers k else known (ps_publishers k) poolIds)" "inmem_only ps"
  shows "wpc (PublishPools pe name obj poolIds) (\<lambda>e k'. e = None \<and> delivered log (pool_recipients k ps name) obj k k') k"
  unfolding PublishPools_def
  by (intro wpc, simp_all add: assms(3) [symmetric])
    (rule wpc_mono [OF wpc_publish_all [OF assms(1,2,4)]], simp add: delivered_core [OF assms(1)] pool_recipients_def)

section \<open>Subscribing to the pools\<close>

definition inmem_subscriber :: "'z ps_ctx_scheme \<Rightarrow> nat \<Rightarrow> bool" where
  "inmem_subscriber s j \<longleftrightarrow> j < length (ps_objs s) \<and> so_redis (obj_at s j) = None"

text \<open>What a subscription leaves as it was: everything but the topics of that name.\<close>

definition subscribed :: "nat \<Rightarrow> 'z ps_ctx_scheme \<Rightarrow> 'z ps_ctx_scheme \<Rightarrow> bool" where
  "subscribed t s s' \<longleftrightarrow> ps_topics s' = ps_topics s \<and> ps_publishers s' = ps_publishers s \<and> ps_subscribers s' = ps_subscribers s
     \<and> ps_ctx.more s' = ps_ctx.more s \<and> (\<forall>j. inmem_subscriber s' j = inmem_subscriber s j)
     \<and> (\<forall>j n. n \<noteq> tp_name (topic_at s t) \<longrightarrow> topics_named s' j n = topics_named s j n)
     \<and> (\<forall>j. t \<in> snd ` set (topics_named s j (tp_name (topic_at s t))) \<longrightarrow>
          t \<in> snd ` set (topics_named s' j (tp_name (topic_at s t))))"

lemma subscribed_refl: "subscribed t s s"
  by (simp add: subscribed_def)

lemma topic_at_same: "ps_topics s' = ps_topics s \<Longrightarrow> topic_at s' = topic_at s"
  by (simp add: topic_at_def fun_eq_iff)

lemma subscribed_trans:
  assumes "subscribed t s s'" "subscribed t s' s''"
  shows "subscribed t s s''"
proof -
  have eq: "topic_at s' = topic_at s" using assms(1) by (intro topic_at_same) (simp add: subscribed_def)
  note a = assms(1) [unfolded subscribed_def] and b = assms(2) [unfolded subscribed_def eq]
  show ?thesis unfolding subscribed_def using a b by (intro conjI allI impI) simp_all
qed

lemma in_map_set: "t \<in> snd ` set (map_set m i t)"
proof -
  have "map_get (map_set m i t) i = Some t" by simp
  then have "(i, t) \<in> set (map_set m i t)" unfolding map_get_def by (rule map_of_SomeD)
  then show ?thesis by force
qed

definition topics_in :: "sub_obj list \<Rightarrow> nat \<Rightarrow> string \<Rightarrow> (string \<times> nat) list" where
  "topics_in L j n = (if j < length L then (case map_get (so_topics (L ! j)) n of None \<Rightarrow> [] | Some x \<Rightarrow> x) else [])"

lemma topics_named_in: "topics_named s j n = topics_in (ps_objs s) j n"
  by (simp add: topics_named_def topics_in_def obj_at_def)

lemma topics_in_update:
  "j < length L \<Longrightarrow> topics_in (L[j := x]) j' n =
    (if j' = j then (case map_get (so_topics x) n of None \<Rightarrow> [] | Some x \<Rightarrow> x) else topics_in L j' n)"
  by (simp add: topics_in_def)

lemma topics_in_nth: "j < length L \<Longrightarrow>
    (case map_get (so_topics (L ! j)) n of None \<Rightarrow> [] | Some x \<Rightarrow> x) = topics_in L j n"
  by (simp add: topics_in_def)

lemma topic_at_updates [simp]: "topic_at (s\<lparr>times := a\<rparr>) = topic_at s" "topic_at (s\<lparr>rands := b\<rparr>) = topic_at s"
  "topic_at (s\<lparr>idCount := c\<rparr>) = topic_at s" "topic_at (s\<lparr>ps_objs := x\<rparr>) = topic_at s"
  by (simp_all add: topic_at_def fun_eq_iff)

lemma inmem_subscriber_in: "inmem_subscriber s j \<longleftrightarrow> j < length (ps_objs s) \<and> so_redis (ps_objs s ! j) = None"
  by (auto simp: inmem_subscriber_def obj_at_def)

lemma core_ps_objs [simp]: "core (s\<lparr>ps_objs := x\<rparr>) = (core s)\<lparr>ps_objs := x\<rparr>"
  by (simp add: core_def)

lemma wpc_upd_obj [wpc]:
  "Q () (core (k\<lparr>ps_objs := (ps_objs k)[j := f (obj_at k j)]\<rparr>)) \<Longrightarrow> wpc (upd_obj j f) Q k"
  unfolding upd_obj_def by (rule wpc_modifys) simp_all

lemma AddTopic_wpc:
  assumes "inmem_subscriber k j"
  shows "wpc (AddTopic j t) (\<lambda>(i, e) k'. e = None \<and> subscribed t k k'
     \<and> t \<in> snd ` set (topics_named k' j (tp_name (topic_at k t)))) k"
  unfolding AddTopic_def Let_def
  by (intro wpc) (use assms in \<open>auto simp: subscribed_def topics_named_in topics_in_update topics_in_nth
      inmem_subscriber_in in_map_set obj_at_def nth_list_update\<close>)

lemma Subscribe_wpc:
  assumes "inmem_subscriber k j"
  shows "wpc (Subscribe pe j t) (\<lambda>(i, e) k'. e = None \<and> subscribed t k k'
     \<and> t \<in> snd ` set (topics_named k' j (tp_name (topic_at k t)))) k"
  unfolding Subscribe_def
  by (intro wpc; (rule wpc_core [THEN iffD2, OF AddTopic_wpc [OF assms]])?)
    (use assms in \<open>simp_all add: inmem_subscriber_def\<close>)

lemma subscribed_core: "subscribed t k (core k') = subscribed t k k'" "subscribed t (core k) k' = subscribed t k k'"
  by (simp_all add: subscribed_def inmem_subscriber_in)

lemma subscribe_pools_wpc:
  assumes "list_all (\<lambda>(_, j). case j of None \<Rightarrow> True | Some j \<Rightarrow> inmem_subscriber k j) ps"
  shows "wpc (subscribe_pools pe c t ps subs) (\<lambda>(subs', e) k'. e = None \<and> subs' \<noteq> None \<and> subscribed t k k'
     \<and> (\<forall>i j. (i, Some j) \<in> set ps \<longrightarrow> t \<in> snd ` set (topics_named k' j (tp_name (topic_at k t))))) k"
  using assms
proof (induction ps arbitrary: k subs)
  case Nil
  show ?case by (simp, rule wpc_ret) (simp add: subscribed_core subscribed_refl)
next
  case (Cons x ps)
  obtain i oj where x: "x = (i, oj)" by fastforce
  show ?case
  proof (cases oj)
    case None
    have "list_all (\<lambda>(_, j). case j of None \<Rightarrow> True | Some j \<Rightarrow> inmem_subscriber k j) ps" using Cons.prems by simp
    note IH = wpc_core [THEN iffD2, OF Cons.IH [OF this]]
    show ?thesis unfolding x None subscribe_pools.simps option.case
      by (intro wpc; simp, rule wpc_mono [OF IH]) auto
  next
    case (Some j)
    have j: "inmem_subscriber k j" using Cons.prems by (simp add: x Some)
    have IH: "wpc (subscribe_pools pe c t ps subs) (\<lambda>(subs', e) k''. e = None \<and> subs' \<noteq> None \<and> subscribed t k k''
       \<and> (\<forall>i j. (i, Some j) \<in> set (x # ps) \<longrightarrow> t \<in> snd ` set (topics_named k'' j (tp_name (topic_at k t))))) k'"
      if "subscribed t k k'" "t \<in> snd ` set (topics_named k' j (tp_name (topic_at k t)))" for k' subs
    proof -
      have eq: "inmem_subscriber k' = inmem_subscriber k" using that(1) by (simp add: subscribed_def fun_eq_iff)
      have te: "topic_at k' = topic_at k" using that(1) by (intro topic_at_same) (simp add: subscribed_def)
      have keep: "t \<in> snd ` set (topics_named k'' j (tp_name (topic_at k t)))" if "subscribed t k' k''" for k'' :: "'a ps_ctx_scheme"
        using that \<open>t \<in> snd ` set (topics_named k' j (tp_name (topic_at k t)))\<close> unfolding subscribed_def te by blast
      have "list_all (\<lambda>(_, j). case j of None \<Rightarrow> True | Some j \<Rightarrow> inmem_subscriber k' j) ps"
        using Cons.prems unfolding eq by simp
      from Cons.IH [OF this, of subs, unfolded te] show ?thesis
        by (rule wpc_mono) (auto simp: x Some intro: subscribed_trans [OF that(1)] keep)
    qed
    have im: "t \<in> snd ` A" if "(a, t) \<in> A" for a and A :: "(string \<times> nat) set" using that by force
    show ?thesis unfolding x Some subscribe_pools.simps option.case subscribe_pool_def
      by (intro wpc; simp, rule wpc_mono [OF wpc_core [THEN iffD2, OF Subscribe_wpc [OF j]]])
        (auto intro!: wpc wpc_mono [OF IH [unfolded x Some]] simp: subscribed_core intro: im)
  qed
qed

lemma SubscribePools_wpc:
  assumes "map_get (ps_subscribers k) i = Some j" "inmem_subscriber k j"
  shows "wpc (SubscribePools pe t [i]) (\<lambda>(subs, e) k'. e = None \<and> subscribed t k k'
     \<and> t \<in> snd ` set (topics_named k' j (tp_name (topic_at k t)))) k"
proof -
  have "list_all (\<lambda>(_, j). case j of None \<Rightarrow> True | Some j \<Rightarrow> inmem_subscriber k j) [(i, Some j)]" using assms(2) by simp
  note w = subscribe_pools_wpc [OF this]
  have "wpc (subscribe_pools pe c t [(i, Some j)] []) (\<lambda>(subs, e) k'. e = None \<and> subscribed t k k'
     \<and> t \<in> snd ` set (topics_named k' j (tp_name (topic_at k t)))) (core k)" for c
    by (rule wpc_core [THEN iffD2], rule wpc_mono [OF w]) auto
  then show ?thesis unfolding SubscribePools_def
    by (intro wpc) (use assms(1) in simp_all)
qed

lemma UnsubscribePools_wpc:
  assumes "map_get (ps_subscribers k) i = Some j" "inmem_subscriber k j"
  shows "wpc (UnsubscribePools pe name [i]) (\<lambda>_ k'. ps_ctx.more k' = ps_ctx.more k \<and> ps_topics k' = ps_topics k
     \<and> ps_publishers k' = ps_publishers k
     \<and> topics_named k' j name = [] \<and> (\<forall>j' n. (j', n) \<noteq> (j, name) \<longrightarrow> topics_named k' j' n = topics_named k j' n)) k"
proof -
  have d: "map_get (AList.delete n m) n' = (if n' = n then None else map_get m n')" for n n' :: string and m :: "(string \<times> 'b) list"
    by (simp add: map_get_def delete_conv)
  have "wpc (Unsubscribe pe j name []) (\<lambda>_ k'. ps_ctx.more k' = ps_ctx.more k \<and> ps_topics k' = ps_topics k
     \<and> ps_publishers k' = ps_publishers k
     \<and> topics_named k' j name = [] \<and> (\<forall>j' n. (j', n) \<noteq> (j, name) \<longrightarrow> topics_named k' j' n = topics_named k j' n)) (core k)"
    unfolding Unsubscribe_def DeleteTopic_def delete_subscription_def
    by (intro wpc) (use assms(2) in \<open>auto simp: topics_named_in topics_in_update topics_in_nth inmem_subscriber_in obj_at_def d\<close>)
  then show ?thesis unfolding UnsubscribePools_def
    by (intro wpc) (use assms(1) in \<open>auto intro!: wpc elim!: wpc_mono\<close>)
qed

section \<open>What publishing and subscribing promise\<close>


lemma Publish_to_pool:
  assumes "clients_log pe log" "ser_roundtrip (pe_ser pe) obj"
    and "map_get (ps_publishers s) i = Some (InmemPublisher j)"
    and "run_state (PublishPools pe name obj [i]) s = (e, s')"
  shows "e = None" "subscriptions s' = subscriptions s" "log s' = log s @ map (\<lambda>cl. (cl, obj)) (recipients s j name)"
proof -
  let ?ps = "[(i, InmemPublisher j)]"
  have "?ps = (if [i] = [] then ps_publishers s else known (ps_publishers s) [i])" using assms(3) by simp
  from wpcE [OF wpc_PublishPools [OF assms(1,2) this] assms(4)]
  show "e = None" "subscriptions s' = subscriptions s" "log s' = log s @ map (\<lambda>cl. (cl, obj)) (recipients s j name)"
    by (simp_all add: inmem_only_def delivered_def clients_logD(2) [OF assms(1)] pool_recipients_def)
qed

lemma clients_among_recipients:
  assumes "t \<in> snd ` set (topics_named s j name)"
  shows "set (topic_clients s t) \<subseteq> set (recipients s j name)"
  using assms unfolding recipients_def by fastforce


section \<open>Witnesses\<close>

text \<open>Two clients of one topic in an application with one pool; each message that a client receives is recorded.\<close>

definition demo_ps_env :: "(nat \<times> gval) list ps_ctx_scheme ps_env" where
  "demo_ps_env = \<lparr>pe_ser = raw_ser,
     pe_client = (\<lambda>cl obj. do { modifys (ps_ctx.more_update (\<lambda>l. l @ [(cl, obj)])); ret None }),
     pe_app = \<lparr>app_Application = ''app'', app_Instance = ''one'', app_Hostname = ''host'', app_Db = ''main'', app_Cache = ''cache''\<rparr>,
     pe_handlers = table_db,
     pe_redis = \<lparr>rl_Load = (\<lambda>_. Inl (NativeError ''no configuration'')), rl_Ping = (\<lambda>_. ret None),
       rl_Publish = (\<lambda>_ _ _. ret None), rl_Receive = (\<lambda>_ _. ret None), rl_Unsubscribe = (\<lambda>_ _. ret ()),
       rl_Close = (\<lambda>_. ret None)\<rparr>,
     pe_GetString = (\<lambda>_. [])\<rparr>"

definition demo_ps_ctx :: "(nat \<times> gval) list ps_ctx_scheme" where
  "demo_ps_ctx = ps_ctx.extend (op_ctx.extend demo_ctx (ps_ctx.fields
     [\<lparr>tp_name = ''news'', tp_subscribers = [(''a'', 7), (''b'', 8)]\<rparr>]
     [\<lparr>so_topics = [(''news'', [(''0'', 0)])], so_redis = None, so_channels = []\<rparr>]
     [] None [(''pool'', InmemPublisher 0)] [(''pool'', 0)] None None Logger_Init)) []"

lemma demo_clients_log: "clients_log demo_ps_env ps_ctx.more"
  by (simp add: clients_log_def demo_ps_env_def subscriptions_def)

lemma demo_ser: "ser_roundtrip (pe_ser demo_ps_env) (VStr ''m'')"
  by (simp add: ser_roundtrip_def raw_ser_def demo_ps_env_def)

lemma demo_ps [simp]:
  "ps_publishers demo_ps_ctx = [(''pool'', InmemPublisher 0)]" "ps_subscribers demo_ps_ctx = [(''pool'', 0)]"
  "ps_topics demo_ps_ctx = [\<lparr>tp_name = ''news'', tp_subscribers = [(''a'', 7), (''b'', 8)]\<rparr>]"
  "ps_objs demo_ps_ctx = [\<lparr>so_topics = [(''news'', [(''0'', 0)])], so_redis = None, so_channels = []\<rparr>]"
  "ps_ctx.more demo_ps_ctx = []"
  by (simp_all add: demo_ps_ctx_def op_ctx.extend_def ps_ctx.fields_def ps_ctx.extend_def)



end
