(* ===== verification/Gorm.thy ===== *)
theory Gorm
  imports Query_Parser Tenancy
begin

text \<open>
  The database over the gorm library: the statements of \<^verbatim>\<open>src/pkg/db/db_gorm/gorm_orm.go\<close>, the database
  object of \<^verbatim>\<open>gorm_db.go\<close>, joins (\<^verbatim>\<open>gorm_join.go\<close>, \<^verbatim>\<open>src/pkg/db/join.go\<close>) and the connector for Postgres
  (\<^verbatim>\<open>postgres_dialector.go\<close>).

  The library is a parameter. A handle of it is the list of the chained calls that were made on it; what a
  finishing call does with them is a function of the record \<open>gorm_lib\<close>. As the library documents, a chained
  call on a handle that has a statement already works on that statement, while a handle that comes from
  \<^verbatim>\<open>Session\<close> or is the open database starts a statement of its own with every call. The object that a call is
  given names its table here; \<open>GKey\<close> stands for the primary key of an object that has one.
\<close>

section \<open>The library\<close>

datatype garg = GArg gval | GArgs "gval list"

datatype gcall =
    GModel string
  | GKey string
  | GFields fields
  | GWhere string "garg list"
  | GOr string "garg list"
  | GNot fields
  | GOrder string
  | GOffset int
  | GLimit int
  | GSelect string
  | GSelects "string list"
  | GGroup string
  | GJoins string
  | GLocking string

record handle =
  hd_db :: string
  hd_calls :: "gcall list"
  hd_shared :: bool

definition chain :: "gcall \<Rightarrow> handle \<Rightarrow> handle" where
  "chain c h = h\<lparr>hd_calls := hd_calls h @ [c], hd_shared := True\<rparr>"

text \<open>What \<open>g\<close> is after chained calls on it have returned \<open>h\<close>.\<close>

definition receiver :: "handle \<Rightarrow> handle \<Rightarrow> handle" where
  "receiver g h = (if hd_shared g then h else g)"

definition Session :: "handle \<Rightarrow> handle" where
  "Session h = h\<lparr>hd_shared := False\<rparr>"

record gorm_lib =
  gl_ErrRecordNotFound :: goerror
  gl_First :: "handle \<Rightarrow> databases \<Rightarrow> fields option \<times> err"
  gl_Take :: "handle \<Rightarrow> databases \<Rightarrow> fields option \<times> err"
  gl_Find :: "handle \<Rightarrow> databases \<Rightarrow> fields list \<times> int \<times> err"
  gl_Count :: "handle \<Rightarrow> databases \<Rightarrow> int \<times> err"
  gl_Rows :: "handle \<Rightarrow> databases \<Rightarrow> fields list \<times> err"
  gl_Create :: "handle \<Rightarrow> string \<Rightarrow> fields \<Rightarrow> databases \<Rightarrow> err \<times> databases"
  gl_Delete :: "handle \<Rightarrow> string \<Rightarrow> databases \<Rightarrow> err \<times> databases"
  gl_Updates :: "handle \<Rightarrow> fields \<Rightarrow> databases \<Rightarrow> err \<times> databases"

section \<open>Statements\<close>

definition quoted :: "string \<Rightarrow> string" where
  "quoted name = [CHR 0x22] @ name @ [CHR 0x22]"

definition found_or_error :: "gorm_lib \<Rightarrow> fields option \<times> err \<Rightarrow> fields option \<times> err" where
  "found_or_error gl r = (case snd r of
     None \<Rightarrow> (fst r, None)
   | Some e \<Rightarrow> if e = gl_ErrRecordNotFound gl then (None, None) else (None, Some e))"

definition orm_FindByField :: "gorm_lib \<Rightarrow> handle \<Rightarrow> string \<Rightarrow> gval \<Rightarrow> string \<Rightarrow> databases \<Rightarrow> fields option \<times> err" where
  "orm_FindByField gl g name val doc D =
     found_or_error gl (gl_First gl (chain (GWhere (quoted name @ '' = ?'') [GArg val]) (chain (GModel doc) g)) D)"

definition orm_FindByFields :: "gorm_lib \<Rightarrow> handle \<Rightarrow> fields \<Rightarrow> string \<Rightarrow> databases \<Rightarrow> fields option \<times> err" where
  "orm_FindByFields gl g fs doc D = found_or_error gl (gl_First gl (chain (GFields fs) (chain (GModel doc) g)) D)"

definition orm_FindForUpdate :: "gorm_lib \<Rightarrow> handle \<Rightarrow> fields \<Rightarrow> string \<Rightarrow> databases \<Rightarrow> fields option \<times> err" where
  "orm_FindForUpdate gl g fs doc D =
     found_or_error gl (gl_First gl (chain (GFields fs) (chain (GLocking ''UPDATE'') (chain (GModel doc) g))) D)"

definition orm_FindForShare :: "gorm_lib \<Rightarrow> handle \<Rightarrow> fields \<Rightarrow> string \<Rightarrow> databases \<Rightarrow> fields option \<times> err" where
  "orm_FindForShare gl g fs doc D =
     found_or_error gl (gl_First gl (chain (GFields fs) (chain (GLocking ''SHARE'') (chain (GModel doc) g))) D)"

definition orm_RowsByFields :: "gorm_lib \<Rightarrow> handle \<Rightarrow> fields \<Rightarrow> string \<Rightarrow> databases \<Rightarrow> fields list \<times> err" where
  "orm_RowsByFields gl g fs doc D = gl_Rows gl (chain (GFields fs) (chain (GModel doc) g)) D"

definition orm_AllRows :: "gorm_lib \<Rightarrow> handle \<Rightarrow> string \<Rightarrow> databases \<Rightarrow> fields list \<times> err" where
  "orm_AllRows gl g doc D = gl_Rows gl (chain (GModel doc) g) D"

definition orm_FindAll :: "gorm_lib \<Rightarrow> handle \<Rightarrow> string \<Rightarrow> databases \<Rightarrow> fields list \<times> err" where
  "orm_FindAll gl g docs D = (case gl_Find gl (chain (GModel docs) g) D of (rows, n, e) \<Rightarrow> (rows, e))"

definition compareOp :: "bool \<Rightarrow> string \<Rightarrow> string" where
  "compareOp isOpen comparator = (if isOpen then comparator else ConcatStrings [comparator, ''=''])"

text \<open>In the text of an interval with two bounds the last operator and the last name are in the place of each other.\<close>

definition prepareInterval :: "string \<Rightarrow> interval \<Rightarrow> handle \<Rightarrow> handle" where
  "prepareInterval name i h =
     (if From i \<noteq> VNil \<and> To i \<noteq> VNil then
        (if From i = To i then chain (GWhere (quoted name @ '' = ?'') [GArg (From i)]) h
         else chain (GWhere (quoted name @ '' '' @ compareOp (FromOpen i) ''>'' @ '' ? AND '' @
                quoted (compareOp (ToOpen i) ''<'') @ '' '' @ name @ '' ? '') [GArg (From i), GArg (To i)]) h)
      else if From i \<noteq> VNil then
        chain (GWhere (quoted name @ '' '' @ compareOp (FromOpen i) ''>'' @ '' ? '') [GArg (From i)]) h
      else if To i \<noteq> VNil then
        chain (GWhere (quoted name @ '' '' @ compareOp (ToOpen i) ''<'' @ '' ? '') [GArg (To i)]) h
      else h)"

definition between_call :: "between_fields \<Rightarrow> gcall" where
  "between_call b = GWhere (''? '' @ compareOp (BetweenFromOpen b) ''>'' @ '' '' @ quoted (FromField b) @ '' AND ? '' @
     compareOp (BetweenToOpen b) ''>'' @ '' '' @ quoted (ToField b)) [GArg (BetweenValue b), GArg (BetweenValue b)]"

text \<open>The first name of a group is a further condition, the others are alternatives.\<close>

definition or_calls :: "or_fields \<Rightarrow> gcall list" where
  "or_calls p = (case OrNames p of
     [] \<Rightarrow> []
   | n # ns \<Rightarrow> GWhere (quoted n @ '' = ?'') [GArg (OrValue p)] # map (\<lambda>n. GOr (quoted n @ '' = ?'') [GArg (OrValue p)]) ns)"

definition prepareFilter :: "db_filter \<Rightarrow> handle \<Rightarrow> handle" where
  "prepareFilter flt h =
     (let h = (case Fields flt of None \<Rightarrow> h | Some fs \<Rightarrow> chain (GFields fs) h);
          h = foldl (\<lambda>h f. chain (GFields f) h) h (PresetFields flt);
          h = foldl (\<lambda>h (field, vals). chain (GWhere (quoted field @ '' IN ? '') [GArgs vals]) h) h (nil_map (FieldsIn flt));
          h = foldl (\<lambda>h (field, vals). chain (GWhere (quoted field @ '' NOT IN ? '') [GArgs vals]) h) h (nil_map (FieldsNotIn flt));
          h = foldl (\<lambda>h (name, i). prepareInterval name i h) h (nil_map (Intervals flt));
          h = foldl (\<lambda>h b. chain (between_call b) h) h (BetweenFields flt)
      in foldl (\<lambda>h p. foldl (\<lambda>h c. chain c h) h (or_calls p)) h (OrFields flt))"

definition SORT_DESC :: string where "SORT_DESC = ''DESC''"

definition Paginate :: "int \<Rightarrow> db_filter \<Rightarrow> bool list \<Rightarrow> handle \<Rightarrow> handle" where
  "Paginate maxLimit flt paginate h =
     (if OptionalArg True paginate then
        (let h = (if Offset flt > 0 then chain (GOffset (Offset flt)) h else h) in
         if Limit flt > 0 then
           chain (GLimit (if Limit flt > maxLimit \<and> maxLimit > 0 then maxLimit else Limit flt)) h
         else h)
      else h)"

definition order_call :: "db_filter \<Rightarrow> gcall" where
  "order_call flt =
     (let parts = Split (CHR ''.'') (SortField flt) in
      if length parts = 2 then GOrder (quoted (parts ! 0) @ ''.'' @ quoted (parts ! 1) @ '' '' @ SortDirection flt)
      else GOrder (quoted (SortField flt) @ '' '' @ SortDirection flt))"

text \<open>The paginator is its largest limit; it is nil in a transaction.\<close>

definition SetFilter :: "db_filter option \<Rightarrow> int option \<Rightarrow> string option \<Rightarrow> bool list \<Rightarrow> handle \<Rightarrow> handle" where
  "SetFilter flt paginator docs paginate g = (case flt of
     None \<Rightarrow> g
   | Some f \<Rightarrow>
       (let h = (case docs of None \<Rightarrow> g | Some d \<Rightarrow> chain (GModel d) g);
            h = prepareFilter f h;
            h = (if SortField f \<noteq> [] \<and> (SortDirection f = SORT_ASC \<or> SortDirection f = SORT_DESC) then chain (order_call f) h else h)
        in case paginator of None \<Rightarrow> h | Some m \<Rightarrow> Paginate m f paginate h))"

text \<open>
  The count is taken, and the pages are cut, from \<open>g\<close> as it is after the filter was set on it. Without a
  paginator reading its limit dereferences nil, here \<open>None\<close>.
\<close>

definition hard_error :: "gorm_lib \<Rightarrow> err \<Rightarrow> bool" where
  "hard_error gl e \<longleftrightarrow> e \<noteq> None \<and> e \<noteq> Some (gl_ErrRecordNotFound gl)"

definition find_rows :: "gorm_lib \<Rightarrow> handle \<Rightarrow> int \<Rightarrow> databases \<Rightarrow> fields list \<times> int \<times> err" where
  "find_rows gl h count D = (case gl_Find gl h D of (rows, affected, e) \<Rightarrow>
     if hard_error gl e then (rows, 0, e) else (rows, if affected > count then affected else count, None))"

definition orm_find :: "gorm_lib \<Rightarrow> handle \<Rightarrow> db_filter option \<Rightarrow> int option \<Rightarrow> databases \<Rightarrow> (fields list \<times> int \<times> err) option" where
  "orm_find gl g flt paginator D = (case flt of
     None \<Rightarrow> Some (find_rows gl g 0 D)
   | Some f \<Rightarrow>
       (let h = SetFilter flt paginator None [\<not> Count f] g; g = receiver g h in
        if Count f then
          (case gl_Count gl (Session g) D of (count, e) \<Rightarrow>
             if hard_error gl e then Some ([], 0, e)
             else case paginator of
               None \<Rightarrow> if Limit f > 0 then None else Some (find_rows gl (Paginate 0 f [] g) count D)
             | Some m \<Rightarrow> Some (find_rows gl (Paginate m f [] g) count D))
        else Some (find_rows gl h 0 D)))"

definition orm_FindWithFilter :: "gorm_lib \<Rightarrow> handle \<Rightarrow> db_filter option \<Rightarrow> int option \<Rightarrow> string \<Rightarrow> databases
    \<Rightarrow> (fields list \<times> int \<times> err) option" where
  "orm_FindWithFilter gl g flt paginator docs D = orm_find gl (chain (GModel docs) g) flt paginator D"

definition orm_RowsWithFilter :: "gorm_lib \<Rightarrow> handle \<Rightarrow> db_filter option \<Rightarrow> int option \<Rightarrow> string \<Rightarrow> databases \<Rightarrow> fields list \<times> err" where
  "orm_RowsWithFilter gl g flt paginator docs D =
     (case gl_Rows gl (SetFilter flt paginator (Some docs) [] (chain (GModel docs) g)) D of (rows, e) \<Rightarrow>
        if e \<noteq> None then ([], e) else (rows, None))"

definition orm_CountWithFilter :: "gorm_lib \<Rightarrow> handle \<Rightarrow> db_filter \<Rightarrow> string \<Rightarrow> databases \<Rightarrow> int" where
  "orm_CountWithFilter gl g flt doc D = fst (gl_Count gl (prepareFilter flt (chain (GModel doc) g)) D)"

fun comma_separated :: "string \<Rightarrow> string list \<Rightarrow> string" where
  "comma_separated sep [] = []"
| "comma_separated sep [x] = x"
| "comma_separated sep (x # xs) = x @ sep @ comma_separated sep xs"

definition orm_SumWithFilter :: "gorm_lib \<Rightarrow> handle \<Rightarrow> db_filter \<Rightarrow> (string \<times> string) list \<Rightarrow> string \<Rightarrow> databases \<Rightarrow> fields option \<times> err" where
  "orm_SumWithFilter gl g flt fs doc D =
     (let sums = comma_separated '', '' (map (\<lambda>(key, name). ''sum('' @ key @ '') as '' @ name) fs) in
      gl_Take gl (prepareFilter flt (chain (GSelect sums) (chain (GModel doc) g))) D)"

definition orm_FindAllByFields :: "gorm_lib \<Rightarrow> handle \<Rightarrow> fields \<Rightarrow> databases \<Rightarrow> fields list \<times> err" where
  "orm_FindAllByFields gl g fs D = (case gl_Find gl (chain (GFields fs) g) D of (rows, n, e) \<Rightarrow> (rows, e))"

definition orm_FindNotIn :: "gorm_lib \<Rightarrow> handle \<Rightarrow> fields \<Rightarrow> databases \<Rightarrow> fields list \<times> err" where
  "orm_FindNotIn gl g fs D = (case gl_Find gl (chain (GNot fs) g) D of (rows, n, e) \<Rightarrow> (rows, e))"

definition orm_FindSelectNotIn :: "gorm_lib \<Rightarrow> handle \<Rightarrow> fields \<Rightarrow> string \<Rightarrow> databases \<Rightarrow> fields list \<times> err" where
  "orm_FindSelectNotIn gl g fs docModel D =
     (case gl_Find gl (chain (GNot fs) (chain (GModel docModel) g)) D of (rows, n, e) \<Rightarrow> (rows, e))"

definition orm_Delete :: "gorm_lib \<Rightarrow> handle \<Rightarrow> string \<Rightarrow> string \<Rightarrow> databases \<Rightarrow> err \<times> databases" where
  "orm_Delete gl g tbl i D = gl_Delete gl (chain (GKey i) g) tbl D"

definition orm_DeleteById :: "gorm_lib \<Rightarrow> handle \<Rightarrow> gval \<Rightarrow> string \<Rightarrow> databases \<Rightarrow> err \<times> databases" where
  "orm_DeleteById gl g i tbl D = gl_Delete gl (chain (GWhere ''id = ?'' [GArg i]) g) tbl D"

definition orm_DeleteByField :: "gorm_lib \<Rightarrow> handle \<Rightarrow> string \<Rightarrow> gval \<Rightarrow> string \<Rightarrow> databases \<Rightarrow> err \<times> databases" where
  "orm_DeleteByField gl g field val tbl D = gl_Delete gl (chain (GWhere (quoted field @ '' = ?'') [GArg val]) g) tbl D"

definition orm_DeleteAllByFields :: "gorm_lib \<Rightarrow> handle \<Rightarrow> fields \<Rightarrow> string \<Rightarrow> databases \<Rightarrow> err \<times> databases" where
  "orm_DeleteAllByFields gl g fs tbl D = gl_Delete gl (chain (GFields fs) g) tbl D"

definition orm_DeleteAll :: "gorm_lib \<Rightarrow> handle \<Rightarrow> string \<Rightarrow> databases \<Rightarrow> err \<times> databases" where
  "orm_DeleteAll gl g tbl D = gl_Delete gl (chain (GWhere ''1 = 1'' []) g) tbl D"

definition orm_Create :: "gorm_lib \<Rightarrow> handle \<Rightarrow> string \<Rightarrow> fields \<Rightarrow> databases \<Rightarrow> err \<times> databases" where
  "orm_Create gl g tbl doc D = gl_Create gl g tbl doc D"

definition orm_UpdateFields :: "gorm_lib \<Rightarrow> handle \<Rightarrow> fields \<Rightarrow> string \<Rightarrow> databases \<Rightarrow> err \<times> databases" where
  "orm_UpdateFields gl g fs doc D = gl_Updates gl (chain (GModel doc) g) fs D"

definition orm_UpdateWithFilter :: "gorm_lib \<Rightarrow> handle \<Rightarrow> db_filter \<Rightarrow> string \<Rightarrow> fields \<Rightarrow> databases \<Rightarrow> err \<times> databases" where
  "orm_UpdateWithFilter gl g flt doc fs D = gl_Updates gl (SetFilter (Some flt) None (Some doc) [] g) fs D"

definition orm_UpdateFieldMulti :: "gorm_lib \<Rightarrow> handle \<Rightarrow> fields \<Rightarrow> string \<Rightarrow> string \<Rightarrow> gval \<Rightarrow> databases \<Rightarrow> err \<times> databases" where
  "orm_UpdateFieldMulti gl g fs doc field val D = gl_Updates gl (chain (GFields fs) (chain (GModel doc) g)) [(field, val)] D"

definition orm_UpdateFielsdMulti :: "gorm_lib \<Rightarrow> handle \<Rightarrow> fields \<Rightarrow> string \<Rightarrow> fields \<Rightarrow> databases \<Rightarrow> err \<times> databases" where
  "orm_UpdateFielsdMulti gl g flt doc newFields D = gl_Updates gl (chain (GFields flt) (chain (GModel doc) g)) newFields D"

definition orm_UpdateFieldsAll :: "gorm_lib \<Rightarrow> handle \<Rightarrow> string \<Rightarrow> fields \<Rightarrow> databases \<Rightarrow> err \<times> databases" where
  "orm_UpdateFieldsAll gl g doc newFields D = gl_Updates gl (chain (GWhere ''1 = 1'' []) (chain (GModel doc) g)) newFields D"

text \<open>The handle that \<^verbatim>\<open>Limit\<close> returns is dropped: the limit stays only where the statement is shared.\<close>

definition orm_Exists :: "gorm_lib \<Rightarrow> handle \<Rightarrow> db_filter option \<Rightarrow> string \<Rightarrow> databases \<Rightarrow> bool \<times> err" where
  "orm_Exists gl g flt obj D =
     (let h = (case flt of None \<Rightarrow> g | Some f \<Rightarrow> prepareFilter f (chain (GModel obj) g));
          h = receiver h (chain (GLimit 1) h) in
      case gl_First gl h D of (row, e) \<Rightarrow>
        if hard_error gl e then (False, e) else (row \<noteq> None, None))"

definition orm_FindAllInterval :: "gorm_lib \<Rightarrow> handle \<Rightarrow> string \<Rightarrow> interval \<Rightarrow> databases \<Rightarrow> fields list \<times> err" where
  "orm_FindAllInterval gl g name i D = (case gl_Find gl (prepareInterval name i g) D of (rows, n, e) \<Rightarrow> (rows, e))"

definition orm_Sum :: "gorm_lib \<Rightarrow> handle \<Rightarrow> int option \<Rightarrow> string list \<Rightarrow> string list \<Rightarrow> db_filter option \<Rightarrow> string \<Rightarrow> databases
    \<Rightarrow> (fields list \<times> int \<times> err) option" where
  "orm_Sum gl g paginator groupFields sumFields flt model D =
     (let selects = map (\<lambda>f. ''sum('' @ quoted f @ '') AS '' @ quoted f) sumFields @ map quoted groupFields;
          h = chain (GSelect (comma_separated '','' selects)) (chain (GModel model) g);
          h = foldl (\<lambda>h f. chain (GGroup f) h) h groupFields in
      orm_find gl h flt paginator D)"

section \<open>The database object\<close>

text \<open>
  A handler of the source returns its results and may log an error; here it returns the results together with
  the entries of the log. A model is the name of its type and its table.
\<close>

type_synonym gmodel = "string \<times> string"

record join_query =
  jq_session :: handle
  jq_paginator :: "int option"

record gormdb =
  gd_db :: string
  gd_config :: db_config
  gd_ENABLE_DEBUG :: bool
  gd_VERBOSE_ERRORS :: bool
  gd_MAX_FILTER_LIMIT :: int
  gd_paginator :: "int option"
  gd_joinQueries :: "(string \<times> join_query) list"
  gd_filterManager :: filter_manager

definition zero_db_config :: db_config where
  "zero_db_config = \<lparr>DB_PROVIDER = [], DB_HOST = [], DB_PORT = 0, cfg_DB_NAME = [], DB_USER = [], DB_PASSWORD = [],
     DB_EXTRA_CONFIG = [], DB_DSN = []\<rparr>"

definition GormDB_New :: "model_store \<Rightarrow> gormdb" where
  "GormDB_New GlobalModelStore = \<lparr>gd_db = [], gd_config = zero_db_config, gd_ENABLE_DEBUG = False, gd_VERBOSE_ERRORS = False,
     gd_MAX_FILTER_LIMIT = 0, gd_paginator = Some 0, gd_joinQueries = [], gd_filterManager = NewFilterManager GlobalModelStore []\<rparr>"

definition GormDB_Clone :: "model_store \<Rightarrow> gormdb \<Rightarrow> gormdb" where
  "GormDB_Clone GlobalModelStore g = (GormDB_New GlobalModelStore)
     \<lparr>gd_ENABLE_DEBUG := gd_ENABLE_DEBUG g, gd_VERBOSE_ERRORS := gd_VERBOSE_ERRORS g, gd_MAX_FILTER_LIMIT := gd_MAX_FILTER_LIMIT g,
      gd_paginator := Some (gd_MAX_FILTER_LIMIT g)\<rparr>"

definition EnableDebug :: "bool \<Rightarrow> gormdb \<Rightarrow> gormdb" where
  "EnableDebug val g = g\<lparr>gd_ENABLE_DEBUG := val\<rparr>"

definition EnableVerboseErrors :: "bool \<Rightarrow> gormdb \<Rightarrow> gormdb" where
  "EnableVerboseErrors val g = g\<lparr>gd_VERBOSE_ERRORS := val\<rparr>"

text \<open>In debugging mode a session of the library that prints its statements.\<close>

definition db_handle :: "gormdb \<Rightarrow> handle" where
  "db_handle g = \<lparr>hd_db = gd_db g, hd_calls = [], hd_shared = False\<rparr>"

text \<open>A transaction has a database object of its own, which has neither a paginator nor options.\<close>

definition tx_db :: "model_store \<Rightarrow> gormdb \<Rightarrow> gormdb" where
  "tx_db GlobalModelStore g = (GormDB_New GlobalModelStore)\<lparr>gd_db := gd_db g, gd_paginator := None\<rparr>"

definition verbose :: "gormdb \<Rightarrow> string \<Rightarrow> string \<Rightarrow> fields \<Rightarrow> err \<Rightarrow> log_entry list" where
  "verbose g what typ fs e = (case e of
     None \<Rightarrow> []
   | Some er \<Rightarrow> if gd_VERBOSE_ERRORS g
       then [LogEntry LogError ''GormDB'' (errors_New (''failed to '' @ what @ '' '' @ typ)) (fs @ [(''error'', VStr (error_text er))])]
       else [])"

definition GormDB_FindByField :: "gorm_lib \<Rightarrow> gormdb \<Rightarrow> string \<Rightarrow> gval \<Rightarrow> gmodel \<Rightarrow> databases \<Rightarrow> (fields option \<times> err) \<times> log_entry list" where
  "GormDB_FindByField gl g field val m D = (case orm_FindByField gl (db_handle g) field val (snd m) D of (found, e) \<Rightarrow>
     ((found, e), verbose g ''FindByField'' (fst m) [(''field'', VStr field), (''value'', val)] e))"

definition GormDB_FindByFields :: "gorm_lib \<Rightarrow> gormdb \<Rightarrow> fields \<Rightarrow> gmodel \<Rightarrow> databases \<Rightarrow> (fields option \<times> err) \<times> log_entry list" where
  "GormDB_FindByFields gl g fs m D = (case orm_FindByFields gl (db_handle g) fs (snd m) D of (found, e) \<Rightarrow>
     ((found, e), verbose g ''FindByFields'' (fst m) [(''fields'', VMap fs)] e))"

definition GormDB_FindForUpdate :: "gorm_lib \<Rightarrow> gormdb \<Rightarrow> fields \<Rightarrow> gmodel \<Rightarrow> databases \<Rightarrow> (fields option \<times> err) \<times> log_entry list" where
  "GormDB_FindForUpdate gl g fs m D = (case orm_FindForUpdate gl (db_handle g) fs (snd m) D of (found, e) \<Rightarrow>
     ((found, e), verbose g ''FindForUpdate'' (fst m) [(''fields'', VMap fs)] e))"

definition GormDB_FindForShare :: "gorm_lib \<Rightarrow> gormdb \<Rightarrow> fields \<Rightarrow> gmodel \<Rightarrow> databases \<Rightarrow> (fields option \<times> err) \<times> log_entry list" where
  "GormDB_FindForShare gl g fs m D = (case orm_FindForUpdate gl (db_handle g) fs (snd m) D of (found, e) \<Rightarrow>
     ((found, e), verbose g ''FindForShare'' (fst m) [(''fields'', VMap fs)] e))"

definition GormDB_RowsByFields :: "gorm_lib \<Rightarrow> gormdb \<Rightarrow> fields \<Rightarrow> gmodel \<Rightarrow> databases \<Rightarrow> (fields list \<times> err) \<times> log_entry list" where
  "GormDB_RowsByFields gl g fs m D = (case orm_RowsByFields gl (db_handle g) fs (snd m) D of (rows, e) \<Rightarrow>
     ((rows, e), verbose g ''RowsByFields'' (fst m) [(''fields'', VMap fs)] e))"

definition GormDB_AllRows :: "gorm_lib \<Rightarrow> gormdb \<Rightarrow> gmodel \<Rightarrow> databases \<Rightarrow> (fields list \<times> err) \<times> log_entry list" where
  "GormDB_AllRows gl g m D = (case orm_AllRows gl (db_handle g) (snd m) D of (rows, e) \<Rightarrow>
     ((rows, e), verbose g ''AllRows'' (fst m) [] e))"

definition GormDB_RowsWithFilter :: "gorm_lib \<Rightarrow> gormdb \<Rightarrow> db_filter option \<Rightarrow> gmodel \<Rightarrow> databases \<Rightarrow> (fields list \<times> err) \<times> log_entry list" where
  "GormDB_RowsWithFilter gl g flt m D = (case orm_RowsWithFilter gl (db_handle g) flt (gd_paginator g) (snd m) D of (rows, e) \<Rightarrow>
     ((rows, e), verbose g ''RowsWithFilter'' (fst m) [] e))"

definition GormDB_Create :: "gorm_lib \<Rightarrow> gormdb \<Rightarrow> gmodel \<Rightarrow> fields \<Rightarrow> databases \<Rightarrow> (err \<times> databases) \<times> log_entry list" where
  "GormDB_Create gl g m ob D = (case orm_Create gl (db_handle g) (snd m) ob D of (e, D) \<Rightarrow>
     ((e, D), verbose g ''Create'' (fst m) [] e))"

definition GormDB_DeleteByField :: "gorm_lib \<Rightarrow> gormdb \<Rightarrow> string \<Rightarrow> gval \<Rightarrow> gmodel \<Rightarrow> databases \<Rightarrow> (err \<times> databases) \<times> log_entry list" where
  "GormDB_DeleteByField gl g field val m D = (case orm_DeleteByField gl (db_handle g) field val (snd m) D of (e, D) \<Rightarrow>
     ((e, D), verbose g ''DeleteByField'' (fst m) [(''field'', VStr field), (''value'', val)] e))"

definition GormDB_Delete :: "gorm_lib \<Rightarrow> gormdb \<Rightarrow> gmodel \<Rightarrow> string \<Rightarrow> databases \<Rightarrow> (err \<times> databases) \<times> log_entry list" where
  "GormDB_Delete gl g m i D = (case orm_Delete gl (db_handle g) (snd m) i D of (e, D) \<Rightarrow>
     ((e, D), verbose g ''Delete'' (fst m) [(''id'', VStr i)] e))"

definition GormDB_DeleteByFields :: "gorm_lib \<Rightarrow> gormdb \<Rightarrow> fields \<Rightarrow> gmodel \<Rightarrow> databases \<Rightarrow> (err \<times> databases) \<times> log_entry list" where
  "GormDB_DeleteByFields gl g fs m D = (case orm_DeleteAllByFields gl (db_handle g) fs (snd m) D of (e, D) \<Rightarrow>
     ((e, D), verbose g ''DeleteByFields'' (fst m) [(''fields'', VMap fs)] e))"

definition GormDB_FindWithFilter :: "gorm_lib \<Rightarrow> gormdb \<Rightarrow> db_filter option \<Rightarrow> gmodel \<Rightarrow> databases
    \<Rightarrow> ((fields list \<times> int \<times> err) \<times> log_entry list) option" where
  "GormDB_FindWithFilter gl g flt m D = (case orm_FindWithFilter gl (db_handle g) flt (gd_paginator g) (snd m) D of
     None \<Rightarrow> None
   | Some (rows, count, e) \<Rightarrow> Some ((rows, count, e), verbose g ''FindWithFilter'' (fst m) [] e))"

definition GormDB_Update :: "gorm_lib \<Rightarrow> gormdb \<Rightarrow> gmodel \<Rightarrow> fields \<Rightarrow> fields \<Rightarrow> databases \<Rightarrow> (err \<times> databases) \<times> log_entry list" where
  "GormDB_Update gl g m flt newFields D = (case orm_UpdateFielsdMulti gl (db_handle g) flt (snd m) newFields D of (e, D) \<Rightarrow>
     ((e, D), verbose g ''UpdateFieldsWithFilter'' (fst m) [] e))"

definition GormDB_UpdateWithFilter :: "gorm_lib \<Rightarrow> gormdb \<Rightarrow> gmodel \<Rightarrow> db_filter \<Rightarrow> fields \<Rightarrow> databases \<Rightarrow> (err \<times> databases) \<times> log_entry list" where
  "GormDB_UpdateWithFilter gl g m flt newFields D = (case orm_UpdateWithFilter gl (db_handle g) flt (snd m) newFields D of (e, D) \<Rightarrow>
     ((e, D), verbose g ''UpdateWithFilter'' (fst m) [] e))"

definition GormDB_UpdateAll :: "gorm_lib \<Rightarrow> gormdb \<Rightarrow> gmodel \<Rightarrow> fields \<Rightarrow> databases \<Rightarrow> (err \<times> databases) \<times> log_entry list" where
  "GormDB_UpdateAll gl g m newFields D = (case orm_UpdateFieldsAll gl (db_handle g) (snd m) newFields D of (e, D) \<Rightarrow>
     ((e, D), verbose g ''UpdateAll'' (fst m) [] e))"

definition GormDB_Exists :: "gorm_lib \<Rightarrow> gormdb \<Rightarrow> db_filter option \<Rightarrow> gmodel \<Rightarrow> databases \<Rightarrow> (bool \<times> err) \<times> log_entry list" where
  "GormDB_Exists gl g flt m D = (case orm_Exists gl (db_handle g) flt (snd m) D of (exists, e) \<Rightarrow>
     ((exists, e), verbose g ''Exists'' (fst m) [] e))"

definition GormDB_Sum :: "gorm_lib \<Rightarrow> gormdb \<Rightarrow> string list \<Rightarrow> string list \<Rightarrow> db_filter option \<Rightarrow> gmodel \<Rightarrow> databases
    \<Rightarrow> ((fields list \<times> int \<times> err) \<times> log_entry list) option" where
  "GormDB_Sum gl g groupFields sumFields flt m D =
     (case orm_Sum gl (db_handle g) (gd_paginator g) groupFields sumFields flt (snd m) D of
        None \<Rightarrow> None
      | Some (rows, count, e) \<Rightarrow> Some ((rows, count, e), verbose g ''Sum'' (fst m) [] e))"

section \<open>Joins\<close>

record join_pair =
  jp_left :: string
  jp_LeftField :: string
  jp_right :: string
  jp_RightField :: string

record join_constructor =
  jc_pairs :: "join_pair list"
  jc_sumFields :: "(string \<times> bool) list"
  jc_groupFields :: "(string \<times> bool) list"

record joiner =
  jn_session :: handle
  jn_constructor :: join_constructor
  jn_pair :: "join_pair option"

fun constructJoins :: "schema_lib \<Rightarrow> join_pair list \<Rightarrow> handle \<Rightarrow> goerror + handle" where
  "constructJoins sl [] h = Inr h"
| "constructJoins sl (pair # pairs) h = (case sl (jp_left pair) of
     Inl e \<Rightarrow> Inl e
   | Inr left \<Rightarrow> (case sl (jp_right pair) of
       Inl e \<Rightarrow> Inl e
     | Inr right \<Rightarrow> constructJoins sl pairs (chain (GJoins (''JOIN '' @ quoted (ms_Table right) @ '' ON '' @
         quoted (ms_Table left) @ ''.'' @ quoted (jp_LeftField pair) @ ''='' @
         quoted (ms_Table right) @ ''.'' @ quoted (jp_RightField pair))) h)))"

definition column_select :: "field_descriptor \<Rightarrow> string" where
  "column_select field = quoted (fd_DbTable field) @ ''.'' @ quoted (fd_DbField field)"

definition join_selects :: "join_constructor \<Rightarrow> field_descriptor \<Rightarrow> string list" where
  "join_selects c field =
     (let name = sf_DBName (fd_Schema field);
          sums = length (jc_sumFields c) > 0;
          groups = length (jc_groupFields c) > 0 \<or> sums in
      if \<not> groups then [column_select field @ '' AS '' @ quoted name]
      else (if sums \<and> map_get (jc_sumFields c) name \<noteq> None then [''sum('' @ column_select field @ '') AS '' @ quoted name] else [])
         @ (if map_get (jc_groupFields c) name \<noteq> None then [column_select field @ '' AS '' @ quoted name] else []))"

text \<open>The descriptor of the destination, registered and parsed when it is not yet.\<close>

definition destination_fields :: "schema_lib \<Rightarrow> string \<Rightarrow> model_schema \<Rightarrow> model_store \<Rightarrow> string + model_descriptor \<times> model_store" where
  "destination_fields sl destination s m =
     (case (if FindDescriptor (ms_Table s) m = None then RegisterModel sl destination m else Inr m) of
        Inl p \<Rightarrow> Inl p
      | Inr m \<Rightarrow> (case FindDescriptor (ms_Table s) m of
          None \<Rightarrow> Inl ''nil pointer''
        | Some d \<Rightarrow> Inr (ready_descriptor (ms_Table s) d m)))"

text \<open>Without a pair, reading the first one panics.\<close>

definition PrepareJoin :: "schema_lib \<Rightarrow> string \<Rightarrow> join_constructor \<Rightarrow> handle \<Rightarrow> filter_manager
    \<Rightarrow> (query_error + handle) \<times> filter_manager" where
  "PrepareJoin sl destination q g f = (case jc_pairs q of
     [] \<Rightarrow> (Inl QPanic, f)
   | pair # _ \<Rightarrow> (case sl destination of
       Inl e \<Rightarrow> (Inl (QOther (NativeError (''failed to parse destination model: '' @ error_text e))), f)
     | Inr s \<Rightarrow> (case destination_fields sl destination s (fm_modelStore f) of
         Inl _ \<Rightarrow> (Inl QPanic, f)
       | Inr (d, models) \<Rightarrow>
           (let f = f\<lparr>fm_modelStore := models\<rparr>;
                selects = concat (map (\<lambda>(_, field). join_selects q field) (nil_map (md_FieldsJson d))) in
            case constructJoins sl (jc_pairs q) (chain (GSelects selects) (chain (GModel (jp_left pair)) g)) of
              Inl e \<Rightarrow> (Inl (QOther (NativeError (''failed to construct joins: '' @ error_text e))), f)
            | Inr h \<Rightarrow> (Inr (foldl (\<lambda>h (field, _). chain (GGroup field) h) h (jc_groupFields q)), f)))))"

definition newJoiner :: "gormdb \<Rightarrow> joiner" where
  "newJoiner g = \<lparr>jn_session = Session (db_handle g),
     jn_constructor = \<lparr>jc_pairs = [], jc_sumFields = [], jc_groupFields = []\<rparr>, jn_pair = None\<rparr>"

definition Joiner_Join :: "string \<Rightarrow> string \<Rightarrow> joiner \<Rightarrow> joiner" where
  "Joiner_Join model field j = j\<lparr>jn_pair := Some \<lparr>jp_left = model, jp_LeftField = field, jp_right = [], jp_RightField = []\<rparr>\<rparr>"

definition Joiner_On :: "string \<Rightarrow> string \<Rightarrow> joiner \<Rightarrow> string + joiner" where
  "Joiner_On model field j = (case jn_pair j of
     None \<Rightarrow> Inl ''can not call ON without calling Join first''
   | Some pair \<Rightarrow>
       (let pair = pair\<lparr>jp_right := model, jp_RightField := field\<rparr> in
        Inr (j\<lparr>jn_pair := Some pair, jn_constructor := (jn_constructor j)\<lparr>jc_pairs := jc_pairs (jn_constructor j) @ [pair]\<rparr>\<rparr>)))"

definition Joiner_Sum :: "string list \<Rightarrow> string list \<Rightarrow> joiner \<Rightarrow> joiner" where
  "Joiner_Sum groupFields sumFields j =
     (let c = jn_constructor j in
      j\<lparr>jn_constructor := c\<lparr>jc_sumFields := foldl (\<lambda>m f. map_set m f True) (jc_sumFields c) sumFields,
        jc_groupFields := foldl (\<lambda>m f. map_set m f True) (jc_groupFields c) groupFields\<rparr>\<rparr>)"

definition Joiner_Destination :: "schema_lib \<Rightarrow> gormdb \<Rightarrow> string \<Rightarrow> joiner \<Rightarrow> (query_error + join_query) \<times> filter_manager" where
  "Joiner_Destination sl g destination j =
     (case PrepareJoin sl destination (jn_constructor j) (jn_session j) (gd_filterManager g) of
        (Inl e, f) \<Rightarrow> (Inl e, f)
      | (Inr h, f) \<Rightarrow> (Inr \<lparr>jq_session = h, jq_paginator = gd_paginator g\<rparr>, f))"

definition JoinQuery_Join :: "gorm_lib \<Rightarrow> join_query \<Rightarrow> db_filter option \<Rightarrow> databases \<Rightarrow> (fields list \<times> int \<times> err) option" where
  "JoinQuery_Join gl j flt D = orm_find gl (Session (jq_session j)) flt (jq_paginator j) D"

record join_config =
  jcf_Name :: string
  jcf_Nocache :: bool

definition NewJoin :: "string \<Rightarrow> bool list \<Rightarrow> join_config" where
  "NewJoin name nocache = \<lparr>jcf_Name = name, jcf_Nocache = OptionalArg False nocache\<rparr>"

definition FindOrCreate :: "(query_error + join_query) \<Rightarrow> join_config \<Rightarrow> (string \<times> join_query) list
    \<Rightarrow> (query_error + join_query) \<times> (string \<times> join_query) list" where
  "FindOrCreate built cfg cache =
     (case (case map_get cache (jcf_Name cfg) of
              Some q \<Rightarrow> if jcf_Nocache cfg then built else Inr q
            | None \<Rightarrow> built) of
        Inl e \<Rightarrow> (Inl e, cache)
      | Inr q \<Rightarrow> (Inr q, if \<not> jcf_Nocache cfg then map_set cache (jcf_Name cfg) q else cache))"

text \<open>\<open>built\<close> is what the builder of the configuration returns; the outer \<open>None\<close> is a panic.\<close>

definition GormDB_Join :: "gorm_lib \<Rightarrow> gormdb \<Rightarrow> (query_error + join_query) \<Rightarrow> join_config \<Rightarrow> db_filter option \<Rightarrow> databases
    \<Rightarrow> (query_error + (fields list \<times> int \<times> err)) option \<times> gormdb" where
  "GormDB_Join gl g built cfg flt D = (case FindOrCreate built cfg (gd_joinQueries g) of
     (Inl e, cache) \<Rightarrow> (Some (Inl e), g\<lparr>gd_joinQueries := cache\<rparr>)
   | (Inr q, cache) \<Rightarrow> (map_option Inr (JoinQuery_Join gl q flt D), g\<lparr>gd_joinQueries := cache\<rparr>))"

section \<open>Connecting\<close>

record connector =
  co_DialectorOpener :: "string \<Rightarrow> string \<Rightarrow> goerror + string"
  co_DsnBuilder :: "db_config \<Rightarrow> goerror + string"
  co_DbCreator :: "(string \<Rightarrow> string \<Rightarrow> databases \<Rightarrow> err \<times> databases) option"
  co_CheckDuplicateKeyError :: "string \<Rightarrow> err \<Rightarrow> bool \<times> err"

text \<open>\<open>opn\<close> is the library: it opens the database of a dialector, here given by its data source name.\<close>

definition Connect :: "(string \<Rightarrow> goerror + string) \<Rightarrow> connector \<Rightarrow> gormdb \<Rightarrow> fatal_error \<Rightarrow> (err \<times> gormdb) \<times> fatal_error" where
  "Connect opn co g l =
     (let fail = (\<lambda>msg e fs. case PushFatalStack msg (Some e) fs l of (e, l) \<Rightarrow> ((Some e, g), l)) in
      case (if DB_DSN (gd_config g) \<noteq> [] then Inr (DB_DSN (gd_config g)) else co_DsnBuilder co (gd_config g)) of
        Inl e \<Rightarrow> fail ''failed to build DSN to connect to database'' e []
      | Inr dsn \<Rightarrow> (case co_DialectorOpener co (DB_PROVIDER (gd_config g)) dsn of
          Inl e \<Rightarrow> fail ''failed open dialector to connect to database'' e [[(''db_provider'', VStr (DB_PROVIDER (gd_config g)))]]
        | Inr dialector \<Rightarrow> (case opn dialector of
            Inl e \<Rightarrow> fail ''failed to connect to database'' e []
          | Inr d \<Rightarrow> ((None, g\<lparr>gd_db := d\<rparr>), l))))"

text \<open>The largest limit of the paginator stays as it was.\<close>

definition GormDB_InitWithConfig :: "(gormdb \<Rightarrow> err) \<Rightarrow> (string \<Rightarrow> goerror + string) \<Rightarrow> connector \<Rightarrow> db_config \<Rightarrow> gormdb \<Rightarrow> fatal_error
    \<Rightarrow> (err \<times> gormdb) \<times> fatal_error" where
  "GormDB_InitWithConfig validate opn co cfg g l =
     (let g = g\<lparr>gd_config := cfg\<rparr> in
      case validate g of
        Some e \<Rightarrow> (case PushFatalStack ''failed to validate GormDB configuration'' (Some e) [] l of (e, l) \<Rightarrow> ((Some e, g), l))
      | None \<Rightarrow> Connect opn co g l)"

definition GormDB_CreateDup :: "gorm_lib \<Rightarrow> connector \<Rightarrow> gormdb \<Rightarrow> gmodel \<Rightarrow> fields \<Rightarrow> databases
    \<Rightarrow> ((bool \<times> err) \<times> databases) \<times> log_entry list" where
  "GormDB_CreateDup gl co g m ob D = (case orm_Create gl (db_handle g) (snd m) ob D of (e, D) \<Rightarrow>
     (case co_CheckDuplicateKeyError co (DB_PROVIDER (gd_config g)) e of (duplicate, e) \<Rightarrow>
        (((duplicate, e), D), verbose g ''Create'' (fst m) [] e)))"

text \<open>A connector without a creator is called all the same, which panics.\<close>

definition GormDB_CreateDatabase :: "connector \<Rightarrow> gormdb \<Rightarrow> string \<Rightarrow> databases \<Rightarrow> ((err \<times> databases) \<times> log_entry list) option" where
  "GormDB_CreateDatabase co g dbName D = (case co_DbCreator co of
     None \<Rightarrow> None
   | Some creator \<Rightarrow> (case creator (DB_PROVIDER (gd_config g)) dbName D of (e, D) \<Rightarrow>
       Some ((e, D), verbose g ''CreateDatabase'' dbName [] e)))"

section \<open>Postgres\<close>

text \<open>
  What the driver does: the error that making a raw statement reports, then running it, with the number of rows or
  the count it returns; statements that are executed, migrations, and the errors that violate uniqueness.
\<close>

record pg_lib =
  pg_RawError :: "string \<Rightarrow> err"
  pg_Raw :: "string \<Rightarrow> gval list \<Rightarrow> databases \<Rightarrow> int \<times> err"
  pg_Exec :: "string \<Rightarrow> databases \<Rightarrow> err \<times> databases"
  pg_AutoMigrate :: "string \<Rightarrow> string list \<Rightarrow> databases \<Rightarrow> err \<times> databases"
  pg_UniqueViolation :: "goerror \<Rightarrow> bool"

definition unknown_provider :: goerror where "unknown_provider = NativeError ''unknown database provider''"

definition PostgresOpener :: "string \<Rightarrow> string \<Rightarrow> goerror + string" where
  "PostgresOpener provider dsn = (if provider \<noteq> ''postgres'' then Inl unknown_provider else Inr dsn)"

definition PostgresDsnBuilder :: "db_config \<Rightarrow> goerror + string" where
  "PostgresDsnBuilder cfg = Inr (''host='' @ DB_HOST cfg @ '' port='' @ NumToStr (int (DB_PORT cfg)) @ '' user='' @ DB_USER cfg @
     '' dbname='' @ cfg_DB_NAME cfg @ '' password='' @ DB_PASSWORD cfg @ '' sslmode=disable TimeZone=UTC'')"

text \<open>The error of reading the record is not looked at.\<close>

definition PostgresDbCreator :: "pg_lib \<Rightarrow> string \<Rightarrow> string \<Rightarrow> databases \<Rightarrow> err \<times> databases" where
  "PostgresDbCreator pg provider dbName D =
     (if provider \<noteq> ''postgres'' then (Some unknown_provider, D)
      else case pg_RawError pg ''SELECT * FROM pg_database WHERE datname = ?;'' of
        Some e \<Rightarrow> (errors_New (''failed to select from pg_database: '' @ error_text e), D)
      | None \<Rightarrow> if fst (pg_Raw pg ''SELECT * FROM pg_database WHERE datname = ?;'' [VStr dbName] D) = 0 then
        (case pg_Exec pg (''CREATE DATABASE '' @ dbName @ '';'') D of
           (Some e, D) \<Rightarrow> (errors_New (''failed to create postgres database: '' @ error_text e), D)
         | (None, D) \<Rightarrow> (None, D))
      else (None, D))"

definition PostgresCheckDuplicateKeyError :: "pg_lib \<Rightarrow> string \<Rightarrow> err \<Rightarrow> bool \<times> err" where
  "PostgresCheckDuplicateKeyError pg provider e =
     (if provider \<noteq> ''postgres'' then (False, Some unknown_provider)
      else case e of
        Some er \<Rightarrow> if pg_UniqueViolation pg er then (True, errors_New ''record already exists'') else (False, e)
      | None \<Rightarrow> (False, None))"

definition PostgresTableExists :: "pg_lib \<Rightarrow> string \<Rightarrow> databases \<Rightarrow> bool \<times> err" where
  "PostgresTableExists pg tableName D =
     (case pg_Raw pg (''SELECT COUNT(*) FROM information_schema.tables WHERE table_name = '' @ [CHR 0x27] @ tableName @ [CHR 0x27] @
          '' AND table_schema LIKE '' @ [CHR 0x27] @ ''public'' @ [CHR 0x27] @ '' AND table_type LIKE '' @ [CHR 0x27] @
          ''BASE TABLE'' @ [CHR 0x27]) [] D of (count, e) \<Rightarrow>
        if e \<noteq> None then (False, e) else (count > 0, None))"

text \<open>The error that is reported for a partition that cannot be created is the nil error of the check before.\<close>

definition partition_table :: "string \<Rightarrow> int \<Rightarrow> string" where
  "partition_table table month = table @ ''_'' @ NumToStr month"

definition partition_sql :: "string \<Rightarrow> int \<Rightarrow> string" where
  "partition_sql table month = ''CREATE TABLE '' @ partition_table table month @ '' PARTITION OF '' @ table @
     '' FOR VALUES IN ('' @ NumToStr month @ '');''"

fun create_partitions :: "pg_lib \<Rightarrow> nat \<Rightarrow> string \<Rightarrow> int \<Rightarrow> fatal_error \<Rightarrow> databases \<Rightarrow> (err \<times> databases) \<times> fatal_error \<times> log_entry list" where
  "create_partitions pg 0 table month l D = ((None, D), l, [])"
| "create_partitions pg (Suc n) table month l D =
     (let subfields = [(''table'', VStr table), (''month'', VInt month), (''partition_table'', VStr (partition_table table month))] in
      case PostgresTableExists pg (partition_table table month) D of
        (_, Some e) \<Rightarrow> (case PushFatalStack ''failed to check if partition exists in database'' (Some e) [] l of (e, l) \<Rightarrow> ((Some e, D), l, []))
      | (True, None) \<Rightarrow> create_partitions pg n table (Month_Next month) l D
      | (False, None) \<Rightarrow>
          (let subfields = subfields @ [(''sql'', VStr (partition_sql table month))] in
           case pg_Exec pg (partition_sql table month) D of
             (Some e, D) \<Rightarrow> (case PushFatalStack ''failed to create partition for database model'' None [subfields] l of
                (e, l) \<Rightarrow> ((Some e, D), l, [LogEntry LogInfo ''Creating partition'' None subfields]))
           | (None, D) \<Rightarrow> (case create_partitions pg n table (Month_Next month) l D of
                (r, l, lgs) \<Rightarrow> (r, l, LogEntry LogInfo ''Creating partition'' None subfields # lgs))))"

fun partition_models :: "pg_lib \<Rightarrow> schema_lib \<Rightarrow> int \<Rightarrow> string list \<Rightarrow> fatal_error \<Rightarrow> databases \<Rightarrow> (err \<times> databases) \<times> fatal_error \<times> log_entry list" where
  "partition_models pg sl month [] l D = ((None, D), l, [])"
| "partition_models pg sl month (model # models) l D = (case sl model of
     Inl e \<Rightarrow> (case PushFatalStack ''failed to migrate partitioned database models'' (Some e) [] l of (e, l) \<Rightarrow> ((Some e, D), l, []))
   | Inr sc \<Rightarrow> (case create_partitions pg 12 (ms_Table sc) month l D of
       ((Some e, D), l, lgs) \<Rightarrow> ((Some e, D), l, lgs)
     | ((None, D), l, lgs) \<Rightarrow> (case partition_models pg sl month models l D of (r, l, lgs') \<Rightarrow> (r, l, lgs @ lgs'))))"

text \<open>\<open>month\<close> is the current month.\<close>

definition PostgresPartitionedMonthAutoMigrate :: "pg_lib \<Rightarrow> schema_lib \<Rightarrow> int \<Rightarrow> string list \<Rightarrow> fatal_error \<Rightarrow> databases
    \<Rightarrow> (err \<times> databases) \<times> fatal_error \<times> log_entry list" where
  "PostgresPartitionedMonthAutoMigrate pg sl month models l D =
     (if length models = 0 then ((None, D), l, [])
      else case pg_AutoMigrate pg '' PARTITION BY LIST (month)'' models D of
        (Some e, D) \<Rightarrow> (case PushFatalStack ''failed to migrate partitioned database models'' (Some e) [] l of (e, l) \<Rightarrow> ((Some e, D), l, []))
      | (None, D) \<Rightarrow> partition_models pg sl month models l D)"

definition PostgresPartitionedMonthMigrator :: "pg_lib \<Rightarrow> schema_lib \<Rightarrow> int \<Rightarrow> string \<Rightarrow> string list \<Rightarrow> fatal_error \<Rightarrow> databases
    \<Rightarrow> (err \<times> databases) \<times> fatal_error \<times> log_entry list" where
  "PostgresPartitionedMonthMigrator pg sl month provider models l D =
     (if provider \<noteq> ''postgres'' then ((Some unknown_provider, D), l, [])
      else PostgresPartitionedMonthAutoMigrate pg sl month models l D)"

definition PostgresDbConnector :: "pg_lib \<Rightarrow> connector" where
  "PostgresDbConnector pg = \<lparr>co_DialectorOpener = PostgresOpener, co_DsnBuilder = PostgresDsnBuilder, co_DbCreator = None,
     co_CheckDuplicateKeyError = PostgresCheckDuplicateKeyError pg\<rparr>"

end
