(* ===== verification/Gorm_Laws.thy ===== *)
theory Gorm_Laws
  imports Gorm
begin

text \<open>
  What the gorm library promises, and what follows for the database object: it implements the interface of
  \<open>Db\<close> that all controllers rely on; the pages it returns are bounded; and where it does not do what a filter says.
\<close>

section \<open>The meaning of a statement\<close>

text \<open>
  The conditions of a statement in the order of the calls: \<^verbatim>\<open>Where\<close> adds one to those before it, \<^verbatim>\<open>Or\<close> begins an
  alternative to all of them. \<open>sem\<close> is what the database makes of a condition in text.
\<close>

fun alternatives :: "gcall list \<Rightarrow> gcall list \<Rightarrow> gcall list list" where
  "alternatives [] cur = [cur]"
| "alternatives (GOr t a # cs) cur = cur # alternatives cs [GWhere t a]"
| "alternatives (c # cs) cur = alternatives cs (cur @ [c])"

type_synonym sem = "string \<Rightarrow> garg list \<Rightarrow> fields \<Rightarrow> bool"

definition sat_call :: "sem \<Rightarrow> gcall \<Rightarrow> fields \<Rightarrow> bool" where
  "sat_call sem c row = (case c of
     GFields fs \<Rightarrow> row_matches fs row
   | GNot fs \<Rightarrow> \<not> row_matches fs row
   | GKey i \<Rightarrow> map_get row ''id'' = Some (VStr i)
   | GWhere t a \<Rightarrow> sem t a row
   | _ \<Rightarrow> True)"

definition selected :: "sem \<Rightarrow> handle \<Rightarrow> fields \<Rightarrow> bool" where
  "selected sem h row \<longleftrightarrow> list_ex (list_all (\<lambda>c. sat_call sem c row)) (alternatives (hd_calls h) [])"

definition model_of :: "gcall list \<Rightarrow> string" where
  "model_of cs = foldl (\<lambda>m c. case c of GModel t \<Rightarrow> t | _ \<Rightarrow> m) [] cs"

definition limit_of :: "gcall list \<Rightarrow> int option" where
  "limit_of cs = foldl (\<lambda>m c. case c of GLimit n \<Rightarrow> Some n | _ \<Rightarrow> m) None cs"

definition offset_of :: "gcall list \<Rightarrow> int" where
  "offset_of cs = foldl (\<lambda>m c. case c of GOffset n \<Rightarrow> n | _ \<Rightarrow> m) 0 cs"

definition page :: "gcall list \<Rightarrow> 'a list \<Rightarrow> 'a list" where
  "page cs rows = (case limit_of cs of None \<Rightarrow> drop (nat (offset_of cs)) rows
     | Some n \<Rightarrow> take (nat n) (drop (nat (offset_of cs)) rows))"

text \<open>Statements over one table in the order of its rows.\<close>

definition plain_call :: "gcall \<Rightarrow> bool" where
  "plain_call c = (case c of GOrder _ \<Rightarrow> False | GSelect _ \<Rightarrow> False | GSelects _ \<Rightarrow> False | GGroup _ \<Rightarrow> False | GJoins _ \<Rightarrow> False | _ \<Rightarrow> True)"

definition plain :: "handle \<Rightarrow> bool" where
  "plain h \<longleftrightarrow> list_all plain_call (hd_calls h)"

abbreviation rows_of :: "handle \<Rightarrow> databases \<Rightarrow> fields list" where
  "rows_of h D \<equiv> D (hd_db h) (model_of (hd_calls h))"

text \<open>The documented behaviour of the finishing calls, where they report no error.\<close>

definition gorm_reads :: "gorm_lib \<Rightarrow> sem \<Rightarrow> bool" where
  "gorm_reads gl sem \<longleftrightarrow>
     (\<forall>h D r e. plain h \<longrightarrow> gl_First gl h D = (r, e) \<longrightarrow>
        (e = None \<longrightarrow> (\<exists>row. r = Some row \<and> row \<in> set (rows_of h D) \<and> selected sem h row))
      \<and> (e = Some (gl_ErrRecordNotFound gl) \<longrightarrow> r = None \<and> \<not> list_ex (selected sem h) (rows_of h D)))
   \<and> (\<forall>h D rows n e. plain h \<longrightarrow> gl_Find gl h D = (rows, n, e) \<longrightarrow> \<not> hard_error gl e \<longrightarrow>
        rows = page (hd_calls h) (filter (selected sem h) (rows_of h D)) \<and> n = int (length rows))
   \<and> (\<forall>h D n e. plain h \<longrightarrow> gl_Count gl h D = (n, e) \<longrightarrow> \<not> hard_error gl e \<longrightarrow>
        n = int (length (filter (selected sem h) (rows_of h D))))"

definition gorm_writes :: "gorm_lib \<Rightarrow> sem \<Rightarrow> bool" where
  "gorm_writes gl sem \<longleftrightarrow>
     (\<forall>h tbl row D D'. hd_calls h = [] \<longrightarrow> gl_Create gl h tbl row D = (None, D') \<longrightarrow>
        D' = set_table (hd_db h) tbl (D (hd_db h) tbl @ [row]) D)
   \<and> (\<forall>h tbl D D'. plain h \<longrightarrow> gl_Delete gl h tbl D = (None, D') \<longrightarrow>
        D' = set_table (hd_db h) tbl (filter (\<lambda>row. \<not> selected sem h row) (D (hd_db h) tbl)) D)
   \<and> (\<forall>h fs D D'. plain h \<longrightarrow> gl_Updates gl h fs D = (None, D') \<longrightarrow>
        D' = set_table (hd_db h) (model_of (hd_calls h))
               (map (\<lambda>row. if selected sem h row then AppendMap row fs else row) (rows_of h D)) D)"

definition text_conditions :: "sem \<Rightarrow> bool" where
  "text_conditions sem \<longleftrightarrow>
     (\<forall>n v row. CHR 0x22 \<notin> set n \<longrightarrow> sem (quoted n @ '' = ?'') [GArg v] row = (map_get row n = Some v))
   \<and> (\<forall>row. sem ''1 = 1'' [] row)"

section \<open>The handlers\<close>

text \<open>
  The handlers of the interface, over one database object for each name of a database. A name with a quotation
  mark is the name of no column, and what the database makes of such a text is not modelled: it counts as an error.
\<close>

definition GormDB_handlers :: "gorm_lib \<Rightarrow> connector \<Rightarrow> (string \<Rightarrow> gormdb) \<Rightarrow> (string \<Rightarrow> (query_error + join_query) \<times> join_config) \<Rightarrow> dbhandlers" where
  "GormDB_handlers gl co db joins = \<lparr>
     h_FindByField = (\<lambda>d tbl k v D. if CHR 0x22 \<in> set k then (None, errors_New ''no such column'')
        else fst (GormDB_FindByField gl (db d) k v (tbl, tbl) D)),
     h_FindForUpdate = (\<lambda>d tbl fs D. fst (GormDB_FindForUpdate gl (db d) fs (tbl, tbl) D)),
     h_FindForShare = (\<lambda>d tbl fs D. fst (GormDB_FindForShare gl (db d) fs (tbl, tbl) D)),
     h_FindByFields = (\<lambda>d tbl fs D. fst (GormDB_FindByFields gl (db d) fs (tbl, tbl) D)),
     h_FindWithFilter = (\<lambda>d tbl f D. case GormDB_FindWithFilter gl (db d) f (tbl, tbl) D of
        None \<Rightarrow> ([], 0, errors_New ''panic'') | Some (r, _) \<Rightarrow> r),
     h_Exists = (\<lambda>d tbl f D. fst (GormDB_Exists gl (db d) (Some f) (tbl, tbl) D)),
     h_Create = (\<lambda>d tbl row D. fst (GormDB_Create gl (db d) (tbl, tbl) row D)),
     h_CreateDup = (\<lambda>d tbl row D. fst (GormDB_CreateDup gl co (db d) (tbl, tbl) row D)),
     h_Delete = (\<lambda>d tbl i D. fst (GormDB_Delete gl (db d) (tbl, tbl) i D)),
     h_DeleteByFields = (\<lambda>d tbl fs D. fst (GormDB_DeleteByFields gl (db d) fs (tbl, tbl) D)),
     h_Update = (\<lambda>d tbl flt fs D. fst (GormDB_Update gl (db d) (tbl, tbl) flt fs D)),
     h_UpdateAll = (\<lambda>d tbl fs D. fst (GormDB_UpdateAll gl (db d) (tbl, tbl) fs D)),
     h_UpdateWithFilter = (\<lambda>d tbl f fs D. fst (GormDB_UpdateWithFilter gl (db d) (tbl, tbl) f fs D)),
     h_Join = (\<lambda>d name f D. case fst (GormDB_Join gl (db d) (fst (joins name)) (snd (joins name)) (Some f) D) of
        Some (Inr r) \<Rightarrow> r | _ \<Rightarrow> ([], 0, errors_New ''failed to join'')) \<rparr>"

section \<open>Lemmas\<close>

lemma chain_simps [simp]:
  "hd_calls (chain c h) = hd_calls h @ [c]" "hd_db (chain c h) = hd_db h" "hd_shared (chain c h)"
  by (simp_all add: chain_def)

lemma db_handle_simps [simp]: "hd_calls (db_handle g) = []" "hd_db (db_handle g) = gd_db g" "\<not> hd_shared (db_handle g)"
  by (simp_all add: db_handle_def)

lemma statement_snoc [simp]:
  "model_of (cs @ [c]) = (case c of GModel t \<Rightarrow> t | _ \<Rightarrow> model_of cs)"
  "limit_of (cs @ [c]) = (case c of GLimit n \<Rightarrow> Some n | _ \<Rightarrow> limit_of cs)"
  "offset_of (cs @ [c]) = (case c of GOffset n \<Rightarrow> n | _ \<Rightarrow> offset_of cs)"
  by (cases c; simp add: model_of_def limit_of_def offset_of_def)+

lemma statement_page [simp]:
  "model_of (cs @ [GOffset k, GLimit n]) = model_of cs" "limit_of (cs @ [GOffset k, GLimit n]) = Some n"
  "offset_of (cs @ [GOffset k, GLimit n]) = k"
  by (simp_all add: model_of_def limit_of_def offset_of_def)

lemma statement_Nil [simp]: "model_of [] = []" "limit_of [] = None" "offset_of [] = 0"
  by (simp_all add: model_of_def limit_of_def offset_of_def)

lemma plain_chain [simp]: "plain (chain c h) \<longleftrightarrow> plain h \<and> plain_call c"
  by (simp add: plain_def)

lemma plain_db_handle [simp]: "plain (db_handle g)"
  by (simp add: plain_def)

lemma plain_call_simps [simp]:
  "plain_call (GModel t)" "plain_call (GFields fs)" "plain_call (GWhere w a)" "plain_call (GKey i)" "plain_call (GLimit n)"
  "plain_call (GOffset n)" "plain_call (GLocking l)"
  by (simp_all add: plain_call_def)

lemma selected_simps [simp]:
  "selected sem (chain (GFields fs) (chain (GModel t) (db_handle g))) = row_matches fs"
  "selected sem (chain (GWhere w a) (chain (GModel t) (db_handle g))) = sem w a"
  "selected sem (chain (GLimit n) (chain (GFields fs) (chain (GModel t) (db_handle g)))) = row_matches fs"
  "selected sem (chain (GFields fs) (db_handle g)) = row_matches fs"
  "selected sem (chain (GKey i) (db_handle g)) = (\<lambda>row. map_get row ''id'' = Some (VStr i))"
  by (simp_all add: selected_def sat_call_def fun_eq_iff)

lemma model_of_simps [simp]:
  "model_of [GModel t] = t" "model_of [GModel t, GFields fs] = t" "model_of [GModel t, GWhere w a] = t"
  "model_of [GModel t, GFields fs, GLimit n] = t"
  by (simp_all add: model_of_def)

lemma text_conditionsD:
  assumes "text_conditions sem"
  shows "CHR 0x22 \<notin> set n \<Longrightarrow> sem (quoted n @ '' = ?'') [GArg v] row = (map_get row n = Some v)" "sem ''1 = 1'' [] row"
  using assms by (simp_all add: text_conditions_def)

lemma firstD:
  assumes "gorm_reads gl sem" "plain h" "found_or_error gl (gl_First gl h D) = (r, e)"
  shows "r = Some row \<Longrightarrow> e = None \<and> row \<in> set (rows_of h D) \<and> selected sem h row"
    and "r = None \<Longrightarrow> e = None \<Longrightarrow> \<not> list_ex (selected sem h) (rows_of h D)"
proof -
  obtain r0 e0 where f: "gl_First gl h D = (r0, e0)" by fastforce
  have l: "e0 = None \<longrightarrow> (\<exists>row. r0 = Some row \<and> row \<in> set (rows_of h D) \<and> selected sem h row)"
    "e0 = Some (gl_ErrRecordNotFound gl) \<longrightarrow> r0 = None \<and> \<not> list_ex (selected sem h) (rows_of h D)"
    using assms(1,2) f unfolding gorm_reads_def by blast+
  show "r = Some row \<Longrightarrow> e = None \<and> row \<in> set (rows_of h D) \<and> selected sem h row"
    "r = None \<Longrightarrow> e = None \<Longrightarrow> \<not> list_ex (selected sem h) (rows_of h D)"
    using assms(3) l by (auto simp: f found_or_error_def split: option.splits if_splits)
qed

lemma handlers_find:
  assumes "gorm_reads gl sem" "text_conditions sem" "\<And>d. gd_db (db d) = d"
  shows "find_returns_match (GormDB_handlers gl co db joins)" "find_misses_nothing (GormDB_handlers gl co db joins)"
proof -
  let ?H = "GormDB_handlers gl co db joins"
  have a: "h_FindByFields ?H d tbl fs D
      = found_or_error gl (gl_First gl (chain (GFields fs) (chain (GModel tbl) (db_handle (db d)))) D)" for d tbl fs D
    by (simp add: GormDB_handlers_def GormDB_FindByFields_def orm_FindByFields_def split: prod.split)
  have b: "h_FindByField ?H d tbl k v D = (if CHR 0x22 \<in> set k then (None, errors_New ''no such column'')
      else found_or_error gl (gl_First gl (chain (GWhere (quoted k @ '' = ?'') [GArg v]) (chain (GModel tbl) (db_handle (db d)))) D))"
    for d tbl k v D
    by (simp add: GormDB_handlers_def GormDB_FindByField_def orm_FindByField_def split: prod.split)
  have F: "r = Some row \<Longrightarrow> e = None \<and> row \<in> set (D d tbl) \<and> row_matches fs row"
      "r = None \<Longrightarrow> e = None \<Longrightarrow> \<not> list_ex (row_matches fs) (D d tbl)"
    if "found_or_error gl (gl_First gl (chain (GFields fs) (chain (GModel tbl) (db_handle (db d)))) D) = (r, e)" for r e row fs tbl d D
    using firstD [OF assms(1) _ that] by (simp_all add: assms(3))
  have W: "r = Some row \<Longrightarrow> e = None \<and> row \<in> set (D d tbl) \<and> map_get row k = Some v"
      "r = None \<Longrightarrow> e = None \<Longrightarrow> \<not> list_ex (\<lambda>row. map_get row k = Some v) (D d tbl)"
    if "found_or_error gl (gl_First gl (chain (GWhere (quoted k @ '' = ?'') [GArg v]) (chain (GModel tbl) (db_handle (db d)))) D) = (r, e)"
      "CHR 0x22 \<notin> set k" for r e row k v tbl d D
    using firstD [OF assms(1) _ that(1)] that(2) by (simp_all add: assms(3) text_conditionsD(1) [OF assms(2)])
  show "find_returns_match ?H" unfolding find_returns_match_def a b
    using F(1) [OF _ refl] W(1) [OF _ _ refl] by (auto split: if_splits)
  show "find_misses_nothing ?H" unfolding find_misses_nothing_def a b
    using F(2) [OF _ refl refl] W(2) [OF _ _ refl refl] by (auto simp: list_ex_iff split: if_splits)
qed

lemma handlers_write:
  assumes "gorm_writes gl sem" "text_conditions sem" "\<And>d. gd_db (db d) = d"
  shows "update_writes_matches (GormDB_handlers gl co db joins)" "update_all_writes (GormDB_handlers gl co db joins)"
    "create_appends (GormDB_handlers gl co db joins)" "delete_removes (GormDB_handlers gl co db joins)"
    "delete_by_fields_removes (GormDB_handlers gl co db joins)"
proof -
  have c: "gl_Create gl h tbl row D = (None, D') \<Longrightarrow> hd_calls h = [] \<Longrightarrow> D' = set_table (hd_db h) tbl (D (hd_db h) tbl @ [row]) D"
    and dl: "gl_Delete gl h tbl D = (None, D') \<Longrightarrow> plain h \<Longrightarrow>
        D' = set_table (hd_db h) tbl (filter (\<lambda>row. \<not> selected sem h row) (D (hd_db h) tbl)) D"
    and u: "gl_Updates gl h fs D = (None, D') \<Longrightarrow> plain h \<Longrightarrow> D' = set_table (hd_db h) (model_of (hd_calls h))
        (map (\<lambda>row. if selected sem h row then AppendMap row fs else row) (rows_of h D)) D" for h tbl row D D' fs
    using assms(1) unfolding gorm_writes_def by blast+
  note defs = GormDB_handlers_def GormDB_Create_def orm_Create_def GormDB_Delete_def orm_Delete_def
    GormDB_DeleteByFields_def orm_DeleteAllByFields_def GormDB_Update_def orm_UpdateFielsdMulti_def
    GormDB_UpdateAll_def orm_UpdateFieldsAll_def
  show "create_appends (GormDB_handlers gl co db joins)"
    by (auto simp: create_appends_def defs assms(3) dest: c split: prod.splits)
  show "delete_removes (GormDB_handlers gl co db joins)"
    by (auto simp: delete_removes_def defs assms(3) dest: dl split: prod.splits)
  show "delete_by_fields_removes (GormDB_handlers gl co db joins)"
    by (auto simp: delete_by_fields_removes_def defs assms(3) dest: dl split: prod.splits)
  show "update_writes_matches (GormDB_handlers gl co db joins)"
    by (auto simp: update_writes_matches_def defs assms(3) dest: u split: prod.splits)
  show "update_all_writes (GormDB_handlers gl co db joins)"
    by (auto simp: update_all_writes_def defs assms(3) text_conditionsD(2) [OF assms(2)] dest: u split: prod.splits)
qed

lemma prepareFilter_fields:
  "prepareFilter (NewFilter\<lparr>Fields := Some fs\<rparr>) h = chain (GFields fs) h"
  "prepareFilter (fields_filter fs limit) h = chain (GFields fs) h"
  by (simp_all add: prepareFilter_def NewFilter_def fields_filter_def nil_map_def)

lemma handlers_exists:
  assumes "gorm_reads gl sem" "\<And>d. gd_db (db d) = d"
  shows "exists_checks (GormDB_handlers gl co db joins)"
  unfolding exists_checks_def
proof (intro allI impI)
  fix d tbl fs D b
  let ?h = "chain (GLimit 1) (chain (GFields fs) (chain (GModel tbl) (db_handle (db d))))"
  obtain r e where f: "gl_First gl ?h D = (r, e)" by fastforce
  have l: "e = None \<longrightarrow> (\<exists>row. r = Some row \<and> row \<in> set (rows_of ?h D) \<and> selected sem ?h row)"
    "e = Some (gl_ErrRecordNotFound gl) \<longrightarrow> r = None \<and> \<not> list_ex (selected sem ?h) (rows_of ?h D)"
    using assms(1) f unfolding gorm_reads_def by (metis plain_chain plain_db_handle plain_call_simps(1,2,5))+
  assume "h_Exists (GormDB_handlers gl co db joins) d tbl (NewFilter\<lparr>Fields := Some fs\<rparr>) D = (b, None)"
  then have "\<not> hard_error gl e" "b = (r \<noteq> None)"
    by (auto simp: GormDB_handlers_def GormDB_Exists_def orm_Exists_def prepareFilter_fields receiver_def f hard_error_def
        split: if_splits prod.splits)
  then show "b = list_ex (row_matches fs) (D d tbl)"
    using l by (cases "e = None") (auto simp: hard_error_def list_ex_iff assms(2))
qed

lemma findD:
  assumes "gorm_reads gl sem" "plain h" "find_rows gl h count D = (rows, n, None)"
  shows "rows = page (hd_calls h) (filter (selected sem h) (rows_of h D))"
proof -
  obtain rs k e where f: "gl_Find gl h D = (rs, k, e)" by (metis prod.collapse)
  have "\<not> hard_error gl e" using assms(3) by (auto simp: find_rows_def f hard_error_def split: if_splits)
  with assms(1,2) f have "rs = page (hd_calls h) (filter (selected sem h) (rows_of h D))" unfolding gorm_reads_def by blast
  moreover have "rows = rs" using assms(3) by (simp add: find_rows_def f split: if_splits)
  ultimately show ?thesis by simp
qed

lemma handlers_find_filters:
  assumes "gorm_reads gl sem" "\<And>d. gd_db (db d) = d" "\<And>d. gd_paginator (db d) = Some 0"
  shows "find_filters (GormDB_handlers gl co db joins)"
  unfolding find_filters_def
proof (intro allI impI)
  fix d tbl fs limit D rows n
  let ?g = "chain (GFields fs) (chain (GModel tbl) (db_handle (db d)))"
  let ?h = "if limit > 0 then chain (GLimit limit) ?g else ?g"
  assume "h_FindWithFilter (GormDB_handlers gl co db joins) d tbl (Some (fields_filter fs limit)) D = (rows, n, None)"
  then have "find_rows gl ?h 0 D = (rows, n, None)"
    by (auto simp: GormDB_handlers_def GormDB_FindWithFilter_def orm_FindWithFilter_def orm_find_def SetFilter_def
        prepareFilter_fields Paginate_def assms(3) OptionalArg_def Let_def split: if_splits prod.splits)
       (simp_all add: fields_filter_def NewFilter_def split: if_splits)
  moreover have "plain ?h" by simp
  ultimately have "rows = page (hd_calls ?h) (filter (selected sem ?h) (rows_of ?h D))" using findD [OF assms(1)] by blast
  then show "rows = (if limit > 0 then take (nat limit) else id) (filter (row_matches fs) (D d tbl))"
    by (simp add: page_def limit_of_def offset_of_def assms(2) split: if_splits)
qed


section \<open>Pages\<close>

text \<open>A filter adds conditions to a statement and nothing else.\<close>

definition condition :: "gcall \<Rightarrow> bool" where
  "condition c = (case c of GFields _ \<Rightarrow> True | GWhere _ _ \<Rightarrow> True | GOr _ _ \<Rightarrow> True | _ \<Rightarrow> False)"

definition adds :: "handle \<Rightarrow> handle \<Rightarrow> bool" where
  "adds h h' \<longleftrightarrow> hd_db h' = hd_db h \<and> (hd_shared h \<longrightarrow> hd_shared h')
     \<and> (\<exists>cs. hd_calls h' = hd_calls h @ cs \<and> list_all condition cs)"

lemma adds_refl: "adds h h"
  by (simp add: adds_def)

lemma adds_chain: "adds g h \<Longrightarrow> condition c \<Longrightarrow> adds g (chain c h)"
  by (auto simp: adds_def)

lemma adds_foldl: "adds g h \<Longrightarrow> (\<And>x h. x \<in> set xs \<Longrightarrow> adds g h \<Longrightarrow> adds g (f h x)) \<Longrightarrow> adds g (foldl f h xs)"
  by (induction xs arbitrary: h) auto

lemma adds_prepareInterval: "adds g h \<Longrightarrow> adds g (prepareInterval name i h)"
  by (simp add: prepareInterval_def adds_chain condition_def)

lemma condition_or_calls: "c \<in> set (or_calls p) \<Longrightarrow> condition c"
  by (auto simp: or_calls_def condition_def split: list.splits)

lemma adds_prepareFilter: "adds h (prepareFilter f h)"
  unfolding prepareFilter_def Let_def
  by (intro adds_foldl adds_chain)
    (auto simp: condition_def between_call_def split: option.splits prod.splits
      intro!: adds_refl adds_chain adds_prepareInterval adds_foldl dest: condition_or_calls)

lemma adds_statement:
  assumes "adds h h'"
  shows "model_of (hd_calls h') = model_of (hd_calls h)" "limit_of (hd_calls h') = limit_of (hd_calls h)"
    "offset_of (hd_calls h') = offset_of (hd_calls h)" "plain h \<Longrightarrow> plain h'"
proof -
  obtain cs where cs: "hd_calls h' = hd_calls h @ cs" "list_all condition cs" using assms by (auto simp: adds_def)
  have "model_of (as @ cs) = model_of as \<and> limit_of (as @ cs) = limit_of as \<and> offset_of (as @ cs) = offset_of as
      \<and> list_all plain_call cs" for as
    using cs(2) by (induction cs rule: rev_induct)
      (auto simp: condition_def plain_call_def simp flip: append_assoc split: gcall.splits)
  then show "model_of (hd_calls h') = model_of (hd_calls h)" "limit_of (hd_calls h') = limit_of (hd_calls h)"
    "offset_of (hd_calls h') = offset_of (hd_calls h)" "plain h \<Longrightarrow> plain h'"
    by (simp_all add: cs(1) plain_def)
qed

lemma alternatives_snoc:
  assumes "P c" "\<And>t a. c \<noteq> GOr t a"
  shows "list_ex (list_all P) (alternatives (cs @ [c]) cur) = list_ex (list_all P) (alternatives cs cur)"
proof (induction cs cur rule: alternatives.induct)
  case (1 cur)
  have "alternatives [c] cur = [cur @ [c]]" using assms(2) by (cases c) auto
  with assms(1) show ?case by simp
qed auto

lemma selected_page [simp]:
  "selected sem (chain (GLimit n) h) = selected sem h" "selected sem (chain (GOffset n) h) = selected sem h"
  unfolding selected_def fun_eq_iff by (auto simp: alternatives_snoc sat_call_def)

definition unsorted :: "db_filter \<Rightarrow> bool" where
  "unsorted f \<longleftrightarrow> SortField f = [] \<or> SortDirection f \<noteq> SORT_ASC \<and> SortDirection f \<noteq> SORT_DESC"

definition filtered :: "gormdb \<Rightarrow> string \<Rightarrow> db_filter \<Rightarrow> handle" where
  "filtered g tbl f = prepareFilter f (chain (GModel tbl) (db_handle g))"

lemma filtered_statement:
  "model_of (hd_calls (filtered g tbl f)) = tbl" "limit_of (hd_calls (filtered g tbl f)) = None"
  "offset_of (hd_calls (filtered g tbl f)) = 0" "plain (filtered g tbl f)" "hd_db (filtered g tbl f) = gd_db g" "hd_shared (filtered g tbl f)"
proof -
  have a: "adds (chain (GModel tbl) (db_handle g)) (filtered g tbl f)" unfolding filtered_def by (rule adds_prepareFilter)
  show "model_of (hd_calls (filtered g tbl f)) = tbl" "limit_of (hd_calls (filtered g tbl f)) = None"
    "offset_of (hd_calls (filtered g tbl f)) = 0" "plain (filtered g tbl f)"
    using adds_statement [OF a] by (simp_all add: limit_of_def offset_of_def)
  show "hd_db (filtered g tbl f) = gd_db g" "hd_shared (filtered g tbl f)" using a by (simp_all add: adds_def)
qed

lemma SetFilter_unsorted:
  "unsorted f \<Longrightarrow> SetFilter (Some f) (Some m) None ps (chain (GModel tbl) (db_handle g)) = Paginate m f ps (filtered g tbl f)"
  by (auto simp: SetFilter_def unsorted_def filtered_def)

lemma Paginate_optional: "Paginate m f [True] h = Paginate m f [] h" "Paginate m f [False] h = h"
  by (simp_all add: Paginate_def OptionalArg_def)

lemma FindWithFilter_statement:
  assumes "unsorted f" "gd_paginator g = Some m" "GormDB_FindWithFilter gl g (Some f) (tn, tbl) D = Some ((rows, n, None), lgs)"
  shows "\<exists>count. find_rows gl (Paginate m f [] (filtered g tbl f)) count D = (rows, n, None)"
proof -
  from assms(3) have o: "orm_find gl (chain (GModel tbl) (db_handle g)) (Some f) (Some m) D = Some (rows, n, None)"
    by (auto simp: GormDB_FindWithFilter_def orm_FindWithFilter_def assms(2) split: option.splits prod.splits)
  show ?thesis
  proof (cases "Count f")
    case True
    with o show ?thesis
      by (auto simp: orm_find_def SetFilter_unsorted [OF assms(1)] Paginate_optional receiver_def hard_error_def
          filtered_statement Let_def split: prod.splits if_splits)
  next
    case False
    with o show ?thesis by (auto simp: orm_find_def SetFilter_unsorted [OF assms(1)] Paginate_optional Let_def)
  qed
qed

lemma Paginate_statement:
  "plain (Paginate m f [] (filtered g tbl f))" "rows_of (Paginate m f [] (filtered g tbl f)) D = D (gd_db g) tbl"
  "selected sem (Paginate m f [] (filtered g tbl f)) = selected sem (filtered g tbl f)"
  "offset_of (hd_calls (Paginate m f [] (filtered g tbl f))) = (if Offset f > 0 then Offset f else 0)"
  "limit_of (hd_calls (Paginate m f [] (filtered g tbl f)))
     = (if Limit f > 0 then Some (if m > 0 then min (Limit f) m else Limit f) else None)"
  by (auto simp: Paginate_def OptionalArg_def filtered_statement Let_def)


section \<open>Where the statement does not say what the filter says\<close>

text \<open>
  C23: a group of alternative fields is an alternative to everything before it: a row that has the value in the second
  field is found although it does not have the fields that the program has preset, for example the owner that
  a request is confined to.
\<close>

theorem or_fields_bypass:
  assumes "gorm_reads gl sem" "text_conditions sem" "gd_paginator g = Some m"
    and "row \<in> set (D (gd_db g) tbl)" "map_get row b = Some v" "CHR 0x22 \<notin> set b"
    and "f = NewFilter\<lparr>PresetFields := [preset], OrFields := [\<lparr>OrValue = v, OrNames = [a, b]\<rparr>]\<rparr>"
    and "GormDB_FindWithFilter gl g (Some f) (tn, tbl) D = Some ((rows, n, None), lgs)"
  shows "row \<in> set rows"
proof -
  have u: "unsorted f" by (simp add: unsorted_def assms(7) NewFilter_def)
  obtain count where "find_rows gl (Paginate m f [] (filtered g tbl f)) count D = (rows, n, None)"
    using FindWithFilter_statement [OF u assms(3,8)] by blast
  note rows = findD [OF assms(1) Paginate_statement(1) this, unfolded Paginate_statement]
  have calls: "hd_calls (filtered g tbl f) = [GModel tbl, GFields preset, GWhere (quoted a @ '' = ?'') [GArg v],
      GOr (quoted b @ '' = ?'') [GArg v]]"
    by (simp add: filtered_def prepareFilter_def assms(7) NewFilter_def nil_map_def or_calls_def)
  have "selected sem (filtered g tbl f) row"
    by (simp add: selected_def calls sat_call_def text_conditionsD(1) [OF assms(2,6)] assms(5))
  moreover have "Limit f = 0" "Offset f = 0" by (simp_all add: assms(7) NewFilter_def)
  ultimately show ?thesis using rows assms(4) by (simp add: page_def Paginate_statement)
qed

text \<open>
  C24: the name of a field under which a query gives an empty list of values is not checked: whatever it is, the
  parser accepts it, and it becomes part of the text of the statement as it stands.
\<close>

theorem unchecked_name_in_statement:
  "\<exists>f. Parse lib p (Some (ToQuery other (NewFilter\<lparr>FieldsIn := Some [(name, [])]\<rparr>))) = Inr (Some f)
    \<and> GWhere (quoted name @ '' IN ? '') [GArgs []] \<in> set (hd_calls (filtered g tbl f))"
proof (intro exI conjI)
  let ?f = "NewFilter\<lparr>FieldsIn := Some [(name, [])]\<rparr>"
  show "Parse lib p (Some (ToQuery other ?f)) = Inr (Some ?f)"
    by (simp add: Parse_def ToQuery_def NewFilter_def nil_map_def parse_sort_def map_or_nil_def map_set_def Let_def)
  show "GWhere (quoted name @ '' IN ? '') [GArgs []] \<in> set (hd_calls (filtered g tbl ?f))"
    by (simp add: filtered_def prepareFilter_def NewFilter_def nil_map_def)
qed

text \<open>
  A join that is asked for the count of its rows does not look at the conditions of its filter: any two filters
  with the same offset and limit give the same rows and the same count.
\<close>

theorem join_with_count_ignores_filter:
  assumes "Count f" "Count f'" "Limit f' = Limit f" "Offset f' = Offset f"
  shows "JoinQuery_Join gl j (Some f) D = JoinQuery_Join gl j (Some f') D"
proof -
  have pg: "Paginate m f' ps h = Paginate m f ps h" for m ps h by (simp add: Paginate_def assms)
  have g: "receiver (Session h) h' = Session h" for h h' by (simp add: receiver_def Session_def)
  show ?thesis unfolding JoinQuery_Join_def orm_find_def option.case Let_def g pg assms(3) using assms(1,2) by simp
qed

section \<open>Witnesses\<close>

text \<open>A library over the tables themselves, in which every call succeeds.\<close>

definition table_sem :: sem where
  "table_sem t a row = (if t = ''1 = 1'' then True
     else case a of [GArg v] \<Rightarrow> map_get row (take (length t - 6) (drop 1 t)) = Some v | _ \<Rightarrow> False)"

definition table_gorm :: gorm_lib where
  "table_gorm =
     (let NotFound = NativeError ''record not found'';
          first = (\<lambda>h D. case find (selected table_sem h) (rows_of h D) of
             Some row \<Rightarrow> (Some row, None) | None \<Rightarrow> (None, Some NotFound)) in
      \<lparr>gl_ErrRecordNotFound = NotFound, gl_First = first, gl_Take = first,
       gl_Find = (\<lambda>h D. let rows = page (hd_calls h) (filter (selected table_sem h) (rows_of h D)) in (rows, int (length rows), None)),
       gl_Count = (\<lambda>h D. (int (length (filter (selected table_sem h) (rows_of h D))), None)),
       gl_Rows = (\<lambda>h D. (filter (selected table_sem h) (rows_of h D), None)),
       gl_Create = (\<lambda>h tbl row D. (None, set_table (hd_db h) tbl (D (hd_db h) tbl @ [row]) D)),
       gl_Delete = (\<lambda>h tbl D. (None, set_table (hd_db h) tbl (filter (\<lambda>row. \<not> selected table_sem h row) (D (hd_db h) tbl)) D)),
       gl_Updates = (\<lambda>h fs D. (None, set_table (hd_db h) (model_of (hd_calls h))
          (map (\<lambda>row. if selected table_sem h row then AppendMap row fs else row) (rows_of h D)) D))\<rparr>)"

lemma table_text: "text_conditions table_sem"
proof -
  have "quoted n @ '' = ?'' \<noteq> ''1 = 1''" for n by (simp add: quoted_def)
  moreover have "take (length (quoted n @ '' = ?'') - 6) (drop 1 (quoted n @ '' = ?'')) = n" for n by (simp add: quoted_def)
  ultimately show ?thesis by (simp add: text_conditions_def table_sem_def)
qed

lemma table_gorm_reads: "gorm_reads table_gorm table_sem"
  unfolding gorm_reads_def table_gorm_def Let_def
  by (auto simp: find_Some_iff find_None_iff list_ex_iff split: option.splits)

lemma table_gorm_writes: "gorm_writes table_gorm table_sem"
  by (auto simp: gorm_writes_def table_gorm_def Let_def)

definition demo_gormdb :: "int \<Rightarrow> string \<Rightarrow> gormdb" where
  "demo_gormdb m d = (GormDB_New [])\<lparr>gd_db := d, gd_paginator := Some m\<rparr>"

definition demo_notes :: databases where
  "demo_notes = (\<lambda>d tbl. [[(''owner'', VStr ''me''), (''title'', VStr ''a''), (''tag'', VStr ''x'')],
     [(''owner'', VStr ''me''), (''title'', VStr ''b''), (''tag'', VStr ''x'')],
     [(''owner'', VStr ''you''), (''title'', VStr ''c''), (''tag'', VStr ''y'')]])"

definition demo_connector :: connector where
  "demo_connector = PostgresDbConnector \<lparr>pg_RawError = (\<lambda>_. None), pg_Raw = (\<lambda>_ _ D. (0, None)), pg_Exec = (\<lambda>_ D. (None, D)),
     pg_AutoMigrate = (\<lambda>_ _ D. (None, D)), pg_UniqueViolation = (\<lambda>_. False)\<rparr>"

definition demo_joins :: "string \<Rightarrow> (query_error + join_query) \<times> join_config" where
  "demo_joins name = (Inl QPanic, NewJoin name [])"


definition demo_page_filter :: db_filter where
  "demo_page_filter = NewFilter\<lparr>Fields := Some [(''owner'', VStr ''me'')], Offset := 1, Limit := 5\<rparr>"


definition demo_or_filter :: db_filter where
  "demo_or_filter = NewFilter\<lparr>PresetFields := [[(''owner'', VStr ''me'')]], OrFields := [\<lparr>OrValue = VStr ''y'', OrNames = [''title'', ''tag'']\<rparr>]\<rparr>"

theorem or_fields_bypass_witness:
  "\<exists>rows n lgs. GormDB_FindWithFilter table_gorm (demo_gormdb 0 ''main'') (Some demo_or_filter) (''Note'', ''notes'') demo_notes
      = Some ((rows, n, None), lgs)
    \<and> [(''owner'', VStr ''you''), (''title'', VStr ''c''), (''tag'', VStr ''y'')] \<in> set rows
    \<and> \<not> row_matches [(''owner'', VStr ''me'')] [(''owner'', VStr ''you''), (''title'', VStr ''c''), (''tag'', VStr ''y'')]"
proof -
  obtain rows n lgs where r: "GormDB_FindWithFilter table_gorm (demo_gormdb 0 ''main'') (Some demo_or_filter) (''Note'', ''notes'') demo_notes
      = Some ((rows, n, None), lgs)"
    by (simp add: GormDB_FindWithFilter_def orm_FindWithFilter_def orm_find_def find_rows_def table_gorm_def demo_gormdb_def
        demo_or_filter_def NewFilter_def hard_error_def Let_def)
  have "gd_paginator (demo_gormdb 0 ''main'') = Some 0" by (simp add: demo_gormdb_def)
  from or_fields_bypass [OF table_gorm_reads table_text this _ _ _ demo_or_filter_def r] r show ?thesis
    by (simp add: demo_notes_def map_get_def)
qed

theorem join_with_count_ignores_filter_witness:
  "let j = \<lparr>jq_session = chain (GModel ''notes'') (db_handle (demo_gormdb 0 ''main'')), jq_paginator = Some 0\<rparr> in
   JoinQuery_Join table_gorm j (Some (NewFilter\<lparr>Fields := Some [(''owner'', VStr ''you'')], Count := True\<rparr>)) demo_notes
     = JoinQuery_Join table_gorm j (Some (NewFilter\<lparr>Count := True\<rparr>)) demo_notes"
  unfolding Let_def
  by (rule join_with_count_ignores_filter) (simp_all add: NewFilter_def)

end
