(* ===== verification/Background_Worker.thy ===== *)
theory Background_Worker
  imports Prelude
begin

text \<open>
  The background worker (\<^verbatim>\<open>src/pkg/background_worker/background_worker.go\<close>): a goroutine runs a job again and again,
  and \<^verbatim>\<open>Stop\<close> waits until it has finished. Here the interleaving matters, so the worker is a step relation: a
  state has the fields of the worker, the place that every goroutine has reached and the place that the
  caller has reached; a step moves one of them over one access to what they share.

  The job and the condition channel are not part of the repository. A job that has been started ends at some
  time; the channel wakes exactly the goroutines that wait when it is signalled.
\<close>

section \<open>States\<close>

text \<open>
  The places of the goroutine of \<^verbatim>\<open>RunInBackground\<close>: before its first run of the job, in it, before the test after
  it, before the send that follows when the worker is stopped; at the head of the loop, waiting, woken by the signal
  or by the timeout, decided to run the job, in the job, before the test that ends the loop (with \<^verbatim>\<open>br\<close>), before
  the last send, and at the end.
\<close>

datatype place =
    First_Start
  | First_Run
  | First_Test
  | First_Send
  | Loop
  | Waiting
  | Timeout
  | Job_Start
  | Job_Run
  | Loop_Test bool
  | Last_Send
  | Done

text \<open>
  The places of the caller: outside, in \<^verbatim>\<open>RunInBackground\<close> after the first store, in \<^verbatim>\<open>Stop\<close> after its test, after
  its store, after \<^verbatim>\<open>StopJob\<close>, waiting for \<^verbatim>\<open>Finished\<close>, and with \<^verbatim>\<open>Running\<close> still to be reset.
\<close>

datatype caller =
    Outside
  | Starting
  | Stop_Tested
  | Stop_Stored
  | Stop_Broadcast
  | Stop_Waiting
  | Stop_Received

text \<open>
  \<open>bw_Finished\<close> says whether the channel \<^verbatim>\<open>Finished\<close>, which has room for one value, holds one. The goroutines are
  never removed; \<open>bw_jobs\<close> counts the runs of the job that have been started.
\<close>

record worker =
  bw_Running :: bool
  bw_Stopped :: bool
  bw_Finished :: bool
  bw_caller :: caller
  bw_routines :: "place list"
  bw_jobs :: nat

definition Worker_New :: worker where
  "Worker_New = \<lparr>bw_Running = False, bw_Stopped = False, bw_Finished = False, bw_caller = Outside, bw_routines = [], bw_jobs = 0\<rparr>"

definition at_place :: "nat \<Rightarrow> place \<Rightarrow> worker \<Rightarrow> bool" where
  "at_place i p w \<longleftrightarrow> i < length (bw_routines w) \<and> bw_routines w ! i = p"

definition goto :: "nat \<Rightarrow> place \<Rightarrow> worker \<Rightarrow> worker" where
  "goto i p w = w\<lparr>bw_routines := (bw_routines w)[i := p]\<rparr>"

definition IsStopped :: "worker \<Rightarrow> bool" where
  "IsStopped w = bw_Stopped w"

section \<open>Steps\<close>

text \<open>One step of the goroutine \<open>i\<close>. A send blocks while the channel is full.\<close>

inductive routine_step :: "nat \<Rightarrow> worker \<Rightarrow> worker \<Rightarrow> bool" for i where
  first_start: "at_place i First_Start w \<Longrightarrow> routine_step i w ((goto i First_Run w)\<lparr>bw_jobs := Suc (bw_jobs w)\<rparr>)"
| first_end: "at_place i First_Run w \<Longrightarrow> routine_step i w (goto i First_Test w)"
| first_test: "at_place i First_Test w \<Longrightarrow> routine_step i w (goto i (if IsStopped w then First_Send else Loop) w)"
| first_send: "at_place i First_Send w \<Longrightarrow> \<not> bw_Finished w \<Longrightarrow> routine_step i w ((goto i Loop w)\<lparr>bw_Finished := True\<rparr>)"
| await: "at_place i Loop w \<Longrightarrow> routine_step i w (goto i Waiting w)"
| expire: "at_place i Waiting w \<Longrightarrow> routine_step i w (goto i Timeout w)"
| timeout_test: "at_place i Timeout w \<Longrightarrow> routine_step i w (goto i (if \<not> IsStopped w then Job_Start else Loop_Test False) w)"
| job_start: "at_place i Job_Start w \<Longrightarrow> routine_step i w ((goto i Job_Run w)\<lparr>bw_jobs := Suc (bw_jobs w)\<rparr>)"
| job_end: "at_place i Job_Run w \<Longrightarrow> routine_step i w (goto i (Loop_Test False) w)"
| loop_test: "at_place i (Loop_Test br) w \<Longrightarrow> routine_step i w (goto i (if IsStopped w \<or> br then Last_Send else Loop) w)"
| last_send: "at_place i Last_Send w \<Longrightarrow> \<not> bw_Finished w \<Longrightarrow> routine_step i w ((goto i Done w)\<lparr>bw_Finished := True\<rparr>)"

text \<open>
  The broadcast wakes the goroutines that wait; one that has timed out already is past the choice.
\<close>

definition woken :: "place \<Rightarrow> place" where
  "woken p = (if p = Waiting then Loop_Test True else p)"

text \<open>The steps of the caller, in the order of \<^verbatim>\<open>RunInBackground\<close> and \<^verbatim>\<open>Stop\<close>.\<close>

inductive caller_step :: "worker \<Rightarrow> worker \<Rightarrow> bool" where
  run_running: "bw_caller w = Outside \<Longrightarrow> caller_step w (w\<lparr>bw_caller := Starting, bw_Running := True\<rparr>)"
| run_go: "bw_caller w = Starting \<Longrightarrow>
    caller_step w (w\<lparr>bw_caller := Outside, bw_Stopped := False, bw_routines := bw_routines w @ [First_Start]\<rparr>)"
| stop_test: "bw_caller w = Outside \<Longrightarrow> caller_step w (w\<lparr>bw_caller := (if \<not> bw_Running w then Outside else Stop_Tested)\<rparr>)"
| stop_store: "bw_caller w = Stop_Tested \<Longrightarrow> caller_step w (w\<lparr>bw_caller := Stop_Stored, bw_Stopped := True\<rparr>)"
| stop_job: "bw_caller w = Stop_Stored \<Longrightarrow> caller_step w (w\<lparr>bw_caller := Stop_Broadcast\<rparr>)"
| stop_broadcast: "bw_caller w = Stop_Broadcast \<Longrightarrow>
    caller_step w (w\<lparr>bw_caller := Stop_Waiting, bw_routines := map woken (bw_routines w)\<rparr>)"
| stop_receive: "bw_caller w = Stop_Waiting \<Longrightarrow> bw_Finished w \<Longrightarrow>
    caller_step w (w\<lparr>bw_caller := Stop_Received, bw_Finished := False\<rparr>)"
| stop_return: "bw_caller w = Stop_Received \<Longrightarrow> caller_step w (w\<lparr>bw_caller := Outside, bw_Running := False\<rparr>)"

inductive_cases routine_stepE: "routine_step i w w'"
inductive_cases caller_stepE: "caller_step w w'"

inductive worker_step :: "worker \<Rightarrow> worker \<Rightarrow> bool" where
  routine: "routine_step i w w' \<Longrightarrow> worker_step w w'"
| caller: "caller_step w w' \<Longrightarrow> worker_step w w'"

text \<open>
  What can be reached from a new worker, and what can be reached when the worker is started once only.
\<close>

inductive worker_reachable :: "nat \<Rightarrow> worker \<Rightarrow> bool" where
  new: "worker_reachable n Worker_New"
| step: "worker_reachable n w \<Longrightarrow> worker_step w w' \<Longrightarrow> length (bw_routines w') \<le> n \<Longrightarrow> worker_reachable n w'"

section \<open>The invariant of a worker that is started once\<close>

definition active :: "place \<Rightarrow> bool" where
  "active p \<longleftrightarrow> p \<in> {First_Start, First_Run, First_Test, Job_Start, Job_Run}"

definition idle :: "worker \<Rightarrow> bool" where
  "idle w \<longleftrightarrow> (\<forall>p \<in> set (bw_routines w). \<not> active p)"

text \<open>
  Nothing is sent before the worker is stopped. Once a value has been sent the goroutine runs no job any more, and it
  has none in it when \<^verbatim>\<open>Stop\<close> is not under way. The value is gone at the end only when \<^verbatim>\<open>Stop\<close> has taken it.
\<close>

definition once_inv :: "worker \<Rightarrow> bool" where
  "once_inv w \<longleftrightarrow> length (bw_routines w) \<le> 1
     \<and> (bw_Finished w \<longrightarrow> bw_Stopped w \<and> idle w)
     \<and> (bw_caller w \<in> {Stop_Stored, Stop_Broadcast, Stop_Waiting, Stop_Received} \<longrightarrow> bw_Stopped w)
     \<and> (bw_Stopped w \<and> bw_caller w \<notin> {Stop_Stored, Stop_Broadcast, Stop_Waiting} \<longrightarrow> idle w)
     \<and> (bw_Stopped w \<or> bw_Running w \<and> bw_caller w \<noteq> Starting \<or> bw_caller w = Stop_Tested \<longrightarrow> bw_routines w \<noteq> [])
     \<and> (set (bw_routines w) \<inter> {First_Send, Loop_Test True, Last_Send, Done} \<noteq> {} \<longrightarrow> bw_Stopped w)
     \<and> (\<not> bw_Finished w \<and> Done \<in> set (bw_routines w) \<longrightarrow>
          bw_caller w \<in> {Stop_Received, Starting} \<or> bw_caller w = Outside \<and> \<not> bw_Running w)"

lemma at_single: "length (bw_routines w) \<le> 1 \<Longrightarrow> at_place i p w \<longleftrightarrow> i = 0 \<and> bw_routines w = [p]"
  by (cases "bw_routines w") (auto simp: at_place_def)

lemma goto_simps [simp]:
  "bw_Finished (goto i p w) = bw_Finished w" "bw_Stopped (goto i p w) = bw_Stopped w" "bw_caller (goto i p w) = bw_caller w"
  "bw_Running (goto i p w) = bw_Running w" "bw_jobs (goto i p w) = bw_jobs w"
  "bw_routines (goto i p w) = (bw_routines w)[i := p]"
  by (simp_all add: goto_def)

lemma once_inv_routine:
  assumes "once_inv w" "routine_step i w w'"
  shows "once_inv w'"
proof -
  from assms(1) have len: "length (bw_routines w) \<le> 1" by (simp add: once_inv_def)
  from assms(2,1) show ?thesis
    by (elim routine_stepE; hypsubst; simp only: at_single [OF len]; elim conjE)
      (simp_all add: once_inv_def idle_def active_def IsStopped_def split: if_splits)
qed

lemma once_inv_caller:
  assumes "once_inv w" "caller_step w w'" "length (bw_routines w') \<le> 1"
  shows "once_inv w'"
  using assms(2,1,3)
  by (cases rule: caller_step.cases)
    (auto simp: once_inv_def idle_def active_def woken_def split: if_splits)

lemma once_invariant: "worker_reachable n w \<Longrightarrow> n = 1 \<Longrightarrow> once_inv w"
proof (induction rule: worker_reachable.induct)
  case (new n)
  show ?case by (simp add: once_inv_def Worker_New_def idle_def)
next
  case (step n w w')
  from step.hyps(2) step.IH [OF step.prems] step.hyps(3) step.prems show ?case
    by (auto elim!: worker_step.cases intro: once_inv_routine once_inv_caller)
qed

section \<open>Properties of a worker that is started once\<close>

text \<open>How many steps a goroutine still makes once the worker is stopped.\<close>

fun steps_left :: "place \<Rightarrow> nat" where
  "steps_left First_Start = 11"
| "steps_left First_Run = 10"
| "steps_left First_Test = 9"
| "steps_left First_Send = 8"
| "steps_left Loop = 7"
| "steps_left Waiting = 6"
| "steps_left Timeout = 5"
| "steps_left Job_Start = 4"
| "steps_left Job_Run = 3"
| "steps_left (Loop_Test br) = 2"
| "steps_left Last_Send = 1"
| "steps_left Done = 0"

definition left :: "worker \<Rightarrow> nat" where
  "left w = sum_list (map steps_left (bw_routines w))"

lemma routine_step_left:
  assumes "once_inv w" "bw_Stopped w" "routine_step i w w'"
  shows "left w' < left w \<and> bw_Stopped w' \<and> bw_caller w' = bw_caller w"
proof -
  from assms(1) have len: "length (bw_routines w) \<le> 1" by (simp add: once_inv_def)
  from assms(3,2) show ?thesis
    by (elim routine_stepE; hypsubst; simp only: at_single [OF len]; elim conjE)
      (simp_all add: left_def IsStopped_def split: if_splits)
qed

text \<open>While \<^verbatim>\<open>Stop\<close> waits for a value that is not there, the goroutine can move.\<close>

lemma waiting_moves:
  assumes "once_inv w" "bw_caller w = Stop_Waiting" "\<not> bw_Finished w"
  shows "\<exists>w'. routine_step 0 w w'"
proof -
  from assms(1) have len: "length (bw_routines w) \<le> 1" by (simp add: once_inv_def)
  from assms obtain p where p: "bw_routines w = [p]" and "p \<noteq> Done"
    by (cases "bw_routines w") (auto simp: once_inv_def)
  then have "at_place 0 p w" by (simp add: at_place_def)
  then show ?thesis
    using \<open>p \<noteq> Done\<close> assms(3) by (cases p) (auto intro: routine_step.intros)
qed

lemma routine_keeps_length: "routine_step i w w' \<Longrightarrow> length (bw_routines w') = length (bw_routines w)"
  by (elim routine_stepE) simp_all

lemma stop_ends:
  assumes "once_inv w" "bw_caller w = Stop_Waiting"
  shows "\<exists>w'. worker_step\<^sup>*\<^sup>* w w' \<and> bw_caller w' = Outside \<and> \<not> bw_Running w'"
  using assms
proof (induction "left w" arbitrary: w rule: less_induct)
  case less
  show ?case
  proof (cases "bw_Finished w")
    case True
    let ?r = "w\<lparr>bw_caller := Stop_Received, bw_Finished := False\<rparr>"
    have "worker_step w ?r" using less.prems(2) True by (intro worker_step.caller caller_step.stop_receive)
    moreover have "worker_step ?r (?r\<lparr>bw_caller := Outside, bw_Running := False\<rparr>)"
      by (intro worker_step.caller caller_step.stop_return) simp
    ultimately have "worker_step\<^sup>*\<^sup>* w (?r\<lparr>bw_caller := Outside, bw_Running := False\<rparr>)" by simp
    then show ?thesis by (intro exI conjI) (assumption, simp_all)
  next
    case False
    from waiting_moves [OF less.prems False] obtain v where v: "routine_step 0 w v" ..
    from less.prems have "bw_Stopped w" by (simp add: once_inv_def)
    from routine_step_left [OF less.prems(1) this v] have "left v < left w" "bw_caller v = Stop_Waiting"
      using less.prems(2) by simp_all
    from less.hyps [OF this(1) once_inv_routine [OF less.prems(1) v] this(2)]
    obtain w' where "worker_step\<^sup>*\<^sup>* v w' \<and> bw_caller w' = Outside \<and> \<not> bw_Running w'" ..
    with worker_step.routine [OF v] show ?thesis by (meson converse_rtranclp_into_rtranclp)
  qed
qed



section \<open>Starting again\<close>

text \<open>The steps as a function of a choice, to run the worker.\<close>

definition routine_next :: "nat \<Rightarrow> worker \<Rightarrow> worker option" where
  "routine_next i w = (if i < length (bw_routines w) then
     (case bw_routines w ! i of
        First_Start \<Rightarrow> Some ((goto i First_Run w)\<lparr>bw_jobs := Suc (bw_jobs w)\<rparr>)
      | First_Run \<Rightarrow> Some (goto i First_Test w)
      | First_Test \<Rightarrow> Some (goto i (if IsStopped w then First_Send else Loop) w)
      | First_Send \<Rightarrow> if \<not> bw_Finished w then Some ((goto i Loop w)\<lparr>bw_Finished := True\<rparr>) else None
      | Loop \<Rightarrow> Some (goto i Waiting w)
      | Waiting \<Rightarrow> Some (goto i Timeout w)
      | Timeout \<Rightarrow> Some (goto i (if \<not> IsStopped w then Job_Start else Loop_Test False) w)
      | Job_Start \<Rightarrow> Some ((goto i Job_Run w)\<lparr>bw_jobs := Suc (bw_jobs w)\<rparr>)
      | Job_Run \<Rightarrow> Some (goto i (Loop_Test False) w)
      | Loop_Test br \<Rightarrow> Some (goto i (if IsStopped w \<or> br then Last_Send else Loop) w)
      | Last_Send \<Rightarrow> if \<not> bw_Finished w then Some ((goto i Done w)\<lparr>bw_Finished := True\<rparr>) else None
      | Done \<Rightarrow> None)
   else None)"

lemma routine_next_step: "routine_next i w = Some w' \<Longrightarrow> routine_step i w w'"
proof -
  assume nx: "routine_next i w = Some w'"
  then have i: "i < length (bw_routines w)" by (simp add: routine_next_def split: if_splits)
  then have at: "bw_routines w ! i = p \<Longrightarrow> at_place i p w" for p by (simp add: at_place_def)
  show ?thesis
    using nx routine_step.intros [where i = i and w = w]
    by (cases "bw_routines w ! i"; cases "bw_Finished w") (simp_all add: routine_next_def i at split del: if_split,
        (drule at, drule routine_step.loop_test, simp split del: if_split)+)
qed

definition caller_next :: "bool \<Rightarrow> worker \<Rightarrow> worker option" where
  "caller_next run w = (case bw_caller w of
     Outside \<Rightarrow> Some (if run then w\<lparr>bw_caller := Starting, bw_Running := True\<rparr>
       else w\<lparr>bw_caller := (if \<not> bw_Running w then Outside else Stop_Tested)\<rparr>)
   | Starting \<Rightarrow> Some (w\<lparr>bw_caller := Outside, bw_Stopped := False, bw_routines := bw_routines w @ [First_Start]\<rparr>)
   | Stop_Tested \<Rightarrow> Some (w\<lparr>bw_caller := Stop_Stored, bw_Stopped := True\<rparr>)
   | Stop_Stored \<Rightarrow> Some (w\<lparr>bw_caller := Stop_Broadcast\<rparr>)
   | Stop_Broadcast \<Rightarrow> Some (w\<lparr>bw_caller := Stop_Waiting, bw_routines := map woken (bw_routines w)\<rparr>)
   | Stop_Waiting \<Rightarrow> if bw_Finished w then Some (w\<lparr>bw_caller := Stop_Received, bw_Finished := False\<rparr>) else None
   | Stop_Received \<Rightarrow> Some (w\<lparr>bw_caller := Outside, bw_Running := False\<rparr>))"

lemma caller_next_step: "caller_next run w = Some w' \<Longrightarrow> caller_step w w'"
  using caller_step.intros [of w]
  by (cases "bw_caller w"; cases run; cases "bw_Finished w") (simp_all add: caller_next_def split del: if_split)

datatype choice = Routine nat | Run | Stop

fun move :: "choice \<Rightarrow> worker \<Rightarrow> worker option" where
  "move (Routine i) w = routine_next i w"
| "move Run w = caller_next True w"
| "move Stop w = caller_next False w"

fun moves :: "nat \<Rightarrow> choice list \<Rightarrow> worker \<Rightarrow> worker option" where
  "moves n [] w = Some w"
| "moves n (c # cs) w = (case move c w of
     None \<Rightarrow> None | Some w' \<Rightarrow> if length (bw_routines w') \<le> n then moves n cs w' else None)"

lemma moves_reachable:
  "moves n cs w = Some w' \<Longrightarrow> worker_reachable n w \<Longrightarrow> worker_reachable n w'"
proof (induction cs arbitrary: w)
  case (Cons c cs)
  from Cons.prems(1) obtain v where v: "move c w = Some v" "length (bw_routines v) \<le> n" "moves n cs v = Some w'"
    by (auto split: option.splits if_splits)
  from v(1) have "worker_step w v"
    by (cases c) (auto intro: worker_step.intros routine_next_step caller_next_step)
  from Cons.IH [OF v(3) worker_reachable.step [OF Cons.prems(2) this v(2)]] show ?case .
qed simp

text \<open>
  A worker that is stopped during its first run of the job: its goroutine sends, and after its \<^verbatim>\<open>Stop\<close> has returned it
  goes on into the loop, ends it and sends a second time. The next \<^verbatim>\<open>Stop\<close> receives the value that is left over.
\<close>

definition stale_run :: "choice list" where
  "stale_run = [Run, Run, Routine 0, Stop, Stop, Stop, Stop, Routine 0, Routine 0, Routine 0, Stop, Stop,
     Routine 0, Routine 0, Routine 0, Routine 0, Routine 0, Run, Run, Routine 1, Stop, Stop, Stop, Stop, Stop, Stop]"

lemma stale_run_ends: "moves 2 stale_run Worker_New = Some
  \<lparr>bw_Running = False, bw_Stopped = True, bw_Finished = False, bw_caller = Outside,
   bw_routines = [Done, First_Run], bw_jobs = 2\<rparr>"
  by code_simp

text \<open>
  A worker that is started a second time may be running its job when \<^verbatim>\<open>Stop\<close> has returned: what no worker
  does that is started once.
\<close>

theorem restarted_worker_runs_on:
  "\<exists>w. worker_reachable 2 w \<and> bw_Stopped w \<and> bw_caller w = Outside \<and> \<not> bw_Running w \<and> First_Run \<in> set (bw_routines w)"
  using moves_reachable [OF stale_run_ends worker_reachable.new] by (intro exI conjI) (assumption, simp_all)

section \<open>An instance\<close>

definition stop_in_first_run :: "choice list" where
  "stop_in_first_run = [Run, Run, Routine 0, Stop, Stop, Stop, Stop]"

lemma stop_in_first_run_ends: "moves 1 stop_in_first_run Worker_New = Some
  \<lparr>bw_Running = True, bw_Stopped = True, bw_Finished = False, bw_caller = Stop_Waiting, bw_routines = [First_Run], bw_jobs = 1\<rparr>"
  by code_simp

lemma stopped_ends: "moves 1 (stop_in_first_run @ [Routine 0, Routine 0, Routine 0, Stop, Stop]) Worker_New = Some
  \<lparr>bw_Running = False, bw_Stopped = True, bw_Finished = False, bw_caller = Outside, bw_routines = [Loop], bw_jobs = 1\<rparr>"
  by code_simp



end
