(* ===== verification/Paths.thy ===== *)
theory Paths
  imports Map_Utils
begin

text \<open>
  Names, paths and parameters (\<^verbatim>\<open>src/pkg/common/withnameandpath.go\<close>, \<^verbatim>\<open>parameter.go\<close>, \<^verbatim>\<open>misc_types.go\<close>).

  The sections of a path are a slice, and a path with a parent gets its sections by \<^verbatim>\<open>append\<close> to those of the
  parent: whether the two share memory depends on the capacity. So slices are modelled with the arrays they lie in:
  an array is as long as its capacity, and \<^verbatim>\<open>append\<close> writes in place when there is room. The capacity of the
  array that it makes otherwise is a parameter (\<open>grow\<close>), as the language does not fix it.
\<close>

section \<open>Slices\<close>

type_synonym arrays = "string list list"

record slice =
  sl_array :: nat
  sl_off :: nat
  sl_len :: nat

definition elems :: "arrays \<Rightarrow> slice \<Rightarrow> string list" where
  "elems h x = take (sl_len x) (drop (sl_off x) (h ! sl_array x))"

definition spare :: "arrays \<Rightarrow> slice \<Rightarrow> nat" where
  "spare h x = length (h ! sl_array x) - (sl_off x + sl_len x)"

definition make_slice :: "string list \<Rightarrow> arrays \<Rightarrow> slice \<times> arrays" where
  "make_slice xs h = (\<lparr>sl_array = length h, sl_off = 0, sl_len = length xs\<rparr>, h @ [xs])"

definition write_at :: "string list \<Rightarrow> nat \<Rightarrow> string list \<Rightarrow> string list" where
  "write_at a i xs = take i a @ xs @ drop (i + length xs) a"

definition append_slice :: "(nat \<Rightarrow> nat) \<Rightarrow> slice \<Rightarrow> string list \<Rightarrow> arrays \<Rightarrow> slice \<times> arrays" where
  "append_slice grow x xs h =
     (if length xs \<le> spare h x
      then (x\<lparr>sl_len := sl_len x + length xs\<rparr>, h[sl_array x := write_at (h ! sl_array x) (sl_off x + sl_len x) xs])
      else let new = elems h x @ xs in
        (\<lparr>sl_array = length h, sl_off = 0, sl_len = length new\<rparr>, h @ [new @ replicate (grow (length new)) []]))"

definition slice_to :: "slice \<Rightarrow> nat \<Rightarrow> slice" where
  "slice_to x n = x\<lparr>sl_len := n\<rparr>"

definition slice_from :: "slice \<Rightarrow> nat \<Rightarrow> slice" where
  "slice_from x n = x\<lparr>sl_off := sl_off x + n, sl_len := sl_len x - n\<rparr>"

section \<open>Splitting and joining\<close>

text \<open>\<^verbatim>\<open>strings.Split\<close> with any separator; with the empty one it gives the characters.\<close>

function split_at :: "string \<Rightarrow> string \<Rightarrow> string \<Rightarrow> string list" where
  "split_at sep part [] = [part]"
| "split_at sep part (c # cs) =
     (if sep \<noteq> [] \<and> take (length sep) (c # cs) = sep
      then part # split_at sep [] (drop (length sep) (c # cs))
      else split_at sep (part @ [c]) cs)"
  by pat_completeness auto
termination
  by (relation "measure (\<lambda>(sep, part, s). length s)") auto

definition strings_Split :: "string \<Rightarrow> string \<Rightarrow> string list" where
  "strings_Split s sep = (if sep = [] then map (\<lambda>c. [c]) s else split_at sep [] s)"

fun strings_Join :: "string list \<Rightarrow> string \<Rightarrow> string" where
  "strings_Join [] sep = []"
| "strings_Join [x] sep = x"
| "strings_Join (x # y # xs) sep = x @ sep @ strings_Join (y # xs) sep"

definition ConstructPath :: "string list \<Rightarrow> string \<Rightarrow> string" where
  "ConstructPath sections separator = strings_Join sections separator"

section \<open>Paths\<close>

record path_obj =
  wp_name :: string
  wp_path :: string
  wp_sections :: slice
  wp_separator :: string

record path_state =
  arrays :: arrays
  paths :: "path_obj list"

definition path_Init :: "string \<Rightarrow> string \<Rightarrow> string list \<Rightarrow> path_state \<Rightarrow> nat \<times> path_state" where
  "path_Init path name separator s =
     (let sep = OptionalArg ''/'' separator; (secs, h) = make_slice (strings_Split path sep) (arrays s) in
      (length (paths s), \<lparr>arrays = h,
         paths = paths s @ [\<lparr>wp_name = name, wp_path = path, wp_sections = secs, wp_separator = sep\<rparr>]\<rparr>))"

definition path_Path :: "path_state \<Rightarrow> nat \<Rightarrow> string" where
  "path_Path s w = wp_path (paths s ! w)"

definition path_Separator :: "path_state \<Rightarrow> nat \<Rightarrow> string" where
  "path_Separator s w = wp_separator (paths s ! w)"

definition path_Sections :: "path_state \<Rightarrow> nat \<Rightarrow> string list" where
  "path_Sections s w = elems (arrays s) (wp_sections (paths s ! w))"

definition path_Paths :: "path_state \<Rightarrow> nat \<Rightarrow> string list" where
  "path_Paths s w = ''/'' # map (\<lambda>i. ConstructPath (take (i + 1) (path_Sections s w)) (path_Separator s w))
     [1..<length (path_Sections s w)]"

definition FullPath :: "path_state \<Rightarrow> nat \<Rightarrow> string" where
  "FullPath s w = ConstructPath (path_Sections s w) (path_Separator s w)"

definition adjustFirstSection :: "slice \<Rightarrow> arrays \<Rightarrow> slice" where
  "adjustFirstSection x h = (if 0 < sl_len x \<and> hd (elems h x) = [] then slice_from x 1 else x)"

text \<open>\<open>None\<close> is the panic on a parent without sections.\<close>

definition path_SetParent :: "(nat \<Rightarrow> nat) \<Rightarrow> nat \<Rightarrow> nat \<Rightarrow> path_state \<Rightarrow> path_state option" where
  "path_SetParent grow parent w s =
     (let (secs, h) = make_slice (strings_Split (wp_path (paths s ! w)) (wp_separator (paths s ! w))) (arrays s);
          own = elems h (adjustFirstSection secs h);
          ps = wp_sections (paths s ! parent) in
      if sl_len ps = 0 then None
      else let (new, h) = (if last (elems h ps) = [] then append_slice grow (slice_to ps (sl_len ps - 1)) own h
                           else append_slice grow ps own h) in
        Some (s\<lparr>arrays := h, paths := (paths s)[w := (paths s ! w)\<lparr>wp_sections := new\<rparr>]\<rparr>))"

definition path_AddChild :: "(nat \<Rightarrow> nat) \<Rightarrow> nat \<Rightarrow> nat \<Rightarrow> path_state \<Rightarrow> path_state option" where
  "path_AddChild grow w child s = path_SetParent grow w child s"

definition path_SetName :: "nat \<Rightarrow> string \<Rightarrow> path_state \<Rightarrow> path_state" where
  "path_SetName w name s = s\<lparr>paths := (paths s)[w := (paths s ! w)\<lparr>wp_name := name\<rparr>]\<rparr>"

section \<open>Lemmas\<close>

text \<open>A slice lies in its array.\<close>

definition slice_ok :: "arrays \<Rightarrow> slice \<Rightarrow> bool" where
  "slice_ok h x \<longleftrightarrow> sl_array x < length h \<and> sl_off x + sl_len x \<le> length (h ! sl_array x)"

lemma elems_make [simp]: "make_slice xs h = (x, h') \<Longrightarrow> elems h' x = xs"
  by (auto simp: make_slice_def elems_def nth_append)

lemma take_write_at:
  assumes "i + l + length xs \<le> length a"
  shows "take (l + length xs) (drop i (write_at a (i + l) xs)) = take l (drop i a) @ xs" "length (write_at a (i + l) xs) = length a"
proof -
  have "drop i (take (i + l) a) = take l (drop i a)" by (simp add: take_drop add.commute)
  with assms show "take (l + length xs) (drop i (write_at a (i + l) xs)) = take l (drop i a) @ xs"
    by (simp add: write_at_def)
  show "length (write_at a (i + l) xs) = length a" using assms by (simp add: write_at_def)
qed

lemma append_elems:
  assumes "slice_ok h x" "append_slice grow x xs h = (y, h')"
  shows "elems h' y = elems h x @ xs \<and> slice_ok h' y"
proof (cases "length xs \<le> spare h x")
  case True
  with assms have y: "y = x\<lparr>sl_len := sl_len x + length xs\<rparr>" "h' = h[sl_array x := write_at (h ! sl_array x) (sl_off x + sl_len x) xs]"
    by (simp_all add: append_slice_def)
  have len: "sl_off x + sl_len x + length xs \<le> length (h ! sl_array x)" "sl_array x < length h"
    using assms(1) True by (auto simp: slice_ok_def spare_def)
  then show ?thesis
    by (simp add: y elems_def slice_ok_def take_write_at)
next
  case False
  with assms show ?thesis
    by (auto simp: append_slice_def Let_def elems_def slice_ok_def nth_append)
qed

text \<open>The elements of a slice in another array do not change.\<close>

lemma append_other:
  assumes "append_slice grow x xs h = (y, h')" "sl_array z \<noteq> sl_array x \<or> spare h x < length xs" "sl_array z < length h"
  shows "elems h' z = elems h z"
  using assms by (auto simp: append_slice_def elems_def Let_def nth_append split: if_splits)

lemma strings_Join_Cons: "xs \<noteq> [] \<Longrightarrow> strings_Join (x # xs) sep = x @ sep @ strings_Join xs sep"
  by (cases xs) simp_all

lemma split_at_not_empty: "split_at sep part s \<noteq> []"
  by (induction sep part s rule: split_at.induct) auto

lemma join_split_at: "sep \<noteq> [] \<Longrightarrow> strings_Join (split_at sep part s) sep = part @ s"
proof (induction sep part s rule: split_at.induct)
  case (2 sep part c cs)
  show ?case
  proof (cases "take (length sep) (c # cs) = sep")
    case True
    then have "sep @ drop (length sep) (c # cs) = c # cs" by (metis append_take_drop_id)
    with 2 True show ?thesis by (simp add: strings_Join_Cons split_at_not_empty del: append_take_drop_id)
  next
    case False
    with 2 show ?thesis by simp
  qed
qed simp

lemma join_chars: "strings_Join (map (\<lambda>c. [c]) s) [] = s"
proof (induction s)
  case (Cons c s)
  then show ?case by (cases s) simp_all
qed simp

text \<open>
  The sections of a path, joined by its separator, are the path again.
\<close>

theorem path_roundtrip:
  "case path_Init path name separator s of (w, s') \<Rightarrow> FullPath s' w = path \<and> path_Path s' w = path"
proof -
  have "strings_Join (strings_Split path sep) sep = path" for sep
    by (simp add: strings_Split_def join_split_at join_chars)
  then show ?thesis
    by (auto simp: path_Init_def FullPath_def path_Path_def path_Separator_def path_Sections_def ConstructPath_def
        make_slice_def elems_def nth_append Let_def)
qed

section \<open>Children\<close>

text \<open>The sections that a path has of its own, without the empty one in front of a leading separator.\<close>

definition own_sections :: "path_state \<Rightarrow> nat \<Rightarrow> string list" where
  "own_sections s w = (let secs = strings_Split (wp_path (paths s ! w)) (wp_separator (paths s ! w)) in
     if secs \<noteq> [] \<and> hd secs = [] then tl secs else secs)"

definition sections_of :: "path_state \<Rightarrow> nat \<Rightarrow> slice" where
  "sections_of s w = wp_sections (paths s ! w)"

lemma path_Sections_of: "path_Sections s w = elems (arrays s) (sections_of s w)"
  by (simp add: path_Sections_def sections_of_def)

lemma own_adjusted:
  "make_slice secs h = (x, h') \<Longrightarrow> elems h' (adjustFirstSection x h') = (if secs \<noteq> [] \<and> hd secs = [] then tl secs else secs)"
  by (auto simp: make_slice_def adjustFirstSection_def elems_def slice_from_def nth_append drop_Suc tl_def
      split: list.splits)

lemma elems_snoc [simp]: "sl_array x < length h \<Longrightarrow> elems (h @ [a]) x = elems h x" "sl_array x < length h \<Longrightarrow> spare (h @ [a]) x = spare h x"
  by (simp_all add: elems_def spare_def nth_append)

lemma SetParent_append:
  assumes "path_SetParent grow p w s = Some s'" "slice_ok (arrays s) (sections_of s p)" "last (path_Sections s p) \<noteq> []"
  obtains new h where
    "append_slice grow (sections_of s p) (own_sections s w) (arrays s @ [strings_Split (wp_path (paths s ! w)) (wp_separator (paths s ! w))])
       = (new, h)"
    "s' = s\<lparr>arrays := h, paths := (paths s)[w := (paths s ! w)\<lparr>wp_sections := new\<rparr>]\<rparr>"
proof -
  let ?secs = "strings_Split (wp_path (paths s ! w)) (wp_separator (paths s ! w))"
  obtain x h1 where x: "make_slice ?secs (arrays s) = (x, h1)" by fastforce
  then have h1: "h1 = arrays s @ [?secs]" by (simp add: make_slice_def)
  have own: "elems h1 (adjustFirstSection x h1) = own_sections s w"
    using own_adjusted [OF x] by (simp add: own_sections_def Let_def)
  have "sl_array (sections_of s p) < length (arrays s)" using assms(2) by (simp add: slice_ok_def)
  then have last: "last (elems h1 (sections_of s p)) \<noteq> []"
    using assms(3) by (simp add: h1 path_Sections_def sections_of_def)
  obtain new h where "append_slice grow (sections_of s p) (own_sections s w) h1 = (new, h)" by fastforce
  with assms(1) own last show thesis
    by (intro that [of new h]) (auto simp: path_SetParent_def x Let_def sections_of_def h1 split: if_splits)
qed

lemma spare_append_none:
  assumes "slice_ok h x" "append_slice grow x xs h = (y, h')" "xs \<noteq> []"
  shows "slice_ok h' x" "elems h' x = elems h x"
    and "if length xs \<le> spare h x then spare h' x = spare h x \<and> sl_array y = sl_array x \<and> sl_off y = sl_off x
         \<and> length h' = length h
      else spare h' x = spare h x \<and> sl_array y = length h \<and> length h' = Suc (length h)"
proof -
  have "length xs \<le> spare h x \<Longrightarrow> sl_off x + sl_len x + length xs \<le> length (h ! sl_array x)"
    using assms(1) by (auto simp: slice_ok_def spare_def)
  then have w: "length xs \<le> spare h x \<Longrightarrow>
      length (write_at (h ! sl_array x) (sl_off x + sl_len x) xs) = length (h ! sl_array x) \<and>
      take (sl_len x) (drop (sl_off x) (write_at (h ! sl_array x) (sl_off x + sl_len x) xs)) = take (sl_len x) (drop (sl_off x) (h ! sl_array x))"
    by (auto simp: write_at_def take_drop add.commute)
  show "slice_ok h' x" "elems h' x = elems h x"
    and "if length xs \<le> spare h x then spare h' x = spare h x \<and> sl_array y = sl_array x \<and> sl_off y = sl_off x
         \<and> length h' = length h
      else spare h' x = spare h x \<and> sl_array y = length h \<and> length h' = Suc (length h)"
    using assms w by (auto simp: append_slice_def slice_ok_def elems_def spare_def Let_def nth_append split: if_splits)
qed

text \<open>
  C39: When two children are added to a path, one after the other, the first keeps its section exactly when the
  array of the parent's sections is full; with room for one more, the second child overwrites it, and the two have
  the same full path.
\<close>

theorem children_share_sections:
  assumes "path_AddChild grow p c1 s = Some s1" "path_AddChild grow p c2 s1 = Some s2"
    and "p < length (paths s)" "c1 < length (paths s)" "c2 < length (paths s)" "distinct [p, c1, c2]"
    and "slice_ok (arrays s) (sections_of s p)" "last (path_Sections s p) \<noteq> []"
    and "own_sections s c1 = [n1]" "own_sections s c2 = [n2]"
  shows "path_Sections s2 c1 = path_Sections s p @ [if spare (arrays s) (sections_of s p) = 0 then n1 else n2]
    \<and> path_Sections s2 c2 = path_Sections s p @ [n2]"
proof -
  let ?x = "sections_of s p"
  let ?a = "\<lambda>s w. strings_Split (wp_path (paths s ! w)) (wp_separator (paths s ! w))"
  obtain y1 h1 where 1: "append_slice grow ?x [n1] (arrays s @ [?a s c1]) = (y1, h1)"
    "s1 = s\<lparr>arrays := h1, paths := (paths s)[c1 := (paths s ! c1)\<lparr>wp_sections := y1\<rparr>]\<rparr>"
    using SetParent_append [OF assms(1) [unfolded path_AddChild_def] assms(7,8)] assms(9) by metis
  have ok: "slice_ok (arrays s @ [?a s c1]) ?x" "sl_array ?x < length (arrays s)"
    using assms(7) by (auto simp: slice_ok_def nth_append)
  note f = spare_append_none [OF ok(1) 1(1)]
  have x1: "sections_of s1 p = ?x" "own_sections s1 c2 = [n2]" "sections_of s1 c1 = y1"
    using assms(3-6,10) by (simp_all add: 1(2) sections_of_def own_sections_def)
  have p1: "path_Sections s1 p = path_Sections s p"
    using f(2) ok(2) x1(1) unfolding path_Sections_of by (simp add: 1(2))
  have ok1: "slice_ok (arrays s1) (sections_of s1 p)" "arrays s1 = h1" using f(1) x1(1) by (simp_all add: 1(2))
  obtain y2 h2 where 2: "append_slice grow ?x [n2] (h1 @ [?a s1 c2]) = (y2, h2)"
    "s2 = s1\<lparr>arrays := h2, paths := (paths s1)[c2 := (paths s1 ! c2)\<lparr>wp_sections := y2\<rparr>]\<rparr>"
    using SetParent_append [OF assms(2) [unfolded path_AddChild_def] ok1(1)] p1 assms(8) x1 ok1(2) by metis
  have ok2: "slice_ok (h1 @ [?a s1 c2]) ?x" "sl_array ?x < length h1"
    using f(1) by (auto simp: slice_ok_def nth_append)
  have par: "elems (h1 @ [?a s1 c2]) ?x = path_Sections s p"
    using p1 ok2(2) x1(1) ok1(2) unfolding path_Sections_of by simp
  have e1: "elems h1 y1 = path_Sections s p @ [n1] \<and> slice_ok h1 y1"
    using append_elems [OF ok(1) 1(1)] ok(2) unfolding path_Sections_of by simp
  have e2: "elems h2 y2 = path_Sections s p @ [n2]"
    using append_elems [OF ok2(1) 2(1)] par by simp
  have s2: "path_Sections s2 c1 = elems h2 y1" "path_Sections s2 c2 = elems h2 y2"
    using assms(3-6) by (simp_all add: path_Sections_def 2(2) 1(2))
  show ?thesis
  proof (cases "spare (arrays s) ?x = 0")
    case True
    then have none: "spare (h1 @ [?a s1 c2]) ?x < length [n2]" using f(3) ok(2) ok2(2) by simp
    have "elems h2 y1 = elems (h1 @ [?a s1 c2]) y1"
      using append_other [OF 2(1) disjI2 [OF none]] e1 by (simp add: slice_ok_def)
    with True e1 e2 s2 show ?thesis by (simp add: slice_ok_def)
  next
    case False
    then have "y1 = ?x\<lparr>sl_len := sl_len ?x + 1\<rparr>" using 1(1) ok(2) by (simp add: append_slice_def)
    moreover have "y2 = ?x\<lparr>sl_len := sl_len ?x + 1\<rparr>"
      using False 2(1) f(3) ok(2) ok2(2) by (simp add: append_slice_def split: if_splits)
    ultimately show ?thesis using False e2 s2 by simp
  qed
qed

text \<open>
  A child that is added to the root overwrites the empty section that the root has behind its separator: the
  root then has the path of the child.
\<close>

theorem root_takes_path_of_child:
  assumes "path_AddChild grow p c s = Some s'" "p < length (paths s)" "c < length (paths s)" "p \<noteq> c"
    and "slice_ok (arrays s) (sections_of s p)" "path_Sections s p = [[], []]" "own_sections s c = [n]"
  shows "path_Sections s' p = [[], n] \<and> path_Sections s' c = [[], n]"
proof -
  let ?x = "sections_of s p"
  let ?sp = "strings_Split (wp_path (paths s ! c)) (wp_separator (paths s ! c))"
  obtain x h1 where x: "make_slice ?sp (arrays s) = (x, h1)" by fastforce
  then have h1: "h1 = arrays s @ [?sp]" by (simp add: make_slice_def)
  have own: "elems h1 (adjustFirstSection x h1) = [n]"
    using own_adjusted [OF x] assms(7) by (simp add: own_sections_def Let_def)
  have arr: "sl_array ?x < length (arrays s)" "sl_len ?x = 2" "sl_off ?x + 2 \<le> length (arrays s ! sl_array ?x)"
    using assms(5,6) by (auto simp: slice_ok_def path_Sections_of elems_def dest!: arg_cong [where f = length])
  have h1x: "elems h1 ?x = [[], []]" "slice_ok h1 ?x"
    using assms(5,6) arr(1) by (auto simp: h1 path_Sections_of slice_ok_def nth_append)
  let ?y = "?x\<lparr>sl_len := 2\<rparr>" and ?h = "h1[sl_array ?x := write_at (h1 ! sl_array ?x) (sl_off ?x + 1) [n]]"
  have app: "append_slice grow (slice_to ?x 1) [n] h1 = (?y, ?h)"
  proof -
    have "Suc 0 \<le> spare h1 (slice_to ?x 1)" using arr by (simp add: spare_def slice_to_def h1 nth_append)
    then show ?thesis by (simp add: append_slice_def slice_to_def)
  qed
  have "elems h1 (slice_to ?x 1) = take 1 (elems h1 ?x)" using arr(2) by (simp add: elems_def slice_to_def min_def)
  then have "slice_ok h1 (slice_to ?x 1)" "elems h1 (slice_to ?x 1) = [[]]"
    using h1x arr(2) by (auto simp: slice_ok_def slice_to_def)
  from append_elems [OF this(1) app] this(2) have "elems ?h ?y = [[], n]" by simp
  moreover have "?y = ?x" using arr(2) by (cases ?x) simp
  moreover have "s' = s\<lparr>arrays := ?h, paths := (paths s)[c := (paths s ! c)\<lparr>wp_sections := ?y\<rparr>]\<rparr>"
    using assms(1) own h1x arr(2) app
    by (simp add: path_AddChild_def path_SetParent_def x Let_def flip: sections_of_def)
  ultimately show ?thesis using assms(2-4) by (simp add: path_Sections_of sections_of_def)
qed

section \<open>Parameters\<close>

text \<open>
  The getters read a parameter and keep its value when it has the type asked for; otherwise they return the zero
  value, as when there is no such parameter.
\<close>

type_synonym parameters = "string \<Rightarrow> gval option"

definition HasParameter :: "parameters \<Rightarrow> string \<Rightarrow> bool" where
  "HasParameter w key = (case w key of None \<Rightarrow> False | Some _ \<Rightarrow> True)"

definition param_as :: "(gval \<Rightarrow> 'a option) \<Rightarrow> 'a \<Rightarrow> parameters \<Rightarrow> string \<Rightarrow> 'a" where
  "param_as asserted zero w key = (case w key of
     Some val \<Rightarrow> if val \<noteq> VNil then (case asserted val of Some x \<Rightarrow> x | None \<Rightarrow> zero) else zero
   | None \<Rightarrow> zero)"

definition GetString :: "parameters \<Rightarrow> string \<Rightarrow> string" where
  "GetString = param_as (\<lambda>v. case v of VStr x \<Rightarrow> Some x | _ \<Rightarrow> None) []"

definition GetBool :: "parameters \<Rightarrow> string \<Rightarrow> bool" where
  "GetBool = param_as (\<lambda>v. case v of VBool x \<Rightarrow> Some x | _ \<Rightarrow> None) False"

definition GetInt :: "parameters \<Rightarrow> string \<Rightarrow> int" where
  "GetInt = param_as (\<lambda>v. case v of VInt x \<Rightarrow> Some x | _ \<Rightarrow> None) 0"

definition GetInt64 :: "parameters \<Rightarrow> string \<Rightarrow> int" where
  "GetInt64 = param_as (\<lambda>v. case v of VInt64 x \<Rightarrow> Some x | _ \<Rightarrow> None) 0"

definition GetUint :: "parameters \<Rightarrow> string \<Rightarrow> nat" where
  "GetUint = param_as (\<lambda>v. case v of VUint x \<Rightarrow> Some x | _ \<Rightarrow> None) 0"

definition GetUint64 :: "parameters \<Rightarrow> string \<Rightarrow> nat" where
  "GetUint64 = param_as (\<lambda>v. case v of VUint64 x \<Rightarrow> Some x | _ \<Rightarrow> None) 0"

definition GetFloat64 :: "parameters \<Rightarrow> string \<Rightarrow> nat" where
  "GetFloat64 = param_as (\<lambda>v. case v of VFloat64 x \<Rightarrow> Some x | _ \<Rightarrow> None) 0"

definition GetTime :: "parameters \<Rightarrow> string \<Rightarrow> int" where
  "GetTime = param_as (\<lambda>v. case v of VTime x \<Rightarrow> Some x | _ \<Rightarrow> None) 0"

definition GetDuration :: "parameters \<Rightarrow> string \<Rightarrow> int" where
  "GetDuration = param_as (\<lambda>v. case v of VDuration x \<Rightarrow> Some x | _ \<Rightarrow> None) 0"

definition GetStringSlice :: "parameters \<Rightarrow> string \<Rightarrow> string list" where
  "GetStringSlice = param_as (\<lambda>v. case v of VStrs x \<Rightarrow> Some x | _ \<Rightarrow> None) []"

definition GetStringMap :: "parameters \<Rightarrow> string \<Rightarrow> fields" where
  "GetStringMap = param_as (\<lambda>v. case v of VMap x \<Rightarrow> Some x | _ \<Rightarrow> None) []"

definition GetStringMapString :: "parameters \<Rightarrow> string \<Rightarrow> (string \<times> string) list" where
  "GetStringMapString = param_as (\<lambda>v. case v of VStrMap x \<Rightarrow> Some x | _ \<Rightarrow> None) []"

definition GetStringMapStringSlice :: "parameters \<Rightarrow> string \<Rightarrow> (string \<times> string list) list" where
  "GetStringMapStringSlice = param_as (\<lambda>v. case v of VStrsMap x \<Rightarrow> Some x | _ \<Rightarrow> None) []"

text \<open>An object is active unless it is asked to be not.\<close>

definition WithActive_Init :: "bool list \<Rightarrow> bool" where
  "WithActive_Init notActive = (if length notActive \<noteq> 0 then (if notActive ! 0 then False else True) else True)"

section \<open>Instances\<close>

definition no_paths :: path_state where
  "no_paths = \<lparr>arrays = [], paths = []\<rparr>"

definition demo_paths :: path_state where
  "demo_paths = the (path_AddChild (\<lambda>n. 1) 0 1
     (foldl (\<lambda>s p. snd (path_Init p [] [] s)) no_paths [''/a'', ''/b'', ''/c'', ''/d'']))"

theorem children_share_sections_witness:
  "\<exists>s1 s2. path_AddChild (\<lambda>n. 1) 1 2 demo_paths = Some s1 \<and> path_AddChild (\<lambda>n. 1) 1 3 s1 = Some s2
     \<and> path_Sections s2 2 = [[], ''a'', ''b'', ''d''] \<and> path_Sections s2 3 = [[], ''a'', ''b'', ''d'']"
proof -
  let ?s1 = "the (path_AddChild (\<lambda>n. 1) 1 2 demo_paths)"
  have "path_AddChild (\<lambda>n. 1) 1 2 demo_paths \<noteq> None" "path_AddChild (\<lambda>n. 1) 1 3 ?s1 \<noteq> None" by code_simp+
  then obtain s1 s2 where s: "path_AddChild (\<lambda>n. 1) 1 2 demo_paths = Some s1" "path_AddChild (\<lambda>n. 1) 1 3 s1 = Some s2" by auto
  have d: "path_Sections demo_paths 1 = [[], ''a'', ''b'']" "own_sections demo_paths 2 = [''c'']" "own_sections demo_paths 3 = [''d'']"
    "length (paths demo_paths) = 4" "spare (arrays demo_paths) (sections_of demo_paths 1) = 1"
    "slice_ok (arrays demo_paths) (sections_of demo_paths 1)"
    by code_simp+
  from children_share_sections [OF s _ _ _ _ d(6) _ d(2,3)] d(1,4,5) s show ?thesis by auto
qed

definition demo_root :: path_state where
  "demo_root = foldl (\<lambda>s p. snd (path_Init p [] [] s)) no_paths [''/'', ''/users'']"

theorem root_takes_path_of_child_witness:
  "\<exists>s'. path_AddChild (\<lambda>n. n) 0 1 demo_root = Some s' \<and> path_Sections s' 0 = [[], ''users'']"
proof -
  have "path_AddChild (\<lambda>n. n) 0 1 demo_root \<noteq> None" by code_simp
  then obtain s' where s: "path_AddChild (\<lambda>n. n) 0 1 demo_root = Some s'" by blast
  have "path_Sections demo_root 0 = [[], []]" "own_sections demo_root 1 = [''users'']" "length (paths demo_root) = 2"
    "slice_ok (arrays demo_root) (sections_of demo_root 0)"
    by code_simp+
  from root_takes_path_of_child [OF s _ _ _ this(4) this(1,2)] this(3) s show ?thesis by auto
qed

end
